(* ===== verification/Prelude.thy ===== *)
theory Prelude
  imports Main "HOL-Library.Word" "HOL-Library.Multiset" "HOL-Library.Char_ord"
    "HOL-Library.List_Lexorder" "HOL-Library.Product_Lexorder"
begin

text \<open>
  Shared vocabulary of the development: the type synonyms for the machine types of the Rust
  sources, the collections of rules the component theories extend, and the list operations that
  more than one component uses (the standard library's \<open>partition_point\<close>, insertion at an index,
  the last \<open>n\<close> elements) with their lemmas.

  A \<open>u64\<close> is a \<open>64 word\<close>: arithmetic wraps, which is what the release profile of the workspace
  does (\<open>src/Cargo.toml\<close> sets no overflow checks there). An \<open>i64\<close> that is only compared or
  printed is an \<open>int\<close>. A Rust string is the list of the bytes of its UTF-8 encoding.
\<close>

type_synonym u64 = "64 word"
type_synonym u32 = "32 word"
type_synonym i64 = int

text \<open>A point in time: nanoseconds since Go's zero time (0001-01-01T00:00:00Z), so that the zero
  time itself is 0. The order of \<open>DateTime<Utc>\<close> is the order of these numbers.\<close>

type_synonym gotime = int

text \<open>Its distance from the Unix epoch.\<close>

definition unix_ns :: "gotime \<Rightarrow> int" where
  "unix_ns t = t - 62135596800 * 10 ^ 9"

named_theorems parse_simps \<open>evaluation rules of the string parsers\<close>
named_theorems log_simps \<open>rules about time-ordered logs\<close>

section \<open>Partition points and insertion\<close>

text \<open>\<open>slice::partition_point\<close>: on a partitioned slice, the index of the first element that fails
  the predicate. Every call site is shown to pass a partitioned slice.\<close>

definition partition_point :: "('a \<Rightarrow> bool) \<Rightarrow> 'a list \<Rightarrow> nat" where
  "partition_point p xs = length (takeWhile p xs)"

definition partitioned :: "('a \<Rightarrow> bool) \<Rightarrow> 'a list \<Rightarrow> bool" where
  "partitioned p xs \<longleftrightarrow> list_all (\<lambda>x. \<not> p x) (dropWhile p xs)"

text \<open>\<open>Vec::insert\<close> at an index within bounds.\<close>

definition insert_at :: "nat \<Rightarrow> 'a \<Rightarrow> 'a list \<Rightarrow> 'a list" where
  "insert_at n x xs = take n xs @ x # drop n xs"

definition lastn :: "nat \<Rightarrow> 'a list \<Rightarrow> 'a list" where
  "lastn n xs = drop (length xs - n) xs"

lemma partition_point_le [simp]: "partition_point p xs \<le> length xs"
  by (simp add: partition_point_def length_takeWhile_le)

lemma take_partition_point [simp]: "take (partition_point p xs) xs = takeWhile p xs"
  by (metis partition_point_def takeWhile_eq_take)

lemma drop_partition_point [simp]: "drop (partition_point p xs) xs = dropWhile p xs"
  by (metis partition_point_def dropWhile_eq_drop)

lemma partitioned_filter:
  assumes "partitioned p xs"
  shows "filter p xs = takeWhile p xs" and "filter (\<lambda>x. \<not> p x) xs = dropWhile p xs"
proof -
  have all: "filter p (takeWhile p xs) = takeWhile p xs"
    "filter (\<lambda>x. \<not> p x) (takeWhile p xs) = []"
    by (auto simp: filter_empty_conv filter_id_conv dest: set_takeWhileD)
  have none: "filter p (dropWhile p xs) = []"
    "filter (\<lambda>x. \<not> p x) (dropWhile p xs) = dropWhile p xs"
    using assms by (auto simp: partitioned_def list_all_iff filter_empty_conv filter_id_conv)
  have "filter p xs = filter p (takeWhile p xs @ dropWhile p xs)" by simp
  then show "filter p xs = takeWhile p xs" using all(1) none(1) by (simp only: filter_append append_Nil2)
  have "filter (\<lambda>x. \<not> p x) xs = filter (\<lambda>x. \<not> p x) (takeWhile p xs @ dropWhile p xs)" by simp
  then show "filter (\<lambda>x. \<not> p x) xs = dropWhile p xs"
    using all(2) none(2) by (simp only: filter_append append_Nil)
qed

lemma partitioned_Nil [simp]: "partitioned p []"
  by (simp add: partitioned_def)

lemma partitioned_Cons [simp]:
  "partitioned p (x # xs) = (if p x then partitioned p xs else (\<forall>y \<in> set xs. \<not> p y))"
  by (simp add: partitioned_def list_all_iff)

lemma sorted_partitioned_le: "sorted (map f xs) \<Longrightarrow> partitioned (\<lambda>x. f x \<le> (c::'k::linorder)) xs"
proof (induction xs)
  case (Cons x xs)
  then show ?case by (fastforce simp: not_le intro: less_le_trans)
qed simp

lemma sorted_partitioned_less: "sorted (map f xs) \<Longrightarrow> partitioned (\<lambda>x. f x < (c::'k::linorder)) xs"
proof (induction xs)
  case (Cons x xs)
  then show ?case by (fastforce simp: not_less intro: order_trans)
qed simp

lemmas sorted_partitioned = sorted_partitioned_le sorted_partitioned_less

section \<open>Insertion after the equal keys\<close>

text \<open>Both stores of the program insert a new element behind every element whose key is not
  larger: the insertion step of a stable sort.\<close>

definition insert_by :: "('a \<Rightarrow> 'k::linorder) \<Rightarrow> 'a \<Rightarrow> 'a list \<Rightarrow> 'a list" where
  "insert_by f x xs = insert_at (partition_point (\<lambda>y. f y \<le> f x) xs) x xs"

lemma insert_by_eq:
  "insert_by f x xs = takeWhile (\<lambda>y. f y \<le> f x) xs @ x # dropWhile (\<lambda>y. f y \<le> f x) xs"
  by (simp add: insert_by_def insert_at_def)

lemma set_insert_by [simp]: "set (insert_by f x xs) = insert x (set xs)"
  unfolding insert_by_eq
  by (metis Un_insert_right list.set(2) set_append takeWhile_dropWhile_id)

lemma mset_insert_by [simp]: "mset (insert_by f x xs) = add_mset x (mset xs)"
proof -
  let ?p = "\<lambda>y. f y \<le> f x"
  have "mset (insert_by f x xs) = add_mset x (mset (takeWhile ?p xs @ dropWhile ?p xs))"
    unfolding insert_by_eq mset_append by simp
  then show ?thesis unfolding takeWhile_dropWhile_id .
qed

lemma length_insert_by [simp]: "length (insert_by f x xs) = Suc (length xs)"
  by (metis length_Cons mset.simps(2) mset_insert_by size_mset)

lemma insert_by_not_Nil [simp]: "insert_by f x xs \<noteq> []"
  by (simp add: insert_by_eq)

lemma insert_by_Cons:
  "insert_by f x (y # ys) = (if f y \<le> f x then y # insert_by f x ys else x # y # ys)"
  by (simp add: insert_by_eq)

lemma insert_by_Nil [simp]: "insert_by f x [] = [x]"
  by (simp add: insert_by_eq)

lemma sorted_insert_by: "sorted (map f xs) \<Longrightarrow> sorted (map f (insert_by f x xs))"
  by (induction xs) (auto simp: insert_by_Cons)

lemma insert_by_last: "\<forall>y \<in> set xs. f y \<le> f x \<Longrightarrow> insert_by f x xs = xs @ [x]"
  by (induction xs) (auto simp: insert_by_Cons)

text \<open>Inserting into a stably sorted list is stably sorting the extended list.\<close>

lemma insert_by_sort_key: "insert_by f x (sort_key f xs) = sort_key f (xs @ [x])"
proof (rule properties_for_sort_key [symmetric])
  show "mset (insert_by f x (sort_key f xs)) = mset (xs @ [x])" by simp
  show "sorted (map f (insert_by f x (sort_key f xs)))" by (simp add: sorted_insert_by)
  fix k
  have "filter (\<lambda>y. K = f y) (insert_by f x zs) = filter (\<lambda>y. K = f y) (zs @ [x])"
    if "sorted (map f zs)" for zs K
    using that
  proof (induction zs)
    case (Cons z zs)
    show ?case
    proof (cases "f z \<le> f x")
      case True
      with Cons show ?thesis by (auto simp: insert_by_Cons)
    next
      case False
      with Cons.prems have "K = f x \<longrightarrow> filter (\<lambda>y. K = f y) (z # zs) = []"
        by (fastforce simp: filter_empty_conv)
      with False show ?thesis by (auto simp: insert_by_Cons)
    qed
  qed simp
  moreover have "filter (\<lambda>y. f k = f y) (sort_key f xs) = filter (\<lambda>y. f k = f y) xs"
    using sort_key_stable [of f "f k" xs] by (simp add: eq_commute)
  ultimately show "filter (\<lambda>y. f k = f y) (insert_by f x (sort_key f xs)) = filter (\<lambda>y. f k = f y) (xs @ [x])"
    by simp
qed

section \<open>The last elements of a list\<close>

lemma lastn_all [simp]: "length xs \<le> n \<Longrightarrow> lastn n xs = xs"
  by (simp add: lastn_def)

lemma length_lastn [simp]: "length (lastn n xs) = min n (length xs)"
  by (auto simp: lastn_def)

lemma set_lastn: "set (lastn n xs) \<subseteq> set xs"
  by (simp add: lastn_def set_drop_subset)

lemma sorted_lastn: "sorted (map f xs) \<Longrightarrow> sorted (map f (lastn n xs))"
  by (simp add: lastn_def flip: drop_map)

lemma lastn_append: "length ys \<ge> n \<Longrightarrow> lastn n (xs @ ys) = lastn n ys"
  by (simp add: lastn_def)

lemma lastn_split: "\<exists>d. xs = d @ lastn n xs \<and> (d = [] \<or> length (lastn n xs) = n)"
  by (rule exI [of _ "take (length xs - n) xs"]) (auto simp: lastn_def)

section \<open>Filtering with a partial function\<close>

lemma map_filter_append [simp]:
  "List.map_filter f (xs @ ys) = List.map_filter f xs @ List.map_filter f ys"
  by (simp add: List.map_filter_def)

declare List.map_filter_simps [simp]

lemma set_map_filter: "set (List.map_filter f xs) = {y. \<exists>x \<in> set xs. f x = Some y}"
  by (induction xs) (auto split: option.splits)

end
