(* ===== verification/Rust_Std.thy ===== *)
theory Rust_Std
  imports Prelude
begin

text \<open>
  The string and integer functions of Rust's standard library that the sources call, on byte
  strings: \<open>str::lines\<close>, \<open>split_whitespace\<close>, \<open>split_once\<close>, \<open>split\<close>, \<open>trim\<close>, \<open>strip_prefix\<close>,
  \<open>parse\<close> for unsigned and signed integers, \<open>from_str_radix(_, 16)\<close> and the decimal formatting of
  \<open>Display\<close>. White space is the ASCII white space; the files and headers the program splits are
  ASCII. The lemmas are the evaluation rules of these functions on well-formed pieces and the
  decimal round trip.
\<close>

section \<open>Characters\<close>

definition code :: "char \<Rightarrow> nat" where
  "code c = of_char c"

definition is_ws :: "char \<Rightarrow> bool" where
  "is_ws c \<longleftrightarrow> c = CHR '' '' \<or> (9 \<le> code c \<and> code c \<le> 13)"

definition nl :: char where
  "nl = CHR 0x0A"

definition is_digit :: "char \<Rightarrow> bool" where
  "is_digit c \<longleftrightarrow> 48 \<le> code c \<and> code c \<le> 57"

definition is_ascii_lowercase :: "char \<Rightarrow> bool" where
  "is_ascii_lowercase c \<longleftrightarrow> 97 \<le> code c \<and> code c \<le> 122"

definition is_ascii_uppercase :: "char \<Rightarrow> bool" where
  "is_ascii_uppercase c \<longleftrightarrow> 65 \<le> code c \<and> code c \<le> 90"

definition is_ascii_alphanumeric :: "char \<Rightarrow> bool" where
  "is_ascii_alphanumeric c \<longleftrightarrow> is_digit c \<or> is_ascii_lowercase c \<or> is_ascii_uppercase c"

definition to_ascii_lowercase :: "string \<Rightarrow> string" where
  "to_ascii_lowercase s = map (\<lambda>c. if is_ascii_uppercase c then char_of (code c + 32) else c) s"

definition is_continuation :: "char \<Rightarrow> bool" where
  "is_continuation c \<longleftrightarrow> 128 \<le> code c \<and> code c < 192"

definition digit_char :: "nat \<Rightarrow> char" where
  "digit_char n = char_of (48 + n)"

lemma code_char_of: "n < 256 \<Longrightarrow> code (char_of n) = n"
  by (simp add: code_def of_char_of)

lemma code_less [simp]: "code c < 256"
  unfolding code_def by (metis mod_less_divisor of_char_mod_256 zero_less_numeral)

lemma code_inject [simp]: "code c = code d \<longleftrightarrow> c = d"
  by (simp add: code_def)

lemma char_of_code [simp]: "char_of (code c) = c"
  by (simp add: code_def)

lemma code_digit_char: "n < 10 \<Longrightarrow> code (digit_char n) = 48 + n"
  by (simp add: digit_char_def code_char_of)

lemma is_digit_digit_char [simp]: "n < 10 \<Longrightarrow> is_digit (digit_char n)"
  by (simp add: is_digit_def code_digit_char)

lemma digit_not_ws: "is_digit c \<Longrightarrow> \<not> is_ws c"
  by (auto simp: is_digit_def is_ws_def code_def)

lemma digit_not_sign: "is_digit c \<Longrightarrow> c \<noteq> CHR ''+'' \<and> c \<noteq> CHR ''-'' \<and> c \<noteq> nl"
  by (auto simp: is_digit_def code_def nl_def)

lemma nl_is_ws [simp]: "is_ws nl"
  by (simp add: is_ws_def nl_def code_def)

lemma space_is_ws [simp]: "is_ws CHR '' ''"
  by (simp add: is_ws_def)

section \<open>Prefixes and suffixes\<close>

definition starts_with :: "string \<Rightarrow> string \<Rightarrow> bool" where
  "starts_with s p \<longleftrightarrow> take (length p) s = p"

definition strip_prefix :: "string \<Rightarrow> string \<Rightarrow> string option" where
  "strip_prefix p s = (if starts_with s p then Some (drop (length p) s) else None)"

definition ends_with :: "string \<Rightarrow> string \<Rightarrow> bool" where
  "ends_with s p \<longleftrightarrow> starts_with (rev s) (rev p)"

definition strip_suffix :: "string \<Rightarrow> string \<Rightarrow> string option" where
  "strip_suffix p s = (if ends_with s p then Some (take (length s - length p) s) else None)"

lemma starts_with_iff: "starts_with s p \<longleftrightarrow> (\<exists>r. s = p @ r)"
  unfolding starts_with_def by (metis append_eq_conv_conj append_take_drop_id)

lemma starts_with_append [simp]: "starts_with (p @ r) p"
  by (simp add: starts_with_def)

lemma starts_with_refl [simp]: "starts_with s s"
  by (simp add: starts_with_def)

lemma strip_prefix_append [simp]: "strip_prefix p (p @ r) = Some r"
  by (simp add: strip_prefix_def)

lemma strip_prefix_Some: "strip_prefix p s = Some r \<longleftrightarrow> s = p @ r"
  by (auto simp: strip_prefix_def starts_with_iff)

lemma ends_with_iff: "ends_with s p \<longleftrightarrow> (\<exists>r. s = r @ p)"
  unfolding ends_with_def starts_with_iff by (metis rev_append rev_rev_ident)

lemma strip_suffix_Some: "strip_suffix p s = Some r \<longleftrightarrow> s = r @ p"
  by (auto simp: strip_suffix_def ends_with_iff)

section \<open>Splitting\<close>

text \<open>\<open>str::split_once\<close> at the first occurrence of a character or of a string.\<close>

fun split_once :: "char \<Rightarrow> string \<Rightarrow> (string \<times> string) option" where
  "split_once d [] = None"
| "split_once d (c # s) =
     (if c = d then Some ([], s) else map_option (\<lambda>(a, b). (c # a, b)) (split_once d s))"

fun split_once_str :: "string \<Rightarrow> string \<Rightarrow> (string \<times> string) option" where
  "split_once_str p s =
     (case strip_prefix p s of
        Some r \<Rightarrow> Some ([], r)
      | None \<Rightarrow> (case s of [] \<Rightarrow> None
                 | c # s' \<Rightarrow> map_option (\<lambda>(a, b). (c # a, b)) (split_once_str p s')))"

declare split_once_str.simps [simp del]

text \<open>\<open>str::split\<close> at a character: always at least one piece.\<close>

fun split_char :: "char \<Rightarrow> string \<Rightarrow> string list" where
  "split_char d [] = [[]]"
| "split_char d (c # s) =
     (if c = d then [] # split_char d s
      else (case split_char d s of p # ps \<Rightarrow> (c # p) # ps | [] \<Rightarrow> [[c]]))"

text \<open>\<open>str::splitn\<close>: at most \<open>n\<close> pieces, the last one unsplit.\<close>

fun splitn :: "nat \<Rightarrow> char \<Rightarrow> string \<Rightarrow> string list" where
  "splitn 0 d s = []"
| "splitn (Suc 0) d s = [s]"
| "splitn (Suc (Suc n)) d s =
     (case split_once d s of Some (a, b) \<Rightarrow> a # splitn (Suc n) d b | None \<Rightarrow> [s])"

text \<open>\<open>str::split_whitespace\<close>: the maximal runs of non-blank characters.\<close>

fun words_from :: "string \<Rightarrow> string \<Rightarrow> string list" where
  "words_from cur [] = (if cur = [] then [] else [rev cur])"
| "words_from cur (c # s) =
     (if is_ws c then (if cur = [] then words_from [] s else rev cur # words_from [] s)
      else words_from (c # cur) s)"

definition split_whitespace :: "string \<Rightarrow> string list" where
  "split_whitespace s = words_from [] s"

text \<open>\<open>str::lines\<close>: split after each line feed, a carriage return before it removed; a last line
  without a line feed keeps its carriage return.\<close>

definition strip_cr :: "string \<Rightarrow> string" where
  "strip_cr l = (if l \<noteq> [] \<and> last l = CHR 0x0D then butlast l else l)"

fun lines_from :: "string \<Rightarrow> string \<Rightarrow> string list" where
  "lines_from cur [] = (if cur = [] then [] else [rev cur])"
| "lines_from cur (c # s) =
     (if c = nl then strip_cr (rev cur) # lines_from [] s else lines_from (c # cur) s)"

definition lines :: "string \<Rightarrow> string list" where
  "lines s = lines_from [] s"

definition trim_start :: "string \<Rightarrow> string" where
  "trim_start s = dropWhile is_ws s"

definition trim_end :: "string \<Rightarrow> string" where
  "trim_end s = rev (dropWhile is_ws (rev s))"

definition trim :: "string \<Rightarrow> string" where
  "trim s = trim_end (trim_start s)"

text \<open>\<open>trim_end_matches\<close> and \<open>trim_start_matches\<close> with one character.\<close>

definition trim_end_char :: "char \<Rightarrow> string \<Rightarrow> string" where
  "trim_end_char c s = rev (dropWhile (\<lambda>x. x = c) (rev s))"

definition trim_start_char :: "char \<Rightarrow> string \<Rightarrow> string" where
  "trim_start_char c s = dropWhile (\<lambda>x. x = c) s"

lemma split_once_append [parse_simps]: "d \<notin> set a \<Longrightarrow> split_once d (a @ d # b) = Some (a, b)"
  by (induction a) auto

lemma split_once_None: "split_once d s = None \<longleftrightarrow> d \<notin> set s"
  by (induction s) auto

lemma split_once_Some: "split_once d s = Some (a, b) \<longleftrightarrow> s = a @ d # b \<and> d \<notin> set a"
proof
  show "split_once d s = Some (a, b) \<Longrightarrow> s = a @ d # b \<and> d \<notin> set a"
  proof (induction s arbitrary: a b)
    case (Cons c s)
    then show ?case by (cases "split_once d s") (auto split: if_splits)
  qed simp
qed (simp add: split_once_append)

lemma split_char_not_Nil [simp]: "split_char d s \<noteq> []"
  by (induction s) (auto split: list.splits)

lemma split_char_plain: "d \<notin> set s \<Longrightarrow> split_char d s = [s]"
  by (induction s) auto

lemma split_char_append: "d \<notin> set a \<Longrightarrow> split_char d (a @ d # b) = a # split_char d b"
  by (induction a) auto

lemma split_char_pieces: "p \<in> set (split_char d s) \<Longrightarrow> d \<notin> set p"
proof (induction s arbitrary: p)
  case (Cons c s)
  then show ?case by (cases "split_char d s") (auto split: if_splits)
qed simp

lemma words_from_run: "\<forall>c \<in> set w. \<not> is_ws c \<Longrightarrow> words_from cur (w @ s) = words_from (rev w @ cur) s"
  by (induction w arbitrary: cur) auto

lemma split_whitespace_Nil [simp]: "split_whitespace [] = []"
  by (simp add: split_whitespace_def)

lemma split_whitespace_blank [simp]: "is_ws c \<Longrightarrow> split_whitespace (c # s) = split_whitespace s"
  by (simp add: split_whitespace_def)

lemma split_whitespace_word [parse_simps]:
  "w \<noteq> [] \<Longrightarrow> \<forall>c \<in> set w. \<not> is_ws c \<Longrightarrow> is_ws d \<Longrightarrow>
     split_whitespace (w @ d # s) = w # split_whitespace s"
  by (simp add: split_whitespace_def words_from_run)

lemma split_whitespace_last [parse_simps]:
  "w \<noteq> [] \<Longrightarrow> \<forall>c \<in> set w. \<not> is_ws c \<Longrightarrow> split_whitespace w = [w]"
  using words_from_run [of w "[]" "[]"] by (simp add: split_whitespace_def)

lemma words_from_words:
  "w \<in> set (words_from cur s) \<Longrightarrow> \<forall>c \<in> set cur. \<not> is_ws c \<Longrightarrow> w \<noteq> [] \<and> (\<forall>c \<in> set w. \<not> is_ws c)"
proof (induction cur s rule: words_from.induct)
  case (1 cur)
  then show ?case by (auto split: if_splits)
next
  case (2 cur c s)
  show ?case
  proof (cases "is_ws c")
    case True
    show ?thesis
    proof (cases "cur = []")
      case e: True
      have "w \<in> set (words_from [] s)" using "2.prems"(1) True e by simp
      then show ?thesis using "2.IH"(1) [OF True e] by simp
    next
      case False
      with "2.prems"(1) True consider "w = rev cur" | "w \<in> set (words_from [] s)" by auto
      then show ?thesis
      proof cases
        case 1
        with False "2.prems"(2) show ?thesis by simp
      next
        case 2
        then show ?thesis using "2.IH"(2) [OF True False] by simp
      qed
    qed
  next
    case False
    have "w \<in> set (words_from (c # cur) s)" using "2.prems"(1) False by simp
    moreover have "\<forall>c \<in> set (c # cur). \<not> is_ws c" using "2.prems"(2) False by simp
    ultimately show ?thesis by (rule "2.IH"(3) [OF False])
  qed
qed

lemma split_whitespace_words:
  "w \<in> set (split_whitespace s) \<Longrightarrow> w \<noteq> [] \<and> (\<forall>c \<in> set w. \<not> is_ws c)"
  using words_from_words [of w "[]" s] by (simp add: split_whitespace_def)

lemma lines_from_run: "nl \<notin> set l \<Longrightarrow> lines_from cur (l @ s) = lines_from (rev l @ cur) s"
  by (induction l arbitrary: cur) auto

lemma lines_Nil [simp]: "lines [] = []"
  by (simp add: lines_def)

lemma lines_cons: "nl \<notin> set l \<Longrightarrow> lines (l @ nl # s) = strip_cr l # lines s"
  by (simp add: lines_def lines_from_run)

lemma strip_cr_id: "CHR 0x0D \<notin> set l \<Longrightarrow> strip_cr l = l"
  unfolding strip_cr_def using last_in_set by fastforce

lemma lines_plain [parse_simps]:
  "nl \<notin> set l \<Longrightarrow> CHR 0x0D \<notin> set l \<Longrightarrow> lines (l @ nl # s) = l # lines s"
  by (simp add: lines_cons strip_cr_id)

lemma lines_last: "nl \<notin> set l \<Longrightarrow> l \<noteq> [] \<Longrightarrow> lines l = [l]"
  using lines_from_run [of l "[]" "[]"] by (simp add: lines_def)

lemma lines_from_no_nl: "l \<in> set (lines_from cur s) \<Longrightarrow> nl \<notin> set cur \<Longrightarrow> nl \<notin> set l"
proof (induction cur s rule: lines_from.induct)
  case (1 cur)
  then show ?case by (auto split: if_splits)
next
  case (2 cur c s)
  have "nl \<notin> set (strip_cr (rev cur))"
    using "2.prems"(2) in_set_butlastD [of nl "rev cur"] by (auto simp: strip_cr_def)
  then show ?case using 2 by (auto split: if_splits)
qed

lemma lines_no_nl: "l \<in> set (lines s) \<Longrightarrow> nl \<notin> set l"
  using lines_from_no_nl [of l "[]" s] by (simp add: lines_def)

lemma trim_no_ws: "\<forall>c \<in> set s. \<not> is_ws c \<Longrightarrow> trim s = s"
proof -
  assume h: "\<forall>c \<in> set s. \<not> is_ws c"
  have "dropWhile is_ws s = s" using h by (cases s) auto
  moreover have "dropWhile is_ws (rev s) = rev s" using h by (cases "rev s") (auto simp: rev_eq_Cons_iff)
  ultimately show ?thesis by (simp add: trim_def trim_start_def trim_end_def)
qed

section \<open>Integers in decimal\<close>

text \<open>The value of a string of decimal digits, \<open>None\<close> if it has another character.\<close>

fun digits_val :: "nat \<Rightarrow> string \<Rightarrow> nat option" where
  "digits_val acc [] = Some acc"
| "digits_val acc (c # s) =
     (if is_digit c then digits_val (10 * acc + (code c - 48)) s else None)"

text \<open>\<open>from_str\<close> of an unsigned type with largest value \<open>mx\<close>: an optional plus sign, at least one
  digit, and no overflow.\<close>

definition unsigned_digits :: "string \<Rightarrow> string" where
  "unsigned_digits s = (case s of c # r \<Rightarrow> if c = CHR ''+'' then r else s | [] \<Rightarrow> [])"

definition parse_unsigned :: "nat \<Rightarrow> string \<Rightarrow> nat option" where
  "parse_unsigned mx s =
     (let d = unsigned_digits s in
      if d = [] then None
      else (case digits_val 0 d of Some v \<Rightarrow> if v \<le> mx then Some v else None | None \<Rightarrow> None))"

definition u64_max :: nat where
  "u64_max = 2 ^ 64 - 1"

definition parse_u64 :: "string \<Rightarrow> u64 option" where
  "parse_u64 s = map_option of_nat (parse_unsigned u64_max s)"

definition parse_u32 :: "string \<Rightarrow> u32 option" where
  "parse_u32 s = map_option of_nat (parse_unsigned (2 ^ 32 - 1) s)"

text \<open>\<open>i64::from_str\<close>: an optional sign.\<close>

definition parse_i64 :: "string \<Rightarrow> i64 option" where
  "parse_i64 s =
     (case s of
        c # r \<Rightarrow>
          if c = CHR ''-'' then
            (if r = [] then None
             else (case digits_val 0 r of
                     Some v \<Rightarrow> if v \<le> 2 ^ 63 then Some (- int v) else None | None \<Rightarrow> None))
          else map_option int (parse_unsigned (2 ^ 63 - 1) s)
      | [] \<Rightarrow> None)"

definition hex_digit_val :: "char \<Rightarrow> nat option" where
  "hex_digit_val c =
     (if is_digit c then Some (code c - 48)
      else if 97 \<le> code c \<and> code c \<le> 102 then Some (code c - 87)
      else if 65 \<le> code c \<and> code c \<le> 70 then Some (code c - 55)
      else None)"

fun hex_val :: "nat \<Rightarrow> string \<Rightarrow> nat option" where
  "hex_val acc [] = Some acc"
| "hex_val acc (c # s) =
     (case hex_digit_val c of Some d \<Rightarrow> hex_val (16 * acc + d) s | None \<Rightarrow> None)"

definition parse_hex :: "nat \<Rightarrow> string \<Rightarrow> nat option" where
  "parse_hex mx s =
     (let d = unsigned_digits s in
      if d = [] then None
      else (case hex_val 0 d of Some v \<Rightarrow> if v \<le> mx then Some v else None | None \<Rightarrow> None))"

text \<open>\<open>Display\<close> of an unsigned integer.\<close>

fun dec :: "nat \<Rightarrow> string" where
  "dec n = (if n < 10 then [digit_char n] else dec (n div 10) @ [digit_char (n mod 10)])"

declare dec.simps [simp del]

lemma dec_digits: "\<forall>c \<in> set (dec n). is_digit c"
proof (induction n rule: dec.induct)
  case (1 n)
  then show ?case by (subst dec.simps) auto
qed

lemma dec_not_Nil [simp]: "dec n \<noteq> []"
  by (subst dec.simps) simp

lemma dec_no_ws: "\<forall>c \<in> set (dec n). \<not> is_ws c"
  using dec_digits digit_not_ws by blast

lemma dec_no_nl: "nl \<notin> set (dec n)"
  using dec_no_ws nl_is_ws by blast

lemma digits_val_append:
  "digits_val acc (s @ t) = (case digits_val acc s of Some v \<Rightarrow> digits_val v t | None \<Rightarrow> None)"
  by (induction s arbitrary: acc) auto

lemma digits_val_dec: "digits_val 0 (dec n) = Some n"
proof (induction n rule: dec.induct)
  case (1 n)
  show ?case
  proof (cases "n < 10")
    case True
    then show ?thesis by (subst dec.simps) (simp add: code_digit_char)
  next
    case False
    then show ?thesis using 1 by (subst dec.simps) (simp add: digits_val_append code_digit_char)
  qed
qed

lemma digits_val_zeros: "digits_val acc (replicate k CHR ''0'') = Some (acc * 10 ^ k)"
proof (induction k arbitrary: acc)
  case (Suc k)
  have "is_digit CHR ''0''" "code CHR ''0'' = 48" by (simp_all add: is_digit_def code_def)
  then show ?case using Suc by (simp add: mult.assoc mult.left_commute)
qed simp

lemma digits_val_Some_digits: "digits_val acc s = Some v \<Longrightarrow> \<forall>c \<in> set s. is_digit c"
  by (induction s arbitrary: acc) (auto split: if_splits)

lemma unsigned_digits_dec [simp]: "unsigned_digits (dec n) = dec n"
proof (cases "dec n")
  case (Cons c r)
  then have "is_digit c" using dec_digits [of n] by simp
  then show ?thesis using Cons digit_not_sign by (simp add: unsigned_digits_def)
qed simp

lemma parse_unsigned_dec [parse_simps]: "n \<le> mx \<Longrightarrow> parse_unsigned mx (dec n) = Some n"
  by (simp add: parse_unsigned_def digits_val_dec)

lemma parse_i64_dec: "n \<le> 2 ^ 63 - 1 \<Longrightarrow> parse_i64 (dec n) = Some (int n)"
proof (cases "dec n")
  case (Cons c r)
  then have "c \<noteq> CHR ''-''" using dec_digits [of n] digit_not_sign [of c] by simp
  then have "parse_i64 (dec n) = map_option int (parse_unsigned (2 ^ 63 - 1) (dec n))"
    by (simp add: parse_i64_def Cons)
  then show "n \<le> 2 ^ 63 - 1 \<Longrightarrow> parse_i64 (dec n) = Some (int n)" by (simp only: parse_unsigned_dec option.map)
qed simp

lemma parse_unsigned_bound: "parse_unsigned mx s = Some v \<Longrightarrow> v \<le> mx"
  by (auto simp: parse_unsigned_def Let_def split: if_splits option.splits)

lemma unat_le_u64_max: "unat (v :: u64) \<le> u64_max"
proof -
  have "unat v < 2 ^ LENGTH(64)" by (rule unsigned_less)
  then show ?thesis by (simp add: u64_max_def)
qed

lemma parse_u64_dec [parse_simps]: "parse_u64 (dec (unat v)) = Some v"
  by (simp add: parse_u64_def parse_unsigned_dec [OF unat_le_u64_max])

lemma dec_inject: "dec m = dec n \<longleftrightarrow> m = n"
  by (metis digits_val_dec option.inject)

end
