(* ===== verification/F64.thy ===== *)
theory F64
  imports Rust_Std "HOL-Library.Log_Nat"
begin

text \<open>
  The \<open>f64\<close> arithmetic of the sources: IEEE 754 double precision with rounding to nearest, ties to
  even. A finite value is the rational number it denotes (the two zeros are one value here; the
  program never divides by a zero whose sign it relies on), beside the infinities and NaN.
  \<open>rnd53\<close> is the rounding itself, executable; the locale \<open>f64_rounding\<close> states the laws of it
  that the components rely on, and is interpreted on \<open>rnd53\<close> below.
\<close>

datatype f64 = Fin rat | PInf | NInf | NaN

section \<open>Rounding to 53 significant bits\<close>

definition round_even :: "rat \<Rightarrow> int" where
  "round_even q =
     (let f = \<lfloor>q\<rfloor>; r = q - of_int f in
      if r < 1 / 2 then f else if 1 / 2 < r then f + 1 else if even f then f else f + 1)"

text \<open>The binary exponent of a positive rational: \<open>2 powi ilog2 q \<le> q < 2 powi (ilog2 q + 1)\<close>.\<close>

definition ilog2 :: "rat \<Rightarrow> int" where
  "ilog2 q =
     (let (n, d) = quotient_of q;
          k = int (floorlog 2 (nat n)) - int (floorlog 2 (nat d)) in
      if 2 powi k \<le> q then k else k - 1)"

definition ulp_exp :: "rat \<Rightarrow> int" where
  "ulp_exp q = max (ilog2 q - 52) (- 1074)"

definition rnd_pos :: "rat \<Rightarrow> rat" where
  "rnd_pos q = (let u = 2 powi ulp_exp q in of_int (round_even (q / u)) * u)"

definition rnd53 :: "rat \<Rightarrow> rat" where
  "rnd53 q = (if q = 0 then 0 else if q < 0 then - rnd_pos (- q) else rnd_pos q)"

definition f64_of_rat :: "rat \<Rightarrow> f64" where
  "f64_of_rat q =
     (let r = rnd53 q in if 2 ^ 1024 \<le> r then PInf else if r \<le> - (2 ^ 1024) then NInf else Fin r)"

text \<open>\<open>n as f64\<close> for the integer types, and the operations the sources use.\<close>

definition f64_of_int :: "int \<Rightarrow> f64" where
  "f64_of_int n = f64_of_rat (of_int n)"

definition f64_of_u64 :: "u64 \<Rightarrow> f64" where
  "f64_of_u64 v = f64_of_int (int (unat v))"

fun f64_neg :: "f64 \<Rightarrow> f64" where
  "f64_neg (Fin q) = Fin (- q)"
| "f64_neg PInf = NInf"
| "f64_neg NInf = PInf"
| "f64_neg NaN = NaN"

fun f64_add :: "f64 \<Rightarrow> f64 \<Rightarrow> f64" where
  "f64_add (Fin a) (Fin b) = f64_of_rat (a + b)"
| "f64_add NaN _ = NaN"
| "f64_add _ NaN = NaN"
| "f64_add PInf NInf = NaN"
| "f64_add NInf PInf = NaN"
| "f64_add PInf _ = PInf"
| "f64_add _ PInf = PInf"
| "f64_add NInf _ = NInf"
| "f64_add _ NInf = NInf"

definition f64_signed_inf :: "rat \<Rightarrow> f64" where
  "f64_signed_inf s = (if s = 0 then NaN else if 0 < s then PInf else NInf)"

fun f64_sign :: "f64 \<Rightarrow> rat" where
  "f64_sign (Fin q) = sgn q"
| "f64_sign PInf = 1"
| "f64_sign NInf = - 1"
| "f64_sign NaN = 0"

definition f64_mul :: "f64 \<Rightarrow> f64 \<Rightarrow> f64" where
  "f64_mul a b =
     (case (a, b) of
        (NaN, _) \<Rightarrow> NaN
      | (_, NaN) \<Rightarrow> NaN
      | (Fin x, Fin y) \<Rightarrow> f64_of_rat (x * y)
      | _ \<Rightarrow> f64_signed_inf (f64_sign a * f64_sign b))"

definition f64_div :: "f64 \<Rightarrow> f64 \<Rightarrow> f64" where
  "f64_div a b =
     (case (a, b) of
        (NaN, _) \<Rightarrow> NaN
      | (_, NaN) \<Rightarrow> NaN
      | (Fin x, Fin y) \<Rightarrow> if y = 0 then f64_signed_inf (sgn x) else f64_of_rat (x / y)
      | (Fin _, _) \<Rightarrow> Fin 0
      | (_, Fin y) \<Rightarrow> f64_signed_inf (f64_sign a * (if y < 0 then - 1 else 1))
      | _ \<Rightarrow> NaN)"

text \<open>\<open>v as u64\<close>: truncation towards zero, saturating, NaN to 0.\<close>

fun f64_to_u64 :: "f64 \<Rightarrow> u64" where
  "f64_to_u64 (Fin q) = (if q \<le> 0 then 0 else of_nat (min (nat \<lfloor>q\<rfloor>) u64_max))"
| "f64_to_u64 PInf = of_nat u64_max"
| "f64_to_u64 NInf = 0"
| "f64_to_u64 NaN = 0"

section \<open>Laws of the rounding\<close>

lemma round_even_bounds: "\<bar>of_int (round_even q) - q\<bar> \<le> 1 / 2"
proof -
  have "of_int \<lfloor>q\<rfloor> \<le> q" "q < of_int \<lfloor>q\<rfloor> + 1" by linarith+
  then show ?thesis by (auto simp: round_even_def Let_def abs_le_iff)
qed

lemma round_even_of_int [simp]: "round_even (of_int n) = n"
  by (simp add: round_even_def)

lemma round_even_mono: "q \<le> r \<Longrightarrow> round_even q \<le> round_even r"
proof -
  assume le: "q \<le> r"
  have fl: "\<lfloor>q\<rfloor> \<le> \<lfloor>r\<rfloor>" using le by (rule floor_mono)
  have up: "round_even x \<le> \<lfloor>x\<rfloor> + 1" and lo: "\<lfloor>x\<rfloor> \<le> round_even x" for x :: rat
    by (auto simp: round_even_def Let_def)
  show ?thesis
  proof (cases "\<lfloor>q\<rfloor> = \<lfloor>r\<rfloor>")
    case True
    then show ?thesis using le by (auto simp: round_even_def Let_def)
  next
    case False
    then show ?thesis using fl up [of q] lo [of r] by linarith
  qed
qed

lemma floorlog2_bounds: "0 < n \<Longrightarrow> 2 ^ (floorlog 2 n - 1) \<le> n \<and> n < 2 ^ floorlog 2 n \<and> 0 < floorlog 2 n"
  using floorlog_bounds [of n 2] by (simp add: floorlog_def)

lemma ilog2_bounds:
  assumes "0 < q"
  shows "2 powi ilog2 q \<le> q" and "q < 2 powi (ilog2 q + 1)"
proof -
  obtain n d where nd: "quotient_of q = (n, d)" by fastforce
  have d: "0 < d" using quotient_of_denom_pos [OF nd] .
  have q: "q = of_int n / of_int d" using quotient_of_div [OF nd] .
  have n: "0 < n" using assms d unfolding q by (simp add: zero_less_divide_iff)
  define a where "a = floorlog 2 (nat n)"
  define b where "b = floorlog 2 (nat d)"
  define k where "k = int a - int b"
  have na: "2 ^ (a - 1) \<le> nat n" "nat n < 2 ^ a" "0 < a"
    using floorlog2_bounds [of "nat n"] n by (auto simp: a_def)
  have db: "2 ^ (b - 1) \<le> nat d" "nat d < 2 ^ b" "0 < b"
    using floorlog2_bounds [of "nat d"] d by (auto simp: b_def)
  have nr: "(2 :: rat) powi (int a - 1) \<le> of_int n" "(of_int n :: rat) < 2 powi int a"
  proof -
    have "of_nat (2 ^ (a - 1)) \<le> (of_nat (nat n) :: rat)" using na(1) by (simp only: of_nat_le_iff)
    then show "(2 :: rat) powi (int a - 1) \<le> of_int n"
      using n na(3) by (simp add: power_int_def nat_diff_distrib)
    have "(of_nat (nat n) :: rat) < of_nat (2 ^ a)" using na(2) by (simp only: of_nat_less_iff)
    then show "(of_int n :: rat) < 2 powi int a" using n by (simp add: power_int_def)
  qed
  have dr: "(2 :: rat) powi (int b - 1) \<le> of_int d" "(of_int d :: rat) < 2 powi int b"
  proof -
    have "of_nat (2 ^ (b - 1)) \<le> (of_nat (nat d) :: rat)" using db(1) by (simp only: of_nat_le_iff)
    then show "(2 :: rat) powi (int b - 1) \<le> of_int d"
      using d db(3) by (simp add: power_int_def nat_diff_distrib)
    have "(of_nat (nat d) :: rat) < of_nat (2 ^ b)" using db(2) by (simp only: of_nat_less_iff)
    then show "(of_int d :: rat) < 2 powi int b" using d by (simp add: power_int_def)
  qed
  have dpos: "(0 :: rat) < of_int d" using d by simp
  have hi: "q < 2 powi (k + 1)"
  proof -
    have "(2 :: rat) powi int a = 2 powi (k + 1) * 2 powi (int b - 1)"
      by (simp add: k_def flip: power_int_add)
    also have "\<dots> \<le> 2 powi (k + 1) * of_int d"
      using dr(1) by (intro mult_left_mono) auto
    finally have "of_int n < 2 powi (k + 1) * (of_int d :: rat)" using nr(2) by linarith
    then show ?thesis using dpos by (simp add: q divide_less_eq)
  qed
  have lo: "2 powi (k - 1) \<le> q"
  proof -
    have "2 powi (k - 1) * (of_int d :: rat) \<le> 2 powi (k - 1) * 2 powi int b"
      using dr(2) by (intro mult_left_mono) auto
    also have "\<dots> = 2 powi (k - 1 + int b)" by (rule power_int_add [symmetric]) simp
    also have "k - 1 + int b = int a - 1" by (simp add: k_def)
    finally show ?thesis using dpos nr(1) by (simp add: q le_divide_eq)
  qed
  have "ilog2 q = (if 2 powi k \<le> q then k else k - 1)"
    by (simp add: ilog2_def nd a_def b_def k_def)
  then show "2 powi ilog2 q \<le> q" and "q < 2 powi (ilog2 q + 1)" using hi lo by (auto split: if_splits)
qed

lemma powi2_mono: "a \<le> b \<Longrightarrow> (2 :: rat) powi a \<le> 2 powi b"
  by (simp add: power_int_increasing)

lemma powi2_less: "(2 :: rat) powi a < 2 powi b \<Longrightarrow> a < b"
  using powi2_mono [of b a] by linarith

lemma ilog2_mono:
  assumes "0 < q" "q \<le> r"
  shows "ilog2 q \<le> ilog2 r"
proof -
  have "(2 :: rat) powi ilog2 q < 2 powi (ilog2 r + 1)"
    using ilog2_bounds(1) [of q] ilog2_bounds(2) [of r] assms by linarith
  from powi2_less [OF this] show ?thesis by simp
qed

text \<open>The exponent of the unit in the last place is monotone, and a boundary \<open>2 powi m\<close> that lies
  above the unit is a multiple of it, so rounding never crosses a boundary.\<close>

lemma ulp_exp_mono: "0 < q \<Longrightarrow> q \<le> r \<Longrightarrow> ulp_exp q \<le> ulp_exp r"
  using ilog2_mono [of q r] by (simp add: ulp_exp_def)

lemma rnd_pos_le_boundary:
  assumes "0 < q" "ulp_exp q \<le> m" "q \<le> of_int c * 2 powi m"
  shows "rnd_pos q \<le> of_int c * 2 powi m"
proof -
  define u where "u = (2 :: rat) powi ulp_exp q"
  have u: "0 < u" by (simp add: u_def)
  have m: "(2 :: rat) powi m = of_int (2 ^ nat (m - ulp_exp q)) * u"
  proof -
    have "(2 :: rat) powi m = 2 powi (m - ulp_exp q) * 2 powi ulp_exp q"
      by (simp flip: power_int_add)
    also have "(2 :: rat) powi (m - ulp_exp q) = 2 ^ nat (m - ulp_exp q)"
      using assms(2) by (simp add: power_int_def)
    finally show ?thesis by (simp add: u_def)
  qed
  define z where "z = c * 2 ^ nat (m - ulp_exp q)"
  have eq: "of_int c * 2 powi m = of_int z * u" by (simp add: z_def m)
  have "q / u \<le> of_int z" using assms(3) u by (simp add: eq divide_le_eq)
  from round_even_mono [OF this] have "round_even (q / u) \<le> z" by simp
  then have "of_int (round_even (q / u)) * u \<le> of_int z * u" using u by simp
  then show ?thesis by (simp add: rnd_pos_def Let_def eq flip: u_def)
qed

lemma rnd_pos_ge_boundary:
  assumes "0 < q" "ulp_exp q \<le> m" "of_int c * 2 powi m \<le> q"
  shows "of_int c * 2 powi m \<le> rnd_pos q"
proof -
  define u where "u = (2 :: rat) powi ulp_exp q"
  have u: "0 < u" by (simp add: u_def)
  have m: "(2 :: rat) powi m = of_int (2 ^ nat (m - ulp_exp q)) * u"
  proof -
    have "(2 :: rat) powi m = 2 powi (m - ulp_exp q) * 2 powi ulp_exp q"
      by (simp flip: power_int_add)
    also have "(2 :: rat) powi (m - ulp_exp q) = 2 ^ nat (m - ulp_exp q)"
      using assms(2) by (simp add: power_int_def)
    finally show ?thesis by (simp add: u_def)
  qed
  define z where "z = c * 2 ^ nat (m - ulp_exp q)"
  have eq: "of_int c * 2 powi m = of_int z * u" by (simp add: z_def m)
  have "of_int z \<le> q / u" using assms(3) u by (simp add: eq le_divide_eq)
  from round_even_mono [OF this] have "z \<le> round_even (q / u)" by simp
  then have "of_int z * u \<le> of_int (round_even (q / u)) * u" using u by simp
  then show ?thesis by (simp add: rnd_pos_def Let_def eq flip: u_def)
qed

lemma rnd_pos_nonneg: "0 < q \<Longrightarrow> 0 \<le> rnd_pos q"
  using rnd_pos_ge_boundary [of q "ulp_exp q" 0] by simp

lemma rnd_pos_mono:
  assumes "0 < q" "q \<le> r"
  shows "rnd_pos q \<le> rnd_pos r"
proof (cases "ulp_exp q = ulp_exp r")
  case True
  have "round_even (q / 2 powi ulp_exp r) \<le> round_even (r / 2 powi ulp_exp r)"
    using assms(2) by (intro round_even_mono divide_right_mono) auto
  then show ?thesis by (simp add: rnd_pos_def Let_def True mult_right_mono)
next
  case False
  with ulp_exp_mono [OF assms] have lt: "ulp_exp q < ulp_exp r" by simp
  then have r: "ulp_exp r = ilog2 r - 52" and lo: "ilog2 q + 1 \<le> ilog2 r"
    by (auto simp: ulp_exp_def max_def split: if_splits)
  have "rnd_pos q \<le> of_int 1 * 2 powi ilog2 r"
  proof (rule rnd_pos_le_boundary [OF assms(1)])
    show "ulp_exp q \<le> ilog2 r" using lt r by simp
    have "q < 2 powi (ilog2 q + 1)" using ilog2_bounds(2) [OF assms(1)] .
    also have "\<dots> \<le> 2 powi ilog2 r" using lo by (rule powi2_mono)
    finally show "q \<le> of_int 1 * 2 powi ilog2 r" by simp
  qed
  also have "\<dots> \<le> rnd_pos r"
    using assms ilog2_bounds(1) [of r] r by (intro rnd_pos_ge_boundary) auto
  finally show ?thesis .
qed

lemma rnd_pos_error:
  assumes "0 < q"
  shows "\<bar>rnd_pos q - q\<bar> \<le> 2 powi ulp_exp q / 2"
proof -
  define u where "u = (2 :: rat) powi ulp_exp q"
  have u: "0 < u" by (simp add: u_def)
  have "rnd_pos q - q = (of_int (round_even (q / u)) - q / u) * u"
    using u by (simp add: rnd_pos_def Let_def algebra_simps flip: u_def)
  then have "\<bar>rnd_pos q - q\<bar> = \<bar>of_int (round_even (q / u)) - q / u\<bar> * u"
    using u by (simp add: abs_mult)
  also have "\<dots> \<le> 1 / 2 * u" using round_even_bounds u by (intro mult_right_mono) auto
  finally show ?thesis by (simp add: u_def)
qed

lemma rnd_pos_relative_error:
  assumes "2 powi - 1022 \<le> q"
  shows "\<bar>rnd_pos q - q\<bar> \<le> q / 2 ^ 53"
proof -
  have q: "0 < q" using assms zero_less_power_int [of "2 :: rat" "- 1022"] by linarith
  have "(2 :: rat) powi - 1022 < 2 powi (ilog2 q + 1)" using assms ilog2_bounds(2) [OF q] by linarith
  from powi2_less [OF this] have e: "ulp_exp q = ilog2 q + - 52" by (simp add: ulp_exp_def)
  have "(2 :: rat) powi ulp_exp q = 2 powi ilog2 q * 2 powi - 52"
    unfolding e by (rule power_int_add) simp
  also have "\<dots> \<le> q * 2 powi - 52" using ilog2_bounds(1) [OF q] by (intro mult_right_mono) auto
  finally have "2 powi ulp_exp q / 2 \<le> q * 2 powi - 52 / 2" by simp
  moreover have "q * 2 powi - 52 / 2 = q / 2 ^ 53" by (simp add: power_int_def power_one_over)
  ultimately show ?thesis using rnd_pos_error [OF q] by linarith
qed

lemma rnd_pos_exact:
  assumes "0 < n" "n \<le> 2 ^ 53"
  shows "rnd_pos (of_nat n) = of_nat n"
proof -
  have q: "0 < (of_nat n :: rat)" using assms by simp
  have "ulp_exp (of_nat n) \<le> ulp_exp (2 ^ 53)"
  proof (rule ulp_exp_mono [OF q])
    have "(of_nat n :: rat) \<le> of_nat (2 ^ 53)" using assms(2) by (simp only: of_nat_le_iff)
    then show "(of_nat n :: rat) \<le> 2 ^ 53" by simp
  qed
  have le: "of_nat n \<le> (2 ^ 53 :: rat)"
  proof -
    have "(of_nat n :: rat) \<le> of_nat (2 ^ 53)" using assms(2) by (simp only: of_nat_le_iff)
    then show ?thesis by simp
  qed
  show ?thesis
  proof (cases "ulp_exp (of_nat n) \<le> 0")
    case True
    show ?thesis
      using rnd_pos_le_boundary [OF q True, of "int n"] rnd_pos_ge_boundary [OF q True, of "int n"]
      by simp
  next
    case False
    then have u: "ulp_exp (of_nat n) = ilog2 (of_nat n) - 52" and i: "53 \<le> ilog2 (of_nat n)"
      by (auto simp: ulp_exp_def)
    have "(2 :: rat) powi 53 \<le> 2 powi ilog2 (of_nat n)" using i by (rule powi2_mono)
    then have n: "of_nat n = (2 :: rat) powi 53"
      using le ilog2_bounds(1) [OF q] by (simp add: power_int_def)
    have "(2 :: rat) powi ilog2 (of_nat n) \<le> 2 powi 53" using ilog2_bounds(1) [OF q] n by simp
    then have "ilog2 (of_nat n) < 54" by (intro powi2_less) (simp add: power_int_def)
    then have "ulp_exp (of_nat n) \<le> 53" using u by simp
    then show ?thesis
      using rnd_pos_le_boundary [OF q, of 53 1] rnd_pos_ge_boundary [OF q, of 53 1] n by simp
  qed
qed

text \<open>What the components use of the rounding: it is monotone, keeps zero, is exact on the integers
  a double holds, and its relative error is at most \<open>2 ^ -53\<close> on the normal numbers.\<close>

locale f64_rounding =
  fixes rnd :: "rat \<Rightarrow> rat"
  assumes mono: "q \<le> r \<Longrightarrow> rnd q \<le> rnd r"
    and exact: "n \<le> 2 ^ 53 \<Longrightarrow> rnd (of_nat n) = of_nat n"
    and error: "2 powi - 1022 \<le> q \<Longrightarrow> \<bar>rnd q - q\<bar> \<le> q / 2 ^ 53"
begin

lemma zero: "rnd 0 = 0"
  using exact [of 0] by simp

lemma nonneg: "0 \<le> q \<Longrightarrow> 0 \<le> rnd q"
  using mono [of 0 q] zero by simp

lemma integer_error: "1 \<le> q \<Longrightarrow> \<bar>rnd q - q\<bar> \<le> q / 2 ^ 53"
proof (rule error)
  assume "1 \<le> q"
  then show "2 powi - 1022 \<le> q" using powi2_mono [of "- 1022" 0] by simp
qed

text \<open>The rate the statistics derive, \<open>delta / dt * scale\<close> with a rounding after each
  conversion and operation.\<close>

definition rate :: "nat \<Rightarrow> nat \<Rightarrow> nat \<Rightarrow> rat" where
  "rate delta dt scale = rnd (rnd (rnd (of_nat delta) / rnd (of_nat dt)) * of_nat scale)"

lemma rate_nonneg: "0 \<le> rate delta dt scale"
  unfolding rate_def by (intro nonneg mult_nonneg_nonneg divide_nonneg_nonneg) auto

lemma rate_mono: "d \<le> d' \<Longrightarrow> rate d dt scale \<le> rate d' dt scale"
  unfolding rate_def by (intro mono mult_right_mono divide_right_mono nonneg) auto

lemma rate_exact:
  assumes "0 < dt" "dt \<le> 2 ^ 53" "k * dt \<le> 2 ^ 53" "k \<le> 2 ^ 53" "k * scale \<le> 2 ^ 53"
  shows "rate (k * dt) dt scale = of_nat (k * scale)"
proof -
  have "rnd (of_nat (k * dt)) / rnd (of_nat dt) = of_nat k"
    using assms by (simp only: exact) simp
  then show ?thesis using assms by (simp only: rate_def exact flip: of_nat_mult)
qed

text \<open>Three roundings cost a relative error below \<open>2 ^ -50\<close>.\<close>

lemma up: "2 powi - 1022 \<le> q \<Longrightarrow> q \<le> y * c \<Longrightarrow> 0 \<le> y \<Longrightarrow> c * (1 + 1 / 2 ^ 53) \<le> c' \<Longrightarrow> rnd q \<le> y * c'"
proof -
  assume q: "2 powi - 1022 \<le> q" "q \<le> y * c" and y: "0 \<le> y" and c: "c * (1 + 1 / 2 ^ 53) \<le> c'"
  have "rnd q \<le> q + q / 2 ^ 53" using error [OF q(1)] unfolding abs_le_iff by linarith
  also have "\<dots> \<le> y * c + (y * c) / 2 ^ 53" using q(2) by (intro add_mono divide_right_mono) auto
  also have "\<dots> = y * (c * (1 + 1 / 2 ^ 53))" by (simp add: algebra_simps)
  also have "\<dots> \<le> y * c'" using c y by (rule mult_left_mono)
  finally show ?thesis .
qed

lemma down: "2 powi - 1022 \<le> q \<Longrightarrow> y * c \<le> q \<Longrightarrow> 0 \<le> y \<Longrightarrow> c' \<le> c * (1 - 1 / 2 ^ 53) \<Longrightarrow> y * c' \<le> rnd q"
proof -
  assume q: "2 powi - 1022 \<le> q" "y * c \<le> q" and y: "0 \<le> y" and c: "c' \<le> c * (1 - 1 / 2 ^ 53)"
  have "y * c' \<le> y * (c * (1 - 1 / 2 ^ 53))" using c y by (rule mult_left_mono)
  also have "\<dots> = y * c * (1 - 1 / 2 ^ 53)" by simp
  also have "\<dots> \<le> q * (1 - 1 / 2 ^ 53)" using q(2) by (rule mult_right_mono) simp
  also have "\<dots> = q - q / 2 ^ 53" by (simp add: algebra_simps)
  also have "\<dots> \<le> rnd q" using error [OF q(1)] unfolding abs_le_iff by linarith
  finally show ?thesis .
qed

lemma normal: "1 / 2 ^ 100 \<le> q \<Longrightarrow> (2 :: rat) powi - 1022 \<le> q"
proof -
  have "(2 :: rat) powi - 1022 \<le> 2 powi - 100" by (rule powi2_mono) simp
  also have "(2 :: rat) powi - 100 = 1 / 2 ^ 100" by (simp add: power_int_def power_one_over)
  finally show "1 / 2 ^ 100 \<le> q \<Longrightarrow> (2 :: rat) powi - 1022 \<le> q" by (rule order_trans)
qed

lemma within:
  assumes "1 \<le> x"
  shows "x * (1 - 1 / 2 ^ 53) \<le> rnd x" and "rnd x \<le> x * (1 + 1 / 2 ^ 53)"
proof -
  have n: "2 powi - 1022 \<le> x" using assms by (intro normal) simp
  show "x * (1 - 1 / 2 ^ 53) \<le> rnd x" and "rnd x \<le> x * (1 + 1 / 2 ^ 53)"
    using down [OF n, of x 1 "1 - 1 / 2 ^ 53"] up [OF n, of x 1 "1 + 1 / 2 ^ 53"] assms by simp_all
qed

lemma quotient:
  assumes d: "1 \<le> d" and t: "1 \<le> t"
  shows "d / t * (1 - 3 / 2 ^ 53) \<le> rnd d / rnd t" and "rnd d / rnd t \<le> d / t * (1 + 3 / 2 ^ 53)"
proof -
  note a = within [OF d] and b = within [OF t]
  have bpos: "0 < rnd t" using b(1) t by simp
  have x: "0 \<le> d / t" using d t by simp
  have "d / t * (1 - 3 / 2 ^ 53) * rnd t \<le> d / t * (1 - 3 / 2 ^ 53) * (t * (1 + 1 / 2 ^ 53))"
    using b(2) x by (intro mult_left_mono) auto
  also have "\<dots> = d * ((1 - 3 / 2 ^ 53) * (1 + 1 / 2 ^ 53))" using t by simp
  also have "\<dots> \<le> d * (1 - 1 / 2 ^ 53)" using d by (intro mult_left_mono) auto
  finally have "d / t * (1 - 3 / 2 ^ 53) * rnd t \<le> rnd d" using a(1) by (rule order_trans)
  then show "d / t * (1 - 3 / 2 ^ 53) \<le> rnd d / rnd t" by (simp only: pos_le_divide_eq [OF bpos])
  have "d * (1 + 1 / 2 ^ 53) \<le> d * ((1 + 3 / 2 ^ 53) * (1 - 1 / 2 ^ 53))"
    using d by (intro mult_left_mono) auto
  also have "\<dots> = d / t * (1 + 3 / 2 ^ 53) * (t * (1 - 1 / 2 ^ 53))" using t by simp
  also have "\<dots> \<le> d / t * (1 + 3 / 2 ^ 53) * rnd t" using b(1) x by (intro mult_left_mono) auto
  finally have "rnd d \<le> d / t * (1 + 3 / 2 ^ 53) * rnd t" by (rule order_trans [OF a(2)])
  then show "rnd d / rnd t \<le> d / t * (1 + 3 / 2 ^ 53)" by (simp only: pos_divide_le_eq [OF bpos])
qed

lemma of_nat_ge_1: "0 < n \<Longrightarrow> (1 :: rat) \<le> of_nat n"
  by (metis of_nat_1 of_nat_le_iff Suc_leI One_nat_def)

lemma rate_error:
  assumes "0 < delta" "0 < dt" "dt \<le> 2 ^ 64" "0 < scale"
  shows "\<bar>rate delta dt scale - of_nat delta / of_nat dt * of_nat scale\<bar>
     \<le> of_nat delta / of_nat dt * of_nat scale / 2 ^ 50"
proof -
  define d t s where "d = (of_nat delta :: rat)" and "t = (of_nat dt :: rat)" and "s = (of_nat scale :: rat)"
  have d: "1 \<le> d" and t: "1 \<le> t" and s: "1 \<le> s"
    using assms by (simp_all only: d_def t_def s_def of_nat_ge_1)
  have "t \<le> of_nat (2 ^ 64)" using assms(3) unfolding t_def by (simp only: of_nat_le_iff)
  then have t': "t \<le> 2 ^ 64" by simp
  define x where "x = d / t"
  have x: "1 / 2 ^ 64 \<le> x" using d t t' unfolding x_def by (simp add: le_divide_eq divide_le_eq)
  have x0: "0 \<le> x" using x by simp
  note q = quotient [OF d t, folded x_def]
  have "1 / 2 ^ 100 \<le> x * (1 - 3 / 2 ^ 53)" using x by simp
  from normal [OF order_trans [OF this q(1)]] have nq: "2 powi - 1022 \<le> rnd d / rnd t" .
  have r: "x * (1 - 5 / 2 ^ 53) \<le> rnd (rnd d / rnd t)" "rnd (rnd d / rnd t) \<le> x * (1 + 5 / 2 ^ 53)"
    using down [OF nq q(1) x0, of "1 - 5 / 2 ^ 53"] up [OF nq q(2) x0, of "1 + 5 / 2 ^ 53"] by simp_all
  have m: "x * s * (1 - 5 / 2 ^ 53) \<le> rnd (rnd d / rnd t) * s"
    "rnd (rnd d / rnd t) * s \<le> x * s * (1 + 5 / 2 ^ 53)"
    using r s by (simp_all add: mult.assoc mult.left_commute mult_right_mono)
  have xs: "1 / 2 ^ 64 \<le> x * s" using mult_mono [OF x s] x by simp
  then have "1 / 2 ^ 100 \<le> x * s * (1 - 5 / 2 ^ 53)" by simp
  from normal [OF order_trans [OF this m(1)]] have nm: "2 powi - 1022 \<le> rnd (rnd d / rnd t) * s" .
  have xs0: "0 \<le> x * s" using xs by simp
  have "x * s * (1 - 8 / 2 ^ 53) \<le> rate delta dt scale" "rate delta dt scale \<le> x * s * (1 + 8 / 2 ^ 53)"
    unfolding rate_def d_def [symmetric] t_def [symmetric] s_def [symmetric]
    using down [OF nm m(1) xs0, of "1 - 8 / 2 ^ 53"] up [OF nm m(2) xs0, of "1 + 8 / 2 ^ 53"] by simp_all
  then show ?thesis by (simp add: abs_le_iff x_def algebra_simps flip: d_def t_def s_def)
qed

end

interpretation dbl: f64_rounding rnd53
proof
  show "rnd53 q \<le> rnd53 r" if "q \<le> r" for q r
  proof -
    have "0 \<le> rnd53 r" if "0 \<le> r" using that rnd_pos_nonneg [of r] by (simp add: rnd53_def)
    moreover have "rnd53 q \<le> 0" if "q \<le> 0" using that rnd_pos_nonneg [of "- q"] by (simp add: rnd53_def)
    moreover have "rnd53 q \<le> rnd53 r" if "0 < q"
      using that \<open>q \<le> r\<close> rnd_pos_mono [of q r] by (simp add: rnd53_def)
    moreover have "rnd53 q \<le> rnd53 r" if "r < 0"
      using that \<open>q \<le> r\<close> rnd_pos_mono [of "- r" "- q"] by (simp add: rnd53_def)
    ultimately show ?thesis
      using \<open>q \<le> r\<close> order_trans [of "rnd53 q" 0 "rnd53 r"] by (cases "q \<le> 0"; cases "r < 0") auto
  qed
  show "rnd53 (of_nat n) = of_nat n" if "n \<le> 2 ^ 53" for n
    using that rnd_pos_exact [of n] by (simp add: rnd53_def)
  show "\<bar>rnd53 q - q\<bar> \<le> q / 2 ^ 53" if "2 powi - 1022 \<le> q" for q
  proof -
    have "0 < q" using that zero_less_power_int [of "2 :: rat" "- 1022"] by linarith
    then show ?thesis using rnd_pos_relative_error [OF that] by (simp add: rnd53_def)
  qed
qed

lemma rnd53_small:
  assumes "0 \<le> q" "q \<le> 2 ^ 1000"
  shows "0 \<le> rnd53 q" and "rnd53 q < 2 ^ 1024"
proof -
  show "0 \<le> rnd53 q" using assms(1) by (rule dbl.nonneg)
  have "rnd53 q \<le> rnd53 (2 ^ 1000)" using assms(2) by (rule dbl.mono)
  also have "\<dots> \<le> 2 ^ 1000 + 2 ^ 1000 / 2 ^ 53"
    using dbl.integer_error [of "2 ^ 1000"] by (simp add: abs_le_iff)
  finally show "rnd53 q < 2 ^ 1024" by simp
qed

lemma f64_of_rat_Fin: "0 \<le> q \<Longrightarrow> q \<le> 2 ^ 1000 \<Longrightarrow> f64_of_rat q = Fin (rnd53 q)"
  using rnd53_small [of q] by (auto simp: f64_of_rat_def Let_def not_le)

lemma f64_of_u64_Fin: "f64_of_u64 v = Fin (rnd53 (of_nat (unat v)))"
proof -
  have "unat v < 2 ^ LENGTH(64)" by (rule unsigned_less)
  then have "(of_nat (unat v) :: rat) \<le> of_nat (2 ^ 64)" by (simp only: of_nat_le_iff) simp
  moreover have "(of_nat (2 ^ 64) :: rat) \<le> 2 ^ 1000" by simp
  ultimately have "(of_nat (unat v) :: rat) \<le> 2 ^ 1000" by (rule order_trans)
  from f64_of_rat_Fin [OF of_nat_0_le_iff this] show ?thesis
    by (simp only: f64_of_u64_def f64_of_int_def of_int_of_nat_eq)
qed

lemma rnd53_pos: "1 \<le> q \<Longrightarrow> 1 \<le> rnd53 q"
  using dbl.mono [of 1 q] dbl.exact [of 1] by simp

end
