(* ===== verification/F64_Text.thy ===== *)
theory F64_Text
  imports F64
begin

text \<open>
  \<open>f64::from_str\<close> of the standard library, as the sources use it on \<open>/proc/cpuinfo\<close> and on the
  sample values of another exporter: an optional sign, \<open>inf\<close>, \<open>infinity\<close> or \<open>nan\<close> in any case, or
  decimal digits with an optional fraction and an optional exponent; the value is the correctly
  rounded one.
\<close>

definition split_sign :: "string \<Rightarrow> bool \<times> string" where
  "split_sign s =
     (case s of
        c # r \<Rightarrow> if c = CHR ''-'' then (True, r) else if c = CHR ''+'' then (False, r) else (False, s)
      | [] \<Rightarrow> (False, []))"

definition parse_exponent :: "string \<Rightarrow> int option" where
  "parse_exponent s =
     (case s of
        [] \<Rightarrow> Some 0
      | c # r \<Rightarrow>
          if c = CHR ''e'' \<or> c = CHR ''E'' then
            (let (neg, d) = split_sign r in
             if d = [] then None
             else map_option (\<lambda>v. if neg then - int v else int v) (digits_val 0 d))
          else None)"

definition split_fraction :: "string \<Rightarrow> string \<times> string" where
  "split_fraction s =
     (case s of
        c # r \<Rightarrow> if c = CHR ''.'' then (takeWhile is_digit r, dropWhile is_digit r) else ([], s)
      | [] \<Rightarrow> ([], []))"

definition parse_number :: "string \<Rightarrow> rat option" where
  "parse_number s =
     (let ip = takeWhile is_digit s;
          (fp, rest) = split_fraction (dropWhile is_digit s) in
      if ip = [] \<and> fp = [] then None
      else case (digits_val 0 (ip @ fp), parse_exponent rest) of
        (Some v, Some e) \<Rightarrow> Some (of_nat v * 10 powi (e - int (length fp)))
      | _ \<Rightarrow> None)"

definition parse_f64 :: "string \<Rightarrow> f64 option" where
  "parse_f64 s =
     (let (neg, r) = split_sign s; low = to_ascii_lowercase r in
      if low = ''inf'' \<or> low = ''infinity'' then Some (if neg then NInf else PInf)
      else if low = ''nan'' then Some NaN
      else map_option (\<lambda>q. f64_of_rat (if neg then - q else q)) (parse_number r))"

lemma parse_number_dec: "parse_number (dec n) = Some (of_nat n)"
proof -
  have tw: "takeWhile is_digit (dec n) = dec n" and dw: "dropWhile is_digit (dec n) = []"
    using dec_digits [of n] by auto
  show ?thesis unfolding parse_number_def tw dw
    by (simp add: split_fraction_def parse_exponent_def digits_val_dec)
qed

end
