(* ===== verification/Metrics_Encode.thy ===== *)
theory Metrics_Encode
  imports F64_Text
begin

text \<open>
  \<open>crates/cadvisor-metrics/src/encode.rs\<close>: sample values in the format of Go's \<open>strconv\<close>, escaped
  label values and sample lines. The functions that append to a buffer return what they append.
  \<open>ryu::Buffer::format\<close>, the shortest decimal representation, is the parameter \<open>ryu\<close>; what the code
  relies on of it is \<open>ryu_ok\<close>: its documented shapes, and that it reads back as the number. The
  lemmas: the output is what Go's algorithm prints for those digits, it reads back as the same
  double, and a sample is one line whatever the label values are.
\<close>

section \<open>Floats\<close>

fun split_once_in :: "char list \<Rightarrow> string \<Rightarrow> (string \<times> string) option" where
  "split_once_in D [] = None"
| "split_once_in D (c # s) =
     (if c \<in> set D then Some ([], s) else map_option (\<lambda>(a, b). (c # a, b)) (split_once_in D s))"

definition parse_i32 :: "string \<Rightarrow> int option" where
  "parse_i32 s = (case parse_i64 s of Some v \<Rightarrow> if - (2 ^ 31) \<le> v \<and> v < 2 ^ 31 then Some v else None | None \<Rightarrow> None)"

text \<open>The digits and the decimal exponent of the first digit, from the text without its sign.\<close>

definition unsigned_parts :: "string \<Rightarrow> string \<times> int" where
  "unsigned_parts s =
     (let (mantissa, e_part) =
            (case split_once_in ''eE'' s of
               Some (m, e) \<Rightarrow> (m, Some (case parse_i32 e of Some v \<Rightarrow> v | None \<Rightarrow> 0))
             | None \<Rightarrow> (s, None));
          (int_part, frac_part) =
            (case split_once CHR ''.'' mantissa of
               Some (i, f) \<Rightarrow> (i, trim_end_char CHR ''0'' f)
             | None \<Rightarrow> (mantissa, []));
          (digits, ex) =
            (case e_part of
               Some e \<Rightarrow> (int_part @ frac_part, e)
             | None \<Rightarrow>
                 if int_part = ''0'' then
                   (trim_start_char CHR ''0'' frac_part,
                    - int (length frac_part - length (trim_start_char CHR ''0'' frac_part)) - 1)
                 else (int_part @ frac_part, int (length int_part) - 1));
          trimmed = trim_end_char CHR ''0'' digits;
          digits = (if trimmed = [] then ''0'' else trimmed)
      in (digits, if digits = ''0'' then 0 else ex))"

definition decimal_parts :: "string \<Rightarrow> bool \<times> string \<times> int" where
  "decimal_parts s =
     (case strip_prefix ''-'' s of
        Some rest \<Rightarrow> (True, unsigned_parts rest)
      | None \<Rightarrow> (False, unsigned_parts s))"

definition put_digits :: "bool \<Rightarrow> string \<Rightarrow> int \<Rightarrow> string" where
  "put_digits neg digits ex =
     (if neg then ''-'' else []) @
     (if ex < -4 \<or> 6 \<le> ex then
        take 1 digits @ (if 1 < length digits then ''.'' @ drop 1 digits else []) @
        ''e'' @ (if 0 \<le> ex then ''+'' else ''-'') @
        (if nat \<bar>ex\<bar> < 10 then ''0'' else []) @ dec (nat \<bar>ex\<bar>)
      else if int (length digits) - 1 \<le> ex then
        digits @ replicate (nat (ex - (int (length digits) - 1))) CHR ''0''
      else if 0 \<le> ex then take (nat ex + 1) digits @ ''.'' @ drop (nat ex + 1) digits
      else ''0.'' @ replicate (nat (- ex - 1)) CHR ''0'' @ digits)"

definition fmt_float :: "(f64 \<Rightarrow> string) \<Rightarrow> f64 \<Rightarrow> string" where
  "fmt_float ryu v =
     (if v = Fin 0 then ''0''
      else if v = Fin 1 then ''1''
      else if v = Fin (- 1) then ''-1''
      else case v of
        NaN \<Rightarrow> ''NaN''
      | PInf \<Rightarrow> ''+Inf''
      | NInf \<Rightarrow> ''-Inf''
      | Fin _ \<Rightarrow> (let (neg, digits, ex) = decimal_parts (ryu v) in put_digits neg digits ex))"

section \<open>Labels and lines\<close>

definition escape_char :: "char \<Rightarrow> string" where
  "escape_char c =
     (if c = CHR 0x5C then [CHR 0x5C, CHR 0x5C]
      else if c = CHR 0x22 then [CHR 0x5C, CHR 0x22]
      else if c = nl then [CHR 0x5C, CHR ''n'']
      else [c])"

definition escape_label_value :: "string \<Rightarrow> string" where
  "escape_label_value v = concat (map escape_char v)"

definition put_label :: "string \<times> string \<Rightarrow> string" where
  "put_label l = fst l @ ''='' @ [CHR 0x22] @ escape_label_value (snd l) @ [CHR 0x22]"

fun put_labels :: "(string \<times> string) list \<Rightarrow> string" where
  "put_labels [] = []"
| "put_labels [l] = put_label l"
| "put_labels (l # ls) = put_label l @ '','' @ put_labels ls"

definition put_int :: "i64 \<Rightarrow> string" where
  "put_int v = (if v < 0 then ''-'' @ dec (nat (- v)) else dec (nat v))"

definition sample_line ::
  "(f64 \<Rightarrow> string) \<Rightarrow> string \<Rightarrow> (string \<times> string) list \<Rightarrow> f64 \<Rightarrow> i64 option \<Rightarrow> string" where
  "sample_line ryu name labels value timestamp_ms =
     name @ (if labels = [] then [] else ''{'' @ put_labels labels @ ''}'') @ '' '' @ fmt_float ryu value @
     (case timestamp_ms of Some ts \<Rightarrow> '' '' @ put_int ts | None \<Rightarrow> []) @ [nl]"

section \<open>The reference format\<close>

text \<open>The algorithm of Go's \<open>strconv\<close> for format \<open>g\<close> and precision \<open>-1\<close>, on the shortest digits \<open>ds\<close> with
  the decimal point after \<open>dp\<close> of them: \<open>%e\<close> when the exponent is below \<open>-4\<close> or not below 6, else
  \<open>%f\<close> with as many fraction digits as needed.\<close>

definition go_e :: "string \<Rightarrow> int \<Rightarrow> string" where
  "go_e ds dp =
     (let ex = dp - 1; a = dec (nat \<bar>ex\<bar>) in
      hd ds # (if tl ds = [] then [] else CHR ''.'' # tl ds) @ ''e'' @ (if ex < 0 then ''-'' else ''+'') @
      (if length a < 2 then CHR ''0'' # a else a))"

definition go_digit :: "string \<Rightarrow> int \<Rightarrow> char" where
  "go_digit ds i = (if 0 \<le> i \<and> i < int (length ds) then ds ! nat i else CHR ''0'')"

definition go_f :: "string \<Rightarrow> int \<Rightarrow> string" where
  "go_f ds dp =
     (let prec = nat (int (length ds) - dp) in
      (if 0 < dp then map (go_digit ds) [0..dp - 1] else ''0'') @
      (if 0 < prec then CHR ''.'' # map (\<lambda>i. go_digit ds (dp + int i)) [0..<prec] else []))"

definition go_g :: "bool \<Rightarrow> string \<Rightarrow> int \<Rightarrow> string" where
  "go_g neg ds dp = (if neg then ''-'' else []) @ (if dp - 1 < -4 \<or> 6 \<le> dp - 1 then go_e ds dp else go_f ds dp)"

section \<open>What is known of ryu\<close>

definition digits_ok :: "string \<Rightarrow> bool" where
  "digits_ok ds \<longleftrightarrow> ds \<noteq> [] \<and> list_all is_digit ds \<and> hd ds \<noteq> CHR ''0'' \<and> last ds \<noteq> CHR ''0''"

text \<open>The four shapes of the output for the digits \<open>ds\<close> and the exponent \<open>e\<close> of the first of them:
  \<open>1.234e33\<close>, \<open>12340000.0\<close>, \<open>12.34\<close>, \<open>0.001234\<close>.\<close>

definition ryu_shape :: "string \<Rightarrow> int \<Rightarrow> string \<Rightarrow> bool" where
  "ryu_shape ds e t \<longleftrightarrow>
     t = take 1 ds @ (if 1 < length ds then ''.'' @ drop 1 ds else []) @ ''e'' @ put_int e
   \<or> 0 \<le> e \<and> int (length ds) \<le> e + 1 \<and> t = ds @ replicate (nat (e + 1) - length ds) CHR ''0'' @ ''.0''
   \<or> 0 \<le> e \<and> e + 1 < int (length ds) \<and> t = take (nat e + 1) ds @ ''.'' @ drop (nat e + 1) ds
   \<or> e < 0 \<and> t = ''0.'' @ replicate (nat (- e - 1)) CHR ''0'' @ ds"

definition ryu_ok :: "(f64 \<Rightarrow> string) \<Rightarrow> f64 \<Rightarrow> bool \<Rightarrow> string \<Rightarrow> int \<Rightarrow> bool" where
  "ryu_ok ryu v neg ds e \<longleftrightarrow>
     digits_ok ds \<and> \<bar>e\<bar> < 400 \<and> starts_with (ryu v) (if neg then ''-'' else []) \<and>
     ryu_shape ds e (drop (if neg then 1 else 0) (ryu v)) \<and> parse_f64 (ryu v) = Some v"

section \<open>Lemmas\<close>

lemma split_once_in_None: "set s \<inter> set D = {} \<Longrightarrow> split_once_in D s = None"
  by (induction s) auto

lemma split_once_in_append: "set a \<inter> set D = {} \<Longrightarrow> d \<in> set D \<Longrightarrow> split_once_in D (a @ d # b) = Some (a, b)"
  by (induction a) auto

lemma parse_i32_put_int:
  assumes "\<bar>v\<bar> < 400"
  shows "parse_i32 (put_int v) = Some v"
proof (cases "v < 0")
  case True
  then show ?thesis using assms by (simp add: parse_i32_def put_int_def parse_i64_def digits_val_dec)
next
  case False
  then have "parse_i64 (put_int v) = Some v" using assms parse_i64_dec [of "nat v"] by (simp add: put_int_def)
  then show ?thesis using assms by (simp add: parse_i32_def abs_less_iff)
qed

lemma digit_not_0x: "is_digit c \<Longrightarrow> c \<noteq> CHR ''.'' \<and> c \<noteq> CHR ''e'' \<and> c \<noteq> CHR ''E'' \<and> c \<noteq> CHR ''-''"
  by (auto simp: is_digit_def code_def)

lemma trim_end_id: "s \<noteq> [] \<Longrightarrow> last s \<noteq> c \<Longrightarrow> trim_end_char c s = s"
  by (cases s rule: rev_cases) (auto simp: trim_end_char_def)

lemma trim_end_zeros: "trim_end_char c (s @ replicate n c) = trim_end_char c s"
proof -
  have "dropWhile (\<lambda>x. x = c) (replicate n c @ r) = dropWhile (\<lambda>x. x = c) r" for r
    by (induction n) simp_all
  then show ?thesis by (simp add: trim_end_char_def)
qed

lemma trim_start_zeros: "s \<noteq> [] \<Longrightarrow> hd s \<noteq> c \<Longrightarrow> trim_start_char c (replicate n c @ s) = s"
  by (induction n) (simp_all add: trim_start_char_def, cases s, simp_all)

lemma strip_minus: "t \<noteq> [] \<Longrightarrow> hd t \<noteq> CHR ''-'' \<Longrightarrow> strip_prefix ''-'' t = None"
  by (cases t) (auto simp: strip_prefix_def starts_with_def)

lemma digits_facts:
  assumes "digits_ok ds"
  shows "ds \<noteq> []" "\<And>c. c \<in> set ds \<Longrightarrow> is_digit c" "hd ds \<noteq> CHR ''0''" "last ds \<noteq> CHR ''0''"
    "CHR ''.'' \<notin> set ds" "CHR ''e'' \<notin> set ds" "CHR ''E'' \<notin> set ds" "CHR ''-'' \<notin> set ds"
  using assms digit_not_0x by (auto simp: digits_ok_def list_all_iff)

lemma digits_drop: "digits_ok ds \<Longrightarrow> n < length ds \<Longrightarrow> trim_end_char CHR ''0'' (drop n ds) = drop n ds"
  by (rule trim_end_id) (use digits_facts(4) in auto)

lemma digits_trim: "digits_ok ds \<Longrightarrow> trim_end_char CHR ''0'' ds = ds"
  using digits_facts by (intro trim_end_id) auto

lemma digits_take: "digits_ok ds \<Longrightarrow> take (Suc n) ds \<noteq> ''0''"
  by (cases ds) (auto simp: digits_ok_def)

lemma unsigned_parts_sci:
  assumes "CHR ''e'' \<notin> set m" "CHR ''E'' \<notin> set m" "\<bar>e\<bar> < 400"
  shows "unsigned_parts (m @ CHR ''e'' # put_int e) =
     (let (int_part, frac_part) =
            (case split_once CHR ''.'' m of
               Some (i, f) \<Rightarrow> (i, trim_end_char CHR ''0'' f) | None \<Rightarrow> (m, []));
          trimmed = trim_end_char CHR ''0'' (int_part @ frac_part);
          digits = (if trimmed = [] then ''0'' else trimmed)
      in (digits, if digits = ''0'' then 0 else e))"
  using assms split_once_in_append [of m "''eE''" "CHR ''e''" "put_int e"]
  by (cases "split_once CHR ''.'' m") (auto simp: unsigned_parts_def parse_i32_put_int)

lemma unsigned_parts_plain:
  assumes "CHR ''e'' \<notin> set i" "CHR ''E'' \<notin> set i" "CHR ''.'' \<notin> set i"
    "CHR ''e'' \<notin> set f" "CHR ''E'' \<notin> set f"
  shows "unsigned_parts (i @ CHR ''.'' # f) =
     (let frac_part = trim_end_char CHR ''0'' f;
          (digits, ex) =
            (if i = ''0'' then
               (trim_start_char CHR ''0'' frac_part,
                - int (length frac_part - length (trim_start_char CHR ''0'' frac_part)) - 1)
             else (i @ frac_part, int (length i) - 1));
          trimmed = trim_end_char CHR ''0'' digits;
          digits = (if trimmed = [] then ''0'' else trimmed)
      in (digits, if digits = ''0'' then 0 else ex))"
proof -
  have "split_once_in ''eE'' (i @ CHR ''.'' # f) = None"
    by (rule split_once_in_None) (use assms in auto)
  then show ?thesis
    using split_once_append [OF assms(3), of f] by (simp add: unsigned_parts_def case_prod_beta Let_def)
qed

lemma unsigned_parts_shape:
  assumes "digits_ok ds" "\<bar>e\<bar> < 400" "ryu_shape ds e t"
  shows "unsigned_parts t = (ds, e)"
proof -
  note f = digits_facts [OF assms(1)]
  note trim = digits_trim [OF assms(1)] digits_drop [OF assms(1)]
  have nz: "ds \<noteq> ''0''" using f(3) by auto
  have sub: "c \<notin> set (take n ds)" "c \<notin> set (drop n ds)" if "c \<notin> set ds" for c n
    using that by (auto dest: in_set_takeD in_set_dropD)
  from assms(3) consider
      (sci) "t = take 1 ds @ (if 1 < length ds then ''.'' @ drop 1 ds else []) @ ''e'' @ put_int e"
    | (whole) "0 \<le> e" "int (length ds) \<le> e + 1" "t = ds @ replicate (nat (e + 1) - length ds) CHR ''0'' @ ''.0''"
    | (mixed) "0 \<le> e" "e + 1 < int (length ds)" "t = take (nat e + 1) ds @ ''.'' @ drop (nat e + 1) ds"
    | (small) "e < 0" "t = ''0.'' @ replicate (nat (- e - 1)) CHR ''0'' @ ds"
    by (auto simp: ryu_shape_def)
  then show ?thesis
  proof cases
    case sci
    show ?thesis
    proof (cases "1 < length ds")
      case True
      have t: "t = (take 1 ds @ CHR ''.'' # drop 1 ds) @ CHR ''e'' # put_int e" using sci True by simp
      have "split_once CHR ''.'' (take 1 ds @ CHR ''.'' # drop 1 ds) = Some (take 1 ds, drop 1 ds)"
        by (rule split_once_append) (rule sub(1) [OF f(5)])
      then show ?thesis unfolding t using True f(1) sub [OF f(6)] sub [OF f(7)] nz assms(2)
        by (subst unsigned_parts_sci) (simp_all add: trim Let_def)
    next
      case False
      then have "take 1 ds = ds" using f(1) by (cases ds) auto
      then have t: "t = ds @ CHR ''e'' # put_int e" using sci False by simp
      have "split_once CHR ''.'' ds = None" using f(5) by (simp add: split_once_None)
      then show ?thesis unfolding t using f nz assms(2) by (subst unsigned_parts_sci) (simp_all add: trim)
    qed
  next
    case whole
    let ?i = "ds @ replicate (nat (e + 1) - length ds) CHR ''0''"
    have t: "t = ?i @ CHR ''.'' # ''0''" using whole by simp
    have i: "?i \<noteq> ''0''" using f(1,3) by (cases ds) auto
    have "trim_end_char CHR ''0'' ''0'' = []" by (simp add: trim_end_char_def)
    then show ?thesis unfolding t using f nz whole i
      by (subst unsigned_parts_plain) (simp_all add: trim_end_zeros trim)
  next
    case mixed
    have t: "t = take (nat e + 1) ds @ CHR ''.'' # drop (nat e + 1) ds" using mixed by simp
    have i: "take (nat e + 1) ds \<noteq> ''0''" using digits_take [OF assms(1), of "nat e"] by simp
    show ?thesis unfolding t using f nz mixed i sub [OF f(5)] sub [OF f(6)] sub [OF f(7)]
      by (subst unsigned_parts_plain) (simp_all add: trim)
  next
    case small
    have t: "t = ''0'' @ CHR ''.'' # (replicate (nat (- e - 1)) CHR ''0'' @ ds)" using small by simp
    have "trim_end_char CHR ''0'' (replicate (nat (- e - 1)) CHR ''0'' @ ds) = replicate (nat (- e - 1)) CHR ''0'' @ ds"
      by (rule trim_end_id) (use f in auto)
    then show ?thesis unfolding t using f nz small trim_start_zeros [OF f(1) f(3)]
      by (subst unsigned_parts_plain) (simp_all add: trim)
  qed
qed

lemma decimal_parts_ryu:
  assumes "ryu_ok ryu v neg ds e"
  shows "decimal_parts (ryu v) = (neg, ds, e)"
proof (cases neg)
  case True
  then obtain t where t: "ryu v = ''-'' @ t" "ryu_shape ds e t"
    using assms by (auto simp: ryu_ok_def starts_with_iff)
  then have "unsigned_parts t = (ds, e)" using assms unsigned_parts_shape by (simp add: ryu_ok_def)
  then show ?thesis using True strip_prefix_append [of "''-''" t] by (simp add: t decimal_parts_def)
next
  case False
  then have t: "digits_ok ds" "\<bar>e\<bar> < 400" "ryu_shape ds e (ryu v)" using assms by (simp_all add: ryu_ok_def)
  have "ryu v \<noteq> [] \<and> hd (ryu v) \<noteq> CHR ''-''"
    using t(3) digits_facts(1,8) [OF t(1)] by (cases ds) (auto simp: ryu_shape_def)
  then have "strip_prefix ''-'' (ryu v) = None" using strip_minus by blast
  then show ?thesis using False unsigned_parts_shape [OF t] by (simp add: decimal_parts_def)
qed

section \<open>The format is Go's\<close>

lemma go_digit_map:
  "n \<le> length ds \<Longrightarrow> map (go_digit ds) [0..int n - 1] = take n ds"
  "length ds \<le> n \<Longrightarrow> map (go_digit ds) [0..int n - 1] = ds @ replicate (n - length ds) CHR ''0''"
  by (rule nth_equalityI; simp add: go_digit_def nth_append nth_upto)+

lemma put_digits_go:
  assumes "digits_ok ds"
  shows "put_digits neg ds e = go_g neg ds (e + 1)"
proof -
  note f = digits_facts [OF assms]
  obtain d r where d: "ds = d # r" using f(1) by (cases ds) auto
  have two: "length (dec n) < 2 \<longleftrightarrow> n < 10" for n
    using dec_not_Nil [of "n div 10"] by (subst dec.simps) (auto simp: Suc_le_eq)
  consider "e < -4 \<or> 6 \<le> e" | "-4 \<le> e" "e < 0" | "0 \<le> e" "e < 6" "int (length ds) - 1 \<le> e"
    | "0 \<le> e" "e < 6" "e < int (length ds) - 1" by linarith
  then show ?thesis
  proof cases
    case 1
    then show ?thesis by (auto simp: put_digits_def go_g_def go_e_def two d Let_def)
  next
    case 2
    have "map (\<lambda>i. go_digit ds (e + 1 + int i)) [0..<nat (int (length ds) - (e + 1))] =
        replicate (nat (- e - 1)) CHR ''0'' @ ds"
      using 2 by (intro nth_equalityI) (auto simp: go_digit_def nth_append nat_diff_distrib intro!: arg_cong [where f = "(!) ds"])
    then show ?thesis using 2 by (auto simp: put_digits_def go_g_def go_f_def d Let_def)
  next
    case 3
    have "map (go_digit ds) [0..e] = ds @ replicate (nat (e + 1) - length ds) CHR ''0''"
      using go_digit_map(2) [of ds "nat (e + 1)"] 3 by simp
    moreover have "nat (e + 1) - length ds = nat (e - (int (length ds) - 1))" using 3 by simp
    ultimately show ?thesis using 3 by (simp add: put_digits_def go_g_def go_f_def)
  next
    case 4
    have "map (go_digit ds) [0..e] = take (nat e + 1) ds"
      using go_digit_map(1) [of "nat e + 1" ds] 4 by simp
    moreover have "map (\<lambda>i. go_digit ds (e + 1 + int i)) [0..<nat (int (length ds) - (e + 1))] = drop (nat e + 1) ds"
      using 4 by (intro nth_equalityI) (auto simp: go_digit_def nat_add_distrib algebra_simps)
    ultimately show ?thesis using 4 by (simp add: put_digits_def go_g_def go_f_def)
  qed
qed

section \<open>The value is kept\<close>

definition text_value :: "string \<Rightarrow> int \<Rightarrow> rat" where
  "text_value ds e = of_nat (the (digits_val 0 ds)) * 10 powi (e + 1 - int (length ds))"

lemma digits_val_total: "list_all is_digit s \<Longrightarrow> \<exists>v. digits_val acc s = Some v"
  by (induction s arbitrary: acc) auto

lemma parse_number_whole:
  assumes "list_all is_digit ip" "ip \<noteq> []" "digits_val 0 ip = Some n" "parse_exponent ex = Some x"
    and "ex = [] \<or> hd ex = CHR ''e''"
  shows "parse_number (ip @ ex) = Some (of_nat n * 10 powi x)"
proof -
  have e: "\<not> is_digit CHR ''e''" by (simp add: is_digit_def code_def)
  have "takeWhile is_digit (ip @ ex) = ip" "dropWhile is_digit (ip @ ex) = ex"
    using assms(1,5) e by (cases ex; auto simp: list_all_iff takeWhile_append2 dropWhile_append2)+
  moreover have "split_fraction ex = ([], ex)" using assms(5) by (cases ex) (auto simp: split_fraction_def)
  ultimately show ?thesis using assms by (simp add: parse_number_def)
qed

lemma parse_number_point:
  assumes "list_all is_digit ip" "list_all is_digit fp" "ip \<noteq> []" "digits_val 0 (ip @ fp) = Some n"
    and "parse_exponent ex = Some x" "ex = [] \<or> hd ex = CHR ''e''"
  shows "parse_number (ip @ CHR ''.'' # fp @ ex) = Some (of_nat n * 10 powi (x - int (length fp)))"
proof -
  have e: "\<not> is_digit CHR ''e''" "\<not> is_digit CHR ''.''" by (simp_all add: is_digit_def code_def)
  have "takeWhile is_digit (ip @ CHR ''.'' # fp @ ex) = ip"
    "dropWhile is_digit (ip @ CHR ''.'' # fp @ ex) = CHR ''.'' # fp @ ex"
    using assms(1) e by (auto simp: list_all_iff takeWhile_append2 dropWhile_append2)
  moreover have "takeWhile is_digit (fp @ ex) = fp" "dropWhile is_digit (fp @ ex) = ex"
    using assms(2,6) e by (cases ex; auto simp: list_all_iff takeWhile_append2 dropWhile_append2)+
  ultimately show ?thesis using assms by (simp add: parse_number_def split_fraction_def)
qed

lemma parse_exponent_signed:
  assumes "d \<noteq> []" "digits_val 0 d = Some n"
  shows "parse_exponent (CHR ''e'' # CHR ''+'' # d) = Some (int n)"
    "parse_exponent (CHR ''e'' # CHR ''-'' # d) = Some (- int n)"
  using assms by (simp_all add: parse_exponent_def split_sign_def)

lemma parse_exponent_put_int: "parse_exponent (CHR ''e'' # put_int e) = Some e"
proof (cases "e < 0")
  case True
  then show ?thesis using parse_exponent_signed(2) [OF dec_not_Nil digits_val_dec, of "nat (- e)"]
    by (simp add: put_int_def)
next
  case False
  obtain c r where c: "dec (nat e) = c # r" by (cases "dec (nat e)") auto
  then have "c \<noteq> CHR ''+'' \<and> c \<noteq> CHR ''-''" using dec_digits [of "nat e"] digit_not_sign [of c] by simp
  then have "split_sign (dec (nat e)) = (False, dec (nat e))" by (simp add: split_sign_def c)
  then show ?thesis using False by (simp add: parse_exponent_def put_int_def digits_val_dec)
qed

lemma powi_shift: "(of_nat (n * 10 ^ k) :: rat) * 10 powi x = of_nat n * 10 powi (x + int k)"
  by (simp add: power_int_add)

lemma digits_all: "digits_ok ds \<Longrightarrow> list_all is_digit (take n ds) \<and> list_all is_digit (drop n ds) \<and> list_all is_digit ds"
  by (auto simp: digits_ok_def list_all_iff dest: in_set_takeD in_set_dropD)

lemma zero_digit: "is_digit CHR ''0''" "code CHR ''0'' = 48"
  by (simp_all add: is_digit_def code_def)

text \<open>The shapes both formats share.\<close>

lemma shape_values:
  assumes ok: "digits_ok ds" and n: "digits_val 0 ds = Some n"
  shows "parse_exponent ex = Some x \<Longrightarrow> ex = [] \<or> hd ex = CHR ''e'' \<Longrightarrow>
      parse_number (take 1 ds @ (if 1 < length ds then ''.'' @ drop 1 ds else []) @ ex) = Some (text_value ds x)"
    and "parse_number (ds @ replicate k CHR ''0'') = Some (text_value ds (int (length ds) - 1 + int k))"
    and "parse_number (ds @ replicate k CHR ''0'' @ ''.0'') = Some (text_value ds (int (length ds) - 1 + int k))"
    and "m < length ds \<Longrightarrow> 0 < m \<Longrightarrow> parse_number (take m ds @ ''.'' @ drop m ds) = Some (text_value ds (int m - 1))"
    and "parse_number (''0.'' @ replicate k CHR ''0'' @ ds) = Some (text_value ds (- int k - 1))"
proof -
  note a = digits_all [OF ok]
  have ne: "ds \<noteq> []" using ok by (simp add: digits_ok_def)
  have v: "the (digits_val 0 ds) = n" using n by simp
  have z: "digits_val 0 (ds @ replicate j CHR ''0'') = Some (n * 10 ^ j)" for j
    using n by (simp add: digits_val_append digits_val_zeros)
  have no: "parse_exponent [] = Some 0" by (simp add: parse_exponent_def)
  have rep: "list_all is_digit (replicate j CHR ''0'')" for j by (simp add: list_all_iff zero_digit)
  show "parse_exponent ex = Some x \<Longrightarrow> ex = [] \<or> hd ex = CHR ''e'' \<Longrightarrow>
      parse_number (take 1 ds @ (if 1 < length ds then ''.'' @ drop 1 ds else []) @ ex) = Some (text_value ds x)"
  proof (cases "1 < length ds")
    case True
    assume ex: "parse_exponent ex = Some x" "ex = [] \<or> hd ex = CHR ''e''"
    have "parse_number (take 1 ds @ CHR ''.'' # drop 1 ds @ ex) = Some (of_nat n * 10 powi (x - int (length (drop 1 ds))))"
      using parse_number_point [of "take 1 ds" "drop 1 ds" n ex x] a ne n ex True by simp
    moreover have "x - int (length (drop 1 ds)) = x + 1 - int (length ds)" using True by simp
    ultimately show ?thesis using True by (simp only: text_value_def v) simp
  next
    case False
    then have one: "take 1 ds = ds" "length ds = 1" using ne by (cases ds; simp)+
    assume ex: "parse_exponent ex = Some x" "ex = [] \<or> hd ex = CHR ''e''"
    then show ?thesis using parse_number_whole [of ds n ex x] a ne n by (simp add: one text_value_def v)
  qed
  show "parse_number (ds @ replicate k CHR ''0'') = Some (text_value ds (int (length ds) - 1 + int k))"
    using parse_number_whole [of "ds @ replicate k CHR ''0''" "n * 10 ^ k" "[]" 0] a ne no rep z [of k]
      powi_shift [of n k 0] by (simp add: text_value_def v)
  show "parse_number (ds @ replicate k CHR ''0'' @ ''.0'') = Some (text_value ds (int (length ds) - 1 + int k))"
    using parse_number_point [of "ds @ replicate k CHR ''0''" "''0''" "n * 10 ^ Suc k" "[]" 0] a ne no rep [of k] rep [of 1]
      z [of "Suc k"] powi_shift [of n "Suc k" "- 1"] by (simp add: text_value_def v replicate_append_same)
  show "m < length ds \<Longrightarrow> 0 < m \<Longrightarrow> parse_number (take m ds @ ''.'' @ drop m ds) = Some (text_value ds (int m - 1))"
    using parse_number_point [of "take m ds" "drop m ds" n "[]" 0] a ne no n
    by (simp add: text_value_def v of_nat_diff)
  show "parse_number (''0.'' @ replicate k CHR ''0'' @ ds) = Some (text_value ds (- int k - 1))"
  proof -
    have "digits_val 0 (''0'' @ replicate k CHR ''0'' @ ds) = Some n"
      using n digits_val_zeros [of 0 "Suc k"] by (simp add: digits_val_append zero_digit)
    then show ?thesis
      using parse_number_point [of "''0''" "replicate k CHR ''0'' @ ds" n "[]" 0] a no rep [of k] rep [of 1]
      by (simp add: text_value_def v)
  qed
qed

lemma put_digits_value:
  assumes "digits_ok ds"
  shows "parse_number (put_digits False ds e) = Some (text_value ds e)"
proof -
  obtain n where n: "digits_val 0 ds = Some n"
    using digits_val_total [of ds 0] assms by (auto simp: digits_ok_def)
  note sv = shape_values [OF assms n]
  consider "e < -4 \<or> 6 \<le> e" | "-4 \<le> e" "e < 0" | "0 \<le> e" "e < 6" "int (length ds) - 1 \<le> e"
    | "0 \<le> e" "e < 6" "e < int (length ds) - 1" by linarith
  then show ?thesis
  proof cases
    case 1
    define d where "d = (if nat \<bar>e\<bar> < 10 then ''0'' else []) @ dec (nat \<bar>e\<bar>)"
    have d: "d \<noteq> []" "digits_val 0 d = Some (nat \<bar>e\<bar>)"
      by (simp_all add: d_def digits_val_dec zero_digit)
    have "parse_exponent (''e'' @ (if 0 \<le> e then ''+'' else ''-'') @ d) = Some e"
      using parse_exponent_signed [OF d] by simp
    from sv(1) [OF this] show ?thesis using 1 by (simp add: put_digits_def d_def)
  next
    case 2
    moreover from this have "\<not> int (length ds) - 1 \<le> e" using digits_facts(1) [OF assms] by (cases ds) auto
    ultimately show ?thesis using sv(5) [of "nat (- e - 1)"] by (simp add: put_digits_def)
  next
    case 3
    then show ?thesis using sv(2) [of "nat (e - (int (length ds) - 1))"] by (simp add: put_digits_def)
  next
    case 4
    then show ?thesis using sv(4) [of "nat e + 1"] by (simp add: put_digits_def)
  qed
qed

lemma ryu_shape_value:
  assumes "digits_ok ds" "ryu_shape ds e t"
  shows "parse_number t = Some (text_value ds e)"
proof -
  obtain n where n: "digits_val 0 ds = Some n"
    using digits_val_total [of ds 0] assms(1) by (auto simp: digits_ok_def)
  note sv = shape_values [OF assms(1) n]
  from assms(2) consider
      (sci) "t = take 1 ds @ (if 1 < length ds then ''.'' @ drop 1 ds else []) @ ''e'' @ put_int e"
    | (whole) "0 \<le> e" "int (length ds) \<le> e + 1" "t = ds @ replicate (nat (e + 1) - length ds) CHR ''0'' @ ''.0''"
    | (mixed) "0 \<le> e" "e + 1 < int (length ds)" "t = take (nat e + 1) ds @ ''.'' @ drop (nat e + 1) ds"
    | (small) "e < 0" "t = ''0.'' @ replicate (nat (- e - 1)) CHR ''0'' @ ds"
    by (auto simp: ryu_shape_def)
  then show ?thesis
  proof cases
    case sci
    then show ?thesis using sv(1) [of "''e'' @ put_int e" e] parse_exponent_put_int [of e] by simp
  next
    case whole
    then show ?thesis using sv(3) [of "nat (e + 1) - length ds"] by (simp add: of_nat_diff)
  next
    case mixed
    then show ?thesis using sv(4) [of "nat e + 1"] by simp
  next
    case small
    then show ?thesis using sv(5) [of "nat (- e - 1)"] by simp
  qed
qed

lemma parse_f64_signed:
  assumes "t \<noteq> []" "is_digit (hd t)" "parse_number t = Some q"
  shows "parse_f64 ((if neg then ''-'' else []) @ t) = Some (f64_of_rat (if neg then - q else q))"
proof -
  obtain c r where t: "t = c # r" "is_digit c" using assms by (cases t) auto
  have "c \<noteq> CHR ''-''" "c \<noteq> CHR ''+''" using digit_not_sign t(2) by auto
  then have s: "split_sign ((if neg then ''-'' else []) @ t) = (neg, t)" by (simp add: split_sign_def t)
  have "hd (to_ascii_lowercase t) = c"
    using t by (auto simp: to_ascii_lowercase_def is_digit_def is_ascii_uppercase_def)
  moreover have "c \<noteq> CHR ''i''" "c \<noteq> CHR ''n''" using t(2) by (auto simp: is_digit_def code_def)
  ultimately have "to_ascii_lowercase t \<noteq> ''inf''" "to_ascii_lowercase t \<noteq> ''infinity''" "to_ascii_lowercase t \<noteq> ''nan''"
    by auto
  then show ?thesis by (simp add: parse_f64_def s assms(3) Let_def)
qed

lemma put_digits_sign: "put_digits neg ds e = (if neg then ''-'' else []) @ put_digits False ds e"
  by (simp add: put_digits_def)

lemma put_digits_head:
  assumes "digits_ok ds"
  shows "put_digits False ds e \<noteq> [] \<and> is_digit (hd (put_digits False ds e))"
  using digits_facts(1,2) [OF assms] zero_digit by (cases ds) (auto simp: put_digits_def)

lemma ryu_shape_head:
  assumes "digits_ok ds" "ryu_shape ds e t"
  shows "t \<noteq> [] \<and> is_digit (hd t)"
  using assms(2) digits_facts(1,2) [OF assms(1)] zero_digit by (cases ds) (auto simp: ryu_shape_def)

lemma ryu_ok_value:
  assumes "ryu_ok ryu v neg ds e"
  shows "v = f64_of_rat (if neg then - text_value ds e else text_value ds e)"
proof -
  define t where "t = drop (if neg then 1 else 0) (ryu v)"
  have t: "digits_ok ds" "ryu_shape ds e t" "ryu v = (if neg then ''-'' else []) @ t" "parse_f64 (ryu v) = Some v"
    using assms by (auto simp: ryu_ok_def t_def starts_with_iff)
  show ?thesis
    using parse_f64_signed [of t "text_value ds e" neg] ryu_shape_head [OF t(1,2)] ryu_shape_value [OF t(1,2)] t(3,4)
    by simp
qed

lemma fmt_float_ryu:
  assumes "ryu_ok ryu (Fin q) neg ds e" "q \<noteq> 0" "q \<noteq> 1" "q \<noteq> - 1"
  shows "fmt_float ryu (Fin q) = put_digits neg ds e"
  using assms decimal_parts_ryu [OF assms(1)] by (simp add: fmt_float_def)

lemma parse_f64_special:
  "parse_f64 ''+Inf'' = Some PInf" "parse_f64 ''-Inf'' = Some NInf" "parse_f64 ''NaN'' = Some NaN"
  by code_simp+

lemma dec_0_1: "dec 0 = ''0''" "dec 1 = ''1''"
  by code_simp+

lemma rnd53_1: "rnd53 1 = 1" "rnd53 (- 1) = - 1"
  using dbl.exact [of 1] by (simp_all add: rnd53_def)

lemma fmt_float_reads_back:
  assumes "\<And>q. v = Fin q \<Longrightarrow> q \<noteq> 0 \<Longrightarrow> q \<noteq> 1 \<Longrightarrow> q \<noteq> - 1 \<Longrightarrow> \<exists>neg ds e. ryu_ok ryu v neg ds e"
  shows "parse_f64 (fmt_float ryu v) = Some v"
proof (cases v)
  case (Fin q)
  have one: "parse_number ''0'' = Some 0" "parse_number ''1'' = Some 1"
    using parse_number_dec [of 0] parse_number_dec [of 1] dec_0_1 by simp_all
  have d: "is_digit CHR ''0''" "is_digit CHR ''1''" by (simp_all add: is_digit_def code_def)
  consider "q = 0" | "q = 1" | "q = - 1" | "q \<noteq> 0" "q \<noteq> 1" "q \<noteq> - 1" by blast
  then show ?thesis
  proof cases
    case 1
    then show ?thesis using parse_f64_signed [of "''0''" 0 False] one d Fin
      by (simp add: fmt_float_def f64_of_rat_def rnd53_def)
  next
    case 2
    then show ?thesis using parse_f64_signed [of "''1''" 1 False] one d Fin
      by (simp add: fmt_float_def f64_of_rat_def rnd53_1)
  next
    case 3
    then show ?thesis using parse_f64_signed [of "''1''" 1 True] one d Fin
      by (simp add: fmt_float_def f64_of_rat_def rnd53_1)
  next
    case 4
    then obtain neg ds e where r: "ryu_ok ryu v neg ds e" using assms Fin by blast
    then have ok: "digits_ok ds" by (simp add: ryu_ok_def)
    have "fmt_float ryu v = (if neg then ''-'' else []) @ put_digits False ds e"
      using fmt_float_ryu r 4 Fin put_digits_sign by metis
    then show ?thesis
      using parse_f64_signed [of "put_digits False ds e" "text_value ds e" neg] put_digits_head [OF ok]
        put_digits_value [OF ok] ryu_ok_value [OF r] by simp
  qed
qed (simp_all add: fmt_float_def parse_f64_special)

section \<open>Properties\<close>

text \<open>A printed sample value reads back as the double it was printed from: every finite value whose
  shortest digits ryu gives, the infinities and NaN.\<close>

theorem fmt_float_roundtrip:
  assumes "\<And>q. v = Fin q \<Longrightarrow> q \<noteq> 0 \<Longrightarrow> q \<noteq> 1 \<Longrightarrow> q \<noteq> - 1 \<Longrightarrow> \<exists>neg ds e. ryu_ok ryu v neg ds e"
  shows "parse_f64 (fmt_float ryu v) = Some v"
  using assms by (rule fmt_float_reads_back)

text \<open>C26: from the shortest digits, \<open>fmt_float\<close> prints what Go's \<open>strconv\<close> prints for the format \<open>g\<close>.\<close>

theorem fmt_float_go:
  assumes "ryu_ok ryu (Fin q) neg ds e" "q \<noteq> 0" "q \<noteq> 1" "q \<noteq> - 1"
  shows "fmt_float ryu (Fin q) = go_g neg ds (e + 1)"
  using fmt_float_ryu [OF assms] put_digits_go assms(1) by (simp add: ryu_ok_def)

text \<open>A ryu for the value 1/4.\<close>

definition demo_ryu :: "f64 \<Rightarrow> string" where
  "demo_ryu _ = ''0.25''"

lemma parse_quarter: "parse_f64 ''0.25'' = Some (Fin (1 / 4))"
proof -
  have "parse_number ''0.25'' = Some (1 / 4)" "rnd53 (1 / 4) = 1 / 4" by code_simp+
  then show ?thesis using parse_f64_signed [of "''0.25''" "1 / 4" False] zero_digit
    by (simp add: f64_of_rat_def)
qed

lemma demo_ryu_ok: "ryu_ok demo_ryu (Fin (1 / 4)) False ''25'' (- 1)"
proof -
  have "digits_ok ''25''" by code_simp
  then show ?thesis using parse_quarter by (simp add: ryu_ok_def demo_ryu_def ryu_shape_def starts_with_def)
qed

theorem fmt_float_roundtrip_witness: "parse_f64 (fmt_float demo_ryu (Fin (1 / 4))) = Some (Fin (1 / 4))"
  by (rule fmt_float_roundtrip) (use demo_ryu_ok in auto)

theorem fmt_float_go_witness: "fmt_float demo_ryu (Fin (1 / 4)) = ''0.25''"
proof -
  have "go_g False ''25'' 0 = ''0.25''" by code_simp
  then show ?thesis using fmt_float_go [OF demo_ryu_ok] by simp
qed

end
