(* ===== verification/Btree.thy ===== *)
theory Btree
  imports Prelude
begin

text \<open>
  \<open>BTreeMap\<close> as the list of its entries in strictly increasing key order, the form in which the
  program iterates and prints it. The locale \<open>ordered_map\<close> is the contract the components rely on:
  what a lookup returns after an insertion, and that the keys come out sorted. Its lemmas about
  collecting an iterator are proved once and reach the components through the interpretation \<open>bt\<close>.
\<close>

fun bt_insert :: "'k::linorder \<Rightarrow> 'v \<Rightarrow> ('k \<times> 'v) list \<Rightarrow> ('k \<times> 'v) list" where
  "bt_insert k v [] = [(k, v)]"
| "bt_insert k v ((k', v') # m) =
     (if k < k' then (k, v) # (k', v') # m
      else if k = k' then (k, v) # m
      else (k', v') # bt_insert k v m)"

definition bt_get :: "('k \<times> 'v) list \<Rightarrow> 'k \<Rightarrow> 'v option" where
  "bt_get m k = map_of m k"

definition bt_keys :: "('k \<times> 'v) list \<Rightarrow> 'k list" where
  "bt_keys m = map fst m"

definition bt_wf :: "('k::linorder \<times> 'v) list \<Rightarrow> bool" where
  "bt_wf m \<longleftrightarrow> sorted_wrt (<) (map fst m)"

text \<open>\<open>collect()\<close> into a map: later entries replace earlier ones.\<close>

definition bt_of_list :: "('k::linorder \<times> 'v) list \<Rightarrow> ('k \<times> 'v) list" where
  "bt_of_list xs = fold (\<lambda>(k, v). bt_insert k v) xs []"

lemma bt_get_insert: "bt_get (bt_insert k v m) = (bt_get m)(k \<mapsto> v)"
  by (induction m) (auto simp: bt_get_def fun_eq_iff)

lemma bt_insert_keys: "set (map fst (bt_insert k v m)) = insert k (set (map fst m))"
proof (induction m)
  case (Cons e m)
  then show ?case by (cases e) (simp only: bt_insert.simps, auto)
qed simp

lemma bt_wf_insert: "bt_wf m \<Longrightarrow> bt_wf (bt_insert k v m)"
proof (induction m)
  case (Cons e m)
  then show ?case using bt_insert_keys [of k v m]
    by (cases e) (auto simp: bt_wf_def)
qed (simp add: bt_wf_def)

lemma map_of_rev_distinct: "distinct (map fst xs) \<Longrightarrow> map_of (rev xs) = map_of xs"
  by (subst map_of_inject_set) (simp_all flip: rev_map)

locale ordered_map =
  fixes wf :: "'m \<Rightarrow> bool" and emp :: 'm and ins :: "'k::linorder \<Rightarrow> 'v \<Rightarrow> 'm \<Rightarrow> 'm"
    and get :: "'m \<Rightarrow> 'k \<Rightarrow> 'v option" and keys :: "'m \<Rightarrow> 'k list"
  assumes wf_emp: "wf emp" and wf_ins: "wf m \<Longrightarrow> wf (ins k v m)"
    and get_emp: "get emp k = None" and get_ins: "get (ins k v m) = (get m)(k \<mapsto> v)"
    and keys_sorted: "wf m \<Longrightarrow> sorted_wrt (<) (keys m)"
    and keys_get: "set (keys m) = dom (get m)"
begin

definition build :: "('k \<times> 'v) list \<Rightarrow> 'm" where
  "build xs = fold (\<lambda>(k, v). ins k v) xs emp"

lemma wf_build: "wf (build xs)"
  by (induction xs rule: rev_induct) (auto simp: build_def wf_emp wf_ins)

lemma get_build: "get (build xs) = map_of (rev xs)"
  by (induction xs rule: rev_induct) (auto simp: build_def get_emp get_ins fun_eq_iff)

lemma keys_build: "keys (build xs) = sorted_list_of_set (fst ` set xs)"
proof -
  have "set (keys (build xs)) = fst ` set xs"
    by (simp add: keys_get get_build dom_map_of_conv_image_fst)
  moreover have "sorted_wrt (<) (keys (build xs))" by (simp add: keys_sorted wf_build)
  ultimately show ?thesis
    by (metis List.finite_set sorted_list_of_set.sorted_key_list_of_set_unique
        sorted_list_of_set.idem_if_sorted_distinct strict_sorted_iff)
qed

text \<open>The order in which entries with different keys are collected does not matter to a lookup.\<close>

lemma get_build_order:
  assumes "distinct (map fst xs)" "mset xs = mset ys"
  shows "get (build xs) = get (build ys)"
proof -
  have d: "distinct (map fst ys)" using assms by (metis mset_eq_imp_distinct_iff mset_map)
  have "set xs = set ys" using assms(2) by (rule mset_eq_setD)
  then have "map_of xs = map_of ys" using assms(1) d by (simp add: map_of_inject_set)
  then show ?thesis using assms(1) d by (simp add: get_build map_of_rev_distinct)
qed

end

interpretation bt: ordered_map bt_wf "[]" bt_insert bt_get bt_keys
proof
  show "set (bt_keys m) = dom (bt_get m)" for m :: "('a \<times> 'b) list"
    by (simp add: bt_keys_def bt_get_def [abs_def] dom_map_of_conv_image_fst)
  show "bt_get (bt_insert k v m) = (bt_get m)(k \<mapsto> v)" for k :: 'a and v :: 'b and m
    by (rule bt_get_insert)
qed (simp_all add: bt_wf_insert bt_get_def bt_keys_def, simp_all add: bt_wf_def)

lemma bt_of_list_build: "bt_of_list xs = bt.build xs"
  by (simp add: bt_of_list_def bt.build_def)

lemmas bt_of_list_facts =
  bt.wf_build [folded bt_of_list_build] bt.get_build [folded bt_of_list_build]
  bt.keys_build [folded bt_of_list_build]

end
