(* ===== verification/Metrics_Output.thy ===== *)
theory Metrics_Output
  imports Metrics_Encode Btree
begin

text \<open>
  \<open>crates/cadvisor-metrics/src/families.rs\<close> and the \<open>Output\<close> of
  \<open>crates/cadvisor-metrics/src/collect.rs\<close>: the table of metric families and the buffer that
  collects series by family and renders them. The lemmas: a rendered family has its series in strict
  label order, for each label set the first one pushed, and a series of a family that is not in the
  table is not rendered.
\<close>

section \<open>Families\<close>

datatype kind = Counter | Gauge

fun kind_str :: "kind \<Rightarrow> string" where
  "kind_str Counter = ''counter''"
| "kind_str Gauge = ''gauge''"

definition families :: "(string \<times> kind \<times> string) list" where
  "families =
     [(''cadvisor_version_info'', Gauge,
        ''A metric with a constant '1' value labeled by kernel version, OS version, docker version, cadvisor version & cadvisor revision.''),
      (''container_blkio_device_usage_total'', Counter,
        ''Blkio Device bytes usage''),
      (''container_cpu_load_average_10s'', Gauge,
        ''Value of container cpu load average over the last 10 seconds.''),
      (''container_cpu_system_seconds_total'', Counter,
        ''Cumulative system cpu time consumed in seconds.''),
      (''container_cpu_usage_seconds_total'', Counter,
        ''Cumulative cpu time consumed in seconds.''),
      (''container_cpu_user_seconds_total'', Counter,
        ''Cumulative user cpu time consumed in seconds.''),
      (''container_fs_inodes_free'', Gauge,
        ''Number of available Inodes''),
      (''container_fs_inodes_total'', Gauge,
        ''Number of Inodes''),
      (''container_fs_io_current'', Gauge,
        ''Number of I/Os currently in progress''),
      (''container_fs_io_time_seconds_total'', Counter,
        ''Cumulative count of seconds spent doing I/Os''),
      (''container_fs_io_time_weighted_seconds_total'', Counter,
        ''Cumulative weighted I/O time in seconds''),
      (''container_fs_limit_bytes'', Gauge,
        ''Number of bytes that can be consumed by the container on this filesystem.''),
      (''container_fs_read_seconds_total'', Counter,
        ''Cumulative count of seconds spent reading''),
      (''container_fs_reads_bytes_total'', Counter,
        ''Cumulative count of bytes read''),
      (''container_fs_reads_merged_total'', Counter,
        ''Cumulative count of reads merged''),
      (''container_fs_reads_total'', Counter,
        ''Cumulative count of reads completed''),
      (''container_fs_sector_reads_total'', Counter,
        ''Cumulative count of sector reads completed''),
      (''container_fs_sector_writes_total'', Counter,
        ''Cumulative count of sector writes completed''),
      (''container_fs_usage_bytes'', Gauge,
        ''Number of bytes that are consumed by the container on this filesystem.''),
      (''container_fs_write_seconds_total'', Counter,
        ''Cumulative count of seconds spent writing''),
      (''container_fs_writes_bytes_total'', Counter,
        ''Cumulative count of bytes written''),
      (''container_fs_writes_merged_total'', Counter,
        ''Cumulative count of writes merged''),
      (''container_fs_writes_total'', Counter,
        ''Cumulative count of writes completed''),
      (''container_last_seen'', Gauge,
        ''Last time a container was seen by the exporter''),
      (''container_memory_cache'', Gauge,
        ''Number of bytes of page cache memory.''),
      (''container_memory_failcnt'', Counter,
        ''Number of memory usage hits limits''),
      (''container_memory_failures_total'', Counter,
        ''Cumulative count of memory allocation failures.''),
      (''container_memory_kernel_usage'', Gauge,
        ''Size of kernel memory allocated in bytes.''),
      (''container_memory_mapped_file'', Gauge,
        ''Size of memory mapped files in bytes.''),
      (''container_memory_max_usage_bytes'', Gauge,
        ''Maximum memory usage recorded in bytes''),
      (''container_memory_rss'', Gauge,
        ''Size of RSS in bytes.''),
      (''container_memory_swap'', Gauge,
        ''Container swap usage in bytes.''),
      (''container_memory_usage_bytes'', Gauge,
        ''Current memory usage in bytes, including all memory regardless of when it was accessed''),
      (''container_memory_working_set_bytes'', Gauge,
        ''Current working set in bytes.''),
      (''container_network_receive_bytes_total'', Counter,
        ''Cumulative count of bytes received''),
      (''container_network_receive_errors_total'', Counter,
        ''Cumulative count of errors encountered while receiving''),
      (''container_network_receive_packets_dropped_total'', Counter,
        ''Cumulative count of packets dropped while receiving''),
      (''container_network_receive_packets_total'', Counter,
        ''Cumulative count of packets received''),
      (''container_network_transmit_bytes_total'', Counter,
        ''Cumulative count of bytes transmitted''),
      (''container_network_transmit_errors_total'', Counter,
        ''Cumulative count of errors encountered while transmitting''),
      (''container_network_transmit_packets_dropped_total'', Counter,
        ''Cumulative count of packets dropped while transmitting''),
      (''container_network_transmit_packets_total'', Counter,
        ''Cumulative count of packets transmitted''),
      (''container_oom_events_total'', Counter,
        ''Count of out of memory events observed for the container''),
      (''container_scrape_error'', Gauge,
        ''1 if there was an error while getting container metrics, 0 otherwise''),
      (''container_spec_cpu_period'', Gauge,
        ''CPU period of the container.''),
      (''container_spec_cpu_shares'', Gauge,
        ''CPU share of the container.''),
      (''container_spec_memory_limit_bytes'', Gauge,
        ''Memory limit for the container.''),
      (''container_spec_memory_reservation_limit_bytes'', Gauge,
        ''Memory reservation limit for the container.''),
      (''container_spec_memory_swap_limit_bytes'', Gauge,
        ''Memory swap limit for the container.''),
      (''container_start_time_seconds'', Gauge,
        ''Start time of the container since unix epoch in seconds.''),
      (''container_tasks_state'', Gauge,
        ''Number of tasks in given state''),
      (''machine_cpu_cores'', Gauge,
        ''Number of logical CPU cores.''),
      (''machine_cpu_physical_cores'', Gauge,
        ''Number of physical CPU cores.''),
      (''machine_cpu_sockets'', Gauge,
        ''Number of CPU sockets.''),
      (''machine_memory_bytes'', Gauge,
        ''Amount of memory installed on the machine.''),
      (''machine_nvm_avg_power_budget_watts'', Gauge,
        ''NVM power budget.''),
      (''machine_nvm_capacity'', Gauge,
        ''NVM capacity value labeled by NVM mode (memory mode or app direct mode).''),
      (''machine_scrape_error'', Gauge,
        ''1 if there was an error while getting machine metrics, 0 otherwise.''),
      (''machine_swap_bytes'', Gauge,
        ''Amount of swap memory available on the machine.'')]"

definition family :: "string \<Rightarrow> (string \<times> kind \<times> string) option" where
  "family name = find (\<lambda>(n, _, _). n = name) families"

section \<open>The out_map\<close>

type_synonym labels = "(string \<times> string) list"
type_synonym series = "labels \<times> f64 \<times> i64 option"
type_synonym out_map = "(string \<times> series list) list"

definition push :: "string \<Rightarrow> labels \<Rightarrow> f64 \<Rightarrow> i64 option \<Rightarrow> out_map \<Rightarrow> out_map" where
  "push fam labels value ts out =
     bt_insert fam ((case bt_get out fam of Some ss \<Rightarrow> ss | None \<Rightarrow> []) @ [(labels, value, ts)]) out"

definition bt_remove :: "'k \<Rightarrow> ('k \<times> 'v) list \<Rightarrow> ('k \<times> 'v) list" where
  "bt_remove k m = filter (\<lambda>e. fst e \<noteq> k) m"

text \<open>\<open>Vec::dedup_by\<close> on the labels: of adjacent series with the same labels the first stays.\<close>

fun dedup_labels :: "series list \<Rightarrow> series list" where
  "dedup_labels (x # y # r) =
     (if fst y = fst x then dedup_labels (x # r) else x # dedup_labels (y # r))"
| "dedup_labels r = r"

definition served :: "series list \<Rightarrow> series list" where
  "served ss = dedup_labels (sort_key fst ss)"

definition family_header :: "string \<Rightarrow> kind \<Rightarrow> string \<Rightarrow> string" where
  "family_header name knd help =
     ''# HELP '' @ name @ '' '' @ help @ [nl] @ ''# TYPE '' @ name @ '' '' @ kind_str knd @ [nl]"

fun render_families :: "(f64 \<Rightarrow> string) \<Rightarrow> (string \<times> kind \<times> string) list \<Rightarrow> out_map \<Rightarrow> string" where
  "render_families ryu [] out = []"
| "render_families ryu ((name, knd, help) # fs) out =
     (case bt_get out name of
        None \<Rightarrow> render_families ryu fs out
      | Some ss \<Rightarrow>
          family_header name knd help @
          concat (map (\<lambda>(labels, value, ts). sample_line ryu name labels value ts) (served ss)) @
          render_families ryu fs (bt_remove name out))"

definition render_output :: "(f64 \<Rightarrow> string) \<Rightarrow> out_map \<Rightarrow> string" where
  "render_output ryu out = render_families ryu families out"

section \<open>Lemmas\<close>

text \<open>The first series with the labels \<open>l\<close>.\<close>

definition first_series :: "labels \<Rightarrow> series list \<Rightarrow> series option" where
  "first_series l ss = find (\<lambda>s. fst s = l) ss"

lemma dedup_set: "set (dedup_labels ss) \<subseteq> set ss"
  by (induction ss rule: dedup_labels.induct) auto

lemma dedup_strict: "sorted (map fst ss) \<Longrightarrow> sorted_wrt (<) (map fst (dedup_labels ss))"
proof (induction ss rule: dedup_labels.induct)
  case (1 x y r)
  show ?case
  proof (cases "fst y = fst x")
    case False
    have "fst x < fst z" if "z \<in> set (y # r)" for z
      using 1(3) False that by (auto simp: order_less_le)
    then have "fst x < fst z" if "z \<in> set (dedup_labels (y # r))" for z
      using that dedup_set by blast
    then show ?thesis using 1 False by simp
  qed (use 1 in simp)
qed simp_all

lemma dedup_first: "sorted (map fst ss) \<Longrightarrow> first_series l (dedup_labels ss) = first_series l ss"
  by (induction ss rule: dedup_labels.induct) (simp_all add: first_series_def)

lemma find_filter: "find P xs = (case filter P xs of x # _ \<Rightarrow> Some x | [] \<Rightarrow> None)"
  by (induction xs) auto

lemma sort_first: "first_series l (sort_key fst ss) = first_series l ss"
  using sort_key_stable [of fst l ss] by (simp add: first_series_def find_filter)

lemma served_strict: "sorted_wrt (<) (map fst (served ss))"
  unfolding served_def by (rule dedup_strict) simp

lemma served_first: "first_series l (served ss) = first_series l ss"
  by (simp add: served_def dedup_first sort_first)

lemma served_set: "set (served ss) \<subseteq> set ss"
  using dedup_set [of "sort_key fst ss"] by (simp add: served_def)

lemma served_nonempty: "served ss = [] \<longleftrightarrow> ss = []"
proof -
  have "dedup_labels ss = [] \<longleftrightarrow> ss = []" for ss
    by (induction ss rule: dedup_labels.induct) auto
  moreover have "sort_key fst ss = [] \<longleftrightarrow> ss = []" by (metis length_0_conv length_sort)
  ultimately show ?thesis by (simp add: served_def)
qed

text \<open>What is collected for one family.\<close>

definition collected :: "string \<Rightarrow> (string \<times> labels \<times> f64 \<times> i64 option) list \<Rightarrow> series list" where
  "collected fam ps = map snd (filter (\<lambda>p. fst p = fam) ps)"

definition push_all :: "(string \<times> labels \<times> f64 \<times> i64 option) list \<Rightarrow> out_map \<Rightarrow> out_map" where
  "push_all ps out = fold (\<lambda>(fam, labels, value, ts). push fam labels value ts) ps out"

definition series_of :: "out_map \<Rightarrow> string \<Rightarrow> series list" where
  "series_of out fam = (case bt_get out fam of Some ss \<Rightarrow> ss | None \<Rightarrow> [])"

lemma series_of_push:
  "series_of (push fam labels value ts out) f = series_of out f @ (if f = fam then [(labels, value, ts)] else [])"
  by (simp add: series_of_def push_def bt_get_insert split: option.split)

lemma series_of_push_all: "series_of (push_all ps out) f = series_of out f @ collected f ps"
  by (induction ps arbitrary: out) (auto simp: push_all_def collected_def series_of_push)

lemma push_not_empty: "bt_get out f \<noteq> Some [] \<Longrightarrow> bt_get (push fam labels value ts out) f \<noteq> Some []"
  by (simp add: push_def bt_get_insert)

lemma push_all_not_empty: "bt_get out f \<noteq> Some [] \<Longrightarrow> bt_get (push_all ps out) f \<noteq> Some []"
proof (induction ps arbitrary: out)
  case (Cons p ps)
  obtain fam ls v ts where p: "p = (fam, ls, v, ts)" by (metis prod.exhaust)
  show ?case using Cons.IH [OF push_not_empty [OF Cons.prems]] by (simp add: push_all_def p)
qed (simp add: push_all_def)

lemma get_push_all:
  "bt_get (push_all ps []) f = (if collected f ps = [] then None else Some (collected f ps))"
proof -
  have "series_of (push_all ps []) f = collected f ps"
    using series_of_push_all [of ps "[]" f] by (simp add: series_of_def bt_get_def)
  moreover have "bt_get (push_all ps []) f \<noteq> Some []" by (rule push_all_not_empty) (simp add: bt_get_def)
  ultimately show ?thesis by (cases "bt_get (push_all ps []) f") (auto simp: series_of_def)
qed

lemma bt_get_remove: "bt_get (bt_remove k m) k' = (if k' = k then None else bt_get m k')"
  by (induction m) (auto simp: bt_get_def bt_remove_def)

definition family_text ::
  "(f64 \<Rightarrow> string) \<Rightarrow> string \<times> kind \<times> string \<Rightarrow> series list \<Rightarrow> string" where
  "family_text ryu f ss =
     (if ss = [] then []
      else family_header (fst f) (fst (snd f)) (snd (snd f)) @
        concat (map (\<lambda>(labels, value, ts). sample_line ryu (fst f) labels value ts) (served ss)))"

lemma render_families_text:
  assumes "distinct (map fst fs)"
    and "\<And>f. f \<in> set fs \<Longrightarrow> bt_get out (fst f) = (if g (fst f) = [] then None else Some (g (fst f)))"
  shows "render_families ryu fs out = concat (map (\<lambda>f. family_text ryu f (g (fst f))) fs)"
  using assms
proof (induction fs arbitrary: out)
  case (Cons f fs)
  obtain name knd h where f: "f = (name, knd, h)" by (metis prod.exhaust)
  have "bt_get (bt_remove name out) (fst e) = (if g (fst e) = [] then None else Some (g (fst e)))"
    if "e \<in> set fs" for e
    using Cons.prems that by (auto simp: f bt_get_remove)
  then have r: "render_families ryu fs (bt_remove name out) = concat (map (\<lambda>f. family_text ryu f (g (fst f))) fs)"
    using Cons.prems by (intro Cons.IH) (auto simp: f)
  have "render_families ryu fs out = concat (map (\<lambda>f. family_text ryu f (g (fst f))) fs)"
    using Cons.prems by (intro Cons.IH) (auto simp: f)
  then show ?case using r Cons.prems(2) [of f] by (simp add: f family_text_def)
qed simp

text \<open>The table is in name order.\<close>

lemma families_sorted: "sorted_wrt (<) (map fst families)"
proof -
  have "sorted_wrt (<) (x # y # zs :: string list) = (x < y \<and> sorted_wrt (<) (y # zs))" for x y zs
    by (rule sorted_wrt2) (rule transp_on_less)
  then show ?thesis unfolding families_def list.map fst_conv
    by (simp add: sorted_wrt1 less_char_def del: sorted_wrt.simps)
qed

lemma families_distinct: "distinct (map fst families)"
  using families_sorted by (simp add: strict_sorted_iff)

lemma render_push_all:
  "render_output ryu (push_all ps []) = concat (map (\<lambda>f. family_text ryu f (collected (fst f) ps)) families)"
  unfolding render_output_def by (rule render_families_text) (simp_all add: families_distinct get_push_all)

lemma family_iff: "family n \<noteq> None \<longleftrightarrow> n \<in> fst ` set families"
proof -
  have "find (\<lambda>(n', _, _). n' = n) fs \<noteq> None \<longleftrightarrow> n \<in> fst ` set fs" for fs :: "(string \<times> kind \<times> string) list"
    by (induction fs) auto
  then show ?thesis by (simp add: family_def)
qed

text \<open>Series of families that are not in the table have no effect.\<close>

lemma render_ignores:
  "render_output ryu (push_all ps []) =
     render_output ryu (push_all (filter (\<lambda>p. family (fst p) \<noteq> None) ps) [])"
proof -
  have "collected (fst f) ps = collected (fst f) (filter (\<lambda>p. family (fst p) \<noteq> None) ps)"
    if "f \<in> set families" for f
  proof -
    have "family (fst f) \<noteq> None" unfolding family_iff using that by (rule imageI)
    then show ?thesis by (induction ps) (auto simp: collected_def)
  qed
  then show ?thesis unfolding render_push_all
    by (intro arg_cong [where f = concat] map_cong) simp_all
qed

section \<open>Properties\<close>

text \<open>The exposition is the families of the table that have series, in table order; within a family
  the series are in strict label order, no label set twice, and for each label set the one served is
  the first one that was pushed.\<close>

theorem series_served_once:
  "render_output ryu (push_all ps []) = concat (map (\<lambda>f. family_text ryu f (collected (fst f) ps)) families) \<and>
   sorted_wrt (<) (map fst (served (collected fam ps))) \<and>
   first_series l (served (collected fam ps)) = first_series l (collected fam ps)"
  by (simp add: render_push_all served_strict served_first)

end
