(* ===== verification/Model_V1.thy ===== *)
theory Model_V1
  imports F64
begin

text \<open>
  The data model of \<open>crates/cadvisor-model/src/v1\<close>: one record per struct, fields in the order of
  the source, and its \<open>Default\<close> as \<open>default_<record>\<close>. Field names carry a prefix for their
  struct, since record fields share one name space. The type aliases of the sources (\<open>DataType\<close>,
  \<open>CloudProvider\<close>, \<open>InstanceType\<close>, \<open>InstanceID\<close>) are strings. A \<open>BTreeMap\<close> is the list of its
  entries in key order. \<open>Wire_V1\<close> has the JSON form of these types.
\<close>

datatype event_type = Oom | OomKill | ContainerCreation | ContainerDeletion

record metric_spec =
  metricspec_name :: "string"
  metricspec_metric_type :: "string"
  metricspec_format :: "string"
  metricspec_units :: "string"

definition default_metric_spec :: metric_spec where
  "default_metric_spec = \<lparr>metricspec_name = [], metricspec_metric_type = [],
     metricspec_format = [], metricspec_units = []\<rparr>"

record metric_val_basic =
  metricb_timestamp :: "gotime"
  metricb_int_value :: "i64"
  metricb_float_value :: "f64"

definition default_metric_val_basic :: metric_val_basic where
  "default_metric_val_basic = \<lparr>metricb_timestamp = 0, metricb_int_value = 0,
     metricb_float_value = Fin 0\<rparr>"

record metric_val =
  metric_label :: "string"
  metric_labels :: "(string \<times> string) list"
  metric_timestamp :: "gotime"
  metric_int_value :: "i64"
  metric_float_value :: "f64"

definition default_metric_val :: metric_val where
  "default_metric_val = \<lparr>metric_label = [], metric_labels = [], metric_timestamp = 0,
     metric_int_value = 0, metric_float_value = Fin 0\<rparr>"

record cpu_spec =
  cpuspec_limit :: "u64"
  cpuspec_max_limit :: "u64"
  cpuspec_mask :: "string"
  cpuspec_quota :: "u64"
  cpuspec_period :: "u64"

definition default_cpu_spec :: cpu_spec where
  "default_cpu_spec = \<lparr>cpuspec_limit = 0, cpuspec_max_limit = 0, cpuspec_mask = [],
     cpuspec_quota = 0, cpuspec_period = 0\<rparr>"

record memory_spec =
  memspec_limit :: "u64"
  memspec_reservation :: "u64"
  memspec_swap_limit :: "u64"

definition default_memory_spec :: memory_spec where
  "default_memory_spec = \<lparr>memspec_limit = 0, memspec_reservation = 0, memspec_swap_limit =
     0\<rparr>"

record process_spec =
  procspec_limit :: "u64"

definition default_process_spec :: process_spec where
  "default_process_spec = \<lparr>procspec_limit = 0\<rparr>"

record container_spec =
  spec_creation_time :: "gotime"
  spec_labels :: "(string \<times> string) list"
  spec_envs :: "(string \<times> string) list"
  spec_has_cpu :: "bool"
  spec_cpu :: "cpu_spec"
  spec_has_memory :: "bool"
  spec_memory :: "memory_spec"
  spec_has_hugetlb :: "bool"
  spec_has_network :: "bool"
  spec_has_processes :: "bool"
  spec_processes :: "process_spec"
  spec_has_filesystem :: "bool"
  spec_has_disk_io :: "bool"
  spec_has_custom_metrics :: "bool"
  spec_custom_metrics :: "metric_spec list"
  spec_image :: "string"

definition default_container_spec :: container_spec where
  "default_container_spec = \<lparr>spec_creation_time = 0, spec_labels = [], spec_envs = [],
     spec_has_cpu = False, spec_cpu = default_cpu_spec, spec_has_memory = False, spec_memory =
     default_memory_spec, spec_has_hugetlb = False, spec_has_network = False, spec_has_processes =
     False, spec_processes = default_process_spec, spec_has_filesystem = False, spec_has_disk_io =
     False, spec_has_custom_metrics = False, spec_custom_metrics = [], spec_image = []\<rparr>"

record container_reference =
  ref_id :: "string"
  ref_name :: "string"
  ref_aliases :: "string list"
  ref_namespace :: "string"

definition default_container_reference :: container_reference where
  "default_container_reference = \<lparr>ref_id = [], ref_name = [], ref_aliases = [], ref_namespace
     = []\<rparr>"

record container_info_request =
  req_num_stats :: "i64"
  req_start :: "gotime"
  req_end :: "gotime"

record load_stats =
  load_nr_sleeping :: "u64"
  load_nr_running :: "u64"
  load_nr_stopped :: "u64"
  load_nr_uninterruptible :: "u64"
  load_nr_io_wait :: "u64"

definition default_load_stats :: load_stats where
  "default_load_stats = \<lparr>load_nr_sleeping = 0, load_nr_running = 0, load_nr_stopped = 0,
     load_nr_uninterruptible = 0, load_nr_io_wait = 0\<rparr>"

record cpu_usage =
  usage_total :: "u64"
  usage_per_cpu :: "u64 list"
  usage_user :: "u64"
  usage_system :: "u64"

definition default_cpu_usage :: cpu_usage where
  "default_cpu_usage = \<lparr>usage_total = 0, usage_per_cpu = [], usage_user = 0, usage_system =
     0\<rparr>"

record cpu_cfs =
  cfs_periods :: "u64"
  cfs_throttled_periods :: "u64"
  cfs_throttled_time :: "u64"

definition default_cpu_cfs :: cpu_cfs where
  "default_cpu_cfs = \<lparr>cfs_periods = 0, cfs_throttled_periods = 0, cfs_throttled_time =
     0\<rparr>"

record cpu_schedstat =
  sched_run_time :: "u64"
  sched_runqueue_time :: "u64"
  sched_run_periods :: "u64"

definition default_cpu_schedstat :: cpu_schedstat where
  "default_cpu_schedstat = \<lparr>sched_run_time = 0, sched_runqueue_time = 0, sched_run_periods =
     0\<rparr>"

record cpu_stats =
  cpu_usage :: "cpu_usage"
  cpu_cfs :: "cpu_cfs"
  cpu_schedstat :: "cpu_schedstat"
  cpu_load_average :: "int"

definition default_cpu_stats :: cpu_stats where
  "default_cpu_stats = \<lparr>cpu_usage = default_cpu_usage, cpu_cfs = default_cpu_cfs,
     cpu_schedstat = default_cpu_schedstat, cpu_load_average = 0\<rparr>"

record per_disk_stats =
  disk_device :: "string"
  disk_major :: "u64"
  disk_minor :: "u64"
  disk_stats :: "(string \<times> u64) list"

definition default_per_disk_stats :: per_disk_stats where
  "default_per_disk_stats = \<lparr>disk_device = [], disk_major = 0, disk_minor = 0, disk_stats =
     []\<rparr>"

record disk_io_stats =
  diskio_io_service_bytes :: "per_disk_stats list"
  diskio_io_serviced :: "per_disk_stats list"
  diskio_io_queued :: "per_disk_stats list"
  diskio_sectors :: "per_disk_stats list"
  diskio_io_service_time :: "per_disk_stats list"
  diskio_io_wait_time :: "per_disk_stats list"
  diskio_io_merged :: "per_disk_stats list"
  diskio_io_time :: "per_disk_stats list"
  diskio_io_cost_usage :: "per_disk_stats list"
  diskio_io_cost_wait :: "per_disk_stats list"
  diskio_io_cost_indebt :: "per_disk_stats list"
  diskio_io_cost_indelay :: "per_disk_stats list"

definition default_disk_io_stats :: disk_io_stats where
  "default_disk_io_stats = \<lparr>diskio_io_service_bytes = [], diskio_io_serviced = [],
     diskio_io_queued = [], diskio_sectors = [], diskio_io_service_time = [], diskio_io_wait_time =
     [], diskio_io_merged = [], diskio_io_time = [], diskio_io_cost_usage = [], diskio_io_cost_wait
     = [], diskio_io_cost_indebt = [], diskio_io_cost_indelay = []\<rparr>"

record hugetlb_stats =
  huge_usage :: "u64"
  huge_max_usage :: "u64"
  huge_failcnt :: "u64"

definition default_hugetlb_stats :: hugetlb_stats where
  "default_hugetlb_stats = \<lparr>huge_usage = 0, huge_max_usage = 0, huge_failcnt = 0\<rparr>"

record cpu_set_stats =
  cpuset_memory_migrate :: "u64"

definition default_cpu_set_stats :: cpu_set_stats where
  "default_cpu_set_stats = \<lparr>cpuset_memory_migrate = 0\<rparr>"

record memory_numa_stats =
  numa_file :: "(nat \<times> u64) list"
  numa_anon :: "(nat \<times> u64) list"
  numa_unevictable :: "(nat \<times> u64) list"

definition default_memory_numa_stats :: memory_numa_stats where
  "default_memory_numa_stats = \<lparr>numa_file = [], numa_anon = [], numa_unevictable =
     []\<rparr>"

record memory_stats_memory_data =
  memdata_pgfault :: "u64"
  memdata_pgmajfault :: "u64"
  memdata_numa_stats :: "memory_numa_stats"

definition default_memory_stats_memory_data :: memory_stats_memory_data where
  "default_memory_stats_memory_data = \<lparr>memdata_pgfault = 0, memdata_pgmajfault = 0,
     memdata_numa_stats = default_memory_numa_stats\<rparr>"

record memory_stats =
  mem_usage :: "u64"
  mem_max_usage :: "u64"
  mem_cache :: "u64"
  mem_rss :: "u64"
  mem_swap :: "u64"
  mem_mapped_file :: "u64"
  mem_working_set :: "u64"
  mem_failcnt :: "u64"
  mem_kernel_usage :: "u64"
  mem_container_data :: "memory_stats_memory_data"
  mem_hierarchical_data :: "memory_stats_memory_data"

definition default_memory_stats :: memory_stats where
  "default_memory_stats = \<lparr>mem_usage = 0, mem_max_usage = 0, mem_cache = 0, mem_rss = 0,
     mem_swap = 0, mem_mapped_file = 0, mem_working_set = 0, mem_failcnt = 0, mem_kernel_usage = 0,
     mem_container_data = default_memory_stats_memory_data, mem_hierarchical_data =
     default_memory_stats_memory_data\<rparr>"

record interface_stats =
  iface_name :: "string"
  iface_rx_bytes :: "u64"
  iface_rx_packets :: "u64"
  iface_rx_errors :: "u64"
  iface_rx_dropped :: "u64"
  iface_tx_bytes :: "u64"
  iface_tx_packets :: "u64"
  iface_tx_errors :: "u64"
  iface_tx_dropped :: "u64"

definition default_interface_stats :: interface_stats where
  "default_interface_stats = \<lparr>iface_name = [], iface_rx_bytes = 0, iface_rx_packets = 0,
     iface_rx_errors = 0, iface_rx_dropped = 0, iface_tx_bytes = 0, iface_tx_packets = 0,
     iface_tx_errors = 0, iface_tx_dropped = 0\<rparr>"

record tcp_stat =
  tcp_established :: "u64"
  tcp_syn_sent :: "u64"
  tcp_syn_recv :: "u64"
  tcp_fin_wait1 :: "u64"
  tcp_fin_wait2 :: "u64"
  tcp_time_wait :: "u64"
  tcp_close :: "u64"
  tcp_close_wait :: "u64"
  tcp_last_ack :: "u64"
  tcp_listen :: "u64"
  tcp_closing :: "u64"

definition default_tcp_stat :: tcp_stat where
  "default_tcp_stat = \<lparr>tcp_established = 0, tcp_syn_sent = 0, tcp_syn_recv = 0, tcp_fin_wait1
     = 0, tcp_fin_wait2 = 0, tcp_time_wait = 0, tcp_close = 0, tcp_close_wait = 0, tcp_last_ack = 0,
     tcp_listen = 0, tcp_closing = 0\<rparr>"

text \<open>\<open>TcpAdvancedStat\<close> has some hundred \<open>u64\<close> fields that no code of the repository reads or writes
  one by one; it is the list of its fields, each with its value.\<close>

type_synonym tcp_advanced_stat = "(string \<times> u64) list"

definition tcp_advanced_fields :: "string list" where
  "tcp_advanced_fields =
    [''rto_algorithm'', ''rto_min'', ''rto_max'', ''max_conn'', ''active_opens'', ''passive_opens'',
     ''attempt_fails'', ''estab_resets'', ''curr_estab'', ''in_segs'', ''out_segs'',
     ''retrans_segs'', ''in_errs'', ''out_rsts'', ''in_csum_errors'', ''embryonic_rsts'',
     ''syncookies_sent'', ''syncookies_recv'', ''syncookies_failed'', ''prune_called'',
     ''rcv_pruned'', ''ofo_pruned'', ''out_of_window_icmps'', ''lock_dropped_icmps'', ''tw'',
     ''tw_recycled'', ''tw_killed'', ''tcp_time_wait_overflow'', ''tcp_timeouts'',
     ''tcp_spurious_rtos'', ''tcp_loss_probes'', ''tcp_loss_probe_recovery'',
     ''tcp_reno_recovery_fail'', ''tcp_sack_recovery_fail'', ''tcp_reno_failures'',
     ''tcp_sack_failures'', ''tcp_loss_failures'', ''delayed_acks'', ''delayed_ack_locked'',
     ''delayed_ack_lost'', ''listen_overflows'', ''listen_drops'', ''tcp_hp_hits'',
     ''tcp_pure_acks'', ''tcp_hp_acks'', ''tcp_reno_recovery'', ''tcp_sack_recovery'',
     ''tcp_sack_reneging'', ''tcp_fack_reorder'', ''tcp_sack_reorder'', ''tcp_reno_reorder'',
     ''tcp_ts_reorder'', ''tcp_full_undo'', ''tcp_partial_undo'', ''tcp_dsack_undo'',
     ''tcp_loss_undo'', ''tcp_fast_retrans'', ''tcp_slow_start_retrans'',
     ''tcp_lost_retransmit'', ''tcp_retrans_fail'', ''tcp_rcv_collapsed'',
     ''tcp_dsack_old_sent'', ''tcp_dsack_ofo_sent'', ''tcp_dsack_recv'',
     ''tcp_dsack_ofo_recv'', ''tcp_abort_on_data'', ''tcp_abort_on_close'',
     ''tcp_abort_on_memory'', ''tcp_abort_on_timeout'', ''tcp_abort_on_linger'',
     ''tcp_abort_failed'', ''tcp_memory_pressures'', ''tcp_memory_pressures_chrono'',
     ''tcp_sack_discard'', ''tcp_dsack_ignored_old'', ''tcp_dsack_ignored_no_undo'',
     ''tcp_md5_not_found'', ''tcp_md5_unexpected'', ''tcp_md5_failure'', ''tcp_sack_shifted'',
     ''tcp_sack_merged'', ''tcp_sack_shift_fallback'', ''tcp_backlog_drop'',
     ''pf_memalloc_drop'', ''tcp_min_ttl_drop'', ''tcp_defer_accept_drop'',
     ''ip_reverse_path_filter'', ''tcp_req_q_full_do_cookies'', ''tcp_req_q_full_drop'',
     ''tcp_fast_open_active'', ''tcp_fast_open_active_fail'', ''tcp_fast_open_passive'',
     ''tcp_fast_open_passive_fail'', ''tcp_fast_open_listen_overflow'',
     ''tcp_fast_open_cookie_reqd'', ''tcp_syn_retrans'', ''tcp_orig_data_sent'',
     ''paws_active'', ''paws_estab'']"

definition default_tcp_advanced_stat :: tcp_advanced_stat where
  "default_tcp_advanced_stat = map (\<lambda>f. (f, 0)) tcp_advanced_fields"

record udp_stat =
  udp_listen :: "u64"
  udp_dropped :: "u64"
  udp_rx_queued :: "u64"
  udp_tx_queued :: "u64"

definition default_udp_stat :: udp_stat where
  "default_udp_stat = \<lparr>udp_listen = 0, udp_dropped = 0, udp_rx_queued = 0, udp_tx_queued =
     0\<rparr>"

record network_stats =
  net_interface :: "interface_stats"
  net_interfaces :: "interface_stats list"
  net_tcp :: "tcp_stat"
  net_tcp6 :: "tcp_stat"
  net_udp :: "udp_stat"
  net_udp6 :: "udp_stat"
  net_tcp_advanced :: "tcp_advanced_stat"

definition default_network_stats :: network_stats where
  "default_network_stats = \<lparr>net_interface = default_interface_stats, net_interfaces = [],
     net_tcp = default_tcp_stat, net_tcp6 = default_tcp_stat, net_udp = default_udp_stat, net_udp6 =
     default_udp_stat, net_tcp_advanced = default_tcp_advanced_stat\<rparr>"

record fs_stats =
  fs_device :: "string"
  fs_fs_type :: "string"
  fs_limit :: "u64"
  fs_usage :: "u64"
  fs_base_usage :: "u64"
  fs_available :: "u64"
  fs_has_inodes :: "bool"
  fs_inodes :: "u64"
  fs_inodes_free :: "u64"
  fs_reads_completed :: "u64"
  fs_reads_merged :: "u64"
  fs_sectors_read :: "u64"
  fs_read_time :: "u64"
  fs_writes_completed :: "u64"
  fs_writes_merged :: "u64"
  fs_sectors_written :: "u64"
  fs_write_time :: "u64"
  fs_io_in_progress :: "u64"
  fs_io_time :: "u64"
  fs_weighted_io_time :: "u64"

definition default_fs_stats :: fs_stats where
  "default_fs_stats = \<lparr>fs_device = [], fs_fs_type = [], fs_limit = 0, fs_usage = 0,
     fs_base_usage = 0, fs_available = 0, fs_has_inodes = False, fs_inodes = 0, fs_inodes_free = 0,
     fs_reads_completed = 0, fs_reads_merged = 0, fs_sectors_read = 0, fs_read_time = 0,
     fs_writes_completed = 0, fs_writes_merged = 0, fs_sectors_written = 0, fs_write_time = 0,
     fs_io_in_progress = 0, fs_io_time = 0, fs_weighted_io_time = 0\<rparr>"

record accelerator_stats =
  accel_make :: "string"
  accel_model :: "string"
  accel_id :: "string"
  accel_memory_total :: "u64"
  accel_memory_used :: "u64"
  accel_duty_cycle :: "u64"

definition default_accelerator_stats :: accelerator_stats where
  "default_accelerator_stats = \<lparr>accel_make = [], accel_model = [], accel_id = [],
     accel_memory_total = 0, accel_memory_used = 0, accel_duty_cycle = 0\<rparr>"

record perf_value =
  perfval_scaling_ratio :: "f64"
  perfval_value :: "u64"
  perfval_name :: "string"

definition default_perf_value :: perf_value where
  "default_perf_value = \<lparr>perfval_scaling_ratio = Fin 0, perfval_value = 0, perfval_name =
     []\<rparr>"

record perf_stat =
  perf_perf_value :: "perf_value"
  perf_cpu :: "i64"

definition default_perf_stat :: perf_stat where
  "default_perf_stat = \<lparr>perf_perf_value = default_perf_value, perf_cpu = 0\<rparr>"

record memory_bandwidth_stats =
  membw_total_bytes :: "u64"
  membw_local_bytes :: "u64"

definition default_memory_bandwidth_stats :: memory_bandwidth_stats where
  "default_memory_bandwidth_stats = \<lparr>membw_total_bytes = 0, membw_local_bytes = 0\<rparr>"

record cache_stats =
  llc_llc_occupancy :: "u64"

definition default_cache_stats :: cache_stats where
  "default_cache_stats = \<lparr>llc_llc_occupancy = 0\<rparr>"

record resctrl_stats =
  resctrl_memory_bandwidth :: "memory_bandwidth_stats list"
  resctrl_cache :: "cache_stats list"

definition default_resctrl_stats :: resctrl_stats where
  "default_resctrl_stats = \<lparr>resctrl_memory_bandwidth = [], resctrl_cache = []\<rparr>"

record perf_uncore_stat =
  perfunc_perf_value :: "perf_value"
  perfunc_socket :: "i64"
  perfunc_pmu :: "string"

definition default_perf_uncore_stat :: perf_uncore_stat where
  "default_perf_uncore_stat = \<lparr>perfunc_perf_value = default_perf_value, perfunc_socket = 0,
     perfunc_pmu = []\<rparr>"

record ulimit_spec =
  ulimit_name :: "string"
  ulimit_soft_limit :: "i64"
  ulimit_hard_limit :: "i64"

definition default_ulimit_spec :: ulimit_spec where
  "default_ulimit_spec = \<lparr>ulimit_name = [], ulimit_soft_limit = 0, ulimit_hard_limit =
     0\<rparr>"

record process_stats =
  proc_process_count :: "u64"
  proc_fd_count :: "u64"
  proc_socket_count :: "u64"
  proc_threads_current :: "u64"
  proc_threads_max :: "u64"
  proc_ulimits :: "ulimit_spec list"

definition default_process_stats :: process_stats where
  "default_process_stats = \<lparr>proc_process_count = 0, proc_fd_count = 0, proc_socket_count = 0,
     proc_threads_current = 0, proc_threads_max = 0, proc_ulimits = []\<rparr>"

record container_stats =
  stats_timestamp :: "gotime"
  stats_cpu :: "cpu_stats"
  stats_disk_io :: "disk_io_stats"
  stats_memory :: "memory_stats"
  stats_hugetlb :: "(string \<times> hugetlb_stats) list"
  stats_network :: "network_stats"
  stats_filesystem :: "fs_stats list"
  stats_task_stats :: "load_stats"
  stats_accelerators :: "accelerator_stats list"
  stats_processes :: "process_stats"
  stats_custom_metrics :: "(string \<times> metric_val list) list"
  stats_perf_stats :: "perf_stat list"
  stats_perf_uncore_stats :: "perf_uncore_stat list"
  stats_referenced_memory :: "u64"
  stats_resctrl :: "resctrl_stats"
  stats_cpu_set :: "cpu_set_stats"
  stats_oom_events :: "u64"

definition default_container_stats :: container_stats where
  "default_container_stats = \<lparr>stats_timestamp = 0, stats_cpu = default_cpu_stats,
     stats_disk_io = default_disk_io_stats, stats_memory = default_memory_stats, stats_hugetlb = [],
     stats_network = default_network_stats, stats_filesystem = [], stats_task_stats =
     default_load_stats, stats_accelerators = [], stats_processes = default_process_stats,
     stats_custom_metrics = [], stats_perf_stats = [], stats_perf_uncore_stats = [],
     stats_referenced_memory = 0, stats_resctrl = default_resctrl_stats, stats_cpu_set =
     default_cpu_set_stats, stats_oom_events = 0\<rparr>"

record container_info =
  info_reference :: "container_reference"
  info_subcontainers :: "container_reference list"
  info_spec :: "container_spec"
  info_stats :: "container_stats list"

definition default_container_info :: container_info where
  "default_container_info = \<lparr>info_reference = default_container_reference, info_subcontainers
     = [], info_spec = default_container_spec, info_stats = []\<rparr>"

record cpu_inst_usage =
  instu_total :: "u64"
  instu_per_cpu :: "u64 list"
  instu_user :: "u64"
  instu_system :: "u64"

definition default_cpu_inst_usage :: cpu_inst_usage where
  "default_cpu_inst_usage = \<lparr>instu_total = 0, instu_per_cpu = [], instu_user = 0,
     instu_system = 0\<rparr>"

record cpu_inst_stats =
  inst_usage :: "cpu_inst_usage"

definition default_cpu_inst_stats :: cpu_inst_stats where
  "default_cpu_inst_stats = \<lparr>inst_usage = default_cpu_inst_usage\<rparr>"

record oom_kill_event_data =
  oomdata_pid :: "i64"
  oomdata_process_name :: "string"
  oomdata_constraint :: "string"

definition default_oom_kill_event_data :: oom_kill_event_data where
  "default_oom_kill_event_data = \<lparr>oomdata_pid = 0, oomdata_process_name = [],
     oomdata_constraint = []\<rparr>"

record event_data =
  evdata_oom_kill :: "oom_kill_event_data option"

definition default_event_data :: event_data where
  "default_event_data = \<lparr>evdata_oom_kill = None\<rparr>"

record event =
  ev_container_name :: "string"
  ev_timestamp :: "gotime"
  ev_event_type :: "event_type"
  ev_event_data :: "event_data"

definition default_event :: event where
  "default_event = \<lparr>ev_container_name = [], ev_timestamp = 0, ev_event_type = Oom,
     ev_event_data = default_event_data\<rparr>"

record filesystem_info =
  fsinfo_device :: "string"
  fsinfo_device_major :: "u64"
  fsinfo_device_minor :: "u64"
  fsinfo_capacity :: "u64"
  fsinfo_fs_type :: "string"
  fsinfo_inodes :: "u64"
  fsinfo_has_inodes :: "bool"

definition default_filesystem_info :: filesystem_info where
  "default_filesystem_info = \<lparr>fsinfo_device = [], fsinfo_device_major = 0,
     fsinfo_device_minor = 0, fsinfo_capacity = 0, fsinfo_fs_type = [], fsinfo_inodes = 0,
     fsinfo_has_inodes = False\<rparr>"

record cpu_cache =
  cache_id :: "i64"
  cache_size :: "u64"
  cache_cache_type :: "string"
  cache_level :: "i64"

definition default_cpu_cache :: cpu_cache where
  "default_cpu_cache = \<lparr>cache_id = 0, cache_size = 0, cache_cache_type = [], cache_level =
     0\<rparr>"

record cpu_core =
  core_id :: "i64"
  core_threads :: "i64 list"
  core_caches :: "cpu_cache list"
  core_uncore_caches :: "cpu_cache list option"
  core_socket_id :: "i64"

definition default_cpu_core :: cpu_core where
  "default_cpu_core = \<lparr>core_id = 0, core_threads = [], core_caches = [], core_uncore_caches =
     None, core_socket_id = 0\<rparr>"

record huge_pages_info =
  hp_page_size :: "u64"
  hp_num_pages :: "u64"

definition default_huge_pages_info :: huge_pages_info where
  "default_huge_pages_info = \<lparr>hp_page_size = 0, hp_num_pages = 0\<rparr>"

record numa_node =
  node_id :: "i64"
  node_memory :: "u64"
  node_hugepages :: "huge_pages_info list"
  node_cores :: "cpu_core list"
  node_caches :: "cpu_cache list"
  node_distances :: "u64 list"

definition default_numa_node :: numa_node where
  "default_numa_node = \<lparr>node_id = 0, node_memory = 0, node_hugepages = [], node_cores = [],
     node_caches = [], node_distances = []\<rparr>"

record disk_info =
  dinfo_name :: "string"
  dinfo_major :: "u64"
  dinfo_minor :: "u64"
  dinfo_size :: "u64"
  dinfo_scheduler :: "string"

definition default_disk_info :: disk_info where
  "default_disk_info = \<lparr>dinfo_name = [], dinfo_major = 0, dinfo_minor = 0, dinfo_size = 0,
     dinfo_scheduler = []\<rparr>"

record net_info =
  netinfo_name :: "string"
  netinfo_mac_address :: "string"
  netinfo_speed :: "i64"
  netinfo_mtu :: "i64"

definition default_net_info :: net_info where
  "default_net_info = \<lparr>netinfo_name = [], netinfo_mac_address = [], netinfo_speed = 0,
     netinfo_mtu = 0\<rparr>"

record dimm_info =
  meminfo_capacity :: "u64"
  meminfo_dimm_count :: "u64"

definition default_dimm_info :: dimm_info where
  "default_dimm_info = \<lparr>meminfo_capacity = 0, meminfo_dimm_count = 0\<rparr>"

record nvm_info =
  nvm_memory_mode_capacity :: "u64"
  nvm_app_direct_mode_capacity :: "u64"
  nvm_avg_power_budget :: "u64"

definition default_nvm_info :: nvm_info where
  "default_nvm_info = \<lparr>nvm_memory_mode_capacity = 0, nvm_app_direct_mode_capacity = 0,
     nvm_avg_power_budget = 0\<rparr>"

record machine_info =
  mi_timestamp :: "gotime"
  mi_cpu_vendor_id :: "string"
  mi_num_cores :: "i64"
  mi_num_physical_cores :: "i64"
  mi_num_sockets :: "i64"
  mi_cpu_frequency :: "u64"
  mi_memory_capacity :: "u64"
  mi_swap_capacity :: "u64"
  mi_memory_by_type :: "(string \<times> dimm_info) list"
  mi_nvm_info :: "nvm_info"
  mi_huge_pages :: "huge_pages_info list"
  mi_machine_id :: "string"
  mi_system_uuid :: "string"
  mi_boot_id :: "string"
  mi_filesystems :: "filesystem_info list"
  mi_disk_map :: "(string \<times> disk_info) list"
  mi_network_devices :: "net_info list"
  mi_topology :: "numa_node list"
  mi_cloud_provider :: "string"
  mi_instance_type :: "string"
  mi_instance_id :: "string"

definition default_machine_info :: machine_info where
  "default_machine_info = \<lparr>mi_timestamp = 0, mi_cpu_vendor_id = [], mi_num_cores = 0,
     mi_num_physical_cores = 0, mi_num_sockets = 0, mi_cpu_frequency = 0, mi_memory_capacity = 0,
     mi_swap_capacity = 0, mi_memory_by_type = [], mi_nvm_info = default_nvm_info, mi_huge_pages =
     [], mi_machine_id = [], mi_system_uuid = [], mi_boot_id = [], mi_filesystems = [], mi_disk_map
     = [], mi_network_devices = [], mi_topology = [], mi_cloud_provider = [], mi_instance_type = [],
     mi_instance_id = []\<rparr>"

record version_info =
  vi_kernel_version :: "string"
  vi_container_os_version :: "string"
  vi_docker_version :: "string"
  vi_docker_api_version :: "string"
  vi_cadvisor_version :: "string"
  vi_cadvisor_revision :: "string"

definition default_version_info :: version_info where
  "default_version_info = \<lparr>vi_kernel_version = [], vi_container_os_version = [],
     vi_docker_version = [], vi_docker_api_version = [], vi_cadvisor_version = [],
     vi_cadvisor_revision = []\<rparr>"


text \<open>\<open>ContainerInfoRequest::default\<close>: the sixty most recent samples, no time bound.\<close>

definition default_container_info_request :: container_info_request where
  "default_container_info_request = \<lparr>req_num_stats = 60, req_start = 0, req_end = 0\<rparr>"

end
