(* ===== verification/Host_Env.thy ===== *)
theory Host_Env
  imports Model_V1
begin

text \<open>
  What the host crate sees of the operating system, and its error type
  (\<open>crates/cadvisor-host/src/error.rs\<close>). The operating system is the record \<open>os\<close>: the answers of
  \<open>std::fs\<close> at the time of one operation of the program. Every theorem holds for every \<open>os\<close>; the
  ones that need a fact about it name it as a hypothesis. A \<open>Result\<close> is a sum, \<open>Inl\<close> the error.
\<close>

section \<open>Results\<close>

type_synonym ('e, 'a) res = "'e + 'a"

text \<open>The \<open>?\<close> operator.\<close>

definition res_bind :: "('e, 'a) res \<Rightarrow> ('a \<Rightarrow> ('e, 'b) res) \<Rightarrow> ('e, 'b) res" where
  "res_bind r f = (case r of Inl e \<Rightarrow> Inl e | Inr x \<Rightarrow> f x)"

definition res_map_err :: "('e \<Rightarrow> 'f) \<Rightarrow> ('e, 'a) res \<Rightarrow> ('f, 'a) res" where
  "res_map_err f r = map_sum f id r"

definition res_map :: "('a \<Rightarrow> 'b) \<Rightarrow> ('e, 'a) res \<Rightarrow> ('e, 'b) res" where
  "res_map f r = map_sum id f r"

definition res_ok :: "('e, 'a) res \<Rightarrow> 'a option" where
  "res_ok r = (case r of Inl _ \<Rightarrow> None | Inr x \<Rightarrow> Some x)"

definition is_ok :: "('e, 'a) res \<Rightarrow> bool" where
  "is_ok r = (case r of Inl _ \<Rightarrow> False | Inr _ \<Rightarrow> True)"

named_theorems res_simps \<open>rules for results\<close>

lemma res_bind_simps [simp, res_simps]:
  "res_bind (Inl e) f = Inl e" "res_bind (Inr x) f = f x"
  by (simp_all add: res_bind_def)

lemma res_map_simps [simp, res_simps]:
  "res_map f (Inl e) = Inl e" "res_map f (Inr x) = Inr (f x)"
  "res_map_err g (Inl e) = Inl (g e)" "res_map_err g (Inr x) = Inr x"
  by (simp_all add: res_map_def res_map_err_def)

lemma res_ok_simps [simp, res_simps]: "res_ok (Inl e) = None" "res_ok (Inr x) = Some x"
  by (simp_all add: res_ok_def)

lemma is_ok_simps [simp, res_simps]: "\<not> is_ok (Inl e)" "is_ok (Inr x)"
  by (simp_all add: is_ok_def)

lemma res_bind_Inr: "res_bind r f = Inr y \<longleftrightarrow> (\<exists>x. r = Inr x \<and> f x = Inr y)"
  by (cases r) auto

lemma res_bind_Inl: "res_bind r f = Inl e \<longleftrightarrow> r = Inl e \<or> (\<exists>x. r = Inr x \<and> f x = Inl e)"
  by (cases r) auto

section \<open>The operating system and host errors\<close>

datatype io_kind = NotFound | OtherKind nat

text \<open>A directory entry: its name and whether its file type is known to be a directory.\<close>

record os =
  os_read :: "string \<Rightarrow> (io_kind, string) res"
  os_mtime :: "string \<Rightarrow> (io_kind, gotime option) res"
  os_exists :: "string \<Rightarrow> bool"
  os_is_dir :: "string \<Rightarrow> bool"
  os_read_dir :: "string \<Rightarrow> (io_kind, (io_kind, string \<times> bool) res list) res"

datatype host_error = Io string io_kind | Parse string string

definition host_io :: "string \<Rightarrow> io_kind \<Rightarrow> host_error" where
  "host_io path source = Io path source"

definition host_parse :: "string \<Rightarrow> string \<Rightarrow> host_error" where
  "host_parse what detail = Parse what detail"

fun is_not_found :: "host_error \<Rightarrow> bool" where
  "is_not_found (Io _ source) \<longleftrightarrow> source = NotFound"
| "is_not_found (Parse _ _) \<longleftrightarrow> False"

text \<open>\<open>Path::join\<close>: an absolute argument replaces, otherwise one separator is put between.\<close>

definition path_join :: "string \<Rightarrow> string \<Rightarrow> string" where
  "path_join a b =
     (if starts_with b ''/'' then b
      else if a = [] \<or> last a = CHR ''/'' then a @ b
      else a @ CHR ''/'' # b)"

end
