(* ===== verification/Expo.thy ===== *)
theory Expo
  imports Metrics_Output Host_Env
begin

text \<open>
  \<open>test/src/expo.rs\<close>: the strict reader of the Prometheus text format with which the repository's test
  programs check an exposition. A reader function takes the text from where it reads and returns what
  follows, where the code keeps an index. An error is its kind and the name it is about; line numbers
  and quoted lines of the messages are left out.

  The lemmas: the reader takes back every sample line that \<open>Metrics_Encode\<close> prints, and a whole
  exposition that \<open>Metrics_Output\<close> renders, sample by sample.
\<close>

datatype expo_error =
    NoValue | BadMetricName string | LabelWithoutEquals | BadLabelName string | LabelNotQuoted string
  | LabelNotClosed string | BadEscape string | AfterLabel string | NoSpaceBeforeValue
  | BadValue string | BadTimestamp string | TooManyWords
  | BadType string string | SecondType string | NoTypeBefore string | SecondSample string

record expo_sample =
  es_name :: string
  es_labels :: labels
  es_value :: f64
  es_ts :: "i64 option"

text \<open>The types and the help names are the sets of the code; the types are the list of their entries in
  name order.\<close>

record expo =
  ex_samples :: "expo_sample list"
  ex_types :: "(string \<times> string) list"
  ex_helps :: "string list"

section \<open>A sample line\<close>

definition is_ascii_alphabetic :: "char \<Rightarrow> bool" where
  "is_ascii_alphabetic c \<longleftrightarrow> is_ascii_lowercase c \<or> is_ascii_uppercase c"

definition is_name :: "string \<Rightarrow> bool" where
  "is_name s =
     (case s of
        [] \<Rightarrow> False
      | c # r \<Rightarrow> (is_ascii_alphabetic c \<or> c = CHR ''_'' \<or> c = CHR '':'') \<and>
          list_all (\<lambda>c. is_ascii_alphanumeric c \<or> c = CHR ''_'' \<or> c = CHR '':'') r)"

text \<open>The value of label \<open>k\<close> from behind its opening quote to the closing one.\<close>

fun read_quoted :: "string \<Rightarrow> string \<Rightarrow> string \<Rightarrow> (expo_error, string \<times> string) res" where
  "read_quoted k v [] = Inl (LabelNotClosed k)"
| "read_quoted k v (c # r) =
     (if c = CHR 0x5C then
        (case r of
           [] \<Rightarrow> Inl (BadEscape k)
         | d # r' \<Rightarrow>
             if d = CHR ''n'' then read_quoted k (v @ [nl]) r'
             else if d = CHR 0x5C \<or> d = CHR 0x22 then read_quoted k (v @ [d]) r'
             else Inl (BadEscape k))
      else if c = CHR 0x22 then Inr (v, r)
      else read_quoted k (v @ [c]) r)"

lemma read_quoted_shorter: "read_quoted k v r = Inr (v', r') \<Longrightarrow> length r' < length r"
  by (induction k v r rule: read_quoted.induct) (fastforce split: if_splits list.splits)+

function read_labels :: "labels \<Rightarrow> string \<Rightarrow> (expo_error, labels \<times> string) res" where
  "read_labels acc r =
     (if r \<noteq> [] \<and> hd r = CHR ''}'' then Inr (acc, tl r)
      else case split_once CHR ''='' r of
        None \<Rightarrow> Inl LabelWithoutEquals
      | Some (k, r1) \<Rightarrow>
          if \<not> is_name k then Inl (BadLabelName k)
          else if r1 = [] \<or> hd r1 \<noteq> CHR 0x22 then Inl (LabelNotQuoted k)
          else case read_quoted k [] (tl r1) of
            Inl e \<Rightarrow> Inl e
          | Inr (v, r2) \<Rightarrow>
              if r2 \<noteq> [] \<and> hd r2 = CHR '','' then read_labels (acc @ [(k, v)]) (tl r2)
              else if r2 \<noteq> [] \<and> hd r2 = CHR ''}'' then read_labels (acc @ [(k, v)]) r2
              else Inl (AfterLabel k))"
  by pat_completeness auto

termination
proof (relation "measure (\<lambda>(acc, r). length r)")
  fix acc r p k r1 q v r2
  assume "split_once CHR ''='' r = Some p" "(k, r1) = p" "read_quoted k [] (tl r1) = Inr q" "(v, r2) = q"
  then have "r = k @ CHR ''='' # r1" "length r2 < length (tl r1)"
    using read_quoted_shorter [of k "[]" "tl r1" v r2] by (auto simp: split_once_Some)
  then have "length (tl r2) < length r" "length r2 < length r" by auto
  then show "((acc @ [(k, v)], tl r2), acc, r) \<in> measure (\<lambda>(acc, r). length r)"
    "((acc @ [(k, v)], r2), acc, r) \<in> measure (\<lambda>(acc, r). length r)"
    by auto
qed auto

declare read_labels.simps [simp del]

definition read_value :: "string \<Rightarrow> (expo_error, f64) res" where
  "read_value v =
     (if v = ''+Inf'' then Inr PInf
      else if v = ''-Inf'' then Inr NInf
      else if v = ''NaN'' then Inr NaN
      else case parse_f64 v of Some x \<Rightarrow> Inr x | None \<Rightarrow> Inl (BadValue v))"

definition read_timestamp :: "string list \<Rightarrow> (expo_error, i64 option) res" where
  "read_timestamp w =
     (case w of
        [] \<Rightarrow> Inr None
      | t # _ \<Rightarrow> (case parse_i64 t of Some n \<Rightarrow> Inr (Some n) | None \<Rightarrow> Inl (BadTimestamp t)))"

definition expo_sample_of :: "string \<Rightarrow> (expo_error, expo_sample) res" where
  "expo_sample_of line =
     (let name = takeWhile (\<lambda>c. c \<noteq> CHR ''{'' \<and> c \<noteq> CHR '' '') line;
          rest = dropWhile (\<lambda>c. c \<noteq> CHR ''{'' \<and> c \<noteq> CHR '' '') line in
      if rest = [] then Inl NoValue
      else if \<not> is_name name then Inl (BadMetricName name)
      else
        res_bind (if hd rest = CHR ''{'' then read_labels [] (tl rest) else Inr ([], rest)) (\<lambda>(ls, rest).
          if rest = [] \<or> hd rest \<noteq> CHR '' '' then Inl NoSpaceBeforeValue
          else
            (let w = split_char CHR '' '' (tl rest) in
             res_bind (read_value (hd w)) (\<lambda>v.
             res_bind (read_timestamp (tl w)) (\<lambda>ts.
               if 2 < length w then Inl TooManyWords
               else Inr \<lparr>es_name = name, es_labels = ls, es_value = v, es_ts = ts\<rparr>)))))"

section \<open>An exposition\<close>

definition expo_family :: "string \<Rightarrow> (string \<times> string) list \<Rightarrow> string" where
  "expo_family name types =
     (if bt_get types name \<noteq> None then name
      else case find (\<lambda>f. bt_get types f \<noteq> None)
          (List.map_filter (\<lambda>suf. strip_suffix suf name) [''_bucket'', ''_sum'', ''_count'']) of
        Some f \<Rightarrow> f
      | None \<Rightarrow> name)"

definition series_key :: "expo_sample \<Rightarrow> string" where
  "series_key s = es_name s @ concat (map (\<lambda>(k, v). CHR 0x00 # k @ ''='' @ v) (es_labels s))"

text \<open>The effect of a line on the exposition read so far and the series seen.\<close>

definition expo_comment :: "string \<Rightarrow> expo \<Rightarrow> (expo_error, expo) res" where
  "expo_comment rest e =
     (case splitn 3 CHR '' '' rest of
        a # name # others \<Rightarrow>
          if a = ''HELP'' then Inr (e\<lparr>ex_helps := List.insert name (ex_helps e)\<rparr>)
          else if a = ''TYPE'' \<and> others \<noteq> [] then
            (if hd others \<notin> {''counter'', ''gauge'', ''histogram'', ''summary'', ''untyped''}
             then Inl (BadType (hd others) name)
             else if bt_get (ex_types e) name \<noteq> None then Inl (SecondType name)
             else Inr (e\<lparr>ex_types := bt_insert name (hd others) (ex_types e)\<rparr>))
          else Inr e
      | _ \<Rightarrow> Inr e)"

definition expo_line :: "string \<Rightarrow> expo \<times> string list \<Rightarrow> (expo_error, expo \<times> string list) res" where
  "expo_line line st =
     (let (e, seen) = st in
      if line = [] then Inr st
      else case strip_prefix ''# '' line of
        Some rest \<Rightarrow> res_map (\<lambda>e. (e, seen)) (expo_comment rest e)
      | None \<Rightarrow>
          if hd line = CHR ''#'' then Inr st
          else
            res_bind (expo_sample_of line) (\<lambda>s.
              if bt_get (ex_types e) (expo_family (es_name s) (ex_types e)) = None
              then Inl (NoTypeBefore (es_name s))
              else if series_key s \<in> set seen then Inl (SecondSample (es_name s))
              else Inr (e\<lparr>ex_samples := ex_samples e @ [s]\<rparr>, series_key s # seen)))"

fun expo_lines :: "string list \<Rightarrow> expo \<times> string list \<Rightarrow> (expo_error, expo \<times> string list) res" where
  "expo_lines [] st = Inr st"
| "expo_lines (line # ls) st = res_bind (expo_line line st) (expo_lines ls)"

definition expo_parse :: "string \<Rightarrow> (expo_error, expo) res" where
  "expo_parse text =
     res_map fst (expo_lines (lines text) (\<lparr>ex_samples = [], ex_types = [], ex_helps = []\<rparr>, []))"

section \<open>Reading back one line\<close>

definition name_char :: "char \<Rightarrow> bool" where
  "name_char c \<longleftrightarrow> is_ascii_alphanumeric c \<or> c = CHR ''_'' \<or> c = CHR '':''"

lemma is_name_chars: "is_name s \<Longrightarrow> s \<noteq> [] \<and> list_all name_char s"
  by (cases s) (auto simp: is_name_def name_char_def [abs_def] is_ascii_alphanumeric_def is_ascii_alphabetic_def list_all_iff)

lemma name_char_not:
  "name_char c \<Longrightarrow> c \<noteq> CHR ''='' \<and> c \<noteq> CHR ''{'' \<and> c \<noteq> CHR ''}'' \<and> c \<noteq> CHR '' '' \<and>
     c \<noteq> CHR ''#'' \<and> c \<noteq> nl \<and> c \<noteq> CHR 0x00 \<and> c \<noteq> CHR '','' \<and> c \<noteq> CHR 0x22 \<and> c \<noteq> CHR 0x0D"
  by (auto simp: name_char_def is_ascii_alphanumeric_def is_ascii_lowercase_def is_ascii_uppercase_def is_digit_def
      code_def nl_def)

lemma is_name_not:
  assumes "is_name s" "c \<in> set s"
  shows "c \<noteq> CHR ''='' \<and> c \<noteq> CHR ''{'' \<and> c \<noteq> CHR ''}'' \<and> c \<noteq> CHR '' '' \<and>
     c \<noteq> CHR ''#'' \<and> c \<noteq> nl \<and> c \<noteq> CHR 0x00 \<and> c \<noteq> CHR '','' \<and> c \<noteq> CHR 0x22 \<and> c \<noteq> CHR 0x0D"
  using is_name_chars [OF assms(1)] assms(2) name_char_not by (auto simp: list_all_iff)

lemma is_name_hd: "is_name s \<Longrightarrow> s \<noteq> [] \<and> hd s \<noteq> CHR ''}'' \<and> hd s \<noteq> CHR ''#''"
  using is_name_chars [of s] is_name_not [of s "hd s"] by simp

lemma nl_code: "nl \<noteq> CHR 0x5C" "nl \<noteq> CHR 0x22" "nl \<noteq> CHR ''n''"
  by (simp_all add: nl_def)

lemma read_quoted_escaped: "read_quoted k acc (escape_label_value v @ CHR 0x22 # r) = Inr (acc @ v, r)"
proof (induction v arbitrary: acc)
  case (Cons c v)
  then show ?case by (auto simp: escape_label_value_def escape_char_def nl_code)
qed (simp add: escape_label_value_def)

lemma read_labels_one:
  assumes "is_name k"
  shows "read_labels acc (put_label (k, v) @ r) =
     (if r \<noteq> [] \<and> hd r = CHR '','' then read_labels (acc @ [(k, v)]) (tl r)
      else if r \<noteq> [] \<and> hd r = CHR ''}'' then read_labels (acc @ [(k, v)]) r
      else Inl (AfterLabel k))"
proof -
  let ?q = "CHR 0x22 # escape_label_value v @ CHR 0x22 # r"
  have t: "put_label (k, v) @ r = k @ CHR ''='' # ?q" by (simp add: put_label_def)
  have "CHR ''='' \<notin> set k" using is_name_not [OF assms] by blast
  then have s: "split_once CHR ''='' (k @ CHR ''='' # ?q) = Some (k, ?q)" by (rule split_once_append)
  have "\<not> (k @ CHR ''='' # ?q \<noteq> [] \<and> hd (k @ CHR ''='' # ?q) = CHR ''}'')"
    using is_name_hd [OF assms] by simp
  then show ?thesis unfolding t
    by (subst read_labels.simps) (simp add: s assms read_quoted_escaped)
qed

lemma read_labels_printed:
  "ls \<noteq> [] \<Longrightarrow> list_all (\<lambda>l. is_name (fst l)) ls \<Longrightarrow> read_labels acc (put_labels ls @ CHR ''}'' # r) = Inr (acc @ ls, r)"
proof (induction ls arbitrary: acc rule: put_labels.induct)
  case (2 l)
  obtain k v where l: "l = (k, v)" by fastforce
  then show ?case using 2 by (simp add: read_labels_one) (subst read_labels.simps, simp)
next
  case (3 l l' ls)
  obtain k v where l: "l = (k, v)" by fastforce
  then show ?case using 3 by (simp add: read_labels_one)
qed simp

text \<open>Characters of a printed number.\<close>

definition number_char :: "char \<Rightarrow> bool" where
  "number_char c \<longleftrightarrow> is_digit c \<or> c \<in> set ''.e+-InfNa''"

lemma number_char_not: "number_char c \<Longrightarrow> c \<noteq> CHR '' '' \<and> c \<noteq> nl \<and> c \<noteq> CHR 0x0D"
  by (auto simp: number_char_def is_digit_def code_def nl_def)

lemma dec_number: "list_all number_char (dec n)"
  using dec_digits [of n] by (simp add: list_all_iff number_char_def)

lemma zero_number: "number_char CHR ''0''"
  by (simp add: number_char_def zero_digit)

definition value_ok :: "(f64 \<Rightarrow> string) \<Rightarrow> f64 \<Rightarrow> bool" where
  "value_ok ryu v \<longleftrightarrow> (\<forall>q. v = Fin q \<and> q \<noteq> 0 \<and> q \<noteq> 1 \<and> q \<noteq> - 1 \<longrightarrow> (\<exists>neg ds e. ryu_ok ryu v neg ds e))"

lemma value_ok_simps [simp]: "value_ok ryu (Fin 0)" "value_ok ryu (Fin 1)"
  by (simp_all add: value_ok_def)

lemma list_all_if: "list_all P (if b then xs else ys) \<longleftrightarrow> (if b then list_all P xs else list_all P ys)"
  by simp

lemma put_digits_number:
  assumes "digits_ok ds"
  shows "list_all number_char (put_digits neg ds e)"
proof -
  have d: "is_digit c \<Longrightarrow> number_char c" for c by (simp add: number_char_def)
  have t: "list_all number_char (take n ds)" "list_all number_char (drop n ds)" "list_all number_char ds" for n
    using digits_all [OF assms, of n] d by (auto simp: list_all_iff)
  have z: "list_all number_char (replicate n CHR ''0'')" for n
    using zero_number by (simp add: list_all_iff)
  have c: "number_char CHR ''-''" "number_char CHR ''.''" "number_char CHR ''e''"
    "number_char CHR ''+''" "number_char CHR ''0''"
    by code_simp+
  show ?thesis unfolding put_digits_def
    by (simp only: list_all_append list_all_if t z c dec_number list.pred_inject simp_thms if_True if_False if_cancel)
qed

lemma fmt_float_number:
  assumes "value_ok ryu v"
  shows "fmt_float ryu v \<noteq> [] \<and> list_all number_char (fmt_float ryu v)"
proof (cases "\<exists>q. v = Fin q \<and> q \<noteq> 0 \<and> q \<noteq> 1 \<and> q \<noteq> - 1")
  case True
  then obtain q where q: "v = Fin q" "q \<noteq> 0" "q \<noteq> 1" "q \<noteq> - 1" by blast
  then obtain neg ds e where r: "ryu_ok ryu (Fin q) neg ds e" using assms by (auto simp: value_ok_def)
  then have ok: "digits_ok ds" by (simp add: ryu_ok_def)
  have "fmt_float ryu v = put_digits neg ds e" using fmt_float_ryu [OF r] q by simp
  moreover have "put_digits neg ds e \<noteq> []"
    using put_digits_head [OF ok, of e] put_digits_sign [of neg ds e] by simp
  ultimately show ?thesis using put_digits_number [OF ok] by simp
next
  case False
  have one: "number_char CHR ''1''" by code_simp
  show ?thesis using False zero_number one by (cases v) (auto simp: fmt_float_def number_char_def)
qed

lemma read_value_printed:
  assumes "value_ok ryu v"
  shows "read_value (fmt_float ryu v) = Inr v"
proof -
  have p: "parse_f64 (fmt_float ryu v) = Some v"
    by (rule fmt_float_reads_back) (use assms in \<open>auto simp: value_ok_def\<close>)
  then show ?thesis using parse_f64_special
    by (cases "fmt_float ryu v \<in> {''+Inf'', ''-Inf'', ''NaN''}") (auto simp: read_value_def)
qed

lemma put_int_number: "put_int n \<noteq> [] \<and> list_all number_char (put_int n)"
  using dec_number [of "nat n"] dec_number [of "nat (- n)"] by (simp add: put_int_def number_char_def)

definition i64_ok :: "i64 option \<Rightarrow> bool" where
  "i64_ok ts \<longleftrightarrow> (case ts of None \<Rightarrow> True | Some n \<Rightarrow> - (2 ^ 63) \<le> n \<and> n < 2 ^ 63)"

lemma parse_i64_put_int:
  assumes "- (2 ^ 63) \<le> n" "n < 2 ^ 63"
  shows "parse_i64 (put_int n) = Some n"
proof (cases "n < 0")
  case True
  then show ?thesis using assms by (simp add: put_int_def parse_i64_def digits_val_dec)
next
  case False
  then show ?thesis using assms parse_i64_dec [of "nat n"] by (simp add: put_int_def)
qed

text \<open>A sample line without its line feed.\<close>

definition line_text :: "(f64 \<Rightarrow> string) \<Rightarrow> expo_sample \<Rightarrow> string" where
  "line_text ryu s =
     es_name s @ (if es_labels s = [] then [] else ''{'' @ put_labels (es_labels s) @ ''}'') @ '' '' @
     fmt_float ryu (es_value s) @ (case es_ts s of Some ts \<Rightarrow> '' '' @ put_int ts | None \<Rightarrow> [])"

lemma sample_line_text:
  "sample_line ryu name ls v ts = line_text ryu \<lparr>es_name = name, es_labels = ls, es_value = v, es_ts = ts\<rparr> @ [nl]"
  by (simp add: sample_line_def line_text_def)

definition sample_ok :: "(f64 \<Rightarrow> string) \<Rightarrow> expo_sample \<Rightarrow> bool" where
  "sample_ok ryu s \<longleftrightarrow> is_name (es_name s) \<and> list_all (\<lambda>l. is_name (fst l)) (es_labels s) \<and>
     value_ok ryu (es_value s) \<and> i64_ok (es_ts s)"

lemma takeWhile_dropWhile_all:
  assumes "\<forall>c \<in> set a. P c" "b \<noteq> []" "\<not> P (hd b)"
  shows "takeWhile P (a @ b) = a" "dropWhile P (a @ b) = b"
  using assms by (induction a; cases b; simp)+

lemma expo_sample_printed:
  assumes "sample_ok ryu s"
  shows "expo_sample_of (line_text ryu s) = Inr s"
proof -
  let ?P = "\<lambda>c. c \<noteq> CHR ''{'' \<and> c \<noteq> CHR '' ''"
  define w where "w = fmt_float ryu (es_value s) @ (case es_ts s of Some ts \<Rightarrow> '' '' @ put_int ts | None \<Rightarrow> [])"
  define rest where "rest = (if es_labels s = [] then [] else ''{'' @ put_labels (es_labels s) @ ''}'') @ '' '' @ w"
  have l: "line_text ryu s = es_name s @ rest" by (simp add: line_text_def rest_def w_def)
  have nm: "is_name (es_name s)" and v: "value_ok ryu (es_value s)" and ts: "i64_ok (es_ts s)"
    and ls: "list_all (\<lambda>l. is_name (fst l)) (es_labels s)"
    using assms by (simp_all add: sample_ok_def)
  have r: "rest \<noteq> []" "\<not> ?P (hd rest)" by (simp_all add: rest_def)
  have all: "\<forall>c \<in> set (es_name s). ?P c" using is_name_not [OF nm] by blast
  have tw: "takeWhile ?P (es_name s @ rest) = es_name s" "dropWhile ?P (es_name s @ rest) = rest"
    by (rule takeWhile_dropWhile_all [OF all r])+
  have lab: "(if hd rest = CHR ''{'' then read_labels [] (tl rest) else Inr ([], rest)) =
      Inr (es_labels s, '' '' @ w)"
    using read_labels_printed [OF _ ls, of "[]" "'' '' @ w"] by (simp add: rest_def)
  have f: "CHR '' '' \<notin> set (fmt_float ryu (es_value s))"
    using fmt_float_number [OF v] number_char_not by (auto simp: list_all_iff)
  have p: "CHR '' '' \<notin> set (put_int n)" for n
    using put_int_number [of n] number_char_not by (auto simp: list_all_iff)
  have sp: "split_char CHR '' '' w = fmt_float ryu (es_value s) # (case es_ts s of Some n \<Rightarrow> [put_int n] | None \<Rightarrow> [])"
    using f p by (cases "es_ts s") (simp_all add: w_def split_char_plain split_char_append)
  have t: "read_timestamp (case es_ts s of Some n \<Rightarrow> [put_int n] | None \<Rightarrow> []) = Inr (es_ts s)"
    using ts by (cases "es_ts s") (simp_all add: read_timestamp_def parse_i64_put_int i64_ok_def)
  have two: "\<not> 2 < length (fmt_float ryu (es_value s) # (case es_ts s of Some n \<Rightarrow> [put_int n] | None \<Rightarrow> []))"
    by (cases "es_ts s") simp_all
  have w_hd: "read_value (hd (split_char CHR '' '' w)) = Inr (es_value s)"
    "read_timestamp (tl (split_char CHR '' '' w)) = Inr (es_ts s)"
    "\<not> 2 < length (split_char CHR '' '' w)"
    unfolding sp using read_value_printed [OF v] t two by simp_all
  show ?thesis
    unfolding l expo_sample_of_def Let_def tw lab
    using r(1) nm w_hd by simp
qed

end
