(* ===== verification/Host_Parse.thy ===== *)
theory Host_Parse
  imports Model_V1 F64_Text
begin

text \<open>
  \<open>crates/cadvisor-host/src/parse.rs\<close>: the parsers for cgroup, procfs and sysfs files, one
  definition per function, one record per struct. A \<open>for\<close> loop that updates one accumulator is a
  \<open>fold\<close> over what it iterates, a loop that pushes rows or \<open>continue\<close>s is \<open>List.map_filter\<close> with
  \<open>None\<close> for \<open>continue\<close>. The lemmas state what each parser extracts from any input, and that it
  reads back what the kernel prints.
\<close>

section \<open>Flat-keyed files\<close>

definition u64_field :: "string \<Rightarrow> u64" where
  "u64_field s = (case parse_u64 s of Some v \<Rightarrow> v | None \<Rightarrow> 0)"

definition flat_keyed :: "string \<Rightarrow> (string \<times> string) list" where
  "flat_keyed content = List.map_filter (split_once CHR '' '') (lines content)"

record cpu_stat_file =
  cs_usage_usec :: u64
  cs_user_usec :: u64
  cs_system_usec :: u64
  cs_nr_periods :: u64
  cs_nr_throttled :: u64
  cs_throttled_usec :: u64

definition default_cpu_stat_file :: cpu_stat_file where
  "default_cpu_stat_file = \<lparr>cs_usage_usec = 0, cs_user_usec = 0, cs_system_usec = 0,
     cs_nr_periods = 0, cs_nr_throttled = 0, cs_throttled_usec = 0\<rparr>"

definition cpu_stat_line :: "string \<times> string \<Rightarrow> cpu_stat_file \<Rightarrow> cpu_stat_file" where
  "cpu_stat_line kv out =
     (let k = fst kv; v = u64_field (snd kv) in
      if k = ''usage_usec'' then out\<lparr>cs_usage_usec := v\<rparr>
      else if k = ''user_usec'' then out\<lparr>cs_user_usec := v\<rparr>
      else if k = ''system_usec'' then out\<lparr>cs_system_usec := v\<rparr>
      else if k = ''nr_periods'' then out\<lparr>cs_nr_periods := v\<rparr>
      else if k = ''nr_throttled'' then out\<lparr>cs_nr_throttled := v\<rparr>
      else if k = ''throttled_usec'' then out\<lparr>cs_throttled_usec := v\<rparr>
      else out)"

definition parse_cpu_stat :: "string \<Rightarrow> cpu_stat_file" where
  "parse_cpu_stat content = fold cpu_stat_line (flat_keyed content) default_cpu_stat_file"

record memory_stat_file =
  ms_anon :: u64
  ms_file :: u64
  ms_file_mapped :: u64
  ms_inactive_file :: u64
  ms_pgfault :: u64
  ms_pgmajfault :: u64

definition default_memory_stat_file :: memory_stat_file where
  "default_memory_stat_file = \<lparr>ms_anon = 0, ms_file = 0, ms_file_mapped = 0,
     ms_inactive_file = 0, ms_pgfault = 0, ms_pgmajfault = 0\<rparr>"

definition memory_stat_line :: "string \<times> string \<Rightarrow> memory_stat_file \<Rightarrow> memory_stat_file" where
  "memory_stat_line kv out =
     (let k = fst kv; v = u64_field (snd kv) in
      if k = ''anon'' then out\<lparr>ms_anon := v\<rparr>
      else if k = ''file'' then out\<lparr>ms_file := v\<rparr>
      else if k = ''file_mapped'' then out\<lparr>ms_file_mapped := v\<rparr>
      else if k = ''inactive_file'' then out\<lparr>ms_inactive_file := v\<rparr>
      else if k = ''pgfault'' then out\<lparr>ms_pgfault := v\<rparr>
      else if k = ''pgmajfault'' then out\<lparr>ms_pgmajfault := v\<rparr>
      else out)"

definition parse_memory_stat :: "string \<Rightarrow> memory_stat_file" where
  "parse_memory_stat content = fold memory_stat_line (flat_keyed content) default_memory_stat_file"

section \<open>Single-value files and cpu.max\<close>

definition u64_MAX :: u64 where
  "u64_MAX = - 1"

definition parse_u64_or_max :: "string \<Rightarrow> u64" where
  "parse_u64_or_max content =
     (let t = trim content in
      if t = ''max'' then u64_MAX else (case parse_u64 t of Some v \<Rightarrow> v | None \<Rightarrow> 0))"

definition parse_cpu_max :: "string \<Rightarrow> u64 option \<times> u64" where
  "parse_cpu_max content =
     (let it = split_whitespace content;
          quota = (case it of [] \<Rightarrow> None | v # _ \<Rightarrow> if v = ''max'' then None else parse_u64 v);
          period = (case it of _ # p # _ \<Rightarrow> u64_field p | _ \<Rightarrow> 100000)
      in (quota, period))"

definition cpu_weight_to_shares :: "u64 \<Rightarrow> u64" where
  "cpu_weight_to_shares weight =
     (if weight = 0 then 0 else 2 + ((weight - 1) * 262142) div 9999)"

section \<open>io.stat\<close>

record io_dev_stat =
  io_major :: u64
  io_minor :: u64
  io_rbytes :: u64
  io_wbytes :: u64
  io_rios :: u64
  io_wios :: u64

definition io_field :: "string \<Rightarrow> io_dev_stat \<Rightarrow> io_dev_stat" where
  "io_field kv row =
     (case split_once CHR ''='' kv of
        None \<Rightarrow> row
      | Some (k, v) \<Rightarrow>
          (let v = u64_field v in
           if k = ''rbytes'' then row\<lparr>io_rbytes := v\<rparr>
           else if k = ''wbytes'' then row\<lparr>io_wbytes := v\<rparr>
           else if k = ''rios'' then row\<lparr>io_rios := v\<rparr>
           else if k = ''wios'' then row\<lparr>io_wios := v\<rparr>
           else row))"

definition io_stat_line :: "string \<Rightarrow> io_dev_stat option" where
  "io_stat_line line =
     (case split_whitespace line of
        [] \<Rightarrow> None
      | dev # kvs \<Rightarrow>
          (case split_once CHR '':'' dev of
             None \<Rightarrow> None
           | Some (major, minor) \<Rightarrow>
               Some (fold io_field kvs
                 \<lparr>io_major = u64_field major, io_minor = u64_field minor,
                  io_rbytes = 0, io_wbytes = 0, io_rios = 0, io_wios = 0\<rparr>)))"

definition parse_io_stat :: "string \<Rightarrow> io_dev_stat list" where
  "parse_io_stat content = List.map_filter io_stat_line (lines content)"

section \<open>Network files\<close>

definition ignored_interface :: "string \<Rightarrow> bool" where
  "ignored_interface name =
     list_ex (\<lambda>p. starts_with (to_ascii_lowercase name) p) [''lo'', ''veth'', ''docker'', ''nerdctl'']"

text \<open>\<open>line.replacen(':', " ", 1)\<close>.\<close>

fun replace_first :: "char \<Rightarrow> char \<Rightarrow> string \<Rightarrow> string" where
  "replace_first a b [] = []"
| "replace_first a b (c # s) = (if c = a then b # s else c # replace_first a b s)"

definition net_dev_line :: "string \<Rightarrow> interface_stats option" where
  "net_dev_line line =
     (let f = split_whitespace (replace_first CHR '':'' CHR '' '' line) in
      if length f \<noteq> 17 \<or> ignored_interface (f ! 0) then None
      else Some \<lparr>iface_name = f ! 0,
        iface_rx_bytes = u64_field (f ! 1), iface_rx_packets = u64_field (f ! 2),
        iface_rx_errors = u64_field (f ! 3), iface_rx_dropped = u64_field (f ! 4),
        iface_tx_bytes = u64_field (f ! 9), iface_tx_packets = u64_field (f ! 10),
        iface_tx_errors = u64_field (f ! 11), iface_tx_dropped = u64_field (f ! 12)\<rparr>)"

definition parse_proc_net_dev :: "string \<Rightarrow> interface_stats list" where
  "parse_proc_net_dev content = List.map_filter net_dev_line (drop 2 (lines content))"

definition tcp_line :: "string \<Rightarrow> tcp_stat \<Rightarrow> tcp_stat" where
  "tcp_line line out =
     (case drop 3 (split_whitespace line) of
        [] \<Rightarrow> out
      | st # _ \<Rightarrow>
          if st = ''01'' then out\<lparr>tcp_established := tcp_established out + 1\<rparr>
          else if st = ''02'' then out\<lparr>tcp_syn_sent := tcp_syn_sent out + 1\<rparr>
          else if st = ''03'' then out\<lparr>tcp_syn_recv := tcp_syn_recv out + 1\<rparr>
          else if st = ''04'' then out\<lparr>tcp_fin_wait1 := tcp_fin_wait1 out + 1\<rparr>
          else if st = ''05'' then out\<lparr>tcp_fin_wait2 := tcp_fin_wait2 out + 1\<rparr>
          else if st = ''06'' then out\<lparr>tcp_time_wait := tcp_time_wait out + 1\<rparr>
          else if st = ''07'' then out\<lparr>tcp_close := tcp_close out + 1\<rparr>
          else if st = ''08'' then out\<lparr>tcp_close_wait := tcp_close_wait out + 1\<rparr>
          else if st = ''09'' then out\<lparr>tcp_last_ack := tcp_last_ack out + 1\<rparr>
          else if st = ''0A'' then out\<lparr>tcp_listen := tcp_listen out + 1\<rparr>
          else if st = ''0B'' then out\<lparr>tcp_closing := tcp_closing out + 1\<rparr>
          else out)"

definition parse_tcp_states :: "string \<Rightarrow> tcp_stat" where
  "parse_tcp_states content = fold tcp_line (drop 1 (lines content)) default_tcp_stat"

definition hex_field :: "string \<Rightarrow> u64" where
  "hex_field s = (case parse_hex u64_max s of Some v \<Rightarrow> of_nat v | None \<Rightarrow> 0)"

definition udp_line :: "string \<Rightarrow> udp_stat \<Rightarrow> udp_stat" where
  "udp_line line out =
     (let f = split_whitespace line in
      if length f < 13 then out
      else
        let out = out\<lparr>udp_listen := udp_listen out + 1\<rparr>;
            out = (case split_once CHR '':'' (f ! 4) of
                     Some (tx, rx) \<Rightarrow>
                       out\<lparr>udp_tx_queued := udp_tx_queued out + hex_field tx,
                           udp_rx_queued := udp_rx_queued out + hex_field rx\<rparr>
                   | None \<Rightarrow> out)
        in out\<lparr>udp_dropped := udp_dropped out + u64_field (f ! 12)\<rparr>)"

definition parse_udp_stats :: "string \<Rightarrow> udp_stat" where
  "parse_udp_stats content = fold udp_line (drop 1 (lines content)) default_udp_stat"

section \<open>meminfo and cpuinfo\<close>

record mem_info =
  mi_total_bytes :: u64
  mi_swap_bytes :: u64

text \<open>The second word of a line, as a \<open>u64\<close>.\<close>

definition meminfo_value :: "string list \<Rightarrow> u64" where
  "meminfo_value rest = (case rest of v # _ \<Rightarrow> u64_field v | [] \<Rightarrow> 0)"

definition meminfo_line :: "string \<Rightarrow> mem_info \<Rightarrow> mem_info" where
  "meminfo_line line out =
     (case split_whitespace line of
        [] \<Rightarrow> out
      | k # rest \<Rightarrow>
          if k = ''MemTotal:'' then out\<lparr>mi_total_bytes := meminfo_value rest * 1024\<rparr>
          else if k = ''SwapTotal:'' then out\<lparr>mi_swap_bytes := meminfo_value rest * 1024\<rparr>
          else out)"

definition parse_meminfo :: "string \<Rightarrow> mem_info" where
  "parse_meminfo content = fold meminfo_line (lines content) \<lparr>mi_total_bytes = 0, mi_swap_bytes = 0\<rparr>"

record cpu_info_summary =
  ci_vendor_id :: string
  ci_physical_cores :: i64
  ci_sockets :: i64
  ci_khz_fallback :: u64

text \<open>The state of the loop: the summary, the two \<open>BTreeSet\<close>s as lists without duplicates, and the
  current \<open>physical id\<close>.\<close>

record cpuinfo_state =
  cp_out :: cpu_info_summary
  cp_sockets :: "i64 list"
  cp_cores :: "(i64 \<times> i64) list"
  cp_cur :: i64

definition i64_field :: "string \<Rightarrow> i64" where
  "i64_field s = (case parse_i64 s of Some v \<Rightarrow> v | None \<Rightarrow> 0)"

definition khz_of :: "string \<Rightarrow> u64" where
  "khz_of v = f64_to_u64 (f64_mul (case parse_f64 v of Some x \<Rightarrow> x | None \<Rightarrow> Fin 0) (Fin 1000))"

definition cpuinfo_line :: "string \<Rightarrow> cpuinfo_state \<Rightarrow> cpuinfo_state" where
  "cpuinfo_line line s =
     (case split_once CHR '':'' line of
        None \<Rightarrow> s
      | Some (k, v) \<Rightarrow>
          (let k = trim k; v = trim v in
           if k = ''vendor_id'' \<and> ci_vendor_id (cp_out s) = [] then
             s\<lparr>cp_out := (cp_out s)\<lparr>ci_vendor_id := v\<rparr>\<rparr>
           else if k = ''physical id'' then
             s\<lparr>cp_cur := i64_field v, cp_sockets := List.insert (i64_field v) (cp_sockets s)\<rparr>
           else if k = ''core id'' then
             s\<lparr>cp_cores := List.insert (cp_cur s, i64_field v) (cp_cores s)\<rparr>
           else if k = ''cpu MHz'' \<and> ci_khz_fallback (cp_out s) = 0 then
             s\<lparr>cp_out := (cp_out s)\<lparr>ci_khz_fallback := khz_of v\<rparr>\<rparr>
           else s))"

definition parse_cpuinfo :: "string \<Rightarrow> cpu_info_summary" where
  "parse_cpuinfo content =
     (let s = fold cpuinfo_line (lines content)
        \<lparr>cp_out = \<lparr>ci_vendor_id = [], ci_physical_cores = 0, ci_sockets = 0, ci_khz_fallback = 0\<rparr>,
         cp_sockets = [], cp_cores = [], cp_cur = 0\<rparr>
      in (cp_out s)\<lparr>ci_physical_cores := int (length (cp_cores s)),
                     ci_sockets := int (length (cp_sockets s))\<rparr>)"

section \<open>diskstats\<close>

text \<open>\<open>or_else\<close> of options.\<close>

definition or_else :: "'a option \<Rightarrow> 'a option \<Rightarrow> 'a option" where
  "or_else a b = (case a of Some x \<Rightarrow> Some x | None \<Rightarrow> b)"

definition diskstats_device_matches :: "string \<Rightarrow> bool" where
  "diskstats_device_matches name =
     (case strip_prefix ''dm-'' name of
        Some rest \<Rightarrow> rest \<noteq> [] \<and> list_all is_digit rest
      | None \<Rightarrow>
          (case or_else (or_else (strip_prefix ''sd'' name) (strip_prefix ''vd'' name))
                  (strip_prefix ''xvd'' name) of
             None \<Rightarrow> False
           | Some rest \<Rightarrow>
               (let letters = length (takeWhile is_ascii_lowercase rest) in
                1 \<le> letters \<and> list_all is_digit (drop letters rest))))"

record disk_stats_line =
  ds_major :: u64
  ds_minor :: u64
  ds_name :: string
  ds_reads_completed :: u64
  ds_reads_merged :: u64
  ds_sectors_read :: u64
  ds_read_time :: u64
  ds_writes_completed :: u64
  ds_writes_merged :: u64
  ds_sectors_written :: u64
  ds_write_time :: u64
  ds_io_in_progress :: u64
  ds_io_time :: u64
  ds_weighted_io_time :: u64

definition diskstats_line :: "string \<Rightarrow> disk_stats_line option" where
  "diskstats_line line =
     (let f = split_whitespace line in
      if length f < 14 \<or> \<not> diskstats_device_matches (f ! 2) then None
      else Some \<lparr>ds_major = u64_field (f ! 0), ds_minor = u64_field (f ! 1), ds_name = f ! 2,
        ds_reads_completed = u64_field (f ! 3), ds_reads_merged = u64_field (f ! 4),
        ds_sectors_read = u64_field (f ! 5), ds_read_time = u64_field (f ! 6),
        ds_writes_completed = u64_field (f ! 7), ds_writes_merged = u64_field (f ! 8),
        ds_sectors_written = u64_field (f ! 9), ds_write_time = u64_field (f ! 10),
        ds_io_in_progress = u64_field (f ! 11), ds_io_time = u64_field (f ! 12),
        ds_weighted_io_time = u64_field (f ! 13)\<rparr>)"

definition parse_diskstats :: "string \<Rightarrow> disk_stats_line list" where
  "parse_diskstats content = List.map_filter diskstats_line (lines content)"

section \<open>mountinfo\<close>

record mount_info_line =
  mt_major :: u64
  mt_minor :: u64
  mt_mountpoint :: string
  mt_fs_type :: string
  mt_source :: string

definition mountinfo_line :: "string \<Rightarrow> mount_info_line option" where
  "mountinfo_line line =
     (case split_once_str '' - '' line of
        None \<Rightarrow> None
      | Some (pre, post) \<Rightarrow>
          (let pre = split_whitespace pre; post = split_whitespace post in
           if length pre < 5 \<or> length post < 2 then None
           else case split_once CHR '':'' (pre ! 2) of
             None \<Rightarrow> None
           | Some (major, minor) \<Rightarrow>
               Some \<lparr>mt_major = u64_field major, mt_minor = u64_field minor,
                 mt_mountpoint = pre ! 4, mt_fs_type = post ! 0, mt_source = post ! 1\<rparr>))"

definition parse_mountinfo :: "string \<Rightarrow> mount_info_line list" where
  "parse_mountinfo content = List.map_filter mountinfo_line (lines content)"

section \<open>What the flat-keyed parsers extract\<close>

text \<open>The value of a key: that of the last line which has it, 0 when no line has it.\<close>

definition last_field :: "string \<Rightarrow> (string \<times> string) list \<Rightarrow> u64" where
  "last_field k kvs = (case map_of (rev kvs) k of Some v \<Rightarrow> u64_field v | None \<Rightarrow> 0)"

lemma last_field_Nil [simp, parse_simps]: "last_field k [] = 0"
  by (simp add: last_field_def)

lemma last_field_snoc [simp, parse_simps]:
  "last_field k (kvs @ [kv]) = (if fst kv = k then u64_field (snd kv) else last_field k kvs)"
  by (cases kv) (simp add: last_field_def)

lemma fold_cpu_stat_line:
  "fold cpu_stat_line kvs default_cpu_stat_file =
     \<lparr>cs_usage_usec = last_field ''usage_usec'' kvs, cs_user_usec = last_field ''user_usec'' kvs,
      cs_system_usec = last_field ''system_usec'' kvs, cs_nr_periods = last_field ''nr_periods'' kvs,
      cs_nr_throttled = last_field ''nr_throttled'' kvs,
      cs_throttled_usec = last_field ''throttled_usec'' kvs\<rparr>"
proof (induction kvs rule: rev_induct)
  case (snoc kv kvs)
  then show ?case by (simp add: cpu_stat_line_def Let_def)
qed (simp add: default_cpu_stat_file_def)

lemma fold_memory_stat_line:
  "fold memory_stat_line kvs default_memory_stat_file =
     \<lparr>ms_anon = last_field ''anon'' kvs, ms_file = last_field ''file'' kvs,
      ms_file_mapped = last_field ''file_mapped'' kvs, ms_inactive_file = last_field ''inactive_file'' kvs,
      ms_pgfault = last_field ''pgfault'' kvs, ms_pgmajfault = last_field ''pgmajfault'' kvs\<rparr>"
proof (induction kvs rule: rev_induct)
  case (snoc kv kvs)
  then show ?case by (simp add: memory_stat_line_def Let_def)
qed (simp add: default_memory_stat_file_def)

section \<open>What the kernel prints\<close>

text \<open>The texts the kernel writes: a line per key, a line per device.\<close>

definition flat_line :: "string \<times> u64 \<Rightarrow> string" where
  "flat_line kv = fst kv @ CHR '' '' # dec (unat (snd kv)) @ [nl]"

definition flat_file :: "(string \<times> u64) list \<Rightarrow> string" where
  "flat_file kvs = concat (map flat_line kvs)"

definition plain_key :: "string \<Rightarrow> bool" where
  "plain_key k \<longleftrightarrow> list_all (\<lambda>c. \<not> is_ws c) k"

lemma plain_key_no: "plain_key k \<Longrightarrow> is_ws c \<Longrightarrow> c \<notin> set k"
  by (auto simp: plain_key_def list_all_iff)

lemma cr_is_ws [simp]: "is_ws CHR 0x0D"
  by (simp add: is_ws_def code_def)

lemma dec_no_cr: "CHR 0x0D \<notin> set (dec n)"
  using dec_no_ws cr_is_ws by blast

lemma flat_keyed_flat_file:
  "list_all (plain_key \<circ> fst) kvs \<Longrightarrow> flat_keyed (flat_file kvs) = map (\<lambda>kv. (fst kv, dec (unat (snd kv)))) kvs"
proof (induction kvs)
  case Nil
  then show ?case by (simp add: flat_keyed_def flat_file_def List.map_filter_def)
next
  case (Cons kv kvs)
  have k: "plain_key (fst kv)" using Cons.prems by simp
  let ?l = "fst kv @ CHR '' '' # dec (unat (snd kv))"
  have l: "nl \<notin> set ?l" "CHR 0x0D \<notin> set ?l"
    using plain_key_no [OF k nl_is_ws] plain_key_no [OF k cr_is_ws] dec_no_nl dec_no_cr
    by (auto simp: nl_def)
  have "lines (flat_file (kv # kvs)) = ?l # lines (flat_file kvs)"
    using lines_plain [OF l, of "flat_file kvs"] by (simp add: flat_file_def flat_line_def)
  moreover have "split_once CHR '' '' ?l = Some (fst kv, dec (unat (snd kv)))"
    using plain_key_no [OF k space_is_ws] by (rule split_once_append)
  ultimately show ?case using Cons by (simp add: flat_keyed_def List.map_filter_simps)
qed

lemma u64_field_dec [simp, parse_simps]: "u64_field (dec (unat v)) = v"
  by (simp add: u64_field_def parse_u64_dec)

section \<open>The device filter as a regular expression\<close>

text \<open>A string of \<open>[a-z]+ [0-9]*\<close>, and one of them after the prefix \<open>p\<close>.\<close>

definition lower_then_digits :: "string \<Rightarrow> bool" where
  "lower_then_digits r \<longleftrightarrow>
     (\<exists>ls ds. r = ls @ ds \<and> ls \<noteq> [] \<and> list_all is_ascii_lowercase ls \<and> list_all is_digit ds)"

definition letters_digits :: "string \<Rightarrow> string \<Rightarrow> bool" where
  "letters_digits p name \<longleftrightarrow> (\<exists>r. name = p @ r \<and> lower_then_digits r)"

lemma digit_not_lower: "is_digit c \<Longrightarrow> \<not> is_ascii_lowercase c"
  by (auto simp: is_digit_def is_ascii_lowercase_def)

lemma letters_then_digits:
  "(let n = length (takeWhile is_ascii_lowercase r) in 1 \<le> n \<and> list_all is_digit (drop n r)) \<longleftrightarrow>
   lower_then_digits r"
  (is "?l \<longleftrightarrow> ?r")
proof
  assume ?l
  then have "takeWhile is_ascii_lowercase r \<noteq> []" "list_all is_digit (dropWhile is_ascii_lowercase r)"
    by (auto simp: Let_def dropWhile_eq_drop)
  moreover have "list_all is_ascii_lowercase (takeWhile is_ascii_lowercase r)"
    by (auto simp: list_all_iff dest: set_takeWhileD)
  ultimately show ?r
    unfolding lower_then_digits_def
    by (intro exI [of _ "takeWhile is_ascii_lowercase r"] exI [of _ "dropWhile is_ascii_lowercase r"])
      simp
next
  assume ?r
  then obtain ls ds where r: "r = ls @ ds" "ls \<noteq> []" "list_all is_ascii_lowercase ls" "list_all is_digit ds"
    unfolding lower_then_digits_def by blast
  have "takeWhile is_ascii_lowercase (ls @ ds) = ls @ takeWhile is_ascii_lowercase ds"
    using r(3) by (simp add: list_all_iff)
  moreover have "takeWhile is_ascii_lowercase ds = []"
    using r(4) digit_not_lower by (cases ds) auto
  ultimately show ?l using r by (simp add: Let_def Suc_le_eq)
qed

lemma letters_digits_strip:
  "letters_digits p name = (case strip_prefix p name of Some r \<Rightarrow> lower_then_digits r | None \<Rightarrow> False)"
  by (auto simp: letters_digits_def strip_prefix_Some split: option.split)

lemma strip_prefix_disjoint:
  "strip_prefix ''dm-'' name = Some r \<Longrightarrow>
     strip_prefix ''sd'' name = None \<and> strip_prefix ''vd'' name = None \<and> strip_prefix ''xvd'' name = None"
  "strip_prefix ''sd'' name = Some r \<Longrightarrow> strip_prefix ''vd'' name = None \<and> strip_prefix ''xvd'' name = None"
  "strip_prefix ''vd'' name = Some r \<Longrightarrow> strip_prefix ''xvd'' name = None"
  by (auto simp: strip_prefix_Some, simp_all add: strip_prefix_def starts_with_def)

section \<open>cpuinfo: the sets behind the counts\<close>

text \<open>A line's key and value, trimmed, and the \<open>(physical id, core id)\<close> pairs of a file: the
  physical id of a core is the one of the last \<open>physical id\<close> line above it, 0 before the first.\<close>

definition key_value :: "string \<Rightarrow> (string \<times> string) option" where
  "key_value line = map_option (\<lambda>(k, v). (trim k, trim v)) (split_once CHR '':'' line)"

fun physical_ids :: "(string \<times> string) list \<Rightarrow> i64 list" where
  "physical_ids [] = []"
| "physical_ids ((k, v) # kvs) =
     (if k = ''physical id'' then i64_field v # physical_ids kvs else physical_ids kvs)"

fun core_ids :: "i64 \<Rightarrow> (string \<times> string) list \<Rightarrow> (i64 \<times> i64) list" where
  "core_ids cur [] = []"
| "core_ids cur ((k, v) # kvs) =
     (if k = ''physical id'' then core_ids (i64_field v) kvs
      else if k = ''core id'' then (cur, i64_field v) # core_ids cur kvs
      else core_ids cur kvs)"

lemma cpuinfo_line_no_colon: "key_value line = None \<Longrightarrow> cpuinfo_line line s = s"
  by (auto simp: key_value_def cpuinfo_line_def split: option.splits)

lemma cpuinfo_line_fields:
  assumes "key_value line = Some (k, v)"
  shows "cp_sockets (cpuinfo_line line s) =
      (if k = ''physical id'' then List.insert (i64_field v) (cp_sockets s) else cp_sockets s)"
    and "cp_cur (cpuinfo_line line s) = (if k = ''physical id'' then i64_field v else cp_cur s)"
    and "cp_cores (cpuinfo_line line s) =
      (if k = ''core id'' then List.insert (cp_cur s, i64_field v) (cp_cores s) else cp_cores s)"
  using assms by (auto simp: key_value_def cpuinfo_line_def Let_def)

lemma fold_cpuinfo:
  "distinct (cp_sockets s) \<Longrightarrow> distinct (cp_cores s) \<Longrightarrow>
   distinct (cp_sockets (fold cpuinfo_line ls s)) \<and> distinct (cp_cores (fold cpuinfo_line ls s)) \<and>
   set (cp_sockets (fold cpuinfo_line ls s)) =
     set (cp_sockets s) \<union> set (physical_ids (List.map_filter key_value ls)) \<and>
   set (cp_cores (fold cpuinfo_line ls s)) =
     set (cp_cores s) \<union> set (core_ids (cp_cur s) (List.map_filter key_value ls))"
proof (induction ls arbitrary: s)
  case (Cons l ls)
  show ?case
  proof (cases "key_value l")
    case None
    then show ?thesis using Cons by (simp add: cpuinfo_line_no_colon List.map_filter_simps)
  next
    case (Some kv)
    obtain k v where kv: "key_value l = Some (k, v)" using Some by (cases kv) auto
    note f = cpuinfo_line_fields [OF kv, of s]
    have "distinct (cp_sockets (cpuinfo_line l s))" "distinct (cp_cores (cpuinfo_line l s))"
      using Cons.prems by (simp_all add: f)
    from Cons.IH [OF this] show ?thesis
      using kv by (auto simp: f List.map_filter_simps)
  qed
qed (simp add: List.map_filter_simps)

section \<open>io.stat and the tcp table\<close>

definition io_kv :: "string \<Rightarrow> u64 \<Rightarrow> string" where
  "io_kv k v = k @ CHR ''='' # dec (unat v)"

text \<open>A row of \<open>io.stat\<close> as the kernel prints it; the discard counters are there and ignored.\<close>

definition io_words :: "u64 \<times> u64 \<Rightarrow> io_dev_stat \<Rightarrow> string list" where
  "io_words discards row =
     [dec (unat (io_major row)) @ CHR '':'' # dec (unat (io_minor row)),
      io_kv ''rbytes'' (io_rbytes row), io_kv ''wbytes'' (io_wbytes row),
      io_kv ''rios'' (io_rios row), io_kv ''wios'' (io_wios row),
      io_kv ''dbytes'' (fst discards), io_kv ''dios'' (snd discards)]"

fun unwords :: "string list \<Rightarrow> string" where
  "unwords [] = []"
| "unwords [w] = w"
| "unwords (w # ws) = w @ CHR '' '' # unwords ws"

definition io_file :: "((u64 \<times> u64) \<times> io_dev_stat) list \<Rightarrow> string" where
  "io_file rows = concat (map (\<lambda>(d, row). unwords (io_words d row) @ [nl]) rows)"

definition word :: "string \<Rightarrow> bool" where
  "word w \<longleftrightarrow> w \<noteq> [] \<and> list_all (\<lambda>c. \<not> is_ws c) w"

lemma split_whitespace_unwords: "list_all word ws \<Longrightarrow> split_whitespace (unwords ws) = ws"
proof (induction ws rule: unwords.induct)
  case (2 w)
  then show ?case by (simp add: word_def split_whitespace_last list_all_iff)
next
  case (3 w v vs)
  then show ?case by (simp add: word_def split_whitespace_word list_all_iff)
qed simp

lemma unwords_no_nl: "list_all word ws \<Longrightarrow> nl \<notin> set (unwords ws) \<and> CHR 0x0D \<notin> set (unwords ws)"
proof (induction ws rule: unwords.induct)
  case (2 w)
  then show ?case using nl_is_ws cr_is_ws by (auto simp: word_def list_all_iff)
next
  case (3 w v vs)
  then have "nl \<notin> set w" "CHR 0x0D \<notin> set w" using nl_is_ws cr_is_ws by (auto simp: word_def list_all_iff)
  then show ?case using 3 by (auto simp: nl_def)
qed simp

lemma word_dec [simp]: "word (dec n)"
  using dec_no_ws by (simp add: word_def list_all_iff)

lemma word_append_cons: "list_all (\<lambda>c. \<not> is_ws c) a \<Longrightarrow> \<not> is_ws c \<Longrightarrow> word b \<Longrightarrow> word (a @ c # b)"
  by (simp add: word_def)

lemma word_imp_no_ws: "word w \<Longrightarrow> list_all (\<lambda>c. \<not> is_ws c) w"
  by (simp add: word_def)

lemma not_ws_simps [simp]: "\<not> is_ws CHR ''=''" "\<not> is_ws CHR '':''"
  by (simp_all add: is_ws_def code_def)

lemma io_words_words: "list_all word (io_words d row)"
proof -
  have k: "word (io_kv k v)" if "list_all (\<lambda>c. \<not> is_ws c) k" for k v
    unfolding io_kv_def using that by (intro word_append_cons) simp_all
  show ?thesis
    by (simp add: io_words_def word_append_cons word_imp_no_ws)
      (intro conjI k; simp add: is_ws_def code_def)
qed

lemma io_field_kv:
  assumes "CHR ''='' \<notin> set k"
  shows "io_field (io_kv k v) row =
     (if k = ''rbytes'' then row\<lparr>io_rbytes := v\<rparr> else if k = ''wbytes'' then row\<lparr>io_wbytes := v\<rparr>
      else if k = ''rios'' then row\<lparr>io_rios := v\<rparr> else if k = ''wios'' then row\<lparr>io_wios := v\<rparr> else row)"
  using assms by (simp add: io_field_def io_kv_def split_once_append Let_def)

lemma io_stat_line_row: "io_stat_line (unwords (io_words d row)) = Some row"
proof -
  have c: "CHR '':'' \<notin> set (dec n)" for n using dec_digits [of n] by (auto simp: is_digit_def code_def)
  show ?thesis
    unfolding io_stat_line_def split_whitespace_unwords [OF io_words_words]
    by (simp add: io_words_def split_once_append [OF c] io_field_kv)
qed

definition tcp_state_of :: "string \<Rightarrow> string option" where
  "tcp_state_of line = (case drop 3 (split_whitespace line) of [] \<Rightarrow> None | st # _ \<Rightarrow> Some st)"

text \<open>The number of lines of a table that are in a state.\<close>

definition tcp_count :: "string \<Rightarrow> string list \<Rightarrow> u64" where
  "tcp_count st ls = of_nat (length (filter (\<lambda>l. tcp_state_of l = Some st) ls))"

lemma tcp_count_simps [simp]:
  "tcp_count st [] = 0"
  "tcp_count st (ls @ [l]) = tcp_count st ls + (if tcp_state_of l = Some st then 1 else 0)"
  by (simp_all add: tcp_count_def)

lemma fold_tcp_line:
  "fold tcp_line ls default_tcp_stat =
     \<lparr>tcp_established = tcp_count ''01'' ls, tcp_syn_sent = tcp_count ''02'' ls,
      tcp_syn_recv = tcp_count ''03'' ls, tcp_fin_wait1 = tcp_count ''04'' ls,
      tcp_fin_wait2 = tcp_count ''05'' ls, tcp_time_wait = tcp_count ''06'' ls,
      tcp_close = tcp_count ''07'' ls, tcp_close_wait = tcp_count ''08'' ls,
      tcp_last_ack = tcp_count ''09'' ls, tcp_listen = tcp_count ''0A'' ls,
      tcp_closing = tcp_count ''0B'' ls\<rparr>"
proof (induction ls rule: rev_induct)
  case (snoc l ls)
  show ?case
  proof (cases "drop 3 (split_whitespace l)")
    case Nil
    then show ?thesis using snoc by (simp add: tcp_line_def tcp_state_of_def)
  next
    case (Cons st rest)
    then have "tcp_state_of l = Some st" by (simp add: tcp_state_of_def)
    then show ?thesis using snoc Cons by (simp add: tcp_line_def)
  qed
qed (simp add: default_tcp_stat_def)

section \<open>Properties\<close>

text \<open>Every field of \<open>cpu.stat\<close> is the value on the last line with its key, 0 if there is none
  or the value is not a number; and the text the kernel prints for given counters, with any other
  lines around, is read back.\<close>

theorem cpu_stat_fields:
  "parse_cpu_stat content =
     \<lparr>cs_usage_usec = last_field ''usage_usec'' (flat_keyed content),
      cs_user_usec = last_field ''user_usec'' (flat_keyed content),
      cs_system_usec = last_field ''system_usec'' (flat_keyed content),
      cs_nr_periods = last_field ''nr_periods'' (flat_keyed content),
      cs_nr_throttled = last_field ''nr_throttled'' (flat_keyed content),
      cs_throttled_usec = last_field ''throttled_usec'' (flat_keyed content)\<rparr> \<and>
   parse_cpu_stat (flat_file [(''usage_usec'', a), (''user_usec'', b), (''system_usec'', c),
      (''nice_usec'', n), (''nr_periods'', d), (''nr_throttled'', e), (''throttled_usec'', f),
      (''nr_bursts'', g)]) =
     \<lparr>cs_usage_usec = a, cs_user_usec = b, cs_system_usec = c, cs_nr_periods = d,
      cs_nr_throttled = e, cs_throttled_usec = f\<rparr>"
proof
  let ?kvs = "[(''usage_usec'', a), (''user_usec'', b), (''system_usec'', c), (''nice_usec'', n),
      (''nr_periods'', d), (''nr_throttled'', e), (''throttled_usec'', f), (''nr_bursts'', g)]"
  have kvs: "flat_keyed (flat_file ?kvs) = map (\<lambda>kv. (fst kv, dec (unat (snd kv)))) ?kvs"
    by (rule flat_keyed_flat_file) (simp add: plain_key_def is_ws_def code_def)
  show "parse_cpu_stat (flat_file [(''usage_usec'', a), (''user_usec'', b), (''system_usec'', c),
      (''nice_usec'', n), (''nr_periods'', d), (''nr_throttled'', e), (''throttled_usec'', f),
      (''nr_bursts'', g)]) =
     \<lparr>cs_usage_usec = a, cs_user_usec = b, cs_system_usec = c, cs_nr_periods = d,
      cs_nr_throttled = e, cs_throttled_usec = f\<rparr>"
    unfolding parse_cpu_stat_def fold_cpu_stat_line kvs by (simp add: last_field_def)
qed (simp add: parse_cpu_stat_def fold_cpu_stat_line)

text \<open>The rows the kernel prints in \<open>io.stat\<close> are read back, one per device, in their order.\<close>

theorem io_stat_roundtrip: "parse_io_stat (io_file rows) = map snd rows"
proof (induction rows)
  case Nil
  then show ?case by (simp add: parse_io_stat_def io_file_def List.map_filter_simps)
next
  case (Cons r rows)
  obtain d row where r: "r = (d, row)" by fastforce
  have "lines (io_file (r # rows)) = unwords (io_words d row) # lines (io_file rows)"
    using unwords_no_nl [OF io_words_words, of d row] by (simp add: r io_file_def lines_plain)
  then show ?case using Cons by (simp add: r parse_io_stat_def List.map_filter_simps io_stat_line_row)
qed

text \<open>C16: the device filter accepts exactly the names of the regular expression in its comment,
  \<open>^(s|v|xv)d[a-z]+\d*$\<close> or \<open>^dm-\d+$\<close>.\<close>

theorem diskstats_filter_regex:
  "diskstats_device_matches name \<longleftrightarrow>
     letters_digits ''sd'' name \<or> letters_digits ''vd'' name \<or> letters_digits ''xvd'' name \<or>
     (\<exists>ds. name = ''dm-'' @ ds \<and> ds \<noteq> [] \<and> list_all is_digit ds)"
proof -
  have dm: "(\<exists>ds. name = ''dm-'' @ ds \<and> ds \<noteq> [] \<and> list_all is_digit ds) =
      (case strip_prefix ''dm-'' name of Some r \<Rightarrow> r \<noteq> [] \<and> list_all is_digit r | None \<Rightarrow> False)"
    by (auto simp: strip_prefix_Some split: option.split) (metis option.distinct(1) strip_prefix_append append_Cons append_Nil)
  show ?thesis
    unfolding dm letters_digits_strip diskstats_device_matches_def or_else_def letters_then_digits
    by (auto split: option.split dest: strip_prefix_disjoint)
qed

text \<open>Each counter of the tcp table is the number of its rows in that state.\<close>

theorem tcp_states_counts:
  "parse_tcp_states content =
     (let rows = drop 1 (lines content) in
      \<lparr>tcp_established = tcp_count ''01'' rows, tcp_syn_sent = tcp_count ''02'' rows,
       tcp_syn_recv = tcp_count ''03'' rows, tcp_fin_wait1 = tcp_count ''04'' rows,
       tcp_fin_wait2 = tcp_count ''05'' rows, tcp_time_wait = tcp_count ''06'' rows,
       tcp_close = tcp_count ''07'' rows, tcp_close_wait = tcp_count ''08'' rows,
       tcp_last_ack = tcp_count ''09'' rows, tcp_listen = tcp_count ''0A'' rows,
       tcp_closing = tcp_count ''0B'' rows\<rparr>)"
  by (simp add: parse_tcp_states_def fold_tcp_line Let_def)

text \<open>C10: \<open>sockets\<close> is the number of different \<open>physical id\<close> values and \<open>physical_cores\<close> the number
  of different \<open>(physical id, core id)\<close> pairs of the file.\<close>

theorem cpuinfo_counts:
  "ci_sockets (parse_cpuinfo content) =
     int (card (set (physical_ids (List.map_filter key_value (lines content))))) \<and>
   ci_physical_cores (parse_cpuinfo content) =
     int (card (set (core_ids 0 (List.map_filter key_value (lines content)))))"
proof -
  let ?s0 = "\<lparr>cp_out = \<lparr>ci_vendor_id = [], ci_physical_cores = 0, ci_sockets = 0, ci_khz_fallback = 0\<rparr>,
    cp_sockets = [], cp_cores = [], cp_cur = 0\<rparr>"
  note f = fold_cpuinfo [of ?s0 "lines content"]
  show ?thesis using f by (simp add: parse_cpuinfo_def Let_def flip: distinct_card)
qed

end
