(* ===== verification/Cgroup_Reader.thy ===== *)
theory Cgroup_Reader
  imports Host_Env Host_Parse Btree
begin

text \<open>
  \<open>crates/cadvisor-host/src/cgroup.rs\<close>: the reader of one cgroup directory. A \<open>CgroupReader\<close> is its
  root path; every operation takes the operating system \<open>os\<close> of \<open>Host_Env\<close>. The lemmas say which
  file each field of a sample or a spec comes from and when a read fails.
\<close>

section \<open>Reading files\<close>

record cgroup_spec =
  cg_creation_time :: "gotime option"
  cg_has_cpu :: bool
  cg_cpu_shares :: u64
  cg_cpu_quota :: "u64 option"
  cg_cpu_period :: u64
  cg_cpu_mask :: string
  cg_has_memory :: bool
  cg_memory_limit :: u64
  cg_swap_limit :: u64
  cg_memory_reservation :: u64
  cg_has_processes :: bool
  cg_pids_limit :: u64
  cg_has_disk_io :: bool

definition cg_dir :: "string \<Rightarrow> string \<Rightarrow> string" where
  "cg_dir mnt cgroup = path_join mnt (trim_start_char CHR ''/'' cgroup)"

definition cg_exists :: "os \<Rightarrow> string \<Rightarrow> string \<Rightarrow> bool" where
  "cg_exists os mnt cgroup = os_is_dir os (cg_dir mnt cgroup)"

definition cg_read :: "os \<Rightarrow> string \<Rightarrow> string \<Rightarrow> string \<Rightarrow> (host_error, string) res" where
  "cg_read os mnt cgroup fl =
     (let path = path_join (cg_dir mnt cgroup) fl in res_map_err (host_io path) (os_read os path))"

definition read_opt :: "os \<Rightarrow> string \<Rightarrow> string \<Rightarrow> string \<Rightarrow> (host_error, string option) res" where
  "read_opt os mnt cgroup fl =
     (case cg_read os mnt cgroup fl of
        Inr s \<Rightarrow> Inr (Some s)
      | Inl e \<Rightarrow> if is_not_found e then Inr None else Inl e)"

definition read_u64_or_max :: "os \<Rightarrow> string \<Rightarrow> string \<Rightarrow> string \<Rightarrow> (host_error, u64 option) res" where
  "read_u64_or_max os mnt cgroup fl =
     res_map (map_option parse_u64_or_max) (read_opt os mnt cgroup fl)"

text \<open>\<open>list_children\<close> appends to \<open>out\<close> and stops at the first entry that cannot be read.\<close>

fun child_entries ::
  "string \<Rightarrow> string \<Rightarrow> (io_kind, string \<times> bool) res list \<Rightarrow> string list \<Rightarrow> (host_error, string list) res"
where
  "child_entries dir prefix [] out = Inr out"
| "child_entries dir prefix (Inl e # es) out = Inl (host_io dir e)"
| "child_entries dir prefix (Inr (name, is_dir) # es) out =
     child_entries dir prefix es (if is_dir then out @ [prefix @ CHR ''/'' # name] else out)"

definition list_children :: "os \<Rightarrow> string \<Rightarrow> string \<Rightarrow> string list \<Rightarrow> (host_error, string list) res" where
  "list_children os mnt cgroup out =
     (let dir = cg_dir mnt cgroup in
      res_bind (res_map_err (host_io dir) (os_read_dir os dir))
        (\<lambda>entries. child_entries dir (if cgroup = ''/'' then [] else cgroup) entries out))"

definition cg_procs :: "os \<Rightarrow> string \<Rightarrow> string \<Rightarrow> (host_error, u32 list) res" where
  "cg_procs os mnt cgroup =
     res_map (\<lambda>content. List.map_filter (\<lambda>l. parse_u32 (trim l)) (lines content))
       (cg_read os mnt cgroup ''cgroup.procs'')"

section \<open>The spec\<close>

definition or_0 :: "u64 option \<Rightarrow> u64" where
  "or_0 v = (case v of Some x \<Rightarrow> x | None \<Rightarrow> 0)"

definition read_spec :: "os \<Rightarrow> string \<Rightarrow> string \<Rightarrow> (host_error, cgroup_spec) res" where
  "read_spec os mnt cgroup =
     (let dir = cg_dir mnt cgroup in
      res_bind (res_map_err (host_io dir) (os_mtime os dir)) (\<lambda>mtime.
      res_bind (read_u64_or_max os mnt cgroup ''cpu.weight'') (\<lambda>weight.
      res_bind (read_opt os mnt cgroup ''cpu.max'') (\<lambda>mx.
      res_bind (read_opt os mnt cgroup ''cpuset.cpus.effective'') (\<lambda>mask.
      res_bind (read_u64_or_max os mnt cgroup ''memory.max'') (\<lambda>mem.
      res_bind (read_u64_or_max os mnt cgroup ''memory.swap.max'') (\<lambda>swap.
      res_bind (read_u64_or_max os mnt cgroup ''memory.low'') (\<lambda>low.
      res_bind (read_u64_or_max os mnt cgroup ''pids.max'') (\<lambda>pids.
        Inr \<lparr>cg_creation_time = mtime,
             cg_has_cpu = True,
             cg_cpu_shares = (case weight of Some w \<Rightarrow> cpu_weight_to_shares w | None \<Rightarrow> 0),
             cg_cpu_quota = (case mx of Some m \<Rightarrow> fst (parse_cpu_max m) | None \<Rightarrow> None),
             cg_cpu_period = (case mx of Some m \<Rightarrow> snd (parse_cpu_max m) | None \<Rightarrow> 0),
             cg_cpu_mask = (case mask of Some m \<Rightarrow> trim m | None \<Rightarrow> []),
             cg_has_memory = (os_exists os (path_join dir ''memory.max'') \<or> cgroup = ''/''),
             cg_memory_limit = or_0 mem,
             cg_swap_limit = or_0 swap,
             cg_memory_reservation = or_0 low,
             cg_has_processes = True,
             cg_pids_limit = or_0 pids,
             cg_has_disk_io = True\<rparr>)))))))))"

section \<open>A sample\<close>

text \<open>The five blocks of \<open>read_stats\<close>, each an update of the sample.\<close>

definition read_cpu :: "os \<Rightarrow> string \<Rightarrow> string \<Rightarrow> container_stats \<Rightarrow> (host_error, container_stats) res" where
  "read_cpu os mnt cgroup s =
     res_bind (read_opt os mnt cgroup ''cpu.stat'') (\<lambda>content.
       Inr (case content of
              None \<Rightarrow> s
            | Some content \<Rightarrow>
                (let c = parse_cpu_stat content; cpu = stats_cpu s in
                 s\<lparr>stats_cpu := cpu\<lparr>
                     cpu_usage := (cpu_usage cpu)\<lparr>usage_total := cs_usage_usec c * 1000,
                       usage_user := cs_user_usec c * 1000, usage_system := cs_system_usec c * 1000\<rparr>,
                     cpu_cfs := (cpu_cfs cpu)\<lparr>cfs_periods := cs_nr_periods c,
                       cfs_throttled_periods := cs_nr_throttled c,
                       cfs_throttled_time := cs_throttled_usec c * 1000\<rparr>\<rparr>\<rparr>)))"

definition saturating_sub :: "u64 \<Rightarrow> u64 \<Rightarrow> u64" where
  "saturating_sub a b = (if a < b then 0 else a - b)"

definition memory_from_stat :: "u64 \<Rightarrow> memory_stat_file \<Rightarrow> memory_stats \<Rightarrow> memory_stats" where
  "memory_from_stat current m mem =
     mem\<lparr>mem_cache := ms_file m, mem_rss := ms_anon m, mem_mapped_file := ms_file_mapped m,
         mem_working_set := saturating_sub current (ms_inactive_file m),
         mem_container_data := (mem_container_data mem)\<lparr>memdata_pgfault := ms_pgfault m,
           memdata_pgmajfault := ms_pgmajfault m\<rparr>,
         mem_hierarchical_data := (mem_hierarchical_data mem)\<lparr>memdata_pgfault := ms_pgfault m,
           memdata_pgmajfault := ms_pgmajfault m\<rparr>\<rparr>"

definition read_memory :: "os \<Rightarrow> string \<Rightarrow> string \<Rightarrow> container_stats \<Rightarrow> (host_error, container_stats) res" where
  "read_memory os mnt cgroup s =
     res_bind (read_u64_or_max os mnt cgroup ''memory.current'') (\<lambda>current.
       case current of
         None \<Rightarrow> Inr s
       | Some current \<Rightarrow>
           res_bind (read_u64_or_max os mnt cgroup ''memory.peak'') (\<lambda>peak.
           res_bind (read_u64_or_max os mnt cgroup ''memory.swap.current'') (\<lambda>swap.
             let mem = (stats_memory s)\<lparr>mem_usage := current, mem_max_usage := or_0 peak,
                         mem_swap := or_0 swap\<rparr> in
             res_bind (read_opt os mnt cgroup ''memory.stat'') (\<lambda>stat.
               Inr (s\<lparr>stats_memory :=
                 (case stat of
                    Some stat \<Rightarrow> memory_from_stat current (parse_memory_stat stat) mem
                  | None \<Rightarrow> mem\<lparr>mem_working_set := current\<rparr>)\<rparr>)))))"

definition oom_line :: "string \<times> string \<Rightarrow> container_stats \<Rightarrow> container_stats" where
  "oom_line kv s =
     (if fst kv = ''oom_kill'' then s\<lparr>stats_oom_events := u64_field (trim (snd kv))\<rparr> else s)"

definition read_oom :: "os \<Rightarrow> string \<Rightarrow> string \<Rightarrow> container_stats \<Rightarrow> (host_error, container_stats) res" where
  "read_oom os mnt cgroup s =
     res_bind (read_opt os mnt cgroup ''memory.events'') (\<lambda>content.
       Inr (case content of None \<Rightarrow> s | Some events \<Rightarrow> fold oom_line (flat_keyed events) s))"

definition disk_entry :: "io_dev_stat \<Rightarrow> u64 \<Rightarrow> u64 \<Rightarrow> per_disk_stats" where
  "disk_entry dev op_r op_w =
     \<lparr>disk_device = [], disk_major = io_major dev, disk_minor = io_minor dev,
      disk_stats = bt_of_list [(''Read'', op_r), (''Write'', op_w)]\<rparr>"

definition push_dev :: "io_dev_stat \<Rightarrow> disk_io_stats \<Rightarrow> disk_io_stats" where
  "push_dev dev d =
     d\<lparr>diskio_io_service_bytes :=
          diskio_io_service_bytes d @ [disk_entry dev (io_rbytes dev) (io_wbytes dev)],
       diskio_io_serviced := diskio_io_serviced d @ [disk_entry dev (io_rios dev) (io_wios dev)]\<rparr>"

definition read_io :: "os \<Rightarrow> string \<Rightarrow> string \<Rightarrow> container_stats \<Rightarrow> (host_error, container_stats) res" where
  "read_io os mnt cgroup s =
     res_bind (read_opt os mnt cgroup ''io.stat'') (\<lambda>content.
       Inr (case content of
              None \<Rightarrow> s
            | Some io \<Rightarrow> s\<lparr>stats_disk_io := fold push_dev (parse_io_stat io) (stats_disk_io s)\<rparr>))"

definition read_stats :: "os \<Rightarrow> string \<Rightarrow> string \<Rightarrow> gotime \<Rightarrow> (host_error, container_stats) res" where
  "read_stats os mnt cgroup timestamp =
     res_bind (read_cpu os mnt cgroup (default_container_stats\<lparr>stats_timestamp := timestamp\<rparr>))
       (\<lambda>s. res_bind (read_memory os mnt cgroup s)
       (\<lambda>s. res_bind (read_oom os mnt cgroup s)
       (\<lambda>s. read_io os mnt cgroup s)))"

section \<open>What a read returns\<close>

text \<open>The text of a file of the cgroup, \<open>None\<close> if it cannot be read, and whether reading it fails
  with anything other than "not found".\<close>

definition cg_text :: "os \<Rightarrow> string \<Rightarrow> string \<Rightarrow> string \<Rightarrow> string option" where
  "cg_text os mnt cgroup fl = res_ok (os_read os (path_join (cg_dir mnt cgroup) fl))"

definition readable :: "os \<Rightarrow> string \<Rightarrow> string \<Rightarrow> string \<Rightarrow> bool" where
  "readable os mnt cgroup fl \<longleftrightarrow>
     (case os_read os (path_join (cg_dir mnt cgroup) fl) of Inl (OtherKind _) \<Rightarrow> False | _ \<Rightarrow> True)"

lemma read_opt_readable [res_simps]:
  "readable os mnt cgroup fl \<Longrightarrow> read_opt os mnt cgroup fl = Inr (cg_text os mnt cgroup fl)"
  by (auto simp: readable_def read_opt_def cg_read_def cg_text_def host_io_def Let_def
      split: sum.splits io_kind.splits)

lemma is_ok_read_opt [res_simps]: "is_ok (read_opt os mnt cgroup fl) \<longleftrightarrow> readable os mnt cgroup fl"
  by (auto simp: readable_def read_opt_def cg_read_def host_io_def Let_def
      split: sum.splits io_kind.splits)

lemma read_u64_readable [res_simps]:
  "readable os mnt cgroup fl \<Longrightarrow>
     read_u64_or_max os mnt cgroup fl = Inr (map_option parse_u64_or_max (cg_text os mnt cgroup fl))"
  by (simp add: read_u64_or_max_def read_opt_readable)

lemma is_ok_read_u64 [res_simps]:
  "is_ok (read_u64_or_max os mnt cgroup fl) \<longleftrightarrow> readable os mnt cgroup fl"
  using is_ok_read_opt [of os mnt cgroup fl]
  by (cases "read_opt os mnt cgroup fl") (simp_all add: read_u64_or_max_def)

lemma is_ok_bind: "is_ok (res_bind r f) \<longleftrightarrow> (\<exists>x. r = Inr x \<and> is_ok (f x))"
  by (cases r) auto

lemma is_ok_bind_const: "(\<And>x. is_ok (f x) = P) \<Longrightarrow> is_ok (res_bind r f) \<longleftrightarrow> is_ok r \<and> P"
  by (cases r) auto

lemma is_ok_bind_opt:
  "is_ok (res_bind (read_opt os mnt cgroup fl) f) \<longleftrightarrow>
     readable os mnt cgroup fl \<and> is_ok (f (cg_text os mnt cgroup fl))"
  using is_ok_read_opt [of os mnt cgroup fl]
  by (cases "readable os mnt cgroup fl") (auto simp: read_opt_readable is_ok_bind)

lemma is_ok_bind_u64:
  "is_ok (res_bind (read_u64_or_max os mnt cgroup fl) f) \<longleftrightarrow>
     readable os mnt cgroup fl \<and> is_ok (f (map_option parse_u64_or_max (cg_text os mnt cgroup fl)))"
  using is_ok_read_u64 [of os mnt cgroup fl]
  by (cases "readable os mnt cgroup fl") (auto simp: read_u64_readable is_ok_bind)

lemmas is_ok_reads = is_ok_bind_opt is_ok_bind_u64

lemma fold_oom_line:
  "fold oom_line kvs s =
     (case map_of (rev kvs) ''oom_kill'' of
        Some v \<Rightarrow> s\<lparr>stats_oom_events := u64_field (trim v)\<rparr> | None \<Rightarrow> s)"
proof (induction kvs rule: rev_induct)
  case (snoc kv kvs)
  then show ?case by (cases kv) (auto simp: oom_line_def split: option.splits)
qed simp

lemma fold_oom_memory: "stats_memory (fold oom_line kvs s) = stats_memory s"
  by (simp add: fold_oom_line split: option.split)

lemma fold_push_dev:
  "fold push_dev devs d =
     d\<lparr>diskio_io_service_bytes :=
          diskio_io_service_bytes d @ map (\<lambda>v. disk_entry v (io_rbytes v) (io_wbytes v)) devs,
       diskio_io_serviced :=
          diskio_io_serviced d @ map (\<lambda>v. disk_entry v (io_rios v) (io_wios v)) devs\<rparr>"
  by (induction devs arbitrary: d) (simp_all add: push_dev_def)

lemma saturating_sub_le: "saturating_sub a b \<le> a"
  unfolding saturating_sub_def by (simp add: word_sub_le)

lemma read_memory_working_set:
  assumes "read_memory os mnt cgroup s = Inr s'"
    and "mem_working_set (stats_memory s) \<le> mem_usage (stats_memory s)"
  shows "mem_working_set (stats_memory s') \<le> mem_usage (stats_memory s')"
  using assms saturating_sub_le
  by (auto simp: read_memory_def res_bind_Inr memory_from_stat_def Let_def split: option.splits)

lemma read_cpu_memory: "read_cpu os mnt cgroup s = Inr s' \<Longrightarrow> stats_memory s' = stats_memory s"
  by (auto simp: read_cpu_def res_bind_Inr Let_def split: option.splits)

lemma read_oom_memory: "read_oom os mnt cgroup s = Inr s' \<Longrightarrow> stats_memory s' = stats_memory s"
  by (auto simp: read_oom_def res_bind_Inr fold_oom_memory split: option.split_asm)

lemma read_io_memory: "read_io os mnt cgroup s = Inr s' \<Longrightarrow> stats_memory s' = stats_memory s"
  by (auto simp: read_io_def res_bind_Inr split: option.splits)

lemma stats_working_set:
  "case read_stats os mnt cgroup t of
     Inl _ \<Rightarrow> True
   | Inr s \<Rightarrow> mem_working_set (stats_memory s) \<le> mem_usage (stats_memory s)"
proof (cases "read_stats os mnt cgroup t")
  case (Inr s)
  then obtain a b c where r: "read_cpu os mnt cgroup (default_container_stats\<lparr>stats_timestamp := t\<rparr>) = Inr a"
      "read_memory os mnt cgroup a = Inr b" "read_oom os mnt cgroup b = Inr c" "read_io os mnt cgroup c = Inr s"
    by (auto simp: read_stats_def res_bind_Inr)
  have "stats_memory a = default_memory_stats"
    using read_cpu_memory [OF r(1)] by (simp add: default_container_stats_def)
  then have "mem_working_set (stats_memory b) \<le> mem_usage (stats_memory b)"
    by (intro read_memory_working_set [OF r(2)]) (simp add: default_memory_stats_def)
  then show ?thesis using Inr read_oom_memory [OF r(3)] read_io_memory [OF r(4)] by simp
qed simp

lemma stats_missing_cgroup:
  assumes "\<And>f. os_read os (path_join (cg_dir mnt cgroup) f) = Inl NotFound"
  shows "read_stats os mnt cgroup t = Inr (default_container_stats\<lparr>stats_timestamp := t\<rparr>)"
proof -
  have "readable os mnt cgroup f" "cg_text os mnt cgroup f = None" for f
    using assms by (simp_all add: readable_def cg_text_def)
  then show ?thesis
    by (simp add: read_stats_def read_cpu_def read_memory_def read_oom_def read_io_def res_simps)
qed

section \<open>Properties\<close>

text \<open>C5: \<open>read_stats\<close> fails exactly when a file it needs cannot be read for a reason other than
  absence; the memory details are needed only when \<open>memory.current\<close> is there.\<close>

theorem read_stats_fails_iff:
  "is_ok (read_stats os mnt cgroup t) \<longleftrightarrow>
     readable os mnt cgroup ''cpu.stat'' \<and> readable os mnt cgroup ''memory.current'' \<and>
     (cg_text os mnt cgroup ''memory.current'' = None \<or>
      readable os mnt cgroup ''memory.peak'' \<and> readable os mnt cgroup ''memory.swap.current'' \<and>
      readable os mnt cgroup ''memory.stat'') \<and>
     readable os mnt cgroup ''memory.events'' \<and> readable os mnt cgroup ''io.stat''"
proof -
  have "is_ok (read_cpu os mnt cgroup s) \<longleftrightarrow> readable os mnt cgroup ''cpu.stat''" for s
    by (simp add: read_cpu_def is_ok_reads)
  moreover have "is_ok (read_memory os mnt cgroup s) \<longleftrightarrow> readable os mnt cgroup ''memory.current'' \<and>
     (cg_text os mnt cgroup ''memory.current'' = None \<or>
      readable os mnt cgroup ''memory.peak'' \<and> readable os mnt cgroup ''memory.swap.current'' \<and>
      readable os mnt cgroup ''memory.stat'')" for s
    by (auto simp: read_memory_def is_ok_reads Let_def split: option.splits)
  moreover have "is_ok (read_oom os mnt cgroup s) \<longleftrightarrow> readable os mnt cgroup ''memory.events''" for s
    by (simp add: read_oom_def is_ok_reads)
  moreover have "is_ok (read_io os mnt cgroup s) \<longleftrightarrow> readable os mnt cgroup ''io.stat''" for s
    by (simp add: read_io_def is_ok_reads)
  ultimately show ?thesis by (simp add: read_stats_def is_ok_bind_const)
qed


text \<open>In every sample the working set is at most the memory usage.\<close>

theorem read_stats_working_set:
  "case read_stats os mnt cgroup t of
     Inl _ \<Rightarrow> True
   | Inr s \<Rightarrow> mem_working_set (stats_memory s) \<le> mem_usage (stats_memory s)"
  by (rule stats_working_set)

text \<open>Reading a cgroup that does not exist is not an error: the sample comes out all zero.\<close>

theorem read_stats_missing_cgroup:
  assumes "\<And>f. os_read os (path_join (cg_dir mnt cgroup) f) = Inl NotFound"
  shows "read_stats os mnt cgroup t = Inr (default_container_stats\<lparr>stats_timestamp := t\<rparr>)"
  by (rule stats_missing_cgroup [OF assms])

text \<open>An operating system whose files are a list of paths and texts.\<close>

definition os_of_files :: "(string \<times> string) list \<Rightarrow> os" where
  "os_of_files files =
     \<lparr>os_read = (\<lambda>p. case map_of files p of Some s \<Rightarrow> Inr s | None \<Rightarrow> Inl NotFound),
      os_mtime = (\<lambda>p. Inl NotFound), os_exists = (\<lambda>p. map_of files p \<noteq> None),
      os_is_dir = (\<lambda>p. False), os_read_dir = (\<lambda>p. Inl NotFound)\<rparr>"

definition demo_os :: os where
  "demo_os = os_of_files [(''/m/a/cpu.stat'', ''usage_usec 7''), (''/m/a/memory.current'', ''42''),
     (''/m/a/memory.stat'', ''inactive_file 2''), (''/m/a/memory.events'', ''oom_kill 1''),
     (''/m/a/io.stat'', ''8:0 rbytes=1'')]"

lemmas demo_os_simps = demo_os_def readable_def cg_text_def os_of_files_def cg_dir_def path_join_def
  trim_start_char_def starts_with_def


theorem read_stats_missing_cgroup_witness:
  "read_stats (os_of_files []) ''/sys/fs/cgroup'' ''/gone'' 5 =
     Inr (default_container_stats\<lparr>stats_timestamp := 5\<rparr>)"
  by (rule read_stats_missing_cgroup) (simp add: os_of_files_def)

end
