(* ===== verification/Host_Fs.thy ===== *)
theory Host_Fs
  imports Host_Env Host_Parse Btree "HOL-Library.Multiset_Order"
begin

text \<open>
  \<open>crates/cadvisor-host/src/fs.rs\<close>: the partitions of the mount table, their usage, and the walk of
  a container's writable layer. \<open>statvfs\<close> (of the crate rustix) is a parameter, the metadata and the
  entries of a directory tree are the record \<open>dir_tree\<close>. The lemmas: the partition table lists each
  filesystem once, a path belongs to its longest mount point, and the walk of a finite tree ends.
\<close>

section \<open>Partitions\<close>

definition supported_fs :: "string \<Rightarrow> bool" where
  "supported_fs fs_type =
     list_ex (\<lambda>t. fs_type = t)
       [''btrfs'', ''ext2'', ''ext3'', ''ext4'', ''xfs'', ''zfs'', ''overlay'', ''tmpfs'']"

record partition =
  pt_device :: string
  pt_mountpoint :: string
  pt_fs_type :: string
  pt_major :: u64
  pt_minor :: u64

definition mount_key :: "mount_info_line \<Rightarrow> string" where
  "mount_key m = (if mt_fs_type m = ''tmpfs'' then mt_mountpoint m else mt_source m)"

definition partition_of :: "mount_info_line \<Rightarrow> partition" where
  "partition_of m =
     \<lparr>pt_device = (if mt_fs_type m = ''tmpfs'' then mt_mountpoint m else mt_source m),
      pt_mountpoint = mt_mountpoint m, pt_fs_type = mt_fs_type m,
      pt_major = mt_major m, pt_minor = mt_minor m\<rparr>"

text \<open>One turn of the loop of \<open>from_mountinfo\<close>, over the set of sources seen and the partitions.\<close>

definition mount_step :: "mount_info_line \<Rightarrow> string list \<times> partition list \<Rightarrow> string list \<times> partition list" where
  "mount_step m st =
     (let (seen, partitions) = st in
      if \<not> supported_fs (mt_fs_type m) then st
      else if mount_key m \<in> set seen then st
      else (mount_key m # seen, partitions @ [partition_of m]))"

definition from_mountinfo :: "string \<Rightarrow> partition list" where
  "from_mountinfo content = snd (fold mount_step (parse_mountinfo content) ([], []))"

definition fs_service_new :: "os \<Rightarrow> (host_error, partition list) res" where
  "fs_service_new os =
     res_map from_mountinfo
       (res_map_err (host_io ''/proc/self/mountinfo'') (os_read os ''/proc/self/mountinfo''))"

section \<open>Usage\<close>

record fs_usage =
  fu_capacity :: u64
  fu_free :: u64
  fu_available :: u64
  fu_inodes :: u64
  fu_inodes_free :: u64

record statvfs =
  vf_blocks :: u64
  vf_frsize :: u64
  vf_bfree :: u64
  vf_bavail :: u64
  vf_files :: u64
  vf_ffree :: u64

type_synonym vfs = "string \<Rightarrow> (io_kind, statvfs) res"

definition usage_of :: "vfs \<Rightarrow> string \<Rightarrow> (host_error, fs_usage) res" where
  "usage_of vfs mountpoint =
     res_map (\<lambda>st. \<lparr>fu_capacity = vf_blocks st * vf_frsize st, fu_free = vf_bfree st * vf_frsize st,
         fu_available = vf_bavail st * vf_frsize st, fu_inodes = vf_files st,
         fu_inodes_free = vf_ffree st\<rparr>)
       (res_map_err (host_io mountpoint) (vfs mountpoint))"

definition machine_filesystems :: "vfs \<Rightarrow> partition list \<Rightarrow> filesystem_info list" where
  "machine_filesystems vfs partitions =
     List.map_filter (\<lambda>p. map_option (\<lambda>u.
         \<lparr>fsinfo_device = pt_device p, fsinfo_device_major = pt_major p,
          fsinfo_device_minor = pt_minor p, fsinfo_capacity = fu_capacity u,
          fsinfo_fs_type = ''vfs'', fsinfo_inodes = fu_inodes u, fsinfo_has_inodes = True\<rparr>)
       (res_ok (usage_of vfs (pt_mountpoint p)))) partitions"

text \<open>\<open>Iterator::max_by_key\<close>: of several maximal elements, the last one.\<close>

definition max_by_key :: "('a \<Rightarrow> 'k::linorder) \<Rightarrow> 'a list \<Rightarrow> 'a option" where
  "max_by_key f xs =
     (case xs of [] \<Rightarrow> None | x # r \<Rightarrow> Some (fold (\<lambda>y b. if f b \<le> f y then y else b) r x))"

definition on_partition :: "string \<Rightarrow> partition \<Rightarrow> bool" where
  "on_partition path p \<longleftrightarrow>
     path = pt_mountpoint p \<or> starts_with path (trim_end_char CHR ''/'' (pt_mountpoint p) @ ''/'')"

definition partition_for_path :: "partition list \<Rightarrow> string \<Rightarrow> partition option" where
  "partition_for_path partitions path =
     max_by_key (\<lambda>p. length (pt_mountpoint p)) (filter (on_partition path) partitions)"

definition fs_disk_stats :: "os \<Rightarrow> (host_error, ((u64 \<times> u64) \<times> disk_stats_line) list) res" where
  "fs_disk_stats os =
     res_map (\<lambda>content. bt_of_list (map (\<lambda>d. ((ds_major d, ds_minor d), d)) (parse_diskstats content)))
       (res_map_err (host_io ''/proc/diskstats'') (os_read os ''/proc/diskstats''))"

section \<open>The directory walk\<close>

record file_meta =
  md_dev :: u64
  md_ino :: u64
  md_nlink :: u64
  md_blocks :: u64
  md_is_dir :: bool

text \<open>\<open>symlink_metadata\<close> of a path and the paths of the readable entries of a directory, \<open>None\<close> for an
  error.\<close>

record dir_tree =
  dt_meta :: "string \<Rightarrow> file_meta option"
  dt_entries :: "string \<Rightarrow> string list option"

text \<open>The state of the walk; the top of \<open>wk_stack\<close> is its head.\<close>

record walk =
  wk_stack :: "string list"
  wk_links :: "u64 list"
  wk_bytes :: u64
  wk_inodes :: u64

definition count_meta :: "file_meta \<Rightarrow> walk \<Rightarrow> walk" where
  "count_meta m w = w\<lparr>wk_bytes := wk_bytes w + md_blocks m * 512, wk_inodes := wk_inodes w + 1\<rparr>"

definition walk_entry :: "dir_tree \<Rightarrow> u64 \<Rightarrow> string \<Rightarrow> walk \<Rightarrow> walk" where
  "walk_entry t root_dev p w =
     (case dt_meta t p of
        None \<Rightarrow> w
      | Some m \<Rightarrow>
          if md_is_dir m then w\<lparr>wk_stack := p # wk_stack w\<rparr>
          else if 1 < md_nlink m \<and> md_ino m \<in> set (wk_links w) then w
          else
            let w = (if 1 < md_nlink m then w\<lparr>wk_links := md_ino m # wk_links w\<rparr> else w) in
            if md_dev m = root_dev then count_meta m w else w)"

text \<open>One turn of the loop, for the directory popped from the stack.\<close>

definition walk_dir :: "dir_tree \<Rightarrow> u64 \<Rightarrow> string \<Rightarrow> walk \<Rightarrow> walk" where
  "walk_dir t root_dev dir w =
     (case dt_meta t dir of
        None \<Rightarrow> w
      | Some m \<Rightarrow>
          if md_dev m \<noteq> root_dev then w
          else case dt_entries t dir of
            None \<Rightarrow> count_meta m w
          | Some es \<Rightarrow> fold (walk_entry t root_dev) es (count_meta m w))"

partial_function (option) walk_loop :: "dir_tree \<Rightarrow> u64 \<Rightarrow> walk \<Rightarrow> walk option" where
  "walk_loop t root_dev w =
     (case wk_stack w of
        [] \<Rightarrow> Some w
      | dir # rest \<Rightarrow> walk_loop t root_dev (walk_dir t root_dev dir (w\<lparr>wk_stack := rest\<rparr>)))"

definition dir_usage :: "dir_tree \<Rightarrow> string \<Rightarrow> (u64 \<times> u64) option" where
  "dir_usage t path =
     (case dt_meta t path of
        None \<Rightarrow> Some (0, 0)
      | Some m \<Rightarrow>
          map_option (\<lambda>w. (wk_bytes w, wk_inodes w))
            (walk_loop t (md_dev m) \<lparr>wk_stack = [path], wk_links = [], wk_bytes = 0, wk_inodes = 0\<rparr>))"

section \<open>Lemmas\<close>

lemma max_by_key_fold:
  fixes f :: "'a \<Rightarrow> 'k::linorder"
  shows "(let m = fold (\<lambda>y b. if f b \<le> f y then y else b) xs b in
    m \<in> insert b (set xs) \<and> f b \<le> f m \<and> (\<forall>x \<in> set xs. f x \<le> f m))"
proof (induction xs arbitrary: b)
  case (Cons x xs)
  show ?case
  proof (cases "f b \<le> f x")
    case True
    then show ?thesis using Cons [of x] order_trans [OF True] by (auto simp: Let_def)
  next
    case False
    then show ?thesis using Cons [of b] by (auto simp: Let_def)
  qed
qed simp

lemma max_by_key_Some:
  "max_by_key f xs = Some m \<Longrightarrow> m \<in> set xs \<and> (\<forall>x \<in> set xs. f x \<le> f m)"
  using max_by_key_fold [of f] by (auto simp: max_by_key_def Let_def split: list.splits)

lemma max_by_key_None: "max_by_key f xs = None \<longleftrightarrow> xs = []"
  by (simp add: max_by_key_def split: list.split)

lemma walk_entry_stack:
  "wk_stack (walk_entry t dev p w) =
     (case dt_meta t p of Some m \<Rightarrow> (if md_is_dir m then [p] else []) | None \<Rightarrow> []) @ wk_stack w"
  by (auto simp: walk_entry_def count_meta_def Let_def split: option.split)

definition subdirs :: "dir_tree \<Rightarrow> string \<Rightarrow> string list" where
  "subdirs t dir =
     filter (\<lambda>p. case dt_meta t p of Some m \<Rightarrow> md_is_dir m | None \<Rightarrow> False)
       (case dt_entries t dir of Some es \<Rightarrow> es | None \<Rightarrow> [])"

lemma fold_walk_entry_stack:
  "mset (wk_stack (fold (walk_entry t dev) es w)) =
     mset (filter (\<lambda>p. case dt_meta t p of Some m \<Rightarrow> md_is_dir m | None \<Rightarrow> False) es) + mset (wk_stack w)"
  by (induction es arbitrary: w) (auto simp: walk_entry_stack split: option.split)

lemma walk_dir_stack:
  "\<exists>ds. mset (wk_stack (walk_dir t dev dir w)) = mset ds + mset (wk_stack w) \<and> set ds \<subseteq> set (subdirs t dir)"
proof -
  have "mset (wk_stack (walk_dir t dev dir w)) = mset (subdirs t dir) + mset (wk_stack w) \<or>
      wk_stack (walk_dir t dev dir w) = wk_stack w"
    by (auto simp: walk_dir_def subdirs_def fold_walk_entry_stack count_meta_def split: option.split)
  then show ?thesis by (metis add_0 empty_subsetI list.set(1) mset.simps(1) subset_refl)
qed

text \<open>The walk ends when subdirectories have a smaller depth than their directory: the multiset of the
  depths on the stack decreases.\<close>

lemma walk_loop_returns:
  fixes depth :: "string \<Rightarrow> nat"
  assumes "\<And>dir p. p \<in> set (subdirs t dir) \<Longrightarrow> depth p < depth dir"
  shows "\<exists>w'. walk_loop t dev w = Some w'"
proof (induction "mset (map depth (wk_stack w))" arbitrary: w rule: less_induct)
  case less
  show ?case
  proof (cases "wk_stack w")
    case Nil
    then show ?thesis by (subst walk_loop.simps) simp
  next
    case (Cons dir rest)
    let ?w = "walk_dir t dev dir (w\<lparr>wk_stack := rest\<rparr>)"
    obtain ds where ds: "mset (wk_stack ?w) = mset ds + mset rest" "set ds \<subseteq> set (subdirs t dir)"
      using walk_dir_stack [of t dev dir "w\<lparr>wk_stack := rest\<rparr>"] by auto
    have small: "\<forall>k \<in># mset (map depth ds). k < depth dir" using ds(2) assms by auto
    have "mset (map depth (wk_stack ?w)) = mset (map depth rest) + mset (map depth ds)"
      using ds(1) by (simp add: ac_simps)
    also have "\<dots> < mset (map depth rest) + {#depth dir#}"
      by (rule add_strict_left_mono, rule ex_gt_imp_less_multiset) (use small in auto)
    finally have "mset (map depth (wk_stack ?w)) < mset (map depth (wk_stack w))" by (simp add: Cons)
    from less [OF this] show ?thesis by (subst walk_loop.simps) (simp add: Cons)
  qed
qed

lemma pt_device_partition_of [simp]: "pt_device (partition_of m) = mount_key m"
  by (simp add: partition_of_def mount_key_def)

lemma pt_fs_type_partition_of [simp]: "pt_fs_type (partition_of m) = mt_fs_type m"
  by (simp add: partition_of_def)

lemma mount_step_eq:
  "mount_step m (seen, ps) =
     (if supported_fs (mt_fs_type m) \<and> mount_key m \<notin> set seen
      then (mount_key m # seen, ps @ [partition_of m]) else (seen, ps))"
  by (simp add: mount_step_def)

lemma mount_fold:
  "fst (fold mount_step ms ([], [])) = rev (map pt_device (snd (fold mount_step ms ([], [])))) \<and>
   distinct (map pt_device (snd (fold mount_step ms ([], [])))) \<and>
   set (map pt_device (snd (fold mount_step ms ([], [])))) =
     mount_key ` set (filter (supported_fs \<circ> mt_fs_type) ms) \<and>
   list_all (\<lambda>p. supported_fs (pt_fs_type p)) (snd (fold mount_step ms ([], [])))"
proof (induction ms rule: rev_induct)
  case (snoc m ms)
  then show ?case
    by (cases "fold mount_step ms ([], [])") (auto simp: mount_step_eq)
qed simp

section \<open>Properties\<close>

text \<open>The partition table has each supported filesystem of the mount table once, named by its
  source device, or by its mount point for a tmpfs.\<close>

theorem partitions_once:
  "distinct (map pt_device (from_mountinfo content)) \<and>
   set (map pt_device (from_mountinfo content)) =
     mount_key ` set (filter (supported_fs \<circ> mt_fs_type) (parse_mountinfo content))"
  using mount_fold [of "parse_mountinfo content"] by (simp add: from_mountinfo_def)

text \<open>The partition of a path is one of those whose mount point is the path or a directory above
  it, and none of them has a longer mount point; there is none only if no partition is above.\<close>

theorem partition_longest_prefix:
  "case partition_for_path partitions path of
     None \<Rightarrow> filter (on_partition path) partitions = []
   | Some p \<Rightarrow> p \<in> set partitions \<and> on_partition path p \<and>
       list_all (\<lambda>q. length (pt_mountpoint q) \<le> length (pt_mountpoint p))
         (filter (on_partition path) partitions)"
proof (cases "partition_for_path partitions path")
  case None
  then have "filter (on_partition path) partitions = []"
    by (simp add: partition_for_path_def max_by_key_None)
  with None show ?thesis by simp
next
  case (Some p)
  then show ?thesis
    using max_by_key_Some [of "\<lambda>p. length (pt_mountpoint p)" "filter (on_partition path) partitions" p]
    by (auto simp: partition_for_path_def list_all_iff)
qed

text \<open>C20: on every directory tree of finite depth the usage walk ends.\<close>

theorem dir_usage_terminates:
  fixes depth :: "string \<Rightarrow> nat"
  assumes "\<And>dir p. p \<in> set (subdirs t dir) \<Longrightarrow> depth p < depth dir"
  shows "\<exists>u. dir_usage t path = Some u"
proof (cases "dt_meta t path")
  case (Some m)
  obtain w where "walk_loop t (md_dev m) \<lparr>wk_stack = [path], wk_links = [], wk_bytes = 0, wk_inodes = 0\<rparr> = Some w"
    using walk_loop_returns [of t depth, OF assms] by blast
  then show ?thesis using Some by (simp add: dir_usage_def)
qed (simp add: dir_usage_def)

text \<open>A directory with a file that has a link on another device mounted below, and a local file with
  the same inode number.\<close>

definition demo_tree :: dir_tree where
  "demo_tree =
     \<lparr>dt_meta = (\<lambda>p.
        if p = ''/d'' then Some \<lparr>md_dev = 1, md_ino = 1, md_nlink = 2, md_blocks = 0, md_is_dir = True\<rparr>
        else if p = ''/d/x'' then Some \<lparr>md_dev = 2, md_ino = 7, md_nlink = 2, md_blocks = 8, md_is_dir = False\<rparr>
        else if p = ''/d/y'' then Some \<lparr>md_dev = 1, md_ino = 7, md_nlink = 2, md_blocks = 8, md_is_dir = False\<rparr>
        else None),
      dt_entries = (\<lambda>p. if p = ''/d'' then Some [''/d/x'', ''/d/y''] else None)\<rparr>"

theorem dir_usage_terminates_witness: "\<exists>u. dir_usage demo_tree ''/d'' = Some u"
  by (rule dir_usage_terminates [where depth = length])
    (auto simp: demo_tree_def subdirs_def split: if_splits)

text \<open>The inode numbers of hard links are compared across devices: a link to a file on another
  device hides a file of the walked device that has the same inode number.\<close>

theorem dir_usage_link_across_devices: "dir_usage demo_tree ''/d'' = Some (0, 1)"
  by (simp add: dir_usage_def demo_tree_def walk_loop.simps walk_dir_def walk_entry_def count_meta_def Let_def)

end
