(* ===== verification/Time_Log.thy ===== *)
theory Time_Log
  imports Prelude
begin

text \<open>
  The contract shared by the two bounded logs of the manager, the sample buffer of a container
  (\<open>store.rs\<close>) and the event log (\<open>record_event\<close> of \<open>manager.rs\<close>): entries are kept in time
  order, an entry leaves when it is older than a window before the newest one, or when the log
  exceeds a capacity. The locale \<open>time_log\<close> states one step; its theorem \<open>contents\<close> gives the
  contents after any sequence of additions, in closed form.
\<close>

definition recent :: "('a \<Rightarrow> int) \<Rightarrow> int \<Rightarrow> 'a list \<Rightarrow> 'a list" where
  "recent ts win xs = filter (\<lambda>y. ts (last xs) - win \<le> ts y) xs"

definition capped :: "nat option \<Rightarrow> 'a list \<Rightarrow> 'a list" where
  "capped cap xs = (case cap of None \<Rightarrow> xs | Some n \<Rightarrow> lastn n xs)"

lemma recent_Nil [simp, log_simps]: "recent ts win [] = []"
  by (simp add: recent_def)

lemma capped_Nil [simp, log_simps]: "capped cap [] = []"
  by (simp add: capped_def split: option.split)

lemma set_recent: "set (recent ts win xs) \<subseteq> set xs"
  by (auto simp: recent_def)

lemma set_capped: "set (capped cap xs) \<subseteq> set xs"
  by (auto simp: capped_def split: option.splits dest: subsetD [OF set_lastn])

lemma sorted_recent: "sorted (map ts xs) \<Longrightarrow> sorted (map ts (recent ts win xs))"
  by (simp add: recent_def sorted_filter)

lemma sorted_capped: "sorted (map ts xs) \<Longrightarrow> sorted (map ts (capped cap xs))"
  by (simp add: capped_def sorted_lastn split: option.split)

lemma lastn_Nil_iff: "lastn n xs = [] \<longleftrightarrow> n = 0 \<or> xs = []"
  by (cases xs) (auto simp: lastn_def Suc_diff_le)

lemma mset_eq_short: "mset xs = mset ys \<Longrightarrow> length xs \<le> 1 \<Longrightarrow> xs = ys"
  by (cases xs; cases ys) (auto simp: Suc_le_eq)

lemma le_last_sorted: "sorted (map ts xs) \<Longrightarrow> x \<in> set xs \<Longrightarrow> ts x \<le> ts (last xs)"
  by (induction xs) auto

lemma last_insert_by:
  "sorted (map ts xs) \<Longrightarrow> xs \<noteq> [] \<Longrightarrow>
     last (insert_by ts x xs) = (if ts (last xs) \<le> ts x then x else last xs)"
proof (induction xs)
  case (Cons y ys)
  show ?case
  proof (cases "ys = []")
    case False
    have le: "ts y \<le> ts (last ys)" using Cons.prems False by simp
    show ?thesis
    proof (cases "ts y \<le> ts x")
      case True
      then show ?thesis using Cons False by (simp add: insert_by_Cons)
    next
      case gt: False
      then have "\<not> ts (last ys) \<le> ts x" using le by simp
      with gt False show ?thesis by (simp add: insert_by_Cons)
    qed
  qed (simp add: insert_by_Cons)
qed simp

lemma insert_by_append_right:
  assumes "\<forall>d \<in> set ds. ts d \<le> ts x"
  shows "insert_by ts x (ds @ xs) = ds @ insert_by ts x xs"
  using assms by (induction ds) (auto simp: insert_by_Cons)

lemma insert_by_append_left:
  assumes "xs = [] \<or> ts x < ts (hd xs)"
  shows "insert_by ts x (ds @ xs) = insert_by ts x ds @ xs"
proof (induction ds)
  case Nil
  show ?case using assms by (cases xs) (auto simp: insert_by_Cons)
qed (auto simp: insert_by_Cons)

text \<open>On a sorted list both cuts keep a suffix: what is cut is older than the window, unless the
  capacity is used up.\<close>

lemma cut_suffix:
  assumes "sorted (map ts xs)"
  obtains ds where "xs = ds @ capped cap (recent ts win xs)"
    and "(\<forall>d \<in> set ds. ts d < ts (last xs) - win) \<or>
         (\<exists>n. cap = Some n \<and> length (capped cap (recent ts win xs)) = n)"
proof -
  let ?p = "\<lambda>y. ts y < ts (last xs) - win"
  have part: "partitioned ?p xs" using assms by (rule sorted_partitioned_less)
  have old: "\<forall>d \<in> set (takeWhile ?p xs). ?p d" by (auto dest: set_takeWhileD)
  have rec: "recent ts win xs = dropWhile ?p xs"
    using partitioned_filter(2) [OF part] by (simp add: recent_def not_less)
  have split: "xs = takeWhile ?p xs @ recent ts win xs" by (simp add: rec)
  show thesis
  proof (cases cap)
    case None
    then show thesis using that [of "takeWhile ?p xs"] split old by (simp add: capped_def)
  next
    case (Some n)
    obtain d where d: "recent ts win xs = d @ lastn n (recent ts win xs)"
      "d = [] \<or> length (lastn n (recent ts win xs)) = n"
      using lastn_split by blast
    have xs: "xs = (takeWhile ?p xs @ d) @ capped cap (recent ts win xs)"
      using split d(1) by (simp add: Some capped_def)
    show thesis
    proof (rule that [OF xs])
      show "(\<forall>d \<in> set (takeWhile ?p xs @ d). ?p d) \<or>
         (\<exists>n. cap = Some n \<and> length (capped cap (recent ts win xs)) = n)"
        using d(2) old by (auto simp: Some capped_def)
    qed
  qed
qed

lemma capped_append:
  "cap = Some n \<Longrightarrow> n \<le> length ys \<Longrightarrow> capped cap (ds @ ys) = capped cap ys"
  by (simp add: capped_def lastn_append)

lemma last_cut:
  assumes "sorted (map ts xs)" "xs \<noteq> []" "0 \<le> win" "cap \<noteq> Some 0"
  shows "capped cap (recent ts win xs) \<noteq> []" and "last (capped cap (recent ts win xs)) = last xs"
proof -
  have "last xs \<in> set (recent ts win xs)" using assms(2,3) by (simp add: recent_def)
  then have ne: "recent ts win xs \<noteq> []" by auto
  then show *: "capped cap (recent ts win xs) \<noteq> []"
    using assms(4) by (auto simp: capped_def lastn_Nil_iff split: option.split)
  obtain ds where "xs = ds @ capped cap (recent ts win xs)" using cut_suffix [OF assms(1)] .
  then show "last (capped cap (recent ts win xs)) = last xs" using * by (metis last_appendR)
qed

text \<open>Inserting into the cut list and cutting again gives the same as inserting into the whole
  list: nothing that a cut removed can come back.\<close>

lemma cut_insert_cut:
  assumes s: "sorted (map ts xs)" and win: "0 \<le> win" and cap: "cap \<noteq> Some 0"
  defines "trunc \<equiv> \<lambda>ys. capped cap (recent ts win ys)"
  shows "trunc (insert_by ts x (trunc xs)) = trunc (insert_by ts x xs)"
proof (cases "xs = []")
  case True
  then show ?thesis by (simp add: trunc_def)
next
  case False
  obtain ds where xs: "xs = ds @ trunc xs"
    and gone: "(\<forall>d \<in> set ds. ts d < ts (last xs) - win) \<or> (\<exists>n. cap = Some n \<and> length (trunc xs) = n)"
    using cut_suffix [OF s, of cap win] unfolding trunc_def by blast
  have ne: "trunc xs \<noteq> []" and lst: "last (trunc xs) = last xs"
    using last_cut [OF s False win cap] by (simp_all add: trunc_def)
  have sc: "sorted (map ts (trunc xs))" using s unfolding trunc_def by (intro sorted_capped sorted_recent)
  define new where "new = ts (last (insert_by ts x xs))"
  have new: "ts (last (insert_by ts x (trunc xs))) = new"
    by (simp add: new_def last_insert_by s sc ne False lst)
  have newer: "ts (last xs) \<le> new" by (simp add: new_def last_insert_by s False)
  let ?f = "filter (\<lambda>y. new - win \<le> ts y)"
  have cutl: "trunc (insert_by ts x (trunc xs)) = capped cap (?f (insert_by ts x (trunc xs)))"
    and cutr: "trunc (insert_by ts x xs) = capped cap (?f (insert_by ts x xs))"
    by (simp_all only: trunc_def recent_def new [unfolded trunc_def recent_def] new_def)
  have hd_le: "\<forall>y \<in> set (trunc xs). ts (hd (trunc xs)) \<le> ts y" using sc ne by (cases "trunc xs") auto
  have "sorted (map ts (ds @ trunc xs))" using s xs by simp
  then have ds_le: "\<forall>d \<in> set ds. ts d \<le> ts (hd (trunc xs))"
    using ne by (auto simp: sorted_append)
  show ?thesis
  proof (cases "ts (hd (trunc xs)) \<le> ts x")
    case True
    have "insert_by ts x xs = ds @ insert_by ts x (trunc xs)"
      by (subst xs, rule insert_by_append_right) (use ds_le True in \<open>auto intro: order_trans\<close>)
    then have r: "?f (insert_by ts x xs) = ?f ds @ ?f (insert_by ts x (trunc xs))" by simp
    show ?thesis
    proof (cases "?f ds = []")
      case True
      then show ?thesis by (simp add: cutl cutr r)
    next
      case False
      then obtain d where d: "d \<in> set ds" "new - win \<le> ts d" by (auto simp: filter_empty_conv)
      then obtain n where n: "cap = Some n" "length (trunc xs) = n" using gone newer by fastforce
      have "\<forall>y \<in> set (insert_by ts x (trunc xs)). new - win \<le> ts y"
        using d ds_le hd_le True by fastforce
      then have "?f (insert_by ts x (trunc xs)) = insert_by ts x (trunc xs)" by (simp add: filter_id_conv)
      then show ?thesis using n by (simp add: cutl cutr r capped_append)
    qed
  next
    case early: False
    have ins: "insert_by ts x xs = insert_by ts x ds @ trunc xs"
      using early by (subst xs, intro insert_by_append_left) simp
    have insc: "insert_by ts x (trunc xs) = x # trunc xs"
      using insert_by_append_left [of "trunc xs" ts x "[]"] early by simp
    have "\<not> ts (last xs) \<le> ts x" using hd_le ne lst early last_in_set [OF ne] by fastforce
    then have newest: "new = ts (last xs)" by (simp add: new_def last_insert_by s False)
    have keep: "?f (trunc xs) = trunc xs"
      using set_capped [of cap "recent ts win xs"]
      by (auto simp: filter_id_conv newest trunc_def recent_def)
    have l: "?f (insert_by ts x (trunc xs)) = ?f [x] @ trunc xs" by (simp add: insc keep)
    have r: "?f (insert_by ts x xs) = ?f (insert_by ts x ds) @ trunc xs" by (simp add: ins keep)
    show ?thesis
    proof (cases "\<exists>n. cap = Some n \<and> length (trunc xs) = n")
      case True
      then obtain n where n: "cap = Some n" "n \<le> length (trunc xs)" by blast
      show ?thesis by (simp only: cutl cutr l r capped_append [OF n])
    next
      case False
      with gone have old: "\<forall>d \<in> set ds. ts d < new - win" by (simp add: newest)
      have "?f (insert_by ts x ds) = ?f [x]"
      proof (cases "new - win \<le> ts x")
        case True
        then have "insert_by ts x ds = ds @ [x]" using old by (intro insert_by_last) fastforce
        moreover have "?f ds = []" using old by (auto simp: filter_empty_conv)
        ultimately show ?thesis by simp
      next
        case False
        then show ?thesis using old by (auto simp: filter_empty_conv)
      qed
      then show ?thesis by (simp only: cutl cutr l r)
    qed
  qed
qed

section \<open>The contract\<close>

locale time_log =
  fixes ts :: "'a \<Rightarrow> int" and win :: int and cap :: "nat option"
    and add :: "'a \<Rightarrow> 'a list \<Rightarrow> 'a list"
  assumes window: "0 \<le> win" and room: "cap \<noteq> Some 0"
    and step: "sorted (map ts xs) \<Longrightarrow> add x xs = capped cap (recent ts win (insert_by ts x xs))"
begin

lemma sorted_add: "sorted (map ts xs) \<Longrightarrow> sorted (map ts (add x xs))"
  by (simp add: step sorted_capped sorted_recent sorted_insert_by)

lemma contents: "fold add xs [] = capped cap (recent ts win (sort_key ts xs))"
proof (induction xs rule: rev_induct)
  case (snoc x xs)
  let ?s = "sort_key ts xs"
  have "sorted (map ts (capped cap (recent ts win ?s)))"
    by (intro sorted_capped sorted_recent) simp
  then have "fold add (xs @ [x]) [] =
      capped cap (recent ts win (insert_by ts x (capped cap (recent ts win ?s))))"
    by (simp add: snoc step)
  also have "\<dots> = capped cap (recent ts win (insert_by ts x ?s))"
    by (rule cut_insert_cut) (simp_all add: window room)
  finally show ?case by (simp only: insert_by_sort_key)
qed simp

lemma sorted_contents: "sorted (map ts (fold add xs []))"
  unfolding contents by (intro sorted_capped sorted_recent) simp

lemma from_input: "set (fold add xs []) \<subseteq> set xs"
  unfolding contents using set_capped set_recent by fastforce

lemma within_window: "y \<in> set (fold add xs []) \<Longrightarrow> x \<in> set xs \<Longrightarrow> ts x - win \<le> ts y"
proof -
  assume y: "y \<in> set (fold add xs [])" and x: "x \<in> set xs"
  let ?s = "sort_key ts xs"
  have "ts x \<le> ts (last ?s)" using x by (intro le_last_sorted) simp_all
  moreover have "ts (last ?s) - win \<le> ts y"
    using y set_capped [of cap "recent ts win ?s"] unfolding contents by (auto simp: recent_def)
  ultimately show ?thesis by linarith
qed

lemma length_bound: "cap = Some n \<Longrightarrow> length (fold add xs []) \<le> n"
  unfolding contents by (simp add: capped_def)

text \<open>The order in which entries with different times arrive does not matter.\<close>

lemma arrival_order:
  assumes "mset xs = mset ys" "distinct (map ts xs)"
  shows "fold add xs [] = fold add ys []"
proof -
  have "sort_key ts ys = sort_key ts xs"
  proof (rule properties_for_sort_key)
    show "mset (sort_key ts xs) = mset ys" using assms(1) by simp
    show "sorted (map ts (sort_key ts xs))" by simp
    fix k assume "k \<in> set (sort_key ts xs)"
    have one: "length (filter (\<lambda>y. ts k = ts y) zs) \<le> 1" if "distinct (map ts zs)" for zs
      using that by (induction zs) (auto simp: filter_empty_conv image_iff)
    have "filter (\<lambda>y. ts k = ts y) (sort_key ts xs) = filter (\<lambda>y. ts k = ts y) xs"
      using sort_key_stable [of ts "ts k" xs] by (simp add: eq_commute)
    moreover have "filter (\<lambda>y. ts k = ts y) xs = filter (\<lambda>y. ts k = ts y) ys"
      by (rule mset_eq_short) (use one [OF assms(2)] in \<open>simp_all add: assms(1)\<close>)
    ultimately show "filter (\<lambda>y. ts k = ts y) (sort_key ts xs) = filter (\<lambda>y. ts k = ts y) ys"
      by simp
  qed
  then show ?thesis by (simp only: contents)
qed

end

end
