(* ===== verification/Timed_Store.thy ===== *)
theory Timed_Store
  imports Model_V1 Time_Log
begin

text \<open>
  \<open>crates/cadvisor-manager/src/store.rs\<close>: the sample buffer of one container. \<open>TimedStore\<close> is the
  record \<open>timed_store\<close>, a \<open>VecDeque\<close> a list with the oldest sample first. A \<open>std::time::Duration\<close>
  is a number of nanoseconds; \<open>chrono::Duration::from_std\<close>, which refuses a duration chrono cannot
  hold, is the parameter \<open>from_std\<close> of \<open>ts_push\<close>. The lemmas: every buffer the program builds is
  in time order, it holds exactly the samples of the last \<open>max_age\<close> before the newest one
  (an interpretation of \<open>time_log\<close>), and \<open>ts_in_range\<close> returns the newest \<open>max\<close> samples of the
  window.
\<close>

record timed_store =
  ts_buf :: "container_stats list"
  ts_max_age :: nat

section \<open>Operations\<close>

definition ts_new :: "nat \<Rightarrow> timed_store" where
  "ts_new max_age = \<lparr>ts_buf = [], ts_max_age = max_age\<rparr>"

definition ts_len :: "timed_store \<Rightarrow> nat" where
  "ts_len st = length (ts_buf st)"

definition ts_is_empty :: "timed_store \<Rightarrow> bool" where
  "ts_is_empty st \<longleftrightarrow> ts_buf st = []"

text \<open>\<open>push\<close>: place the sample, then drop from the front what is older than the cutoff, keeping at
  least one sample.\<close>

definition place_sample :: "container_stats \<Rightarrow> container_stats list \<Rightarrow> container_stats list" where
  "place_sample sample buf =
     (if buf \<noteq> [] \<and> stats_timestamp sample < stats_timestamp (last buf)
      then insert_at (partition_point (\<lambda>s. stats_timestamp s \<le> stats_timestamp sample) buf) sample buf
      else buf @ [sample])"

fun evict_before :: "gotime \<Rightarrow> container_stats list \<Rightarrow> container_stats list" where
  "evict_before cutoff (s # s' # rest) =
     (if stats_timestamp s < cutoff then evict_before cutoff (s' # rest) else s # s' # rest)"
| "evict_before cutoff buf = buf"

definition window_of :: "(nat \<Rightarrow> int option) \<Rightarrow> nat \<Rightarrow> int" where
  "window_of from_std max_age = (case from_std max_age of Some d \<Rightarrow> d | None \<Rightarrow> 0)"

definition ts_push :: "(nat \<Rightarrow> int option) \<Rightarrow> container_stats \<Rightarrow> timed_store \<Rightarrow> timed_store" where
  "ts_push from_std sample st =
     (let buf = place_sample sample (ts_buf st);
          newest = stats_timestamp (last buf);
          cutoff = newest - window_of from_std (ts_max_age st)
      in st\<lparr>ts_buf := evict_before cutoff buf\<rparr>)"

definition ts_latest :: "timed_store \<Rightarrow> container_stats option" where
  "ts_latest st = (if ts_buf st = [] then None else Some (last (ts_buf st)))"

definition ts_two_latest :: "timed_store \<Rightarrow> (container_stats \<times> container_stats) option" where
  "ts_two_latest st =
     (let n = length (ts_buf st) in
      if n < 2 then None else Some (ts_buf st ! (n - 2), ts_buf st ! (n - 1)))"

definition ts_in_range :: "gotime \<Rightarrow> gotime \<Rightarrow> i64 \<Rightarrow> timed_store \<Rightarrow> container_stats list" where
  "ts_in_range start stop mx st =
     (let buf = ts_buf st in
      if buf = [] then []
      else
        let lo = (if start = 0 then 0 else partition_point (\<lambda>s. stats_timestamp s < start) buf);
            hi = (if stop = 0 then length buf else partition_point (\<lambda>s. stats_timestamp s \<le> stop) buf)
        in if hi \<le> lo then []
           else let count = int (hi - lo);
                    lo' = (if 0 \<le> mx \<and> mx < count then hi - nat mx else lo)
                in drop lo' (take hi buf))"

text \<open>A store after a sequence of samples, in the order they are pushed.\<close>

definition ts_pushes :: "(nat \<Rightarrow> int option) \<Rightarrow> container_stats list \<Rightarrow> timed_store \<Rightarrow> timed_store" where
  "ts_pushes from_std xs st = fold (ts_push from_std) xs st"

section \<open>Order and contents\<close>

abbreviation in_order :: "container_stats list \<Rightarrow> bool" where
  "in_order buf \<equiv> sorted (map stats_timestamp buf)"

lemma place_sample_insert_by:
  assumes "in_order buf"
  shows "place_sample x buf = insert_by stats_timestamp x buf"
proof (cases "buf \<noteq> [] \<and> stats_timestamp x < stats_timestamp (last buf)")
  case True
  then show ?thesis by (simp add: place_sample_def insert_by_def)
next
  case False
  then have "\<forall>y \<in> set buf. stats_timestamp y \<le> stats_timestamp x"
    using le_last_sorted [OF assms] by fastforce
  then have "insert_by stats_timestamp x buf = buf @ [x]" by (rule insert_by_last)
  moreover have "place_sample x buf = buf @ [x]" using False by (simp only: place_sample_def if_False)
  ultimately show ?thesis by simp
qed

lemma evict_before_filter:
  assumes "in_order buf" "cutoff \<le> stats_timestamp (last buf)"
  shows "evict_before cutoff buf = filter (\<lambda>s. cutoff \<le> stats_timestamp s) buf"
  using assms
proof (induction cutoff buf rule: evict_before.induct)
  case (1 cutoff s s' rest)
  show ?case
  proof (cases "stats_timestamp s < cutoff")
    case True
    then show ?thesis using 1 by simp
  next
    case False
    then have "\<forall>x \<in> set (s # s' # rest). cutoff \<le> stats_timestamp x" using "1.prems"(1) by auto
    then have "filter (\<lambda>s. cutoff \<le> stats_timestamp s) (s # s' # rest) = s # s' # rest"
      by (simp only: filter_id_conv)
    then show ?thesis using False by simp
  qed
qed simp_all

definition add_sample :: "int \<Rightarrow> container_stats \<Rightarrow> container_stats list \<Rightarrow> container_stats list" where
  "add_sample win x buf =
     (let buf' = place_sample x buf in evict_before (stats_timestamp (last buf') - win) buf')"

lemma ts_push_add_sample:
  "ts_push from_std x st = st\<lparr>ts_buf := add_sample (window_of from_std (ts_max_age st)) x (ts_buf st)\<rparr>"
  by (simp add: ts_push_def add_sample_def Let_def)

lemma add_sample_step:
  assumes "0 \<le> win" "in_order buf"
  shows "add_sample win x buf = capped None (recent stats_timestamp win (insert_by stats_timestamp x buf))"
proof -
  let ?buf = "insert_by stats_timestamp x buf"
  have "in_order ?buf" using assms(2) by (rule sorted_insert_by)
  then have "evict_before (stats_timestamp (last ?buf) - win) ?buf = recent stats_timestamp win ?buf"
    using assms(1) by (simp add: evict_before_filter recent_def)
  then show ?thesis using assms(2) by (simp add: add_sample_def place_sample_insert_by capped_def)
qed

text \<open>The sample buffer keeps the contract of \<open>time_log\<close>, for every window that is not negative.\<close>

interpretation store: time_log stats_timestamp "int n" None "add_sample (int n)" for n
  by unfold_locales (simp_all add: add_sample_step)

lemma ts_pushes_max_age [simp]: "ts_max_age (ts_pushes from_std xs st) = ts_max_age st"
  by (induction xs arbitrary: st) (simp_all add: ts_pushes_def ts_push_add_sample)

lemma ts_pushes_fold:
  "ts_buf (ts_pushes from_std xs st) = fold (add_sample (window_of from_std (ts_max_age st))) xs (ts_buf st)"
  by (induction xs arbitrary: st) (simp_all add: ts_pushes_def ts_push_add_sample)

lemma ts_pushes_contents:
  assumes "0 \<le> window_of from_std age"
  shows "ts_buf (ts_pushes from_std xs (ts_new age)) =
     recent stats_timestamp (window_of from_std age) (sort_key stats_timestamp xs)"
  using store.contents [of "nat (window_of from_std age)" xs] assms
  by (simp add: ts_pushes_fold ts_new_def capped_def)

lemma recent_all_equal_last:
  assumes "in_order xs" "xs \<noteq> []"
  shows "recent stats_timestamp 0 xs = filter (\<lambda>s. stats_timestamp s = stats_timestamp (last xs)) xs"
  unfolding recent_def using le_last_sorted [OF assms(1)] by (intro filter_cong) force+

section \<open>Window selection\<close>

lemma drop_take_partition:
  "partitioned p xs \<Longrightarrow> drop (partition_point p xs) (take h xs) = filter (\<lambda>x. \<not> p x) (take h xs)"
proof (induction xs arbitrary: h)
  case (Cons x xs)
  then show ?case
    by (cases h)
      (auto simp: partition_point_def intro!: filter_True [symmetric] dest: in_set_takeD split: if_splits)
qed simp

definition in_window :: "gotime \<Rightarrow> gotime \<Rightarrow> container_stats \<Rightarrow> bool" where
  "in_window start stop s \<longleftrightarrow>
     (start = 0 \<or> start \<le> stats_timestamp s) \<and> (stop = 0 \<or> stats_timestamp s \<le> stop)"

lemma window_slice:
  assumes "in_order buf"
  defines "lo \<equiv> \<lambda>st. if st = 0 then 0 else partition_point (\<lambda>s. stats_timestamp s < st) buf"
    and "hi \<equiv> \<lambda>en. if en = 0 then length buf else partition_point (\<lambda>s. stats_timestamp s \<le> en) buf"
  shows "drop (lo start) (take (hi stop) buf) = filter (in_window start stop) buf"
proof -
  have low: "drop (lo start) (take (hi stop) buf) =
      filter (\<lambda>s. start = 0 \<or> start \<le> stats_timestamp s) (take (hi stop) buf)"
    using drop_take_partition [OF sorted_partitioned_less [OF assms(1)], of start "hi stop"]
    by (simp add: lo_def not_less)
  have up: "take (hi stop) buf = filter (\<lambda>s. stop = 0 \<or> stats_timestamp s \<le> stop) buf"
    using partitioned_filter(1) [OF sorted_partitioned_le [OF assms(1), of stop]] by (simp add: hi_def)
  show ?thesis unfolding low unfolding up by (simp add: in_window_def [abs_def] conj_commute)
qed

text \<open>The buffer handed out is the window, cut to its newest \<open>mx\<close> samples when \<open>mx\<close> is not
  negative.\<close>

lemma ts_in_range_window:
  assumes "in_order (ts_buf st)"
  shows "ts_in_range start stop mx st =
     (let w = filter (in_window start stop) (ts_buf st) in if mx < 0 then w else lastn (nat mx) w)"
proof -
  define lo where "lo = (if start = 0 then 0 else partition_point (\<lambda>s. stats_timestamp s < start) (ts_buf st))"
  define hi where "hi = (if stop = 0 then length (ts_buf st) else partition_point (\<lambda>s. stats_timestamp s \<le> stop) (ts_buf st))"
  have w: "filter (in_window start stop) (ts_buf st) = drop lo (take hi (ts_buf st))"
    using window_slice [OF assms] by (simp add: lo_def hi_def)
  have len: "length (filter (in_window start stop) (ts_buf st)) = hi - lo"
    unfolding w by (simp add: hi_def)
  have r: "ts_in_range start stop mx st =
      (if hi \<le> lo then [] else drop (if 0 \<le> mx \<and> mx < int (hi - lo) then hi - nat mx else lo) (take hi (ts_buf st)))"
    by (cases "ts_buf st = []") (simp_all add: ts_in_range_def Let_def lo_def hi_def)
  show ?thesis
  proof (cases "hi \<le> lo")
    case True
    then show ?thesis using len by (simp add: r Let_def)
  next
    case False
    have "lastn (nat mx) (drop lo (take hi (ts_buf st))) = drop (hi - nat mx) (take hi (ts_buf st))"
      if "nat mx < hi - lo"
    proof -
      have "length (drop lo (take hi (ts_buf st))) = hi - lo" using len w by simp
      then show ?thesis using that by (simp add: lastn_def)
    qed
    then show ?thesis using False len by (auto simp: r w Let_def zless_nat_conj nat_less_iff)
  qed
qed

section \<open>Order and newest sample for every configuration\<close>

lemma evict_before_suffix: "\<exists>d. buf = d @ evict_before cutoff buf"
proof (induction cutoff buf rule: evict_before.induct)
  case (1 cutoff s s' rest)
  show ?case
  proof (cases "stats_timestamp s < cutoff")
    case True
    with 1 obtain d where "s' # rest = d @ evict_before cutoff (s' # rest)" by blast
    then show ?thesis using True by (intro exI [of _ "s # d"]) simp
  qed simp
qed simp_all

lemma evict_before_Nil [simp]: "evict_before cutoff buf = [] \<longleftrightarrow> buf = []"
  by (induction cutoff buf rule: evict_before.induct) auto

lemma add_sample_order:
  assumes "in_order buf"
  shows "in_order (add_sample win x buf)" and "add_sample win x buf \<noteq> []"
    and "last (add_sample win x buf) = last (insert_by stats_timestamp x buf)"
proof -
  let ?buf = "insert_by stats_timestamp x buf"
  obtain d where d: "?buf = d @ add_sample win x buf"
    using evict_before_suffix by (metis add_sample_def assms place_sample_insert_by)
  show ne: "add_sample win x buf \<noteq> []"
    by (simp add: add_sample_def assms place_sample_insert_by Let_def)
  have "in_order (d @ add_sample win x buf)" using sorted_insert_by [OF assms, of x] unfolding d .
  then show "in_order (add_sample win x buf)" by (simp add: sorted_append)
  show "last (add_sample win x buf) = last ?buf" using d ne by simp
qed

lemma samples_order:
  "in_order (fold (add_sample win) xs []) \<and>
   (fold (add_sample win) xs [] = [] \<longleftrightarrow> xs = []) \<and>
   (xs \<noteq> [] \<longrightarrow> stats_timestamp (last (fold (add_sample win) xs [])) = Max (stats_timestamp ` set xs))"
proof (induction xs rule: rev_induct)
  case (snoc x xs)
  let ?buf = "fold (add_sample win) xs []"
  have s: "in_order ?buf" using snoc by simp
  have "stats_timestamp (last (insert_by stats_timestamp x ?buf)) = Max (stats_timestamp ` set (xs @ [x]))"
  proof (cases "xs = []")
    case False
    then have "?buf \<noteq> []" "stats_timestamp (last ?buf) = Max (stats_timestamp ` set xs)" using snoc by auto
    moreover have "Max (stats_timestamp ` set (xs @ [x])) =
        max (stats_timestamp x) (Max (stats_timestamp ` set xs))" using False by simp
    ultimately show ?thesis using last_insert_by [OF s, of x] by (simp only: if_split max_def split: if_split) auto
  qed simp
  then show ?case using add_sample_order [OF s] by simp
qed simp

section \<open>Properties\<close>

text \<open>C7: after any sequence of samples, in whatever order they arrive, the buffer is the list of
  those not older than the configured age before the newest one, sorted by time, samples of equal
  time in their order of arrival.\<close>

theorem store_contents:
  assumes "from_std age = Some w" "0 \<le> w"
  shows "ts_buf (ts_pushes from_std xs (ts_new age)) =
     (let sorted = sort_key stats_timestamp xs in
      filter (\<lambda>s. stats_timestamp (last sorted) - w \<le> stats_timestamp s) sorted)"
  using ts_pushes_contents [of from_std age xs] assms by (simp add: window_of_def recent_def Let_def)

text \<open>For every configuration, the one chrono cannot convert included, the buffer is in time
  order, it is empty only before the first sample, and its latest sample carries the largest
  timestamp ever pushed.\<close>

theorem store_order_and_latest:
  "in_order (ts_buf (ts_pushes from_std xs (ts_new age))) \<and>
   (ts_is_empty (ts_pushes from_std xs (ts_new age)) = (xs = [])) \<and>
   map_option stats_timestamp (ts_latest (ts_pushes from_std xs (ts_new age))) =
     (if xs = [] then None else Some (Max (stats_timestamp ` set xs)))"
  using samples_order [of "window_of from_std age" xs]
  by (simp add: ts_pushes_fold ts_new_def ts_is_empty_def ts_latest_def)

text \<open>C8: a query returns, oldest first, the samples of the closed window \<open>[start, stop]\<close> (a zero
  bound is no bound), and of those the newest \<open>mx\<close> when \<open>mx\<close> is not negative. It holds for every
  buffer the program builds.\<close>

theorem store_query:
  "ts_in_range start stop mx (ts_pushes from_std xs (ts_new age)) =
     (let w = filter (\<lambda>s. (start = 0 \<or> start \<le> stats_timestamp s) \<and>
                          (stop = 0 \<or> stats_timestamp s \<le> stop))
                (ts_buf (ts_pushes from_std xs (ts_new age)))
      in if mx < 0 then w else drop (length w - nat mx) w)"
proof -
  have "in_order (ts_buf (ts_pushes from_std xs (ts_new age)))"
    using samples_order [of "window_of from_std age" xs] by (simp add: ts_pushes_fold ts_new_def)
  from ts_in_range_window [OF this] show ?thesis
    by (simp add: in_window_def [abs_def] lastn_def Let_def)
qed

text \<open>When the storage duration is one chrono cannot represent, the fallback is a window of zero:
  the buffer keeps only the samples that carry the newest timestamp.\<close>

theorem store_unrepresentable_age:
  assumes "from_std age = None"
  shows "ts_buf (ts_pushes from_std xs (ts_new age)) =
     (let sorted = sort_key stats_timestamp xs in
      filter (\<lambda>s. stats_timestamp s = stats_timestamp (last sorted)) sorted)"
proof (cases "xs = []")
  case False
  then have "sort_key stats_timestamp xs \<noteq> []" by (metis length_0_conv length_sort)
  from recent_all_equal_last [OF _ this] show ?thesis
    using ts_pushes_contents [of from_std age xs] assms by (simp add: window_of_def Let_def)
qed (simp add: ts_pushes_def ts_new_def)

definition sample_at :: "gotime \<Rightarrow> container_stats" where
  "sample_at t = default_container_stats\<lparr>stats_timestamp := t\<rparr>"

lemma stats_timestamp_sample_at [simp]: "stats_timestamp (sample_at t) = t"
  by (simp add: sample_at_def)

theorem store_contents_witness:
  "ts_buf (ts_pushes (Some \<circ> int) [sample_at 5, sample_at 30, sample_at 21, sample_at 12] (ts_new 10)) =
     [sample_at 21, sample_at 30]"
  by (subst store_contents [of "Some \<circ> int" 10 10]) (simp_all add: Let_def)

theorem store_unrepresentable_age_witness:
  "ts_buf (ts_pushes (\<lambda>_. None) [sample_at 5, sample_at 30, sample_at 21] (ts_new 10)) = [sample_at 30]"
  by (subst store_unrepresentable_age) (simp_all add: Let_def)

end
