(* ===== verification/Runtime.thy ===== *)
theory Runtime
  imports Host_Env Btree
begin

text \<open>
  \<open>crates/cadvisor-runtime\<close> (\<open>lib.rs\<close>, \<open>crio.rs\<close>, \<open>containerd.rs\<close>) and the factory chain
  \<open>Manager::runtime_meta\<close> of \<open>crates/cadvisor-manager/src/manager.rs\<close>. What the runtimes answer is a
  parameter: the HTTP transport and the decoder of CRI-O, the two gRPC calls of containerd, the
  JSON decoder of the OCI spec. The retry loop takes the answer of each attempt and returns, beside
  the metadata, the pauses it made.
\<close>

section \<open>Metadata\<close>

datatype runtime_error = RtNotFound | RtUnavailable string | RtOther string

record container_meta =
  meta_id :: string
  meta_namespace :: string
  meta_aliases :: "string list"
  meta_image :: string
  meta_labels :: "(string \<times> string) list"
  meta_init_pid :: "u32 option"
  meta_reports_network :: bool
  meta_rootfs_diff :: "string option"
  meta_env :: "string list"

definition env_var :: "string \<Rightarrow> string \<Rightarrow> (string \<times> string) list \<Rightarrow> (string \<times> string) list" where
  "env_var prefix var out =
     (case split_once CHR ''='' var of
        Some (k, v) \<Rightarrow> if starts_with k prefix then bt_insert k v out else out
      | None \<Rightarrow> out)"

definition whitelisted_env :: "string list \<Rightarrow> string list \<Rightarrow> (string \<times> string) list" where
  "whitelisted_env env whitelist =
     fold (\<lambda>prefix out. fold (env_var prefix) env out) (filter (\<lambda>w. w \<noteq> []) whitelist) []"

text \<open>\<open>decode\<close> is \<open>serde_json\<close> on the OCI spec: \<open>process.env\<close>, \<open>None\<close> when it is not one.\<close>

definition oci_spec_env :: "(string \<Rightarrow> string list option) \<Rightarrow> string \<Rightarrow> string list" where
  "oci_spec_env decode spec_json = (case decode spec_json of Some env \<Rightarrow> env | None \<Rightarrow> [])"

section \<open>Container ids\<close>

definition is_hex :: "char \<Rightarrow> bool" where
  "is_hex b \<longleftrightarrow> is_digit b \<or> (97 \<le> code b \<and> code b \<le> 102)"

text \<open>The loop over \<open>0..=len\<close>: the third argument is the rest of the bytes, the index \<open>i\<close> the
  position of its head.\<close>

fun scan_id :: "string \<Rightarrow> nat \<Rightarrow> string \<Rightarrow> nat \<Rightarrow> nat \<Rightarrow> string option" where
  "scan_id basename i [] run_start run_len =
     (if run_len = 64 then Some (take 64 (drop run_start basename)) else None)"
| "scan_id basename i (b # bytes) run_start run_len =
     (if is_hex b then
        scan_id basename (i + 1) bytes (if run_len = 0 then i else run_start) (run_len + 1)
      else if run_len = 64 then Some (take 64 (drop run_start basename))
      else scan_id basename (i + 1) bytes run_start 0)"

definition extract_container_id :: "string \<Rightarrow> string option" where
  "extract_container_id basename =
     (if ends_with basename ''.mount'' then None else scan_id basename 0 basename 0 0)"

section \<open>CRI-O\<close>

text \<open>What a \<open>GET\<close> on the socket gives: no connection, a failure on the way, or a response with its
  status code, the code's text and the body.\<close>

datatype http_answer = NoConnection string | TransportError string | Response nat string string

record crio_container_info =
  crio_name :: string
  crio_pid :: u32
  crio_image :: string
  crio_labels :: "(string \<times> string) list"
  crio_root :: string

definition get_json ::
  "(string \<Rightarrow> http_answer) \<Rightarrow> (string \<Rightarrow> (string, 'a) res) \<Rightarrow> string \<Rightarrow> (runtime_error, 'a) res" where
  "get_json http decode path =
     (case http path of
        NoConnection e \<Rightarrow> Inl (RtUnavailable e)
      | TransportError e \<Rightarrow> Inl (RtOther e)
      | Response status text body \<Rightarrow>
          if status = 404 then Inl RtNotFound
          else if \<not> (200 \<le> status \<and> status < 300)
            then Inl (RtOther (''crio '' @ path @ '': HTTP '' @ text))
          else res_map_err RtOther (decode body))"

definition crio_available :: "os \<Rightarrow> string \<Rightarrow> bool" where
  "crio_available os socket = os_exists os socket"

definition crio_meta :: "os \<Rightarrow> string \<Rightarrow> crio_container_info \<Rightarrow> container_meta" where
  "crio_meta os cid info =
     \<lparr>meta_id = cid, meta_namespace = ''crio'',
      meta_aliases = (if crio_name info \<noteq> [] then [crio_name info] else []) @ [cid],
      meta_image = crio_image info, meta_labels = crio_labels info,
      meta_init_pid = (if 0 < crio_pid info then Some (crio_pid info) else None),
      meta_reports_network =
        (bt_get (crio_labels info) ''io.kubernetes.container.name'' = Some ''POD''),
      meta_rootfs_diff =
        (case strip_suffix ''/merged'' (crio_root info) of
           None \<Rightarrow> None
         | Some base \<Rightarrow> if os_is_dir os (base @ ''/diff'') then Some (base @ ''/diff'') else None),
      meta_env = []\<rparr>"

definition crio_inspect ::
  "os \<Rightarrow> (string \<Rightarrow> http_answer) \<Rightarrow> (string \<Rightarrow> (string, crio_container_info) res) \<Rightarrow> string \<Rightarrow>
     (runtime_error, container_meta) res" where
  "crio_inspect os http decode cid =
     res_map (crio_meta os cid) (get_json http decode (''/containers/'' @ cid))"

section \<open>containerd\<close>

datatype grpc_error = GrpcNotFound | GrpcOther string

record containerd_container =
  cd_image :: string
  cd_labels :: "(string \<times> string) list"
  cd_spec :: "string option"

text \<open>The two calls: \<open>containers.get\<close>, whose response may hold no container, and \<open>tasks.get\<close>, whose
  response may hold no process.\<close>

record containerd_client =
  cd_get :: "string \<Rightarrow> (grpc_error, containerd_container option) res"
  cd_task :: "string \<Rightarrow> (grpc_error, u32 option) res"

definition containerd_inspect ::
  "(string \<Rightarrow> string list option) \<Rightarrow> containerd_client \<Rightarrow> string \<Rightarrow> (runtime_error, container_meta) res"
where
  "containerd_inspect decode client cid =
     res_bind
       (res_map_err (\<lambda>e. case e of GrpcNotFound \<Rightarrow> RtNotFound | GrpcOther s \<Rightarrow> RtOther s) (cd_get client cid))
       (\<lambda>resp. case resp of
          None \<Rightarrow> Inl RtNotFound
        | Some container \<Rightarrow>
            (let labels = bt_of_list (cd_labels container) in
             Inr \<lparr>meta_id = cid, meta_namespace = ''containerd'', meta_aliases = [cid],
               meta_image = cd_image container, meta_labels = labels,
               meta_init_pid = (case cd_task client cid of Inr p \<Rightarrow> p | Inl _ \<Rightarrow> None),
               meta_reports_network = (bt_get labels ''io.cri-containerd.kind'' = Some ''sandbox''),
               meta_rootfs_diff = None,
               meta_env = (case cd_spec container of
                   Some s \<Rightarrow> oci_spec_env decode s | None \<Rightarrow> [])\<rparr>))"

section \<open>The factory chain\<close>

text \<open>What the runtimes answer, by attempt: CRI-O's availability and \<open>inspect\<close>; containerd's
  \<open>inspect\<close>, or \<open>None\<close> when the cached connection attempt failed.\<close>

record runtimes =
  rts_crio_available :: "nat \<Rightarrow> bool"
  rts_crio :: "nat \<Rightarrow> string \<Rightarrow> (runtime_error, container_meta) res"
  rts_containerd :: "(nat \<Rightarrow> string \<Rightarrow> (runtime_error, container_meta) res) option"

datatype attempt = Return "container_meta option" | Again

definition meta_attempt :: "runtimes \<Rightarrow> bool \<Rightarrow> string \<Rightarrow> nat \<Rightarrow> attempt" where
  "meta_attempt rts is_crio cid n =
     (if is_crio then
        if \<not> rts_crio_available rts n then Return None
        else case rts_crio rts n cid of
          Inr meta \<Rightarrow> Return (Some meta)
        | Inl RtNotFound \<Rightarrow> Again
        | Inl _ \<Rightarrow> Return None
      else case rts_containerd rts of
        Some client \<Rightarrow>
          (case client n cid of
             Inr meta \<Rightarrow> Return (Some meta)
           | Inl RtNotFound \<Rightarrow> Return None
           | Inl _ \<Rightarrow> Again)
      | None \<Rightarrow> Return None)"

text \<open>The loop over \<open>0..3\<close> with its pauses in milliseconds, \<open>100 << attempt\<close> before every attempt but
  the first.\<close>

fun meta_loop :: "runtimes \<Rightarrow> bool \<Rightarrow> string \<Rightarrow> nat list \<Rightarrow> container_meta option \<times> nat list" where
  "meta_loop rts is_crio cid [] = (None, [])"
| "meta_loop rts is_crio cid (n # ns) =
     (let pause = (if 0 < n then [push_bit n 100] else []) in
      case meta_attempt rts is_crio cid n of
        Return r \<Rightarrow> (r, pause)
      | Again \<Rightarrow> (let (r, pauses) = meta_loop rts is_crio cid ns in (r, pause @ pauses)))"

definition runtime_meta :: "runtimes \<Rightarrow> string \<Rightarrow> container_meta option \<times> nat list" where
  "runtime_meta rts basename =
     (if starts_with basename ''crio-conmon-'' then (None, [])
      else case extract_container_id basename of
        None \<Rightarrow> (None, [])
      | Some cid \<Rightarrow> meta_loop rts (starts_with basename ''crio-'') cid [0, 1, 2])"

section \<open>Runs of hexadecimal digits\<close>

text \<open>The pieces of a string between its characters that are not hexadecimal digits.\<close>

fun hex_pieces :: "string \<Rightarrow> string \<Rightarrow> string list" where
  "hex_pieces cur [] = [rev cur]"
| "hex_pieces cur (b # s) = (if is_hex b then hex_pieces (b # cur) s else rev cur # hex_pieces [] s)"

lemma scan_id_pieces:
  assumes "basename = pre @ rev cur @ bytes" "cur = [] \<or> start = length pre"
  shows "scan_id basename (length pre + length cur) bytes start (length cur) =
     find (\<lambda>r. length r = 64) (hex_pieces cur bytes)"
  using assms
proof (induction bytes arbitrary: pre cur start)
  case Nil
  then show ?case by (cases "length cur = 64") auto
next
  case (Cons b bytes)
  have cut: "length cur = 64 \<Longrightarrow> take 64 (drop start basename) = rev cur" using Cons.prems by auto
  show ?case
  proof (cases "is_hex b")
    case True
    have "scan_id basename (length pre + length (b # cur)) bytes (if length cur = 0 then length pre else start) (length (b # cur)) =
        find (\<lambda>r. length r = 64) (hex_pieces (b # cur) bytes)"
      using Cons.prems by (intro Cons.IH) auto
    then show ?thesis using True Cons.prems(2) by (cases cur) auto
  next
    case False
    then show ?thesis using Cons.IH [of "pre @ rev cur @ [b]" "[]" start] Cons.prems(1) cut by auto
  qed
qed

lemma hex_pieces_hex: "r \<in> set (hex_pieces cur s) \<Longrightarrow> list_all is_hex cur \<Longrightarrow> list_all is_hex r"
  by (induction cur s rule: hex_pieces.induct) (auto split: if_splits)

lemma hex_pieces_substring: "r \<in> set (hex_pieces cur s) \<Longrightarrow> \<exists>a b. rev cur @ s = a @ r @ b"
proof (induction cur s rule: hex_pieces.induct)
  case (1 cur)
  then show ?case by (intro exI [of _ "[]"]) simp
next
  case (2 cur b s)
  show ?case
  proof (cases "is_hex b")
    case True
    then show ?thesis using 2 by auto
  next
    case False
    then consider "r = rev cur" | "r \<in> set (hex_pieces [] s)" using "2.prems" by auto
    then show ?thesis
    proof cases
      case 1
      then show ?thesis by (intro exI [of _ "[]"] exI [of _ "b # s"]) simp
    next
      case 2
      with "2.IH"(2) [OF False] obtain a c where "s = a @ r @ c" by auto
      then show ?thesis by (intro exI [of _ "rev cur @ b # a"] exI [of _ c]) simp
    qed
  qed
qed

lemma hex_pieces_run: "list_all is_hex w \<Longrightarrow> hex_pieces cur (w @ s) = hex_pieces (rev w @ cur) s"
  by (induction w arbitrary: cur) auto

lemma extract_container_id_pieces:
  "extract_container_id basename =
     (if ends_with basename ''.mount'' then None
      else find (\<lambda>r. length r = 64) (hex_pieces [] basename))"
  using scan_id_pieces [of basename "[]" "[]" basename 0] by (simp add: extract_container_id_def)

lemma mount_last: "ends_with s ''.mount'' \<Longrightarrow> last s = CHR ''t''"
  by (auto simp: ends_with_iff)

lemma container_id_in_scope:
  assumes "length cid = 64" "list_all is_hex cid"
  shows "extract_container_id cid = Some cid
       \<and> extract_container_id (''cri-containerd-'' @ cid @ ''.scope'') = Some cid
       \<and> extract_container_id (''crio-'' @ cid @ ''.scope'') = Some cid
       \<and> extract_container_id (''libpod-'' @ cid @ ''.scope'') = Some cid
       \<and> extract_container_id (cid @ ''.mount'') = None"
proof -
  have h: "is_hex CHR ''c''" "is_hex CHR ''a''" "is_hex CHR ''e''" "is_hex CHR ''d''" "is_hex CHR ''b''"
    "\<not> is_hex CHR ''r''" "\<not> is_hex CHR ''i''" "\<not> is_hex CHR ''-''" "\<not> is_hex CHR ''o''"
    "\<not> is_hex CHR ''n''" "\<not> is_hex CHR ''t''" "\<not> is_hex CHR ''l''" "\<not> is_hex CHR ''p''"
    "\<not> is_hex CHR ''.''" "\<not> is_hex CHR ''s''"
    by (simp_all add: is_hex_def is_digit_def code_def)
  have pieces: "hex_pieces [] cid = [cid]" "hex_pieces [] (cid @ CHR ''.'' # s) = cid # hex_pieces [] s" for s
    using hex_pieces_run [OF assms(2), of "[]" "[]"] hex_pieces_run [OF assms(2), of "[]" "CHR ''.'' # s"] h
    by simp_all
  have "\<not> ends_with cid ''.mount''"
  proof
    assume "ends_with cid ''.mount''"
    then obtain r where "cid = r @ ''.mount''" by (auto simp: ends_with_iff)
    then show False using assms(2) h by simp
  qed
  moreover have "ends_with (cid @ ''.mount'') ''.mount''" by (auto simp: ends_with_iff)
  moreover have "\<not> ends_with s ''.mount''" if "last s = CHR ''e''" for s
    using mount_last [of s] that by auto
  ultimately show ?thesis
    using assms(1) h pieces by (simp add: extract_container_id_pieces)
qed

section \<open>The environment whitelist\<close>

lemma fold_env_var:
  "bt_get (fold (env_var p) env out) k =
     (if starts_with k p \<and> map_of (rev (List.map_filter (split_once CHR ''='') env)) k \<noteq> None
      then map_of (rev (List.map_filter (split_once CHR ''='') env)) k else bt_get out k)"
proof (induction env rule: rev_induct)
  case (snoc v env)
  show ?case
  proof (cases "split_once CHR ''='' v")
    case None
    then show ?thesis using snoc by (auto simp: env_var_def)
  next
    case (Some kv)
    then show ?thesis using snoc
      by (cases kv) (auto simp: env_var_def bt_get_insert)
  qed
qed simp

lemma whitelisted_env_get:
  "bt_get (whitelisted_env env ws) k =
     (if list_ex (\<lambda>w. w \<noteq> [] \<and> starts_with k w) ws
      then map_of (rev (List.map_filter (split_once CHR ''='') env)) k else None)"
proof (induction ws rule: rev_induct)
  case (snoc w ws)
  then show ?case by (auto simp: whitelisted_env_def fold_env_var)
qed (simp add: whitelisted_env_def bt_get_def)

lemma fold_env_var_wf: "bt_wf out \<Longrightarrow> bt_wf (fold (env_var p) env out)"
  by (induction env arbitrary: out) (auto simp: env_var_def bt_wf_insert split: option.split)

lemma whitelisted_env_wf: "bt_wf (whitelisted_env env ws)"
proof -
  have "bt_wf (fold (\<lambda>p out. fold (env_var p) env out) ps out)" if "bt_wf out" for ps out
    using that by (induction ps arbitrary: out) (simp_all add: fold_env_var_wf)
  then show ?thesis by (simp add: whitelisted_env_def bt_wf_def)
qed

section \<open>Properties\<close>

text \<open>The id of a cgroup is its first run of exactly 64 hexadecimal digits (a longer or shorter
  run does not count), and mount units have none.\<close>

theorem container_id_first_run:
  "extract_container_id basename =
     (if ends_with basename ''.mount'' then None
      else find (\<lambda>r. length r = 64) (hex_pieces [] basename))
   \<and> (case extract_container_id basename of
        None \<Rightarrow> True
      | Some cid \<Rightarrow> length cid = 64 \<and> list_all is_hex cid \<and> (\<exists>a b. basename = a @ cid @ b))"
proof -
  have "find (\<lambda>r. length r = 64) (hex_pieces [] basename) = Some cid \<Longrightarrow>
      length cid = 64 \<and> list_all is_hex cid \<and> (\<exists>a b. basename = a @ cid @ b)" for cid
    using hex_pieces_hex [of cid "[]" basename] hex_pieces_substring [of cid "[]" basename]
    by (auto simp: find_Some_iff)
  then show ?thesis by (auto simp: extract_container_id_pieces split: option.split)
qed

text \<open>C21: the id comes back out of the cgroup names the runtimes make from it.\<close>

theorem container_id_roundtrip:
  assumes "length cid = 64" "list_all is_hex cid"
  shows "extract_container_id cid = Some cid
       \<and> extract_container_id (''cri-containerd-'' @ cid @ ''.scope'') = Some cid
       \<and> extract_container_id (''crio-'' @ cid @ ''.scope'') = Some cid
       \<and> extract_container_id (''libpod-'' @ cid @ ''.scope'') = Some cid
       \<and> extract_container_id (cid @ ''.mount'') = None"
  by (rule container_id_in_scope [OF assms])

text \<open>The exported environment holds a variable exactly when its name starts with a non-empty
  whitelist entry, with the value of its last occurrence; the map is in key order.\<close>

theorem env_whitelist:
  "bt_get (whitelisted_env env ws) k =
     (if list_ex (\<lambda>w. w \<noteq> [] \<and> starts_with k w) ws
      then map_of (rev (List.map_filter (split_once CHR ''='') env)) k else None)
   \<and> bt_wf (whitelisted_env env ws)"
  using whitelisted_env_get whitelisted_env_wf by blast

text \<open>C22: the factory chain tries at most three times, with pauses of 200 and 400 ms in between, and
  a CRI-O container that appears at attempt \<open>n\<close> is found there.\<close>

theorem crio_registration_race:
  assumes "extract_container_id basename = Some cid"
    and "starts_with basename ''crio-''" "\<not> starts_with basename ''crio-conmon-''"
    and "\<And>i. rts_crio_available rts i"
    and "n < 3" "\<And>i. i < n \<Longrightarrow> rts_crio rts i cid = Inl RtNotFound"
    and "rts_crio rts n cid = Inr meta"
  shows "runtime_meta rts basename = (Some meta, take n [200, 400])"
proof -
  consider "n = 0" | "n = 1" | "n = 2" using assms(5) by linarith
  then show ?thesis
    using assms by cases (simp_all add: runtime_meta_def meta_attempt_def Let_def push_bit_eq_mult)
qed

text \<open>For containerd the same race is not retried: a container that is not registered yet at the
  first attempt stays without metadata, whatever the later attempts would have answered.\<close>

theorem containerd_not_found_final:
  assumes "extract_container_id basename = Some cid" "\<not> starts_with basename ''crio-''"
    and "rts_containerd rts = Some client" "client 0 cid = Inl RtNotFound"
  shows "runtime_meta rts basename = (None, [])"
proof -
  have "\<not> starts_with basename ''crio-conmon-''" using assms(2) by (auto simp: starts_with_iff)
  then show ?thesis using assms by (simp add: runtime_meta_def meta_attempt_def)
qed

definition demo_id :: string where
  "demo_id = replicate 64 CHR ''a''"

lemma demo_id_hex: "length demo_id = 64" "list_all is_hex demo_id"
  by (simp_all add: demo_id_def list_all_iff is_hex_def code_def)

definition demo_meta :: container_meta where
  "demo_meta = \<lparr>meta_id = demo_id, meta_namespace = ''crio'', meta_aliases = [demo_id],
     meta_image = [], meta_labels = [], meta_init_pid = None, meta_reports_network = False,
     meta_rootfs_diff = None, meta_env = []\<rparr>"

theorem container_id_roundtrip_witness:
  "extract_container_id demo_id = Some demo_id \<and>
   extract_container_id (''crio-'' @ demo_id @ ''.scope'') = Some demo_id"
  using container_id_roundtrip [OF demo_id_hex] by blast

text \<open>A CRI-O that knows its containers from the second attempt on, a containerd from the first.\<close>

definition demo_runtimes :: runtimes where
  "demo_runtimes = \<lparr>rts_crio_available = (\<lambda>_. True),
     rts_crio = (\<lambda>n cid. if n < 2 then Inl RtNotFound else Inr demo_meta),
     rts_containerd = Some (\<lambda>n cid. if n < 1 then Inl RtNotFound else Inr demo_meta)\<rparr>"

lemma demo_id_Cons: "demo_id = CHR ''a'' # replicate 63 CHR ''a''"
  by (simp add: demo_id_def flip: replicate_Suc)

lemma demo_extract:
  "extract_container_id (''crio-'' @ demo_id @ ''.scope'') = Some demo_id"
  "extract_container_id (''cri-containerd-'' @ demo_id @ ''.scope'') = Some demo_id"
  using container_id_in_scope [OF demo_id_hex] by simp_all

theorem crio_registration_race_witness:
  "runtime_meta demo_runtimes (''crio-'' @ demo_id @ ''.scope'') = (Some demo_meta, [200, 400])"
proof -
  have "runtime_meta demo_runtimes (''crio-'' @ demo_id @ ''.scope'') = (Some demo_meta, take 2 [200, 400])"
    by (rule crio_registration_race [OF demo_extract(1)]) (simp_all add: demo_runtimes_def starts_with_def demo_id_Cons)
  then show ?thesis by simp
qed

theorem containerd_not_found_final_witness:
  "runtime_meta demo_runtimes (''cri-containerd-'' @ demo_id @ ''.scope'') = (None, [])"
  by (rule containerd_not_found_final [OF demo_extract(2), of demo_runtimes
        "\<lambda>n cid. if n < 1 then Inl RtNotFound else Inr demo_meta"])
    (simp_all add: demo_runtimes_def starts_with_def)

end
