(* ===== verification/Manager_Sample.thy ===== *)
theory Manager_Sample
  imports Cgroup_Reader Host_Fs Timed_Store Runtime
begin

text \<open>
  The container handle and what \<open>crates/cadvisor-manager/src/manager.rs\<close> reads for it: the
  configuration, \<open>build_spec\<close>, \<open>sample\<close> with the network, root and writable-layer parts,
  \<open>unknown_disks\<close> and \<open>note_disks\<close>. A handle's locks and atomics hold one value each, so the handle
  is a plain record; who may change it when is the matter of the theory \<open>Registry\<close>. The host is the
  record \<open>host\<close>: the operating system, \<open>statvfs\<close>, the directory tree, and the \<open>FsService\<close> the manager
  made at its start.
\<close>

section \<open>Configuration and handles\<close>

record manager_config =
  mc_cgroup_root :: string
  mc_housekeeping_interval :: nat
  mc_max_housekeeping_interval :: nat
  mc_allow_dynamic_housekeeping :: bool
  mc_global_housekeeping_interval :: nat
  mc_update_machine_info_interval :: nat
  mc_storage_duration :: nat
  mc_cadvisor_version :: string
  mc_containerd_socket :: string
  mc_containerd_namespace :: string
  mc_crio_socket :: string
  mc_env_metadata_whitelist :: "string list"

definition secs :: "nat \<Rightarrow> nat" where
  "secs n = n * 1000000000"

text \<open>The default, for the version of the package.\<close>

definition default_manager_config :: "string \<Rightarrow> manager_config" where
  "default_manager_config version =
     \<lparr>mc_cgroup_root = ''/sys/fs/cgroup'', mc_housekeeping_interval = secs 1,
      mc_max_housekeeping_interval = secs 60, mc_allow_dynamic_housekeeping = True,
      mc_global_housekeeping_interval = secs 60, mc_update_machine_info_interval = secs 300,
      mc_storage_duration = secs 120, mc_cadvisor_version = version,
      mc_containerd_socket = ''/run/containerd/containerd.sock'',
      mc_containerd_namespace = ''k8s.io'', mc_crio_socket = ''/var/run/crio/crio.sock'',
      mc_env_metadata_whitelist = []\<rparr>"

datatype manager_error = UnknownContainer string | Host host_error | NotCgroup2 string

definition check_cgroup2 :: "(string \<Rightarrow> bool) \<Rightarrow> string \<Rightarrow> (manager_error, unit) res" where
  "check_cgroup2 is_file mnt =
     (if is_file (path_join mnt ''cgroup.controllers'') then Inr () else Inl (NotCgroup2 mnt))"

record handle =
  h_name :: string
  h_reference :: container_reference
  h_spec :: container_spec
  h_store :: timed_store
  h_init_pid :: "u32 option"
  h_reports_network :: bool
  h_rootfs_diff :: "string option"
  h_fs_usage :: "u64 \<times> u64"

record host =
  ho_os :: os
  ho_vfs :: vfs
  ho_tree :: dir_tree
  ho_partitions :: "partition list"

section \<open>Specs\<close>

text \<open>\<open>build_spec\<close>, with the machine info it reads for the root container.\<close>

definition spec_of_cgroup :: "cgroup_spec \<Rightarrow> container_spec" where
  "spec_of_cgroup cg =
     default_container_spec
       \<lparr>spec_creation_time := (case cg_creation_time cg of Some t \<Rightarrow> t | None \<Rightarrow> 0),
        spec_has_cpu := cg_has_cpu cg, spec_has_memory := cg_has_memory cg,
        spec_has_processes := cg_has_processes cg, spec_has_disk_io := cg_has_disk_io cg,
        spec_cpu := default_cpu_spec\<lparr>cpuspec_limit := cg_cpu_shares cg, cpuspec_mask := cg_cpu_mask cg,
          cpuspec_period := cg_cpu_period cg, cpuspec_quota := or_0 (cg_cpu_quota cg)\<rparr>,
        spec_memory := default_memory_spec\<lparr>memspec_limit := cg_memory_limit cg,
          memspec_swap_limit := cg_swap_limit cg, memspec_reservation := cg_memory_reservation cg\<rparr>,
        spec_processes := default_process_spec\<lparr>procspec_limit := cg_pids_limit cg\<rparr>\<rparr>"

definition root_spec :: "machine_info \<Rightarrow> container_spec \<Rightarrow> container_spec" where
  "root_spec mi spec =
     spec\<lparr>spec_has_cpu := True, spec_cpu := (spec_cpu spec)\<lparr>cpuspec_period := 0\<rparr>,
          spec_has_memory := True,
          spec_memory := (spec_memory spec)\<lparr>memspec_limit := mi_memory_capacity mi,
            memspec_swap_limit := mi_swap_capacity mi\<rparr>,
          spec_has_processes := True, spec_has_disk_io := True, spec_has_filesystem := True,
          spec_has_network := (mi_network_devices mi \<noteq> [])\<rparr>"

definition build_spec ::
  "manager_config \<Rightarrow> host \<Rightarrow> machine_info \<Rightarrow> string \<Rightarrow> (manager_error, container_spec) res" where
  "build_spec cfg ho mi name =
     res_bind (res_map_err Host (read_spec (ho_os ho) (mc_cgroup_root cfg) name)) (\<lambda>cg.
       Inr (if name = ''/'' then root_spec mi (spec_of_cgroup cg) else spec_of_cgroup cg))"

text \<open>The fields the slow path of housekeeping reads again.\<close>

definition refresh_spec :: "cgroup_spec \<Rightarrow> container_spec \<Rightarrow> container_spec" where
  "refresh_spec cg spec =
     spec\<lparr>spec_has_memory := cg_has_memory cg,
          spec_memory := (spec_memory spec)\<lparr>memspec_limit := cg_memory_limit cg,
            memspec_swap_limit := cg_swap_limit cg, memspec_reservation := cg_memory_reservation cg\<rparr>,
          spec_cpu := (spec_cpu spec)\<lparr>cpuspec_limit := cg_cpu_shares cg, cpuspec_mask := cg_cpu_mask cg,
            cpuspec_period := cg_cpu_period cg, cpuspec_quota := or_0 (cg_cpu_quota cg)\<rparr>,
          spec_processes := (spec_processes spec)\<lparr>procspec_limit := cg_pids_limit cg\<rparr>\<rparr>"

section \<open>Disks\<close>

definition disk_key :: "per_disk_stats \<Rightarrow> string" where
  "disk_key e = dec (unat (disk_major e)) @ '':'' @ dec (unat (disk_minor e))"

definition unknown_disks :: "per_disk_stats list \<Rightarrow> (string \<times> disk_info) list \<Rightarrow> string list" where
  "unknown_disks entries m =
     filter (\<lambda>k. bt_get m k = None) (map disk_key (filter (\<lambda>e. disk_device e = []) entries))"

text \<open>The machine info of the manager and the devices missed since the last scan.\<close>

record machine_state =
  ms_info :: machine_info
  ms_misses :: "string list"

text \<open>\<open>scan\<close> is the disk map a re-scan of \<open>/sys/block\<close> finds.\<close>

definition note_disks ::
  "(string \<times> disk_info) list \<Rightarrow> per_disk_stats list \<Rightarrow> machine_state \<Rightarrow> machine_state" where
  "note_disks scan entries ms =
     (let unknown = unknown_disks entries (mi_disk_map (ms_info ms)) in
      if unknown = [] then ms
      else let misses = fold List.insert unknown (ms_misses ms) in
        if length misses = length (ms_misses ms) then ms
        else ms\<lparr>ms_misses := misses, ms_info := (ms_info ms)\<lparr>mi_disk_map := scan\<rparr>\<rparr>)"

text \<open>\<open>refresh_machine_info\<close>: on an error the old info stays.\<close>

definition refresh_machine_info :: "(host_error, machine_info) res \<Rightarrow> machine_state \<Rightarrow> machine_state" where
  "refresh_machine_info r ms =
     (case r of Inr mi \<Rightarrow> ms\<lparr>ms_info := mi, ms_misses := []\<rparr> | Inl _ \<Rightarrow> ms)"

section \<open>Samples\<close>

definition meminfo_total_free :: "string \<Rightarrow> u64 \<times> u64" where
  "meminfo_total_free content =
     fold (\<lambda>line (total_kb, free).
        case split_whitespace line of
          [] \<Rightarrow> (total_kb, free)
        | k # rest \<Rightarrow>
            if k = ''MemTotal:'' then (meminfo_value rest, free)
            else if k = ''MemFree:'' then (total_kb, meminfo_value rest)
            else (total_kb, free))
      (lines content) (0, 0)"

definition root_memory :: "os \<Rightarrow> container_stats \<Rightarrow> container_stats" where
  "root_memory os stats =
     (case os_read os ''/proc/meminfo'' of
        Inl _ \<Rightarrow> stats
      | Inr content \<Rightarrow>
          (let (total_kb, free) = meminfo_total_free content; mem = stats_memory stats in
           if mem_usage mem = 0 \<and> free \<le> total_kb then
             stats\<lparr>stats_memory := mem\<lparr>mem_usage := (total_kb - free) * 1024,
                 mem_working_set := (total_kb - free) * 1024\<rparr>\<rparr>
           else stats))"

definition disk_field :: "(disk_stats_line \<Rightarrow> u64) \<Rightarrow> disk_stats_line option \<Rightarrow> u64" where
  "disk_field f d = (case d of Some x \<Rightarrow> f x | None \<Rightarrow> 0)"

definition root_fs_stats :: "partition \<Rightarrow> fs_usage \<Rightarrow> disk_stats_line option \<Rightarrow> fs_stats" where
  "root_fs_stats p u d =
     \<lparr>fs_device = pt_device p, fs_fs_type = ''vfs'', fs_limit = fu_capacity u,
      fs_usage = fu_capacity u - fu_free u, fs_base_usage = 0, fs_available = fu_available u,
      fs_has_inodes = True, fs_inodes = fu_inodes u, fs_inodes_free = fu_inodes_free u,
      fs_reads_completed = disk_field ds_reads_completed d, fs_reads_merged = disk_field ds_reads_merged d,
      fs_sectors_read = disk_field ds_sectors_read d, fs_read_time = disk_field ds_read_time d,
      fs_writes_completed = disk_field ds_writes_completed d,
      fs_writes_merged = disk_field ds_writes_merged d,
      fs_sectors_written = disk_field ds_sectors_written d, fs_write_time = disk_field ds_write_time d,
      fs_io_in_progress = disk_field ds_io_in_progress d, fs_io_time = disk_field ds_io_time d,
      fs_weighted_io_time = disk_field ds_weighted_io_time d\<rparr>"

definition disk_stats_or_empty :: "os \<Rightarrow> ((u64 \<times> u64) \<times> disk_stats_line) list" where
  "disk_stats_or_empty os = (case fs_disk_stats os of Inr m \<Rightarrow> m | Inl _ \<Rightarrow> [])"

text \<open>What the loops over the partitions share: the partitions whose usage can be read, with it and
  their disk counters.\<close>

definition partition_usages :: "host \<Rightarrow> (partition \<times> fs_usage \<times> disk_stats_line option) list" where
  "partition_usages ho =
     List.map_filter (\<lambda>p. map_option
         (\<lambda>u. (p, u, bt_get (disk_stats_or_empty (ho_os ho)) (pt_major p, pt_minor p)))
         (res_ok (usage_of (ho_vfs ho) (pt_mountpoint p))))
       (ho_partitions ho)"

definition fill_root_stats :: "host \<Rightarrow> container_stats \<Rightarrow> container_stats" where
  "fill_root_stats ho stats =
     (let stats = root_memory (ho_os ho) stats in
      stats\<lparr>stats_filesystem :=
        stats_filesystem stats @ map (\<lambda>(p, u, d). root_fs_stats p u d) (partition_usages ho)\<rparr>)"

definition layer_fs_stats :: "partition \<Rightarrow> fs_usage \<Rightarrow> u64 \<Rightarrow> fs_stats" where
  "layer_fs_stats p u du_bytes =
     default_fs_stats\<lparr>fs_device := pt_device p, fs_fs_type := ''vfs'', fs_limit := fu_capacity u,
       fs_usage := du_bytes, fs_base_usage := du_bytes, fs_available := fu_available u,
       fs_has_inodes := True, fs_inodes := fu_inodes u, fs_inodes_free := fu_inodes_free u\<rparr>"

definition fill_network :: "os \<Rightarrow> handle \<Rightarrow> container_stats \<Rightarrow> container_stats" where
  "fill_network os h stats =
     (if \<not> h_reports_network h then stats
      else case h_init_pid h of
        None \<Rightarrow> stats
      | Some pid \<Rightarrow>
          (case os_read os (''/proc/'' @ dec (unat pid) @ ''/net/dev'') of
             Inl _ \<Rightarrow> stats
           | Inr content \<Rightarrow>
               (let interfaces = parse_proc_net_dev content; net = stats_network stats in
                stats\<lparr>stats_network := net\<lparr>
                  net_interface := (case interfaces of i # _ \<Rightarrow> i | [] \<Rightarrow> net_interface net),
                  net_interfaces := interfaces\<rparr>\<rparr>)))"

definition fill_layer :: "host \<Rightarrow> handle \<Rightarrow> container_stats \<Rightarrow> container_stats" where
  "fill_layer ho h stats =
     (case h_rootfs_diff h of
        None \<Rightarrow> stats
      | Some diff_dir \<Rightarrow>
          (case partition_for_path (ho_partitions ho) diff_dir of
             None \<Rightarrow> stats
           | Some p \<Rightarrow>
               (case usage_of (ho_vfs ho) (pt_mountpoint p) of
                  Inl _ \<Rightarrow> stats
                | Inr u \<Rightarrow> stats\<lparr>stats_filesystem :=
                    stats_filesystem stats @ [layer_fs_stats p u (fst (h_fs_usage h))]\<rparr>)))"

definition sample ::
  "manager_config \<Rightarrow> host \<Rightarrow> (string \<times> disk_info) list \<Rightarrow> gotime \<Rightarrow> handle \<Rightarrow> machine_state \<Rightarrow>
     (manager_error, container_stats) res \<times> machine_state" where
  "sample cfg ho scan now h ms =
     (case read_stats (ho_os ho) (mc_cgroup_root cfg) (h_name h) now of
        Inl e \<Rightarrow> (Inl (Host e), ms)
      | Inr stats \<Rightarrow>
          (let ms = note_disks scan (diskio_io_service_bytes (stats_disk_io stats)) ms;
               stats = fill_network (ho_os ho) h stats;
               stats = (if h_name h = ''/'' then fill_root_stats ho stats else fill_layer ho h stats)
           in (Inr stats, ms)))"

section \<open>Lemmas\<close>

lemma fill_network_memory [simp]: "stats_memory (fill_network os h stats) = stats_memory stats"
  by (simp add: fill_network_def Let_def split: option.split sum.split)

lemma fill_layer_memory [simp]: "stats_memory (fill_layer ho h stats) = stats_memory stats"
  by (simp add: fill_layer_def split: option.split sum.split)

lemma root_memory_working_set:
  assumes "mem_working_set (stats_memory stats) \<le> mem_usage (stats_memory stats)"
  shows "mem_working_set (stats_memory (root_memory os stats)) \<le> mem_usage (stats_memory (root_memory os stats))"
  using assms by (auto simp: root_memory_def Let_def case_prod_beta split: sum.split)

lemma fill_root_working_set:
  assumes "mem_working_set (stats_memory stats) \<le> mem_usage (stats_memory stats)"
  shows "mem_working_set (stats_memory (fill_root_stats ho stats)) \<le> mem_usage (stats_memory (fill_root_stats ho stats))"
  using root_memory_working_set [OF assms] by (simp add: fill_root_stats_def Let_def)

lemma set_fold_insert [simp]: "set (fold List.insert xs ys) = set xs \<union> set ys"
  by (induction xs arbitrary: ys) auto

lemma length_fold_insert: "length ys \<le> length (fold List.insert xs ys)"
proof (induction xs arbitrary: ys)
  case (Cons x xs)
  have "length ys \<le> length (List.insert x ys)" by (simp add: List.insert_def)
  also have "\<dots> \<le> length (fold List.insert xs (List.insert x ys))" by (rule Cons)
  finally show ?case by simp
qed simp

text \<open>The set grows exactly when there was something new.\<close>

lemma fold_insert_same_length:
  "length (fold List.insert xs ys) = length ys \<longleftrightarrow> set xs \<subseteq> set ys"
proof (induction xs arbitrary: ys)
  case (Cons x xs)
  show ?case
  proof (cases "x \<in> set ys")
    case True
    then show ?thesis using Cons by (simp add: List.insert_def)
  next
    case False
    then have "length ys < length (fold List.insert xs (List.insert x ys))"
      using length_fold_insert [of "List.insert x ys" xs] by (simp add: List.insert_def)
    then show ?thesis using False by auto
  qed
qed simp

lemma note_disks_cases:
  "note_disks scan entries ms =
     (if set (unknown_disks entries (mi_disk_map (ms_info ms))) \<subseteq> set (ms_misses ms) then ms
      else ms\<lparr>ms_misses := fold List.insert (unknown_disks entries (mi_disk_map (ms_info ms))) (ms_misses ms),
              ms_info := (ms_info ms)\<lparr>mi_disk_map := scan\<rparr>\<rparr>)"
proof (cases "unknown_disks entries (mi_disk_map (ms_info ms)) = []")
  case False
  then show ?thesis by (simp add: note_disks_def Let_def fold_insert_same_length)
qed (simp add: note_disks_def)

section \<open>Properties\<close>

text \<open>Every sample the manager stores, the root container's included, has a working set of at
  most its memory usage.\<close>

theorem sample_working_set:
  "case fst (sample cfg ho scan now h ms) of
     Inl _ \<Rightarrow> True
   | Inr s \<Rightarrow> mem_working_set (stats_memory s) \<le> mem_usage (stats_memory s)"
proof (cases "read_stats (ho_os ho) (mc_cgroup_root cfg) (h_name h) now")
  case (Inr stats)
  then have "mem_working_set (stats_memory stats) \<le> mem_usage (stats_memory stats)"
    using stats_working_set [of "ho_os ho" "mc_cgroup_root cfg" "h_name h" now] by simp
  then show ?thesis
    using Inr fill_root_working_set [of "fill_network (ho_os ho) h stats"] by (simp add: sample_def Let_def)
qed (simp add: sample_def)

text \<open>A device that \<open>io.stat\<close> names and the disk map lacks triggers one re-scan: the next sample
  with the same devices leaves the machine info alone, even if the scan did not find the device,
  as long as the scan lost no device of the old map.\<close>

theorem rescan_once:
  assumes "\<And>k. bt_get scan k = None \<Longrightarrow> bt_get (mi_disk_map (ms_info ms)) k = None"
  shows "note_disks scan' entries (note_disks scan entries ms) = note_disks scan entries ms"
proof (cases "set (unknown_disks entries (mi_disk_map (ms_info ms))) \<subseteq> set (ms_misses ms)")
  case True
  then show ?thesis by (simp add: note_disks_cases)
next
  case False
  have "set (unknown_disks entries scan) \<subseteq> set (unknown_disks entries (mi_disk_map (ms_info ms)))"
    using assms by (auto simp: unknown_disks_def)
  then have "set (unknown_disks entries scan) \<subseteq> set (ms_misses (note_disks scan entries ms))"
    using False by (auto simp: note_disks_cases)
  moreover have "mi_disk_map (ms_info (note_disks scan entries ms)) = scan"
    using False by (simp add: note_disks_cases)
  ultimately show ?thesis by (subst note_disks_cases) simp
qed

definition demo_disk :: per_disk_stats where
  "demo_disk = \<lparr>disk_device = [], disk_major = 259, disk_minor = 1, disk_stats = []\<rparr>"

theorem rescan_once_witness:
  "note_disks [(''8:0'', default_disk_info)] [demo_disk]
     (note_disks [] [demo_disk] \<lparr>ms_info = default_machine_info, ms_misses = []\<rparr>) =
   note_disks [] [demo_disk] \<lparr>ms_info = default_machine_info, ms_misses = []\<rparr>"
  by (rule rescan_once) (simp add: default_machine_info_def bt_get_def)

end
