(* ===== verification/Event_Log.thy ===== *)
theory Event_Log
  imports Model_V1 Time_Log
begin

text \<open>
  The event log of \<open>crates/cadvisor-manager/src/manager.rs\<close>: the record of an event
  (\<open>Manager::record_event\<close>), the filter \<open>EventQuery\<close> and the query \<open>Manager::events\<close>. The log is the
  field \<open>log_events\<close>; what was sent to the live subscribers, in order, is \<open>log_sent\<close>. The log keeps
  the contract of \<open>time_log\<close> with a window of 24 hours and room for 100000 events.
\<close>

record event_query =
  eq_container_name :: string
  eq_include_subcontainers :: bool
  eq_event_types :: "event_type list"
  eq_max_events :: nat
  eq_start_time :: gotime
  eq_end_time :: gotime

record event_log =
  log_events :: "event list"
  log_sent :: "event list"

section \<open>Operations\<close>

definition eq_matches :: "event_query \<Rightarrow> event \<Rightarrow> bool" where
  "eq_matches q ev =
     (if ev_event_type ev \<notin> set (eq_event_types q) then False
      else if \<not> (ev_container_name ev = eq_container_name q \<or>
                (eq_include_subcontainers q \<and>
                 starts_with (ev_container_name ev)
                   (trim_end_char CHR ''/'' (eq_container_name q) @ ''/''))) then False
      else if eq_start_time q \<noteq> 0 \<and> ev_timestamp ev < eq_start_time q then False
      else if eq_end_time q \<noteq> 0 \<and> eq_end_time q < ev_timestamp ev then False
      else True)"

definition day_ns :: int where
  "day_ns = 24 * 60 * 60 * 1000000000"

definition max_log :: nat where
  "max_log = 100000"

definition add_event :: "event \<Rightarrow> event list \<Rightarrow> event list" where
  "add_event ev events =
     (let events = insert_at (partition_point (\<lambda>e. ev_timestamp e \<le> ev_timestamp ev) events) ev events;
          events = (if events = [] then events
                    else let cutoff = ev_timestamp (last events) - day_ns
                         in filter (\<lambda>e. cutoff \<le> ev_timestamp e) events);
          excess = length events - max_log
      in if 0 < excess then drop excess events else events)"

definition record_event :: "string \<Rightarrow> event_type \<Rightarrow> gotime \<Rightarrow> event_log \<Rightarrow> event_log" where
  "record_event name typ timestamp l =
     (let ev = \<lparr>ev_container_name = name, ev_timestamp = timestamp, ev_event_type = typ,
                ev_event_data = default_event_data\<rparr>
      in \<lparr>log_events = add_event ev (log_events l), log_sent = log_sent l @ [ev]\<rparr>)"

definition query_events :: "event_query \<Rightarrow> event_log \<Rightarrow> event list" where
  "query_events q l =
     (let mx = (if eq_max_events q = 0 then 10 else eq_max_events q);
          matching = filter (eq_matches q) (log_events l);
          skip = length matching - mx
      in drop skip matching)"

section \<open>Lemmas\<close>

lemma day_ns_pos: "0 \<le> day_ns"
  by (simp add: day_ns_def)

lemma add_event_step:
  "add_event ev events =
     capped (Some max_log) (recent ev_timestamp day_ns (insert_by ev_timestamp ev events))"
proof -
  have ne: "insert_by ev_timestamp ev events \<noteq> []" by simp
  have "drop (length xs - max_log) xs = lastn max_log xs" for xs :: "event list"
    by (simp add: lastn_def)
  then show ?thesis
    using ne by (auto simp: add_event_def capped_def recent_def insert_by_def [symmetric] Let_def)
qed

interpretation events: time_log ev_timestamp day_ns "Some max_log" add_event
  by unfold_locales (simp_all add: day_ns_pos add_event_step max_log_def)

lemma eq_matches_iff:
  "eq_matches q ev \<longleftrightarrow>
     ev_event_type ev \<in> set (eq_event_types q) \<and>
     (ev_container_name ev = eq_container_name q \<or>
      eq_include_subcontainers q \<and>
      starts_with (ev_container_name ev) (trim_end_char CHR ''/'' (eq_container_name q) @ ''/'')) \<and>
     (eq_start_time q = 0 \<or> eq_start_time q \<le> ev_timestamp ev) \<and>
     (eq_end_time q = 0 \<or> ev_timestamp ev \<le> eq_end_time q)"
  by (auto simp: eq_matches_def)

text \<open>Recording a sequence of events, given as container, type and time.\<close>

definition mk_event :: "string \<times> event_type \<times> gotime \<Rightarrow> event" where
  "mk_event r = \<lparr>ev_container_name = fst r, ev_timestamp = snd (snd r), ev_event_type = fst (snd r),
     ev_event_data = default_event_data\<rparr>"

definition record_all :: "(string \<times> event_type \<times> gotime) list \<Rightarrow> event_log \<Rightarrow> event_log" where
  "record_all rs l = fold (\<lambda>(name, typ, t). record_event name typ t) rs l"

definition empty_log :: event_log where
  "empty_log = \<lparr>log_events = [], log_sent = []\<rparr>"

lemma record_event_mk:
  "record_event name typ t l =
     \<lparr>log_events = add_event (mk_event (name, typ, t)) (log_events l),
      log_sent = log_sent l @ [mk_event (name, typ, t)]\<rparr>"
  by (simp add: record_event_def mk_event_def Let_def)

lemma record_all_fold:
  "record_all rs l =
     \<lparr>log_events = fold add_event (map mk_event rs) (log_events l), log_sent = log_sent l @ map mk_event rs\<rparr>"
  by (induction rs arbitrary: l) (auto simp: record_all_def record_event_mk)

lemma record_all_contents:
  "log_events (record_all rs empty_log) =
     capped (Some max_log) (recent ev_timestamp day_ns (sort_key ev_timestamp (map mk_event rs)))"
  by (simp add: record_all_fold empty_log_def events.contents)

lemma sorted_record_all: "sorted (map ev_timestamp (log_events (record_all rs empty_log)))"
  by (simp add: record_all_fold empty_log_def events.sorted_contents)

lemma recent_recent:
  assumes "sorted (map ts xs)" "0 \<le> win" "cap \<noteq> Some 0"
  shows "recent ts win (capped cap (recent ts win xs)) = capped cap (recent ts win xs)"
proof (cases "xs = []")
  case False
  have "ts (last xs) - win \<le> ts y" if "y \<in> set (capped cap (recent ts win xs))" for y
    using set_capped [of cap "recent ts win xs"] that by (auto simp: recent_def)
  then show ?thesis
    using last_cut(2) [OF assms(1) False assms(2,3)] by (simp add: recent_def [of ts win "capped cap (recent ts win xs)"])
qed simp

lemma add_stale_event:
  assumes "sorted (map ev_timestamp l)" "recent ev_timestamp day_ns l = l" "length l \<le> max_log"
    and "l \<noteq> []" "ev_timestamp x < ev_timestamp (last l) - day_ns"
  shows "add_event x l = l"
proof -
  have lst: "last (insert_by ev_timestamp x l) = last l"
    using last_insert_by [OF assms(1,4), of x] assms(5) day_ns_pos by auto
  have early: "ev_timestamp x < ev_timestamp y" if "y \<in> set l" for y
  proof -
    have "y \<in> set (recent ev_timestamp day_ns l)" using that assms(2) by simp
    then show ?thesis using assms(5) by (simp add: recent_def)
  qed
  have "insert_by ev_timestamp x l = x # l"
    using assms(4) early [of "hd l"] by (cases l) (auto simp: insert_by_Cons)
  then have "recent ev_timestamp day_ns (insert_by ev_timestamp x l) = recent ev_timestamp day_ns l"
    using lst assms(5) by (simp add: recent_def)
  then show ?thesis using assms(2,3) by (simp add: add_event_step capped_def)
qed

section \<open>Properties\<close>

text \<open>C9: after any sequence of recorded events the log is the sequence in time order (events of one
  time in the order recorded), without those more than 24 hours before the newest, cut to the
  100000 newest; and every event was sent to the subscribers, in the order recorded.\<close>

theorem event_log_contents:
  "log_events (record_all rs empty_log) =
     (let sorted = sort_key ev_timestamp (map mk_event rs);
          fresh = filter (\<lambda>e. ev_timestamp (last sorted) - day_ns \<le> ev_timestamp e) sorted
      in drop (length fresh - 100000) fresh)
   \<and> log_sent (record_all rs empty_log) = map mk_event rs"
  by (simp add: record_all_contents recent_def capped_def lastn_def max_log_def Let_def)
    (simp add: record_all_fold empty_log_def)

text \<open>An event more than 24 hours older than the newest one leaves the log as it is, the case of
  the creation event of an old cgroup; the subscribers still get it.\<close>

theorem stale_event_pruned:
  assumes "log_events (record_all rs empty_log) \<noteq> []"
    and "t < ev_timestamp (last (log_events (record_all rs empty_log))) - day_ns"
  shows "log_events (record_event name typ t (record_all rs empty_log)) =
     log_events (record_all rs empty_log)"
proof -
  let ?l = "log_events (record_all rs empty_log)"
  have "recent ev_timestamp day_ns ?l = ?l"
    unfolding record_all_contents
    by (rule recent_recent) (simp_all add: day_ns_pos max_log_def)
  moreover have "length ?l \<le> max_log" by (simp add: record_all_contents capped_def)
  ultimately show ?thesis
    using add_stale_event [OF sorted_record_all [of rs]] assms
    by (simp add: record_event_mk mk_event_def)
qed


text \<open>A query for a container and its subcontainers matches the names below it at a separator
  only: \<open>/ab\<close> is not below \<open>/a\<close>; and everything is below the root.\<close>

theorem event_subtree:
  assumes "eq_include_subcontainers q" "ev_event_type ev \<in> set (eq_event_types q)"
    and "eq_start_time q = 0" "eq_end_time q = 0"
    and "eq_container_name q = ''/'' \<or> last (''/'' @ eq_container_name q) \<noteq> CHR ''/''"
  shows "eq_matches q ev \<longleftrightarrow>
     (if eq_container_name q = ''/'' then (\<exists>r. ev_container_name ev = ''/'' @ r)
      else ev_container_name ev = eq_container_name q \<or>
           (\<exists>r. ev_container_name ev = eq_container_name q @ ''/'' @ r))"
proof (cases "eq_container_name q = ''/''")
  case True
  then show ?thesis
    using assms by (auto simp: eq_matches_iff trim_end_char_def starts_with_iff)
next
  case False
  then have l: "last (''/'' @ eq_container_name q) \<noteq> CHR ''/''" using assms(5) by simp
  have "trim_end_char CHR ''/'' (eq_container_name q) = eq_container_name q"
    using l by (cases "eq_container_name q" rule: rev_cases) (auto simp: trim_end_char_def)
  then show ?thesis using False assms by (auto simp: eq_matches_iff starts_with_iff)
qed

theorem stale_event_pruned_witness:
  "log_events (record_event ''/a'' ContainerCreation 0 (record_all [(''/b'', Oom, day_ns + 1)] empty_log)) =
     log_events (record_all [(''/b'', Oom, day_ns + 1)] empty_log)"
  by (rule stale_event_pruned)
    (simp_all add: record_all_contents recent_def capped_def lastn_def mk_event_def day_ns_def max_log_def)

theorem event_subtree_witness:
  "\<not> eq_matches \<lparr>eq_container_name = ''/a'', eq_include_subcontainers = True, eq_event_types = [Oom],
        eq_max_events = 0, eq_start_time = 0, eq_end_time = 0\<rparr> (default_event\<lparr>ev_container_name := ''/ab''\<rparr>)"
  by (subst event_subtree) (simp_all add: default_event_def)

end
