(* ===== verification/Housekeeping.thy ===== *)
theory Housekeeping
  imports Manager_Sample Event_Log
begin

text \<open>
  \<open>Manager::housekeeping\<close> of \<open>crates/cadvisor-manager/src/manager.rs\<close>, the task of one container: its
  local variables are the record \<open>hk\<close>, one turn of its loop is \<open>hk_iteration\<close>, made of the slow path
  (\<open>hk_slow\<close>, which returns \<open>None\<close> when the directory walk does not end) and of the part that takes
  a sample (\<open>hk_sample\<close>). A turn gives the new state, the handle, the events it recorded, and whether
  the task stops or how long it sleeps. \<open>hk_run\<close> is the loop over the results of successive samples.
\<close>

record hk =
  hk_interval :: nat
  hk_prev :: "container_stats option"
  hk_last_slow :: int
  hk_first :: bool

datatype hk_out = Stop | Sleep nat

section \<open>One turn\<close>

definition hk_start :: "manager_config \<Rightarrow> int \<Rightarrow> hk" where
  "hk_start cfg instant =
     \<lparr>hk_interval = mc_housekeeping_interval cfg, hk_prev = None,
      hk_last_slow = instant - int (secs 3600), hk_first = True\<rparr>"

definition hk_slow_due :: "int \<Rightarrow> hk \<Rightarrow> bool" where
  "hk_slow_due instant s \<longleftrightarrow> int (secs 60) \<le> instant - hk_last_slow s \<or> hk_first s"

definition hk_slow_handle :: "manager_config \<Rightarrow> host \<Rightarrow> handle \<Rightarrow> handle option" where
  "hk_slow_handle cfg ho h =
     (case (case h_rootfs_diff h of
              None \<Rightarrow> Some h
            | Some diff_dir \<Rightarrow>
                map_option (\<lambda>usage. h\<lparr>h_fs_usage := usage\<rparr>) (dir_usage (ho_tree ho) diff_dir)) of
        None \<Rightarrow> None
      | Some h \<Rightarrow>
          Some (if h_name h = ''/'' then h
                else case read_spec (ho_os ho) (mc_cgroup_root cfg) (h_name h) of
                  Inr cg \<Rightarrow> h\<lparr>h_spec := refresh_spec cg (h_spec h)\<rparr>
                | Inl _ \<Rightarrow> h))"

text \<open>The slow path; the clock is read twice, for the test and for the new \<open>last_slow\<close>.\<close>

definition hk_slow :: "manager_config \<Rightarrow> host \<Rightarrow> int \<Rightarrow> int \<Rightarrow> hk \<times> handle \<Rightarrow> (hk \<times> handle) option" where
  "hk_slow cfg ho instant instant' st =
     (let (s, h) = st in
      if hk_slow_due instant s
      then map_option (\<lambda>h'. (s\<lparr>hk_first := False, hk_last_slow := instant'\<rparr>, h')) (hk_slow_handle cfg ho h)
      else Some (s, h))"

definition hk_unchanged :: "hk \<Rightarrow> container_stats \<Rightarrow> bool" where
  "hk_unchanged s x =
     (case hk_prev s of
        None \<Rightarrow> False
      | Some p \<Rightarrow> usage_total (cpu_usage (stats_cpu p)) = usage_total (cpu_usage (stats_cpu x)) \<and>
                  mem_usage (stats_memory p) = mem_usage (stats_memory x))"

definition hk_oom :: "hk \<Rightarrow> container_stats \<Rightarrow> event_type list" where
  "hk_oom s x =
     (case hk_prev s of
        None \<Rightarrow> []
      | Some p \<Rightarrow> if stats_oom_events p < stats_oom_events x then [Oom, OomKill] else [])"

definition hk_next_interval :: "manager_config \<Rightarrow> hk \<Rightarrow> container_stats \<Rightarrow> nat" where
  "hk_next_interval cfg s x =
     (if mc_allow_dynamic_housekeeping cfg then
        (if hk_unchanged s x then min (hk_interval s * 2) (mc_max_housekeeping_interval cfg)
         else mc_housekeeping_interval cfg)
      else hk_interval s)"

text \<open>The match on the sample. \<open>gone\<close> tells that the cgroup directory does not exist when the sample
  failed. The events are returned by type, in the order recorded.\<close>

definition hk_sample ::
  "manager_config \<Rightarrow> (nat \<Rightarrow> int option) \<Rightarrow> (manager_error, container_stats) res \<Rightarrow> bool \<Rightarrow>
     hk \<times> handle \<Rightarrow> (hk \<times> handle) \<times> event_type list \<times> hk_out" where
  "hk_sample cfg from_std r gone st =
     (let (s, h) = st in
      case r of
        Inr x \<Rightarrow>
          (let s' = s\<lparr>hk_interval := hk_next_interval cfg s x, hk_prev := Some x\<rparr>;
               h' = h\<lparr>h_store := ts_push from_std x (h_store h)\<rparr>
           in ((s', h'), hk_oom s x, Sleep (hk_interval s')))
      | Inl _ \<Rightarrow> ((s, h), [], if gone then Stop else Sleep (hk_interval s)))"

definition hk_iteration ::
  "manager_config \<Rightarrow> (nat \<Rightarrow> int option) \<Rightarrow> host \<Rightarrow> (string \<times> disk_info) list \<Rightarrow> int \<Rightarrow> int \<Rightarrow> gotime \<Rightarrow>
     hk \<times> handle \<Rightarrow> machine_state \<Rightarrow>
     ((hk \<times> handle) \<times> event_type list \<times> hk_out \<times> machine_state) option" where
  "hk_iteration cfg from_std ho scan instant instant' now st ms =
     (case hk_slow cfg ho instant instant' st of
        None \<Rightarrow> None
      | Some (s, h) \<Rightarrow>
          (let (r, ms') = sample cfg ho scan now h ms;
               gone = (\<not> cg_exists (ho_os ho) (mc_cgroup_root cfg) (h_name h));
               (st', evs, out) = hk_sample cfg from_std r gone (s, h)
           in Some (st', evs, out, ms')))"

text \<open>The loop over successive results, until it stops: the states after each turn are folded, the
  events collected.\<close>

fun hk_run ::
  "manager_config \<Rightarrow> (nat \<Rightarrow> int option) \<Rightarrow> ((manager_error, container_stats) res \<times> bool) list \<Rightarrow>
     hk \<times> handle \<Rightarrow> (hk \<times> handle) \<times> event_type list" where
  "hk_run cfg from_std [] st = (st, [])"
| "hk_run cfg from_std ((r, gone) # rs) st =
     (case hk_sample cfg from_std r gone st of
        (st', evs, Stop) \<Rightarrow> (st', evs)
      | (st', evs, Sleep _) \<Rightarrow>
          (let (st'', evs') = hk_run cfg from_std rs st' in (st'', evs @ evs')))"

text \<open>The task's variables and the handle at the end of a run.\<close>

definition hk_end ::
  "manager_config \<Rightarrow> (nat \<Rightarrow> int option) \<Rightarrow> ((manager_error, container_stats) res \<times> bool) list \<Rightarrow>
     hk \<times> handle \<Rightarrow> hk" where
  "hk_end cfg from_std rs st = fst (fst (hk_run cfg from_std rs st))"

text \<open>The results of samples that all succeed.\<close>

definition all_ok :: "container_stats list \<Rightarrow> ((manager_error, container_stats) res \<times> bool) list" where
  "all_ok xs = map (\<lambda>x. (Inr x, False)) xs"

section \<open>Lemmas\<close>

lemma all_ok_simps [simp]: "all_ok [] = []" "all_ok (x # xs) = (Inr x, False) # all_ok xs"
  by (simp_all add: all_ok_def)

lemma hk_end_Nil [simp]: "hk_end cfg from_std [] (s, h) = s"
  by (simp add: hk_end_def)

lemma hk_end_Inr [simp]:
  "hk_end cfg from_std ((Inr x, gone) # rs) (s, h) =
     hk_end cfg from_std rs (s\<lparr>hk_interval := hk_next_interval cfg s x, hk_prev := Some x\<rparr>,
       h\<lparr>h_store := ts_push from_std x (h_store h)\<rparr>)"
  by (simp add: hk_end_def hk_sample_def case_prod_beta Let_def)

lemma hk_end_Inl [simp]:
  "hk_end cfg from_std ((Inl e, gone) # rs) (s, h) = (if gone then s else hk_end cfg from_std rs (s, h))"
  by (simp add: hk_end_def hk_sample_def case_prod_beta Let_def)

lemma hk_sample_Inr [simp]:
  "hk_sample cfg from_std (Inr x) gone (s, h) =
     ((s\<lparr>hk_interval := hk_next_interval cfg s x, hk_prev := Some x\<rparr>,
       h\<lparr>h_store := ts_push from_std x (h_store h)\<rparr>), hk_oom s x, Sleep (hk_next_interval cfg s x))"
  by (simp add: hk_sample_def)

lemma hk_sample_Inl [simp]:
  "hk_sample cfg from_std (Inl e) gone (s, h) = ((s, h), [], if gone then Stop else Sleep (hk_interval s))"
  by (simp add: hk_sample_def)

definition interval_ok :: "manager_config \<Rightarrow> hk \<Rightarrow> bool" where
  "interval_ok cfg s \<longleftrightarrow>
     mc_housekeeping_interval cfg \<le> hk_interval s \<and>
     hk_interval s \<le> max (mc_housekeeping_interval cfg) (mc_max_housekeeping_interval cfg)"

lemma next_interval_ok:
  assumes "mc_housekeeping_interval cfg \<le> mc_max_housekeeping_interval cfg" "interval_ok cfg s"
  shows "interval_ok cfg (s\<lparr>hk_interval := hk_next_interval cfg s x, hk_prev := Some x\<rparr>)"
  using assms by (auto simp: interval_ok_def hk_next_interval_def)

lemma hk_run_interval:
  assumes "mc_housekeeping_interval cfg \<le> mc_max_housekeeping_interval cfg" "interval_ok cfg s"
  shows "interval_ok cfg (hk_end cfg from_std rs (s, h))"
  using assms(2)
proof (induction rs arbitrary: s h)
  case (Cons rg rs)
  obtain r gone where rg: "rg = (r, gone)" by fastforce
  show ?case
  proof (cases r)
    case (Inl e)
    then show ?thesis using Cons by (simp add: rg)
  next
    case (Inr x)
    then show ?thesis
      using Cons.IH [OF next_interval_ok [OF assms(1) Cons.prems]] by (simp add: rg)
  qed
qed simp

text \<open>The successful samples of a run, up to where it stops.\<close>

fun run_samples :: "((manager_error, container_stats) res \<times> bool) list \<Rightarrow> container_stats list" where
  "run_samples [] = []"
| "run_samples ((Inr x, gone) # rs) = x # run_samples rs"
| "run_samples ((Inl e, gone) # rs) = (if gone then [] else run_samples rs)"

fun increases :: "container_stats list \<Rightarrow> nat" where
  "increases (x # y # r) = (if stats_oom_events x < stats_oom_events y then 1 else 0) + increases (y # r)"
| "increases _ = 0"

lemma hk_run_events:
  "snd (hk_run cfg from_std rs (s, h)) =
     concat (replicate (increases ((case hk_prev s of Some p \<Rightarrow> [p] | None \<Rightarrow> []) @ run_samples rs)) [Oom, OomKill])"
proof (induction rs arbitrary: s h rule: run_samples.induct)
  case (2 x gone rs)
  then show ?case
    by (cases "hk_prev s") (simp_all add: case_prod_beta Let_def hk_oom_def)
next
  case (3 e gone rs)
  then show ?case
    by (cases "hk_prev s") (simp_all add: case_prod_beta Let_def)
qed (simp split: option.split)

lemma hk_run_store:
  "h_store (snd (fst (hk_run cfg from_std rs (s, h)))) = ts_pushes from_std (run_samples rs) (h_store h)"
  by (induction rs arbitrary: s h rule: run_samples.induct)
    (simp_all add: ts_pushes_def case_prod_beta Let_def)

text \<open>A reading that counts as unchanged.\<close>

definition same_reading :: "container_stats \<Rightarrow> container_stats \<Rightarrow> bool" where
  "same_reading p x \<longleftrightarrow>
     usage_total (cpu_usage (stats_cpu p)) = usage_total (cpu_usage (stats_cpu x)) \<and>
     mem_usage (stats_memory p) = mem_usage (stats_memory x)"

lemma hk_unchanged_same: "hk_prev s = Some p \<Longrightarrow> hk_unchanged s x = same_reading p x"
  by (simp add: hk_unchanged_def same_reading_def)

lemma same_reading_trans: "same_reading p x \<Longrightarrow> same_reading p y \<Longrightarrow> same_reading x y"
  by (simp add: same_reading_def)

lemma hk_run_unchanged:
  assumes "mc_allow_dynamic_housekeeping cfg" "hk_interval s \<le> mc_max_housekeeping_interval cfg"
    and "hk_prev s = Some p" "list_all (same_reading p) xs"
  shows "hk_interval (hk_end cfg from_std (all_ok xs) (s, h)) =
     min (hk_interval s * 2 ^ length xs) (mc_max_housekeeping_interval cfg)"
  using assms(2-4)
proof (induction xs arbitrary: s h p)
  case (Cons x xs)
  let ?s = "s\<lparr>hk_interval := hk_next_interval cfg s x, hk_prev := Some x\<rparr>"
  have i: "hk_next_interval cfg s x = min (hk_interval s * 2) (mc_max_housekeeping_interval cfg)"
    using Cons.prems assms(1) by (simp add: hk_next_interval_def hk_unchanged_same)
  have "list_all (same_reading x) xs"
    using Cons.prems(3) by (auto simp: list_all_iff intro: same_reading_trans [of p])
  then have "hk_interval (hk_end cfg from_std (all_ok xs)
      (?s, h\<lparr>h_store := ts_push from_std x (h_store h)\<rparr>)) =
      min (hk_next_interval cfg s x * 2 ^ length xs) (mc_max_housekeeping_interval cfg)"
    using Cons.IH [of ?s x] i by simp
  moreover have "min (min (a * 2) m * 2 ^ n) m = min (a * (2 * 2 ^ n)) m" for a m n :: nat
  proof (cases "a * 2 \<le> m")
    case False
    have "m \<le> m * 2 ^ n" by simp
    moreover have "m \<le> a * (2 * 2 ^ n)"
    proof -
      have "m * 1 \<le> a * 2 * 2 ^ n" using False by (intro mult_le_mono) auto
      then show ?thesis by (simp add: mult.assoc)
    qed
    ultimately show ?thesis using False by simp
  qed (simp add: mult.assoc)
  ultimately show ?case by (simp add: i)
qed simp

lemma hk_run_prev:
  assumes "hk_prev s = Some p" "list_all (same_reading p) xs"
  shows "\<exists>p'. hk_prev (hk_end cfg from_std (all_ok xs) (s, h)) = Some p' \<and>
     same_reading p p'"
  using assms
proof (induction xs arbitrary: s h p)
  case (Cons x xs)
  have "list_all (same_reading x) xs"
    using Cons.prems(2) by (auto simp: list_all_iff intro: same_reading_trans [of p])
  then obtain p' where "hk_prev (hk_end cfg from_std (all_ok xs)
      (s\<lparr>hk_interval := hk_next_interval cfg s x, hk_prev := Some x\<rparr>,
       h\<lparr>h_store := ts_push from_std x (h_store h)\<rparr>)) = Some p'" "same_reading x p'"
    using Cons.IH [of "s\<lparr>hk_interval := hk_next_interval cfg s x, hk_prev := Some x\<rparr>" x] by auto
  then show ?case using Cons.prems(2) by (auto simp: same_reading_def)
qed (simp add: same_reading_def)

section \<open>Properties\<close>

text \<open>C18: with \<open>base \<le> max\<close> the sampling interval never leaves the range between them, whatever the
  samples are and whichever of them fail.\<close>

theorem interval_in_range:
  assumes "mc_housekeeping_interval cfg \<le> mc_max_housekeeping_interval cfg"
  shows "mc_housekeeping_interval cfg \<le> hk_interval (hk_end cfg from_std rs (hk_start cfg instant, h)) \<and>
     hk_interval (hk_end cfg from_std rs (hk_start cfg instant, h)) \<le> mc_max_housekeeping_interval cfg"
proof -
  have "interval_ok cfg (hk_start cfg instant)" by (simp add: interval_ok_def hk_start_def)
  from hk_run_interval [OF assms this, of from_std rs h] show ?thesis
    using assms by (simp add: interval_ok_def)
qed

text \<open>While the readings stay the same the interval doubles with each sample up to the maximum,
  and the first different reading sets it back to the base.\<close>

theorem adaptive_interval:
  assumes "mc_allow_dynamic_housekeeping cfg" "hk_interval s \<le> mc_max_housekeeping_interval cfg"
    and "hk_prev s = Some p" "list_all (same_reading p) xs" "\<not> same_reading p y"
  shows "hk_interval (hk_end cfg from_std (all_ok xs) (s, h)) =
       min (hk_interval s * 2 ^ length xs) (mc_max_housekeeping_interval cfg) \<and>
     hk_next_interval cfg (hk_end cfg from_std (all_ok xs) (s, h)) y = mc_housekeeping_interval cfg"
proof -
  obtain p' where p': "hk_prev (hk_end cfg from_std (all_ok xs) (s, h)) = Some p'" "same_reading p p'"
    using hk_run_prev [OF assms(3,4), of cfg from_std h] by blast
  have "\<not> same_reading p' y" using p'(2) assms(5) by (simp add: same_reading_def)
  then have "hk_next_interval cfg (hk_end cfg from_std (all_ok xs) (s, h)) y = mc_housekeeping_interval cfg"
    using assms(1) p'(1) by (simp add: hk_next_interval_def hk_unchanged_same)
  then show ?thesis using hk_run_unchanged [OF assms(1-4), of from_std h] by simp
qed

text \<open>C19: over a run, the events are one \<open>oom\<close> followed by one \<open>oomKill\<close> for each successful sample
  whose kill counter is above that of the successful sample before it; the first sample gives none;
  and the store gets exactly the successful samples.\<close>

theorem oom_events:
  "snd (hk_run cfg from_std rs (hk_start cfg instant, h)) =
     concat (replicate (increases (run_samples rs)) [Oom, OomKill]) \<and>
   h_store (snd (fst (hk_run cfg from_std rs (hk_start cfg instant, h)))) =
     ts_pushes from_std (run_samples rs) (h_store h)"
  using hk_run_events [of cfg from_std rs "hk_start cfg instant" h]
    hk_run_store [of cfg from_std rs "hk_start cfg instant" h]
  by (simp add: hk_start_def)

text \<open>A maximum below the base takes effect with the first unchanged sample: the task then samples
  more often than the configured interval.\<close>

theorem max_below_base:
  assumes "mc_allow_dynamic_housekeeping cfg"
    and "mc_max_housekeeping_interval cfg < mc_housekeeping_interval cfg" "same_reading x y"
  shows "hk_interval (hk_end cfg from_std (all_ok [x, y]) (hk_start cfg instant, h))
     < mc_housekeeping_interval cfg"
  using assms by (simp add: hk_start_def hk_next_interval_def hk_unchanged_def same_reading_def)

text \<open>When the cgroup of a container is gone, a turn of its task does not stop: the sample succeeds
  with all counters zero, is stored as the newest one, and the task goes on.\<close>

theorem vanished_cgroup_sampled:
  assumes "\<And>f. os_read (ho_os ho) (path_join (cg_dir (mc_cgroup_root cfg) (h_name h)) f) = Inl NotFound"
    and "os_mtime (ho_os ho) (cg_dir (mc_cgroup_root cfg) (h_name h)) = Inl NotFound"
    and "\<not> cg_exists (ho_os ho) (mc_cgroup_root cfg) (h_name h)"
    and "h_name h \<noteq> ''/''" "h_rootfs_diff h = None" "\<not> h_reports_network h"
  shows "\<exists>s' h' n ms'. hk_iteration cfg from_std ho scan i i' now (s, h) ms = Some ((s', h'), [], Sleep n, ms') \<and>
     h_store h' = ts_push from_std (default_container_stats\<lparr>stats_timestamp := now\<rparr>) (h_store h)"
proof -
  have r: "read_stats (ho_os ho) (mc_cgroup_root cfg) (h_name h) now =
      Inr (default_container_stats\<lparr>stats_timestamp := now\<rparr>)"
    using assms(1) by (rule stats_missing_cgroup)
  have sp: "read_spec (ho_os ho) (mc_cgroup_root cfg) (h_name h) =
      Inl (host_io (cg_dir (mc_cgroup_root cfg) (h_name h)) NotFound)"
    using assms(2) by (simp add: read_spec_def Let_def)
  have sl: "hk_slow_handle cfg ho h = Some h" using sp assms(4,5) by (simp add: hk_slow_handle_def)
  obtain s' where s': "hk_slow cfg ho i i' (s, h) = Some (s', h)" by (cases "hk_slow_due i s") (auto simp: hk_slow_def sl)
  have "fst (sample cfg ho scan now h ms) = Inr (default_container_stats\<lparr>stats_timestamp := now\<rparr>)"
    using assms(4-6) by (simp add: sample_def r fill_network_def fill_layer_def Let_def)
  then obtain ms' where "sample cfg ho scan now h ms = (Inr (default_container_stats\<lparr>stats_timestamp := now\<rparr>), ms')"
    by (metis prod.collapse)
  then show ?thesis
    by (cases "hk_prev s'") (simp_all add: hk_iteration_def s' hk_oom_def default_container_stats_def)
qed

definition demo_config :: manager_config where
  "demo_config = default_manager_config ''1.0''"

definition demo_handle :: handle where
  "demo_handle = \<lparr>h_name = ''/gone'', h_reference = default_container_reference,
     h_spec = default_container_spec, h_store = ts_new 0, h_init_pid = None, h_reports_network = False,
     h_rootfs_diff = None, h_fs_usage = (0, 0)\<rparr>"

definition demo_host :: host where
  "demo_host = \<lparr>ho_os = os_of_files [], ho_vfs = (\<lambda>_. Inl NotFound), ho_tree = demo_tree, ho_partitions = []\<rparr>"

definition idle :: container_stats where
  "idle = default_container_stats\<lparr>stats_timestamp := 1\<rparr>"

definition busy :: container_stats where
  "busy = default_container_stats\<lparr>stats_timestamp := 2, stats_oom_events := 1,
     stats_memory := default_memory_stats\<lparr>mem_usage := 5\<rparr>\<rparr>"

theorem interval_in_range_witness:
  "hk_interval (hk_end demo_config (\<lambda>_. None) (all_ok [idle, busy]) (hk_start demo_config 0, demo_handle)) \<le> secs 60"
  using interval_in_range [of demo_config "\<lambda>_. None" "all_ok [idle, busy]" 0 demo_handle]
  by (simp add: demo_config_def default_manager_config_def secs_def del: all_ok_simps)

definition idle_hk :: hk where
  "idle_hk = \<lparr>hk_interval = secs 1, hk_prev = Some idle, hk_last_slow = 0, hk_first = False\<rparr>"

theorem adaptive_interval_witness:
  "hk_interval (hk_end demo_config (\<lambda>_. None) (all_ok [idle, idle, idle]) (idle_hk, demo_handle)) = secs 8"
proof -
  have "\<not> same_reading idle busy"
    by (simp add: same_reading_def idle_def busy_def default_container_stats_def default_memory_stats_def)
  then have "hk_interval (hk_end demo_config (\<lambda>_. None) (all_ok [idle, idle, idle]) (idle_hk, demo_handle)) =
      min (hk_interval idle_hk * 2 ^ length [idle, idle, idle]) (mc_max_housekeeping_interval demo_config)"
    by (intro adaptive_interval [THEN conjunct1, of _ _ idle _ busy])
      (simp_all add: demo_config_def default_manager_config_def secs_def idle_hk_def same_reading_def)
  then show ?thesis by (simp add: demo_config_def default_manager_config_def secs_def idle_hk_def)
qed

theorem max_below_base_witness:
  "hk_interval (hk_end (demo_config\<lparr>mc_max_housekeeping_interval := 5\<rparr>) (\<lambda>_. None) (all_ok [idle, idle])
      (hk_start (demo_config\<lparr>mc_max_housekeeping_interval := 5\<rparr>) 0, demo_handle)) < secs 1"
  using max_below_base [of "demo_config\<lparr>mc_max_housekeeping_interval := 5\<rparr>" idle idle "\<lambda>_. None" 0 demo_handle]
  by (simp add: same_reading_def demo_config_def default_manager_config_def secs_def del: all_ok_simps)

theorem vanished_cgroup_sampled_witness:
  "\<exists>s' h' n ms'. hk_iteration demo_config (\<lambda>_. None) demo_host [] 0 0 9 (hk_start demo_config 0, demo_handle)
      \<lparr>ms_info = default_machine_info, ms_misses = []\<rparr> = Some ((s', h'), [], Sleep n, ms') \<and>
     h_store h' = ts_push (\<lambda>_. None) (default_container_stats\<lparr>stats_timestamp := 9\<rparr>) (h_store demo_handle)"
  by (rule vanished_cgroup_sampled) (simp_all add: demo_host_def demo_handle_def os_of_files_def cg_exists_def)

end
