(* ===== verification/Registry.thy ===== *)
theory Registry
  imports Housekeeping
begin

text \<open>
  The container registry of \<open>crates/cadvisor-manager/src/manager.rs\<close> and its concurrency:
  \<open>add_container\<close>, \<open>remove_container\<close>, the watcher loop and the global sweep of \<open>start\<close>, \<open>walk_tree\<close>
  and the turns of the housekeeping tasks. The handles are shared: \<open>rg_handles\<close> is their store, an
  \<open>Arc\<close> is an index into it, the \<open>HashMap\<close> of containers is the association list \<open>rg_map\<close> from
  names to indices. Two agents add and remove containers, the task that consumes watcher events and
  the sweep; each is at one point of an operation at a time, its \<open>phase\<close>. An \<open>action\<close> is one piece
  of an operation between two points where another agent may run: what one lock protects, or what
  lies between two statements that touch shared state. \<open>act\<close> gives its effect, \<open>reachable\<close> the
  states of all interleavings.
\<close>

section \<open>Adding and removing\<close>

text \<open>\<open>name.rsplit('/').next()\<close>.\<close>

definition basename_of :: "string \<Rightarrow> string" where
  "basename_of name = last (split_char CHR ''/'' name)"

text \<open>The handle \<open>add_container\<close> makes from the spec and the runtime's metadata.\<close>

definition make_handle :: "manager_config \<Rightarrow> string \<Rightarrow> container_spec \<Rightarrow> container_meta option \<Rightarrow> handle" where
  "make_handle cfg name spec meta =
     (let reference = default_container_reference\<lparr>ref_name := name\<rparr>; store = ts_new (mc_storage_duration cfg) in
      case meta of
        None \<Rightarrow>
          \<lparr>h_name = name, h_reference = reference, h_spec = spec, h_store = store,
           h_init_pid = (if name = ''/'' then Some 1 else None), h_reports_network = (name = ''/''),
           h_rootfs_diff = None, h_fs_usage = (0, 0)\<rparr>
      | Some m \<Rightarrow>
          \<lparr>h_name = name,
           h_reference = reference\<lparr>ref_id := meta_id m, ref_aliases := meta_aliases m,
             ref_namespace := meta_namespace m\<rparr>,
           h_spec = spec\<lparr>spec_image := meta_image m, spec_labels := meta_labels m,
             spec_envs := whitelisted_env (meta_env m) (mc_env_metadata_whitelist cfg),
             spec_has_network := meta_reports_network m,
             spec_has_filesystem := (meta_rootfs_diff m \<noteq> None)\<rparr>,
           h_store = store, h_init_pid = meta_init_pid m, h_reports_network = meta_reports_network m,
           h_rootfs_diff = meta_rootfs_diff m, h_fs_usage = (0, 0)\<rparr>)"

datatype agent = Watcher | Sweeper

datatype phase =
    Idle
  | Built handle bool
  | Inserted nat bool
  | Recorded nat
  | Spawned nat
  | Unlinked nat string
  | Aborted string

record reg =
  rg_map :: "(string \<times> nat) list"
  rg_handles :: "nat \<Rightarrow> handle"
  rg_next :: nat
  rg_task :: "nat \<Rightarrow> bool"
  rg_running :: "nat list"
  rg_hk :: "nat \<Rightarrow> hk"
  rg_log :: event_log
  rg_machine :: machine_state
  rg_phase :: "agent \<Rightarrow> phase"

definition registered :: "reg \<Rightarrow> string \<Rightarrow> bool" where
  "registered s name \<longleftrightarrow> map_of (rg_map s) name \<noteq> None"

definition set_phase :: "agent \<Rightarrow> phase \<Rightarrow> reg \<Rightarrow> reg" where
  "set_phase a p s = s\<lparr>rg_phase := (rg_phase s)(a := p)\<rparr>"

text \<open>The names, the early returns, the spec and the metadata; the shared map is only read.\<close>

definition add_begin ::
  "manager_config \<Rightarrow> host \<Rightarrow> runtimes \<Rightarrow> agent \<Rightarrow> string \<Rightarrow> bool \<Rightarrow> reg \<Rightarrow> reg" where
  "add_begin cfg ho rts a name record_creation s =
     (if ends_with name ''.mount'' then s
      else if registered s name then s
      else case build_spec cfg ho (ms_info (rg_machine s)) name of
        Inl _ \<Rightarrow> s
      | Inr spec \<Rightarrow>
          set_phase a (Built (make_handle cfg name spec (fst (runtime_meta rts (basename_of name))))
            record_creation) s)"

text \<open>The block under the write lock.\<close>

definition add_insert :: "agent \<Rightarrow> handle \<Rightarrow> bool \<Rightarrow> reg \<Rightarrow> reg" where
  "add_insert a h record_creation s =
     (if registered s (h_name h) then set_phase a Idle s
      else set_phase a (Inserted (rg_next s) record_creation)
        (s\<lparr>rg_map := (h_name h, rg_next s) # rg_map s,
           rg_handles := (rg_handles s)(rg_next s := h),
           rg_task := (rg_task s)(rg_next s := False),
           rg_next := rg_next s + 1\<rparr>))"

definition add_record :: "agent \<Rightarrow> nat \<Rightarrow> bool \<Rightarrow> reg \<Rightarrow> reg" where
  "add_record a i record_creation s =
     set_phase a (Recorded i)
       (if record_creation
        then s\<lparr>rg_log := record_event (h_name (rg_handles s i)) ContainerCreation
                 (spec_creation_time (h_spec (rg_handles s i))) (rg_log s)\<rparr>
        else s)"

definition add_spawn :: "manager_config \<Rightarrow> int \<Rightarrow> agent \<Rightarrow> nat \<Rightarrow> reg \<Rightarrow> reg" where
  "add_spawn cfg instant a i s =
     set_phase a (Spawned i)
       (s\<lparr>rg_running := i # rg_running s, rg_hk := (rg_hk s)(i := hk_start cfg instant)\<rparr>)"

definition add_store :: "agent \<Rightarrow> nat \<Rightarrow> reg \<Rightarrow> reg" where
  "add_store a i s = set_phase a Idle (s\<lparr>rg_task := (rg_task s)(i := True)\<rparr>)"

definition remove_unlink :: "agent \<Rightarrow> string \<Rightarrow> reg \<Rightarrow> reg" where
  "remove_unlink a name s =
     (case map_of (rg_map s) name of
        None \<Rightarrow> s
      | Some i \<Rightarrow> set_phase a (Unlinked i name) (s\<lparr>rg_map := filter (\<lambda>e. fst e \<noteq> name) (rg_map s)\<rparr>))"

text \<open>\<open>take()\<close> of the task slot and \<open>abort()\<close>.\<close>

definition remove_abort :: "agent \<Rightarrow> nat \<Rightarrow> string \<Rightarrow> reg \<Rightarrow> reg" where
  "remove_abort a i name s =
     set_phase a (Aborted name)
       (if rg_task s i
        then s\<lparr>rg_task := (rg_task s)(i := False), rg_running := filter (\<lambda>j. j \<noteq> i) (rg_running s)\<rparr>
        else s)"

definition remove_record :: "gotime \<Rightarrow> agent \<Rightarrow> string \<Rightarrow> reg \<Rightarrow> reg" where
  "remove_record now a name s =
     set_phase a Idle (s\<lparr>rg_log := record_event name ContainerDeletion now (rg_log s)\<rparr>)"

section \<open>Housekeeping turns\<close>

text \<open>The events of a turn, each with the time read when it is recorded.\<close>

definition record_types ::
  "string \<Rightarrow> (event_type \<Rightarrow> gotime) \<Rightarrow> event_type list \<Rightarrow> event_log \<Rightarrow> event_log" where
  "record_types name clock evs l = fold (\<lambda>t. record_event name t (clock t)) evs l"

text \<open>What a turn of a task reads: the host, the scan, its clocks.\<close>

record turn_input =
  ti_host :: host
  ti_scan :: "(string \<times> disk_info) list"
  ti_instant :: int
  ti_instant' :: int
  ti_now :: gotime
  ti_event_time :: "event_type \<Rightarrow> gotime"

text \<open>A turn of task \<open>i\<close>; a task that stops is not running any more, a turn that does not return
  leaves the state.\<close>

definition turn :: "manager_config \<Rightarrow> (nat \<Rightarrow> int option) \<Rightarrow> turn_input \<Rightarrow> nat \<Rightarrow> reg \<Rightarrow> reg" where
  "turn cfg from_std inp i s =
     (case hk_iteration cfg from_std (ti_host inp) (ti_scan inp) (ti_instant inp) (ti_instant' inp)
             (ti_now inp) (rg_hk s i, rg_handles s i) (rg_machine s) of
        None \<Rightarrow> s
      | Some ((k, h), evs, out, ms) \<Rightarrow>
          s\<lparr>rg_hk := (rg_hk s)(i := k), rg_handles := (rg_handles s)(i := h), rg_machine := ms,
            rg_log := record_types (h_name h) (ti_event_time inp) evs (rg_log s),
            rg_running := (case out of Stop \<Rightarrow> filter (\<lambda>j. j \<noteq> i) (rg_running s)
                                     | Sleep _ \<Rightarrow> rg_running s)\<rparr>)"

section \<open>Interleavings\<close>

datatype action =
    AddBegin agent host runtimes string bool
  | Step agent int gotime
  | RemoveBegin agent string
  | Turn nat turn_input
  | Refresh "(host_error, machine_info) res"

text \<open>The next piece of an agent's operation.\<close>

definition agent_step :: "manager_config \<Rightarrow> agent \<Rightarrow> int \<Rightarrow> gotime \<Rightarrow> reg \<Rightarrow> reg" where
  "agent_step cfg a instant now s =
     (case rg_phase s a of
        Idle \<Rightarrow> s
      | Built h rec \<Rightarrow> add_insert a h rec s
      | Inserted i rec \<Rightarrow> add_record a i rec s
      | Recorded i \<Rightarrow> add_spawn cfg instant a i s
      | Spawned i \<Rightarrow> add_store a i s
      | Unlinked i name \<Rightarrow> remove_abort a i name s
      | Aborted name \<Rightarrow> remove_record now a name s)"

definition act :: "manager_config \<Rightarrow> (nat \<Rightarrow> int option) \<Rightarrow> action \<Rightarrow> reg \<Rightarrow> reg" where
  "act cfg from_std x s =
     (case x of
        AddBegin a ho rts name rec \<Rightarrow>
          if rg_phase s a = Idle then add_begin cfg ho rts a name rec s else s
      | Step a instant now \<Rightarrow> agent_step cfg a instant now s
      | RemoveBegin a name \<Rightarrow> if rg_phase s a = Idle then remove_unlink a name s else s
      | Turn i inp \<Rightarrow> if i \<in> set (rg_running s) then turn cfg from_std inp i s else s
      | Refresh r \<Rightarrow> s\<lparr>rg_machine := refresh_machine_info r (rg_machine s)\<rparr>)"

definition reg_start :: "machine_info \<Rightarrow> reg" where
  "reg_start mi =
     \<lparr>rg_map = [], rg_handles = (\<lambda>_. make_handle (default_manager_config []) [] default_container_spec None),
      rg_next = 0, rg_task = (\<lambda>_. False), rg_running = [],
      rg_hk = (\<lambda>_. hk_start (default_manager_config []) 0),
      rg_log = empty_log, rg_machine = \<lparr>ms_info = mi, ms_misses = []\<rparr>, rg_phase = (\<lambda>_. Idle)\<rparr>"

inductive reachable :: "manager_config \<Rightarrow> (nat \<Rightarrow> int option) \<Rightarrow> machine_info \<Rightarrow> reg \<Rightarrow> bool"
  for cfg from_std mi where
  start: "reachable cfg from_std mi (reg_start mi)"
| step: "reachable cfg from_std mi s \<Longrightarrow> reachable cfg from_std mi (act cfg from_std x s)"

inductive_simps reachable_simps: "reachable cfg from_std mi s"

definition run :: "manager_config \<Rightarrow> (nat \<Rightarrow> int option) \<Rightarrow> action list \<Rightarrow> reg \<Rightarrow> reg" where
  "run cfg from_std xs s = fold (act cfg from_std) xs s"

lemma reachable_run: "reachable cfg from_std mi s \<Longrightarrow> reachable cfg from_std mi (run cfg from_std xs s)"
  by (induction xs arbitrary: s) (simp_all add: run_def reachable.step)

section \<open>The invariant\<close>

text \<open>The index an agent's unfinished addition holds.\<close>

fun add_id :: "phase \<Rightarrow> nat option" where
  "add_id (Inserted i _) = Some i"
| "add_id (Recorded i) = Some i"
| "add_id (Spawned i) = Some i"
| "add_id _ = None"

definition map_ok :: "reg \<Rightarrow> bool" where
  "map_ok s \<longleftrightarrow> distinct (map fst (rg_map s)) \<and> distinct (map snd (rg_map s)) \<and>
     (\<forall>(n, i) \<in> set (rg_map s). i < rg_next s \<and> h_name (rg_handles s i) = n)"

definition phases_ok :: "reg \<Rightarrow> bool" where
  "phases_ok s \<longleftrightarrow>
     (\<forall>a i. add_id (rg_phase s a) = Some i \<longrightarrow> i < rg_next s \<and> \<not> rg_task s i) \<and>
     (\<forall>a i n. rg_phase s a = Unlinked i n \<longrightarrow> i < rg_next s \<and> i \<notin> snd ` set (rg_map s)) \<and>
     (\<forall>i. add_id (rg_phase s Watcher) = Some i \<longrightarrow> add_id (rg_phase s Sweeper) \<noteq> Some i)"

definition tasks_ok :: "reg \<Rightarrow> bool" where
  "tasks_ok s \<longleftrightarrow> distinct (rg_running s) \<and> (\<forall>i \<in> set (rg_running s). i < rg_next s) \<and>
     (\<forall>a i r. rg_phase s a = Inserted i r \<or> rg_phase s a = Recorded i \<longrightarrow> i \<notin> set (rg_running s)) \<and>
     (\<forall>(n, i) \<in> set (rg_map s). rg_task s i \<or> (\<exists>a. add_id (rg_phase s a) = Some i))"

definition reg_inv :: "reg \<Rightarrow> bool" where
  "reg_inv s \<longleftrightarrow> map_ok s \<and> phases_ok s \<and> tasks_ok s"

lemma all_agents: "(\<forall>a. P a) \<longleftrightarrow> P Watcher \<and> P Sweeper" "(\<exists>a. P a) \<longleftrightarrow> P Watcher \<or> P Sweeper"
  by (metis agent.exhaust)+

lemma registered_iff: "registered s n \<longleftrightarrow> n \<in> fst ` set (rg_map s)"
  by (auto simp: registered_def map_of_eq_None_iff)

lemma set_phase_simps [simp]:
  "rg_map (set_phase a p s) = rg_map s" "rg_handles (set_phase a p s) = rg_handles s"
  "rg_next (set_phase a p s) = rg_next s" "rg_task (set_phase a p s) = rg_task s"
  "rg_running (set_phase a p s) = rg_running s" "rg_log (set_phase a p s) = rg_log s"
  "rg_phase (set_phase a p s) = (rg_phase s)(a := p)"
  by (simp_all add: set_phase_def)

lemmas inv_defs = reg_inv_def map_ok_def phases_ok_def tasks_ok_def

lemma inv_start: "reg_inv (reg_start mi)"
  by (simp add: inv_defs reg_start_def)

lemma inv_begin: "reg_inv s \<Longrightarrow> rg_phase s a = Idle \<Longrightarrow> reg_inv (add_begin cfg ho rts a name rec s)"
  by (cases a) (auto simp: add_begin_def inv_defs all_agents split: sum.split)

lemma inv_insert: "reg_inv s \<Longrightarrow> rg_phase s a = Built h rec \<Longrightarrow> reg_inv (add_insert a h rec s)"
  by (cases a) (force simp: add_insert_def inv_defs all_agents registered_iff)+

lemma inv_record: "reg_inv s \<Longrightarrow> rg_phase s a = Inserted i rec \<Longrightarrow> reg_inv (add_record a i rec s)"
  by (cases a) (auto simp: add_record_def inv_defs all_agents)

lemma inv_spawn: "reg_inv s \<Longrightarrow> rg_phase s a = Recorded i \<Longrightarrow> reg_inv (add_spawn cfg t a i s)"
  by (cases a) (auto simp: add_spawn_def inv_defs all_agents)

lemma inv_store: "reg_inv s \<Longrightarrow> rg_phase s a = Spawned i \<Longrightarrow> reg_inv (add_store a i s)"
  by (cases a) (auto simp: add_store_def inv_defs all_agents)

lemma inv_unlink:
  assumes "reg_inv s" "rg_phase s a = Idle"
  shows "reg_inv (remove_unlink a name s)"
proof (cases "map_of (rg_map s) name")
  case (Some i)
  then have i: "(name, i) \<in> set (rg_map s)" by (rule map_of_SomeD)
  let ?m = "filter (\<lambda>e. fst e \<noteq> name) (rg_map s)"
  have "distinct (map snd (rg_map s))" using assms(1) by (simp add: inv_defs)
  then have gone: "i \<notin> snd ` set ?m"
    using i by (fastforce simp: distinct_map inj_on_def)
  have "distinct (map fst ?m)" "distinct (map snd ?m)"
    using assms(1) by (simp_all add: inv_defs distinct_map_filter)
  then show ?thesis
    using assms i gone Some by (cases a) (auto simp: remove_unlink_def inv_defs all_agents)
qed (use assms in \<open>simp add: remove_unlink_def\<close>)

lemma inv_abort: "reg_inv s \<Longrightarrow> rg_phase s a = Unlinked i name \<Longrightarrow> reg_inv (remove_abort a i name s)"
proof -
  assume inv: "reg_inv s" and ph: "rg_phase s a = Unlinked i name"
  have m: "map_ok s" and p: "phases_ok s" and t: "tasks_ok s" using inv by (simp_all add: reg_inv_def)
  have "i \<notin> snd ` set (rg_map s)" using p ph unfolding phases_ok_def by blast
  then have ne: "j \<noteq> i" if "(n, j) \<in> set (rg_map s)" for n j
    using that by (metis imageI snd_conv)
  let ?s = "remove_abort a i name s"
  have phs: "rg_phase ?s = (rg_phase s)(a := Aborted name)" and mp: "rg_map ?s = rg_map s"
    and nx: "rg_next ?s = rg_next s" and hd: "rg_handles ?s = rg_handles s"
    by (simp_all add: remove_abort_def)
  have tk: "rg_task ?s j = (if j = i then False else rg_task s j)" for j
    by (simp add: remove_abort_def)
  have rn: "rg_running ?s = (if rg_task s i then filter (\<lambda>j. j \<noteq> i) (rg_running s) else rg_running s)"
    by (simp add: remove_abort_def)
  have "map_ok ?s" using m by (simp add: map_ok_def mp nx hd)
  moreover have "phases_ok ?s" using p by (auto simp: phases_ok_def phs mp nx tk)
  moreover have "tasks_ok ?s"
  proof -
    have k: "rg_task ?s j \<or> (\<exists>b. add_id (rg_phase ?s b) = Some j)" if "(n, j) \<in> set (rg_map s)" for n j
    proof -
      from t that consider "rg_task s j" | b where "add_id (rg_phase s b) = Some j"
        by (auto simp: tasks_ok_def)
      then show ?thesis
      proof cases
        case 1
        then show ?thesis using ne [OF that] by (simp add: tk)
      next
        case 2
        then have "b \<noteq> a" using ph by auto
        then show ?thesis using 2 by (auto simp: phs)
      qed
    qed
    have "distinct (rg_running ?s)" "\<forall>j \<in> set (rg_running ?s). j < rg_next ?s"
      using t by (auto simp: tasks_ok_def rn nx)
    moreover have "\<forall>b j r. rg_phase ?s b = Inserted j r \<or> rg_phase ?s b = Recorded j \<longrightarrow> j \<notin> set (rg_running ?s)"
      using t by (auto simp: tasks_ok_def rn phs)
    ultimately show ?thesis unfolding tasks_ok_def mp using k by fast
  qed
  ultimately show ?thesis by (simp add: reg_inv_def)
qed

lemma inv_remove_record: "reg_inv s \<Longrightarrow> rg_phase s a = Aborted name \<Longrightarrow> reg_inv (remove_record now a name s)"
  by (cases a) (auto simp: remove_record_def inv_defs all_agents)

lemma inv_agent_step: "reg_inv s \<Longrightarrow> reg_inv (agent_step cfg a t now s)"
  by (cases "rg_phase s a")
    (simp_all add: agent_step_def inv_insert inv_record inv_spawn inv_store inv_abort inv_remove_record)

lemma hk_slow_name: "hk_slow cfg ho i i' (s, h) = Some (s', h') \<Longrightarrow> h_name h' = h_name h"
  by (auto simp: hk_slow_def hk_slow_handle_def split: if_splits option.splits sum.splits)

lemma hk_sample_name: "fst (hk_sample cfg from_std r gone (s, h)) = (s', h') \<Longrightarrow> h_name h' = h_name h"
  by (cases r) auto

lemma hk_iteration_name:
  "hk_iteration cfg from_std ho scan i i' now (s, h) ms = Some ((s', h'), evs, out, ms') \<Longrightarrow> h_name h' = h_name h"
  by (auto simp: hk_iteration_def case_prod_beta Let_def split: option.splits
      dest!: hk_slow_name hk_sample_name)

lemma inv_turn: "reg_inv s \<Longrightarrow> reg_inv (turn cfg from_std inp i s)"
proof -
  assume inv: "reg_inv s"
  show ?thesis
  proof (cases "hk_iteration cfg from_std (ti_host inp) (ti_scan inp) (ti_instant inp) (ti_instant' inp)
      (ti_now inp) (rg_hk s i, rg_handles s i) (rg_machine s)")
    case (Some r)
    obtain k h evs out ms where r: "r = ((k, h), evs, out, ms)" by (metis prod.exhaust)
    have "h_name h = h_name (rg_handles s i)" using Some r hk_iteration_name by metis
    then show ?thesis
      using inv Some r by (auto simp: turn_def inv_defs all_agents split: hk_out.split)
  qed (simp add: turn_def inv)
qed

lemma inv_act: "reg_inv s \<Longrightarrow> reg_inv (act cfg from_std x s)"
  by (cases x)
    (simp_all add: act_def inv_begin inv_unlink inv_turn inv_agent_step, simp add: inv_defs)

lemma reachable_inv: "reachable cfg from_std mi s \<Longrightarrow> reg_inv s"
  by (induction rule: reachable.induct) (auto intro: inv_start inv_act)

section \<open>One agent alone\<close>

fun only :: "agent \<Rightarrow> action \<Rightarrow> bool" where
  "only a (AddBegin b _ _ _ _) \<longleftrightarrow> a = b"
| "only a (Step b _ _) \<longleftrightarrow> a = b"
| "only a (RemoveBegin b _) \<longleftrightarrow> a = b"
| "only a (Turn _ _) \<longleftrightarrow> True"
| "only a (Refresh _) \<longleftrightarrow> True"

text \<open>Every running task belongs to a registered handle, or to the one being removed.\<close>

definition owned :: "agent \<Rightarrow> reg \<Rightarrow> bool" where
  "owned a s \<longleftrightarrow>
     (\<forall>b. b \<noteq> a \<longrightarrow> rg_phase s b = Idle) \<and>
     (\<forall>i. add_id (rg_phase s a) = Some i \<longrightarrow> i \<in> snd ` set (rg_map s)) \<and>
     (\<forall>i \<in> set (rg_running s). i \<in> snd ` set (rg_map s) \<or> (\<exists>n. rg_phase s a = Unlinked i n)) \<and>
     (\<forall>i n. rg_phase s a = Unlinked i n \<longrightarrow> rg_task s i)"

lemma owned_start: "owned a (reg_start mi)"
  by (simp add: owned_def reg_start_def)

lemma owned_begin: "owned a s \<Longrightarrow> rg_phase s a = Idle \<Longrightarrow> owned a (add_begin cfg ho rts a name rec s)"
  by (auto simp: add_begin_def owned_def split: sum.split)

lemma owned_step:
  assumes o: "owned a s"
  shows "owned a (agent_step cfg a t now s)"
proof (cases "rg_phase s a")
  case (Built h rec)
  then show ?thesis using o
    by (auto simp: agent_step_def add_insert_def owned_def registered_iff)
next
  case (Inserted i rec)
  then show ?thesis using o by (auto simp: agent_step_def add_record_def owned_def)
next
  case (Unlinked i name)
  then show ?thesis using o by (auto simp: agent_step_def remove_abort_def owned_def)
qed (use o in \<open>auto simp: agent_step_def add_spawn_def add_store_def remove_record_def owned_def\<close>)

lemma owned_unlink:
  assumes "owned a s" "reg_inv s" "rg_phase s a = Idle"
  shows "owned a (remove_unlink a name s)"
proof (cases "map_of (rg_map s) name")
  case (Some i)
  then have i: "(name, i) \<in> set (rg_map s)" by (rule map_of_SomeD)
  have "rg_phase s b = Idle" for b using assms(1,3) by (cases "b = a") (auto simp: owned_def)
  then have "rg_task s i" using assms(2) i by (force simp: inv_defs)
  moreover have "j = i" if "(name, j) \<in> set (rg_map s)" for j
    using that i assms(2) eq_key_imp_eq_value [of "rg_map s" name j i] by (simp add: inv_defs)
  then have "j \<in> snd ` set (filter (\<lambda>e. fst e \<noteq> name) (rg_map s)) \<or> j = i" if "j \<in> snd ` set (rg_map s)" for j
    using that by force
  ultimately show ?thesis
    using assms(1,3) by (simp add: remove_unlink_def Some owned_def) blast
qed (use assms in \<open>simp add: remove_unlink_def\<close>)

lemma owned_turn: "owned a s \<Longrightarrow> owned a (turn cfg from_std inp i s)"
  by (auto simp: turn_def owned_def split: option.split hk_out.split)

lemma owned_act: "owned a s \<Longrightarrow> reg_inv s \<Longrightarrow> only a x \<Longrightarrow> owned a (act cfg from_std x s)"
  by (cases x) (simp_all add: act_def owned_begin owned_step owned_unlink owned_turn, simp add: owned_def)

lemma owned_run:
  "list_all (only a) xs \<Longrightarrow> owned a s \<Longrightarrow> reg_inv s \<Longrightarrow> owned a (run cfg from_std xs s)"
  by (induction xs arbitrary: s) (simp_all add: run_def owned_act inv_act)

section \<open>A task nobody can stop\<close>

definition leaked :: "nat \<Rightarrow> reg \<Rightarrow> bool" where
  "leaked i s \<longleftrightarrow> i \<in> set (rg_running s) \<and> i \<notin> snd ` set (rg_map s) \<and> i < rg_next s \<and>
     (\<forall>a n. rg_phase s a \<noteq> Unlinked i n)"

fun not_turn :: "nat \<Rightarrow> action \<Rightarrow> bool" where
  "not_turn i (Turn j _) \<longleftrightarrow> i \<noteq> j"
| "not_turn i _ \<longleftrightarrow> True"

lemma leaked_agent_step: "leaked i s \<Longrightarrow> leaked i (agent_step cfg a t now s)"
  by (cases "rg_phase s a")
    (auto simp: agent_step_def leaked_def add_insert_def add_record_def add_spawn_def add_store_def
      remove_abort_def remove_record_def)

lemma leaked_unlink: "leaked i s \<Longrightarrow> leaked i (remove_unlink a name s)"
  by (auto simp: remove_unlink_def leaked_def split: option.split dest!: map_of_SomeD intro: rev_image_eqI)

lemma leaked_act: "leaked i s \<Longrightarrow> not_turn i x \<Longrightarrow> leaked i (act cfg from_std x s)"
proof (cases x)
  case (AddBegin a ho rts name rec)
  then show "leaked i s \<Longrightarrow> leaked i (act cfg from_std x s)"
    by (auto simp: act_def add_begin_def leaked_def split: sum.split)
next
  case (Turn j inp)
  then show "leaked i s \<Longrightarrow> not_turn i x \<Longrightarrow> leaked i (act cfg from_std x s)"
    by (auto simp: act_def turn_def leaked_def split: option.split hk_out.split)
qed (simp_all add: act_def leaked_agent_step leaked_unlink, simp add: leaked_def)

lemma leaked_run: "leaked i s \<Longrightarrow> list_all (not_turn i) xs \<Longrightarrow> leaked i (run cfg from_std xs s)"
  by (induction xs arbitrary: s) (simp_all add: run_def leaked_act)

section \<open>Properties\<close>


text \<open>When no addition or removal is in progress, the task slot of every registered container is
  filled, so a removal will find a task to abort.\<close>

theorem quiescent_tasks:
  assumes "reachable cfg from_std mi s" "\<And>a. rg_phase s a = Idle"
  shows "list_all (\<lambda>(n, i). rg_task s i) (rg_map s)"
  using reachable_inv [OF assms(1)] assms(2) by (auto simp: inv_defs list_all_iff)

text \<open>C17: if only one of the two agents adds and removes containers, then whenever it is between two
  operations every running housekeeping task belongs to a registered container: a removal always
  stops the task of what it removes.\<close>

theorem sequential_no_leak:
  assumes "list_all (only a) xs" "rg_phase (run cfg from_std xs (reg_start mi)) a = Idle"
  shows "set (rg_running (run cfg from_std xs (reg_start mi))) \<subseteq>
     set (map snd (rg_map (run cfg from_std xs (reg_start mi))))"
  using owned_run [OF assms(1) owned_start inv_start, of cfg from_std mi] assms(2)
  by (auto simp: owned_def)

text \<open>A host with one cgroup \<open>/a\<close> that has a directory and no files.\<close>

definition one_cgroup :: host where
  "one_cgroup = \<lparr>ho_os = (os_of_files [])\<lparr>os_mtime := \<lambda>_. Inr (Some 7)\<rparr>, ho_vfs = (\<lambda>_. Inl NotFound),
     ho_tree = demo_tree, ho_partitions = []\<rparr>"

definition no_runtimes :: runtimes where
  "no_runtimes = \<lparr>rts_crio_available = (\<lambda>_. False), rts_crio = (\<lambda>_ _. Inl RtNotFound), rts_containerd = None\<rparr>"

text \<open>The sweep adds \<open>/a\<close>; before it has stored the task in the handle, the watcher removes \<open>/a\<close>.\<close>

definition racing :: "host \<Rightarrow> runtimes \<Rightarrow> action list" where
  "racing ho rts =
     [AddBegin Sweeper ho rts ''/a'' True, Step Sweeper 0 0, Step Sweeper 0 0, Step Sweeper 0 0,
      RemoveBegin Watcher ''/a'', Step Watcher 0 9, Step Watcher 0 9, Step Sweeper 0 0]"

definition after_race :: reg where
  "after_race = run demo_config (\<lambda>_. None) (racing one_cgroup no_runtimes) (reg_start default_machine_info)"

lemma h_name_make_handle [simp]: "h_name (make_handle cfg name spec meta) = name"
  by (simp add: make_handle_def Let_def split: option.split)

text \<open>An addition up to the store of the task, on a state in which nobody is at work and \<open>/a\<close> is not
  registered.\<close>

definition adding :: "host \<Rightarrow> runtimes \<Rightarrow> action list" where
  "adding ho rts =
     [AddBegin Sweeper ho rts ''/a'' True, Step Sweeper 0 0, Step Sweeper 0 0, Step Sweeper 0 0]"

lemma run_append: "run cfg from_std (xs @ ys) s = run cfg from_std ys (run cfg from_std xs s)"
  by (simp add: run_def)

lemma adding_from:
  assumes idle: "rg_phase s = (\<lambda>_. Idle)" and free: "rg_map s = []"
    and spec: "build_spec cfg ho (ms_info (rg_machine s)) ''/a'' = Inr spec"
    and s': "s' = run cfg from_std (adding ho rts) s"
  shows "rg_phase s' = (\<lambda>_. Idle)(Sweeper := Spawned (rg_next s)) \<and> rg_map s' = [(''/a'', rg_next s)] \<and>
     rg_next s' = rg_next s + 1 \<and> rg_running s' = rg_next s # rg_running s \<and> \<not> rg_task s' (rg_next s)"
proof -
  define h where "h = make_handle cfg ''/a'' spec (fst (runtime_meta rts (basename_of ''/a'')))"
  have hn: "h_name h = ''/a''" by (simp add: h_def)
  have reg: "\<not> registered s ''/a''" by (simp add: registered_def free)
  have m: "\<not> ends_with ''/a'' ''.mount''" by (simp add: ends_with_def starts_with_def)
  define s1 where "s1 = set_phase Sweeper (Built h True) s"
  define s2 where "s2 = add_insert Sweeper h True s1"
  define s3 where "s3 = add_record Sweeper (rg_next s) True s2"
  define s4 where "s4 = add_spawn cfg 0 Sweeper (rg_next s) s3"
  note d = act_def agent_step_def
  have p1: "rg_phase s1 = (\<lambda>_. Idle)(Sweeper := Built h True)" by (simp add: s1_def idle)
  have p2: "rg_phase s2 = (\<lambda>_. Idle)(Sweeper := Inserted (rg_next s) True)"
    "rg_map s2 = [(''/a'', rg_next s)]" "rg_next s2 = rg_next s + 1" "rg_running s2 = rg_running s"
    "\<not> rg_task s2 (rg_next s)"
    by (simp_all add: s2_def add_insert_def registered_def s1_def free hn idle)
  have p3: "rg_phase s3 = (\<lambda>_. Idle)(Sweeper := Recorded (rg_next s))" "rg_map s3 = rg_map s2"
    "rg_next s3 = rg_next s2" "rg_running s3 = rg_running s2" "rg_task s3 = rg_task s2"
    by (simp_all add: s3_def add_record_def p2)
  have "act cfg from_std (AddBegin Sweeper ho rts ''/a'' True) s = s1"
    by (simp add: act_def idle add_begin_def m reg spec s1_def h_def)
  moreover have "act cfg from_std (Step Sweeper 0 0) s1 = s2" by (simp add: d p1 s2_def)
  moreover have "act cfg from_std (Step Sweeper 0 0) s2 = s3" by (simp add: d p2 s3_def)
  moreover have "act cfg from_std (Step Sweeper 0 0) s3 = s4" by (simp add: d p3 s4_def)
  ultimately have "s' = s4" by (simp add: s' run_def adding_def)
  then show ?thesis by (simp add: s4_def add_spawn_def p3 p2)
qed

lemma racing_adding:
  "racing ho rts = adding ho rts @
     [RemoveBegin Watcher ''/a'', Step Watcher 0 9, Step Watcher 0 9, Step Sweeper 0 0]"
  by (simp add: racing_def adding_def)

lemma race_from:
  assumes idle: "rg_phase s = (\<lambda>_. Idle)" and free: "rg_map s = []"
    and spec: "build_spec cfg ho (ms_info (rg_machine s)) ''/a'' = Inr spec"
    and s': "s' = run cfg from_std (racing ho rts) s"
  shows "rg_map s' = [] \<and> rg_running s' = rg_next s # rg_running s \<and> rg_phase s' a = Idle \<and>
     rg_next s' = rg_next s + 1"
proof -
  define s4 where "s4 = run cfg from_std (adding ho rts) s"
  note p4 = adding_from [OF idle free spec s4_def]
  define s5 where "s5 = remove_unlink Watcher ''/a'' s4"
  define s6 where "s6 = remove_abort Watcher (rg_next s) ''/a'' s5"
  define s7 where "s7 = remove_record 9 Watcher ''/a'' s6"
  note d = act_def agent_step_def
  have p5: "rg_phase s5 = (\<lambda>_. Idle)(Sweeper := Spawned (rg_next s), Watcher := Unlinked (rg_next s) ''/a'')"
    "rg_map s5 = []" "rg_next s5 = rg_next s + 1" "rg_running s5 = rg_next s # rg_running s"
    "\<not> rg_task s5 (rg_next s)"
    by (simp_all add: s5_def remove_unlink_def p4)
  have p6: "rg_phase s6 = (\<lambda>_. Idle)(Sweeper := Spawned (rg_next s), Watcher := Aborted ''/a'')"
    "rg_map s6 = []" "rg_next s6 = rg_next s + 1" "rg_running s6 = rg_next s # rg_running s"
    by (simp_all add: s6_def remove_abort_def p5)
  have p7: "rg_phase s7 = (\<lambda>_. Idle)(Sweeper := Spawned (rg_next s), Watcher := Idle)"
    "rg_map s7 = []" "rg_next s7 = rg_next s + 1" "rg_running s7 = rg_next s # rg_running s"
    by (simp_all add: s7_def remove_record_def p6)
  have "act cfg from_std (RemoveBegin Watcher ''/a'') s4 = s5" by (simp add: d p4 s5_def)
  moreover have "act cfg from_std (Step Watcher 0 9) s5 = s6" by (simp add: d p5 s6_def)
  moreover have "act cfg from_std (Step Watcher 0 9) s6 = s7" by (simp add: d p6 s7_def)
  moreover have "act cfg from_std (Step Sweeper 0 0) s7 = add_store Sweeper (rg_next s) s7" by (simp add: d p7)
  ultimately have "s' = add_store Sweeper (rg_next s) s7"
    by (simp add: s' racing_adding run_append s4_def [symmetric]) (simp add: run_def)
  then show ?thesis by (cases a) (simp_all add: add_store_def p7)
qed

lemma one_cgroup_spec: "\<exists>spec. build_spec demo_config one_cgroup default_machine_info ''/a'' = Inr spec"
  by (simp add: build_spec_def read_spec_def read_opt_def cg_read_def read_u64_or_max_def one_cgroup_def
      os_of_files_def host_io_def Let_def)

lemma after_race:
  "rg_map after_race = []" "rg_running after_race = [0]" "rg_phase after_race a = Idle" "rg_next after_race = 1"
proof -
  obtain spec where s: "build_spec demo_config one_cgroup default_machine_info ''/a'' = Inr spec"
    using one_cgroup_spec by blast
  show "rg_map after_race = []" "rg_running after_race = [0]" "rg_phase after_race a = Idle" "rg_next after_race = 1"
    using race_from [of "reg_start default_machine_info" demo_config one_cgroup spec, OF _ _ _ after_race_def] s
    by (simp_all add: reg_start_def)
qed

text \<open>C6: the two agents together can leak a task: a removal that falls between the insertion of the
  handle and the store of its task leaves a running task whose container is not registered, and
  no action of the manager afterwards stops it; only a turn of the task itself could.\<close>

theorem removal_races_addition:
  "rg_map after_race = [] \<and> (case rg_running after_race of [i] \<Rightarrow>
     (list_all (not_turn i) xs \<longrightarrow> i \<in> set (rg_running (run demo_config (\<lambda>_. None) xs after_race)))
   | _ \<Rightarrow> False)"
proof -
  have "leaked 0 after_race" by (simp add: leaked_def after_race)
  then show ?thesis using leaked_run [of 0 after_race xs demo_config "\<lambda>_. None"]
    by (simp add: after_race leaked_def)
qed

definition after_adding :: reg where
  "after_adding = run demo_config (\<lambda>_. None) (adding one_cgroup no_runtimes @ [Step Sweeper 0 0])
     (reg_start default_machine_info)"

lemma after_adding:
  "rg_map after_adding = [(''/a'', 0)]" "rg_phase after_adding a = Idle" "rg_task after_adding 0"
proof -
  obtain spec where s: "build_spec demo_config one_cgroup default_machine_info ''/a'' = Inr spec"
    using one_cgroup_spec by blast
  define s4 where "s4 = run demo_config (\<lambda>_. None) (adding one_cgroup no_runtimes) (reg_start default_machine_info)"
  have p: "rg_phase s4 = (\<lambda>_. Idle)(Sweeper := Spawned 0)" "rg_map s4 = [(''/a'', 0)]"
    using adding_from [of "reg_start default_machine_info" demo_config one_cgroup spec, OF _ _ _ s4_def] s
    by (simp_all add: reg_start_def)
  have "after_adding = add_store Sweeper 0 s4"
    unfolding after_adding_def run_append s4_def [symmetric]
    by (simp add: run_def act_def agent_step_def p)
  then have e: "rg_map after_adding = rg_map (add_store Sweeper 0 s4)"
    "rg_phase after_adding = rg_phase (add_store Sweeper 0 s4)"
    "rg_task after_adding = rg_task (add_store Sweeper 0 s4)"
    by (rule arg_cong)+
  then show "rg_map after_adding = [(''/a'', 0)]" "rg_phase after_adding a = Idle" "rg_task after_adding 0"
    unfolding e by (simp_all add: p add_store_def)
qed

lemma after_adding_reachable: "reachable demo_config (\<lambda>_. None) default_machine_info after_adding"
  unfolding after_adding_def by (intro reachable_run reachable.start)


theorem quiescent_tasks_witness: "rg_map after_adding = [(''/a'', 0)] \<and> rg_task after_adding 0"
  using quiescent_tasks [OF after_adding_reachable] by (simp add: after_adding)

theorem sequential_no_leak_witness:
  "set (rg_running after_adding) \<subseteq> {0}"
  using sequential_no_leak [of Sweeper "adding one_cgroup no_runtimes @ [Step Sweeper 0 0]" demo_config
      "\<lambda>_. None" default_machine_info]
  by (simp add: after_adding flip: after_adding_def) (simp add: adding_def)

theorem removal_races_addition_witness:
  "rg_map after_race = [] \<and> rg_running (run demo_config (\<lambda>_. None) [RemoveBegin Sweeper ''/a''] after_race) \<noteq> []"
  using removal_races_addition [of "[RemoveBegin Sweeper ''/a'']"] by (auto split: list.splits)

end
