(* ===== verification/Tree_Walk.thy ===== *)
theory Tree_Walk
  imports Prelude "HOL-Library.Multiset_Order"
begin

text \<open>
  Walks of a tree that is given by the children of its nodes, as the directory walks of the program
  see it. \<open>descends\<close> is reachability, and \<open>stack_induct\<close> the induction over a stack of nodes that
  replaces its top by the children, for a tree of finite depth.
\<close>

inductive descends :: "('a \<Rightarrow> 'a list) \<Rightarrow> 'a \<Rightarrow> 'a \<Rightarrow> bool" for children x where
  here: "descends children x x"
| child: "descends children x d \<Longrightarrow> c \<in> set (children d) \<Longrightarrow> descends children x c"

lemma descends_step:
  assumes "descends children c y" "c \<in> set (children x)"
  shows "descends children x y"
  using assms(1)
proof induction
  case here
  show ?case by (rule descends.child [where children = children and d = x]) (simp_all add: descends.here assms(2))
next
  case (child d e)
  show ?case by (rule descends.child [where children = children and d = d]) (simp_all add: child.IH child.hyps(2))
qed

lemma descends_top: "descends children x y \<Longrightarrow> y = x \<or> (\<exists>c \<in> set (children x). descends children c y)"
proof (induction rule: descends.induct)
  case (child d e)
  from child.IH show ?case
  proof
    assume "d = x"
    then show ?thesis using child.hyps(2) descends.here [of children e] by auto
  next
    assume "\<exists>c \<in> set (children x). descends children c d"
    then obtain c where "c \<in> set (children x)" "descends children c d" by blast
    moreover have "descends children c e"
      by (rule descends.child [where children = children and d = d]) (simp_all add: calculation child.hyps(2))
    ultimately show ?thesis by blast
  qed
qed simp

lemma descends_iff: "descends children x y \<longleftrightarrow> y = x \<or> (\<exists>c \<in> set (children x). descends children c y)"
  using descends_top [of children x y] descends_step [of children] descends.here [of children x] by auto

lemma descends_keeps:
  assumes "descends children x y" "P x" "\<And>x c. P x \<Longrightarrow> c \<in> set (children x) \<Longrightarrow> P c"
  shows "P y"
  using assms(1)
proof induction
  case (child d c)
  show ?case by (rule assms(3) [OF child.IH child.hyps(2)])
qed (rule assms(2))

text \<open>Two trees whose nodes correspond.\<close>

lemma descends_image:
  assumes "\<And>x. P x \<Longrightarrow> children' (f x) = map f (children x)"
    and "\<And>x c. P x \<Longrightarrow> c \<in> set (children x) \<Longrightarrow> P c" and "P x"
  shows "{y. descends children' (f x) y} = f ` {z. descends children x z}"
proof -
  have keep: "descends children x z \<Longrightarrow> P z" for z using descends_keeps [of children x z P] assms(2,3) by blast
  have "\<exists>z. y = f z \<and> descends children x z" if "descends children' (f x) y" for y
    using that
  proof induction
    case (child d c)
    then obtain z where z: "d = f z" "descends children x z" by blast
    from child.hyps(2) obtain w where "w \<in> set (children z)" "c = f w"
      unfolding z(1) assms(1) [OF keep [OF z(2)]] by auto
    moreover have "descends children x w"
      by (rule descends.child [where children = children and d = z]) (simp_all add: z(2) calculation)
    ultimately show ?case by blast
  next
    case here
    show ?case using descends.here [of children x] by blast
  qed
  moreover have "descends children' (f x) (f z)" if "descends children x z" for z
    using that
  proof induction
    case (child d c)
    show ?case
      by (rule descends.child [where children = children' and d = "f d"])
        (simp_all add: child assms(1) [OF keep [OF child.hyps(1)]])
  qed (rule descends.here)
  ultimately show ?thesis by blast
qed

text \<open>What is below the nodes of a stack.\<close>

definition below_stack :: "('a \<Rightarrow> 'a list) \<Rightarrow> 'a list \<Rightarrow> 'a set" where
  "below_stack children stack = {y. \<exists>x \<in> set stack. descends children x y}"

lemma below_stack_simps:
  "below_stack children [] = {}"
  "below_stack children (x # rest) = insert x (below_stack children (children x @ rest))"
  using descends_iff [of children x] by (auto simp: below_stack_def)

lemma below_stack_sub: "set xs \<subseteq> below_stack children xs"
  using descends.here [of children] by (auto simp: below_stack_def)

lemma below_stack_set: "set xs = set ys \<Longrightarrow> below_stack children xs = below_stack children ys"
  by (simp add: below_stack_def)

lemma stack_induct [consumes 1, case_names empty step]:
  fixes depth :: "'a \<Rightarrow> nat"
  assumes "\<And>x c. c \<in> set (children x) \<Longrightarrow> depth c < depth x"
    and "P []" "\<And>x rest. (\<And>s. mset s = mset (children x @ rest) \<Longrightarrow> P s) \<Longrightarrow> P (x # rest)"
  shows "P stack"
proof (induction "mset (map depth stack)" arbitrary: stack rule: less_induct)
  case less
  show ?case
  proof (cases stack)
    case (Cons x rest)
    have small: "\<forall>k \<in># mset (map depth (children x)). k < depth x" using assms(1) by auto
    have "P s" if s: "mset s = mset (children x @ rest)" for s
    proof (rule less)
      have "mset (map depth s) = mset (map depth rest) + mset (map depth (children x))"
        using arg_cong [OF s, of "image_mset depth"] by (simp add: add.commute)
      also have "\<dots> < mset (map depth rest) + {#depth x#}"
        by (rule add_strict_left_mono, rule ex_gt_imp_less_multiset) (use small in auto)
      finally show "mset (map depth s) < mset (map depth stack)" by (simp add: Cons)
    qed
    then show ?thesis unfolding Cons by (rule assms(3))
  qed (simp add: assms(2))
qed

end
