(* ===== verification/Discovery.thy ===== *)
theory Discovery
  imports Registry Tree_Walk
begin

text \<open>
  How the manager of \<open>crates/cadvisor-manager/src/manager.rs\<close> finds containers without the watcher:
  \<open>walk_tree\<close>, the initial sweep of \<open>start\<close> and the body of its global sweep, on the registry of
  \<open>Registry\<close>. The two sweeps are the undisturbed executions of that model: an addition or removal
  is its pieces in sequence. The walk is a partial function, \<open>None\<close> for one that does not end.
\<close>

section \<open>The walk\<close>

definition children_of :: "os \<Rightarrow> string \<Rightarrow> string \<Rightarrow> string list" where
  "children_of os mnt cg = (case list_children os mnt cg [] of Inr children \<Rightarrow> children | Inl _ \<Rightarrow> [])"

text \<open>The top of the stack is its head, so the children are pushed in reverse.\<close>

partial_function (option) walk_tree_loop ::
  "os \<Rightarrow> string \<Rightarrow> string list \<Rightarrow> string list \<Rightarrow> string list option" where
  "walk_tree_loop os mnt stack out =
     (case stack of
        [] \<Rightarrow> Some out
      | cg # rest \<Rightarrow>
          walk_tree_loop os mnt (rev (children_of os mnt cg) @ rest) (out @ children_of os mnt cg))"

definition walk_tree :: "os \<Rightarrow> string \<Rightarrow> string list option" where
  "walk_tree os mnt = walk_tree_loop os mnt [''/''] [''/'']"

section \<open>The sweeps\<close>

definition add_container ::
  "manager_config \<Rightarrow> host \<Rightarrow> runtimes \<Rightarrow> agent \<Rightarrow> int \<Rightarrow> bool \<Rightarrow> string \<Rightarrow> reg \<Rightarrow> reg" where
  "add_container cfg ho rts a instant record_creation name s =
     (agent_step cfg a instant 0 ^^ 4) (add_begin cfg ho rts a name record_creation s)"

definition remove_container :: "manager_config \<Rightarrow> agent \<Rightarrow> gotime \<Rightarrow> string \<Rightarrow> reg \<Rightarrow> reg" where
  "remove_container cfg a now name s = (agent_step cfg a 0 now ^^ 2) (remove_unlink a name s)"

text \<open>The first loop of \<open>start\<close>.\<close>

definition initial_sweep :: "manager_config \<Rightarrow> host \<Rightarrow> runtimes \<Rightarrow> int \<Rightarrow> reg \<Rightarrow> reg option" where
  "initial_sweep cfg ho rts instant s =
     map_option (\<lambda>names. fold (add_container cfg ho rts Sweeper instant False) names s)
       (walk_tree (ho_os ho) (mc_cgroup_root cfg))"

text \<open>One turn of the global sweep.\<close>

definition sweep :: "manager_config \<Rightarrow> host \<Rightarrow> runtimes \<Rightarrow> int \<Rightarrow> gotime \<Rightarrow> reg \<Rightarrow> reg option" where
  "sweep cfg ho rts instant now s =
     map_option (\<lambda>current.
       (let known = map fst (rg_map s);
            s = fold (\<lambda>name s. if name \<notin> set known
                        then add_container cfg ho rts Sweeper instant True name s else s) current s
        in fold (\<lambda>name s.
              if name \<noteq> ''/'' \<and> name \<notin> set current \<and> \<not> cg_exists (ho_os ho) (mc_cgroup_root cfg) name
              then remove_container cfg Sweeper now name s else s) known s))
       (walk_tree (ho_os ho) (mc_cgroup_root cfg))"

section \<open>Lemmas\<close>

text \<open>The cgroups at or below one, by the directories that can be listed.\<close>

abbreviation below :: "os \<Rightarrow> string \<Rightarrow> string \<Rightarrow> string \<Rightarrow> bool" where
  "below os mnt \<equiv> descends (children_of os mnt)"

lemma walk_tree_loop_returns:
  fixes depth :: "string \<Rightarrow> nat"
  assumes "\<And>cg c. c \<in> set (children_of os mnt cg) \<Longrightarrow> depth c < depth cg"
  shows "\<exists>out'. walk_tree_loop os mnt stack out = Some out' \<and> set out \<subseteq> set out' \<and>
     set stack \<union> set out' = set out \<union> below_stack (children_of os mnt) stack"
proof (induction stack arbitrary: out rule: stack_induct [where children = "children_of os mnt" and depth = depth, OF assms])
  case (3 cg rest)
  let ?cs = "children_of os mnt cg"
  have "mset (rev ?cs @ rest) = mset (?cs @ rest)" by simp
  from 3 [OF this, of "out @ ?cs"] obtain out' where
    o: "walk_tree_loop os mnt (rev ?cs @ rest) (out @ ?cs) = Some out'"
    and s: "set (out @ ?cs) \<subseteq> set out'"
    and e: "set (rev ?cs @ rest) \<union> set out' = set (out @ ?cs) \<union> below_stack (children_of os mnt) (rev ?cs @ rest)"
    by blast
  have b: "below_stack (children_of os mnt) (rev ?cs @ rest) = below_stack (children_of os mnt) (?cs @ rest)"
    by (rule below_stack_set) simp
  have "walk_tree_loop os mnt (cg # rest) out = Some out'" using o by (subst walk_tree_loop.simps) simp
  moreover have "set (cg # rest) \<union> set out' = set out \<union> below_stack (children_of os mnt) (cg # rest)"
    using e s below_stack_sub [of "?cs @ rest" "children_of os mnt"] unfolding b below_stack_simps by auto
  ultimately show ?case using s by auto
next
  case 2
  show ?case by (subst walk_tree_loop.simps) (simp add: below_stack_simps)
qed

section \<open>What one addition or removal does\<close>

definition accepted :: "manager_config \<Rightarrow> host \<Rightarrow> machine_info \<Rightarrow> string \<Rightarrow> bool" where
  "accepted cfg ho mi name \<longleftrightarrow> \<not> ends_with name ''.mount'' \<and> is_ok (build_spec cfg ho mi name)"

lemma agent_step_idle: "rg_phase s a = Idle \<Longrightarrow> (agent_step cfg a t now ^^ n) s = s"
  by (induction n) (simp_all add: agent_step_def)

lemma add_container_effect:
  assumes "rg_phase s a = Idle"
  shows "let s' = add_container cfg ho rts a t rec name s;
             new = (accepted cfg ho (ms_info (rg_machine s)) name \<and> \<not> registered s name)
    in rg_phase s' = rg_phase s \<and> rg_machine s' = rg_machine s \<and>
       map_of (rg_map s') = (if new then (map_of (rg_map s))(name \<mapsto> rg_next s) else map_of (rg_map s)) \<and>
       (\<not> rec \<longrightarrow> rg_log s' = rg_log s)"
proof (cases "accepted cfg ho (ms_info (rg_machine s)) name \<and> \<not> registered s name")
  case False
  then have "add_begin cfg ho rts a name rec s = s"
    by (auto simp: add_begin_def accepted_def is_ok_def split: sum.split)
  then show ?thesis using assms False by (auto simp: add_container_def agent_step_idle Let_def)
next
  case True
  then obtain spec where spec: "build_spec cfg ho (ms_info (rg_machine s)) name = Inr spec"
    by (auto simp: accepted_def is_ok_def split: sum.splits)
  define h where "h = make_handle cfg name spec (fst (runtime_meta rts (basename_of name)))"
  have n: "h_name h = name" by (simp add: h_def)
  let ?i = "rg_next s"
  define s1 where "s1 = set_phase a (Built h rec) s"
  define s2 where "s2 = add_insert a h rec s1"
  define s3 where "s3 = add_record a ?i rec s2"
  define s4 where "s4 = add_spawn cfg t a ?i s3"
  define s5 where "s5 = add_store a ?i s4"
  have b: "add_begin cfg ho rts a name rec s = s1"
    using True spec by (simp add: add_begin_def accepted_def s1_def h_def)
  have f1: "rg_phase s1 = (rg_phase s)(a := Built h rec)" "rg_map s1 = rg_map s" "rg_log s1 = rg_log s"
    "rg_machine s1 = rg_machine s" "rg_next s1 = rg_next s"
    by (simp_all add: s1_def) (simp add: set_phase_def)
  have f2: "rg_phase s2 = (rg_phase s)(a := Inserted ?i rec)" "rg_map s2 = (name, ?i) # rg_map s"
    "rg_log s2 = rg_log s" "rg_machine s2 = rg_machine s"
    using True by (simp_all add: s2_def add_insert_def registered_def f1 n) (simp add: set_phase_def f1)
  have f3: "rg_phase s3 = (rg_phase s)(a := Recorded ?i)" "rg_map s3 = rg_map s2"
    "\<not> rec \<Longrightarrow> rg_log s3 = rg_log s" "rg_machine s3 = rg_machine s"
    by (simp_all add: s3_def add_record_def f2) (simp add: set_phase_def f2)
  have f5: "rg_phase s5 = (rg_phase s)(a := Idle)" "rg_map s5 = rg_map s2"
    "\<not> rec \<Longrightarrow> rg_log s5 = rg_log s" "rg_machine s5 = rg_machine s"
    by (simp_all add: s5_def s4_def add_store_def add_spawn_def f3) (simp add: set_phase_def f3)
  have "add_container cfg ho rts a t rec name s = s5"
    by (simp add: add_container_def numeral_eq_Suc b agent_step_def f1 f2 f3
        flip: s2_def s3_def s4_def s5_def)
      (simp add: s4_def add_spawn_def s5_def)
  then show ?thesis using True assms by (simp add: f5 f2 Let_def fun_upd_idem)
qed

lemma map_of_filter_key: "map_of (filter (\<lambda>e. fst e \<noteq> k) xs) = (map_of xs)(k := None)"
  by (induction xs) (auto simp: fun_eq_iff)

lemma remove_container_effect:
  assumes "rg_phase s a = Idle"
  shows "rg_phase (remove_container cfg a now name s) = rg_phase s \<and>
     map_of (rg_map (remove_container cfg a now name s)) = (map_of (rg_map s))(name := None)"
proof (cases "map_of (rg_map s) name")
  case None
  then show ?thesis using assms
    by (simp add: remove_container_def remove_unlink_def agent_step_idle fun_upd_idem)
next
  case (Some i)
  then show ?thesis using assms
    by (simp add: remove_container_def remove_unlink_def numeral_eq_Suc agent_step_def remove_abort_def
        remove_record_def map_of_filter_key fun_upd_idem)
qed

text \<open>The name has the same handle in both states.\<close>

definition same_handle :: "reg \<Rightarrow> reg \<Rightarrow> string \<Rightarrow> bool" where
  "same_handle s s' n \<longleftrightarrow> map_of (rg_map s) n = map_of (rg_map s') n"

lemma fold_add:
  assumes "rg_phase s a = Idle"
  shows "let s' = fold (\<lambda>n s. if n \<notin> K then add_container cfg ho rts a t rec n s else s) names s in
    rg_phase s' = rg_phase s \<and> rg_machine s' = rg_machine s \<and> (\<not> rec \<longrightarrow> rg_log s' = rg_log s) \<and>
    (\<forall>n. registered s' n \<longleftrightarrow>
       registered s n \<or> (n \<in> set names \<and> n \<notin> K \<and> accepted cfg ho (ms_info (rg_machine s)) n)) \<and>
    (\<forall>n. registered s n \<longrightarrow> same_handle s s' n)"
  using assms
proof (induction names arbitrary: s)
  case (Cons name names)
  show ?case
  proof (cases "name \<in> K")
    case False
    define s1 where "s1 = add_container cfg ho rts a t rec name s"
    note e = add_container_effect [OF Cons.prems, of cfg ho rts t rec name, folded s1_def, unfolded Let_def]
    have "rg_phase s1 a = Idle" using e Cons.prems by simp
    note IH = Cons.IH [OF this, unfolded Let_def]
    have fold: "fold (\<lambda>n s. if n \<notin> K then add_container cfg ho rts a t rec n s else s) (name # names) s =
        fold (\<lambda>n s. if n \<notin> K then add_container cfg ho rts a t rec n s else s) names s1"
      using False by (simp add: s1_def)
    have "registered s1 n \<longleftrightarrow> registered s n \<or> (n = name \<and> accepted cfg ho (ms_info (rg_machine s)) n)" for n
      using e by (auto simp: registered_def)
    moreover have "registered s n \<Longrightarrow> map_of (rg_map s1) n = map_of (rg_map s) n" for n
      using e by (auto simp: registered_def)
    ultimately show ?thesis using IH e False unfolding fold Let_def same_handle_def
      by (auto simp: registered_def)
  next
    case True
    then have "fold (\<lambda>n s. if n \<notin> K then add_container cfg ho rts a t rec n s else s) (name # names) s =
        fold (\<lambda>n s. if n \<notin> K then add_container cfg ho rts a t rec n s else s) names s"
      by simp
    moreover have "n \<in> set (name # names) \<and> n \<notin> K \<longleftrightarrow> n \<in> set names \<and> n \<notin> K" for n using True by auto
    ultimately show ?thesis using Cons.IH [OF Cons.prems] by (simp only: conj_assoc [symmetric])
  qed
qed (simp add: Let_def same_handle_def)

lemma fold_remove:
  assumes "rg_phase s a = Idle"
  shows "let s' = fold (\<lambda>n s. if P n then remove_container cfg a now n s else s) names s in
    rg_phase s' = rg_phase s \<and>
    map_of (rg_map s') = (\<lambda>n. if n \<in> set names \<and> P n then None else map_of (rg_map s) n)"
  using assms
proof (induction names arbitrary: s)
  case (Cons name names)
  show ?case
  proof (cases "P name")
    case True
    define s1 where "s1 = remove_container cfg a now name s"
    note e = remove_container_effect [OF Cons.prems, of cfg now name, folded s1_def]
    have "rg_phase s1 a = Idle" using e Cons.prems by simp
    note IH = Cons.IH [OF this, unfolded Let_def]
    have fold: "fold (\<lambda>n s. if P n then remove_container cfg a now n s else s) (name # names) s =
        fold (\<lambda>n s. if P n then remove_container cfg a now n s else s) names s1"
      using True by (simp add: s1_def)
    show ?thesis unfolding fold Let_def using IH e True by (auto simp: fun_eq_iff)
  next
    case False
    then show ?thesis using Cons.IH [OF Cons.prems] by (auto simp: Let_def fun_eq_iff)
  qed
qed (simp add: Let_def fun_eq_iff)

lemma walk_tree_complete:
  fixes depth :: "string \<Rightarrow> nat"
  assumes "\<And>cg c. c \<in> set (children_of os mnt cg) \<Longrightarrow> depth c < depth cg"
  shows "\<exists>names. walk_tree os mnt = Some names \<and> set names = {n. below os mnt ''/'' n}"
proof -
  from walk_tree_loop_returns [where depth = depth and os = os and mnt = mnt and stack = "[''/'']" and out = "[''/'']", OF assms] obtain names where
    n: "walk_tree_loop os mnt [''/''] [''/''] = Some names" "{''/''} \<subseteq> set names"
    "{''/''} \<union> set names = {''/''} \<union> below_stack (children_of os mnt) [''/'']" by auto
  have "below_stack (children_of os mnt) [''/''] = {n. below os mnt ''/'' n}"
    by (simp add: below_stack_def)
  then have "{''/''} \<union> set names = {''/''} \<union> {n. below os mnt ''/'' n}" using n(3) by (simp only:)
  moreover have "{''/''} \<subseteq> {n. below os mnt ''/'' n}" by (simp add: descends.here)
  ultimately have "set names = {n. below os mnt ''/'' n}" using n(2) by (simp only: Un_absorb1)
  then show ?thesis using n(1) by (simp add: walk_tree_def)
qed

lemma initial_sweep_spec:
  fixes depth :: "string \<Rightarrow> nat"
  assumes "\<And>cg c. c \<in> set (children_of (ho_os ho) (mc_cgroup_root cfg) cg) \<Longrightarrow> depth c < depth cg"
  shows "\<exists>s. initial_sweep cfg ho rts instant (reg_start mi) = Some s \<and> rg_log s = empty_log \<and>
     Collect (registered s) =
       {n. below (ho_os ho) (mc_cgroup_root cfg) ''/'' n \<and> accepted cfg ho mi n}"
proof -
  obtain names where n: "walk_tree (ho_os ho) (mc_cgroup_root cfg) = Some names"
    "set names = {n. below (ho_os ho) (mc_cgroup_root cfg) ''/'' n}"
    using walk_tree_complete [where depth = depth and os = "ho_os ho" and mnt = "mc_cgroup_root cfg", OF assms] by blast
  define s where "s = fold (add_container cfg ho rts Sweeper instant False) names (reg_start mi)"
  have "rg_phase (reg_start mi) Sweeper = Idle" by (simp add: reg_start_def)
  from fold_add [OF this, of "{}" cfg ho rts instant False names]
  have "rg_log s = rg_log (reg_start mi)" and
    "registered s x \<longleftrightarrow> registered (reg_start mi) x \<or> (x \<in> set names \<and> accepted cfg ho mi x)" for x
    by (simp_all add: Let_def s_def) (simp_all add: reg_start_def)
  then have "rg_log s = empty_log" "Collect (registered s) = {x \<in> set names. accepted cfg ho mi x}"
    by (auto simp: reg_start_def registered_def)
  then show ?thesis using n by (auto simp: initial_sweep_def s_def)
qed

lemma sweep_effect:
  fixes depth :: "string \<Rightarrow> nat"
  assumes "\<And>cg c. c \<in> set (children_of (ho_os ho) (mc_cgroup_root cfg) cg) \<Longrightarrow> depth c < depth cg"
    and "rg_phase s Sweeper = Idle"
  shows "\<exists>s'. sweep cfg ho rts instant now s = Some s' \<and>
     Collect (registered s') =
       {n. registered s n \<and> (n = ''/'' \<or> below (ho_os ho) (mc_cgroup_root cfg) ''/'' n \<or>
             cg_exists (ho_os ho) (mc_cgroup_root cfg) n)} \<union>
       {n. below (ho_os ho) (mc_cgroup_root cfg) ''/'' n \<and> \<not> registered s n \<and>
             accepted cfg ho (ms_info (rg_machine s)) n} \<and>
     {n. registered s n \<and> registered s' n} \<subseteq> Collect (same_handle s s')"
proof -
  let ?os = "ho_os ho" and ?mnt = "mc_cgroup_root cfg" and ?K = "set (map fst (rg_map s))"
  obtain names where n: "walk_tree ?os ?mnt = Some names" "set names = {n. below ?os ?mnt ''/'' n}"
    using walk_tree_complete [where depth = depth and os = "ho_os ho" and mnt = "mc_cgroup_root cfg", OF assms(1)] by blast
  define s1 where "s1 = fold (\<lambda>n s. if n \<notin> ?K then add_container cfg ho rts Sweeper instant True n s else s) names s"
  define s2 where "s2 = fold (\<lambda>n s. if n \<noteq> ''/'' \<and> n \<notin> set names \<and> \<not> cg_exists ?os ?mnt n
      then remove_container cfg Sweeper now n s else s) (map fst (rg_map s)) s1"
  note a = fold_add [OF assms(2), of ?K cfg ho rts instant True names, folded s1_def, unfolded Let_def]
  have "rg_phase s1 Sweeper = Idle" using a assms(2) by simp
  note r = fold_remove [OF this, of "\<lambda>n. n \<noteq> ''/'' \<and> n \<notin> set names \<and> \<not> cg_exists ?os ?mnt n" cfg now
      "map fst (rg_map s)", folded s2_def, unfolded Let_def]
  have K: "n \<in> ?K \<longleftrightarrow> registered s n" for n by (simp add: registered_iff)
  have r': "map_of (rg_map s2) n = (if registered s n \<and> n \<noteq> ''/'' \<and> n \<notin> set names \<and> \<not> cg_exists ?os ?mnt n
      then None else map_of (rg_map s1) n)" for n
    using r by (simp add: registered_iff)
  have a': "registered s1 n \<longleftrightarrow> registered s n \<or>
      (n \<in> set names \<and> \<not> registered s n \<and> accepted cfg ho (ms_info (rg_machine s)) n)" for n
    using a K by blast
  have h: "registered s n \<Longrightarrow> map_of (rg_map s) n = map_of (rg_map s1) n" for n
    using a by (simp add: same_handle_def)
  have "sweep cfg ho rts instant now s = Some s2" by (simp add: sweep_def n s2_def s1_def Let_def)
  moreover have "registered s2 n \<longleftrightarrow>
      (registered s n \<and> (n = ''/'' \<or> n \<in> set names \<or> cg_exists ?os ?mnt n)) \<or>
      (n \<in> set names \<and> \<not> registered s n \<and> accepted cfg ho (ms_info (rg_machine s)) n)" for n
    using a' [of n] r' [of n] by (auto simp: registered_def [of s2] registered_def [of s1])
  moreover have "registered s n \<Longrightarrow> registered s2 n \<Longrightarrow> same_handle s s2 n" for n
    using h [of n] r' [of n] by (auto simp: same_handle_def registered_def [of s2] split: if_splits)
  ultimately show ?thesis using n(2) by (intro exI [of _ s2]) auto
qed

section \<open>Properties\<close>

text \<open>C24: on a cgroup tree of finite depth the initial sweep ends; it has registered the cgroups at or
  below the root that are not mount units and whose spec can be read, and recorded no event.\<close>

theorem initial_sweep_registers:
  fixes depth :: "string \<Rightarrow> nat"
  assumes "\<And>cg c. c \<in> set (children_of (ho_os ho) (mc_cgroup_root cfg) cg) \<Longrightarrow> depth c < depth cg"
  shows "\<exists>s. initial_sweep cfg ho rts instant (reg_start mi) = Some s \<and> rg_log s = empty_log \<and>
     Collect (registered s) =
       {n. below (ho_os ho) (mc_cgroup_root cfg) ''/'' n \<and> accepted cfg ho mi n}"
  by (rule initial_sweep_spec [where depth = depth]) (rule assms)

text \<open>C23: an undisturbed global sweep repairs the registry: afterwards a cgroup below the root that can
  be registered is, a container whose cgroup is neither found nor has a directory is not, the root
  stays, and every container that was registered and still is keeps its handle.\<close>

theorem sweep_repairs:
  fixes depth :: "string \<Rightarrow> nat"
  assumes "\<And>cg c. c \<in> set (children_of (ho_os ho) (mc_cgroup_root cfg) cg) \<Longrightarrow> depth c < depth cg"
    and "rg_phase s Sweeper = Idle"
  shows "\<exists>s'. sweep cfg ho rts instant now s = Some s' \<and>
     Collect (registered s') =
       {n. registered s n \<and> (n = ''/'' \<or> below (ho_os ho) (mc_cgroup_root cfg) ''/'' n \<or>
             cg_exists (ho_os ho) (mc_cgroup_root cfg) n)} \<union>
       {n. below (ho_os ho) (mc_cgroup_root cfg) ''/'' n \<and> \<not> registered s n \<and>
             accepted cfg ho (ms_info (rg_machine s)) n} \<and>
     {n. registered s n \<and> registered s' n} \<subseteq> Collect (same_handle s s')"
  by (rule sweep_effect [where depth = depth]) (use assms in blast)+

text \<open>A tree with the cgroup \<open>/a\<close> below the root.\<close>

definition two_cgroups :: host where
  "two_cgroups = one_cgroup\<lparr>ho_os := (ho_os one_cgroup)\<lparr>os_read_dir := (\<lambda>p.
     if p = ''/sys/fs/cgroup/'' then Inr [Inr (''a'', True), Inr (''cgroup.procs'', False)]
     else Inl NotFound)\<rparr>\<rparr>"

lemma two_cgroups_children:
  "children_of (ho_os two_cgroups) ''/sys/fs/cgroup'' cg =
     (if trim_start_char CHR ''/'' cg = [] then [(if cg = ''/'' then [] else cg) @ ''/a''] else [])"
proof -
  have "\<not> starts_with (trim_start_char CHR ''/'' cg) ''/''"
    by (induction cg) (auto simp: trim_start_char_def starts_with_def)
  then show ?thesis
    by (auto simp: children_of_def list_children_def two_cgroups_def cg_dir_def path_join_def res_bind_def
        res_map_err_def Let_def)
qed

definition two_depth :: "string \<Rightarrow> nat" where
  "two_depth cg = (if trim_start_char CHR ''/'' cg = [] then 1 else 0)"

lemma two_cgroups_depth:
  "c \<in> set (children_of (ho_os two_cgroups) (mc_cgroup_root demo_config) cg) \<Longrightarrow> two_depth c < two_depth cg"
proof -
  assume c: "c \<in> set (children_of (ho_os two_cgroups) (mc_cgroup_root demo_config) cg)"
  have "mc_cgroup_root demo_config = ''/sys/fs/cgroup''"
    by (simp add: demo_config_def default_manager_config_def)
  then have "trim_start_char CHR ''/'' cg = []" "CHR ''a'' \<in> set c"
    using c by (auto simp: two_cgroups_children split: if_splits)
  moreover from this(2) have "trim_start_char CHR ''/'' c \<noteq> []"
    by (auto simp: trim_start_char_def dropWhile_eq_Nil_conv)
  ultimately show ?thesis by (simp add: two_depth_def)
qed

lemma one_host_spec:
  "is_ok (build_spec demo_config two_cgroups default_machine_info n)"
  by (simp add: build_spec_def read_spec_def read_opt_def cg_read_def read_u64_or_max_def two_cgroups_def
      one_cgroup_def os_of_files_def host_io_def is_ok_def Let_def)

theorem initial_sweep_registers_witness:
  "\<exists>s. initial_sweep demo_config two_cgroups no_runtimes 0 (reg_start default_machine_info) = Some s \<and>
     registered s ''/'' \<and> registered s ''/a''"
proof -
  let ?below = "below (ho_os two_cgroups) (mc_cgroup_root demo_config)"
  obtain s where "initial_sweep demo_config two_cgroups no_runtimes 0 (reg_start default_machine_info) = Some s"
    and s: "Collect (registered s) = {n. ?below ''/'' n \<and> accepted demo_config two_cgroups default_machine_info n}"
    using initial_sweep_registers [where ho = two_cgroups and cfg = demo_config and depth = two_depth and rts = no_runtimes and instant = 0 and mi = default_machine_info, OF two_cgroups_depth]
    by blast
  moreover have "?below ''/'' ''/''" by (rule descends.here)
  moreover from this have "?below ''/'' ''/a''"
    by (rule descends.child)
      (simp add: demo_config_def default_manager_config_def two_cgroups_children trim_start_char_def)
  moreover have "accepted demo_config two_cgroups default_machine_info n" if "n = ''/'' \<or> n = ''/a''" for n
    using that one_host_spec [of n] by (auto simp: accepted_def ends_with_def starts_with_def)
  ultimately show ?thesis by blast
qed

theorem sweep_repairs_witness:
  "\<exists>s'. sweep demo_config two_cgroups no_runtimes 0 9 (reg_start default_machine_info) = Some s' \<and>
     registered s' ''/''"
proof -
  have "below (ho_os two_cgroups) (mc_cgroup_root demo_config) ''/'' ''/''" by (rule descends.here)
  moreover have "accepted demo_config two_cgroups default_machine_info ''/''"
    using one_host_spec [of "''/''"] by (simp add: accepted_def ends_with_def starts_with_def)
  moreover have "\<not> registered (reg_start default_machine_info) n" "rg_phase (reg_start default_machine_info) Sweeper = Idle"
    "ms_info (rg_machine (reg_start default_machine_info)) = default_machine_info" for n
    by (simp_all add: reg_start_def registered_def)
  ultimately show ?thesis
    using sweep_repairs [where ho = two_cgroups and cfg = demo_config and depth = two_depth and s = "reg_start default_machine_info" and rts = no_runtimes and instant = 0 and now = 9,
        OF two_cgroups_depth] by fastforce
qed

end
