(* ===== verification/Model_V2.thy ===== *)
theory Model_V2
  imports Model_V1
begin

text \<open>
  The data model of \<open>crates/cadvisor-model/src/v2/mod.rs\<close>, in the manner of \<open>Model_V1\<close>. Records whose
  name the v1 model has too begin with \<open>v2\<close>. The two \<open>f32\<close> fields of \<open>ProcessInfo\<close> are only ever
  zero and are kept as \<open>f64\<close>. The \<open>RequestOptions\<close> of this file is not used by any crate.
\<close>

record v2_container_spec =
  v2spec_creation_time :: "gotime"
  v2spec_aliases :: "string list"
  v2spec_namespace :: "string"
  v2spec_labels :: "(string \<times> string) list"
  v2spec_envs :: "(string \<times> string) list"
  v2spec_has_cpu :: "bool"
  v2spec_cpu :: "cpu_spec"
  v2spec_has_memory :: "bool"
  v2spec_memory :: "memory_spec"
  v2spec_has_hugetlb :: "bool"
  v2spec_has_custom_metrics :: "bool"
  v2spec_custom_metrics :: "metric_spec list"
  v2spec_has_processes :: "bool"
  v2spec_processes :: "process_spec"
  v2spec_has_network :: "bool"
  v2spec_has_filesystem :: "bool"
  v2spec_has_disk_io :: "bool"
  v2spec_image :: "string"

definition default_v2_container_spec :: v2_container_spec where
  "default_v2_container_spec = \<lparr>v2spec_creation_time = 0, v2spec_aliases = [], v2spec_namespace = [],
     v2spec_labels = [], v2spec_envs = [], v2spec_has_cpu = False,
     v2spec_cpu = default_cpu_spec, v2spec_has_memory = False,
     v2spec_memory = default_memory_spec, v2spec_has_hugetlb = False,
     v2spec_has_custom_metrics = False, v2spec_custom_metrics = [],
     v2spec_has_processes = False, v2spec_processes = default_process_spec,
     v2spec_has_network = False, v2spec_has_filesystem = False, v2spec_has_disk_io = False,
     v2spec_image = []\<rparr>"

record v2_network_stats =
  v2net_interfaces :: "interface_stats list"
  v2net_tcp :: "tcp_stat"
  v2net_tcp6 :: "tcp_stat"
  v2net_udp :: "udp_stat"
  v2net_udp6 :: "udp_stat"
  v2net_tcp_advanced :: "tcp_advanced_stat"

definition default_v2_network_stats :: v2_network_stats where
  "default_v2_network_stats = \<lparr>v2net_interfaces = [], v2net_tcp = default_tcp_stat, v2net_tcp6 = default_tcp_stat,
     v2net_udp = default_udp_stat, v2net_udp6 = default_udp_stat,
     v2net_tcp_advanced = default_tcp_advanced_stat\<rparr>"

record deprecated_container_stats =
  dep_timestamp :: "gotime"
  dep_has_cpu :: "bool"
  dep_cpu :: "cpu_stats"
  dep_cpu_inst :: "cpu_inst_stats option"
  dep_has_disk_io :: "bool"
  dep_disk_io :: "disk_io_stats"
  dep_has_memory :: "bool"
  dep_memory :: "memory_stats"
  dep_has_hugetlb :: "bool"
  dep_hugetlb :: "(string \<times> hugetlb_stats) list"
  dep_has_network :: "bool"
  dep_network :: "v2_network_stats"
  dep_has_processes :: "bool"
  dep_processes :: "process_stats"
  dep_has_filesystem :: "bool"
  dep_filesystem :: "fs_stats list"
  dep_has_load :: "bool"
  dep_load :: "load_stats"
  dep_has_custom_metrics :: "bool"
  dep_custom_metrics :: "(string \<times> metric_val list) list"
  dep_perf_stats :: "perf_stat list"
  dep_perf_uncore_stats :: "perf_uncore_stat list"
  dep_referenced_memory :: "u64"
  dep_resctrl :: "resctrl_stats"

definition default_deprecated_container_stats :: deprecated_container_stats where
  "default_deprecated_container_stats = \<lparr>dep_timestamp = 0, dep_has_cpu = False, dep_cpu = default_cpu_stats,
     dep_cpu_inst = None, dep_has_disk_io = False, dep_disk_io = default_disk_io_stats,
     dep_has_memory = False, dep_memory = default_memory_stats, dep_has_hugetlb = False,
     dep_hugetlb = [], dep_has_network = False, dep_network = default_v2_network_stats,
     dep_has_processes = False, dep_processes = default_process_stats,
     dep_has_filesystem = False, dep_filesystem = [], dep_has_load = False,
     dep_load = default_load_stats, dep_has_custom_metrics = False, dep_custom_metrics = [],
     dep_perf_stats = [], dep_perf_uncore_stats = [], dep_referenced_memory = 0,
     dep_resctrl = default_resctrl_stats\<rparr>"

record filesystem_stats =
  fsroll_total_usage_bytes :: "u64 option"
  fsroll_base_usage_bytes :: "u64 option"
  fsroll_inode_usage :: "u64 option"

definition default_filesystem_stats :: filesystem_stats where
  "default_filesystem_stats = \<lparr>fsroll_total_usage_bytes = None, fsroll_base_usage_bytes = None,
     fsroll_inode_usage = None\<rparr>"

record v2_container_stats =
  v2stats_timestamp :: "gotime"
  v2stats_cpu :: "cpu_stats option"
  v2stats_cpu_inst :: "cpu_inst_stats option"
  v2stats_disk_io :: "disk_io_stats option"
  v2stats_memory :: "memory_stats option"
  v2stats_hugetlb :: "(string \<times> hugetlb_stats) list option"
  v2stats_network :: "v2_network_stats option"
  v2stats_processes :: "process_stats option"
  v2stats_filesystem :: "filesystem_stats option"
  v2stats_load :: "load_stats option"
  v2stats_accelerators :: "accelerator_stats list"
  v2stats_custom_metrics :: "(string \<times> metric_val list) list"
  v2stats_perf_stats :: "perf_stat list"
  v2stats_perf_uncore_stats :: "perf_uncore_stat list"
  v2stats_referenced_memory :: "u64"
  v2stats_resctrl :: "resctrl_stats"

definition default_v2_container_stats :: v2_container_stats where
  "default_v2_container_stats = \<lparr>v2stats_timestamp = 0, v2stats_cpu = None, v2stats_cpu_inst = None,
     v2stats_disk_io = None, v2stats_memory = None, v2stats_hugetlb = None,
     v2stats_network = None, v2stats_processes = None, v2stats_filesystem = None,
     v2stats_load = None, v2stats_accelerators = [], v2stats_custom_metrics = [],
     v2stats_perf_stats = [], v2stats_perf_uncore_stats = [], v2stats_referenced_memory = 0,
     v2stats_resctrl = default_resctrl_stats\<rparr>"

record v2_container_info =
  v2info_spec :: "v2_container_spec"
  v2info_stats :: "v2_container_stats list"

definition default_v2_container_info :: v2_container_info where
  "default_v2_container_info = \<lparr>v2info_spec = default_v2_container_spec, v2info_stats = []\<rparr>"

record attributes =
  attr_kernel_version :: "string"
  attr_container_os_version :: "string"
  attr_docker_version :: "string"
  attr_docker_api_version :: "string"
  attr_cadvisor_version :: "string"
  attr_num_cores :: "i64"
  attr_cpu_frequency :: "u64"
  attr_memory_capacity :: "u64"
  attr_machine_id :: "string"
  attr_system_uuid :: "string"
  attr_huge_pages :: "huge_pages_info list"
  attr_filesystems :: "filesystem_info list"
  attr_disk_map :: "(string \<times> disk_info) list"
  attr_network_devices :: "net_info list"
  attr_topology :: "numa_node list"
  attr_cloud_provider :: "string"
  attr_instance_type :: "string"

definition default_attributes :: attributes where
  "default_attributes = \<lparr>attr_kernel_version = [], attr_container_os_version = [], attr_docker_version = [],
     attr_docker_api_version = [], attr_cadvisor_version = [], attr_num_cores = 0,
     attr_cpu_frequency = 0, attr_memory_capacity = 0, attr_machine_id = [],
     attr_system_uuid = [], attr_huge_pages = [], attr_filesystems = [], attr_disk_map = [],
     attr_network_devices = [], attr_topology = [], attr_cloud_provider = [],
     attr_instance_type = []\<rparr>"

record disk_stats_row =
  dstats_reads_completed :: "u64 option"
  dstats_reads_merged :: "u64 option"
  dstats_sectors_read :: "u64 option"
  dstats_read_duration :: "i64 option"
  dstats_writes_completed :: "u64 option"
  dstats_writes_merged :: "u64 option"
  dstats_sectors_written :: "u64 option"
  dstats_write_duration :: "i64 option"
  dstats_io_in_progress :: "u64 option"
  dstats_io_duration :: "i64 option"
  dstats_weighted_io_duration :: "i64 option"

definition default_disk_stats_row :: disk_stats_row where
  "default_disk_stats_row = \<lparr>dstats_reads_completed = None, dstats_reads_merged = None,
     dstats_sectors_read = None, dstats_read_duration = None, dstats_writes_completed = None,
     dstats_writes_merged = None, dstats_sectors_written = None, dstats_write_duration = None,
     dstats_io_in_progress = None, dstats_io_duration = None,
     dstats_weighted_io_duration = None\<rparr>"

record machine_fs_stats_row =
  mfs_device :: "string"
  mfs_fs_type :: "string"
  mfs_capacity :: "u64 option"
  mfs_usage :: "u64 option"
  mfs_available :: "u64 option"
  mfs_inodes_free :: "u64 option"
  mfs_disk_stats :: "disk_stats_row"

definition default_machine_fs_stats_row :: machine_fs_stats_row where
  "default_machine_fs_stats_row = \<lparr>mfs_device = [], mfs_fs_type = [], mfs_capacity = None, mfs_usage = None,
     mfs_available = None, mfs_inodes_free = None,
     mfs_disk_stats = default_disk_stats_row\<rparr>"

record machine_stats =
  mstats_timestamp :: "gotime"
  mstats_cpu :: "cpu_stats option"
  mstats_cpu_inst :: "cpu_inst_stats option"
  mstats_memory :: "memory_stats option"
  mstats_network :: "v2_network_stats option"
  mstats_filesystem :: "machine_fs_stats_row list"
  mstats_load :: "load_stats option"

definition default_machine_stats :: machine_stats where
  "default_machine_stats = \<lparr>mstats_timestamp = 0, mstats_cpu = None, mstats_cpu_inst = None,
     mstats_memory = None, mstats_network = None, mstats_filesystem = [],
     mstats_load = None\<rparr>"

record process_info =
  pinfo_user :: "string"
  pinfo_pid :: "i64"
  pinfo_ppid :: "i64"
  pinfo_start_time :: "string"
  pinfo_percent_cpu :: "f64"
  pinfo_percent_memory :: "f64"
  pinfo_rss :: "u64"
  pinfo_virtual_size :: "u64"
  pinfo_status :: "string"
  pinfo_running_time :: "string"
  pinfo_cgroup_path :: "string"
  pinfo_cmd :: "string"
  pinfo_fd_count :: "i64"
  pinfo_psr :: "i64"

definition default_process_info :: process_info where
  "default_process_info = \<lparr>pinfo_user = [], pinfo_pid = 0, pinfo_ppid = 0, pinfo_start_time = [],
     pinfo_percent_cpu = Fin 0, pinfo_percent_memory = Fin 0, pinfo_rss = 0,
     pinfo_virtual_size = 0, pinfo_status = [], pinfo_running_time = [], pinfo_cgroup_path = [],
     pinfo_cmd = [], pinfo_fd_count = 0, pinfo_psr = 0\<rparr>"

record percentiles =
  pct_present :: "bool"
  pct_mean :: "u64"
  pct_max :: "u64"
  pct_fifty :: "u64"
  pct_ninety :: "u64"
  pct_ninety_five :: "u64"

definition default_percentiles :: percentiles where
  "default_percentiles = \<lparr>pct_present = False, pct_mean = 0, pct_max = 0, pct_fifty = 0, pct_ninety = 0,
     pct_ninety_five = 0\<rparr>"

record usage_summary =
  use_percent_complete :: "int"
  use_cpu :: "percentiles"
  use_memory :: "percentiles"

definition default_usage_summary :: usage_summary where
  "default_usage_summary = \<lparr>use_percent_complete = 0, use_cpu = default_percentiles,
     use_memory = default_percentiles\<rparr>"

record instant_usage =
  instuse_cpu :: "u64"
  instuse_memory :: "u64"

definition default_instant_usage :: instant_usage where
  "default_instant_usage = \<lparr>instuse_cpu = 0, instuse_memory = 0\<rparr>"

record derived_stats_row =
  derived_timestamp :: "gotime"
  derived_latest_usage :: "instant_usage"
  derived_minute_usage :: "usage_summary"
  derived_hour_usage :: "usage_summary"
  derived_day_usage :: "usage_summary"

definition default_derived_stats_row :: derived_stats_row where
  "default_derived_stats_row = \<lparr>derived_timestamp = 0, derived_latest_usage = default_instant_usage,
     derived_minute_usage = default_usage_summary, derived_hour_usage = default_usage_summary,
     derived_day_usage = default_usage_summary\<rparr>"

record v2_fs_info =
  v2fs_timestamp :: "gotime"
  v2fs_device :: "string"
  v2fs_mountpoint :: "string"
  v2fs_capacity :: "u64"
  v2fs_available :: "u64"
  v2fs_usage :: "u64"
  v2fs_labels :: "string list option"
  v2fs_inodes :: "u64 option"
  v2fs_inodes_free :: "u64 option"

definition default_v2_fs_info :: v2_fs_info where
  "default_v2_fs_info = \<lparr>v2fs_timestamp = 0, v2fs_device = [], v2fs_mountpoint = [], v2fs_capacity = 0,
     v2fs_available = 0, v2fs_usage = 0, v2fs_labels = None, v2fs_inodes = None,
     v2fs_inodes_free = None\<rparr>"

definition attributes_new :: "machine_info \<Rightarrow> version_info \<Rightarrow> attributes" where
  "attributes_new mi vi =
     \<lparr>attr_kernel_version = vi_kernel_version vi, attr_container_os_version = vi_container_os_version vi,
      attr_docker_version = vi_docker_version vi, attr_docker_api_version = vi_docker_api_version vi,
      attr_cadvisor_version = vi_cadvisor_version vi, attr_num_cores = mi_num_cores mi,
      attr_cpu_frequency = mi_cpu_frequency mi, attr_memory_capacity = mi_memory_capacity mi,
      attr_machine_id = mi_machine_id mi, attr_system_uuid = mi_system_uuid mi,
      attr_huge_pages = mi_huge_pages mi, attr_filesystems = mi_filesystems mi,
      attr_disk_map = mi_disk_map mi, attr_network_devices = mi_network_devices mi,
      attr_topology = mi_topology mi, attr_cloud_provider = mi_cloud_provider mi,
      attr_instance_type = mi_instance_type mi\<rparr>"

text \<open>The query options of the data model; the API has its own in \<open>Api_V2\<close>. A duration is in nanoseconds.\<close>

record v2_request_options =
  v2opt_id_type :: "string"
  v2opt_count :: "i64"
  v2opt_recursive :: "bool"
  v2opt_max_age :: "nat option"

definition default_v2_request_options :: v2_request_options where
  "default_v2_request_options =
     \<lparr>v2opt_id_type = ''name'', v2opt_count = 64, v2opt_recursive = False, v2opt_max_age = None\<rparr>"

end
