(* ===== verification/Manager_Query.thy ===== *)
theory Manager_Query
  imports Discovery Model_V2
begin

text \<open>
  What the manager of \<open>crates/cadvisor-manager/src/manager.rs\<close> answers: \<open>handles\<close>, \<open>handle\<close>,
  \<open>container_info\<close>, \<open>subcontainers_info\<close>, \<open>direct_children\<close>, \<open>assemble_info\<close>, \<open>docker_containers\<close>,
  \<open>container_pids\<close>, \<open>storage_info\<close> and \<open>machine_fs_stats\<close>, on the state of \<open>Registry\<close>. The iteration
  order of the \<open>HashMap\<close> is the order of \<open>rg_map\<close>, which is arbitrary; the lemmas show that the
  answers do not depend on it.
\<close>

section \<open>Queries\<close>

definition handles :: "reg \<Rightarrow> handle list" where
  "handles s = map (\<lambda>(_, i). rg_handles s i) (rg_map s)"

definition handle_of :: "reg \<Rightarrow> string \<Rightarrow> handle option" where
  "handle_of s name = map_option (rg_handles s) (map_of (rg_map s) name)"

definition below_prefix :: "string \<Rightarrow> string" where
  "below_prefix name = (if name = ''/'' then ''/'' else name @ ''/'')"

definition direct_children :: "reg \<Rightarrow> string \<Rightarrow> container_reference list" where
  "direct_children s name =
     (let prefix = below_prefix name in
      sort_key ref_name
        (map (\<lambda>k. default_container_reference\<lparr>ref_name := k\<rparr>)
          (filter (\<lambda>k. starts_with k prefix \<and> length prefix < length k \<and>
                       CHR ''/'' \<notin> set (drop (length prefix) k))
            (map fst (rg_map s)))))"

definition assemble_info :: "reg \<Rightarrow> handle \<Rightarrow> container_info_request \<Rightarrow> bool \<Rightarrow> container_info" where
  "assemble_info s h req with_subcontainers =
     \<lparr>info_reference = h_reference h,
      info_subcontainers = (if with_subcontainers then direct_children s (h_name h) else []),
      info_spec = h_spec h,
      info_stats = ts_in_range (req_start req) (req_end req) (req_num_stats req) (h_store h)\<rparr>"

definition container_info_of ::
  "reg \<Rightarrow> string \<Rightarrow> container_info_request \<Rightarrow> (manager_error, container_info) res" where
  "container_info_of s name req =
     (case handle_of s name of
        None \<Rightarrow> Inl (UnknownContainer name)
      | Some h \<Rightarrow> Inr (assemble_info s h req True))"

text \<open>The handles at or below a name, in name order.\<close>

definition subtree_handles :: "reg \<Rightarrow> string \<Rightarrow> handle list" where
  "subtree_handles s name =
     sort_key h_name
       (filter (\<lambda>h. h_name h = name \<or> starts_with (h_name h) (below_prefix name)) (handles s))"

definition subcontainers_info ::
  "reg \<Rightarrow> string \<Rightarrow> container_info_request \<Rightarrow> (manager_error, container_info list) res" where
  "subcontainers_info s name req =
     (if handle_of s name = None then Inl (UnknownContainer name)
      else Inr (map (\<lambda>h. assemble_info s h req True) (subtree_handles s name)))"

definition runtime_match :: "string \<Rightarrow> container_reference \<Rightarrow> bool" where
  "runtime_match id_or_name r \<longleftrightarrow>
     ref_namespace r \<noteq> [] \<and>
     (id_or_name = [] \<or> starts_with (ref_id r) id_or_name \<or> id_or_name \<in> set (ref_aliases r))"

text \<open>The resulting \<open>HashMap\<close> is the list of its entries in key order.\<close>

definition docker_containers ::
  "reg \<Rightarrow> string \<Rightarrow> container_info_request \<Rightarrow> (manager_error, (string \<times> container_info) list) res" where
  "docker_containers s id_or_name req =
     (let out = bt_of_list (map (\<lambda>h. (h_name h, assemble_info s h req False))
            (filter (\<lambda>h. runtime_match id_or_name (h_reference h)) (handles s)))
      in if out = [] \<and> id_or_name \<noteq> [] then Inl (UnknownContainer id_or_name) else Inr out)"

definition container_pids :: "manager_config \<Rightarrow> host \<Rightarrow> reg \<Rightarrow> string \<Rightarrow> u32 list option" where
  "container_pids cfg ho s name =
     (case handle_of s name of
        None \<Rightarrow> None
      | Some _ \<Rightarrow> res_ok (cg_procs (ho_os ho) (mc_cgroup_root cfg) name))"

section \<open>Filesystems\<close>

definition storage_row :: "gotime \<Rightarrow> partition \<Rightarrow> fs_usage \<Rightarrow> v2_fs_info" where
  "storage_row now p u =
     \<lparr>v2fs_timestamp = now, v2fs_device = pt_device p, v2fs_mountpoint = pt_mountpoint p,
      v2fs_capacity = fu_capacity u, v2fs_available = fu_available u,
      v2fs_usage = fu_capacity u - fu_free u,
      v2fs_labels = (if pt_mountpoint p = ''/'' then Some [''root''] else None),
      v2fs_inodes = Some (fu_inodes u), v2fs_inodes_free = Some (fu_inodes_free u)\<rparr>"

definition storage_info :: "host \<Rightarrow> gotime \<Rightarrow> v2_fs_info list" where
  "storage_info ho now =
     List.map_filter (\<lambda>p. map_option (storage_row now p) (res_ok (usage_of (ho_vfs ho) (pt_mountpoint p))))
       (ho_partitions ho)"

text \<open>\<open>(ms as i64) * 1_000_000\<close>: 64 bits, read as signed.\<close>

definition ms_to_ns :: "u64 \<Rightarrow> i64" where
  "ms_to_ns ms = sint (ms * 1000000)"

definition machine_fs_row :: "partition \<Rightarrow> fs_usage \<Rightarrow> disk_stats_line option \<Rightarrow> machine_fs_stats_row" where
  "machine_fs_row p u d =
     \<lparr>mfs_device = pt_device p, mfs_fs_type = ''vfs'', mfs_capacity = Some (fu_capacity u),
      mfs_usage = Some (fu_capacity u - fu_free u), mfs_available = Some (fu_available u),
      mfs_inodes_free = Some (fu_inodes_free u),
      mfs_disk_stats =
        \<lparr>dstats_reads_completed = Some (disk_field ds_reads_completed d),
         dstats_reads_merged = Some (disk_field ds_reads_merged d),
         dstats_sectors_read = Some (disk_field ds_sectors_read d),
         dstats_read_duration = Some (ms_to_ns (disk_field ds_read_time d)),
         dstats_writes_completed = Some (disk_field ds_writes_completed d),
         dstats_writes_merged = Some (disk_field ds_writes_merged d),
         dstats_sectors_written = Some (disk_field ds_sectors_written d),
         dstats_write_duration = Some (ms_to_ns (disk_field ds_write_time d)),
         dstats_io_in_progress = Some (disk_field ds_io_in_progress d),
         dstats_io_duration = Some (ms_to_ns (disk_field ds_io_time d)),
         dstats_weighted_io_duration = Some (ms_to_ns (disk_field ds_weighted_io_time d))\<rparr>\<rparr>"

definition machine_fs_stats :: "host \<Rightarrow> machine_fs_stats_row list" where
  "machine_fs_stats ho = map (\<lambda>(p, u, d). machine_fs_row p u d) (partition_usages ho)"

section \<open>Lemmas\<close>

text \<open>A list sorted by a key that is different everywhere is determined by its set.\<close>

lemma sort_key_distinct_map:
  fixes f :: "'a \<Rightarrow> 'k::linorder"
  assumes "distinct (map f xs)"
  shows "map f (sort_key f xs) = sorted_list_of_set (f ` set xs)"
proof -
  have "sorted (map f (sort_key f xs))" by simp
  moreover have "distinct (map f (sort_key f xs))"
    using assms by (metis distinct_map distinct_sort set_sort)
  ultimately show ?thesis
    by (metis set_map set_sort sorted_list_of_set.idem_if_sorted_distinct)
qed

definition handle_at :: "reg \<Rightarrow> string \<Rightarrow> handle" where
  "handle_at s n = rg_handles s (the (map_of (rg_map s) n))"

lemma handles_eq:
  assumes "map_ok s"
  shows "handles s = map (handle_at s) (map fst (rg_map s))" "map h_name (handles s) = map fst (rg_map s)"
proof -
  have "distinct (map fst (rg_map s))" using assms by (simp add: map_ok_def)
  then show "handles s = map (handle_at s) (map fst (rg_map s))"
    by (auto simp: handles_def handle_at_def comp_def)
  show "map h_name (handles s) = map fst (rg_map s)"
    using assms by (auto simp: handles_def map_ok_def)
qed

lemma h_name_handle_at: "map_ok s \<Longrightarrow> registered s n \<Longrightarrow> h_name (handle_at s n) = n"
  by (auto simp: registered_def handle_at_def map_ok_def dest!: map_of_SomeD)

lemma sort_by_inverse:
  fixes f :: "'a \<Rightarrow> 'k::linorder"
  assumes "distinct ns" "\<And>n. n \<in> set ns \<Longrightarrow> f (g n) = n"
  shows "sort_key f (map g ns) = map g (sorted_list_of_set (set ns))"
proof -
  have fg: "map f (map g ns) = ns" using assms(2) by (simp add: map_idI)
  have "map g (map f (sort_key f (map g ns))) = sort_key f (map g ns)"
    using assms(2) by (auto intro!: map_idI)
  moreover have "map f (sort_key f (map g ns)) = sorted_list_of_set (f ` set (map g ns))"
    by (rule sort_key_distinct_map) (use fg assms(1) in simp)
  moreover have "f ` set (map g ns) = set ns" using fg by (metis set_map)
  ultimately show ?thesis by simp
qed

lemma subtree_handles_eq:
  assumes "map_ok s"
  shows "subtree_handles s name = map (handle_at s)
     (sorted_list_of_set {n. registered s n \<and> (n = name \<or> starts_with n (below_prefix name))})"
proof -
  let ?P = "\<lambda>n. n = name \<or> starts_with n (below_prefix name)"
  let ?ns = "filter ?P (map fst (rg_map s))"
  have n: "h_name (handle_at s n) = n" if "n \<in> set (map fst (rg_map s))" for n
    using h_name_handle_at [OF assms, of n] that by (simp add: registered_iff)
  have "filter (\<lambda>h. ?P (h_name h)) (handles s) =
      map (handle_at s) (filter (\<lambda>n. ?P (h_name (handle_at s n))) (map fst (rg_map s)))"
    unfolding handles_eq(1) [OF assms] by (subst filter_map) (simp add: comp_def)
  moreover have "filter (\<lambda>n. ?P (h_name (handle_at s n))) (map fst (rg_map s)) = ?ns"
    by (rule filter_cong) (simp_all only: n)
  moreover have "sort_key h_name (map (handle_at s) ?ns) = map (handle_at s) (sorted_list_of_set (set ?ns))"
    by (rule sort_by_inverse) (use assms n in \<open>auto simp: map_ok_def\<close>)
  moreover have "set ?ns = {n. registered s n \<and> ?P n}" by (auto simp: registered_iff)
  ultimately show ?thesis unfolding subtree_handles_def by simp
qed

lemma direct_children_eq:
  assumes "map_ok s"
  shows "direct_children s name = map (\<lambda>k. default_container_reference\<lparr>ref_name := k\<rparr>)
     (sorted_list_of_set {k. registered s k \<and> (\<exists>x. x \<noteq> [] \<and> CHR ''/'' \<notin> set x \<and> k = below_prefix name @ x)})"
proof -
  let ?pre = "below_prefix name"
  let ?P = "\<lambda>k. starts_with k ?pre \<and> length ?pre < length k \<and> CHR ''/'' \<notin> set (drop (length ?pre) k)"
  let ?ns = "filter ?P (map fst (rg_map s))"
  have "direct_children s name = map (\<lambda>k. default_container_reference\<lparr>ref_name := k\<rparr>) (sorted_list_of_set (set ?ns))"
    unfolding direct_children_def Let_def
    by (rule sort_by_inverse) (use assms in \<open>auto simp: map_ok_def\<close>)
  moreover have "?P k \<longleftrightarrow> (\<exists>x. x \<noteq> [] \<and> CHR ''/'' \<notin> set x \<and> k = ?pre @ x)" for k
    by (auto simp: starts_with_iff)
  then have "set ?ns = {k. registered s k \<and> (\<exists>x. x \<noteq> [] \<and> CHR ''/'' \<notin> set x \<and> k = ?pre @ x)}"
    by (auto simp: registered_iff)
  ultimately show ?thesis by simp
qed

section \<open>Properties\<close>

text \<open>C25: in every reachable state a subcontainers query of a registered container answers with the
  containers at or below that name, each once and in name order whatever the order of the hash map,
  each with its direct children: the registered names one component further down.\<close>

theorem subcontainers_query:
  assumes "reachable cfg from_std mi s" "registered s name"
  shows "subcontainers_info s name req =
     Inr (map (\<lambda>n. \<lparr>info_reference = h_reference (handle_at s n),
            info_subcontainers = map (\<lambda>k. default_container_reference\<lparr>ref_name := k\<rparr>)
              (sorted_list_of_set {k. registered s k \<and>
                 (\<exists>x. x \<noteq> [] \<and> CHR ''/'' \<notin> set x \<and> k = below_prefix n @ x)}),
            info_spec = h_spec (handle_at s n),
            info_stats = ts_in_range (req_start req) (req_end req) (req_num_stats req) (h_store (handle_at s n))\<rparr>)
       (sorted_list_of_set {n. registered s n \<and> (n = name \<or> starts_with n (below_prefix name))}))"
proof -
  have ok: "map_ok s" using reachable_inv [OF assms(1)] by (simp add: reg_inv_def)
  have "h_name (handle_at s n) = n"
    if "n \<in> set (sorted_list_of_set {n. registered s n \<and> (n = name \<or> starts_with n (below_prefix name))})" for n
    using that h_name_handle_at [OF ok, of n] by (cases "finite {n. registered s n \<and> (n = name \<or> starts_with n (below_prefix name))}") auto
  then show ?thesis using assms(2)
    by (simp add: subcontainers_info_def handle_of_def registered_def subtree_handles_eq [OF ok] assemble_info_def
        direct_children_eq [OF ok])
qed

text \<open>A runtime query answers with the containers that have runtime metadata and whose id begins
  with the argument or that have it as an alias (all of them for the empty argument), under their
  names; it fails exactly when the argument is not empty and nothing matches.\<close>

theorem docker_query:
  assumes "reachable cfg from_std mi s"
  shows "case docker_containers s id_or_name req of
     Inl e \<Rightarrow> e = UnknownContainer id_or_name \<and> id_or_name \<noteq> [] \<and>
       {n. registered s n \<and> runtime_match id_or_name (h_reference (handle_at s n))} = {}
   | Inr out \<Rightarrow> bt_wf out \<and>
       bt_get out = (\<lambda>n. if registered s n \<and> runtime_match id_or_name (h_reference (handle_at s n))
         then Some (assemble_info s (handle_at s n) req False) else None)"
proof -
  have ok: "map_ok s" using reachable_inv [OF assms] by (simp add: reg_inv_def)
  let ?P = "\<lambda>n. runtime_match id_or_name (h_reference (handle_at s n))"
  let ?ns = "filter ?P (map fst (rg_map s))"
  let ?es = "map (\<lambda>n. (n, assemble_info s (handle_at s n) req False)) ?ns"
  have n: "h_name (handle_at s n) = n" if "n \<in> set (map fst (rg_map s))" for n
    using h_name_handle_at [OF ok, of n] that by (simp add: registered_iff)
  have "map (\<lambda>h. (h_name h, assemble_info s h req False))
      (filter (\<lambda>h. runtime_match id_or_name (h_reference h)) (handles s)) = ?es"
    unfolding handles_eq(1) [OF ok] filter_map comp_def map_map
    by (rule map_cong) (use n in auto)
  then have d: "docker_containers s id_or_name req =
      (if bt_of_list ?es = [] \<and> id_or_name \<noteq> [] then Inl (UnknownContainer id_or_name) else Inr (bt_of_list ?es))"
    by (simp add: docker_containers_def Let_def)
  have "distinct (map fst ?es)" using ok by (simp add: map_ok_def comp_def)
  then have g: "bt_get (bt_of_list ?es) = map_of ?es"
    by (simp add: bt_of_list_facts map_of_rev_distinct)
  have m: "map_of ?es = (\<lambda>n. if registered s n \<and> ?P n then Some (assemble_info s (handle_at s n) req False) else None)"
    by (auto simp: fun_eq_iff map_of_map_restrict restrict_map_def registered_iff)
  have "{n. registered s n \<and> ?P n} = {}" if "bt_of_list ?es = []"
  proof -
    have "map_of ?es n = None" for n using that g by (simp add: bt_get_def fun_eq_iff)
    then have "\<not> (registered s n \<and> ?P n)" for n unfolding m by (metis option.distinct(1))
    then show ?thesis by auto
  qed
  then have e: "bt_of_list ?es = [] \<Longrightarrow> {n. registered s n \<and> ?P n} = {}" .
  show ?thesis
  proof (cases "bt_of_list ?es = [] \<and> id_or_name \<noteq> []")
    case True
    then have "docker_containers s id_or_name req = Inl (UnknownContainer id_or_name)" by (simp only: d if_True simp_thms)
    then show ?thesis using True e by (simp only: sum.case) simp
  next
    case False
    then have "docker_containers s id_or_name req = Inr (bt_of_list ?es)" by (simp only: d if_False)
    then show ?thesis using bt_of_list_facts(1) [of ?es] by (simp only: sum.case g m)
  qed
qed

theorem subcontainers_query_witness:
  "\<exists>x. subcontainers_info after_adding ''/a'' default_container_info_request = Inr [x] \<and>
     info_subcontainers x = []"
proof -
  have r: "registered after_adding n \<longleftrightarrow> n = ''/a''" for n by (simp add: registered_iff after_adding)
  have b: "below_prefix ''/a'' = ''/a/''" by (simp add: below_prefix_def)
  have "{n. n = ''/a'' \<and> (n = ''/a'' \<or> starts_with n ''/a/'')} = {''/a''}" by auto
  moreover have "{k. k = ''/a'' \<and> (\<exists>x. x \<noteq> [] \<and> CHR ''/'' \<notin> set x \<and> k = ''/a/'' @ x)} = {}" by auto
  ultimately show ?thesis
    using subcontainers_query [OF after_adding_reachable, of "''/a''" default_container_info_request]
    by (simp add: r b)
qed

theorem docker_query_witness:
  "docker_containers after_adding ''f00'' default_container_info_request = Inl (UnknownContainer ''f00'') \<or>
   (\<exists>out. docker_containers after_adding ''f00'' default_container_info_request = Inr out \<and> bt_wf out)"
  using docker_query [OF after_adding_reachable, of "''f00''" default_container_info_request]
  by (cases "docker_containers after_adding ''f00'' default_container_info_request") simp_all

end
