(* ===== verification/Metrics_Collect.thy ===== *)
theory Metrics_Collect
  imports Manager_Query Metrics_Output
begin

text \<open>
  \<open>render\<close> of \<open>crates/cadvisor-metrics/src/collect.rs\<close>: the labels of a container and the series of
  one scrape. The calls of \<open>Output::push\<close> are lists of their arguments, in the order of the calls;
  each block of the function that one metric group guards is a definition. The iteration order of
  the containers is the order of \<open>rg_map\<close>. The router and its response header are not modelled.
\<close>

section \<open>Options and labels\<close>

record metrics_opts =
  mo_store_container_labels :: bool
  mo_whitelisted_container_labels :: "string list"
  mo_disabled_groups :: "string list"

definition default_metrics_opts :: metrics_opts where
  "default_metrics_opts =
     \<lparr>mo_store_container_labels = True, mo_whitelisted_container_labels = [], mo_disabled_groups = []\<rparr>"

definition group_enabled :: "metrics_opts \<Rightarrow> string \<Rightarrow> bool" where
  "group_enabled opts grp \<longleftrightarrow> grp \<notin> set (mo_disabled_groups opts)"

definition family_group :: "string \<Rightarrow> string option" where
  "family_group name =
     (if starts_with name ''container_cpu_load'' \<or> name = ''container_tasks_state'' then Some ''cpuLoad''
      else if starts_with name ''container_cpu'' then Some ''cpu''
      else if starts_with name ''container_memory'' then Some ''memory''
      else if name \<in> {''container_fs_inodes_free'', ''container_fs_inodes_total'',
                      ''container_fs_limit_bytes'', ''container_fs_usage_bytes''} then Some ''disk''
      else if starts_with name ''container_fs'' \<or> starts_with name ''container_blkio'' then Some ''diskIO''
      else if starts_with name ''container_network'' then Some ''network''
      else if name = ''container_oom_events_total'' then Some ''oom_event''
      else None)"

text \<open>One underscore for each other character: the continuation bytes of UTF-8 are not the first byte
  of a character.\<close>

definition sanitize_label_name :: "string \<Rightarrow> string" where
  "sanitize_label_name name =
     map (\<lambda>c. if is_ascii_alphanumeric c \<or> c = CHR ''_'' then c else CHR ''_'')
       (filter (\<lambda>c. \<not> is_continuation c) name)"

definition label_key :: "string \<Rightarrow> string" where
  "label_key k = ''container_label_'' @ sanitize_label_name k"

definition env_key :: "string \<Rightarrow> string" where
  "env_key k = ''container_env_'' @ sanitize_label_name k"

definition clamp_unlimited :: "u64 \<Rightarrow> f64" where
  "clamp_unlimited v = (if 2 ^ 62 < v then Fin 0 else f64_of_u64 v)"

definition own_from :: "string \<Rightarrow> container_spec \<Rightarrow> container_reference \<Rightarrow> metrics_opts \<Rightarrow> labels" where
  "own_from name spec reference opts =
     (let own = bt_insert ''id'' name [];
          own = (case ref_aliases reference of a # _ \<Rightarrow> bt_insert ''name'' a own | [] \<Rightarrow> own);
          own = (if spec_image spec \<noteq> [] then bt_insert ''image'' (spec_image spec) own else own);
          own = fold (\<lambda>(k, v) own.
                   if mo_store_container_labels opts \<or> k \<in> set (mo_whitelisted_container_labels opts)
                   then bt_insert (label_key k) v own else own)
                  (spec_labels spec) own
      in if mo_store_container_labels opts
         then fold (\<lambda>(k, v). bt_insert (env_key k) v) (spec_envs spec) own
         else own)"

definition unioned :: "labels \<Rightarrow> string list \<Rightarrow> labels" where
  "unioned own all_keys = map (\<lambda>k. (k, case bt_get own k of Some v \<Rightarrow> v | None \<Rightarrow> [])) all_keys"

definition with_labels :: "labels \<Rightarrow> labels \<Rightarrow> labels" where
  "with_labels base extra = sort_key fst (base @ extra)"

section \<open>Numbers\<close>

definition timestamp_millis :: "gotime \<Rightarrow> i64" where
  "timestamp_millis t = unix_ns t div 10 ^ 6"

definition over :: "f64 \<Rightarrow> rat \<Rightarrow> f64" where
  "over a b = f64_div a (Fin b)"

definition seconds :: "u64 \<Rightarrow> f64" where
  "seconds ns = over (f64_of_u64 ns) (10 ^ 9)"

definition milliseconds :: "u64 \<Rightarrow> f64" where
  "milliseconds ms = over (f64_of_u64 ms) 1000"

section \<open>The series of a container\<close>

type_synonym push_call = "string \<times> labels \<times> f64 \<times> i64 option"

definition spec_pushes :: "metrics_opts \<Rightarrow> labels \<Rightarrow> container_spec \<Rightarrow> push_call list" where
  "spec_pushes opts base spec =
     (if group_enabled opts ''cpu'' \<and> spec_has_cpu spec then
        [(''container_spec_cpu_period'', with_labels base [], f64_of_u64 (cpuspec_period (spec_cpu spec)), None),
         (''container_spec_cpu_shares'', with_labels base [], f64_of_u64 (cpuspec_limit (spec_cpu spec)), None)] @
        (if cpuspec_quota (spec_cpu spec) \<noteq> 0
         then [(''container_spec_cpu_quota'', with_labels base [], f64_of_u64 (cpuspec_quota (spec_cpu spec)), None)]
         else [])
      else []) @
     (if group_enabled opts ''memory'' \<and> spec_has_memory spec then
        [(''container_spec_memory_limit_bytes'', with_labels base [],
          clamp_unlimited (memspec_limit (spec_memory spec)), None),
         (''container_spec_memory_swap_limit_bytes'', with_labels base [],
          clamp_unlimited (memspec_swap_limit (spec_memory spec)), None),
         (''container_spec_memory_reservation_limit_bytes'', with_labels base [],
          clamp_unlimited (memspec_reservation (spec_memory spec)), None)]
      else [])"

definition life_pushes :: "gotime \<Rightarrow> labels \<Rightarrow> container_spec \<Rightarrow> push_call list" where
  "life_pushes now base spec =
     [(''container_start_time_seconds'', with_labels base [],
       f64_add (f64_of_int (unix_ns (spec_creation_time spec) div 10 ^ 9))
         (over (f64_of_int (unix_ns (spec_creation_time spec) mod 10 ^ 9)) (10 ^ 9)), None),
      (''container_last_seen'', with_labels base [],
       over (f64_of_int (timestamp_millis now)) 1000, Some (timestamp_millis now))]"

text \<open>\<open>{i:02}\<close>.\<close>

definition dec2 :: "nat \<Rightarrow> string" where
  "dec2 n = (if n < 10 then CHR ''0'' # dec n else dec n)"

definition cpu_total_pushes :: "labels \<Rightarrow> cpu_usage \<Rightarrow> i64 option \<Rightarrow> push_call list" where
  "cpu_total_pushes base u ts =
     (if usage_per_cpu u = [] then
        (if 0 < usage_total u
         then [(''container_cpu_usage_seconds_total'', with_labels base [(''cpu'', ''total'')],
                seconds (usage_total u), ts)]
         else [])
      else
        List.map_filter (\<lambda>(i, v).
            if 0 < v
            then Some (''container_cpu_usage_seconds_total'', with_labels base [(''cpu'', ''cpu'' @ dec2 i)],
                       seconds v, ts)
            else None)
          (enumerate 0 (usage_per_cpu u)))"

definition cpu_pushes ::
  "metrics_opts \<Rightarrow> labels \<Rightarrow> container_spec \<Rightarrow> container_stats \<Rightarrow> i64 option \<Rightarrow> push_call list" where
  "cpu_pushes opts base spec s ts =
     (let c = stats_cpu s in
      if group_enabled opts ''cpu'' then
        [(''container_cpu_user_seconds_total'', with_labels base [], seconds (usage_user (cpu_usage c)), ts),
         (''container_cpu_system_seconds_total'', with_labels base [], seconds (usage_system (cpu_usage c)), ts)] @
        cpu_total_pushes base (cpu_usage c) ts @
        (if cpuspec_quota (spec_cpu spec) \<noteq> 0 then
           [(''container_cpu_cfs_periods_total'', with_labels base [], f64_of_u64 (cfs_periods (cpu_cfs c)), ts),
            (''container_cpu_cfs_throttled_periods_total'', with_labels base [],
             f64_of_u64 (cfs_throttled_periods (cpu_cfs c)), ts),
            (''container_cpu_cfs_throttled_seconds_total'', with_labels base [],
             seconds (cfs_throttled_time (cpu_cfs c)), ts)]
         else [])
      else [])"

definition load_pushes :: "metrics_opts \<Rightarrow> labels \<Rightarrow> container_stats \<Rightarrow> i64 option \<Rightarrow> push_call list" where
  "load_pushes opts base s ts =
     (let t = stats_task_stats s in
      if group_enabled opts ''cpuLoad'' then
        (''container_cpu_load_average_10s'', with_labels base [],
         over (f64_of_int (cpu_load_average (stats_cpu s))) 1000, ts) #
        map (\<lambda>(state, v). (''container_tasks_state'', with_labels base [(''state'', state)], f64_of_u64 v, ts))
          [(''sleeping'', load_nr_sleeping t), (''running'', load_nr_running t),
           (''stopped'', load_nr_stopped t), (''uninterruptible'', load_nr_uninterruptible t),
           (''iowaiting'', load_nr_io_wait t)]
      else [])"

definition memory_pushes :: "metrics_opts \<Rightarrow> labels \<Rightarrow> memory_stats \<Rightarrow> i64 option \<Rightarrow> push_call list" where
  "memory_pushes opts base m ts =
     (if group_enabled opts ''memory'' then
        map (\<lambda>(fam, v). (fam, with_labels base [], f64_of_u64 v, ts))
          [(''container_memory_cache'', mem_cache m), (''container_memory_rss'', mem_rss m),
           (''container_memory_kernel_usage'', mem_kernel_usage m),
           (''container_memory_mapped_file'', mem_mapped_file m), (''container_memory_swap'', mem_swap m),
           (''container_memory_failcnt'', mem_failcnt m), (''container_memory_usage_bytes'', mem_usage m),
           (''container_memory_max_usage_bytes'', mem_max_usage m),
           (''container_memory_working_set_bytes'', mem_working_set m)] @
        map (\<lambda>(ft, scope, v).
            (''container_memory_failures_total'',
             with_labels base [(''failure_type'', ft), (''scope'', scope)], f64_of_u64 v, ts))
          [(''pgfault'', ''container'', memdata_pgfault (mem_container_data m)),
           (''pgmajfault'', ''container'', memdata_pgmajfault (mem_container_data m)),
           (''pgfault'', ''hierarchy'', memdata_pgfault (mem_hierarchical_data m)),
           (''pgmajfault'', ''hierarchy'', memdata_pgmajfault (mem_hierarchical_data m))]
      else [])"

definition disk_pushes :: "metrics_opts \<Rightarrow> labels \<Rightarrow> fs_stats list \<Rightarrow> i64 option \<Rightarrow> push_call list" where
  "disk_pushes opts base fss ts =
     (if group_enabled opts ''disk'' then
        concat (map (\<lambda>fs. map (\<lambda>(fam, v). (fam, with_labels base [(''device'', fs_device fs)], f64_of_u64 v, ts))
          [(''container_fs_inodes_free'', fs_inodes_free fs), (''container_fs_inodes_total'', fs_inodes fs),
           (''container_fs_limit_bytes'', fs_limit fs), (''container_fs_usage_bytes'', Model_V1.fs_usage fs)]) fss)
      else [])"

text \<open>The device of an \<open>io.stat\<close> entry, resolved through the disk map when it has no name.\<close>

definition entry_device :: "(string \<times> disk_info) list \<Rightarrow> per_disk_stats \<Rightarrow> string" where
  "entry_device disk_map e =
     (if disk_device e = [] then
        (case bt_get disk_map (disk_key e) of Some d \<Rightarrow> ''/dev/'' @ dinfo_name d | None \<Rightarrow> [])
      else disk_device e)"

definition stat_push :: "string \<Rightarrow> labels \<Rightarrow> u64 option \<Rightarrow> i64 option \<Rightarrow> push_call list" where
  "stat_push fam ls v ts = (case v of Some v \<Rightarrow> [(fam, ls, f64_of_u64 v, ts)] | None \<Rightarrow> [])"

definition service_bytes_pushes ::
  "(string \<times> disk_info) list \<Rightarrow> labels \<Rightarrow> per_disk_stats \<Rightarrow> i64 option \<Rightarrow> push_call list" where
  "service_bytes_pushes disk_map base e ts =
     (let device = entry_device disk_map e in
      map (\<lambda>(op, v).
          (''container_blkio_device_usage_total'',
           with_labels base [(''device'', device), (''major'', dec (unat (disk_major e))),
             (''minor'', dec (unat (disk_minor e))), (''operation'', op)],
           f64_of_u64 v, ts))
        (disk_stats e) @
      stat_push ''container_fs_reads_bytes_total'' (with_labels base [(''device'', device)])
        (bt_get (disk_stats e) ''Read'') ts @
      stat_push ''container_fs_writes_bytes_total'' (with_labels base [(''device'', device)])
        (bt_get (disk_stats e) ''Write'') ts)"

definition serviced_pushes ::
  "(string \<times> disk_info) list \<Rightarrow> labels \<Rightarrow> per_disk_stats \<Rightarrow> i64 option \<Rightarrow> push_call list" where
  "serviced_pushes disk_map base e ts =
     (let ls = with_labels base [(''device'', entry_device disk_map e)] in
      stat_push ''container_fs_reads_total'' ls (bt_get (disk_stats e) ''Read'') ts @
      stat_push ''container_fs_writes_total'' ls (bt_get (disk_stats e) ''Write'') ts)"

definition fs_io_pushes :: "labels \<Rightarrow> fs_stats \<Rightarrow> i64 option \<Rightarrow> push_call list" where
  "fs_io_pushes base fs ts =
     map (\<lambda>(fam, v). (fam, with_labels base [(''device'', fs_device fs)], v, ts))
       [(''container_fs_reads_total'', f64_of_u64 (fs_reads_completed fs)),
        (''container_fs_reads_merged_total'', f64_of_u64 (fs_reads_merged fs)),
        (''container_fs_sector_reads_total'', f64_of_u64 (fs_sectors_read fs)),
        (''container_fs_read_seconds_total'', milliseconds (fs_read_time fs)),
        (''container_fs_writes_total'', f64_of_u64 (fs_writes_completed fs)),
        (''container_fs_writes_merged_total'', f64_of_u64 (fs_writes_merged fs)),
        (''container_fs_sector_writes_total'', f64_of_u64 (fs_sectors_written fs)),
        (''container_fs_write_seconds_total'', milliseconds (fs_write_time fs)),
        (''container_fs_io_current'', f64_of_u64 (fs_io_in_progress fs)),
        (''container_fs_io_time_seconds_total'', milliseconds (fs_io_time fs)),
        (''container_fs_io_time_weighted_seconds_total'', milliseconds (fs_weighted_io_time fs))]"

definition disk_io_pushes ::
  "metrics_opts \<Rightarrow> (string \<times> disk_info) list \<Rightarrow> labels \<Rightarrow> container_stats \<Rightarrow> i64 option \<Rightarrow> push_call list" where
  "disk_io_pushes opts disk_map base s ts =
     (if group_enabled opts ''diskIO'' then
        concat (map (\<lambda>e. service_bytes_pushes disk_map base e ts) (diskio_io_service_bytes (stats_disk_io s))) @
        concat (map (\<lambda>e. serviced_pushes disk_map base e ts) (diskio_io_serviced (stats_disk_io s))) @
        concat (map (\<lambda>fs. fs_io_pushes base fs ts) (stats_filesystem s))
      else [])"

definition network_pushes :: "metrics_opts \<Rightarrow> labels \<Rightarrow> interface_stats list \<Rightarrow> i64 option \<Rightarrow> push_call list" where
  "network_pushes opts base ifs ts =
     (if group_enabled opts ''network'' then
        concat (map (\<lambda>i. map (\<lambda>(fam, v).
            (fam, with_labels base [(''interface'', iface_name i)], f64_of_u64 v, ts))
          [(''container_network_receive_bytes_total'', iface_rx_bytes i),
           (''container_network_receive_packets_total'', iface_rx_packets i),
           (''container_network_receive_packets_dropped_total'', iface_rx_dropped i),
           (''container_network_receive_errors_total'', iface_rx_errors i),
           (''container_network_transmit_bytes_total'', iface_tx_bytes i),
           (''container_network_transmit_packets_total'', iface_tx_packets i),
           (''container_network_transmit_packets_dropped_total'', iface_tx_dropped i),
           (''container_network_transmit_errors_total'', iface_tx_errors i)]) ifs)
      else [])"

definition oom_pushes :: "metrics_opts \<Rightarrow> labels \<Rightarrow> container_stats \<Rightarrow> i64 option \<Rightarrow> push_call list" where
  "oom_pushes opts base s ts =
     (if group_enabled opts ''oom_event''
      then [(''container_oom_events_total'', with_labels base [], f64_of_u64 (stats_oom_events s), ts)]
      else [])"

definition sample_pushes ::
  "metrics_opts \<Rightarrow> (string \<times> disk_info) list \<Rightarrow> labels \<Rightarrow> container_spec \<Rightarrow> container_stats \<Rightarrow> push_call list" where
  "sample_pushes opts disk_map base spec s =
     (let ts = Some (timestamp_millis (stats_timestamp s)) in
      cpu_pushes opts base spec s ts @ load_pushes opts base s ts @
      memory_pushes opts base (stats_memory s) ts @ disk_pushes opts base (stats_filesystem s) ts @
      disk_io_pushes opts disk_map base s ts @
      network_pushes opts base (net_interfaces (stats_network s)) ts @ oom_pushes opts base s ts)"

definition container_pushes ::
  "metrics_opts \<Rightarrow> gotime \<Rightarrow> (string \<times> disk_info) list \<Rightarrow> labels \<Rightarrow> container_spec \<Rightarrow> container_stats option \<Rightarrow>
     push_call list" where
  "container_pushes opts now disk_map base spec latest =
     spec_pushes opts base spec @ life_pushes now base spec @
     (case latest of None \<Rightarrow> [] | Some s \<Rightarrow> sample_pushes opts disk_map base spec s)"

section \<open>A scrape\<close>

definition version_pushes :: "version_info \<Rightarrow> push_call list" where
  "version_pushes vi =
     [(''cadvisor_version_info'',
       [(''cadvisorRevision'', vi_cadvisor_revision vi), (''cadvisorVersion'', vi_cadvisor_version vi),
        (''dockerVersion'', vi_docker_version vi), (''kernelVersion'', vi_kernel_version vi),
        (''osVersion'', vi_container_os_version vi)],
       Fin 1, None)]"

definition machine_labels :: "machine_info \<Rightarrow> labels" where
  "machine_labels mi =
     [(''boot_id'', mi_boot_id mi), (''machine_id'', mi_machine_id mi), (''system_uuid'', mi_system_uuid mi)]"

definition machine_pushes :: "machine_info \<Rightarrow> push_call list" where
  "machine_pushes mi =
     (let ts = Some (timestamp_millis (mi_timestamp mi)); l = machine_labels mi in
      [(''machine_cpu_physical_cores'', l, f64_of_int (mi_num_physical_cores mi), ts),
       (''machine_cpu_cores'', l, f64_of_int (mi_num_cores mi), ts),
       (''machine_cpu_sockets'', l, f64_of_int (mi_num_sockets mi), ts),
       (''machine_memory_bytes'', l, f64_of_u64 (mi_memory_capacity mi), ts),
       (''machine_swap_bytes'', l, f64_of_u64 (mi_swap_capacity mi), ts)] @
      map (\<lambda>(mode, v). (''machine_nvm_capacity'', sort_key fst (l @ [(''mode'', mode)]), f64_of_u64 v, ts))
        [(''app_direct_mode'', nvm_app_direct_mode_capacity (mi_nvm_info mi)),
         (''memory_mode'', nvm_memory_mode_capacity (mi_nvm_info mi))] @
      [(''machine_nvm_avg_power_budget_watts'', l, f64_of_u64 (nvm_avg_power_budget (mi_nvm_info mi)), ts),
       (''machine_scrape_error'', [], Fin 0, None)])"

definition own_labels :: "metrics_opts \<Rightarrow> handle \<Rightarrow> labels" where
  "own_labels opts h = own_from (h_name h) (h_spec h) (h_reference h) opts"

text \<open>The \<open>BTreeSet\<close> of all label keys.\<close>

definition union_keys :: "labels list \<Rightarrow> string list" where
  "union_keys owns = sort (remdups (map fst (concat owns)))"

definition all_pushes ::
  "metrics_opts \<Rightarrow> gotime \<Rightarrow> version_info \<Rightarrow> machine_info \<Rightarrow> handle list \<Rightarrow> push_call list" where
  "all_pushes opts now vi mi hs =
     (let all_keys = union_keys (map (own_labels opts) hs) in
      version_pushes vi @
      concat (map (\<lambda>h. container_pushes opts now (mi_disk_map mi) (unioned (own_labels opts h) all_keys)
          (h_spec h) (ts_latest (h_store h))) hs) @
      [(''container_scrape_error'', [], Fin 0, None)] @
      machine_pushes mi)"

definition render_metrics ::
  "(f64 \<Rightarrow> string) \<Rightarrow> metrics_opts \<Rightarrow> gotime \<Rightarrow> version_info \<Rightarrow> reg \<Rightarrow> string" where
  "render_metrics ryu opts now vi s =
     render_output ryu (push_all (all_pushes opts now vi (ms_info (rg_machine s)) (handles s)) [])"

section \<open>Lemmas on labels\<close>

definition label_char :: "char \<Rightarrow> bool" where
  "label_char c \<longleftrightarrow> is_ascii_alphanumeric c \<or> c = CHR ''_''"

definition label_name :: "string \<Rightarrow> bool" where
  "label_name k \<longleftrightarrow> k \<noteq> [] \<and> label_char (hd k) \<and> \<not> is_digit (hd k) \<and> list_all label_char k"

text \<open>The keys a container can have of its own.\<close>

definition own_key :: "string \<Rightarrow> bool" where
  "own_key k \<longleftrightarrow> k \<in> {''id'', ''name'', ''image''} \<or>
     (\<exists>r. k = label_key r \<or> k = env_key r)"

lemma sanitize_chars: "list_all label_char (sanitize_label_name r)"
  by (auto simp: sanitize_label_name_def label_char_def list_all_iff)

lemma own_key_label_name: "own_key k \<Longrightarrow> label_name k"
proof -
  have "label_name ''id''" "label_name ''name''" "label_name ''image''" by code_simp+
  moreover have "list_all label_char ''container_label_''" "list_all label_char ''container_env_''"
    "\<not> is_digit CHR ''c''"
    by code_simp+
  then have "label_name (label_key r)" "label_name (env_key r)" for r
    using sanitize_chars [of r] by (simp_all add: label_name_def label_key_def env_key_def)
  ultimately show "own_key k \<Longrightarrow> label_name k" by (auto simp: own_key_def)
qed

lemma fold_insert_keys:
  assumes "\<And>k v. (k, v) \<in> set es \<Longrightarrow> P k \<Longrightarrow> Q (f k)" "\<And>k. k \<in> fst ` set m \<Longrightarrow> Q k"
  shows "k \<in> fst ` set (fold (\<lambda>(k, v) own. if P k then bt_insert (f k) v own else own) es m) \<Longrightarrow> Q k"
  using assms
proof (induction es arbitrary: m)
  case (Cons e es)
  obtain k' v where e: "e = (k', v)" by fastforce
  show ?case
  proof (rule Cons.IH [of "if P k' then bt_insert (f k') v m else m"])
    show "Q x" if "x \<in> fst ` set (if P k' then bt_insert (f k') v m else m)" for x
      using that Cons.prems(2) [of k' v] Cons.prems(3) [of x] bt_insert_keys [of "f k'" v m]
      by (auto simp: e split: if_splits)
  qed (use Cons.prems in \<open>auto simp: e\<close>)
qed simp

lemma own_from_keys:
  assumes "k \<in> fst ` set (own_from name spec reference opts)"
  shows "k \<in> {''id'', ''name'', ''image''} \<or>
    (\<exists>r \<in> fst ` set (spec_labels spec). k = label_key r \<and>
       (mo_store_container_labels opts \<or> r \<in> set (mo_whitelisted_container_labels opts))) \<or>
    (\<exists>r \<in> fst ` set (spec_envs spec). k = env_key r \<and>
       mo_store_container_labels opts)"
proof -
  define o1 where "o1 = bt_insert ''id'' name []"
  define o2 where "o2 = (case ref_aliases reference of a # _ \<Rightarrow> bt_insert ''name'' a o1 | [] \<Rightarrow> o1)"
  define o3 where "o3 = (if spec_image spec \<noteq> [] then bt_insert ''image'' (spec_image spec) o2 else o2)"
  let ?allowed = "\<lambda>k. mo_store_container_labels opts \<or> k \<in> set (mo_whitelisted_container_labels opts)"
  define o4 where "o4 = fold (\<lambda>(k, v) own. if ?allowed k
      then bt_insert (label_key k) v own else own) (spec_labels spec) o3"
  define L where "L k \<longleftrightarrow> k \<in> {''id'', ''name'', ''image''} \<or>
    (\<exists>r \<in> fst ` set (spec_labels spec). k = label_key r \<and> ?allowed r)" for k
  have "fst ` set o1 = {''id''}" by (simp add: o1_def)
  then have "fst ` set o2 \<subseteq> {''id'', ''name''}"
    using bt_insert_keys [of "''name''" _ o1] by (cases "ref_aliases reference") (simp_all add: o2_def)
  then have o3: "fst ` set o3 \<subseteq> {''id'', ''name'', ''image''}"
    using bt_insert_keys [of "''image''" _ o2] by (cases "spec_image spec") (auto simp: o3_def)
  have l: "L (label_key k)" if "(k, v) \<in> set (spec_labels spec)" "?allowed k" for k v
  proof -
    have "k \<in> fst ` set (spec_labels spec)" using that(1) by force
    then show ?thesis using that(2) unfolding L_def by blast
  qed
  have l3: "L k" if "k \<in> fst ` set o3" for k using that o3 unfolding L_def by blast
  have o4: "L k" if "k \<in> fst ` set o4" for k
    using that unfolding o4_def
    by (rule fold_insert_keys [where P = ?allowed and f = label_key and Q = L, rotated 2]) (rule l l3, assumption+)+
  have own: "own_from name spec reference opts =
      (if mo_store_container_labels opts
       then fold (\<lambda>(k, v) own. if True then bt_insert (env_key k) v own else own)
         (spec_envs spec) o4 else o4)"
    unfolding own_from_def Let_def o1_def [symmetric] o2_def [symmetric] o3_def [symmetric] o4_def [symmetric]
    by simp
  show ?thesis
  proof (cases "mo_store_container_labels opts")
    case True
    let ?Q = "\<lambda>k. L k \<or> (\<exists>r \<in> fst ` set (spec_envs spec). k = env_key r)"
    have "k \<in> fst ` set (fold (\<lambda>(k, v) own. if True then bt_insert (env_key k) v own else own) (spec_envs spec) o4)"
      using assms unfolding own using True by (simp only: if_True)
    then have "?Q k"
    proof (rule fold_insert_keys [where P = "\<lambda>_. True" and f = env_key and Q = ?Q, rotated 2])
      show "?Q (env_key k)" if "(k, v) \<in> set (spec_envs spec)" for k v
      proof -
        have "k \<in> fst ` set (spec_envs spec)" using that by force
        then show ?thesis by blast
      qed
    qed (use o4 in blast)
    then show ?thesis using True unfolding L_def by blast
  next
    case False
    then show ?thesis using assms own o4 [of k] unfolding L_def by simp
  qed
qed

lemma own_labels_key: "k \<in> fst ` set (own_labels opts h) \<Longrightarrow> own_key k"
  unfolding own_labels_def own_key_def by (drule own_from_keys) blast

lemma map_sort_key: "map f (sort_key f xs) = sort (map f xs)"
proof (rule sym, rule properties_for_sort)
  show "mset (map f (sort_key f xs)) = mset (map f xs)" by simp
qed simp

lemma with_labels_keys: "map fst (with_labels base extra) = sort (map fst base @ map fst extra)"
  by (simp add: with_labels_def map_sort_key)

lemma unioned_keys [simp]: "map fst (unioned own ks) = ks"
  by (simp add: unioned_def comp_def)

lemma union_keys_own: "k \<in> set (union_keys (map (own_labels opts) hs)) \<Longrightarrow> own_key k"
  using own_labels_key by (force simp: union_keys_def)

text \<open>The label keys of a family beyond those of the container.\<close>

definition extra_keys :: "string \<Rightarrow> string list" where
  "extra_keys fam =
     (if fam = ''container_cpu_usage_seconds_total'' then [''cpu'']
      else if fam = ''container_tasks_state'' then [''state'']
      else if fam = ''container_memory_failures_total'' then [''failure_type'', ''scope'']
      else if fam = ''container_blkio_device_usage_total'' then [''device'', ''major'', ''minor'', ''operation'']
      else if starts_with fam ''container_network'' then [''interface'']
      else if starts_with fam ''container_fs'' then [''device'']
      else [])"

text \<open>The label keys of a family in a scrape whose containers have the keys \<open>ks\<close>.\<close>

definition family_keys :: "string list \<Rightarrow> string \<Rightarrow> string list" where
  "family_keys ks fam =
     (if fam = ''cadvisor_version_info''
      then [''cadvisorRevision'', ''cadvisorVersion'', ''dockerVersion'', ''kernelVersion'', ''osVersion'']
      else if fam \<in> {''container_scrape_error'', ''machine_scrape_error''} then []
      else if fam = ''machine_nvm_capacity'' then [''boot_id'', ''machine_id'', ''mode'', ''system_uuid'']
      else if starts_with fam ''machine_'' then [''boot_id'', ''machine_id'', ''system_uuid'']
      else sort (ks @ extra_keys fam))"

definition right_labels :: "string list \<Rightarrow> metrics_opts \<Rightarrow> push_call \<Rightarrow> bool" where
  "right_labels ks opts p \<longleftrightarrow>
     map fst (fst (snd p)) = family_keys ks (fst p) \<and>
     (case family_group (fst p) of None \<Rightarrow> True | Some grp \<Rightarrow> group_enabled opts grp)"

lemma right_stat_push:
  "(\<And>v. right_labels ks opts (fam, ls, v, ts)) \<Longrightarrow> list_all (right_labels ks opts) (stat_push fam ls v ts)"
  by (simp add: stat_push_def split: option.split)

lemma list_all_concat_map: "(\<And>x. list_all P (f x)) \<Longrightarrow> list_all P (concat (map f xs))"
  by (induction xs) simp_all

lemma list_all_map_filter: "(\<And>x y. f x = Some y \<Longrightarrow> P y) \<Longrightarrow> list_all P (List.map_filter f xs)"
  by (induction xs) (auto split: option.split)

text \<open>A push of the family \<open>fam\<close>, on a container's base labels and the family's extra ones.\<close>

lemma right_labelsI:
  assumes "map fst base = ks" "map fst extra = extra_keys fam" "family_keys ks fam = sort (ks @ extra_keys fam)"
    and "case family_group fam of None \<Rightarrow> True | Some grp \<Rightarrow> group_enabled opts grp"
  shows "right_labels ks opts (fam, with_labels base extra, v, ts)"
  using assms by (simp add: right_labels_def with_labels_keys)

lemmas family_eval = family_keys_def extra_keys_def family_group_def starts_with_def

lemmas right_eval = right_labels_def with_labels_keys family_eval

lemma right_spec: "map fst base = ks \<Longrightarrow> list_all (right_labels ks opts) (spec_pushes opts base spec)"
  by (simp add: spec_pushes_def right_eval)

lemma right_life: "map fst base = ks \<Longrightarrow> list_all (right_labels ks opts) (life_pushes now base spec)"
  by (simp add: life_pushes_def right_eval)

lemma right_cpu_total:
  assumes "map fst base = ks" "group_enabled opts ''cpu''"
  shows "list_all (right_labels ks opts) (cpu_total_pushes base u ts)"
proof -
  have one: "right_labels ks opts (''container_cpu_usage_seconds_total'', with_labels base [(''cpu'', c)], v, ts)" for c v
    using assms by (simp add: right_eval)
  show ?thesis unfolding cpu_total_pushes_def
    by (simp add: one del: List.map_filter_simps) (rule impI, rule list_all_map_filter, auto split: if_splits intro: one)
qed

lemma right_cpu: "map fst base = ks \<Longrightarrow> list_all (right_labels ks opts) (cpu_pushes opts base spec s ts)"
  by (simp add: cpu_pushes_def right_cpu_total Let_def) (simp add: right_eval)

lemma right_load: "map fst base = ks \<Longrightarrow> list_all (right_labels ks opts) (load_pushes opts base s ts)"
  by (simp add: load_pushes_def right_eval Let_def)

lemma right_memory: "map fst base = ks \<Longrightarrow> list_all (right_labels ks opts) (memory_pushes opts base m ts)"
  by (simp add: memory_pushes_def right_eval)

lemma right_disk: "map fst base = ks \<Longrightarrow> list_all (right_labels ks opts) (disk_pushes opts base fss ts)"
  unfolding disk_pushes_def by (auto simp: right_eval intro!: list_all_concat_map)

lemma right_service_bytes:
  assumes "map fst base = ks" "group_enabled opts ''diskIO''"
  shows "list_all (right_labels ks opts) (service_bytes_pushes m base e ts)"
proof -
  have one: "right_labels ks opts (''container_blkio_device_usage_total'',
      with_labels base [(''device'', a), (''major'', b), (''minor'', c), (''operation'', d)], v, ts)" for a b c d v
    using assms by (simp add: right_eval)
  have two: "right_labels ks opts (''container_fs_reads_bytes_total'', with_labels base [(''device'', a)], v, ts)"
    "right_labels ks opts (''container_fs_writes_bytes_total'', with_labels base [(''device'', a)], v, ts)" for a v
    using assms by (simp_all add: right_eval)
  have "list_all (right_labels ks opts) (map (\<lambda>(op, v). (''container_blkio_device_usage_total'',
      with_labels base [(''device'', a), (''major'', b), (''minor'', c), (''operation'', op)], f64_of_u64 v, ts)) xs)"
    for a b c and xs :: "(string \<times> u64) list"
    by (induction xs) (auto intro: one)
  then show ?thesis
    by (simp only: service_bytes_pushes_def Let_def list_all_append right_stat_push [OF two(1)] right_stat_push [OF two(2)])
qed

lemma right_serviced:
  "map fst base = ks \<Longrightarrow> group_enabled opts ''diskIO'' \<Longrightarrow>
     list_all (right_labels ks opts) (serviced_pushes m base e ts)"
  unfolding serviced_pushes_def Let_def list_all_append
  by (intro conjI right_stat_push) (auto simp: right_eval)

lemma right_fs_io:
  "map fst base = ks \<Longrightarrow> group_enabled opts ''diskIO'' \<Longrightarrow> list_all (right_labels ks opts) (fs_io_pushes base fs ts)"
  by (simp add: fs_io_pushes_def right_eval)

lemma right_disk_io: "map fst base = ks \<Longrightarrow> list_all (right_labels ks opts) (disk_io_pushes opts m base s ts)"
  unfolding disk_io_pushes_def
  by (auto intro!: list_all_concat_map right_service_bytes right_serviced right_fs_io)

lemma right_network: "map fst base = ks \<Longrightarrow> list_all (right_labels ks opts) (network_pushes opts base ifs ts)"
  unfolding network_pushes_def by (auto simp: right_eval intro!: list_all_concat_map)

lemma right_oom: "map fst base = ks \<Longrightarrow> list_all (right_labels ks opts) (oom_pushes opts base s ts)"
  by (simp add: oom_pushes_def right_eval)

lemma right_container:
  "map fst base = ks \<Longrightarrow> list_all (right_labels ks opts) (container_pushes opts now m base spec latest)"
  by (simp add: container_pushes_def sample_pushes_def Let_def right_spec right_life right_cpu right_load
      right_memory right_disk right_disk_io right_network right_oom split: option.split)

lemma right_version: "list_all (right_labels ks opts) (version_pushes vi)"
  by (simp add: version_pushes_def right_eval)

lemma right_machine: "list_all (right_labels ks opts) (machine_pushes mi)"
  by (simp add: machine_pushes_def machine_labels_def right_eval map_sort_key Let_def)

lemma right_all:
  "list_all (right_labels (union_keys (map (own_labels opts) hs)) opts) (all_pushes opts now vi mi hs)"
  unfolding all_pushes_def Let_def list_all_append
  by (intro conjI right_version right_machine list_all_concat_map right_container)
    (simp_all add: right_eval)

lemma extra_keys_ok:
  "distinct (extra_keys fam)" "list_all label_name (extra_keys fam)" "\<And>k. k \<in> set (extra_keys fam) \<Longrightarrow> \<not> own_key k"
proof -
  have n: "list_all label_name [''cpu'', ''state'', ''failure_type'', ''scope'', ''device'', ''major'', ''minor'',
      ''operation'', ''interface'']"
    by code_simp
  show "distinct (extra_keys fam)" by (simp add: extra_keys_def)
  show "list_all label_name (extra_keys fam)" using n by (simp add: extra_keys_def)
  have o: "\<not> own_key ''cpu''" "\<not> own_key ''state''" "\<not> own_key ''failure_type''" "\<not> own_key ''scope''"
    "\<not> own_key ''device''" "\<not> own_key ''major''" "\<not> own_key ''minor''" "\<not> own_key ''operation''"
    "\<not> own_key ''interface''"
    by (simp_all add: own_key_def label_key_def env_key_def)
  have "list_all (\<lambda>k. \<not> own_key k) (extra_keys fam)" by (simp add: extra_keys_def o)
  then show "\<And>k. k \<in> set (extra_keys fam) \<Longrightarrow> \<not> own_key k" by (simp add: list_all_iff)
qed

lemma family_keys_ok:
  assumes "distinct ks" "\<And>k. k \<in> set ks \<Longrightarrow> own_key k"
  shows "sorted_wrt (<) (family_keys ks fam) \<and> list_all label_name (family_keys ks fam)"
proof -
  define cs where "cs =
    [[''cadvisorRevision'', ''cadvisorVersion'', ''dockerVersion'', ''kernelVersion'', ''osVersion''], [],
     [''boot_id'', ''machine_id'', ''mode'', ''system_uuid''], [''boot_id'', ''machine_id'', ''system_uuid'']]"
  have c: "list_all (\<lambda>l. sorted_wrt (<) l \<and> list_all label_name l) cs"
    unfolding cs_def by code_simp
  have "distinct (ks @ extra_keys fam)" using assms extra_keys_ok(1,3) by auto
  then have "sorted_wrt (<) (sort (ks @ extra_keys fam))"
    by (simp add: strict_sorted_iff)
  moreover have "list_all label_name (sort (ks @ extra_keys fam))"
    using assms(2) own_key_label_name extra_keys_ok(2) by (auto simp: list_all_iff)
  moreover have "family_keys ks fam = sort (ks @ extra_keys fam) \<or> family_keys ks fam \<in> set cs"
    by (simp add: family_keys_def cs_def)
  ultimately show ?thesis using c by (auto simp only: list_all_iff)
qed

lemma pushed_labels:
  assumes "p \<in> set (all_pushes opts now vi mi hs)"
  shows "map fst (fst (snd p)) = family_keys (union_keys (map (own_labels opts) hs)) (fst p) \<and>
     sorted_wrt (<) (map fst (fst (snd p))) \<and> list_all label_name (map fst (fst (snd p)))"
proof -
  let ?ks = "union_keys (map (own_labels opts) hs)"
  have "map fst (fst (snd p)) = family_keys ?ks (fst p)"
    using right_all [of opts hs now vi mi] assms by (simp add: list_all_iff right_labels_def)
  moreover have "distinct ?ks" by (simp add: union_keys_def)
  ultimately show ?thesis using family_keys_ok [of ?ks "fst p"] union_keys_own by simp
qed

section \<open>What is not served\<close>

text \<open>The same state with no CPU quota in any spec.\<close>

definition without_quota :: "handle \<Rightarrow> handle" where
  "without_quota h = h\<lparr>h_spec := (h_spec h)\<lparr>spec_cpu := (spec_cpu (h_spec h))\<lparr>cpuspec_quota := 0\<rparr>\<rparr>\<rparr>"

definition in_table :: "push_call \<Rightarrow> bool" where
  "in_table p \<longleftrightarrow> family (fst p) \<noteq> None"

lemma quota_families:
  "family ''container_spec_cpu_quota'' = None" "family ''container_cpu_cfs_periods_total'' = None"
  "family ''container_cpu_cfs_throttled_periods_total'' = None"
  "family ''container_cpu_cfs_throttled_seconds_total'' = None"
  by code_simp+

lemma own_from_cong:
  "name = name' \<Longrightarrow> reference = reference' \<Longrightarrow> spec_image spec = spec_image spec' \<Longrightarrow>
     spec_labels spec = spec_labels spec' \<Longrightarrow> spec_envs spec = spec_envs spec' \<Longrightarrow>
     own_from name spec reference opts = own_from name' spec' reference' opts"
  by (simp only: own_from_def)

lemma own_labels_quota [simp]: "own_labels opts (without_quota h) = own_labels opts h"
  unfolding own_labels_def by (rule own_from_cong) (simp_all add: without_quota_def)

lemma container_pushes_quota:
  "filter in_table (container_pushes opts now m base (h_spec (without_quota h)) latest) =
     filter in_table (container_pushes opts now m base (h_spec h) latest)"
proof -
  have q: "\<not> in_table (''container_spec_cpu_quota'', x)" "\<not> in_table (''container_cpu_cfs_periods_total'', x)"
    "\<not> in_table (''container_cpu_cfs_throttled_periods_total'', x)"
    "\<not> in_table (''container_cpu_cfs_throttled_seconds_total'', x)" for x
    by (simp_all add: in_table_def quota_families)
  have "filter in_table (spec_pushes opts base (h_spec (without_quota h))) = filter in_table (spec_pushes opts base (h_spec h))"
    by (simp add: spec_pushes_def without_quota_def q)
  moreover have "filter in_table (cpu_pushes opts base (h_spec (without_quota h)) s ts) =
      filter in_table (cpu_pushes opts base (h_spec h) s ts)" for s ts
    by (simp add: cpu_pushes_def without_quota_def q Let_def)
  moreover have "life_pushes now base (h_spec (without_quota h)) = life_pushes now base (h_spec h)"
    by (simp add: life_pushes_def without_quota_def)
  ultimately show ?thesis
    by (simp add: container_pushes_def sample_pushes_def Let_def split: option.split)
qed

lemma all_pushes_quota:
  "filter in_table (all_pushes opts now vi mi (map without_quota hs)) =
     filter in_table (all_pushes opts now vi mi hs)"
proof -
  have "filter in_table (concat (map (\<lambda>h. container_pushes opts now m (unioned (own_labels opts h) ks)
        (h_spec h) (ts_latest (h_store h))) (map without_quota hs))) =
      filter in_table (concat (map (\<lambda>h. container_pushes opts now m (unioned (own_labels opts h) ks)
        (h_spec h) (ts_latest (h_store h))) hs))" for m ks
  proof (induction hs)
    case (Cons h hs)
    have "h_store (without_quota h) = h_store h" by (simp add: without_quota_def)
    then show ?case using Cons by (simp add: container_pushes_quota)
  qed simp
  moreover have "map (own_labels opts) (map without_quota hs) = map (own_labels opts) hs" by simp
  ultimately show ?thesis unfolding all_pushes_def Let_def by (simp only: filter_append)
qed

section \<open>Properties\<close>

text \<open>C27: every series of a scrape has the label keys of its family, the same for all containers
  whatever labels each of them has; the keys are valid label names, sorted and different.\<close>

theorem series_labels:
  "list_all (\<lambda>p. map fst (fst (snd p)) = family_keys (union_keys (map (own_labels opts) hs)) (fst p) \<and>
       sorted_wrt (<) (map fst (fst (snd p))) \<and> list_all label_name (map fst (fst (snd p))))
     (all_pushes opts now vi mi hs)"
  using pushed_labels by (fastforce simp: list_all_iff)

text \<open>A metric group that is disabled has no series: the guard of each push is the group that
  \<open>family_group\<close> names for its family.\<close>

theorem disabled_groups:
  assumes "grp \<in> set (mo_disabled_groups opts)"
  shows "filter (\<lambda>p. family_group (fst p) = Some grp) (all_pushes opts now vi mi hs) = []"
proof -
  have "family_group (fst p) \<noteq> Some grp" if "p \<in> set (all_pushes opts now vi mi hs)" for p
  proof
    assume "family_group (fst p) = Some grp"
    then have "group_enabled opts grp"
      using right_all [of opts hs now vi mi] that by (auto simp: list_all_iff right_labels_def)
    then show False using assms by (simp add: group_enabled_def)
  qed
  then show ?thesis by (simp add: filter_empty_conv)
qed

text \<open>C28: with \<open>store_container_labels\<close> off, no environment variable and no container label outside the
  whitelist becomes a label.\<close>

theorem label_whitelist:
  assumes "\<not> mo_store_container_labels opts"
  shows "set (map fst (own_labels opts h)) \<subseteq>
     {''id'', ''name'', ''image''} \<union>
     label_key ` (set (mo_whitelisted_container_labels opts) \<inter> set (map fst (spec_labels (h_spec h))))"
proof
  fix k assume "k \<in> set (map fst (own_labels opts h))"
  then have "k \<in> fst ` set (own_from (h_name h) (h_spec h) (h_reference h) opts)" by (simp add: own_labels_def)
  from own_from_keys [OF this] assms show "k \<in> {''id'', ''name'', ''image''} \<union>
     label_key ` (set (mo_whitelisted_container_labels opts) \<inter> set (map fst (spec_labels (h_spec h))))"
    unfolding set_map by blast
qed

text \<open>The CPU quota and the throttling counters are collected but never served: the text of a scrape
  is the one of the same state without any quota.\<close>

theorem quota_never_served:
  "render_metrics ryu opts now vi s =
     render_metrics ryu opts now vi (s\<lparr>rg_handles := \<lambda>i. without_quota (rg_handles s i)\<rparr>)"
proof -
  have "handles (s\<lparr>rg_handles := \<lambda>i. without_quota (rg_handles s i)\<rparr>) = map without_quota (handles s)"
    by (auto simp: handles_def)
  then show ?thesis
    unfolding render_metrics_def
    using render_ignores [of ryu, folded in_table_def]
      all_pushes_quota [of opts now vi "ms_info (rg_machine s)" "handles s"]
    by (metis (no_types, lifting) reg.select_convs(8) reg.update_convs(2) reg.surjective)
qed

theorem disabled_groups_witness:
  "filter (\<lambda>p. family_group (fst p) = Some ''network'')
     (all_pushes (default_metrics_opts\<lparr>mo_disabled_groups := [''network'']\<rparr>) 0 default_version_info
        default_machine_info [demo_handle]) = []"
  by (rule disabled_groups) simp

theorem label_whitelist_witness:
  "set (map fst (own_labels (default_metrics_opts\<lparr>mo_store_container_labels := False\<rparr>)
      (demo_handle\<lparr>h_spec := default_container_spec\<lparr>spec_labels := [(''secret'', ''x'')]\<rparr>\<rparr>))) \<subseteq>
     {''id'', ''name'', ''image''}"
  using label_whitelist [of "default_metrics_opts\<lparr>mo_store_container_labels := False\<rparr>"
      "demo_handle\<lparr>h_spec := default_container_spec\<lparr>spec_labels := [(''secret'', ''x'')]\<rparr>\<rparr>"]
  by (simp add: default_metrics_opts_def)

end
