(* ===== verification/Scrape.thy ===== *)
theory Scrape
  imports Expo Metrics_Collect
begin

text \<open>
  The exporter against its reader: the exposition that \<open>cadvisor_metrics::render\<close> prints
  (\<open>Metrics_Collect\<close>) is accepted by the strict reader of the test programs (\<open>Expo\<close>), which returns
  every served series. The lemmas follow the text: one sample line, the samples of a family, a family
  with its header, all families.
\<close>

section \<open>Lines\<close>

definition no_nul :: "expo_sample \<Rightarrow> bool" where
  "no_nul s \<longleftrightarrow> list_all (\<lambda>l. CHR 0x00 \<notin> set (snd l)) (es_labels s)"

lemma escape_no_nl: "nl \<notin> set (escape_label_value v)"
  by (induction v) (auto simp: escape_label_value_def escape_char_def nl_def)

lemma put_labels_no_nl: "list_all (\<lambda>l. is_name (fst l)) ls \<Longrightarrow> nl \<notin> set (put_labels ls)"
proof (induction ls rule: put_labels.induct)
  case (2 l)
  then show ?case using escape_no_nl [of "snd l"] is_name_not [of "fst l" nl] by (auto simp: put_label_def nl_def)
next
  case (3 l l' ls)
  then show ?case using escape_no_nl [of "snd l"] is_name_not [of "fst l" nl] by (auto simp: put_label_def nl_def)
qed simp

lemma number_no: "list_all number_char s \<Longrightarrow> nl \<notin> set s \<and> CHR 0x0D \<notin> set s"
  using number_char_not by (auto simp: list_all_iff)

lemma line_text_plain:
  assumes "sample_ok ryu s"
  shows "nl \<notin> set (line_text ryu s)" "strip_cr (line_text ryu s) = line_text ryu s"
    "line_text ryu s \<noteq> []" "hd (line_text ryu s) \<noteq> CHR ''#''"
proof -
  have nm: "is_name (es_name s)" and v: "value_ok ryu (es_value s)"
    and ls: "list_all (\<lambda>l. is_name (fst l)) (es_labels s)"
    using assms by (simp_all add: sample_ok_def)
  have n: "nl \<notin> set (es_name s)" using is_name_not [OF nm] by blast
  have f: "nl \<notin> set (fmt_float ryu (es_value s))" "CHR 0x0D \<notin> set (fmt_float ryu (es_value s))"
      "fmt_float ryu (es_value s) \<noteq> []"
    using fmt_float_number [OF v] number_no by blast+
  have p: "nl \<notin> set (put_int k)" "CHR 0x0D \<notin> set (put_int k)" "put_int k \<noteq> []" for k
    using put_int_number [of k] number_no by blast+
  have nls: "nl \<noteq> CHR ''{''" "nl \<noteq> CHR ''}''" "nl \<noteq> CHR '' ''" by (simp_all add: nl_def)
  show "nl \<notin> set (line_text ryu s)"
    using n f(1) p(1) put_labels_no_nl [OF ls] nls by (simp add: line_text_def split: option.split)
  define w where "w = (case es_ts s of Some n \<Rightarrow> put_int n | None \<Rightarrow> fmt_float ryu (es_value s))"
  have "\<exists>a. line_text ryu s = a @ w" by (cases "es_ts s") (simp_all add: line_text_def w_def)
  then obtain a where a: "line_text ryu s = a @ w" by blast
  have "w \<noteq> []" "CHR 0x0D \<notin> set w" using f p by (simp_all add: w_def split: option.split)
  then have "last (line_text ryu s) \<noteq> CHR 0x0D" unfolding a by (metis last_appendR last_in_set)
  then show "strip_cr (line_text ryu s) = line_text ryu s" by (simp add: strip_cr_def)
  have "hd (line_text ryu s) = hd (es_name s)" using is_name_hd [OF nm] by (simp add: line_text_def)
  then show "line_text ryu s \<noteq> []" "hd (line_text ryu s) \<noteq> CHR ''#''"
    using is_name_hd [OF nm] by (simp_all add: line_text_def)
qed

lemma expo_family_typed: "bt_get types name \<noteq> None \<Longrightarrow> expo_family name types = name"
  by (simp add: expo_family_def)

lemma expo_line_sample:
  assumes "sample_ok ryu s" "bt_get (ex_types e) (es_name s) \<noteq> None" "series_key s \<notin> set seen"
  shows "expo_line (line_text ryu s) (e, seen) =
    Inr (e\<lparr>ex_samples := ex_samples e @ [s]\<rparr>, series_key s # seen)"
proof -
  have "strip_prefix ''# '' (line_text ryu s) = None"
  proof (cases "strip_prefix ''# '' (line_text ryu s)")
    case (Some r)
    then have "line_text ryu s = ''# '' @ r" by (simp add: strip_prefix_Some)
    then have "hd (line_text ryu s) = CHR ''#''" by simp
    then show ?thesis using line_text_plain(4) [OF assms(1)] by blast
  qed
  then show ?thesis
    unfolding expo_line_def Let_def prod.case
    using line_text_plain(3,4) [OF assms(1)] assms(2,3)
    by (simp add: expo_sample_printed [OF assms(1)] expo_family_typed)
qed

section \<open>The series of a family\<close>

text \<open>The name and the labels can be read off a series key.\<close>

lemma until_take:
  assumes "c \<notin> set a" "x = [] \<or> hd x = c"
  shows "takeWhile (\<lambda>d. d \<noteq> c) (a @ x) = a"
proof (cases "x = []")
  case True
  then show ?thesis using assms(1) by (induction a) auto
next
  case False
  show ?thesis by (rule takeWhile_dropWhile_all) (use assms False in auto)
qed

lemma until_inj:
  assumes "c \<notin> set a" "c \<notin> set b" "x = [] \<or> hd x = c" "y = [] \<or> hd y = c" "a @ x = b @ y"
  shows "a = b \<and> x = y"
proof -
  have "a = b" using until_take [OF assms(1,3)] until_take [OF assms(2,4)] assms(5) by simp
  then show ?thesis using assms(5) by simp
qed

lemma label_keys_inj:
  assumes "concat (map (\<lambda>(k, v). CHR 0x00 # k @ ''='' @ v) ls) = concat (map (\<lambda>(k, v). CHR 0x00 # k @ ''='' @ v) ls')"
    and "list_all (\<lambda>l. is_name (fst l) \<and> CHR 0x00 \<notin> set (snd l)) ls"
    and "list_all (\<lambda>l. is_name (fst l) \<and> CHR 0x00 \<notin> set (snd l)) ls'"
  shows "ls = ls'"
  using assms
proof (induction ls arbitrary: ls')
  case Nil
  then show ?case by (cases ls') auto
next
  case (Cons l ls)
  let ?K = "\<lambda>ls. concat (map (\<lambda>(k, v). CHR 0x00 # k @ ''='' @ v) ls)"
  have K: "?K x = [] \<or> hd (?K x) = CHR 0x00" for x :: "(string \<times> string) list" by (cases x) auto
  obtain k v where l: "l = (k, v)" by fastforce
  obtain k' v' r where ls': "ls' = (k', v') # r" using Cons.prems(1) by (cases ls') (auto simp: l)
  have nm: "is_name k" "is_name k'" using Cons.prems by (simp_all add: l ls')
  have nk: "CHR 0x00 \<notin> set k" "CHR 0x00 \<notin> set k'" "CHR ''='' \<notin> set k" "CHR ''='' \<notin> set k'"
    using is_name_not [OF nm(1)] is_name_not [OF nm(2)] by blast+
  have eq: "(k @ ''='' @ v) @ ?K ls = (k' @ ''='' @ v') @ ?K r" using Cons.prems(1) by (simp add: l ls')
  have n1: "CHR 0x00 \<notin> set (k @ ''='' @ v)" "CHR 0x00 \<notin> set (k' @ ''='' @ v')"
    using Cons.prems(2,3) nk by (simp_all add: l ls')
  have "k @ ''='' @ v = k' @ ''='' @ v'" "?K ls = ?K r"
    using until_inj [OF n1 K K eq] by blast+
  moreover from this have "k = k' \<and> ''='' @ v = ''='' @ v'"
    using nk by (intro until_inj [of "CHR ''=''"]) simp_all
  ultimately show ?case using Cons.IH [of r] Cons.prems by (simp add: l ls')
qed

lemma series_key_inj:
  assumes "series_key s = series_key s'" "sample_ok ryu s" "sample_ok ryu s'" "no_nul s" "no_nul s'"
  shows "es_name s = es_name s' \<and> es_labels s = es_labels s'"
proof -
  let ?K = "\<lambda>ls. concat (map (\<lambda>(k, v). CHR 0x00 # k @ ''='' @ v) ls)"
  have K: "?K x = [] \<or> hd (?K x) = CHR 0x00" for x :: "(string \<times> string) list" by (cases x) auto
  have nm: "is_name (es_name s)" "is_name (es_name s')" using assms by (simp_all add: sample_ok_def)
  have n: "CHR 0x00 \<notin> set (es_name s)" "CHR 0x00 \<notin> set (es_name s')"
    using is_name_not [OF nm(1)] is_name_not [OF nm(2)] by blast+
  have "es_name s = es_name s' \<and> ?K (es_labels s) = ?K (es_labels s')"
    by (rule until_inj [OF n K K]) (use assms(1) in \<open>simp add: series_key_def\<close>)
  moreover from this have "es_labels s = es_labels s'"
    by (intro label_keys_inj) (use assms in \<open>auto simp: sample_ok_def no_nul_def list_all_iff\<close>)
  ultimately show ?thesis by blast
qed

lemma expo_lines_samples:
  assumes "bt_get (ex_types e) name \<noteq> None"
    and "list_all (\<lambda>s. es_name s = name \<and> sample_ok ryu s) ss"
    and "distinct (map series_key ss)" "set (map series_key ss) \<inter> set seen = {}"
  shows "expo_lines (lines (concat (map (\<lambda>s. line_text ryu s @ [nl]) ss) @ rest)) (e, seen) =
     expo_lines (lines rest) (e\<lparr>ex_samples := ex_samples e @ ss\<rparr>, rev (map series_key ss) @ seen)"
  using assms
proof (induction ss arbitrary: e seen)
  case (Cons s ss)
  have ok: "sample_ok ryu s" "bt_get (ex_types e) (es_name s) \<noteq> None" "series_key s \<notin> set seen"
    using Cons.prems by auto
  have "expo_lines (lines (concat (map (\<lambda>s. line_text ryu s @ [nl]) (s # ss)) @ rest)) (e, seen) =
      expo_lines (line_text ryu s # lines (concat (map (\<lambda>s. line_text ryu s @ [nl]) ss) @ rest)) (e, seen)"
    using lines_cons [OF line_text_plain(1) [OF ok(1)]] line_text_plain(2) [OF ok(1)] by simp
  also have "\<dots> = expo_lines (lines (concat (map (\<lambda>s. line_text ryu s @ [nl]) ss) @ rest))
      (e\<lparr>ex_samples := ex_samples e @ [s]\<rparr>, series_key s # seen)"
    by (simp add: expo_line_sample [OF ok])
  also have "\<dots> = expo_lines (lines rest)
      (e\<lparr>ex_samples := ex_samples e @ s # ss\<rparr>, rev (map series_key (s # ss)) @ seen)"
    using Cons.prems by (subst Cons.IH) auto
  finally show ?case .
qed simp

section \<open>Families\<close>

definition sample_of :: "string \<Rightarrow> series \<Rightarrow> expo_sample" where
  "sample_of name ss = \<lparr>es_name = name, es_labels = fst ss, es_value = fst (snd ss), es_ts = snd (snd ss)\<rparr>"

definition family_ok :: "string \<times> kind \<times> string \<Rightarrow> bool" where
  "family_ok f \<longleftrightarrow> is_name (fst f) \<and> nl \<notin> set (snd (snd f)) \<and> CHR 0x0D \<notin> set (snd (snd f))"

text \<open>The names of the table are of lower-case letters, with a few other characters; on the bits of a
  character that is quick to check.\<close>

definition lower_bits :: "char \<Rightarrow> bool" where
  "lower_bits c \<longleftrightarrow>
     (case c of Char b0 b1 b2 b3 b4 b5 b6 b7 \<Rightarrow>
        \<not> b7 \<and> b6 \<and> b5 \<and> (b4 \<or> b3 \<or> b2 \<or> b1 \<or> b0) \<and> \<not> (b4 \<and> b3 \<and> (b2 \<or> b1 \<and> b0)))"

definition table_name :: "string \<Rightarrow> bool" where
  "table_name s \<longleftrightarrow>
     (case s of [] \<Rightarrow> False | c # r \<Rightarrow> lower_bits c \<and> list_all (\<lambda>c. lower_bits c \<or> c \<in> set ''_01'') r)"

lemma table_name_is_name: "table_name s \<Longrightarrow> is_name s"
proof -
  have l: "lower_bits c \<Longrightarrow> is_ascii_lowercase c" for c
    by (cases c) (auto simp: lower_bits_def is_ascii_lowercase_def code_def)
  have "is_digit CHR ''0''" "is_digit CHR ''1''" by code_simp+
  then show "table_name s \<Longrightarrow> is_name s"
    by (cases s) (auto simp: table_name_def is_name_def is_ascii_alphabetic_def is_ascii_alphanumeric_def
        list_all_iff dest: l)
qed

lemma families_ok: "list_all family_ok families"
proof -
  have "list_all (\<lambda>f. table_name (fst f) \<and> nl \<notin> set (snd (snd f)) \<and> CHR 0x0D \<notin> set (snd (snd f))) families"
    by code_simp
  then show ?thesis using table_name_is_name by (auto simp: list_all_iff family_ok_def)
qed

lemma expo_lines_header:
  assumes "family_ok (name, knd, h)" "bt_get (ex_types e) name = None"
  shows "expo_lines (lines (family_header name knd h @ rest)) (e, seen) =
    expo_lines (lines rest)
      (e\<lparr>ex_helps := List.insert name (ex_helps e), ex_types := bt_insert name (kind_str knd) (ex_types e)\<rparr>, seen)"
proof -
  let ?h = "''# HELP '' @ name @ '' '' @ h"
  let ?t = "''# TYPE '' @ name @ '' '' @ kind_str knd"
  have nm: "is_name name" and h: "nl \<notin> set h" "CHR 0x0D \<notin> set h" using assms(1) by (simp_all add: family_ok_def)
  have n: "nl \<notin> set name" "CHR 0x0D \<notin> set name" "CHR '' '' \<notin> set name" using is_name_not [OF nm] by blast+
  have k: "nl \<notin> set (kind_str knd)" "CHR 0x0D \<notin> set (kind_str knd)" by (cases knd; simp add: nl_def)+
  have kt: "kind_str knd \<in> {''counter'', ''gauge'', ''histogram'', ''summary'', ''untyped''}" by (cases knd) simp_all
  have "lines (?t @ nl # rest) = ?t # lines rest"
    by (rule lines_plain) (use n k in \<open>simp_all add: nl_def\<close>)
  moreover have "lines (?h @ nl # ?t @ nl # rest) = ?h # lines (?t @ nl # rest)"
    by (rule lines_plain) (use n h in \<open>simp_all add: nl_def\<close>)
  ultimately have "lines (?h @ nl # ?t @ nl # rest) = ?h # ?t # lines rest" by simp
  then have l: "lines (family_header name knd h @ rest) = ?h # ?t # lines rest" by (simp add: family_header_def)
  have p: "strip_prefix ''# '' (''# '' @ x) = Some x" for x by (rule strip_prefix_append)
  have sp: "splitn 3 CHR '' '' (a @ '' '' @ name @ '' '' @ x) = [a, name, x]" if "CHR '' '' \<notin> set a" for a x
    using that n(3) by (simp add: numeral_3_eq_3 split_once_append)
  have "expo_comment (''HELP '' @ name @ '' '' @ h) e = Inr (e\<lparr>ex_helps := List.insert name (ex_helps e)\<rparr>)"
    using sp [of "''HELP''" h] by (simp add: expo_comment_def)
  moreover have "expo_comment (''TYPE '' @ name @ '' '' @ kind_str knd) e' =
      Inr (e'\<lparr>ex_types := bt_insert name (kind_str knd) (ex_types e')\<rparr>)" if "ex_types e' = ex_types e" for e'
    using sp [of "''TYPE''" "kind_str knd"] kt assms(2) that by (simp add: expo_comment_def)
  ultimately show ?thesis
    using p [of "''HELP '' @ name @ '' '' @ h"] p [of "''TYPE '' @ name @ '' '' @ kind_str knd"]
    unfolding l by (simp add: expo_line_def)
qed

definition series_ok :: "(f64 \<Rightarrow> string) \<Rightarrow> string \<Rightarrow> series \<Rightarrow> bool" where
  "series_ok ryu name ss \<longleftrightarrow> sample_ok ryu (sample_of name ss) \<and> no_nul (sample_of name ss)"

lemma series_lines:
  "concat (map (\<lambda>(labels, value, ts). sample_line ryu name labels value ts) ss) =
     concat (map (\<lambda>s. line_text ryu s @ [nl]) (map (sample_of name) ss))"
  by (induction ss) (auto simp: sample_line_text sample_of_def)

lemma distinct_keys:
  assumes "list_all (series_ok ryu name) ss" "sorted_wrt (<) (map fst ss)"
  shows "distinct (map series_key (map (sample_of name) ss))"
proof -
  have "inj_on (\<lambda>ss. series_key (sample_of name ss)) (set ss)"
  proof (rule inj_onI)
    fix x y assume xy: "x \<in> set ss" "y \<in> set ss" "series_key (sample_of name x) = series_key (sample_of name y)"
    then have ok: "series_ok ryu name x" "series_ok ryu name y" using assms(1) by (simp_all add: list_all_iff)
    have "es_labels (sample_of name x) = es_labels (sample_of name y)"
      using series_key_inj [OF xy(3), of ryu] ok by (simp add: series_ok_def)
    then have "fst x = fst y" by (simp add: sample_of_def)
    then show "x = y" using xy(1,2) assms(2) strict_sorted_iff distinct_map inj_onD by metis
  qed
  moreover have "distinct ss" using assms(2) by (auto simp: strict_sorted_iff distinct_map)
  ultimately show ?thesis by (simp add: distinct_map o_def)
qed

text \<open>The series seen so far are of families that are typed.\<close>

definition seen_typed :: "(f64 \<Rightarrow> string) \<Rightarrow> expo \<Rightarrow> string list \<Rightarrow> bool" where
  "seen_typed ryu e seen \<longleftrightarrow> (\<forall>k \<in> set seen. \<exists>s. k = series_key s \<and> sample_ok ryu s \<and> no_nul s \<and>
     bt_get (ex_types e) (es_name s) \<noteq> None)"

lemma expo_lines_family:
  assumes "family_ok f" "bt_get (ex_types e) (fst f) = None" "seen_typed ryu e seen"
    and "list_all (series_ok ryu (fst f)) (served ss)" "ss \<noteq> []"
  shows "\<exists>e' seen'. expo_lines (lines (family_text ryu f ss @ rest)) (e, seen) = expo_lines (lines rest) (e', seen') \<and>
     ex_samples e' = ex_samples e @ map (sample_of (fst f)) (served ss) \<and> seen_typed ryu e' seen' \<and>
     (\<forall>n. n \<noteq> fst f \<longrightarrow> bt_get (ex_types e') n = bt_get (ex_types e) n)"
proof -
  obtain name knd h where f: "f = (name, knd, h)" by (metis prod.exhaust)
  let ?S = "map (sample_of name) (served ss)"
  define e1 where "e1 = e\<lparr>ex_helps := List.insert name (ex_helps e),
      ex_types := bt_insert name (kind_str knd) (ex_types e)\<rparr>"
  have ok: "list_all (series_ok ryu name) (served ss)" using assms(4) by (simp add: f)
  have t: "bt_get (ex_types e1) n = (if n = name then Some (kind_str knd) else bt_get (ex_types e) n)" for n
    by (simp add: e1_def bt_get_insert)
  have S: "list_all (\<lambda>s. es_name s = name \<and> sample_ok ryu s) ?S" "list_all no_nul ?S"
    using ok by (auto simp: list_all_iff series_ok_def) (simp add: sample_of_def)
  have new: "set (map series_key ?S) \<inter> set seen = {}"
  proof -
    have False if s: "s \<in> set ?S" and k: "series_key s \<in> set seen" for s
    proof -
      obtain s' where s': "series_key s = series_key s'" "sample_ok ryu s'" "no_nul s'"
        "bt_get (ex_types e) (es_name s') \<noteq> None"
        using assms(3) k by (auto simp: seen_typed_def)
      have "sample_ok ryu s" "no_nul s" "es_name s = name" using S s by (auto simp: list_all_iff)
      then show False using series_key_inj [OF s'(1) _ s'(2) _ s'(3)] s'(4) assms(2) by (simp add: f)
    qed
    then show ?thesis by auto
  qed
  have "expo_lines (lines (family_text ryu f ss @ rest)) (e, seen) =
      expo_lines (lines (concat (map (\<lambda>s. line_text ryu s @ [nl]) ?S) @ rest)) (e1, seen)"
    using expo_lines_header [of name knd h e] assms(1,2,5)
    by (simp add: f family_text_def series_lines e1_def)
  also have "\<dots> = expo_lines (lines rest) (e1\<lparr>ex_samples := ex_samples e1 @ ?S\<rparr>, rev (map series_key ?S) @ seen)"
    by (rule expo_lines_samples [OF _ S(1) distinct_keys [OF ok served_strict] new]) (simp add: t)
  finally have "expo_lines (lines (family_text ryu f ss @ rest)) (e, seen) = \<dots>" .
  moreover have "seen_typed ryu (e1\<lparr>ex_samples := ex_samples e1 @ ?S\<rparr>) (rev (map series_key ?S) @ seen)"
    unfolding seen_typed_def
  proof
    fix k assume "k \<in> set (rev (map series_key ?S) @ seen)"
    then consider s where "s \<in> set ?S" "k = series_key s" | "k \<in> set seen" by auto
    then show "\<exists>s. k = series_key s \<and> sample_ok ryu s \<and> no_nul s \<and>
        bt_get (ex_types (e1\<lparr>ex_samples := ex_samples e1 @ ?S\<rparr>)) (es_name s) \<noteq> None"
    proof cases
      case 1
      then show ?thesis using S t by (auto simp: list_all_iff)
    next
      case 2
      then obtain s where s: "k = series_key s" "sample_ok ryu s" "no_nul s" "bt_get (ex_types e) (es_name s) \<noteq> None"
        using assms(3) by (auto simp: seen_typed_def)
      then have "bt_get (ex_types (e1\<lparr>ex_samples := ex_samples e1 @ ?S\<rparr>)) (es_name s) \<noteq> None" using t by simp
      with s show ?thesis by blast
    qed
  qed
  moreover have "ex_samples e1 = ex_samples e" by (simp add: e1_def)
  ultimately show ?thesis using t by (intro exI conjI) (assumption, simp_all add: f)
qed

lemma expo_lines_families:
  assumes "list_all family_ok fs" "distinct (map fst fs)" "seen_typed ryu e seen"
    and "\<And>f. f \<in> set fs \<Longrightarrow> bt_get (ex_types e) (fst f) = None \<and> list_all (series_ok ryu (fst f)) (served (g (fst f)))"
  shows "res_map (\<lambda>r. ex_samples (fst r)) (expo_lines (lines (concat (map (\<lambda>f. family_text ryu f (g (fst f))) fs))) (e, seen)) =
     Inr (ex_samples e @ concat (map (\<lambda>f. map (sample_of (fst f)) (served (g (fst f)))) fs))"
  using assms
proof (induction fs arbitrary: e seen)
  case (Cons f fs)
  let ?rest = "concat (map (\<lambda>f. family_text ryu f (g (fst f))) fs)"
  show ?case
  proof (cases "g (fst f) = []")
    case True
    then have "served (g (fst f)) = []" by (simp add: served_nonempty)
    then show ?thesis using Cons.IH [of e seen] Cons.prems True by (simp add: family_text_def)
  next
    case False
    obtain e' seen' where e': "expo_lines (lines (family_text ryu f (g (fst f)) @ ?rest)) (e, seen) =
        expo_lines (lines ?rest) (e', seen')"
      "ex_samples e' = ex_samples e @ map (sample_of (fst f)) (served (g (fst f)))" "seen_typed ryu e' seen'"
      "\<forall>n. n \<noteq> fst f \<longrightarrow> bt_get (ex_types e') n = bt_get (ex_types e) n"
      using expo_lines_family [OF _ _ Cons.prems(3), of f "g (fst f)" ?rest] Cons.prems False by auto
    have "bt_get (ex_types e') (fst f') = None \<and> list_all (series_ok ryu (fst f')) (served (g (fst f')))"
      if "f' \<in> set fs" for f'
    proof -
      have "fst f' \<noteq> fst f" using Cons.prems(2) that by (auto simp: image_iff)
      then show ?thesis using e'(4) Cons.prems(4) [of f'] that by simp
    qed
    then show ?thesis using Cons.IH [of e' seen'] Cons.prems e' by simp
  qed
qed simp

lemma res_map_map: "res_map f (res_map g r) = res_map (\<lambda>x. f (g x)) r"
  by (cases r) simp_all

lemma render_reads_back:
  assumes "\<And>f ss. f \<in> set families \<Longrightarrow> ss \<in> set (served (collected (fst f) ps)) \<Longrightarrow> series_ok ryu (fst f) ss"
  shows "res_map ex_samples (expo_parse (render_output ryu (push_all ps []))) =
     Inr (concat (map (\<lambda>f. map (sample_of (fst f)) (served (collected (fst f) ps))) families))"
proof -
  have "seen_typed ryu \<lparr>ex_samples = [], ex_types = [], ex_helps = []\<rparr> []" by (simp add: seen_typed_def)
  from expo_lines_families [OF families_ok families_distinct this, of "\<lambda>f. collected f ps"] assms
  have "res_map (\<lambda>r. ex_samples (fst r)) (expo_lines (lines (render_output ryu (push_all ps [])))
      (\<lparr>ex_samples = [], ex_types = [], ex_helps = []\<rparr>, [])) =
    Inr (concat (map (\<lambda>f. map (sample_of (fst f)) (served (collected (fst f) ps))) families))"
    by (simp add: render_push_all list_all_iff bt_get_def)
  then show ?thesis by (simp add: expo_parse_def res_map_map)
qed

section \<open>A scrape\<close>

text \<open>What a pushed series has to satisfy: its value is one whose shortest digits are known, its
  timestamp is in range and no label value has a NUL (the separator of the reader's series keys).\<close>

definition push_ok :: "(f64 \<Rightarrow> string) \<Rightarrow> push_call \<Rightarrow> bool" where
  "push_ok ryu p \<longleftrightarrow>
     (case p of (fam, labels, value, ts) \<Rightarrow>
        value_ok ryu value \<and> i64_ok ts \<and> list_all (\<lambda>l. CHR 0x00 \<notin> set (snd l)) labels)"

lemma label_name_is_name: "label_name k \<Longrightarrow> is_name k"
  by (cases k) (auto simp: label_name_def label_char_def is_name_def is_ascii_alphabetic_def
      is_ascii_alphanumeric_def list_all_iff)

lemma pushed_series_ok:
  assumes "f \<in> set families" "ss \<in> set (served (collected (fst f) (all_pushes opts now vi mi hs)))"
    and "list_all (push_ok ryu) (all_pushes opts now vi mi hs)"
  shows "series_ok ryu (fst f) ss"
proof -
  have p: "(fst f, ss) \<in> set (all_pushes opts now vi mi hs)"
    using assms(2) served_set by (fastforce simp: collected_def)
  obtain ls v ts where ss: "ss = (ls, v, ts)" by (metis prod.exhaust)
  have "list_all label_name (map fst ls)" using conjunct2 [OF conjunct2 [OF pushed_labels [OF p]]] by (simp add: ss)
  then have "list_all (\<lambda>l. is_name (fst l)) ls" using label_name_is_name by (auto simp: list_all_iff)
  moreover have "is_name (fst f)" using families_ok assms(1) by (simp add: list_all_iff family_ok_def)
  moreover have "push_ok ryu (fst f, ss)" using p assms(3) by (simp add: list_all_iff)
  ultimately show ?thesis
    by (simp add: series_ok_def sample_ok_def no_nul_def sample_of_def ss push_ok_def)
qed

text \<open>C11: the strict reader accepts every scrape that \<open>render\<close> prints and reads back exactly the served
  series, in order: names, labels, values and timestamps.\<close>

theorem scrape_reads_back:
  assumes "list_all (push_ok ryu) (all_pushes opts now vi (ms_info (rg_machine s)) (handles s))"
  shows "res_map ex_samples (expo_parse (render_metrics ryu opts now vi s)) =
     Inr (concat (map (\<lambda>f. map (sample_of (fst f))
       (served (collected (fst f) (all_pushes opts now vi (ms_info (rg_machine s)) (handles s))))) families))"
  unfolding render_metrics_def by (rule render_reads_back) (rule pushed_series_ok [OF _ _ assms])

text \<open>A registry with one container, at the epoch.\<close>

definition demo_reg :: reg where
  "demo_reg = (reg_start default_machine_info)
     \<lparr>rg_map := [(''/gone'', 0)],
      rg_handles := (\<lambda>_. demo_handle\<lparr>h_spec := default_container_spec\<lparr>spec_creation_time := 62135596800 * 10 ^ 9\<rparr>\<rparr>)\<rparr>"

theorem scrape_reads_back_witness:
  "res_map ex_samples (expo_parse (render_metrics demo_ryu default_metrics_opts (62135596800 * 10 ^ 9)
      default_version_info demo_reg)) =
   Inr (concat (map (\<lambda>f. map (sample_of (fst f)) (served (collected (fst f)
     (all_pushes default_metrics_opts (62135596800 * 10 ^ 9) default_version_info
       (ms_info (rg_machine demo_reg)) (handles demo_reg))))) families))"
proof (rule scrape_reads_back)
  let ?ps = "all_pushes default_metrics_opts (62135596800 * 10 ^ 9) default_version_info
       (ms_info (rg_machine demo_reg)) (handles demo_reg)"
  have f: "f64_of_int 0 = Fin 0" "f64_of_u64 0 = Fin 0" "over (Fin 0) 1000 = Fin 0" "over (Fin 0) 1000000000 = Fin 0"
    "f64_of_rat 0 = Fin 0"
    by (simp_all add: f64_of_int_def f64_of_u64_def f64_of_rat_def rnd53_def over_def f64_div_def)
  have w: "list_all P (with_labels base extra) \<longleftrightarrow> list_all P base \<and> list_all P extra" for P base extra
    by (auto simp: with_labels_def list_all_iff)
  have own: "own_labels default_metrics_opts h = [(''id'', ''/gone'')]"
    if "h = demo_handle\<lparr>h_spec := default_container_spec\<lparr>spec_creation_time := 62135596800 * 10 ^ 9\<rparr>\<rparr>" for h
    unfolding that by code_simp
  have u: "union_keys [[(''id'', ''/gone'')]] = [''id'']" "unioned [(''id'', ''/gone'')] [''id''] = [(''id'', ''/gone'')]"
    by code_simp+
  have l: "ts_latest (h_store demo_handle) = None" by code_simp
  show "list_all (push_ok demo_ryu) ?ps"
    by (simp add: all_pushes_def handles_def demo_reg_def own u container_pushes_def l
        version_pushes_def machine_pushes_def machine_labels_def spec_pushes_def life_pushes_def
        push_ok_def w f reg_start_def default_container_spec_def default_machine_info_def
        default_version_info_def i64_ok_def timestamp_millis_def unix_ns_def default_nvm_info_def Let_def)
qed

end
