(* ===== verification/Api_Common.thy ===== *)
theory Api_Common
  imports Manager_Query
begin

text \<open>
  \<open>crates/cadvisor-api/src/common.rs\<close>: responses, query parameters and the decoding of URLs. A response
  is its status, content type and body; a streamed one has the query whose events it sends. What
  \<open>serde_json\<close> makes of a value is the parameter \<open>to_vec\<close>, and \<open>time_of\<close> is its reading of a
  \<open>GoTime\<close> out of a string value; \<open>Wire_Api\<close> puts serde in their place.

  The lemmas: \<open>url_decode\<close> takes back percent encoding, and \<open>Params::parse\<close> a whole encoded query.
\<close>

section \<open>Responses\<close>

text \<open>What the handlers serialise. A \<open>HashMap\<close> or \<open>BTreeMap\<close> is the list of its entries in key order.\<close>

datatype payload =
    PMachine machine_info | PContainer container_info | PContainers "container_info list"
  | PDocker "(string \<times> container_info) list" | PEvents "event list" | PEvent event | PText string
  | PAttributes attributes | PStats "(string \<times> v2_container_info) list"
  | PDeprecatedStats "(string \<times> deprecated_container_stats list) list"
  | PMachineStats "machine_stats list" | PSpecs "(string \<times> v2_container_spec) list"
  | PSummaries "(string \<times> derived_stats_row) list" | PProcesses "process_info list"
  | PStorage "v2_fs_info list" | PAppMetrics

datatype response =
    Response (rs_status: nat) (rs_type: string) (rs_body: string)
  | Streamed (rs_status: nat) (rs_type: string) event_query

type_synonym to_vec = "payload \<Rightarrow> (string, string) res"

definition plain :: "nat \<Rightarrow> string \<Rightarrow> response" where
  "plain status body = Response status ''text/plain; charset=utf-8'' (body @ [nl])"

definition json :: "to_vec \<Rightarrow> payload \<Rightarrow> response" where
  "json to_vec v =
     (case to_vec v of
        Inr body \<Rightarrow> Response 200 ''application/json'' body
      | Inl e \<Rightarrow> plain 500 (''failed to marshal: '' @ e))"

text \<open>What a handler works with beside the registry: the configuration, the host, the version
  information, the clock and the libraries.\<close>

record api_env =
  ae_cfg :: manager_config
  ae_host :: host
  ae_version :: version_info
  ae_now :: gotime
  ae_num_ns :: "int \<Rightarrow> int option"
  ae_to_vec :: to_vec
  ae_from_slice :: "string \<Rightarrow> container_info_request option"
  ae_time_of :: "string \<Rightarrow> gotime option"
  ae_io_text :: "io_kind \<Rightarrow> string"

text \<open>\<open>[&str]::join\<close>.\<close>

fun join_with :: "string \<Rightarrow> string list \<Rightarrow> string" where
  "join_with sep [] = []"
| "join_with sep [s] = s"
| "join_with sep (s # ss) = s @ sep @ join_with sep ss"

section \<open>Debug and Display\<close>

text \<open>\<open>{:?}\<close> of a string. A byte of a character beyond ASCII is printed as it is: the characters that
  Unicode does not count as printable are not told apart.\<close>

definition lower_hex :: "nat \<Rightarrow> char" where
  "lower_hex n = (if n < 10 then digit_char n else char_of (87 + n))"

definition debug_char :: "char \<Rightarrow> string" where
  "debug_char c =
     (if c = CHR 0x22 \<or> c = CHR 0x5C then [CHR 0x5C, c]
      else if c = nl then [CHR 0x5C, CHR ''n'']
      else if c = CHR 0x0D then [CHR 0x5C, CHR ''r'']
      else if c = CHR 0x09 then [CHR 0x5C, CHR ''t'']
      else if c = CHR 0x00 then [CHR 0x5C, CHR ''0'']
      else if code c < 32 \<or> code c = 127 then
        [CHR 0x5C, CHR ''u'', CHR ''{''] @ (if code c < 16 then [] else [lower_hex (code c div 16)]) @
        [lower_hex (code c mod 16), CHR ''}'']
      else [c])"

definition debug_str :: "string \<Rightarrow> string" where
  "debug_str s = CHR 0x22 # concat (map debug_char s) @ [CHR 0x22]"

text \<open>The text of an \<open>io::Error\<close> is the parameter \<open>io_text\<close>.\<close>

fun host_error_text :: "(io_kind \<Rightarrow> string) \<Rightarrow> host_error \<Rightarrow> string" where
  "host_error_text io_text (Io path source) = ''reading '' @ path @ '': '' @ io_text source"
| "host_error_text io_text (Parse what detail) = ''parsing '' @ what @ '': '' @ detail"

fun manager_error_text :: "(io_kind \<Rightarrow> string) \<Rightarrow> manager_error \<Rightarrow> string" where
  "manager_error_text io_text (UnknownContainer name) = ''unknown container '' @ debug_str name"
| "manager_error_text io_text (Host e) = host_error_text io_text e"
| "manager_error_text io_text (NotCgroup2 mnt) =
     mnt @ '' is not a cgroup v2 mount (no cgroup.controllers): cadvisor needs the host's unified cgroup tree there''"

section \<open>Decoding\<close>

text \<open>The first character of a string of bytes: whether its bytes are valid UTF-8, and how many bytes
  it takes, of a broken one the longest part that could have begun a character.\<close>

definition byte_in :: "string \<Rightarrow> nat \<Rightarrow> nat \<Rightarrow> nat \<Rightarrow> bool" where
  "byte_in s k lo hi \<longleftrightarrow> k < length s \<and> lo \<le> code (s ! k) \<and> code (s ! k) \<le> hi"

definition utf8_unit :: "string \<Rightarrow> bool \<times> nat" where
  "utf8_unit s =
     (let b = code (hd s) in
      if b < 128 then (True, 1)
      else if 194 \<le> b \<and> b < 224 then (if byte_in s 1 128 191 then (True, 2) else (False, 1))
      else if 224 \<le> b \<and> b < 240 then
        (if \<not> byte_in s 1 (if b = 224 then 160 else 128) (if b = 237 then 159 else 191) then (False, 1)
         else if byte_in s 2 128 191 then (True, 3) else (False, 2))
      else if 240 \<le> b \<and> b < 245 then
        (if \<not> byte_in s 1 (if b = 240 then 144 else 128) (if b = 244 then 143 else 191) then (False, 1)
         else if \<not> byte_in s 2 128 191 then (False, 2)
         else if byte_in s 3 128 191 then (True, 4) else (False, 3))
      else (False, 1))"

lemma utf8_unit_pos: "0 < snd (utf8_unit s)"
  by (simp add: utf8_unit_def Let_def)

text \<open>\<open>String::from_utf8_lossy\<close>: each broken part becomes the replacement character.\<close>

function utf8_lossy :: "string \<Rightarrow> string" where
  "utf8_lossy s =
     (if s = [] then []
      else (let (ok, n) = utf8_unit s in
            (if ok then take n s else [CHR 0xEF, CHR 0xBF, CHR 0xBD]) @ utf8_lossy (drop n s)))"
  by pat_completeness auto

termination
proof (relation "measure length")
  fix s :: string and u ok n
  assume s: "s \<noteq> []" "u = utf8_unit s" "(ok, n) = u"
  have "0 < n" using utf8_unit_pos [of s] s(2,3) by (metis snd_conv)
  then show "(drop n s, s) \<in> measure length" using s(1) by simp
qed simp

declare utf8_lossy.simps [simp del]

fun url_bytes :: "string \<Rightarrow> string" where
  "url_bytes [] = []"
| "url_bytes (c # r) =
     (case r of
        h # l # r' \<Rightarrow>
          if c = CHR ''%'' then
            (case parse_hex 255 [h, l] of
               Some b \<Rightarrow> char_of b # url_bytes r'
             | None \<Rightarrow> c # url_bytes r)
          else if c = CHR ''+'' then CHR '' '' # url_bytes r
          else c # url_bytes r
      | _ \<Rightarrow> if c = CHR ''+'' then CHR '' '' # url_bytes r else c # url_bytes r)"

definition url_decode :: "string \<Rightarrow> string" where
  "url_decode s = utf8_lossy (url_bytes s)"

section \<open>Parameters\<close>

type_synonym params = "(string \<times> string) list"

definition params_parse :: "string option \<Rightarrow> params" where
  "params_parse raw =
     (case raw of
        None \<Rightarrow> []
      | Some raw \<Rightarrow>
          map (\<lambda>pair. case split_once CHR ''='' pair of
                 Some (k, v) \<Rightarrow> (url_decode k, url_decode v)
               | None \<Rightarrow> (url_decode pair, url_decode []))
            (split_char CHR ''&'' raw))"

definition params_get :: "params \<Rightarrow> string \<Rightarrow> string option" where
  "params_get ps key = map_option snd (find (\<lambda>(k, _). k = key) ps)"

definition get_bool :: "params \<Rightarrow> string \<Rightarrow> bool" where
  "get_bool ps key = (case params_get ps key of Some v \<Rightarrow> v = ''true'' | None \<Rightarrow> False)"

definition get_time :: "(string \<Rightarrow> gotime option) \<Rightarrow> params \<Rightarrow> string \<Rightarrow> gotime" where
  "get_time time_of ps key =
     (case params_get ps key of
        Some v \<Rightarrow> (case time_of v of Some t \<Rightarrow> t | None \<Rightarrow> 0)
      | None \<Rightarrow> 0)"

section \<open>Percent encoding\<close>

definition unreserved :: "char \<Rightarrow> bool" where
  "unreserved c \<longleftrightarrow> is_ascii_alphanumeric c \<or> c \<in> {CHR ''-'', CHR ''.'', CHR ''_'', CHR ''~''}"

definition upper_hex :: "nat \<Rightarrow> char" where
  "upper_hex n = (if n < 10 then digit_char n else char_of (55 + n))"

definition pct_char :: "char \<Rightarrow> string" where
  "pct_char c =
     (if unreserved c then [c] else [CHR ''%'', upper_hex (code c div 16), upper_hex (code c mod 16)])"

definition pct_encode :: "string \<Rightarrow> string" where
  "pct_encode s = concat (map pct_char s)"

lemma unreserved_not: "unreserved c \<Longrightarrow> c \<noteq> CHR ''%'' \<and> c \<noteq> CHR ''+'' \<and> c \<noteq> CHR ''&'' \<and> c \<noteq> CHR ''=''"
  by (auto simp: unreserved_def is_ascii_alphanumeric_def is_digit_def is_ascii_lowercase_def
      is_ascii_uppercase_def code_def)

lemma upper_hex_code: "n < 16 \<Longrightarrow> code (upper_hex n) = (if n < 10 then 48 + n else 55 + n)"
  by (simp add: upper_hex_def code_digit_char code_char_of)

lemma upper_hex_val: "n < 16 \<Longrightarrow> hex_digit_val (upper_hex n) = Some n"
  by (simp add: hex_digit_val_def upper_hex_code is_digit_def)

lemma upper_hex_not: "n < 16 \<Longrightarrow> upper_hex n \<noteq> CHR ''+'' \<and> upper_hex n \<noteq> CHR ''&'' \<and> upper_hex n \<noteq> CHR ''=''"
  using upper_hex_code [of n] by (auto simp: code_def split: if_splits)

lemma parse_hex_byte: "parse_hex 255 [upper_hex (code c div 16), upper_hex (code c mod 16)] = Some (code c)"
proof -
  have d: "code c div 16 < 16" "code c mod 16 < 16" using code_less [of c] by linarith+
  have "code c \<le> 255" using code_less [of c] by linarith
  then show ?thesis using upper_hex_not [OF d(1)]
    by (simp add: parse_hex_def unsigned_digits_def upper_hex_val [OF d(1)] upper_hex_val [OF d(2)] Let_def)
qed

lemma url_bytes_pct: "url_bytes (pct_char c @ r) = c # url_bytes r"
proof (cases "unreserved c")
  case True
  then show ?thesis using unreserved_not [OF True] by (simp add: pct_char_def split: list.split)
next
  case False
  then show ?thesis by (simp add: pct_char_def parse_hex_byte del: url_bytes.simps(2)) (subst url_bytes.simps, simp add: parse_hex_byte)
qed

lemma url_bytes_encode: "url_bytes (pct_encode s) = s"
  by (induction s) (simp_all add: pct_encode_def url_bytes_pct)

lemma pct_encode_not: "CHR ''&'' \<notin> set (pct_encode s) \<and> CHR ''='' \<notin> set (pct_encode s)"
proof -
  have "CHR ''&'' \<notin> set (pct_char c) \<and> CHR ''='' \<notin> set (pct_char c)" for c
  proof -
    have d: "code c div 16 < 16" "code c mod 16 < 16" using code_less [of c] by linarith+
    show ?thesis using unreserved_not [of c] upper_hex_not [OF d(1)] upper_hex_not [OF d(2)]
      by (auto simp: pct_char_def)
  qed
  then show ?thesis by (auto simp: pct_encode_def)
qed

text \<open>A query string as a client writes it.\<close>

fun query_string :: "params \<Rightarrow> string" where
  "query_string [] = []"
| "query_string [(k, v)] = pct_encode k @ ''='' @ pct_encode v"
| "query_string ((k, v) # ps) = pct_encode k @ ''='' @ pct_encode v @ ''&'' @ query_string ps"

text \<open>Every Rust \<open>String\<close> is one that the lossy conversion keeps.\<close>

definition utf8_ok :: "string \<Rightarrow> bool" where
  "utf8_ok s \<longleftrightarrow> utf8_lossy s = s"

lemma ascii_utf8_ok: "list_all (\<lambda>c. code c < 128) s \<Longrightarrow> utf8_ok s"
proof (induction s)
  case Nil
  then show ?case by (simp add: utf8_ok_def utf8_lossy.simps)
next
  case (Cons c s)
  then have "utf8_unit (c # s) = (True, 1)" by (simp add: utf8_unit_def)
  then show ?case using Cons by (subst utf8_ok_def, subst utf8_lossy.simps) (simp add: utf8_ok_def)
qed

lemma url_decode_encode: "utf8_ok s \<Longrightarrow> url_decode (pct_encode s) = s"
  by (simp add: url_decode_def url_bytes_encode utf8_ok_def)

lemma split_query:
  "ps \<noteq> [] \<Longrightarrow> split_char CHR ''&'' (query_string ps) = map (\<lambda>(k, v). pct_encode k @ ''='' @ pct_encode v) ps"
proof (induction ps rule: query_string.induct)
  case (2 k v)
  have "CHR ''&'' \<notin> set (pct_encode k @ ''='' @ pct_encode v)" using pct_encode_not by simp
  then show ?case using split_char_plain by simp
next
  case (3 k v p ps)
  have "CHR ''&'' \<notin> set (pct_encode k @ ''='' @ pct_encode v)" using pct_encode_not by simp
  from split_char_append [OF this, of "query_string (p # ps)"] show ?case using 3 by simp
qed simp

section \<open>Properties\<close>

text \<open>C30: the server reads a query back as the client wrote it: every list of parameters with arbitrary
  keys and values, percent-encoded, joined and parsed.\<close>

theorem params_roundtrip:
  assumes "ps \<noteq> []" "\<forall>(k, v) \<in> set ps. utf8_ok k \<and> utf8_ok v"
  shows "params_parse (Some (query_string ps)) = ps"
proof -
  have "split_once CHR ''='' (pct_encode k @ ''='' @ pct_encode v) = Some (pct_encode k, pct_encode v)" for k v
    using split_once_append [of "CHR ''=''" "pct_encode k" "pct_encode v"] pct_encode_not by simp
  then show ?thesis using assms(2)
    by (auto simp: params_parse_def split_query [OF assms(1)] comp_def url_decode_encode intro!: map_idI)
qed

theorem params_roundtrip_witness:
  "params_parse (Some (query_string [(''a b'', ''x&y=%''), (''b'', [])])) = [(''a b'', ''x&y=%''), (''b'', [])]"
  by (rule params_roundtrip) (simp_all add: ascii_utf8_ok code_def)

end
