(* ===== verification/Api_V1.thy ===== *)
theory Api_V1
  imports Api_Common
begin

text \<open>
  The v1 handlers of \<open>crates/cadvisor-api/src/v1.rs\<close>: the request body, the routes of v1.0 to v1.3 and
  the event queries. A streamed response is \<open>Streamed\<close> with its query; \<open>stream_lines\<close> is what its task
  sends, from what the subscription receives (\<open>None\<close> an error of \<open>recv\<close>: closed, or lagged behind).
\<close>

section \<open>Requests\<close>

definition decode_request :: "api_env \<Rightarrow> string \<Rightarrow> container_info_request" where
  "decode_request ae body =
     (if body = [] then default_container_info_request
      else case ae_from_slice ae body of Some req \<Rightarrow> req | None \<Rightarrow> default_container_info_request)"

definition event_query_of :: "api_env \<Rightarrow> string \<Rightarrow> params \<Rightarrow> event_query" where
  "event_query_of ae container_name ps =
     (let all = get_bool ps ''all_events'' in
      \<lparr>eq_container_name = container_name,
       eq_include_subcontainers = get_bool ps ''subcontainers'',
       eq_event_types =
         (if all \<or> get_bool ps ''oom_events'' then [Oom] else []) @
         (if all \<or> get_bool ps ''oom_kill_events'' then [OomKill] else []) @
         (if all \<or> get_bool ps ''creation_events'' then [ContainerCreation] else []) @
         (if all \<or> get_bool ps ''deletion_events'' then [ContainerDeletion] else []),
       eq_max_events =
         (case Option.bind (params_get ps ''max_events'') parse_u64 of Some n \<Rightarrow> unat n | None \<Rightarrow> 10),
       eq_start_time = get_time (ae_time_of ae) ps ''start_time'',
       eq_end_time = get_time (ae_time_of ae) ps ''end_time''\<rparr>)"

definition handle_events :: "api_env \<Rightarrow> reg \<Rightarrow> string \<Rightarrow> params \<Rightarrow> response" where
  "handle_events ae s container_name ps =
     (let q = event_query_of ae container_name ps in
      if \<not> get_bool ps ''stream'' then json (ae_to_vec ae) (PEvents (query_events q (rg_log s)))
      else Streamed 200 ''application/json'' q)"

fun stream_lines :: "to_vec \<Rightarrow> event_query \<Rightarrow> event option list \<Rightarrow> string list" where
  "stream_lines to_vec q [] = []"
| "stream_lines to_vec q (None # rx) = []"
| "stream_lines to_vec q (Some ev # rx) =
     (if eq_matches q ev then
        (case to_vec (PEvent ev) of
           Inr l \<Rightarrow> (l @ [nl]) # stream_lines to_vec q rx
         | Inl _ \<Rightarrow> stream_lines to_vec q rx)
      else stream_lines to_vec q rx)"

section \<open>Routes\<close>

definition v1_types :: string where
  "v1_types =
     ''Supported request types: '' @
     join_with '','' (map debug_str [''containers'', ''docker'', ''events'', ''machine'', ''subcontainers''])"

definition lookup_failed :: "api_env \<Rightarrow> string \<Rightarrow> string \<Rightarrow> manager_error \<Rightarrow> response" where
  "lookup_failed ae what name e =
     plain 500 (''failed to get '' @ what @ '' '' @ debug_str name @ '' with error: '' @
       manager_error_text (ae_io_text ae) e)"

definition handle_v1 ::
  "api_env \<Rightarrow> reg \<Rightarrow> string \<Rightarrow> string \<Rightarrow> string \<Rightarrow> params \<Rightarrow> string \<Rightarrow> response" where
  "handle_v1 ae s version request_type container_name ps body =
     (if request_type = [] then plain 400 v1_types
      else if request_type = ''machine'' then json (ae_to_vec ae) (PMachine (ms_info (rg_machine s)))
      else if request_type = ''containers'' then
        (case container_info_of s container_name (decode_request ae body) of
           Inr info \<Rightarrow> json (ae_to_vec ae) (PContainer info)
         | Inl e \<Rightarrow> lookup_failed ae ''container'' container_name e)
      else if version \<in> {''v1.1'', ''v1.2'', ''v1.3''} \<and> request_type = ''subcontainers'' then
        (case subcontainers_info s container_name (decode_request ae body) of
           Inr infos \<Rightarrow> json (ae_to_vec ae) (PContainers infos)
         | Inl e \<Rightarrow> lookup_failed ae ''subcontainers for container'' container_name e)
      else if version \<in> {''v1.2'', ''v1.3''} \<and> request_type = ''docker'' then
        (let i = trim_start_char CHR ''/'' container_name in
         case docker_containers s i (decode_request ae body) of
           Inr m \<Rightarrow> json (ae_to_vec ae) (PDocker m)
         | Inl e \<Rightarrow> lookup_failed ae ''Docker container'' i e)
      else if version = ''v1.3'' \<and> request_type = ''events'' then handle_events ae s container_name ps
      else plain 500 (''unknown request type '' @ debug_str request_type))"

section \<open>Lemmas\<close>

text \<open>The outcomes a handler can have: JSON with status 200, or plain text with another status.\<close>

definition outcome :: "api_env \<Rightarrow> nat set \<Rightarrow> response \<Rightarrow> bool" where
  "outcome ae errors r \<longleftrightarrow>
     (case r of
        Response st ty b \<Rightarrow>
          (st = 200 \<and> ty = ''application/json'' \<and> (\<exists>v. ae_to_vec ae v = Inr b)) \<or>
          (st \<in> errors \<and> ty = ''text/plain; charset=utf-8'' \<and> b \<noteq> [] \<and> last b = nl)
      | Streamed st ty q \<Rightarrow> st = 200 \<and> ty = ''application/json'')"

named_theorems outcomes \<open>outcomes of the handlers\<close>

lemma outcome_plain [outcomes]: "st \<in> errors \<Longrightarrow> outcome ae errors (plain st b)"
  by (simp add: outcome_def plain_def)

lemma outcome_json [outcomes]: "500 \<in> errors \<Longrightarrow> outcome ae errors (json (ae_to_vec ae) v)"
  by (auto simp: outcome_def json_def plain_def split: sum.split)

lemma outcome_events [outcomes]: "500 \<in> errors \<Longrightarrow> outcome ae errors (handle_events ae s name ps)"
  unfolding handle_events_def Let_def using outcome_json by (auto simp: outcome_def)

lemma outcome_if:
  "(b \<Longrightarrow> outcome ae errors x) \<Longrightarrow> (\<not> b \<Longrightarrow> outcome ae errors y) \<Longrightarrow> outcome ae errors (if b then x else y)"
  by simp

lemma outcome_sum:
  "(\<And>e. r = Inl e \<Longrightarrow> outcome ae errors (f e)) \<Longrightarrow> (\<And>x. r = Inr x \<Longrightarrow> outcome ae errors (g x)) \<Longrightarrow>
     outcome ae errors (case r of Inl e \<Rightarrow> f e | Inr x \<Rightarrow> g x)"
  by (cases r) simp_all

lemma outcome_lookup [outcomes]: "500 \<in> errors \<Longrightarrow> outcome ae errors (lookup_failed ae what name e)"
  unfolding lookup_failed_def by (rule outcome_plain)

lemma outcome_v1 [outcomes]:
  assumes "request_type \<noteq> []" "500 \<in> errors"
  shows "outcome ae errors (handle_v1 ae s version request_type name ps body)"
  unfolding handle_v1_def Let_def
  by (intro outcome_if outcome_sum outcomes assms) (use assms in simp)

text \<open>What a client of a stream receives: the matching events in order, until the subscription fails.\<close>

lemma stream_lines_spec:
  "stream_lines to_vec q rx =
     List.map_filter (\<lambda>ev. map_option (\<lambda>l. l @ [nl]) (res_ok (to_vec (PEvent ev))))
       (filter (eq_matches q) (map the (takeWhile (\<lambda>r. r \<noteq> None) rx)))"
  by (induction to_vec q rx rule: stream_lines.induct) (auto split: sum.split)

end
