(* ===== verification/Derive.thy ===== *)
theory Derive
  imports Model_V1
begin

text \<open>
  \<open>crates/cadvisor-manager/src/derive.rs\<close>: the CPU rate in nanocores per second between two
  samples. \<open>TimeDelta::num_nanoseconds\<close> of chrono is the parameter \<open>num_ns\<close>. The lemmas relate the
  double precision computation to the exact quotient through the locale \<open>f64_rounding\<close>.
\<close>

section \<open>Operations\<close>

definition inst_rate :: "u64 \<Rightarrow> u64 \<Rightarrow> u64 \<Rightarrow> u64 option" where
  "inst_rate delta_ns last_v cur_v =
     (if cur_v < last_v then None
      else let delta = cur_v - last_v in
        Some (f64_to_u64 (f64_mul (f64_div (f64_of_u64 delta) (f64_of_u64 delta_ns)) (Fin 1000000000))))"

fun inst_rates :: "u64 \<Rightarrow> u64 list \<Rightarrow> u64 list \<Rightarrow> u64 list option" where
  "inst_rates delta_ns (l # ls) (c # cs) =
     (case inst_rate delta_ns l c of
        None \<Rightarrow> None
      | Some r \<Rightarrow> map_option ((#) r) (inst_rates delta_ns ls cs))"
| "inst_rates delta_ns _ _ = Some []"

definition inst_cpu ::
  "(int \<Rightarrow> int option) \<Rightarrow> container_stats \<Rightarrow> container_stats \<Rightarrow> cpu_inst_stats option" where
  "inst_cpu num_ns prev cur =
     (let lu = cpu_usage (stats_cpu prev); cu = cpu_usage (stats_cpu cur) in
      if stats_timestamp cur \<le> stats_timestamp prev then None
      else if length (usage_per_cpu lu) \<noteq> length (usage_per_cpu cu) then None
      else case num_ns (stats_timestamp cur - stats_timestamp prev) of
        None \<Rightarrow> None
      | Some ns \<Rightarrow>
          (let delta_ns = word_of_int ns :: u64 in
           if delta_ns = 0 then None
           else case inst_rates delta_ns (usage_per_cpu lu) (usage_per_cpu cu) of
             None \<Rightarrow> None
           | Some per_cpu \<Rightarrow>
               (case inst_rate delta_ns (usage_total lu) (usage_total cu) of
                  None \<Rightarrow> None
                | Some t \<Rightarrow>
                    (case inst_rate delta_ns (usage_user lu) (usage_user cu) of
                       None \<Rightarrow> None
                     | Some user \<Rightarrow>
                         (case inst_rate delta_ns (usage_system lu) (usage_system cu) of
                            None \<Rightarrow> None
                          | Some system \<Rightarrow>
                              Some \<lparr>inst_usage = \<lparr>instu_total = t, instu_per_cpu = per_cpu,
                                instu_user = user, instu_system = system\<rparr>\<rparr>)))))"

section \<open>The rate\<close>

lemma unat_lt_2_64: "unat (v :: u64) < 2 ^ 64"
proof -
  have "unat v < 2 ^ LENGTH(64)" by (rule unsigned_less)
  then show ?thesis by simp
qed

lemma of_nat_unat_le: "(of_nat (unat (v :: u64)) :: rat) \<le> 2 ^ 64"
proof -
  have "unat v \<le> 2 ^ 64" using unat_lt_2_64 [of v] by simp
  then have "(of_nat (unat v) :: rat) \<le> of_nat (2 ^ 64)" by (simp only: of_nat_le_iff)
  then show ?thesis by simp
qed

lemma rnd53_of_u64_le: "rnd53 (of_nat (unat (v :: u64))) \<le> 2 ^ 65"
proof -
  have "rnd53 (of_nat (unat v)) \<le> rnd53 (2 ^ 64)" using of_nat_unat_le by (rule dbl.mono)
  also have "\<dots> \<le> 2 ^ 65" using dbl.integer_error [of "2 ^ 64"] by (simp add: abs_le_iff)
  finally show ?thesis .
qed

text \<open>No operation of the rate overflows, so it is the rate of \<open>f64_rounding\<close>, truncated.\<close>

lemma inst_rate_value:
  assumes "delta_ns \<noteq> 0" "last_v \<le> cur_v"
  shows "inst_rate delta_ns last_v cur_v =
     Some (f64_to_u64 (Fin (dbl.rate (unat (cur_v - last_v)) (unat delta_ns) 1000000000)))"
proof -
  define a where "a = rnd53 (of_nat (unat (cur_v - last_v)))"
  define b where "b = rnd53 (of_nat (unat delta_ns))"
  have "1 \<le> unat delta_ns" using assms(1) by (simp add: unat_gt_0 Suc_le_eq)
  then have "(of_nat 1 :: rat) \<le> of_nat (unat delta_ns)" by (simp only: of_nat_le_iff)
  then have "(1 :: rat) \<le> of_nat (unat delta_ns)" by (simp only: of_nat_1)
  then have b: "1 \<le> b" unfolding b_def by (rule rnd53_pos)
  have a: "0 \<le> a" "a \<le> 2 ^ 65"
    unfolding a_def by (intro dbl.nonneg of_nat_0_le_iff) (rule rnd53_of_u64_le)
  have "a / b \<le> a" using a b by (simp add: divide_le_eq mult_le_cancel_left1)
  then have ab: "0 \<le> a / b" "a / b \<le> 2 ^ 65" using a b by (auto intro: order_trans)
  have q: "0 \<le> rnd53 (a / b)" "rnd53 (a / b) \<le> 2 ^ 66"
  proof -
    show "0 \<le> rnd53 (a / b)" using ab(1) by (rule dbl.nonneg)
    have "rnd53 (a / b) \<le> rnd53 (2 ^ 65)" using ab(2) by (rule dbl.mono)
    also have "\<dots> \<le> 2 ^ 66" using dbl.integer_error [of "2 ^ 65"] by (simp add: abs_le_iff)
    finally show "rnd53 (a / b) \<le> 2 ^ 66" .
  qed
  have d: "f64_div (Fin a) (Fin b) = Fin (rnd53 (a / b))"
    using ab b by (simp add: f64_div_def f64_of_rat_Fin)
  have m: "f64_mul (Fin (rnd53 (a / b))) (Fin 1000000000) = Fin (rnd53 (rnd53 (a / b) * 1000000000))"
    using q by (simp add: f64_mul_def f64_of_rat_Fin)
  have "f64_mul (f64_div (f64_of_u64 (cur_v - last_v)) (f64_of_u64 delta_ns)) (Fin 1000000000) =
      Fin (dbl.rate (unat (cur_v - last_v)) (unat delta_ns) 1000000000)"
    unfolding f64_of_u64_Fin dbl.rate_def a_def [symmetric] b_def [symmetric] d m of_nat_numeral ..
  then show ?thesis
    using assms(2) unfolding inst_rate_def Let_def by (simp del: f64_to_u64.simps)
qed

lemma inst_rate_None: "inst_rate delta_ns last_v cur_v = None \<longleftrightarrow> cur_v < last_v"
  by (simp add: inst_rate_def Let_def)

lemma inst_rates_None:
  "length ls = length cs \<Longrightarrow>
     inst_rates delta_ns ls cs = None \<longleftrightarrow> (\<exists>i < length ls. cs ! i < ls ! i)"
proof (induction ls cs rule: list_induct2)
  case (Cons l ls c cs)
  then show ?case
    using inst_rate_None [of delta_ns l c]
    by (cases "inst_rate delta_ns l c") (auto simp: Ex_less_Suc2 split: option.splits)
qed simp

lemma inst_rates_length:
  "length ls = length cs \<Longrightarrow> inst_rates delta_ns ls cs = Some rs \<Longrightarrow> length rs = length cs"
  by (induction ls cs arbitrary: rs rule: list_induct2) (auto split: option.splits)

lemma unat_f64_to_u64: "unat (f64_to_u64 (Fin q)) = (if q \<le> 0 then 0 else min (nat \<lfloor>q\<rfloor>) u64_max)"
proof -
  have "take_bit 64 (min n u64_max) = min n u64_max" for n
    by (rule take_bit_nat_eq_self) (simp add: u64_max_def)
  then show ?thesis by (simp add: unsigned_of_nat)
qed

lemma f64_to_u64_mono: "p \<le> q \<Longrightarrow> f64_to_u64 (Fin p) \<le> f64_to_u64 (Fin q)"
proof -
  assume le: "p \<le> q"
  have "min (nat \<lfloor>p\<rfloor>) u64_max \<le> min (nat \<lfloor>q\<rfloor>) u64_max"
    using floor_mono [OF le] by (intro min.mono) auto
  then show ?thesis using le by (simp only: word_le_nat_alt unat_f64_to_u64) auto
qed

section \<open>Properties\<close>

text \<open>C7: \<open>inst_cpu\<close> gives no rate exactly in the cases its comment names, as long as the two
  samples are less than 292 years apart: time did not move forward, the number of per-cpu counters
  changed, or a counter decreased.\<close>

theorem inst_cpu_None_iff:
  assumes "\<And>d. 0 < d \<Longrightarrow> d < 2 ^ 63 \<Longrightarrow> num_ns d = Some d"
    and "stats_timestamp cur - stats_timestamp prev < 2 ^ 63"
  defines "lu \<equiv> cpu_usage (stats_cpu prev)" and "cu \<equiv> cpu_usage (stats_cpu cur)"
  shows "inst_cpu num_ns prev cur = None \<longleftrightarrow>
     stats_timestamp cur \<le> stats_timestamp prev
   \<or> length (usage_per_cpu lu) \<noteq> length (usage_per_cpu cu)
   \<or> (\<exists>i < length (usage_per_cpu lu). usage_per_cpu cu ! i < usage_per_cpu lu ! i)
   \<or> usage_total cu < usage_total lu \<or> usage_user cu < usage_user lu
   \<or> usage_system cu < usage_system lu"
proof (cases "stats_timestamp cur \<le> stats_timestamp prev \<or> length (usage_per_cpu lu) \<noteq> length (usage_per_cpu cu)")
  case True
  then show ?thesis unfolding inst_cpu_def Let_def lu_def cu_def by auto
next
  case False
  define d where "d = stats_timestamp cur - stats_timestamp prev"
  have d: "0 < d" "d < 2 ^ 63" using False assms(2) by (auto simp: d_def)
  have nz: "(word_of_int d :: u64) \<noteq> 0"
    using d zdvd_not_zless [of d "2 ^ 64"] by (simp add: word_of_int_eq_0_iff)
  have "inst_cpu num_ns prev cur = None \<longleftrightarrow>
      inst_rates (word_of_int d) (usage_per_cpu lu) (usage_per_cpu cu) = None \<or>
      inst_rate (word_of_int d) (usage_total lu) (usage_total cu) = None \<or>
      inst_rate (word_of_int d) (usage_user lu) (usage_user cu) = None \<or>
      inst_rate (word_of_int d) (usage_system lu) (usage_system cu) = None"
    using False assms(1) [OF d] nz unfolding inst_cpu_def Let_def lu_def cu_def
    by (auto simp flip: d_def split: option.split)
  also have "\<dots> \<longleftrightarrow> (\<exists>i < length (usage_per_cpu lu). usage_per_cpu cu ! i < usage_per_cpu lu ! i)
      \<or> usage_total cu < usage_total lu \<or> usage_user cu < usage_user lu
      \<or> usage_system cu < usage_system lu"
    using False by (simp add: inst_rate_None inst_rates_None)
  finally show ?thesis using False by simp
qed


definition chrono_num_ns :: "int \<Rightarrow> int option" where
  "chrono_num_ns d = (if - (2 ^ 63) \<le> d \<and> d < 2 ^ 63 then Some d else None)"

theorem inst_cpu_None_iff_witness:
  "inst_cpu chrono_num_ns (default_container_stats\<lparr>stats_timestamp := 1\<rparr>)
     (default_container_stats\<lparr>stats_timestamp := 1000\<rparr>) \<noteq> None"
  by (subst inst_cpu_None_iff)
    (simp_all add: chrono_num_ns_def default_container_stats_def default_cpu_stats_def default_cpu_usage_def)


end
