(* ===== verification/Api_V2.thy ===== *)
theory Api_V2
  imports Api_V1 Derive
begin

text \<open>
  The v2 handlers of \<open>crates/cadvisor-api/src/v2.rs\<close>: the request options, the conversions of specs and
  samples, the resolution of names, the summary percentiles, the process list and the routes. An
  index of \<open>percentiles_from\<close> is always in range, which the lemmas show. Process ids and unsigned
  counters keep their width; \<open>GoTime::now\<close> is the clock of the request.
\<close>

section \<open>Options\<close>

record request_options =
  ro_id_type :: string
  ro_count :: i64
  ro_recursive :: bool

text \<open>The text of the error of \<open>i64::from_str\<close>: the first character that is no digit, or with which the
  number leaves the range.\<close>

fun int_error_from :: "bool \<Rightarrow> nat \<Rightarrow> string \<Rightarrow> string" where
  "int_error_from neg acc [] = []"
| "int_error_from neg acc (c # r) =
     (if \<not> is_digit c then ''invalid digit found in string''
      else (let acc' = 10 * acc + (code c - 48) in
            if neg \<and> 2 ^ 63 < acc' then ''number too small to fit in target type''
            else if \<not> neg \<and> 2 ^ 63 \<le> acc' then ''number too large to fit in target type''
            else int_error_from neg acc' r))"

definition i64_error :: "string \<Rightarrow> string" where
  "i64_error s =
     (case s of
        [] \<Rightarrow> ''cannot parse integer from empty string''
      | c # r \<Rightarrow>
          if r = [] \<and> (c = CHR ''+'' \<or> c = CHR ''-'') then ''invalid digit found in string''
          else if c = CHR ''-'' then int_error_from True 0 r
          else if c = CHR ''+'' then int_error_from False 0 r
          else int_error_from False 0 s)"

definition parse_options :: "params \<Rightarrow> (string, request_options) res" where
  "parse_options ps =
     (let id_type = (case params_get ps ''type'' of Some t \<Rightarrow> t | None \<Rightarrow> ''name'') in
      if id_type \<notin> {''name'', ''docker'', ''podman''} then Inl (''unknown 'type' '' @ debug_str id_type)
      else
        res_bind
          (case params_get ps ''count'' of
             Some v \<Rightarrow>
               (case parse_i64 v of
                  Some n \<Rightarrow> Inr n
                | None \<Rightarrow> Inl (''invalid 'count' option: '' @ i64_error v))
           | None \<Rightarrow> Inr 64)
          (\<lambda>count. Inr \<lparr>ro_id_type = id_type, ro_count = count,
             ro_recursive = (params_get ps ''recursive'' = Some ''true'')\<rparr>))"

section \<open>Conversions\<close>

definition v2_spec :: "handle \<Rightarrow> v2_container_spec" where
  "v2_spec h =
     (let s = h_spec h; r = h_reference h in
      \<lparr>v2spec_creation_time = spec_creation_time s, v2spec_aliases = ref_aliases r,
       v2spec_namespace = ref_namespace r, v2spec_labels = spec_labels s, v2spec_envs = spec_envs s,
       v2spec_has_cpu = spec_has_cpu s,
       v2spec_cpu = (spec_cpu s)\<lparr>cpuspec_quota := 0, cpuspec_period := 0\<rparr>,
       v2spec_has_memory = spec_has_memory s, v2spec_memory = spec_memory s,
       v2spec_has_hugetlb = spec_has_hugetlb s, v2spec_has_custom_metrics = spec_has_custom_metrics s,
       v2spec_custom_metrics = spec_custom_metrics s, v2spec_has_processes = spec_has_processes s,
       v2spec_processes = default_process_spec, v2spec_has_network = spec_has_network s,
       v2spec_has_filesystem = spec_has_filesystem s, v2spec_has_disk_io = spec_has_disk_io s,
       v2spec_image = spec_image s\<rparr>)"

definition v2_network :: "network_stats \<Rightarrow> v2_network_stats" where
  "v2_network n =
     \<lparr>v2net_interfaces = net_interfaces n, v2net_tcp = net_tcp n, v2net_tcp6 = net_tcp6 n,
      v2net_udp = net_udp n, v2net_udp6 = net_udp6 n, v2net_tcp_advanced = net_tcp_advanced n\<rparr>"

text \<open>\<open>bool::then\<close>.\<close>

definition then_some :: "bool \<Rightarrow> 'a \<Rightarrow> 'a option" where
  "then_some b x = (if b then Some x else None)"

definition v2_filesystem :: "handle \<Rightarrow> container_stats \<Rightarrow> filesystem_stats" where
  "v2_filesystem h s =
     (case stats_filesystem s of
        [fs] \<Rightarrow>
          default_filesystem_stats
            \<lparr>fsroll_total_usage_bytes := Some (Model_V1.fs_usage fs),
             fsroll_base_usage_bytes := Some (fs_base_usage fs),
             fsroll_inode_usage := Some (snd (h_fs_usage h))\<rparr>
      | _ \<Rightarrow> default_filesystem_stats)"

definition v2_sample ::
  "handle \<Rightarrow> container_spec \<Rightarrow> cpu_inst_stats option \<Rightarrow> container_stats \<Rightarrow> v2_container_stats" where
  "v2_sample h spec inst s =
     \<lparr>v2stats_timestamp = stats_timestamp s,
      v2stats_cpu = then_some (spec_has_cpu spec) (stats_cpu s),
      v2stats_cpu_inst = inst,
      v2stats_disk_io = then_some (spec_has_disk_io spec) (stats_disk_io s),
      v2stats_memory = then_some (spec_has_memory spec) (stats_memory s),
      v2stats_hugetlb = then_some (spec_has_hugetlb spec) (stats_hugetlb s),
      v2stats_network = then_some (spec_has_network spec) (v2_network (stats_network s)),
      v2stats_processes = then_some (spec_has_processes spec) (stats_processes s),
      v2stats_filesystem = then_some (spec_has_filesystem spec) (v2_filesystem h s),
      v2stats_load = None,
      v2stats_accelerators = stats_accelerators s, v2stats_custom_metrics = stats_custom_metrics s,
      v2stats_perf_stats = stats_perf_stats s, v2stats_perf_uncore_stats = stats_perf_uncore_stats s,
      v2stats_referenced_memory = stats_referenced_memory s, v2stats_resctrl = stats_resctrl s\<rparr>"

text \<open>The samples with the rates between neighbours, \<open>prev\<close> the sample before the list.\<close>

fun v2_samples ::
  "(int \<Rightarrow> int option) \<Rightarrow> handle \<Rightarrow> container_spec \<Rightarrow> container_stats option \<Rightarrow> container_stats list \<Rightarrow>
     v2_container_stats list" where
  "v2_samples num_ns h spec prev [] = []"
| "v2_samples num_ns h spec prev (s # ss) =
     v2_sample h spec (case prev of Some p \<Rightarrow> inst_cpu num_ns p s | None \<Rightarrow> None) s #
     v2_samples num_ns h spec (Some s) ss"

definition v2_stats :: "(int \<Rightarrow> int option) \<Rightarrow> handle \<Rightarrow> container_spec \<Rightarrow> i64 \<Rightarrow> v2_container_stats list" where
  "v2_stats num_ns h spec n = v2_samples num_ns h spec None (ts_in_range 0 0 n (h_store h))"

definition unwrap_or :: "'a option \<Rightarrow> 'a \<Rightarrow> 'a" where
  "unwrap_or o' d = (case o' of Some x \<Rightarrow> x | None \<Rightarrow> d)"

definition deprecated_sample :: "container_spec \<Rightarrow> v2_container_stats \<Rightarrow> deprecated_container_stats" where
  "deprecated_sample spec s =
     \<lparr>dep_timestamp = v2stats_timestamp s, dep_has_cpu = spec_has_cpu spec,
      dep_cpu = unwrap_or (v2stats_cpu s) default_cpu_stats, dep_cpu_inst = v2stats_cpu_inst s,
      dep_has_disk_io = spec_has_disk_io spec,
      dep_disk_io = unwrap_or (v2stats_disk_io s) default_disk_io_stats,
      dep_has_memory = spec_has_memory spec,
      dep_memory = unwrap_or (v2stats_memory s) default_memory_stats,
      dep_has_hugetlb = spec_has_hugetlb spec, dep_hugetlb = unwrap_or (v2stats_hugetlb s) [],
      dep_has_network = spec_has_network spec,
      dep_network = unwrap_or (v2stats_network s) default_v2_network_stats,
      dep_has_processes = spec_has_processes spec,
      dep_processes = unwrap_or (v2stats_processes s) default_process_stats,
      dep_has_filesystem = spec_has_filesystem spec, dep_filesystem = [],
      dep_has_load = False, dep_load = default_load_stats,
      dep_has_custom_metrics = spec_has_custom_metrics spec,
      dep_custom_metrics = v2stats_custom_metrics s, dep_perf_stats = v2stats_perf_stats s,
      dep_perf_uncore_stats = v2stats_perf_uncore_stats s,
      dep_referenced_memory = v2stats_referenced_memory s, dep_resctrl = v2stats_resctrl s\<rparr>"

definition deprecated_stats ::
  "(int \<Rightarrow> int option) \<Rightarrow> handle \<Rightarrow> container_spec \<Rightarrow> i64 \<Rightarrow> deprecated_container_stats list" where
  "deprecated_stats num_ns h spec n = map (deprecated_sample spec) (v2_stats num_ns h spec n)"

section \<open>Resolution\<close>

definition resolve :: "reg \<Rightarrow> string \<Rightarrow> request_options \<Rightarrow> (string, handle list) res" where
  "resolve s name opts =
     (if ro_id_type opts \<noteq> ''name'' then
        (let i = trim_start_char CHR ''/'' name;
             found = filter (\<lambda>h. let r = h_reference h in
                       ref_namespace r \<noteq> [] \<and>
                       (i = [] \<or> starts_with (ref_id r) i \<or> i \<in> set (ref_aliases r)))
                     (handles s)
         in if found = [] \<and> i \<noteq> [] then Inl (''unable to find container '' @ debug_str name) else Inr found)
      else case handle_of s name of
        None \<Rightarrow> Inl (''unknown container '' @ debug_str name)
      | Some h \<Rightarrow>
          if \<not> ro_recursive opts then Inr [h]
          else
            (let prefix = (if name = ''/'' then ''/'' else name @ ''/'') in
             Inr (sort_key h_name
               (filter (\<lambda>h. h_name h = name \<or> starts_with (h_name h) prefix) (handles s)))))"

section \<open>Summaries\<close>

text \<open>\<open>((n - 1) as f64 * p) as usize\<close>.\<close>

definition pick_index :: "nat \<Rightarrow> f64 \<Rightarrow> nat" where
  "pick_index n p = unat (f64_to_u64 (f64_mul (f64_of_int (int (n - 1))) p))"

definition percentiles_from :: "u64 list \<Rightarrow> percentiles" where
  "percentiles_from xs =
     (if xs = [] then default_percentiles
      else
        (let values = sort xs;
             n = length values;
             pick = (\<lambda>p. values ! pick_index n p)
         in \<lparr>pct_present = True, pct_mean = sum_list values div of_nat n, pct_max = values ! (n - 1),
             pct_fifty = pick (f64_of_rat (1 / 2)), pct_ninety = pick (f64_of_rat (9 / 10)),
             pct_ninety_five = pick (f64_of_rat (95 / 100))\<rparr>))"

fun cpu_rates :: "(int \<Rightarrow> int option) \<Rightarrow> container_stats list \<Rightarrow> u64 list" where
  "cpu_rates num_ns (p # s # ss) =
     (case inst_cpu num_ns p s of
        Some inst \<Rightarrow> [instu_total (inst_usage inst) div 1000000]
      | None \<Rightarrow> []) @ cpu_rates num_ns (s # ss)"
| "cpu_rates num_ns _ = []"

definition derived_stats :: "api_env \<Rightarrow> handle \<Rightarrow> derived_stats_row" where
  "derived_stats ae h =
     (let samples = ts_in_range 0 0 (- 1) (h_store h);
          rates = cpu_rates (ae_num_ns ae) samples;
          mem = map (\<lambda>s. mem_working_set (stats_memory s)) samples in
      \<lparr>derived_timestamp = (if samples = [] then ae_now ae else stats_timestamp (last samples)),
       derived_latest_usage =
         \<lparr>instuse_cpu = (if rates = [] then 0 else last rates),
          instuse_memory = (if samples = [] then 0 else mem_working_set (stats_memory (last samples)))\<rparr>,
       derived_minute_usage =
         \<lparr>use_percent_complete =
            (if 60 \<le> length samples then 100 else int (length samples * 100 div 60)),
          use_cpu = percentiles_from rates, use_memory = percentiles_from mem\<rparr>,
       derived_hour_usage = default_usage_summary, derived_day_usage = default_usage_summary\<rparr>)"

section \<open>Processes\<close>

text \<open>What follows the last \<open>c\<close> of a string.\<close>

definition after_last :: "char \<Rightarrow> string \<Rightarrow> string option" where
  "after_last c s = (if c \<in> set s then Some (rev (takeWhile (\<lambda>d. d \<noteq> c) (rev s))) else None)"

definition read_or_empty :: "os \<Rightarrow> string \<Rightarrow> string" where
  "read_or_empty os path = (case os_read os path of Inr s \<Rightarrow> s | Inl _ \<Rightarrow> [])"

definition proc_path :: "u32 \<Rightarrow> string \<Rightarrow> string" where
  "proc_path pid file = ''/proc/'' @ dec (unat pid) @ ''/'' @ file"

definition uid_of :: "string \<Rightarrow> string" where
  "uid_of status =
     (case List.map_filter (strip_prefix ''Uid:'') (lines status) of
        l # _ \<Rightarrow> (case split_whitespace l of u # _ \<Rightarrow> u | [] \<Rightarrow> [])
      | [] \<Rightarrow> [])"

definition cgroup_path_of :: "(io_kind, string) res \<Rightarrow> string" where
  "cgroup_path_of r =
     (case r of
        Inr c \<Rightarrow>
          (case lines c of
             l # _ \<Rightarrow> (case splitn 3 CHR '':'' l of [_, _, p] \<Rightarrow> p | _ \<Rightarrow> [])
           | [] \<Rightarrow> [])
      | Inl _ \<Rightarrow> [])"

definition process_row :: "os \<Rightarrow> u32 \<Rightarrow> process_info option" where
  "process_row os pid =
     (case after_last CHR '')'' (read_or_empty os (proc_path pid ''stat'')) of
        None \<Rightarrow> None
      | Some rest \<Rightarrow>
          (let fields = split_whitespace rest in
           if length fields < 40 then None
           else Some
             \<lparr>pinfo_user = uid_of (read_or_empty os (proc_path pid ''status'')),
              pinfo_pid = int (unat pid),
              pinfo_ppid = unwrap_or (parse_i64 (fields ! 1)) 0,
              pinfo_start_time = [], pinfo_percent_cpu = Fin 0, pinfo_percent_memory = Fin 0,
              pinfo_rss = unwrap_or (parse_u64 (fields ! 21)) 0 * 4096,
              pinfo_virtual_size = unwrap_or (parse_u64 (fields ! 20)) 0,
              pinfo_status = fields ! 0,
              pinfo_running_time = [],
              pinfo_cgroup_path = cgroup_path_of (os_read os (proc_path pid ''cgroup'')),
              pinfo_cmd =
                trim (map (\<lambda>c. if c = CHR 0x00 then CHR '' '' else c)
                  (read_or_empty os (proc_path pid ''cmdline''))),
              pinfo_fd_count =
                (case os_read_dir os (proc_path pid ''fd'') of Inr es \<Rightarrow> int (length es) | Inl _ \<Rightarrow> 0),
              pinfo_psr = unwrap_or (parse_i64 (fields ! 36)) 0\<rparr>))"

definition process_list :: "api_env \<Rightarrow> reg \<Rightarrow> string \<Rightarrow> process_info list" where
  "process_list ae s name =
     (case container_pids (ae_cfg ae) (ae_host ae) s name of
        None \<Rightarrow> []
      | Some pids \<Rightarrow> List.map_filter (process_row (ho_os (ae_host ae))) pids)"

section \<open>Routes\<close>

definition v2_failed :: "string \<Rightarrow> string \<Rightarrow> string \<Rightarrow> response" where
  "v2_failed what name e = plain 500 (''could not get '' @ what @ '' for '' @ debug_str name @ '': '' @ e)"

definition machine_stats_of :: "api_env \<Rightarrow> v2_container_stats \<Rightarrow> machine_stats" where
  "machine_stats_of ae s =
     \<lparr>mstats_timestamp = v2stats_timestamp s, mstats_cpu = v2stats_cpu s, mstats_cpu_inst = v2stats_cpu_inst s,
      mstats_memory = v2stats_memory s, mstats_network = v2stats_network s,
      mstats_filesystem = machine_fs_stats (ae_host ae), mstats_load = None\<rparr>"

text \<open>The root container is left out: \<open>machinestats\<close> has it.\<close>

definition stats_v21 :: "api_env \<Rightarrow> i64 \<Rightarrow> handle list \<Rightarrow> (string \<times> v2_container_info) list" where
  "stats_v21 ae n hs =
     bt_of_list (map (\<lambda>h. (h_name h, \<lparr>v2info_spec = v2_spec h,
         v2info_stats = v2_stats (ae_num_ns ae) h (h_spec h) n\<rparr>))
       (filter (\<lambda>h. h_name h \<noteq> ''/'') hs))"

definition stats_v20 :: "api_env \<Rightarrow> i64 \<Rightarrow> handle list \<Rightarrow> (string \<times> deprecated_container_stats list) list" where
  "stats_v20 ae n hs =
     bt_of_list (map (\<lambda>h. (h_name h, deprecated_stats (ae_num_ns ae) h (h_spec h) n)) hs)"

definition storage_of :: "api_env \<Rightarrow> params \<Rightarrow> v2_fs_info list" where
  "storage_of ae ps =
     (let out = storage_info (ae_host ae) (ae_now ae) in
      case params_get ps ''label'' of
        Some label \<Rightarrow> filter (\<lambda>fs. label \<in> set (unwrap_or (v2fs_labels fs) [])) out
      | None \<Rightarrow> out)"

definition handle_v2 :: "api_env \<Rightarrow> reg \<Rightarrow> string \<Rightarrow> string \<Rightarrow> string \<Rightarrow> params \<Rightarrow> response" where
  "handle_v2 ae s version resource container_name ps =
     (case parse_options ps of
        Inl e \<Rightarrow> plain 500 e
      | Inr opts \<Rightarrow>
          (let reply = json (ae_to_vec ae); mi = ms_info (rg_machine s); found = resolve s container_name opts in
           if resource = ''version'' then reply (PText (mc_cadvisor_version (ae_cfg ae)))
           else if resource = ''machine'' then reply (PMachine mi)
           else if resource = ''attributes'' then reply (PAttributes (attributes_new mi (ae_version ae)))
           else if resource = ''stats'' then
             (case found of
                Inl e \<Rightarrow> v2_failed ''stats'' container_name e
              | Inr hs \<Rightarrow>
                  if version = ''v2.1'' then reply (PStats (stats_v21 ae (ro_count opts) hs))
                  else reply (PDeprecatedStats (stats_v20 ae (ro_count opts) hs)))
           else if resource = ''machinestats'' \<and> version = ''v2.1'' then
             (case handle_of s ''/'' of
                None \<Rightarrow> plain 500 ''could not get machine stats''
              | Some h \<Rightarrow>
                  reply (PMachineStats (map (machine_stats_of ae)
                    (v2_stats (ae_num_ns ae) h (h_spec h) 10))))
           else if resource = ''spec'' then
             (case found of
                Inl e \<Rightarrow> v2_failed ''spec'' container_name e
              | Inr hs \<Rightarrow> reply (PSpecs (bt_of_list (map (\<lambda>h. (h_name h, v2_spec h)) hs))))
           else if resource = ''summary'' then
             (case found of
                Inl e \<Rightarrow> v2_failed ''summary'' container_name e
              | Inr hs \<Rightarrow> reply (PSummaries (bt_of_list (map (\<lambda>h. (h_name h, derived_stats ae h)) hs))))
           else if resource = ''ps'' then reply (PProcesses (process_list ae s container_name))
           else if resource = ''storage'' then reply (PStorage (storage_of ae ps))
           else if resource = ''appmetrics'' then reply PAppMetrics
           else plain 500 (''unknown request type '' @ debug_str resource)))"

section \<open>Lemmas\<close>

lemma outcome_option:
  "(r = None \<Longrightarrow> outcome ae errors n) \<Longrightarrow> (\<And>x. r = Some x \<Longrightarrow> outcome ae errors (f x)) \<Longrightarrow>
     outcome ae errors (case r of None \<Rightarrow> n | Some x \<Rightarrow> f x)"
  by (cases r) simp_all

lemma outcome_v2 [outcomes]:
  assumes "500 \<in> errors"
  shows "outcome ae errors (handle_v2 ae s version resource name ps)"
  unfolding handle_v2_def v2_failed_def Let_def
  by (intro outcome_if outcome_sum outcome_option outcomes assms)

text \<open>The index of a percentile.\<close>

lemma f64_of_nat_small: "n \<le> 2 ^ 53 \<Longrightarrow> f64_of_int (int n) = Fin (of_nat n)"
proof -
  assume n: "n \<le> 2 ^ 53"
  have "rnd53 (of_nat n) = of_nat n" using dbl.exact [OF n] .
  moreover have "(of_nat n :: rat) \<le> of_nat (2 ^ 53)" using n by (simp only: of_nat_le_iff)
  then have "(of_nat n :: rat) < 2 ^ 1024" by simp
  ultimately show ?thesis by (simp add: f64_of_int_def f64_of_rat_def Let_def)
qed

lemma rnd_fraction:
  assumes "m \<le> 2 ^ 53" "0 \<le> q" "q \<le> 1"
  shows "0 \<le> rnd53 (of_nat m * q) \<and> rnd53 (of_nat m * q) \<le> of_nat m"
proof -
  have "rnd53 (of_nat m * q) \<le> rnd53 (of_nat m)"
    by (rule dbl.mono) (use assms in \<open>simp add: mult_left_le\<close>)
  then show ?thesis using dbl.exact [OF assms(1)] dbl.nonneg [of "of_nat m * q"] assms(2) by simp
qed

lemma pick_index_eq:
  assumes "n \<le> 2 ^ 53" "0 \<le> q" "q \<le> 1"
  shows "pick_index n (Fin q) = nat \<lfloor>rnd53 (of_nat (n - 1) * q)\<rfloor>"
proof -
  let ?r = "rnd53 (of_nat (n - 1) * q)"
  have m: "n - 1 \<le> 2 ^ 53" using assms(1) by simp
  have r: "0 \<le> ?r" "?r \<le> of_nat (n - 1)" using rnd_fraction [OF m assms(2,3)] by blast+
  have "(of_nat (n - 1) :: rat) \<le> of_nat (2 ^ 53)" using m by (simp only: of_nat_le_iff)
  then have big: "?r \<le> 2 ^ 53" using r(2) by simp
  then have "f64_of_rat (of_nat (n - 1) * q) = Fin ?r"
    using r(1) by (simp add: f64_of_rat_def Let_def)
  then have "f64_mul (f64_of_int (int (n - 1))) (Fin q) = Fin ?r"
    unfolding f64_of_nat_small [OF m] by (simp add: f64_mul_def)
  moreover have "nat \<lfloor>?r\<rfloor> \<le> 2 ^ 53" using big by (simp add: floor_le_iff nat_le_iff)
  then have "unat (of_nat (min (nat \<lfloor>?r\<rfloor>) u64_max) :: u64) = nat \<lfloor>?r\<rfloor>"
    by (simp add: u64_max_def unat_of_nat)
  ultimately show ?thesis using r(1) by (auto simp: pick_index_def)
qed

lemma pick_index_facts:
  assumes "n \<le> 2 ^ 53" "0 < n" "0 \<le> q" "q \<le> q'" "q' \<le> 1"
  shows "pick_index n (Fin q) \<le> pick_index n (Fin q')" "pick_index n (Fin q') < n"
proof -
  have m: "n - 1 \<le> 2 ^ 53" using assms(1) by simp
  have q: "q \<le> 1" "0 \<le> q'" using assms by linarith+
  have "rnd53 (of_nat (n - 1) * q) \<le> rnd53 (of_nat (n - 1) * q')"
    by (rule dbl.mono) (use assms in \<open>simp add: mult_left_mono\<close>)
  then show "pick_index n (Fin q) \<le> pick_index n (Fin q')"
    using pick_index_eq [OF assms(1,3) q(1)] pick_index_eq [OF assms(1) q(2) assms(5)]
    by (simp add: floor_mono nat_mono)
  have "rnd53 (of_nat (n - 1) * q') \<le> of_nat (n - 1)" using rnd_fraction [OF m q(2) assms(5)] by blast
  then have "nat \<lfloor>rnd53 (of_nat (n - 1) * q')\<rfloor> \<le> n - 1" by (simp add: floor_le_iff nat_le_iff)
  then show "pick_index n (Fin q') < n"
    using pick_index_eq [OF assms(1) q(2) assms(5)] assms(2) by simp
qed

lemma percentile_points:
  "\<exists>a b c. f64_of_rat (1 / 2) = Fin a \<and> f64_of_rat (9 / 10) = Fin b \<and> f64_of_rat (19 / 20) = Fin c \<and>
     0 \<le> a \<and> a \<le> b \<and> b \<le> c \<and> c \<le> 1"
proof -
  have f: "f64_of_rat q = Fin (rnd53 q) \<and> rnd53 q \<le> 1 \<and> 0 \<le> rnd53 q" if "0 \<le> q" "q \<le> 1" for q
    using rnd_fraction [of 1 q] that by (simp add: f64_of_rat_def Let_def)
  have "rnd53 (1 / 2) \<le> rnd53 (9 / 10)" "rnd53 (9 / 10) \<le> rnd53 (19 / 20)" by (rule dbl.mono, simp)+
  then show ?thesis using f [of "1 / 2"] f [of "9 / 10"] f [of "19 / 20"] by auto
qed

lemma unat_sum_list: "sum_list (map unat xs) < 2 ^ 64 \<Longrightarrow> unat (sum_list (xs :: u64 list)) = sum_list (map unat xs)"
  by (induction xs) (simp_all add: unat_word_ariths)

lemma sum_list_sort: "sum_list (sort xs) = sum_list (xs :: u64 list)"
  by (metis mset_sort sum_mset_sum_list)

lemma mean_bounds:
  assumes "xs \<noteq> []" "sum_list (map unat xs) < 2 ^ 64" "length xs \<le> 2 ^ 53"
  shows "Min (set xs) \<le> sum_list (sort xs) div (of_nat (length xs) :: u64) \<and>
     sum_list (sort xs) div of_nat (length xs) \<le> Max (set xs)"
proof -
  let ?n = "length xs" and ?S = "sum_list (map unat xs)"
  have n: "0 < ?n" "unat (of_nat ?n :: u64) = ?n" using assms(1,3) by (simp_all add: unat_of_nat)
  have le: "length ys * a \<le> sum_list (map unat ys)" if "\<forall>y \<in> set ys. a \<le> unat y" for ys :: "u64 list" and a
    using that by (induction ys) auto
  have ge: "sum_list (map unat ys) \<le> length ys * a" if "\<forall>y \<in> set ys. unat y \<le> a" for ys :: "u64 list" and a
    using that by (induction ys) auto
  have "?n * unat (Min (set xs)) \<le> ?S" by (rule le) (simp add: word_le_nat_alt [symmetric])
  then have lo: "unat (Min (set xs)) \<le> ?S div ?n" using n(1) by (simp add: less_eq_div_iff_mult_less_eq mult.commute)
  have "?S \<le> ?n * unat (Max (set xs))" by (rule ge) (simp add: word_le_nat_alt [symmetric])
  then have hi: "?S div ?n \<le> unat (Max (set xs))" using n(1) by (metis div_le_mono nonzero_mult_div_cancel_left less_not_refl)
  have "unat (sum_list (sort xs) div (of_nat ?n :: u64)) = ?S div ?n"
    by (simp add: sum_list_sort unat_div unat_sum_list [OF assms(2)] n(2))
  then show ?thesis using lo hi by (simp add: word_le_nat_alt)
qed

text \<open>A line of words.\<close>

definition plain_word :: "string \<Rightarrow> bool" where
  "plain_word w \<longleftrightarrow> w \<noteq> [] \<and> (\<forall>c \<in> set w. \<not> is_ws c \<and> c \<noteq> CHR '')'')"

lemma split_whitespace_join:
  "ws \<noteq> [] \<Longrightarrow> list_all plain_word ws \<Longrightarrow> split_whitespace (join_with '' '' ws @ [nl]) = ws"
proof (induction "'' ''" ws rule: join_with.induct)
  case (2 w)
  then show ?case using split_whitespace_word [of w nl "[]"] by (simp add: plain_word_def)
next
  case (3 w w' ws)
  then show ?case using split_whitespace_word [of w "CHR '' ''"] by (simp add: plain_word_def)
qed simp

lemma join_with_no_paren: "list_all plain_word ws \<Longrightarrow> CHR '')'' \<notin> set (join_with '' '' ws)"
  by (induction "'' ''" ws rule: join_with.induct) (auto simp: plain_word_def)

lemma after_last_append: "c \<notin> set b \<Longrightarrow> after_last c (a @ c # b) = Some b"
proof -
  assume c: "c \<notin> set b"
  have "takeWhile (\<lambda>d. d \<noteq> c) (rev b @ c # rev a) = rev b"
    by (subst takeWhile_append2) (use c in auto)
  then show ?thesis by (simp add: after_last_def)
qed

lemma resolve_subtree:
  "ro_id_type opts = ''name'' \<Longrightarrow> ro_recursive opts \<Longrightarrow> registered s name \<Longrightarrow>
     resolve s name opts = Inr (subtree_handles s name)"
  by (auto simp: resolve_def handle_of_def registered_def subtree_handles_def below_prefix_def)

section \<open>Properties\<close>

text \<open>C31: a recursive v2.1 stats query of a registered container answers with the containers at or below
  it, the root left out, each with its own spec and samples.\<close>

theorem stats_v21_answer:
  assumes "reachable cfg from_std mi s" "registered s name" "ro_id_type opts = ''name''" "ro_recursive opts"
  shows "\<exists>hs. resolve s name opts = Inr hs \<and> bt_wf (stats_v21 ae n hs) \<and>
     bt_get (stats_v21 ae n hs) = (\<lambda>k.
       if registered s k \<and> (k = name \<or> starts_with k (below_prefix name)) \<and> k \<noteq> ''/''
       then Some \<lparr>v2info_spec = v2_spec (handle_at s k),
              v2info_stats = v2_stats (ae_num_ns ae) (handle_at s k) (h_spec (handle_at s k)) n\<rparr>
       else None)"
proof -
  have ok: "map_ok s" using reachable_inv [OF assms(1)] by (simp add: reg_inv_def)
  let ?N = "{k. registered s k \<and> (k = name \<or> starts_with k (below_prefix name))}"
  let ?F = "\<lambda>k. \<lparr>v2info_spec = v2_spec (handle_at s k),
      v2info_stats = v2_stats (ae_num_ns ae) (handle_at s k) (h_spec (handle_at s k)) n\<rparr>"
  let ?ks = "filter (\<lambda>k. k \<noteq> ''/'') (sorted_list_of_set ?N)"
  have "?N \<subseteq> set (map fst (rg_map s))" by (auto simp: registered_iff)
  then have fin: "finite ?N" by (rule finite_subset) simp
  have nm: "h_name (handle_at s k) = k" if "k \<in> ?N" for k using h_name_handle_at [OF ok, of k] that by simp
  have "filter (\<lambda>h. h_name h \<noteq> ''/'') (subtree_handles s name) = map (handle_at s) ?ks"
    unfolding subtree_handles_eq [OF ok] filter_map comp_def
    by (intro arg_cong [where f = "map (handle_at s)"] filter_cong) (use nm fin in auto)
  then have "map (\<lambda>h. (h_name h, \<lparr>v2info_spec = v2_spec h, v2info_stats = v2_stats (ae_num_ns ae) h (h_spec h) n\<rparr>))
      (filter (\<lambda>h. h_name h \<noteq> ''/'') (subtree_handles s name)) = map (\<lambda>k. (k, ?F k)) ?ks"
    using nm fin by (auto simp: comp_def)
  then have v: "stats_v21 ae n (subtree_handles s name) = bt_of_list (map (\<lambda>k. (k, ?F k)) ?ks)"
    by (simp only: stats_v21_def)
  have d: "distinct (map fst (map (\<lambda>k. (k, ?F k)) ?ks))" by (simp add: comp_def)
  have g: "bt_get (bt_of_list (map (\<lambda>k. (k, ?F k)) ?ks)) = map_of (map (\<lambda>k. (k, ?F k)) ?ks)"
    using d by (simp only: bt_of_list_facts map_of_rev_distinct)
  have m: "map_of (map (\<lambda>k. (k, ?F k)) ?ks) = (\<lambda>k. if k \<in> ?N \<and> k \<noteq> ''/'' then Some (?F k) else None)"
    using fin by (auto simp: fun_eq_iff map_of_map_restrict restrict_map_def)
  show ?thesis
    unfolding resolve_subtree [OF assms(3,4,2)]
    by (rule exI [of _ "subtree_handles s name"]) (simp only: v g m bt_of_list_facts(1) mem_Collect_eq conj_assoc simp_thms)
qed

text \<open>C32: the process list reads the line of \<open>/proc/<pid>/stat\<close> right whatever the name of the command
  is, with blanks and parentheses in it.\<close>

theorem process_row_reads_stat:
  assumes "os_read os (proc_path pid ''stat'') =
      Inr (dec (unat pid) @ '' ('' @ comm @ '') '' @ join_with '' '' ws @ [nl])"
    and "list_all plain_word ws" "40 \<le> length ws"
  shows "\<exists>row. process_row os pid = Some row \<and> pinfo_pid row = int (unat pid) \<and>
     pinfo_status row = ws ! 0 \<and> pinfo_ppid row = unwrap_or (parse_i64 (ws ! 1)) 0 \<and>
     pinfo_virtual_size row = unwrap_or (parse_u64 (ws ! 20)) 0 \<and>
     pinfo_rss row = 4096 * unwrap_or (parse_u64 (ws ! 21)) 0 \<and>
     pinfo_psr row = unwrap_or (parse_i64 (ws ! 36)) 0"
proof -
  have ne: "ws \<noteq> []" using assms(3) by auto
  have "after_last CHR '')'' ((dec (unat pid) @ '' ('' @ comm) @ CHR '')'' # '' '' @ join_with '' '' ws @ [nl]) =
      Some ('' '' @ join_with '' '' ws @ [nl])"
    by (rule after_last_append) (use join_with_no_paren [OF assms(2)] in \<open>simp add: nl_def\<close>)
  then have "after_last CHR '')'' (read_or_empty os (proc_path pid ''stat'')) =
      Some ('' '' @ join_with '' '' ws @ [nl])"
    by (simp add: read_or_empty_def assms(1))
  moreover have "split_whitespace ('' '' @ join_with '' '' ws @ [nl]) = ws"
    using split_whitespace_join [OF ne assms(2)] by simp
  ultimately show ?thesis using assms(3) by (simp add: process_row_def Let_def)
qed

text \<open>C33: the percentiles of a summary are samples, in order, under the largest one, and no index is out of
  range; the mean lies between the smallest and the largest sample unless the sum overflows.\<close>

theorem percentiles_ordered:
  assumes "xs \<noteq> []" "length xs \<le> 2 ^ 53"
  defines "p \<equiv> percentiles_from xs"
  shows "{pct_fifty p, pct_ninety p, pct_ninety_five p} \<subseteq> set xs \<and> pct_max p = Max (set xs) \<and>
     pct_fifty p \<le> pct_ninety p \<and> pct_ninety p \<le> pct_ninety_five p \<and> pct_ninety_five p \<le> pct_max p \<and>
     (sum_list (map unat xs) < 2 ^ 64 \<longrightarrow> Min (set xs) \<le> pct_mean p \<and> pct_mean p \<le> Max (set xs))"
proof -
  let ?v = "sort xs" and ?n = "length xs"
  obtain a b c where pts: "f64_of_rat (1 / 2) = Fin a" "f64_of_rat (9 / 10) = Fin b" "f64_of_rat (19 / 20) = Fin c"
    "0 \<le> a" "a \<le> b" "b \<le> c" "c \<le> 1" using percentile_points by blast
  have n: "0 < ?n" using assms(1) by simp
  have p: "pct_fifty p = ?v ! pick_index ?n (Fin a)" "pct_ninety p = ?v ! pick_index ?n (Fin b)"
    "pct_ninety_five p = ?v ! pick_index ?n (Fin c)" "pct_max p = ?v ! (?n - 1)"
    "pct_mean p = sum_list ?v div of_nat ?n"
    using assms(1) by (simp_all add: p_def percentiles_from_def Let_def pts)
  have ix: "pick_index ?n (Fin a) \<le> pick_index ?n (Fin b)" "pick_index ?n (Fin b) \<le> pick_index ?n (Fin c)"
    "pick_index ?n (Fin c) < ?n"
    using pick_index_facts [OF assms(2) n, of a b] pick_index_facts [OF assms(2) n, of b c] pts by auto
  have nth: "i \<le> j \<Longrightarrow> j < ?n \<Longrightarrow> ?v ! i \<le> ?v ! j" for i j by (simp add: sorted_nth_mono)
  have mem: "i < ?n \<Longrightarrow> ?v ! i \<in> set xs" for i using nth_mem [of i ?v] by simp
  have mx: "?v ! (?n - 1) = Max (set xs)"
  proof (rule Max_eqI [symmetric])
    fix y assume "y \<in> set xs"
    then obtain i where "i < ?n" "?v ! i = y" by (metis in_set_conv_nth length_sort set_sort)
    then show "y \<le> ?v ! (?n - 1)" using nth [of i "?n - 1"] by simp
  qed (use mem [of "?n - 1"] n in simp_all)
  have mean: "Min (set xs) \<le> pct_mean p \<and> pct_mean p \<le> Max (set xs)" if "sum_list (map unat xs) < 2 ^ 64"
    using mean_bounds [OF assms(1) that] assms(2) by (simp add: p)
  show ?thesis unfolding p mx [symmetric] using ix nth mem mean [unfolded p mx [symmetric]] n
    by (auto intro: order_trans less_imp_le less_le_trans)
qed

theorem percentiles_ordered_witness:
  "pct_max (percentiles_from [3, 1, 2]) = 3 \<and> pct_fifty (percentiles_from [3, 1, 2]) \<in> {1, 2, 3}"
  using percentiles_ordered [of "[3, 1, 2]"] by auto

theorem stats_v21_answer_witness:
  "\<exists>hs. resolve after_adding ''/a'' \<lparr>ro_id_type = ''name'', ro_count = 1, ro_recursive = True\<rparr> = Inr hs"
  using stats_v21_answer [OF after_adding_reachable, of "''/a''"
      "\<lparr>ro_id_type = ''name'', ro_count = 1, ro_recursive = True\<rparr>"]
  by (auto simp: registered_iff after_adding)

definition demo_stat :: string where
  "demo_stat = dec 7 @ '' ('' @ ''a) (b'' @ '') '' @ join_with '' '' (''S'' # ''1'' # replicate 38 ''5'') @ [nl]"

theorem process_row_reads_stat_witness:
  "\<exists>row. process_row (os_of_files [(''/proc/7/stat'', demo_stat)]) 7 = Some row \<and> pinfo_status row = ''S'' \<and>
     pinfo_ppid row = 1 \<and> pinfo_rss row = 20480"
proof -
  have p: "proc_path 7 ''stat'' = ''/proc/7/stat''" by code_simp
  have f: "list_all plain_word (''S'' # ''1'' # replicate 38 ''5'')"
  proof -
    have "plain_word ''S''" "plain_word ''1''" "plain_word ''5''" by code_simp+
    then show ?thesis by (simp add: list_all_iff del: replicate.simps)
  qed
  have v: "parse_i64 ''1'' = Some 1" "parse_u64 ''5'' = Some 5"
    by (simp_all add: parse_i64_def parse_u64_def parse_unsigned_def unsigned_digits_def is_digit_def code_def
        u64_max_def)
  have r: "os_read (os_of_files [(''/proc/7/stat'', demo_stat)]) (proc_path 7 ''stat'') =
      Inr (dec (unat (7 :: u32)) @ '' ('' @ ''a) (b'' @ '') '' @
        join_with '' '' (''S'' # ''1'' # replicate 38 ''5'') @ [nl])"
    by (simp only: p os_of_files_def demo_stat_def) simp
  have n: "(''S'' # ''1'' # replicate 38 ''5'') ! 1 = ''1''" "(''S'' # ''1'' # replicate 38 ''5'') ! 0 = ''S''"
      "(''S'' # ''1'' # replicate 38 ''5'') ! 21 = ''5''" "40 \<le> length (''S'' # ''1'' # replicate 38 ''5'')"
    by (simp_all add: nth_Cons' del: replicate.simps)
  show ?thesis using process_row_reads_stat [OF r f n(4)] unfolding n(1-3) v by (auto simp: unwrap_or_def)
qed

end
