(* ===== verification/Api.thy ===== *)
theory Api
  imports Api_V2 Metrics_Encode
begin

text \<open>
  The routes of the API: \<open>api_root\<close> and \<open>dispatch\<close> of \<open>crates/cadvisor-api/src/v1.rs\<close>, over the path behind
  \<open>/api/\<close>, the raw query and the body, which axum hands over. The lemmas: the error contract of the
  module documentation, and the container that a path names.
\<close>

section \<open>Dispatch\<close>

definition api_root :: response where
  "api_root = plain 400 ''Supported API versions: v1.0,v1.1,v1.2,v1.3,v2.0,v2.1''"

definition container_of :: "string list \<Rightarrow> string" where
  "container_of args =
     (let name = (if args = [] \<or> args = [[]] then ''/''
                  else trim_end_char CHR ''/'' (''/'' @ join_with ''/'' args))
      in if name = [] then ''/'' else name)"

definition v2_types :: string where
  "v2_types =
     ''Supported request types: '' @
     join_with '','' (map debug_str
       [''attributes'', ''events'', ''machine'', ''machinestats'', ''ps'', ''spec'', ''stats'', ''storage'',
        ''summary'', ''version'', ''appmetrics''])"

definition dispatch :: "api_env \<Rightarrow> reg \<Rightarrow> string \<Rightarrow> string option \<Rightarrow> string \<Rightarrow> response" where
  "dispatch ae s rest raw_query body =
     (let segments = split_char CHR ''/'' rest;
          version = hd segments;
          request_type = (case tl segments of t # _ \<Rightarrow> t | [] \<Rightarrow> []);
          container_name = container_of (drop 2 segments);
          ps = params_parse raw_query in
      if version \<in> {''v1.0'', ''v1.1'', ''v1.2'', ''v1.3''} then
        handle_v1 ae s version request_type container_name ps body
      else if version \<in> {''v2.0'', ''v2.1''} then
        (if request_type = ''events'' then handle_events ae s container_name ps
         else if request_type = [] then plain 400 v2_types
         else handle_v2 ae s version request_type container_name ps)
      else plain 500 (''unsupported API version '' @ debug_str version))"

section \<open>Lemmas\<close>

definition api_versions :: "string set" where
  "api_versions = {''v1.0'', ''v1.1'', ''v1.2'', ''v1.3''} \<union> {''v2.0'', ''v2.1''}"

lemma outcome_not_400: "outcome ae {500} r \<Longrightarrow> rs_status r \<noteq> 400"
  by (cases r) (auto simp: outcome_def)

lemma outcome_more: "outcome ae {500} r \<Longrightarrow> outcome ae {400, 500} r"
  by (cases r) (auto simp: outcome_def)

text \<open>Paths.\<close>

definition slashed :: "string list \<Rightarrow> string" where
  "slashed cs = concat (map (\<lambda>c. CHR ''/'' # c) cs)"

lemma slashed_simps [simp]: "slashed [] = []" "slashed (c # cs) = CHR ''/'' # c @ slashed cs"
  by (simp_all add: slashed_def)

lemma slashed_append: "slashed (as @ bs) = slashed as @ slashed bs"
  by (simp add: slashed_def)

lemma slashed_empty: "slashed (replicate k []) = replicate k CHR ''/''"
  by (induction k) simp_all

lemma split_slashed: "list_all (\<lambda>c. CHR ''/'' \<notin> set c) (p # cs) \<Longrightarrow> split_char CHR ''/'' (p @ slashed cs) = p # cs"
proof (induction cs arbitrary: p)
  case Nil
  then show ?case by (simp add: split_char_plain)
next
  case (Cons c cs)
  then show ?case using split_char_append [of "CHR ''/''" p "c @ slashed cs"] by simp
qed

lemma join_slashed: "args \<noteq> [] \<Longrightarrow> ''/'' @ join_with ''/'' args = slashed args"
  by (induction "''/''" args rule: join_with.induct) simp_all

lemma container_of_path:
  assumes "list_all (\<lambda>c. c \<noteq> [] \<and> CHR ''/'' \<notin> set c) cs"
  shows "container_of (cs @ replicate k []) = (if cs = [] then ''/'' else slashed cs)"
proof (cases "cs = []")
  case True
  have "trim_end_char CHR ''/'' (replicate k CHR ''/'') = []"
    using trim_end_zeros [of "CHR ''/''" "[]" k] by (simp add: trim_end_char_def)
  then have "trim_end_char CHR ''/'' (''/'' @ join_with ''/'' (replicate k [])) = []" if "k \<noteq> 0"
    using join_slashed [of "replicate k []"] that by (simp add: slashed_empty)
  then show ?thesis using True by (cases "k = 0") (auto simp: container_of_def Let_def)
next
  case False
  then obtain ds d where c: "cs = ds @ [d]" by (metis rev_exhaust)
  have d: "d \<noteq> []" "CHR ''/'' \<notin> set d" using assms by (simp_all add: c)
  then have l: "slashed cs \<noteq> []" "last (slashed cs) \<noteq> CHR ''/''"
    by (auto simp: c slashed_append) (metis last_in_set)
  have "''/'' @ join_with ''/'' (cs @ replicate k []) = slashed cs @ replicate k CHR ''/''"
    using join_slashed [of "cs @ replicate k []"] False by (simp add: slashed_append slashed_empty)
  then have "trim_end_char CHR ''/'' (''/'' @ join_with ''/'' (cs @ replicate k [])) = slashed cs"
    using trim_end_zeros [of "CHR ''/''" "slashed cs" k] trim_end_id [OF l] by simp
  moreover have "cs @ replicate k [] \<noteq> [] \<and> cs @ replicate k [] \<noteq> [[]]"
    using False d by (auto simp: c append_eq_Cons_conv)
  ultimately show ?thesis using False l by (simp add: container_of_def Let_def)
qed

text \<open>A supported version without a request type.\<close>

definition lists_types :: "string \<Rightarrow> bool" where
  "lists_types rest \<longleftrightarrow>
     hd (split_char CHR ''/'' rest) \<in> api_versions \<and>
     (case tl (split_char CHR ''/'' rest) of t # _ \<Rightarrow> t | [] \<Rightarrow> []) = []"

lemma dispatch_outcome:
  "if lists_types rest then \<exists>x. dispatch ae s rest raw body = plain 400 x
   else outcome ae {500} (dispatch ae s rest raw body)"
proof -
  define v t where "v = hd (split_char CHR ''/'' rest)"
    and "t = (case tl (split_char CHR ''/'' rest) of t # _ \<Rightarrow> t | [] \<Rightarrow> [])"
  define a b where "a \<longleftrightarrow> v \<in> {''v1.0'', ''v1.1'', ''v1.2'', ''v1.3''}" and "b \<longleftrightarrow> v \<in> {''v2.0'', ''v2.1''}"
  define ev where "ev \<longleftrightarrow> t = ''events''"
  let ?name = "container_of (drop 2 (split_char CHR ''/'' rest))"
  have d: "dispatch ae s rest raw body =
     (if a then handle_v1 ae s v t ?name (params_parse raw) body
      else if b then
        (if ev then handle_events ae s ?name (params_parse raw)
         else if t = [] then plain 400 v2_types
         else handle_v2 ae s v t ?name (params_parse raw))
      else plain 500 (''unsupported API version '' @ debug_str v))"
    unfolding dispatch_def Let_def v_def t_def a_def b_def ev_def by (rule refl)
  have lists: "lists_types rest \<longleftrightarrow> (a \<or> b) \<and> t = []"
    by (simp only: lists_types_def api_versions_def a_def b_def v_def t_def Un_iff)
  have e: "t = [] \<Longrightarrow> \<not> ev" by (simp add: ev_def)
  have v1: "handle_v1 ae s v [] ?name (params_parse raw) body = plain 400 v1_types" by (simp add: handle_v1_def)
  show ?thesis
  proof (cases "lists_types rest")
    case True
    then show ?thesis using e v1 unfolding lists by (cases a) (auto simp: d)
  next
    case False
    have "outcome ae {500} (dispatch ae s rest raw body)"
      unfolding d by (intro outcome_if outcome_plain outcome_events outcome_v1 outcome_v2)
        (use False [unfolded lists] in simp_all)
    then show ?thesis using False by simp
  qed
qed

lemma dispatch_lists: "lists_types rest \<Longrightarrow> \<exists>x. dispatch ae s rest raw body = plain 400 x"
  using dispatch_outcome [of rest ae s raw body] by simp

lemma dispatch_answers: "\<not> lists_types rest \<Longrightarrow> outcome ae {500} (dispatch ae s rest raw body)"
  using dispatch_outcome [of rest ae s raw body] by simp

lemma containers_dispatch:
  assumes "version \<in> {''v1.0'', ''v1.1'', ''v1.2'', ''v1.3''}"
    and "list_all (\<lambda>c. c \<noteq> [] \<and> CHR ''/'' \<notin> set c) cs"
  shows "dispatch ae s (version @ ''/containers'' @ slashed cs @ replicate k CHR ''/'') raw body =
     (let name = (if cs = [] then ''/'' else slashed cs) in
      case container_info_of s name (decode_request ae body) of
        Inr info \<Rightarrow> json (ae_to_vec ae) (PContainer info)
      | Inl e \<Rightarrow> plain 500 (''failed to get container '' @ debug_str name @ '' with error: '' @
          ''unknown container '' @ debug_str name))"
proof -
  have "version @ ''/containers'' @ slashed cs @ replicate k CHR ''/'' =
      version @ slashed (''containers'' # cs @ replicate k [])"
    by (simp add: slashed_append slashed_empty)
  moreover have "CHR ''/'' \<notin> set version" using assms(1) by (elim insertE emptyE) simp_all
  then have "list_all (\<lambda>c. CHR ''/'' \<notin> set c) (version # ''containers'' # cs @ replicate k [])"
    using assms(2) by (auto simp: list_all_iff)
  ultimately have sp: "split_char CHR ''/'' (version @ ''/containers'' @ slashed cs @ replicate k CHR ''/'') =
      version # ''containers'' # cs @ replicate k []"
    by (simp only: split_slashed)
  have e: "(case container_info_of s name req of Inr info \<Rightarrow> f info | Inl e \<Rightarrow> lookup_failed ae ''container'' name e) =
      (case container_info_of s name req of Inr info \<Rightarrow> f info
       | Inl e \<Rightarrow> plain 500 (''failed to get container '' @ debug_str name @ '' with error: '' @
           ''unknown container '' @ debug_str name))" for name req f
    by (simp add: container_info_of_def lookup_failed_def split: option.split)
  have v1: "handle_v1 ae s version ''containers'' name ps body =
      (case container_info_of s name (decode_request ae body) of
         Inr info \<Rightarrow> json (ae_to_vec ae) (PContainer info)
       | Inl e \<Rightarrow> lookup_failed ae ''container'' name e)" for name ps
    by (simp add: handle_v1_def)
  have d: "drop 2 (version # ''containers'' # r) = r" for r by simp
  show ?thesis
    unfolding dispatch_def sp Let_def list.sel list.case d container_of_path [OF assms(2)] if_P [OF assms(1)] v1 e
    by (rule refl)
qed

section \<open>Properties\<close>

text \<open>C29: the error contract of the API: a response is JSON (or a stream of JSON) with status 200, or a
  plain text that ends its line, with status 400 exactly when a supported version is asked without a
  request type, and 500 otherwise.\<close>

theorem api_contract:
  "outcome ae {400, 500} (dispatch ae s rest raw body) \<and>
   (rs_status (dispatch ae s rest raw body) = 400 \<longleftrightarrow>
      hd (split_char CHR ''/'' rest) \<in> api_versions \<and>
      (case tl (split_char CHR ''/'' rest) of t # _ \<Rightarrow> t | [] \<Rightarrow> []) = [])"
proof (cases "lists_types rest")
  case True
  then obtain x where "dispatch ae s rest raw body = plain 400 x" using dispatch_lists by blast
  then show ?thesis using True outcome_plain [of 400 "{400, 500}" ae x]
    by (simp add: lists_types_def) (simp add: plain_def)
next
  case False
  then have "outcome ae {500} (dispatch ae s rest raw body)" by (rule dispatch_answers)
  then show ?thesis using False outcome_not_400 [of ae] outcome_more [of ae] unfolding lists_types_def by metis
qed

text \<open>The container of a URL is the path behind the request type, whatever slashes follow it, and the
  root container when there is none: the answer of \<open>/api/v1.x/containers\<close> is the manager's.\<close>

theorem containers_route:
  assumes "version \<in> {''v1.0'', ''v1.1'', ''v1.2'', ''v1.3''}"
    and "list_all (\<lambda>c. c \<noteq> [] \<and> CHR ''/'' \<notin> set c) cs"
  shows "dispatch ae s (version @ ''/containers'' @ slashed cs @ replicate k CHR ''/'') raw body =
     (let name = (if cs = [] then ''/'' else slashed cs) in
      case container_info_of s name (decode_request ae body) of
        Inr info \<Rightarrow> json (ae_to_vec ae) (PContainer info)
      | Inl e \<Rightarrow> plain 500 (''failed to get container '' @ debug_str name @ '' with error: '' @
          ''unknown container '' @ debug_str name))"
  using assms by (rule containers_dispatch)

definition demo_env :: api_env where
  "demo_env = \<lparr>ae_cfg = demo_config, ae_host = demo_host, ae_version = default_version_info, ae_now = 0,
     ae_num_ns = Some, ae_to_vec = (\<lambda>_. Inr ''{}''), ae_from_slice = (\<lambda>_. None), ae_time_of = (\<lambda>_. None),
     ae_io_text = (\<lambda>_. ''io'')\<rparr>"

theorem containers_route_witness:
  "dispatch demo_env after_adding ''v1.3/containers/a/'' None [] = Response 200 ''application/json'' ''{}''"
proof -
  have "\<exists>x. container_info_of after_adding ''/a'' default_container_info_request = Inr x"
    by (simp add: container_info_of_def handle_of_def after_adding)
  then show ?thesis
    using containers_route [of "''v1.3''" "[''a'']" demo_env after_adding 1 None "[]"]
    by (auto simp: decode_request_def demo_env_def json_def Let_def)
qed

end
