(* ===== verification/Secure.thy ===== *)
theory Secure
  imports Cgroup_Reader
begin

text \<open>
  \<open>crates/cadvisor/src/secure.rs\<close>: the values that are reloaded when their files change, and bearer
  authentication. A look at the files is their stamp and what loading them gives; the clock is in
  nanoseconds. What \<open>HeaderValue::to_str\<close> makes of a header is the parameter \<open>to_str\<close>. The loading of
  certificates is rustls and is a loader like any other; \<open>Tls_Serve\<close> has the listener.

  The lemmas: the constant-time comparison is equality, a request passes exactly with a token of the
  file, and a reloaded value is never other than what some state of the files gave.
\<close>

section \<open>Watched files\<close>

type_synonym stamp = "(int \<times> int \<times> nat \<times> nat) option list"

text \<open>\<open>metadata\<close> of a path: the seconds and nanoseconds of the change, the size and the inode.\<close>

definition stamp_of :: "(string \<Rightarrow> (int \<times> int \<times> nat \<times> nat) option) \<Rightarrow> string list \<Rightarrow> stamp" where
  "stamp_of metadata paths = map metadata paths"

record 'a watched =
  wt_value :: 'a
  wt_stamp :: stamp
  wt_checked :: nat

definition recheck :: nat where
  "recheck = 5 * 10 ^ 9"

definition watched_new :: "nat \<Rightarrow> stamp \<Rightarrow> ('e, 'a) res \<Rightarrow> ('e, 'a watched) res" where
  "watched_new now st loaded =
     res_map (\<lambda>v. \<lparr>wt_value = v, wt_stamp = st, wt_checked = now\<rparr>) loaded"

definition watched_get :: "nat \<Rightarrow> stamp \<Rightarrow> ('e, 'a) res \<Rightarrow> 'a watched \<Rightarrow> 'a \<times> 'a watched" where
  "watched_get now st loaded w =
     (let w =
        (if recheck \<le> now - wt_checked w then
           (let w = w\<lparr>wt_checked := now\<rparr> in
            if st \<noteq> wt_stamp w then
              (case loaded of
                 Inr v \<Rightarrow> w\<lparr>wt_value := v, wt_stamp := st\<rparr>
               | Inl _ \<Rightarrow> w)
            else w)
         else w)
      in (wt_value w, w))"

section \<open>Certificates\<close>

text \<open>rustls: the certificates of a PEM file, its private key, the signing key and their match.\<close>

record ('c, 'k, 's) tls_lib =
  tl_certs :: "string \<Rightarrow> (string, (string, 'c) res list) res"
  tl_key :: "string \<Rightarrow> (string, 'k) res"
  tl_signing :: "'k \<Rightarrow> (string, 's) res"
  tl_match :: "'c list \<Rightarrow> 's \<Rightarrow> (string, unit) res"

datatype cert_error =
    ReadCert string string | ParseCert string string | NoCertificate string | ReadKey string string
  | KeyType string | KeyMismatch string

text \<open>\<open>collect\<close> into a \<open>Result\<close>: the first error wins.\<close>

fun collect_res :: "('e, 'a) res list \<Rightarrow> ('e, 'a list) res" where
  "collect_res [] = Inr []"
| "collect_res (Inl e # rs) = Inl e"
| "collect_res (Inr x # rs) = res_map ((#) x) (collect_res rs)"

definition load_cert ::
  "('c, 'k, 's) tls_lib \<Rightarrow> string \<Rightarrow> string \<Rightarrow> (cert_error, 'c list \<times> 's) res" where
  "load_cert lib cert key =
     res_bind (res_map_err (ReadCert cert) (tl_certs lib cert)) (\<lambda>items.
     res_bind (res_map_err (ParseCert cert) (collect_res items)) (\<lambda>chain.
     if chain = [] then Inl (NoCertificate cert)
     else
       res_bind (res_map_err (ReadKey key) (tl_key lib key)) (\<lambda>k.
       res_bind (res_map_err KeyType (tl_signing lib k)) (\<lambda>signing.
       res_bind (res_map_err KeyMismatch (tl_match lib chain signing)) (\<lambda>_.
         Inr (chain, signing))))))"

section \<open>Tokens\<close>

datatype token_error = TokensUnreadable string io_kind | NoTokens string

definition parse_tokens :: "string \<Rightarrow> string list" where
  "parse_tokens text = filter (\<lambda>l. l \<noteq> [] \<and> \<not> starts_with l ''#'') (map trim (lines text))"

definition load_tokens :: "os \<Rightarrow> string \<Rightarrow> (token_error, string list) res" where
  "load_tokens os path =
     (case os_read os path of
        Inl e \<Rightarrow> Inl (TokensUnreadable path e)
      | Inr text \<Rightarrow>
          (let tokens = parse_tokens text in
           if tokens = [] then Inl (NoTokens path) else Inr tokens))"

definition byte :: "char \<Rightarrow> 8 word" where
  "byte c = of_nat (code c)"

unbundle bit_operations_syntax

definition ct_eq :: "string \<Rightarrow> string \<Rightarrow> bool" where
  "ct_eq a b =
     (if length a \<noteq> length b then False
      else fold (\<lambda>(x, y) acc. acc OR (byte x XOR byte y)) (zip a b) 0 = 0)"

definition bearer :: "(string \<Rightarrow> string option) \<Rightarrow> string option \<Rightarrow> string option" where
  "bearer to_str h =
     (case Option.bind h to_str of
        None \<Rightarrow> None
      | Some v \<Rightarrow>
          (case split_once CHR '' '' v of
             None \<Rightarrow> None
           | Some (scheme, token) \<Rightarrow>
               (let token = trim token in
                if to_ascii_lowercase scheme = ''bearer'' \<and> token \<noteq> [] then Some token else None)))"

definition token_accepted :: "string list \<Rightarrow> string option \<Rightarrow> bool" where
  "token_accepted tokens presented =
     (case presented of Some p \<Rightarrow> list_ex (\<lambda>t. ct_eq t p) tokens | None \<Rightarrow> False)"

definition health_paths :: "string list" where
  "health_paths = [''/healthz'', ''/-/healthy'', ''/-/ready'']"

text \<open>What the middleware does: let the request pass, or answer 401.\<close>

datatype verdict = Pass | Unauthorized

definition require_bearer ::
  "(string \<Rightarrow> string option) \<Rightarrow> string list \<Rightarrow> string \<Rightarrow> string option \<Rightarrow> verdict" where
  "require_bearer to_str tokens path auth =
     (if path \<in> set health_paths \<or> token_accepted tokens (bearer to_str auth) then Pass else Unauthorized)"

section \<open>Lemmas\<close>

lemma byte_inject: "byte x = byte y \<longleftrightarrow> x = y"
proof
  assume "byte x = byte y"
  then have "unat (byte x) = unat (byte y)" by simp
  then have "code x = code y" using code_less [of x] code_less [of y] by (simp add: byte_def unat_of_nat)
  then show "x = y" by simp
qed simp

lemma or_zero: "(v OR w = 0) \<longleftrightarrow> v = 0 \<and> w = (0 :: 8 word)"
  by (metis or.left_neutral or.right_neutral word_bw_same(2) or_eq_0_iff)

lemma xor_zero: "(v XOR w = 0) \<longleftrightarrow> v = (w :: 8 word)"
  by (metis word_bw_lcs(3) word_bw_same(3) xor.right_neutral)

lemma fold_or_zero:
  "(fold (\<lambda>(x, y) acc. acc OR (byte x XOR byte y)) xs v = 0) \<longleftrightarrow> v = 0 \<and> (\<forall>(x, y) \<in> set xs. x = y)"
proof (induction xs arbitrary: v)
  case (Cons p xs)
  obtain x y where p: "p = (x, y)" by fastforce
  show ?case by (simp add: p Cons or_zero xor_zero byte_inject conj_assoc)
qed simp

lemma ct_eq_equal: "ct_eq a b \<longleftrightarrow> a = b"
proof (cases "length a = length b")
  case True
  then have "(\<forall>(x, y) \<in> set (zip a b). x = y) \<longleftrightarrow> a = b"
    by (induction a b rule: list_induct2) auto
  then show ?thesis using True by (simp add: ct_eq_def fold_or_zero)
qed (auto simp: ct_eq_def)

lemma collect_res_Inr: "collect_res rs = Inr xs \<longleftrightarrow> rs = map Inr xs"
proof (induction rs arbitrary: xs)
  case (Cons r rs)
  show ?case
  proof (cases r)
    case (Inr x)
    then show ?thesis using Cons by (cases xs; cases "collect_res rs") auto
  qed auto
qed auto

text \<open>What is served is a whole, non-empty chain with a key that matches it.\<close>

lemma load_cert_Inr:
  "load_cert lib cert key = Inr (chain, signing) \<longleftrightarrow>
     chain \<noteq> [] \<and> tl_certs lib cert = Inr (map Inr chain) \<and>
     (\<exists>k. tl_key lib key = Inr k \<and> tl_signing lib k = Inr signing) \<and> tl_match lib chain signing = Inr ()"
proof -
  have e: "res_map_err f r = Inr x \<longleftrightarrow> r = Inr x" for f :: "string \<Rightarrow> cert_error" and r x
    by (cases r) (simp_all add: res_map_err_def)
  show ?thesis
    unfolding load_cert_def res_bind_Inr e collect_res_Inr by (auto simp: res_bind_Inr e split: if_splits)
qed

lemma parse_tokens_not_empty: "t \<in> set (parse_tokens text) \<Longrightarrow> t \<noteq> []"
  by (auto simp: parse_tokens_def)

lemma bearer_Some:
  "bearer to_str auth = Some k \<longleftrightarrow>
     (\<exists>h v scheme token. auth = Some h \<and> to_str h = Some v \<and> split_once CHR '' '' v = Some (scheme, token) \<and>
        to_ascii_lowercase scheme = ''bearer'' \<and> k = trim token \<and> trim token \<noteq> [])"
  by (cases auth) (auto simp: bearer_def Let_def split: option.split)

text \<open>A look at the files: the time, their stamp and what loading gives.\<close>

type_synonym ('e, 'a) look = "nat \<times> stamp \<times> ('e, 'a) res"

fun watched_run :: "('e, 'a) look list \<Rightarrow> 'a watched \<Rightarrow> 'a watched" where
  "watched_run [] w = w"
| "watched_run ((now, st, loaded) # ls) w = watched_run ls (snd (watched_get now st loaded w))"

definition value_current :: "(stamp \<Rightarrow> ('e, 'a) res) \<Rightarrow> 'a watched \<Rightarrow> bool" where
  "value_current f w \<longleftrightarrow> f (wt_stamp w) = Inr (wt_value w)"

lemma watched_get_current:
  "value_current f w \<Longrightarrow> loaded = f st \<Longrightarrow> value_current f (snd (watched_get now st loaded w))"
  by (auto simp: watched_get_def value_current_def Let_def split: sum.split)

lemma watched_run_current:
  "value_current f w \<Longrightarrow> (\<And>now st loaded. (now, st, loaded) \<in> set ls \<Longrightarrow> loaded = f st) \<Longrightarrow>
     value_current f (watched_run ls w)"
proof (induction ls arbitrary: w)
  case (Cons l ls)
  obtain now st loaded where l: "l = (now, st, loaded)" by (metis prod.exhaust)
  have "loaded = f st" by (rule Cons.prems(2) [of now]) (simp add: l)
  from Cons.IH [OF watched_get_current [OF Cons.prems(1) this, of now]] Cons.prems(2)
  show ?case unfolding l watched_run.simps by (meson list.set_intros(2))
qed simp

section \<open>Properties\<close>

text \<open>C35: with a token file, a request passes exactly for a health path or with an \<open>Authorization\<close> header of
  the scheme Bearer, in any case, whose token is a line of the file that is no comment, blanks around
  it ignored.\<close>

theorem bearer_required:
  assumes "load_tokens os path = Inr tokens" "os_read os path = Inr text"
  shows "require_bearer to_str tokens p auth = Pass \<longleftrightarrow>
     p \<in> {''/healthz'', ''/-/healthy'', ''/-/ready''} \<or>
     (\<exists>h scheme token l. auth = Some h \<and> to_str h = Some (scheme @ CHR '' '' # token) \<and> CHR '' '' \<notin> set scheme \<and>
        to_ascii_lowercase scheme = ''bearer'' \<and> l \<in> set (lines text) \<and> trim l = trim token \<and>
        trim token \<noteq> [] \<and> \<not> starts_with (trim token) ''#'')"
proof -
  have t: "tokens = parse_tokens text"
    using assms by (auto simp: load_tokens_def Let_def split: if_splits)
  have b: "bearer to_str auth = Some k \<longleftrightarrow>
      (\<exists>h scheme token. auth = Some h \<and> to_str h = Some (scheme @ CHR '' '' # token) \<and> CHR '' '' \<notin> set scheme \<and>
        to_ascii_lowercase scheme = ''bearer'' \<and> k = trim token \<and> trim token \<noteq> [])" for k
    unfolding bearer_Some split_once_Some by blast
  have "token_accepted tokens (bearer to_str auth) \<longleftrightarrow> (\<exists>k. bearer to_str auth = Some k \<and> k \<in> set tokens)"
    by (auto simp: token_accepted_def list_ex_iff ct_eq_equal split: option.split)
  moreover have "k \<in> set tokens \<longleftrightarrow> (\<exists>l \<in> set (lines text). trim l = k \<and> k \<noteq> [] \<and> \<not> starts_with k ''#'')" for k
    by (auto simp: t parse_tokens_def)
  ultimately show ?thesis unfolding require_bearer_def health_paths_def b by (auto split: if_split) blast+
qed

text \<open>C36: a watched value is always the one that the files of its stamp give, whatever looks came before
  and whichever of them failed to load; a look at least five seconds after the last check serves the
  value of the files as they are, if that loads, and the old one otherwise.\<close>

theorem watched_serves_current:
  assumes "watched_new t0 st0 (f st0) = Inr w0"
    and "\<And>now st loaded. (now, st, loaded) \<in> set looks \<Longrightarrow> loaded = f st"
    and "wt_checked (watched_run looks w0) + recheck \<le> now"
  defines "w \<equiv> watched_run looks w0"
  shows "f (wt_stamp w) = Inr (wt_value w) \<and>
     fst (watched_get now st (f st) w) = (case f st of Inr v \<Rightarrow> v | Inl _ \<Rightarrow> wt_value w)"
proof -
  have "value_current f w0" using assms(1) by (cases "f st0") (auto simp: watched_new_def value_current_def)
  from watched_run_current [OF this assms(2)] have c: "f (wt_stamp w) = Inr (wt_value w)"
    by (simp add: w_def value_current_def)
  have "recheck \<le> now - wt_checked w" using assms(3) by (simp add: w_def)
  then show ?thesis using c by (auto simp: watched_get_def Let_def split: sum.split)
qed

theorem bearer_required_witness:
  "require_bearer Some [''abc''] ''/metrics'' (Some ''bearer  abc '') = Pass"
proof -
  let ?os = "os_of_files [(''/t'', ''# c'' @ [nl] @ ''abc'' @ [nl])]"
  have l: "load_tokens ?os ''/t'' = Inr [''abc'']" by code_simp
  have r: "os_read ?os ''/t'' = Inr (''# c'' @ [nl] @ ''abc'' @ [nl])" by (simp add: os_of_files_def)
  have "lines (''# c'' @ [nl] @ ''abc'' @ [nl]) = [''# c'', ''abc'']" "trim ''abc'' = ''abc''" "trim '' abc '' = ''abc''"
    "to_ascii_lowercase ''bearer'' = ''bearer''"
    by code_simp+
  then show ?thesis unfolding bearer_required [OF l r, of Some]
    by (intro disjI2 exI [of _ "''bearer  abc ''"] exI [of _ "''bearer''"] exI [of _ "'' abc ''"] exI [of _ "''abc''"])
      (simp add: starts_with_def)
qed

theorem watched_serves_current_witness:
  "fst (watched_get (6 * 10 ^ 9) [Some (1, 0, 1, 1)] (Inr 1 :: (unit, nat) res) \<lparr>wt_value = 0, wt_stamp = [None], wt_checked = 0\<rparr>) = 1"
  using watched_serves_current [of 0 "[None]" "\<lambda>st. (Inr (if st = [None] then 0 else 1) :: (unit, nat) res)"
      "\<lparr>wt_value = 0, wt_stamp = [None], wt_checked = 0\<rparr>" "[]" "6 * 10 ^ 9" "[Some (1, 0, 1, 1)]"]
  by (simp add: watched_new_def recheck_def)

end
