(* ===== verification/Daemon.thy ===== *)
theory Daemon
  imports Manager_Sample Metrics_Collect Secure Api_Common
begin

text \<open>
  \<open>crates/cadvisor/src/main.rs\<close>: the arguments and what is made of them. clap is not modelled: \<open>args\<close> is
  its result. The parser of durations (humantime) is the parameter \<open>duration\<close>, in nanoseconds or the
  text of its error. \<open>go_style_argv\<close> gives \<open>None\<close> where the slice \<open>a[1..2]\<close> panics. Starting the
  manager and the listeners is not modelled.
\<close>

section \<open>Arguments\<close>

record args =
  ar_listen_ip :: string
  ar_port :: nat
  ar_housekeeping_interval :: string
  ar_max_housekeeping_interval :: string
  ar_allow_dynamic_housekeeping :: bool
  ar_global_housekeeping_interval :: string
  ar_update_machine_info_interval :: string
  ar_storage_duration :: string
  ar_disable_metrics :: string
  ar_enable_metrics :: string
  ar_store_container_labels :: bool
  ar_whitelisted_container_labels :: string
  ar_env_metadata_whitelist :: string
  ar_containerd :: string
  ar_containerd_namespace :: string
  ar_crio :: string
  ar_tls_cert_file :: string
  ar_tls_key_file :: string
  ar_bearer_token_file :: string

text \<open>A slice of a string must begin and end at characters; byte 1 of a string with an ASCII character
  before it always begins one.\<close>

definition go_style_arg :: "nat \<Rightarrow> string \<Rightarrow> string option" where
  "go_style_arg i a =
     (if 0 < i \<and> 2 < length a \<and> starts_with a ''-'' \<and> \<not> starts_with a ''--'' then
        (if is_continuation (a ! 2) then None
         else if \<not> is_digit (a ! 1) then Some (CHR ''-'' # a)
         else Some a)
      else Some a)"

fun go_style_from :: "nat \<Rightarrow> string list \<Rightarrow> string list option" where
  "go_style_from i [] = Some []"
| "go_style_from i (a # as) =
     (case go_style_arg i a of
        None \<Rightarrow> None
      | Some b \<Rightarrow> map_option ((#) b) (go_style_from (Suc i) as))"

definition go_style_argv :: "string list \<Rightarrow> string list option" where
  "go_style_argv argv = go_style_from 0 argv"

section \<open>Options\<close>

definition csv_list :: "string \<Rightarrow> string list" where
  "csv_list s = filter (\<lambda>p. p \<noteq> []) (map trim (split_char CHR '','' s))"

definition parse_duration ::
  "(string \<Rightarrow> (string, nat) res) \<Rightarrow> string \<Rightarrow> string \<Rightarrow> (string, nat) res" where
  "parse_duration duration s flag =
     res_map_err (\<lambda>e. ''invalid '' @ flag @ '' '' @ debug_str s @ '': '' @ e) (duration s)"

definition config_of ::
  "(string \<Rightarrow> (string, nat) res) \<Rightarrow> string \<Rightarrow> args \<Rightarrow> (string, manager_config) res" where
  "config_of duration version ar =
     res_bind (parse_duration duration (ar_housekeeping_interval ar) ''housekeeping_interval'') (\<lambda>hk.
     res_bind (parse_duration duration (ar_max_housekeeping_interval ar) ''max_housekeeping_interval'') (\<lambda>mx.
     res_bind (parse_duration duration (ar_global_housekeeping_interval ar) ''global_housekeeping_interval'') (\<lambda>gl.
     res_bind (parse_duration duration (ar_update_machine_info_interval ar) ''update_machine_info_interval'') (\<lambda>up.
     res_bind (parse_duration duration (ar_storage_duration ar) ''storage_duration'') (\<lambda>sd.
       Inr ((default_manager_config version)
         \<lparr>mc_housekeeping_interval := hk, mc_max_housekeeping_interval := mx,
          mc_allow_dynamic_housekeeping := ar_allow_dynamic_housekeeping ar,
          mc_global_housekeeping_interval := gl, mc_update_machine_info_interval := up,
          mc_storage_duration := sd, mc_cadvisor_version := version,
          mc_containerd_socket := ar_containerd ar, mc_containerd_namespace := ar_containerd_namespace ar,
          mc_crio_socket := ar_crio ar,
          mc_env_metadata_whitelist := csv_list (ar_env_metadata_whitelist ar)\<rparr>))))))"

definition tls_files :: "args \<Rightarrow> (string, (string \<times> string) option) res" where
  "tls_files ar =
     (if ar_tls_cert_file ar = [] \<and> ar_tls_key_file ar = [] then Inr None
      else if ar_tls_cert_file ar \<noteq> [] \<and> ar_tls_key_file ar \<noteq> [] then
        Inr (Some (ar_tls_cert_file ar, ar_tls_key_file ar))
      else Inl ''--tls-cert-file and --tls-key-file go together'')"

definition all_default_enabled :: "string list" where
  "all_default_enabled =
     [''cpu'', ''percpu'', ''memory'', ''cpuLoad'', ''disk'', ''diskIO'', ''network'', ''app'', ''perf_event'',
      ''oom_event'', ''pressure'']"

definition disabled_groups_of :: "args \<Rightarrow> string list" where
  "disabled_groups_of ar =
     (if ar_enable_metrics ar = [] then csv_list (ar_disable_metrics ar)
      else
        (let enabled = map trim (split_char CHR '','' (ar_enable_metrics ar)) in
         filter (\<lambda>g. g \<notin> set enabled) all_default_enabled))"

definition metrics_opts_of :: "args \<Rightarrow> metrics_opts" where
  "metrics_opts_of ar =
     \<lparr>mo_store_container_labels = ar_store_container_labels ar,
      mo_whitelisted_container_labels = csv_list (ar_whitelisted_container_labels ar),
      mo_disabled_groups = disabled_groups_of ar\<rparr>"

definition listen_addr :: "args \<Rightarrow> string" where
  "listen_addr ar =
     (if ar_listen_ip ar = [] then ''0.0.0.0'' else ar_listen_ip ar) @ '':'' @ dec (ar_port ar)"

text \<open>What a request meets first: the tokens, if there is a token file.\<close>

definition admitted ::
  "(string \<Rightarrow> string option) \<Rightarrow> string list option \<Rightarrow> string \<Rightarrow> string option \<Rightarrow> verdict" where
  "admitted to_str tokens path auth =
     (case tokens of None \<Rightarrow> Pass | Some ts \<Rightarrow> require_bearer to_str ts path auth)"

section \<open>Lemmas\<close>

text \<open>A flag that is rewritten.\<close>

definition long_flag :: "string \<Rightarrow> bool" where
  "long_flag a \<longleftrightarrow> (\<exists>c d r. a = CHR ''-'' # c # d # r \<and> c \<noteq> CHR ''-'' \<and> \<not> is_digit c)"

lemma starts_dash: "starts_with a ''-'' \<longleftrightarrow> (\<exists>r. a = CHR ''-'' # r)"
  "starts_with a ''--'' \<longleftrightarrow> (\<exists>r. a = CHR ''-'' # CHR ''-'' # r)"
  by (auto simp: starts_with_iff)

lemma go_style_arg_Some:
  "go_style_arg (Suc i) a = Some b \<Longrightarrow> b = (if long_flag a then CHR ''-'' # a else a)"
  by (cases a; cases "tl a"; cases "tl (tl a)")
    (auto simp: go_style_arg_def long_flag_def starts_dash split: if_splits)

lemma go_style_arg_again: "go_style_arg i a = Some b \<Longrightarrow> go_style_arg i b = Some b"
  by (auto simp: go_style_arg_def starts_dash split: if_splits)

lemma go_style_from_again: "go_style_from i as = Some bs \<Longrightarrow> go_style_from i bs = Some bs"
  by (induction i as arbitrary: bs rule: go_style_from.induct)
    (auto split: option.splits dest: go_style_arg_again)

lemma go_style_from_Some:
  "go_style_from (Suc i) as = Some bs \<Longrightarrow> bs = map (\<lambda>a. if long_flag a then CHR ''-'' # a else a) as"
  by (induction as arbitrary: i bs) (auto split: option.splits dest!: go_style_arg_Some)

section \<open>Properties\<close>

text \<open>The arguments behind the program name that are single-dash long flags get their second dash,
  the others and the order stay as they are, and rewriting twice is rewriting once.\<close>

theorem go_style_rewrites:
  assumes "go_style_argv (prog # as) = Some bs"
  shows "bs = prog # map (\<lambda>a. if long_flag a then CHR ''-'' # a else a) as \<and> go_style_argv bs = Some bs"
proof
  have "go_style_arg 0 prog = Some prog" by (simp add: go_style_arg_def)
  then show "bs = prog # map (\<lambda>a. if long_flag a then CHR ''-'' # a else a) as"
    using assms by (auto simp: go_style_argv_def split: option.splits dest: go_style_from_Some)
  show "go_style_argv bs = Some bs" 
    unfolding go_style_argv_def by (rule go_style_from_again [OF assms [unfolded go_style_argv_def]])
qed

text \<open>The slice panics for a flag with a character beyond ASCII behind the dash.\<close>

lemma go_style_panics: "is_continuation d \<Longrightarrow> c \<noteq> CHR ''-'' \<Longrightarrow> go_style_argv [prog, CHR ''-'' # c # d # r] = None"
  by (simp add: go_style_argv_def go_style_arg_def starts_dash)

text \<open>The metric groups a scrape leaves out: with \<open>-enable_metrics\<close> every known group that it does not
  list, whatever \<open>-disable_metrics\<close> says, and without it the listed ones.\<close>

theorem metric_groups:
  "group_enabled (metrics_opts_of ar) g \<longleftrightarrow>
     (if ar_enable_metrics ar \<noteq> [] then
        g \<notin> set all_default_enabled \<or> g \<in> trim ` set (split_char CHR '','' (ar_enable_metrics ar))
      else g = [] \<or> g \<notin> trim ` set (split_char CHR '','' (ar_disable_metrics ar)))"
  by (auto simp: group_enabled_def metrics_opts_of_def disabled_groups_of_def csv_list_def Let_def)

theorem go_style_rewrites_witness:
  "go_style_argv [''cadvisor'', ''-port'', ''9096'', ''-9'', ''--x''] = Some [''cadvisor'', ''--port'', ''9096'', ''-9'', ''--x'']"
proof -
  have "\<exists>bs. go_style_argv [''cadvisor'', ''-port'', ''9096'', ''-9'', ''--x''] = Some bs"
    by (simp add: go_style_argv_def go_style_arg_def starts_dash is_continuation_def is_digit_def code_def)
  then obtain bs where bs: "go_style_argv [''cadvisor'', ''-port'', ''9096'', ''-9'', ''--x''] = Some bs" by blast
  have "long_flag ''-port''" "\<not> long_flag ''9096''" "\<not> long_flag ''-9''" "\<not> long_flag ''--x''"
    by (simp_all add: long_flag_def is_digit_def code_def)
  then show ?thesis using go_style_rewrites [OF bs] bs by simp
qed

end
