(* ===== verification/Machine.thy ===== *)
theory Machine
  imports Metrics_Encode Host_Parse Host_Fs Btree
begin

text \<open>
  \<open>crates/cadvisor-host/src/machine.rs\<close>: the machine information out of \<open>/proc\<close> and \<open>/sys\<close>, over the
  operating system as a parameter. Directory entries that cannot be read are left out, as
  \<open>flatten\<close> does. The lemmas: the cpu lists of the kernel are expanded right, and each core of a node
  has the threads of the node that report its id.
\<close>

section \<open>Reading files\<close>

definition read_trim :: "os \<Rightarrow> string \<Rightarrow> string option" where
  "read_trim os path = map_option trim (res_ok (os_read os path))"

definition read_u64 :: "os \<Rightarrow> string \<Rightarrow> u64 option" where
  "read_u64 os path = Option.bind (read_trim os path) parse_u64"

definition or_default :: "'a \<Rightarrow> 'a option \<Rightarrow> 'a" where
  "or_default d r = (case r of Some x \<Rightarrow> x | None \<Rightarrow> d)"

definition dir_names :: "os \<Rightarrow> string \<Rightarrow> string list option" where
  "dir_names os dir =
     map_option (List.map_filter (\<lambda>e. map_option fst (res_ok e))) (res_ok (os_read_dir os dir))"

text \<open>A list of ids like \<open>0-3,8,10-11\<close>.\<close>

definition cpulist_part :: "string \<Rightarrow> i64 list" where
  "cpulist_part part =
     (let part = trim part in
      if part = [] then []
      else case split_once CHR ''-'' part of
        Some (a, b) \<Rightarrow>
          (case (parse_i64 a, parse_i64 b) of
             (Some a, Some b) \<Rightarrow> [a..b]
           | _ \<Rightarrow> [])
      | None \<Rightarrow> (case parse_i64 part of Some v \<Rightarrow> [v] | None \<Rightarrow> []))"

definition parse_cpulist :: "string \<Rightarrow> i64 list" where
  "parse_cpulist s = concat (map cpulist_part (split_char CHR '','' s))"

definition parse_cache_size :: "string \<Rightarrow> u64" where
  "parse_cache_size s =
     (let s = trim s;
          (num, mult) =
            (if s \<noteq> [] \<and> last s = CHR ''K'' then (butlast s, 1024)
             else if s \<noteq> [] \<and> last s = CHR ''M'' then (butlast s, 1024 * 1024)
             else if s \<noteq> [] \<and> last s = CHR ''G'' then (butlast s, 1024 * 1024 * 1024)
             else (s, 1))
      in or_default 0 (parse_u64 num) * mult)"

definition machine_id :: "os \<Rightarrow> string list \<Rightarrow> string" where
  "machine_id os candidates =
     (case List.map_filter (read_trim os) candidates of x # _ \<Rightarrow> x | [] \<Rightarrow> [])"

section \<open>Huge pages and caches\<close>

definition hugepage_entry :: "os \<Rightarrow> string \<Rightarrow> string \<Rightarrow> (string \<times> huge_pages_info) option" where
  "hugepage_entry os dir name =
     (case Option.bind (strip_prefix ''hugepages-'' name) (strip_suffix ''kB'') of
        None \<Rightarrow> None
      | Some kb \<Rightarrow>
          Some (name, \<lparr>hp_page_size = or_default 0 (parse_u64 kb),
            hp_num_pages = or_default 0 (read_u64 os (path_join (path_join dir name) ''nr_hugepages''))\<rparr>))"

definition hugepages_from :: "os \<Rightarrow> string \<Rightarrow> huge_pages_info list" where
  "hugepages_from os dir =
     (case dir_names os dir of
        None \<Rightarrow> []
      | Some names \<Rightarrow> map snd (sort_key fst (List.map_filter (hugepage_entry os dir) names)))"

definition cpu_path :: "i64 \<Rightarrow> string \<Rightarrow> string" where
  "cpu_path cpu rest =
     ''/sys/devices/system/cpu/cpu'' @ (if cpu < 0 then ''-'' @ dec (nat (- cpu)) else dec (nat cpu)) @ rest"

text \<open>\<open>as i64\<close> of a \<open>u64\<close> reads the same bits.\<close>

definition per_cpu_topology :: "os \<Rightarrow> i64 \<Rightarrow> (i64 \<times> i64) option" where
  "per_cpu_topology os cpu =
     (case read_u64 os (cpu_path cpu ''/topology/core_id'') of
        None \<Rightarrow> None
      | Some c \<Rightarrow>
          (case read_u64 os (cpu_path cpu ''/topology/physical_package_id'') of
             None \<Rightarrow> None
           | Some p \<Rightarrow> Some (sint c, sint p)))"

definition cache_entry :: "os \<Rightarrow> string \<Rightarrow> string \<Rightarrow> (cpu_cache \<times> i64 list) option" where
  "cache_entry os base name =
     (if \<not> starts_with name ''index'' then None
      else
        (let p = path_join base name; file = (\<lambda>f. path_join p f) in
         case read_trim os (file ''type'') of
           None \<Rightarrow> None
         | Some t \<Rightarrow>
             if t \<in> {''Data'', ''Instruction'', ''Unified''} then
               Some (\<lparr>cache_id = sint (or_default 0 (read_u64 os (file ''id''))),
                      cache_size = parse_cache_size (or_default [] (read_trim os (file ''size''))),
                      cache_cache_type = t,
                      cache_level = sint (or_default 0 (read_u64 os (file ''level'')))\<rparr>,
                     parse_cpulist (or_default [] (read_trim os (file ''shared_cpu_list''))))
             else None))"

definition cpu_caches :: "os \<Rightarrow> i64 \<Rightarrow> (cpu_cache \<times> i64 list) list" where
  "cpu_caches os cpu =
     (let base = cpu_path cpu ''/cache'' in
      case dir_names os base of None \<Rightarrow> [] | Some names \<Rightarrow> List.map_filter (cache_entry os base) names)"

section \<open>Topology\<close>

text \<open>The index of the core with an id, the number of cores when there is none.\<close>

definition core_index :: "i64 \<Rightarrow> cpu_core list \<Rightarrow> nat" where
  "core_index i cores = length (takeWhile (\<lambda>c. core_id c \<noteq> i) cores)"

definition add_thread :: "i64 \<Rightarrow> i64 \<Rightarrow> i64 \<Rightarrow> cpu_core list \<Rightarrow> cpu_core list" where
  "add_thread cpu cid sid cores =
     (let idx = core_index cid cores;
          cores = (if idx < length cores then cores
                   else cores @ [default_cpu_core\<lparr>core_id := cid, core_socket_id := sid\<rparr>])
      in cores[idx := (cores ! idx)\<lparr>core_threads := sort (core_threads (cores ! idx) @ [cpu])\<rparr>])"

definition cache_key :: "cpu_cache \<Rightarrow> i64 \<times> string" where
  "cache_key c = (cache_level c, cache_cache_type c)"

definition add_cache :: "i64 \<Rightarrow> nat \<Rightarrow> cpu_cache \<times> i64 list \<Rightarrow> numa_node \<Rightarrow> numa_node" where
  "add_cache num_cpus idx e node =
     (let (cache, shared) = e in
      if cache_level cache < 3 then
        (let core = node_cores node ! idx in
         if cache_key cache \<in> cache_key ` set (core_caches core) then node
         else node\<lparr>node_cores := (node_cores node)[idx := core\<lparr>core_caches := core_caches core @ [cache]\<rparr>]\<rparr>)
      else if num_cpus \<le> int (length shared) then
        (if cache_key cache \<in> cache_key ` set (node_caches node) then node
         else node\<lparr>node_caches := node_caches node @ [cache]\<rparr>)
      else if list_ex (\<lambda>c. cache_id c = cache_id cache \<and> cache_level c = cache_level cache) (node_caches node)
      then node
      else node\<lparr>node_caches := node_caches node @ [cache]\<rparr>)"

definition add_cpu :: "os \<Rightarrow> i64 \<Rightarrow> i64 \<Rightarrow> numa_node \<Rightarrow> numa_node" where
  "add_cpu os num_cpus cpu node =
     (case per_cpu_topology os cpu of
        None \<Rightarrow> node
      | Some (cid, sid) \<Rightarrow>
          (let node = node\<lparr>node_cores := add_thread cpu cid sid (node_cores node)\<rparr>;
               idx = core_index cid (node_cores node)
           in fold (add_cache num_cpus idx) (cpu_caches os cpu) node))"

definition node_path :: "i64 \<Rightarrow> string \<Rightarrow> string" where
  "node_path i rest =
     ''/sys/devices/system/node/node'' @ (if i < 0 then ''-'' @ dec (nat (- i)) else dec (nat i)) @ rest"

text \<open>The memory of a node: of each line with \<open>MemTotal:\<close> the last word but one, the last such line.\<close>

definition node_memory_line :: "string \<Rightarrow> u64 \<Rightarrow> u64" where
  "node_memory_line line mem =
     (if split_once_str ''MemTotal:'' line = None then mem
      else (case rev (split_whitespace line) of _ # v # _ \<Rightarrow> or_default 0 (parse_u64 v) | _ \<Rightarrow> 0) * 1024)"

definition node_cpus :: "os \<Rightarrow> i64 \<Rightarrow> i64 list" where
  "node_cpus os i = parse_cpulist (or_default [] (read_trim os (node_path i ''/cpulist'')))"

definition sort_node :: "numa_node \<Rightarrow> numa_node" where
  "sort_node node =
     node\<lparr>node_cores := map (\<lambda>c. c\<lparr>core_caches := sort_key cache_key (core_caches c)\<rparr>)
       (sort_key core_id (node_cores node))\<rparr>"

definition numa_node_of :: "os \<Rightarrow> i64 \<Rightarrow> numa_node" where
  "numa_node_of os i =
     (let cpus = node_cpus os i;
          node = \<lparr>node_id = i,
            node_memory =
              (case read_trim os (node_path i ''/meminfo'') of
                 Some mi \<Rightarrow> fold node_memory_line (lines mi) 0 | None \<Rightarrow> 0),
            node_hugepages = hugepages_from os (node_path i ''/hugepages''),
            node_cores = [], node_caches = [],
            node_distances =
              map word_of_int (parse_cpulist (or_default [] (read_trim os (node_path i ''/distance''))))\<rparr>
      in sort_node (fold (add_cpu os (int (length cpus))) cpus node))"

definition topology :: "os \<Rightarrow> numa_node list \<times> i64" where
  "topology os =
     (let ids = (case dir_names os ''/sys/devices/system/node'' of
                   Some names \<Rightarrow>
                     List.map_filter (\<lambda>n. Option.bind (strip_prefix ''node'' n) parse_i64) names
                 | None \<Rightarrow> []);
          ids = sort ids
      in (map (numa_node_of os) ids, sum_list (map (\<lambda>i. int (length (node_cpus os i))) ids)))"

section \<open>Devices\<close>

text \<open>The bracketed word of the scheduler file.\<close>

definition trim_brackets :: "string \<Rightarrow> string" where
  "trim_brackets w =
     (let b = (\<lambda>c. c = CHR ''['' \<or> c = CHR '']'') in rev (dropWhile b (rev (dropWhile b w))))"

definition scheduler_of :: "string option \<Rightarrow> string" where
  "scheduler_of r =
     (case r of
        None \<Rightarrow> ''none''
      | Some s \<Rightarrow>
          (case find (\<lambda>w. starts_with w ''['') (split_whitespace s) of
             Some w \<Rightarrow> trim_brackets w | None \<Rightarrow> ''none''))"

definition disk_map_entry :: "os \<Rightarrow> string \<Rightarrow> string \<Rightarrow> (string \<times> disk_info) option" where
  "disk_map_entry os sys_block name =
     (if list_ex (starts_with name) [''loop'', ''ram'', ''sr'', ''fd''] then None
      else
        (let p = path_join sys_block name in
         case read_trim os (path_join p ''dev'') of
           None \<Rightarrow> None
         | Some dev \<Rightarrow>
             (case split_once CHR '':'' dev of
                None \<Rightarrow> None
              | Some (major, minor) \<Rightarrow>
                  Some (dev,
                    \<lparr>dinfo_name = name, dinfo_major = or_default 0 (parse_u64 major),
                     dinfo_minor = or_default 0 (parse_u64 minor),
                     dinfo_size = or_default 0 (read_u64 os (path_join p ''size'')) * 512,
                     dinfo_scheduler = scheduler_of (read_trim os (path_join p ''queue/scheduler''))\<rparr>))))"

definition disk_map_at :: "os \<Rightarrow> string \<Rightarrow> (string \<times> disk_info) list" where
  "disk_map_at os sys_block =
     (case dir_names os sys_block of
        None \<Rightarrow> []
      | Some names \<Rightarrow> bt_of_list (List.map_filter (disk_map_entry os sys_block) names))"

definition disk_map :: "os \<Rightarrow> (string \<times> disk_info) list" where
  "disk_map os = disk_map_at os ''/sys/block''"

definition network_entry :: "os \<Rightarrow> string \<Rightarrow> net_info option" where
  "network_entry os name =
     (if list_ex (starts_with name) [''lo'', ''veth'', ''docker''] then None
      else
        (let p = path_join ''/sys/class/net'' name;
             int_file = (\<lambda>f. or_default 0 (Option.bind (read_trim os (path_join p f)) parse_i64)) in
         Some \<lparr>netinfo_name = name, netinfo_mac_address = or_default [] (read_trim os (path_join p ''address'')),
               netinfo_speed = int_file ''speed'', netinfo_mtu = int_file ''mtu''\<rparr>))"

definition network_devices :: "os \<Rightarrow> net_info list" where
  "network_devices os =
     (case dir_names os ''/sys/class/net'' of
        None \<Rightarrow> []
      | Some names \<Rightarrow> sort_key netinfo_name (List.map_filter (network_entry os) names))"

definition machine_info_of ::
  "os \<Rightarrow> vfs \<Rightarrow> partition list \<Rightarrow> gotime \<Rightarrow> (host_error, machine_info) res" where
  "machine_info_of os vfs partitions timestamp =
     res_bind (res_map_err (host_io ''/proc/cpuinfo'') (os_read os ''/proc/cpuinfo'')) (\<lambda>cpuinfo.
     res_bind (res_map_err (host_io ''/proc/meminfo'') (os_read os ''/proc/meminfo'')) (\<lambda>meminfo.
       let cpu = parse_cpuinfo cpuinfo; mem = parse_meminfo meminfo; (nodes, num_cores) = topology os in
       Inr \<lparr>mi_timestamp = timestamp, mi_cpu_vendor_id = ci_vendor_id cpu, mi_num_cores = num_cores,
            mi_num_physical_cores = ci_physical_cores cpu, mi_num_sockets = ci_sockets cpu,
            mi_cpu_frequency =
              or_default (ci_khz_fallback cpu)
                (read_u64 os ''/sys/devices/system/cpu/cpu0/cpufreq/cpuinfo_max_freq''),
            mi_memory_capacity = mi_total_bytes mem, mi_swap_capacity = mi_swap_bytes mem,
            mi_memory_by_type = [], mi_nvm_info = default_nvm_info,
            mi_huge_pages = hugepages_from os ''/sys/kernel/mm/hugepages'',
            mi_machine_id = machine_id os [''/etc/machine-id'', ''/var/lib/dbus/machine-id''],
            mi_system_uuid = machine_id os [''/sys/class/dmi/id/product_uuid''],
            mi_boot_id = machine_id os [''/proc/sys/kernel/random/boot_id''],
            mi_filesystems = machine_filesystems vfs partitions, mi_disk_map = disk_map os,
            mi_network_devices = network_devices os, mi_topology = nodes,
            mi_cloud_provider = ''Unknown'', mi_instance_type = ''Unknown'', mi_instance_id = ''None''\<rparr>))"

section \<open>Lemmas\<close>

text \<open>The kernel's print of a set of cpus.\<close>

definition range_text :: "nat \<times> nat \<Rightarrow> string" where
  "range_text r = (if fst r = snd r then dec (fst r) else dec (fst r) @ CHR ''-'' # dec (snd r))"

fun cpulist_text :: "(nat \<times> nat) list \<Rightarrow> string" where
  "cpulist_text [] = []"
| "cpulist_text [r] = range_text r"
| "cpulist_text (r # rs) = range_text r @ CHR '','' # cpulist_text rs"

lemma dec_not: "CHR ''-'' \<notin> set (dec n)" "CHR '','' \<notin> set (dec n)" "CHR '' '' \<notin> set (dec n)"
  using dec_digits [of n] by (auto simp: is_digit_def code_def)

lemma range_text_not: "CHR '','' \<notin> set (range_text r)" "range_text r \<noteq> []"
  using dec_not by (simp_all add: range_text_def)

lemma trim_range: "trim (range_text r) = range_text r"
proof (rule trim_no_ws)
  have "\<not> is_ws CHR ''-''" by code_simp
  then show "\<forall>c \<in> set (range_text r). \<not> is_ws c" using dec_no_ws by (auto simp: range_text_def)
qed

lemma cpulist_part_range:
  assumes "fst r \<le> snd r" "snd r < 2 ^ 63"
  shows "cpulist_part (range_text r) = [int (fst r)..int (snd r)]"
proof -
  have p: "parse_i64 (dec (fst r)) = Some (int (fst r))" "parse_i64 (dec (snd r)) = Some (int (snd r))"
    using assms by (simp_all add: parse_i64_dec)
  show ?thesis
  proof (cases "fst r = snd r")
    case True
    then have "split_once CHR ''-'' (range_text r) = None" "parse_i64 (range_text r) = Some (int (snd r))"
      using dec_not p by (simp_all add: split_once_None range_text_def)
    then show ?thesis using True range_text_not by (simp add: cpulist_part_def trim_range Let_def)
  next
    case False
    have "split_once CHR ''-'' (range_text r) = Some (dec (fst r), dec (snd r))"
      using split_once_append [of "CHR ''-''" "dec (fst r)" "dec (snd r)"] dec_not False by (simp add: range_text_def)
    then show ?thesis using range_text_not p by (simp add: cpulist_part_def trim_range Let_def)
  qed
qed

lemma split_cpulist: "rs \<noteq> [] \<Longrightarrow> split_char CHR '','' (cpulist_text rs) = map range_text rs"
proof (induction rs rule: cpulist_text.induct)
  case (2 r)
  then show ?case using range_text_not by (simp add: split_char_plain)
next
  case (3 r r' rs)
  then show ?case using split_char_append [OF range_text_not(1), of r "cpulist_text (r' # rs)"] by simp
qed simp

text \<open>Blanks do not separate: of the distances of a machine with several nodes nothing is read.\<close>

lemma distances_lost: "parse_cpulist (dec a @ '' '' @ dec b) = []"
proof -
  let ?s = "dec a @ '' '' @ dec b"
  have "CHR '','' \<notin> set ?s" using dec_not by simp
  then have "parse_cpulist ?s = cpulist_part ?s" by (simp add: parse_cpulist_def split_char_plain)
  moreover have t: "trim ?s = ?s"
  proof -
    have h: "\<not> is_ws (hd (dec a))" "\<not> is_ws (last (dec b))" using dec_no_ws dec_not_Nil hd_in_set last_in_set by metis+
    have "dropWhile is_ws ?s = ?s" using h(1) by (cases "dec a") simp_all
    moreover have "dropWhile is_ws (rev ?s) = rev ?s" using h(2) by (cases "dec b" rule: rev_cases) simp_all
    ultimately show ?thesis by (simp add: trim_def trim_start_def trim_end_def)
  qed
  moreover have "split_once CHR ''-'' ?s = None" using dec_not by (simp add: split_once_None)
  moreover have "parse_i64 ?s = None"
  proof -
    obtain c r where c: "dec a = c # r" "is_digit c" using dec_digits [of a] by (cases "dec a") auto
    have "\<not> is_digit CHR '' ''" by (simp add: is_digit_def code_def)
    then have "digits_val 0 ?s = None" using digits_val_Some_digits [of 0 ?s] by (cases "digits_val 0 ?s") auto
    then show ?thesis using c digit_not_sign [OF c(2)]
      by (simp add: parse_i64_def parse_unsigned_def unsigned_digits_def)
  qed
  ultimately show ?thesis by (simp add: cpulist_part_def Let_def)
qed

text \<open>The cores of a node by id and threads; the caches do not change them.\<close>

definition threads_view :: "cpu_core list \<Rightarrow> (i64 \<times> i64 list) list" where
  "threads_view cores = map (\<lambda>c. (core_id c, core_threads c)) cores"

lemma view_update:
  assumes "core_id x = core_id (cs ! i)" "core_threads x = core_threads (cs ! i)"
  shows "threads_view (cs[i := x]) = threads_view cs"
proof (cases "i < length cs")
  case True
  then show ?thesis using assms by (simp add: threads_view_def map_update list_update_same_conv)
next
  case False
  then have "cs[i := x] = cs" by (intro list_update_beyond) simp
  then show ?thesis by simp
qed

lemma add_cache_view: "threads_view (node_cores (add_cache n idx e node)) = threads_view (node_cores node)"
  by (cases e) (simp add: add_cache_def view_update Let_def)

lemma add_caches_view:
  "threads_view (node_cores (fold (add_cache n idx) es node)) = threads_view (node_cores node)"
  by (induction es arbitrary: node) (simp_all add: add_cache_view)

lemma core_index_less: "core_index i cores < length cores \<Longrightarrow> core_id (cores ! core_index i cores) = i"
  unfolding core_index_def by (rule nth_length_takeWhile [of "\<lambda>c. core_id c \<noteq> i", simplified])

lemma core_index_none: "\<not> core_index i cores < length cores \<Longrightarrow> i \<notin> core_id ` set cores"
proof -
  assume h: "\<not> core_index i cores < length cores"
  have "takeWhile (\<lambda>c. core_id c \<noteq> i) cores = cores"
    by (metis (no_types, lifting) core_index_def h length_takeWhile_le linorder_not_le order_le_less takeWhile_eq_take take_all)
  then show ?thesis by (metis (mono_tags, lifting) image_iff takeWhile_eq_all_conv)
qed

text \<open>The cpus of a core are sorted, and they are the ones seen that report its id.\<close>

definition on_core :: "os \<Rightarrow> i64 \<Rightarrow> i64 \<Rightarrow> bool" where
  "on_core os cid cpu \<longleftrightarrow> map_option fst (per_cpu_topology os cpu) = Some cid"

definition cores_of :: "os \<Rightarrow> i64 list \<Rightarrow> (i64 \<times> i64 list) list \<Rightarrow> bool" where
  "cores_of os seen v \<longleftrightarrow> distinct (map fst v) \<and>
     (\<forall>e \<in> set v. snd e = sort (filter (on_core os (fst e)) seen)) \<and>
     fst ` set v = {cid. \<exists>cpu \<in> set seen. on_core os cid cpu}"

lemma sort_snoc_sort: "sort (sort xs @ ys) = sort (xs @ ys :: i64 list)"
  by (rule properties_for_sort) simp_all

lemma fst_image_view: "fst ` set (threads_view cs) = core_id ` set cs"
  by (force simp: threads_view_def)

lemma cores_of_view:
  "cores_of os seen (threads_view cs) \<longleftrightarrow> distinct (map core_id cs) \<and>
     (\<forall>c \<in> set cs. core_threads c = sort (filter (on_core os (core_id c)) seen)) \<and>
     core_id ` set cs = {cid. \<exists>cpu \<in> set seen. on_core os cid cpu}"
  unfolding cores_of_def fst_image_view by (simp add: threads_view_def comp_def)

lemma add_thread_view:
  assumes "cores_of os seen (threads_view cs)" "per_cpu_topology os cpu = Some (cid, sid)"
  shows "cores_of os (seen @ [cpu]) (threads_view (add_thread cpu cid sid cs))"
proof -
  have on: "on_core os c cpu \<longleftrightarrow> c = cid" for c using assms(2) by (auto simp: on_core_def)
  have d: "distinct (map core_id cs)"
    and t: "\<And>c. c \<in> set cs \<Longrightarrow> core_threads c = sort (filter (on_core os (core_id c)) seen)"
    and i: "core_id ` set cs = {cid. \<exists>cpu \<in> set seen. on_core os cid cpu}"
    using assms(1) by (simp_all add: cores_of_view)
  let ?idx = "core_index cid cs"
  let ?new = "\<lambda>c. c\<lparr>core_threads := sort (core_threads c @ [cpu])\<rparr>"
  show ?thesis
  proof (cases "?idx < length cs")
    case True
    have id: "core_id (cs ! ?idx) = cid" by (rule core_index_less [OF True])
    have a: "add_thread cpu cid sid cs = cs[?idx := ?new (cs ! ?idx)]" using True by (simp add: add_thread_def Let_def)
    have m: "map core_id (cs[?idx := ?new (cs ! ?idx)]) = map core_id cs"
      using True by (simp only: map_update) (simp add: list_update_same_conv)
    have "core_threads c = sort (filter (on_core os (core_id c)) (seen @ [cpu]))"
      if mem: "c \<in> set (cs[?idx := ?new (cs ! ?idx)])" for c
    proof -
      obtain j where j: "j < length cs" "c = cs[?idx := ?new (cs ! ?idx)] ! j"
        using mem unfolding in_set_conv_nth length_list_update by blast
      show ?thesis
      proof (cases "j = ?idx")
        case True
        then show ?thesis using j id on t [of "cs ! ?idx"] by (simp add: sort_snoc_sort)
      next
        case False
        then have c: "c = cs ! j" using j by simp
        have "core_id c \<noteq> cid"
          using False True j(1) d id c by (metis length_map nth_eq_iff_index_eq nth_map)
        then show ?thesis using c t [of c] on j(1) by simp
      qed
    qed
    moreover have "core_id ` set (cs[?idx := ?new (cs ! ?idx)]) = core_id ` set cs"
      using m by (metis set_map)
    moreover have "\<exists>k \<in> set seen. on_core os cid k" 
    proof -
      have "core_id (cs ! ?idx) \<in> core_id ` set cs" using True by simp
      then show ?thesis unfolding i id by simp
    qed
    then have "{cid. \<exists>cpu \<in> set seen. on_core os cid cpu} = {cid. \<exists>cpu \<in> set (seen @ [cpu]). on_core os cid cpu}"
      using on by auto
    ultimately show ?thesis unfolding a cores_of_view m using d i by simp
  next
    case False
    let ?c = "default_cpu_core\<lparr>core_id := cid, core_socket_id := sid, core_threads := [cpu]\<rparr>"
    have n: "cid \<notin> core_id ` set cs" by (rule core_index_none [OF False])
    have l: "?idx = length cs" using False by (simp add: core_index_def length_takeWhile_le le_antisym)
    have a: "add_thread cpu cid sid cs = cs @ [?c]"
      using l by (simp add: add_thread_def Let_def list_update_append default_cpu_core_def)
    have "filter (on_core os cid) seen = []" using n i by (auto simp: filter_empty_conv)
    moreover have "core_id c \<noteq> cid" if "c \<in> set cs" for c using n that by blast
    moreover have "insert cid {cid. \<exists>cpu \<in> set seen. on_core os cid cpu} =
        {cid. \<exists>cpu \<in> set (seen @ [cpu]). on_core os cid cpu}"
      using on by auto
    ultimately show ?thesis unfolding a cores_of_view using d i t on n by simp
  qed
qed

lemma add_cpu_view:
  assumes "cores_of os seen (threads_view (node_cores node))"
  shows "cores_of os (seen @ [cpu]) (threads_view (node_cores (add_cpu os n cpu node)))"
proof (cases "per_cpu_topology os cpu")
  case None
  then have "on_core os c cpu \<longleftrightarrow> False" for c by (simp add: on_core_def)
  then show ?thesis using assms None by (simp add: add_cpu_def cores_of_def)
next
  case (Some t)
  obtain cid sid where t: "t = (cid, sid)" by fastforce
  show ?thesis using add_thread_view [OF assms, of cpu cid sid] Some
    by (simp add: add_cpu_def t Let_def add_caches_view)
qed

lemma add_cpus_view:
  "cores_of os seen (threads_view (node_cores node)) \<Longrightarrow>
     cores_of os (seen @ cpus) (threads_view (node_cores (fold (add_cpu os n) cpus node)))"
proof (induction cpus arbitrary: seen node)
  case (Cons cpu cpus)
  then show ?case using Cons.IH [OF add_cpu_view [OF Cons.prems]] by simp
qed simp

lemma sort_node_view:
  "set (threads_view (node_cores (sort_node node))) = set (threads_view (node_cores node))"
  "map core_id (node_cores (sort_node node)) = map core_id (sort_key core_id (node_cores node))"
  by (simp_all add: sort_node_def threads_view_def image_image comp_def)

section \<open>Properties\<close>

text \<open>A list of cpus as the kernel prints it is expanded to the ids of its ranges, in order.\<close>

theorem cpulist_roundtrip:
  assumes "rs \<noteq> []" "\<forall>r \<in> set rs. fst r \<le> snd r \<and> snd r < 2 ^ 63"
  shows "parse_cpulist (cpulist_text rs) = concat (map (\<lambda>r. [int (fst r)..int (snd r)]) rs)"
  using assms(2) by (simp add: parse_cpulist_def split_cpulist [OF assms(1)] comp_def cpulist_part_range cong: map_cong)

text \<open>C34: the cores of a NUMA node are the core ids its cpus report, each once and in order, and the
  threads of a core are the cpus of the node that report its id, sorted.\<close>

theorem node_cores_threads:
  "sorted_wrt (<) (map core_id (node_cores (numa_node_of os i))) \<and>
   core_id ` set (node_cores (numa_node_of os i)) =
     {cid. \<exists>cpu \<in> set (node_cpus os i). map_option fst (per_cpu_topology os cpu) = Some cid} \<and>
   map core_threads (node_cores (numa_node_of os i)) =
     map (\<lambda>c. sort (filter (\<lambda>cpu. map_option fst (per_cpu_topology os cpu) = Some (core_id c)) (node_cpus os i)))
       (node_cores (numa_node_of os i))"
proof -
  have "\<exists>node. numa_node_of os i =
      sort_node (fold (add_cpu os (int (length (node_cpus os i)))) (node_cpus os i) node) \<and> node_cores node = []"
    unfolding numa_node_of_def Let_def by (intro exI conjI) (rule refl, simp)
  then obtain node where n: "numa_node_of os i =
      sort_node (fold (add_cpu os (int (length (node_cpus os i)))) (node_cpus os i) node)" "node_cores node = []"
    by blast
  let ?node = "fold (add_cpu os (int (length (node_cpus os i)))) (node_cpus os i) node"
  have "cores_of os [] (threads_view (node_cores node))" by (simp add: n(2) cores_of_def threads_view_def)
  from add_cpus_view [OF this, of "node_cpus os i"]
  have v: "cores_of os (node_cpus os i) (threads_view (node_cores ?node))" by simp
  then have d: "distinct (map core_id (node_cores ?node))" by (simp add: cores_of_def threads_view_def comp_def)
  have "sorted_wrt (<) (map core_id (sort_key core_id (node_cores ?node)))"
    using d by (simp add: strict_sorted_iff distinct_map)
  moreover have "core_id ` set (node_cores (sort_node ?node)) = {cid. \<exists>cpu \<in> set (node_cpus os i). on_core os cid cpu}"
    using v sort_node_view(1) [of ?node] by (simp add: cores_of_def flip: fst_image_view)
  moreover have "core_threads c = sort (filter (on_core os (core_id c)) (node_cpus os i))"
    if "c \<in> set (node_cores (sort_node ?node))" for c
  proof -
    have "(core_id c, core_threads c) \<in> set (threads_view (node_cores (sort_node ?node)))"
      using that by (simp add: threads_view_def)
    then show ?thesis using v unfolding sort_node_view(1) cores_of_def by fastforce
  qed
  ultimately show ?thesis unfolding n(1) sort_node_view(2) on_core_def [abs_def] by simp
qed

theorem cpulist_roundtrip_witness: "parse_cpulist (cpulist_text [(0, 3), (8, 8), (10, 11)]) = [0, 1, 2, 3, 8, 10, 11]"
proof -
  have "[int 0..int 3] = [0, 1, 2, 3]" "[int 8..int 8] = [8]" "[int 10..int 11] = [10, 11]" by (simp_all add: upto.simps)
  then show ?thesis using cpulist_roundtrip [of "[(0, 3), (8, 8), (10, 11)]"] by simp
qed

end
