(* ===== verification/Watch.thy ===== *)
theory Watch
  imports Host_Env Tree_Walk
begin

text \<open>
  The cgroup watcher of \<open>crates/cadvisor-host/src/watch.rs\<close>. The \<open>inotify\<close> crate and the kernel are a
  parameter: an \<open>inotify\<close> function answers a registration with a watch descriptor or an error, and the
  events that are read are a list. Paths are compared by their components, as \<open>Path\<close> does. The
  recursion of \<open>watch_dir\<close> is a stack of directories, its head the next call.
\<close>

section \<open>The watcher\<close>

datatype cgroup_event = Added string | Removed string

record watcher =
  cw_root :: string
  cw_watches :: "nat \<Rightarrow> string option"
  cw_sent :: "cgroup_event list"

type_synonym inotify = "string \<Rightarrow> (io_kind, nat) res"

definition watcher_new :: "string \<Rightarrow> watcher" where
  "watcher_new path = \<lparr>cw_root = path, cw_watches = (\<lambda>_. None), cw_sent = []\<rparr>"

text \<open>\<open>Path::components\<close>.\<close>

definition path_components :: "string \<Rightarrow> string list" where
  "path_components p =
     (let segs = split_char CHR ''/'' p in
      (if starts_with p ''/'' then [''/''] else if hd segs = ''.'' then [''.''] else []) @
      filter (\<lambda>c. c \<noteq> [] \<and> c \<noteq> ''.'') segs)"

text \<open>\<open>Path::strip_prefix\<close>, the rest written with single separators.\<close>

definition path_strip_prefix :: "string \<Rightarrow> string \<Rightarrow> string option" where
  "path_strip_prefix base p =
     (let b = path_components base; c = path_components p in
      if take (length b) c = b
      then Some (drop 1 (concat (map (\<lambda>s. CHR ''/'' # s) (drop (length b) c))))
      else None)"

definition cgroup_name :: "string \<Rightarrow> string \<Rightarrow> string" where
  "cgroup_name mnt path =
     (let rel = (case path_strip_prefix mnt path of Some r \<Rightarrow> r | None \<Rightarrow> path) in
      if rel = [] then ''/'' else CHR ''/'' # rel)"

text \<open>The directories among the entries of a directory; entries that cannot be read are skipped.\<close>

definition entry_dirs :: "os \<Rightarrow> string \<Rightarrow> string list" where
  "entry_dirs os dir =
     (case os_read_dir os dir of
        Inl _ \<Rightarrow> []
      | Inr entries \<Rightarrow>
          List.map_filter (\<lambda>entry. case entry of
              Inr (name, is_dir) \<Rightarrow> if is_dir then Some (path_join dir name) else None
            | Inl _ \<Rightarrow> None) entries)"

definition watched_dir :: "nat \<Rightarrow> string \<Rightarrow> bool \<Rightarrow> watcher \<Rightarrow> watcher" where
  "watched_dir wd dir emit w =
     w\<lparr>cw_watches := (cw_watches w)(wd \<mapsto> dir),
       cw_sent := (if emit then cw_sent w @ [Added (cgroup_name (cw_root w) dir)] else cw_sent w)\<rparr>"

partial_function (option) watch_dirs ::
  "os \<Rightarrow> inotify \<Rightarrow> bool \<Rightarrow> string list \<Rightarrow> watcher \<Rightarrow> watcher option" where
  "watch_dirs os ino emit dirs w =
     (case dirs of
        [] \<Rightarrow> Some w
      | dir # rest \<Rightarrow>
          (case ino dir of
             Inl _ \<Rightarrow> watch_dirs os ino emit rest w
           | Inr wd \<Rightarrow> watch_dirs os ino emit (entry_dirs os dir @ rest) (watched_dir wd dir emit w)))"

definition watch_dir :: "os \<Rightarrow> inotify \<Rightarrow> string \<Rightarrow> bool \<Rightarrow> watcher \<Rightarrow> watcher option" where
  "watch_dir os ino dir emit w = watch_dirs os ino emit [dir] w"

section \<open>Events\<close>

datatype mask_bit = CREATE | DELETE | MOVED_FROM | MOVED_TO | IGNORED | ISDIR

record inotify_event =
  ev_wd :: nat
  ev_mask :: "mask_bit list"
  ev_name :: "string option"

definition intersects :: "mask_bit list \<Rightarrow> mask_bit list \<Rightarrow> bool" where
  "intersects bits wanted \<longleftrightarrow> list_ex (\<lambda>b. b \<in> set wanted) bits"

text \<open>\<open>p != &path\<close> compares components.\<close>

definition forget_path :: "string \<Rightarrow> (nat \<Rightarrow> string option) \<Rightarrow> nat \<Rightarrow> string option" where
  "forget_path path watches wd =
     (case watches wd of
        Some p \<Rightarrow> if path_components p \<noteq> path_components path then Some p else None
      | None \<Rightarrow> None)"

definition handle_event :: "os \<Rightarrow> inotify \<Rightarrow> inotify_event \<Rightarrow> string \<Rightarrow> watcher \<Rightarrow> watcher option" where
  "handle_event os ino event path w =
     (if intersects (ev_mask event) [CREATE, MOVED_TO] then watch_dir os ino path True w
      else if intersects (ev_mask event) [DELETE, MOVED_FROM]
      then Some (w\<lparr>cw_sent := cw_sent w @ [Removed (cgroup_name (cw_root w) path)],
                   cw_watches := forget_path path (cw_watches w)\<rparr>)
      else Some w)"

text \<open>The path of an event whose watch and name are known.\<close>

definition event_path :: "inotify_event \<Rightarrow> watcher \<Rightarrow> string option" where
  "event_path event w =
     (case cw_watches w (ev_wd event) of
        None \<Rightarrow> None
      | Some parent \<Rightarrow> map_option (path_join parent) (ev_name event))"

text \<open>The loop of \<open>run\<close> over the events that are read until reading fails. Each comes with the operating
  system at that time and whether the channel is closed then, which is asked only after an event that
  was handled.\<close>

fun watch_events :: "(os \<times> inotify \<times> inotify_event \<times> bool) list \<Rightarrow> watcher \<Rightarrow> watcher option" where
  "watch_events [] w = Some w"
| "watch_events ((os, ino, event, over) # events) w =
     (case event_path event w of
        None \<Rightarrow> watch_events events w
      | Some path \<Rightarrow>
          (case handle_event os ino event path w of
             None \<Rightarrow> None
           | Some w' \<Rightarrow> if over then Some w' else watch_events events w'))"

definition run_watcher ::
  "os \<Rightarrow> inotify \<Rightarrow> (os \<times> inotify \<times> inotify_event \<times> bool) list \<Rightarrow> watcher \<Rightarrow> watcher option" where
  "run_watcher os ino events w = Option.bind (watch_dir os ino (cw_root w) False w) (watch_events events)"

section \<open>Lemmas\<close>

text \<open>What a call descends into: a directory that cannot be watched is not listed.\<close>

definition watchable :: "os \<Rightarrow> inotify \<Rightarrow> string \<Rightarrow> string list" where
  "watchable os ino dir = (if is_ok (ino dir) then entry_dirs os dir else [])"

definition watched_dirs :: "inotify \<Rightarrow> bool \<Rightarrow> string list \<Rightarrow> watcher \<Rightarrow> watcher" where
  "watched_dirs ino emit ds w = fold (\<lambda>d. watched_dir (projr (ino d)) d emit) ds w"

lemma watched_dirs_sent:
  "cw_root (watched_dirs ino emit ds w) = cw_root w \<and>
   cw_sent (watched_dirs ino emit ds w) =
     cw_sent w @ (if emit then map (\<lambda>d. Added (cgroup_name (cw_root w) d)) ds else [])"
  by (induction ds arbitrary: w) (auto simp: watched_dirs_def watched_dir_def)

text \<open>A descriptor stands for one directory.\<close>

definition descriptors_ok :: "inotify \<Rightarrow> watcher \<Rightarrow> bool" where
  "descriptors_ok ino w \<longleftrightarrow>
     (\<forall>d d' wd. ino d = Inr wd \<longrightarrow> ino d' = Inr wd \<longrightarrow> d = d') \<and>
     (\<forall>d wd p. ino d = Inr wd \<longrightarrow> cw_watches w wd = Some p \<longrightarrow> p = d)"

lemma watched_dir_watches:
  assumes "descriptors_ok ino w" "ino d = Inr wd"
  shows "ran (cw_watches (watched_dir wd d emit w)) = insert d (ran (cw_watches w)) \<and>
     descriptors_ok ino (watched_dir wd d emit w)"
proof -
  have old: "cw_watches w wd = Some p \<Longrightarrow> p = d" for p using assms by (auto simp: descriptors_ok_def)
  have "ran ((cw_watches w)(wd \<mapsto> d)) = insert d (ran (cw_watches w))"
  proof (cases "cw_watches w wd")
    case None
    then show ?thesis by simp
  next
    case (Some p)
    then have "(cw_watches w)(wd \<mapsto> d) = cw_watches w" using old by (auto simp: fun_eq_iff)
    then show ?thesis using Some old by (auto simp: ran_def)
  qed
  moreover have "descriptors_ok ino (watched_dir wd d emit w)"
    using assms unfolding descriptors_ok_def watched_dir_def by simp
  ultimately show ?thesis by (simp add: watched_dir_def)
qed

lemma watched_dirs_watches:
  "descriptors_ok ino w \<Longrightarrow> \<forall>d \<in> set ds. is_ok (ino d) \<Longrightarrow>
   ran (cw_watches (watched_dirs ino emit ds w)) = set ds \<union> ran (cw_watches w)"
proof (induction ds arbitrary: w)
  case (Cons d ds)
  then obtain wd where wd: "ino d = Inr wd" by (auto simp: is_ok_def split: sum.splits)
  note one = watched_dir_watches [OF Cons.prems(1) wd, of emit]
  have "ran (cw_watches (watched_dirs ino emit ds (watched_dir wd d emit w))) =
      set ds \<union> ran (cw_watches (watched_dir wd d emit w))"
    using Cons.IH [of "watched_dir wd d emit w"] Cons.prems(2) one by simp
  then show ?case using one by (simp add: watched_dirs_def wd)
qed (simp add: watched_dirs_def)

lemma watch_dirs_returns:
  fixes depth :: "string \<Rightarrow> nat"
  assumes "\<And>d c. c \<in> set (watchable os ino d) \<Longrightarrow> depth c < depth d"
  shows "\<exists>ds. watch_dirs os ino emit stack w = Some (watched_dirs ino emit ds w) \<and>
     set ds = {d \<in> below_stack (watchable os ino) stack. is_ok (ino d)}"
proof (induction stack arbitrary: w rule: stack_induct [where children = "watchable os ino" and depth = depth, OF assms])
  case 2
  show ?case by (subst watch_dirs.simps) (simp add: watched_dirs_def below_stack_simps)
next
  case (3 dir rest)
  show ?case
  proof (cases "ino dir")
    case (Inl e)
    then have "watchable os ino dir = []" by (simp add: watchable_def)
    with 3 [of rest w] obtain ds where
      "watch_dirs os ino emit rest w = Some (watched_dirs ino emit ds w)"
      "set ds = {d \<in> below_stack (watchable os ino) rest. is_ok (ino d)}" by auto
    moreover have "watch_dirs os ino emit (dir # rest) w = watch_dirs os ino emit rest w"
      by (subst watch_dirs.simps) (simp add: Inl)
    moreover have "{d \<in> below_stack (watchable os ino) (dir # rest). is_ok (ino d)} =
        {d \<in> below_stack (watchable os ino) rest. is_ok (ino d)}"
      unfolding below_stack_simps \<open>watchable os ino dir = []\<close> by (auto simp: Inl)
    ultimately show ?thesis by (intro exI [of _ ds]) (simp only: simp_thms)
  next
    case (Inr wd)
    let ?w = "watched_dir wd dir emit w"
    have k: "watchable os ino dir = entry_dirs os dir" using Inr by (simp add: watchable_def)
    with 3 [of "entry_dirs os dir @ rest" ?w] obtain ds where
      ds: "watch_dirs os ino emit (entry_dirs os dir @ rest) ?w = Some (watched_dirs ino emit ds ?w)"
      "set ds = {d \<in> below_stack (watchable os ino) (entry_dirs os dir @ rest). is_ok (ino d)}" by auto
    have "watch_dirs os ino emit (dir # rest) w = Some (watched_dirs ino emit (dir # ds) w)"
      by (subst watch_dirs.simps) (simp add: Inr ds(1) watched_dirs_def)
    moreover have "set (dir # ds) = {d \<in> below_stack (watchable os ino) (dir # rest). is_ok (ino d)}"
      unfolding below_stack_simps k using Inr by (auto simp: ds(2))
    ultimately show ?thesis by blast
  qed
qed

text \<open>The directories one call watches.\<close>

definition watch_tree :: "os \<Rightarrow> inotify \<Rightarrow> string \<Rightarrow> string set" where
  "watch_tree os ino dir = {d. descends (watchable os ino) dir d \<and> is_ok (ino d)}"

lemma watch_dir_returns:
  fixes depth :: "string \<Rightarrow> nat"
  assumes "\<And>d c. c \<in> set (entry_dirs os d) \<Longrightarrow> depth c < depth d" and "descriptors_ok ino w"
  shows "\<exists>w' new. watch_dir os ino dir emit w = Some w' \<and> cw_root w' = cw_root w \<and>
     ran (cw_watches w') = ran (cw_watches w) \<union> watch_tree os ino dir \<and>
     cw_sent w' = cw_sent w @ (if emit then new else []) \<and>
     set new = (\<lambda>d. Added (cgroup_name (cw_root w) d)) ` watch_tree os ino dir"
proof -
  have small: "c \<in> set (watchable os ino d) \<Longrightarrow> depth c < depth d" for c d
    using assms(1) by (simp add: watchable_def split: if_splits)
  obtain ds where ds: "watch_dirs os ino emit [dir] w = Some (watched_dirs ino emit ds w)"
    "set ds = {d \<in> below_stack (watchable os ino) [dir]. is_ok (ino d)}"
    using watch_dirs_returns [where depth = depth and os = os and ino = ino, OF small] by blast
  have "below_stack (watchable os ino) [dir] = {d. descends (watchable os ino) dir d}"
    by (simp add: below_stack_def)
  then have set: "set ds = watch_tree os ino dir" using ds(2) by (simp add: watch_tree_def)
  then have "\<forall>d \<in> set ds. is_ok (ino d)" by (simp add: watch_tree_def)
  from watched_dirs_watches [OF assms(2) this, of emit]
  have "ran (cw_watches (watched_dirs ino emit ds w)) = ran (cw_watches w) \<union> watch_tree os ino dir"
    by (simp add: set Un_commute)
  then show ?thesis using watched_dirs_sent [of ino emit ds w] ds(1) set
    by (intro exI [of _ "watched_dirs ino emit ds w"] exI [of _ "map (\<lambda>d. Added (cgroup_name (cw_root w) d)) ds"])
      (simp add: watch_dir_def)
qed

text \<open>Names of cgroups: the path below the mount point.\<close>

definition plain_name :: "string \<Rightarrow> bool" where
  "plain_name n \<longleftrightarrow> n \<noteq> [] \<and> n \<noteq> ''.'' \<and> CHR ''/'' \<notin> set n"

lemma split_char_snoc: "d \<notin> set b \<Longrightarrow> split_char d (a @ d # b) = split_char d a @ [b]"
  by (induction a) (auto simp: split_char_plain split: list.split)

lemma components_join:
  assumes "starts_with p ''/''" "plain_name n"
  shows "path_components (path_join p n) = path_components p @ [n]" "starts_with (path_join p n) ''/''"
proof -
  from assms(1) obtain q where p: "p = CHR ''/'' # q" by (cases p) (auto simp: starts_with_def)
  have n: "\<not> starts_with n ''/''" "split_char CHR ''/'' n = [n]" "n \<noteq> []" "n \<noteq> ''.''" "CHR ''/'' \<notin> set n"
    using assms(2) by (cases n; auto simp: plain_name_def starts_with_def split_char_plain)+
  show abs: "starts_with (path_join p n) ''/''" by (simp add: path_join_def n p starts_with_def)
  show "path_components (path_join p n) = path_components p @ [n]"
  proof (cases "last p = CHR ''/''")
    case True
    then obtain q' where q': "p = q' @ ''/''" using p by (metis append_butlast_last_id list.distinct(1))
    have "split_char CHR ''/'' p = split_char CHR ''/'' q' @ [[]]" unfolding q' by (simp add: split_char_snoc)
    moreover have "split_char CHR ''/'' (p @ n) = split_char CHR ''/'' q' @ [n]"
      unfolding q' using split_char_snoc [of "CHR ''/''" n q'] n(5) by simp
    moreover have "path_join p n = p @ n" using True n(1) by (simp add: path_join_def)
    ultimately show ?thesis using abs assms(1) n by (simp add: path_components_def Let_def)
  next
    case False
    then have j: "path_join p n = p @ CHR ''/'' # n" using p n(1) by (simp add: path_join_def)
    show ?thesis using abs assms(1) n by (simp add: path_components_def Let_def j split_char_snoc)
  qed
qed

lemma components_joins:
  "starts_with p ''/'' \<Longrightarrow> list_all plain_name ns \<Longrightarrow>
   path_components (fold (\<lambda>n p. path_join p n) ns p) = path_components p @ ns"
  by (induction ns arbitrary: p) (auto simp: components_join)

section \<open>Properties\<close>

text \<open>The name of the cgroup whose directory is some entries below the mount point is those entries,
  each after a slash, and a slash for the mount point itself, however the mount point is written.\<close>

theorem cgroup_name_below:
  assumes "starts_with mnt ''/''" "list_all plain_name names"
  shows "cgroup_name mnt (fold (\<lambda>n p. path_join p n) names mnt) =
     (if names = [] then ''/'' else concat (map (\<lambda>n. CHR ''/'' # n) names))"
proof (cases names)
  case (Cons n ns)
  then have "n \<noteq> []" using assms(2) by (auto simp: plain_name_def)
  then show ?thesis using components_joins [OF assms] Cons
    by (simp add: cgroup_name_def path_strip_prefix_def Let_def)
qed (simp add: cgroup_name_def path_strip_prefix_def Let_def)

theorem cgroup_name_below_witness:
  "cgroup_name ''/sys/fs/cgroup/'' ''/sys/fs/cgroup/a.slice/b'' = ''/a.slice/b''"
  using cgroup_name_below [of "''/sys/fs/cgroup/''" "[''a.slice'', ''b'']"]
  by (simp add: plain_name_def path_join_def starts_with_def)

text \<open>When a directory appears below a watched one, the watcher watches and announces exactly the
  directories at or below it that can be watched, the ones made before their parent was watched
  included, and keeps its other watches: the race of a creation is closed.\<close>

theorem created_tree_announced:
  fixes depth :: "string \<Rightarrow> nat"
  assumes "\<And>d c. c \<in> set (entry_dirs os d) \<Longrightarrow> depth c < depth d" and "descriptors_ok ino w"
    and "event_path event w = Some path" "intersects (ev_mask event) [CREATE, MOVED_TO]"
  shows "\<exists>w' new. watch_events [(os, ino, event, over)] w = Some w' \<and>
     ran (cw_watches w') = ran (cw_watches w) \<union> watch_tree os ino path \<and>
     cw_sent w' = cw_sent w @ new \<and>
     set new = (\<lambda>d. Added (cgroup_name (cw_root w) d)) ` watch_tree os ino path"
proof -
  obtain w' new where "watch_dir os ino path True w = Some w'"
    "ran (cw_watches w') = ran (cw_watches w) \<union> watch_tree os ino path" "cw_sent w' = cw_sent w @ new"
    "set new = (\<lambda>d. Added (cgroup_name (cw_root w) d)) ` watch_tree os ino path"
    using watch_dir_returns [where depth = depth and os = os and ino = ino and w = w and emit = True and dir = path,
        OF assms(1,2)] by auto
  then show ?thesis using assms(3,4)
    by (intro exI [of _ w'] exI [of _ new]) (simp add: handle_event_def)
qed

text \<open>A directory with one below it, each with its descriptor.\<close>

definition new_tree :: os where
  "new_tree = \<lparr>os_read = (\<lambda>_. Inl NotFound), os_mtime = (\<lambda>_. Inl NotFound), os_exists = (\<lambda>_. False),
     os_is_dir = (\<lambda>_. False),
     os_read_dir = (\<lambda>p. if p = ''/c/a'' then Inr [Inr (''b'', True), Inr (''cgroup.procs'', False)]
        else Inl NotFound)\<rparr>"

definition new_descriptors :: inotify where
  "new_descriptors p = (if p = ''/c/a'' then Inr 2 else if p = ''/c/a/b'' then Inr 3 else Inl NotFound)"

definition root_watched :: watcher where
  "root_watched = (watcher_new ''/c'')\<lparr>cw_watches := [1 \<mapsto> ''/c'']\<rparr>"

lemma new_tree_entry_dirs: "entry_dirs new_tree d = (if d = ''/c/a'' then [''/c/a/b''] else [])"
  by (simp add: entry_dirs_def new_tree_def path_join_def starts_with_def List.map_filter_def)

lemma new_tree_below: "watch_tree new_tree new_descriptors ''/c/a'' = {''/c/a'', ''/c/a/b''}"
proof -
  have k: "watchable new_tree new_descriptors d = (if d = ''/c/a'' then [''/c/a/b''] else [])" for d
    by (simp add: watchable_def new_tree_entry_dirs new_descriptors_def)
  have "descends (watchable new_tree new_descriptors) ''/c/a/b'' d \<longleftrightarrow> d = ''/c/a/b''" for d
    using descends_iff [of "watchable new_tree new_descriptors" "''/c/a/b''" d] by (simp add: k)
  then have "descends (watchable new_tree new_descriptors) ''/c/a'' d \<longleftrightarrow> d = ''/c/a'' \<or> d = ''/c/a/b''" for d
    using descends_iff [of "watchable new_tree new_descriptors" "''/c/a''" d] by (simp add: k)
  then show ?thesis by (auto simp: watch_tree_def new_descriptors_def)
qed

theorem created_tree_announced_witness:
  "\<exists>w' new. watch_events [(new_tree, new_descriptors, \<lparr>ev_wd = 1, ev_mask = [CREATE, ISDIR], ev_name = Some ''a''\<rparr>, False)]
       root_watched = Some w' \<and>
     ran (cw_watches w') = {''/c'', ''/c/a'', ''/c/a/b''} \<and> cw_sent w' = new \<and>
     set new = {Added ''/a'', Added ''/a/b''}"
proof -
  let ?event = "\<lparr>ev_wd = 1, ev_mask = [CREATE, ISDIR], ev_name = Some ''a''\<rparr>"
  have small: "c \<in> set (entry_dirs new_tree d) \<Longrightarrow> (if c = ''/c/a'' then 1 else 0 :: nat) < (if d = ''/c/a'' then 1 else 0)" for d c
    by (simp add: new_tree_entry_dirs split: if_splits)
  have ok: "descriptors_ok new_descriptors root_watched"
    by (auto simp: descriptors_ok_def new_descriptors_def root_watched_def split: if_splits)
  have path: "event_path ?event root_watched = Some ''/c/a''"
    by (simp add: event_path_def root_watched_def path_join_def starts_with_def)
  have names: "cgroup_name ''/c'' ''/c/a'' = ''/a''" "cgroup_name ''/c'' ''/c/a/b'' = ''/a/b''" by code_simp+
  have w: "ran (cw_watches root_watched) = {''/c''}" "cw_sent root_watched = []" "cw_root root_watched = ''/c''"
    by (simp_all add: root_watched_def watcher_new_def)
  from created_tree_announced [where depth = "\<lambda>d. if d = ''/c/a'' then 1 else 0" and os = new_tree,
      OF small ok path, where over = False]
  show ?thesis by (simp add: intersects_def new_tree_below w names insert_commute del: watch_events.simps)
qed

section \<open>The other events\<close>

text \<open>The watches of the whole tree are in place before the first event, and nothing is announced.\<close>

lemma initial_watch_silent:
  fixes depth :: "string \<Rightarrow> nat"
  assumes "\<And>d c. c \<in> set (entry_dirs os d) \<Longrightarrow> depth c < depth d"
    and "\<And>d d' wd. ino d = Inr wd \<Longrightarrow> ino d' = Inr wd \<Longrightarrow> d = d'"
  shows "\<exists>w. run_watcher os ino [] (watcher_new mnt) = Some w \<and> cw_sent w = [] \<and>
     ran (cw_watches w) = watch_tree os ino mnt"
proof -
  have "descriptors_ok ino (watcher_new mnt)"
    unfolding descriptors_ok_def using assms(2) by (simp add: watcher_new_def)
  from watch_dir_returns [where depth = depth and os = os and ino = ino and emit = False and dir = mnt, OF assms(1) this]
  show ?thesis by (auto simp: run_watcher_def watcher_new_def)
qed

text \<open>A removal is announced once and its watches are dropped; events of directories that are not
  watched are ignored.\<close>

lemma removal_forgets:
  assumes "event_path event w = Some path" "intersects (ev_mask event) [DELETE, MOVED_FROM]"
    and "\<not> intersects (ev_mask event) [CREATE, MOVED_TO]"
  shows "\<exists>w'. watch_events [(os, ino, event, over)] w = Some w' \<and>
     cw_sent w' = cw_sent w @ [Removed (cgroup_name (cw_root w) path)] \<and>
     ran (cw_watches w') = {p \<in> ran (cw_watches w). path_components p \<noteq> path_components path}"
  using assms by (auto simp: handle_event_def ran_def forget_path_def split: option.splits)

end
