(* ===== verification/Manager_Start.thy ===== *)
theory Manager_Start
  imports Discovery Machine Watch
begin

text \<open>
  The start of the manager (\<open>crates/cadvisor-manager/src/manager.rs\<close>): \<open>Manager::new\<close>, what it reads once,
  and the task of \<open>start\<close> that consumes the watcher's events, without other agents in between. The
  watcher (\<open>Watch\<close>) and the sweep (\<open>Discovery\<close>) see the same tree, one by paths and one by names:
  \<open>watcher_sees_sweep\<close> relates the two, so that what the watcher announces of a new cgroup is what a
  sweep would have found.
\<close>

section \<open>Manager::new\<close>

definition trim_matches :: "char \<Rightarrow> string \<Rightarrow> string" where
  "trim_matches c s = trim_start_char c (trim_end_char c s)"

definition os_release_pretty_name :: "os \<Rightarrow> string" where
  "os_release_pretty_name os =
     (case os_read os ''/etc/os-release'' of
        Inl _ \<Rightarrow> []
      | Inr content \<Rightarrow>
          (case List.map_filter (strip_prefix ''PRETTY_NAME='') (lines content) of
             v # _ \<Rightarrow> trim_matches CHR 0x22 v
           | [] \<Rightarrow> []))"

definition version_info_of :: "os \<Rightarrow> manager_config \<Rightarrow> version_info" where
  "version_info_of os cfg =
     \<lparr>vi_kernel_version =
        (case os_read os ''/proc/sys/kernel/osrelease'' of Inr s \<Rightarrow> trim s | Inl _ \<Rightarrow> []),
      vi_container_os_version = os_release_pretty_name os, vi_docker_version = [],
      vi_docker_api_version = [], vi_cadvisor_version = mc_cadvisor_version cfg, vi_cadvisor_revision = []\<rparr>"

record manager =
  mg_cfg :: manager_config
  mg_partitions :: "partition list"
  mg_version_info :: version_info
  mg_reg :: reg

definition manager_new ::
  "(string \<Rightarrow> bool) \<Rightarrow> os \<Rightarrow> vfs \<Rightarrow> gotime \<Rightarrow> manager_config \<Rightarrow> (manager_error, manager) res" where
  "manager_new is_file os vfs now cfg =
     res_bind (check_cgroup2 is_file (mc_cgroup_root cfg)) (\<lambda>_.
     res_bind (res_map_err Host (fs_service_new os)) (\<lambda>partitions.
     res_bind (res_map_err Host (machine_info_of os vfs partitions now)) (\<lambda>mi.
       Inr \<lparr>mg_cfg = cfg, mg_partitions = partitions, mg_version_info = version_info_of os cfg,
            mg_reg = reg_start mi\<rparr>)))"

section \<open>The consumer of the watcher's events\<close>

definition consume_event ::
  "manager_config \<Rightarrow> host \<Rightarrow> runtimes \<Rightarrow> int \<Rightarrow> gotime \<Rightarrow> cgroup_event \<Rightarrow> reg \<Rightarrow> reg" where
  "consume_event cfg ho rts instant now ev s =
     (case ev of
        Added name \<Rightarrow> add_container cfg ho rts Watcher instant True name s
      | Removed name \<Rightarrow> remove_container cfg Watcher now name s)"

definition consume ::
  "manager_config \<Rightarrow> host \<Rightarrow> runtimes \<Rightarrow> int \<Rightarrow> gotime \<Rightarrow> cgroup_event list \<Rightarrow> reg \<Rightarrow> reg" where
  "consume cfg ho rts instant now evs s = fold (consume_event cfg ho rts instant now) evs s"

section \<open>Paths and names of cgroups\<close>

text \<open>A cgroup given by the names on its way from the root.\<close>

definition path_of :: "string \<Rightarrow> string list \<Rightarrow> string" where
  "path_of mnt ns = fold (\<lambda>n p. path_join p n) ns mnt"

definition name_of :: "string list \<Rightarrow> string" where
  "name_of ns = (if ns = [] then ''/'' else concat (map (\<lambda>n. CHR ''/'' # n) ns))"

definition proper :: "string list \<Rightarrow> bool" where
  "proper ns \<longleftrightarrow> ns \<noteq> [] \<and> list_all plain_name ns"

text \<open>The kernel lists directories completely, by plain names.\<close>

definition listing_ok :: "os \<Rightarrow> bool" where
  "listing_ok os \<longleftrightarrow>
     (\<forall>dir es. os_read_dir os dir = Inr es \<longrightarrow>
        (\<forall>e \<in> set es. \<exists>n is_dir. e = Inr (n, is_dir) \<and> plain_name n))"

definition dirs_in :: "os \<Rightarrow> string \<Rightarrow> string list" where
  "dirs_in os dir =
     (case os_read_dir os dir of
        Inl _ \<Rightarrow> []
      | Inr es \<Rightarrow> List.map_filter (\<lambda>e. case e of Inr (n, is_dir) \<Rightarrow> if is_dir then Some n else None | Inl _ \<Rightarrow> None) es)"

definition kids :: "os \<Rightarrow> string \<Rightarrow> string list \<Rightarrow> string list list" where
  "kids os mnt ns = map (\<lambda>n. ns @ [n]) (dirs_in os (path_of mnt ns))"

lemma dirs_in_plain:
  assumes "listing_ok os" "n \<in> set (dirs_in os dir)"
  shows "plain_name n"
proof -
  let ?f = "\<lambda>e. case e of Inr (n, is_dir) \<Rightarrow> if is_dir then Some n else None | Inl _ \<Rightarrow> None"
  obtain es where es: "os_read_dir os dir = Inr es" "n \<in> set (List.map_filter ?f es)"
    using assms(2) by (cases "os_read_dir os dir") (simp_all add: dirs_in_def)
  then obtain e where e: "e \<in> set es" "?f e = Some n" unfolding set_map_filter by blast
  obtain m d where "e = Inr (m, d)" "plain_name m" using assms(1) es(1) e(1) unfolding listing_ok_def by blast
  then show ?thesis using e(2) by (simp split: if_splits)
qed

lemma kids_proper:
  assumes "listing_ok os" "proper ns" "ms \<in> set (kids os mnt ns)"
  shows "proper ms"
  using assms dirs_in_plain [OF assms(1)] by (auto simp: kids_def proper_def)

lemma entry_dirs_kids: "entry_dirs os (path_of mnt ns) = map (path_of mnt) (kids os mnt ns)"
proof -
  have "List.map_filter (\<lambda>entry. case entry of
          Inr (name, is_dir) \<Rightarrow> if is_dir then Some (path_join p name) else None | Inl _ \<Rightarrow> None) es =
      map (path_join p) (List.map_filter (\<lambda>e. case e of Inr (n, is_dir) \<Rightarrow> if is_dir then Some n else None | Inl _ \<Rightarrow> None) es)"
    for p es
    by (induction es) (auto simp: map_filter_simps split: sum.split)
  moreover have "path_of mnt (ns @ [n]) = path_join (path_of mnt ns) n" for n by (simp add: path_of_def)
  ultimately show ?thesis by (cases "os_read_dir os (path_of mnt ns)") (simp_all add: entry_dirs_def kids_def dirs_in_def comp_def)
qed

lemma plain_not_slash: "plain_name n \<Longrightarrow> \<not> starts_with n ''/''"
  by (cases n) (auto simp: plain_name_def starts_with_def)

lemma path_of_text:
  assumes "proper ns" "mnt \<noteq> []"
  shows "path_of mnt ns = path_join mnt (tl (concat (map (\<lambda>n. CHR ''/'' # n) ns)))"
  using assms(1)
proof (induction ns rule: rev_induct)
  case (snoc n ns)
  then have n: "plain_name n" by (simp add: proper_def)
  show ?case
  proof (cases "ns = []")
    case False
    then have "proper ns" using snoc.prems by (simp add: proper_def)
    from snoc.IH [OF this] have p: "path_of mnt ns = path_join mnt (tl (concat (map (\<lambda>n. CHR ''/'' # n) ns)))" .
    obtain a as where ns: "ns = a # as" using False by (cases ns) auto
    let ?t = "tl (concat (map (\<lambda>n. CHR ''/'' # n) ns))"
    have a: "plain_name a" using \<open>proper ns\<close> by (simp add: ns proper_def)
    have t: "?t \<noteq> []" "\<not> starts_with ?t ''/''" using a by (cases a; auto simp: ns plain_name_def starts_with_def)+
    have l: "last ?t \<noteq> CHR ''/''"
    proof -
      obtain bs b where b: "ns = bs @ [b]" "plain_name b"
        using \<open>proper ns\<close> False by (cases ns rule: rev_cases) (auto simp: proper_def)
      then have "b \<noteq> []" "last b \<noteq> CHR ''/''" by (auto simp: plain_name_def) (metis last_in_set)
      then show ?thesis using t(1) by (cases bs) (auto simp: b(1))
    qed
    have "path_of mnt (ns @ [n]) = path_join (path_of mnt ns) n" by (simp add: path_of_def)
    moreover have "tl (concat (map (\<lambda>n. CHR ''/'' # n) (ns @ [n]))) = ?t @ CHR ''/'' # n" by (simp add: ns)
    moreover have "\<not> starts_with (?t @ CHR ''/'' # n) ''/''" using t by (cases ?t) (auto simp: starts_with_def)
    moreover have "path_join (path_join mnt ?t) n = path_join mnt ?t @ CHR ''/'' # n"
      using t l plain_not_slash [OF n] assms(2) by (simp add: path_join_def last_append)
    ultimately show ?thesis using p t by (simp add: path_join_def)
  qed (simp add: path_of_def)
qed (simp add: proper_def)

lemma cg_dir_name:
  assumes "proper ns" "mnt \<noteq> []"
  shows "cg_dir mnt (name_of ns) = path_of mnt ns"
proof -
  obtain a as where ns: "ns = a # as" "plain_name a" using assms(1) by (cases ns) (auto simp: proper_def)
  then have "trim_start_char CHR ''/'' (name_of ns) = tl (concat (map (\<lambda>n. CHR ''/'' # n) ns))"
    by (cases a) (auto simp: name_of_def trim_start_char_def plain_name_def)
  then show ?thesis using path_of_text [OF assms] by (simp add: cg_dir_def)
qed

lemma child_entries_names:
  assumes "\<forall>e \<in> set es. \<exists>n is_dir. e = Inr (n, is_dir)"
  shows "child_entries dir prefix es out =
    Inr (out @ map (\<lambda>n. prefix @ CHR ''/'' # n) (List.map_filter (\<lambda>e. case e of Inr (n, is_dir) \<Rightarrow> if is_dir then Some n else None | Inl _ \<Rightarrow> None) es))"
  using assms
proof (induction es arbitrary: out)
  case (Cons e es)
  then obtain n d where "e = Inr (n, d)" by auto
  then show ?case using Cons by (cases d) (simp_all add: map_filter_simps)
qed (simp add: map_filter_simps)

lemma name_of_snoc: "proper ns \<Longrightarrow> name_of (ns @ [n]) = name_of ns @ CHR ''/'' # n \<and> name_of ns \<noteq> ''/''"
  by (cases ns) (auto simp: name_of_def proper_def plain_name_def)

lemma children_of_kids:
  assumes "listing_ok os" "proper ns" "mnt \<noteq> []"
  shows "children_of os mnt (name_of ns) = map name_of (kids os mnt ns)"
proof (cases "os_read_dir os (path_of mnt ns)")
  case (Inr es)
  have "\<forall>e \<in> set es. \<exists>n is_dir. e = Inr (n, is_dir)" using assms(1) Inr unfolding listing_ok_def by blast
  then show ?thesis using Inr name_of_snoc [OF assms(2)]
    by (simp add: children_of_def list_children_def cg_dir_name [OF assms(2,3)] child_entries_names
        kids_def dirs_in_def Let_def comp_def)
qed (simp add: children_of_def list_children_def cg_dir_name [OF assms(2,3)] kids_def dirs_in_def Let_def)

lemma cgroup_name_path: "starts_with mnt ''/'' \<Longrightarrow> list_all plain_name ns \<Longrightarrow> cgroup_name mnt (path_of mnt ns) = name_of ns"
  by (simp add: path_of_def name_of_def cgroup_name_below)

text \<open>What the watcher finds below a path is what the sweep finds below the name.\<close>

lemma watcher_sees_sweep:
  assumes "listing_ok os" "proper ns" "starts_with mnt ''/''"
  shows "cgroup_name mnt ` {d. descends (entry_dirs os) (path_of mnt ns) d} = {n. below os mnt (name_of ns) n}"
proof -
  have mnt: "mnt \<noteq> []" using assms(3) by (auto simp: starts_with_def)
  have kids: "\<And>ns c. proper ns \<Longrightarrow> c \<in> set (kids os mnt ns) \<Longrightarrow> proper c" using kids_proper [OF assms(1)] by blast
  have "{d. descends (entry_dirs os) (path_of mnt ns) d} = path_of mnt ` {c. descends (kids os mnt) ns c}"
    by (rule descends_image [where P = proper, OF _ kids assms(2)]) (rule entry_dirs_kids)
  moreover have "{n. below os mnt (name_of ns) n} = name_of ` {c. descends (kids os mnt) ns c}"
    by (rule descends_image [where P = proper, OF _ kids assms(2)]) (rule children_of_kids [OF assms(1) _ mnt])
  moreover have "cgroup_name mnt (path_of mnt c) = name_of c" if "descends (kids os mnt) ns c" for c
    using descends_keeps [where P = proper, OF that assms(2) kids] cgroup_name_path [OF assms(3)]
    by (simp add: proper_def)
  ultimately show ?thesis by (force simp: image_image)
qed

text \<open>Nothing is hidden when every directory can be watched.\<close>

lemma watch_tree_all:
  assumes "\<And>d. descends (entry_dirs os) dir d \<Longrightarrow> is_ok (ino d)"
  shows "watch_tree os ino dir = {d. descends (entry_dirs os) dir d}"
proof -
  have "{d. descends (watchable os ino) (id dir) d} = id ` {d. descends (entry_dirs os) dir d}"
  proof (rule descends_image [where P = "descends (entry_dirs os) dir"])
    show "watchable os ino (id x) = map id (entry_dirs os x)" if "descends (entry_dirs os) dir x" for x
      using assms [OF that] by (simp add: watchable_def)
    show "descends (entry_dirs os) dir c" if "descends (entry_dirs os) dir x" "c \<in> set (entry_dirs os x)" for x c
      by (rule descends.child [where children = "entry_dirs os" and d = x]) (simp_all add: that)
    show "descends (entry_dirs os) dir dir" by (rule descends.here)
  qed
  then show ?thesis using assms by (auto simp: watch_tree_def)
qed

lemma consume_additions:
  assumes "rg_phase s Watcher = Idle" "set evs = Added ` N"
  shows "Collect (registered (consume cfg ho rts instant now evs s)) =
      Collect (registered s) \<union> {n \<in> N. accepted cfg ho (ms_info (rg_machine s)) n} \<and>
    Collect (registered s) \<subseteq> Collect (same_handle s (consume cfg ho rts instant now evs s))"
proof -
  have "\<forall>e \<in> set evs. \<exists>n. e = Added n" using assms(2) by auto
  then obtain names where evs: "evs = map Added names" by (metis ex_map_conv)
  then have names: "set names = N" using assms(2) by (metis cgroup_event.inject(1) image_set inj_image_eq_iff injI)
  have "consume cfg ho rts instant now evs s =
      fold (\<lambda>n s. if n \<notin> {} then add_container cfg ho rts Watcher instant True n s else s) names s"
  proof -
    have "consume_event cfg ho rts instant now \<circ> Added = add_container cfg ho rts Watcher instant True"
      by (intro ext) (simp add: consume_event_def)
    then show ?thesis by (simp add: consume_def evs fold_map)
  qed
  then show ?thesis using fold_add [OF assms(1), of "{}" cfg ho rts instant True names] names
    by (auto simp: Let_def)
qed

section \<open>Properties\<close>

text \<open>C3: from the kernel to the registry: when a cgroup appears below a watched one, the watcher
  announces and the manager registers exactly the cgroups that a walk of the sweep would find at or
  below it and that can be registered, and the containers there were keep their handles.\<close>

theorem created_cgroups_registered:
  fixes depth :: "string \<Rightarrow> nat"
  assumes "\<And>d c. c \<in> set (entry_dirs (ho_os ho) d) \<Longrightarrow> depth c < depth d"
    and "descriptors_ok ino w" "cw_root w = mnt" "starts_with mnt ''/''" "listing_ok (ho_os ho)" "proper ns"
    and "event_path event w = Some (path_of mnt ns)" "intersects (ev_mask event) [CREATE, MOVED_TO]"
    and "\<And>d. descends (entry_dirs (ho_os ho)) (path_of mnt ns) d \<Longrightarrow> is_ok (ino d)"
    and "rg_phase s Watcher = Idle"
  shows "\<exists>w' evs. watch_events [(ho_os ho, ino, event, over)] w = Some w' \<and> cw_sent w' = cw_sent w @ evs \<and>
     Collect (registered (consume cfg ho rts instant now evs s)) =
       Collect (registered s) \<union>
       {n. below (ho_os ho) mnt (name_of ns) n \<and> accepted cfg ho (ms_info (rg_machine s)) n} \<and>
     Collect (registered s) \<subseteq> Collect (same_handle s (consume cfg ho rts instant now evs s))"
proof -
  let ?tree = "watch_tree (ho_os ho) ino (path_of mnt ns)"
  obtain w' evs where w: "watch_dir (ho_os ho) ino (path_of mnt ns) True w = Some w'" "cw_sent w' = cw_sent w @ evs"
    and evs: "set evs = (\<lambda>d. Added (cgroup_name mnt d)) ` ?tree"
    using watch_dir_returns [where depth = depth and os = "ho_os ho" and ino = ino and w = w and emit = True
        and dir = "path_of mnt ns", OF assms(1,2)] assms(3) by auto
  have "cgroup_name mnt ` ?tree = {n. below (ho_os ho) mnt (name_of ns) n}"
    using watcher_sees_sweep [OF assms(5,6,4)] watch_tree_all [of "ho_os ho" "path_of mnt ns" ino, OF assms(9)] by simp
  then have "set evs = Added ` {n. below (ho_os ho) mnt (name_of ns) n}" unfolding evs by (metis image_image)
  note consumed = consume_additions [OF assms(10) this, of cfg ho rts instant now]
  have "watch_events [(ho_os ho, ino, event, over)] w = Some w'" using w(1) assms(7,8) by (simp add: handle_event_def)
  then show ?thesis using w(2) consumed by (intro exI [of _ w'] exI [of _ evs]) simp
qed

text \<open>A pod with one container.\<close>

definition pod_host :: host where
  "pod_host = one_cgroup\<lparr>ho_os := (ho_os one_cgroup)\<lparr>os_read_dir := (\<lambda>p.
     if p = ''/sys/fs/cgroup/a'' then Inr [Inr (''b'', True), Inr (''cgroup.procs'', False)]
     else Inl NotFound)\<rparr>\<rparr>"

definition pod_descriptors :: inotify where
  "pod_descriptors p =
     (if p = ''/sys/fs/cgroup/a'' then Inr 2 else if p = ''/sys/fs/cgroup/a/b'' then Inr 3 else Inl NotFound)"

definition pod_watcher :: watcher where
  "pod_watcher = (watcher_new ''/sys/fs/cgroup'')\<lparr>cw_watches := [1 \<mapsto> ''/sys/fs/cgroup'']\<rparr>"

definition pod_created :: inotify_event where
  "pod_created = \<lparr>ev_wd = 1, ev_mask = [CREATE, ISDIR], ev_name = Some ''a''\<rparr>"

lemma pod_accepted: "n = ''/a'' \<or> n = ''/a/b'' \<Longrightarrow> accepted demo_config pod_host default_machine_info n"
proof -
  have "is_ok (build_spec demo_config pod_host default_machine_info n)"
    by (simp add: build_spec_def read_spec_def read_opt_def cg_read_def read_u64_or_max_def pod_host_def
        one_cgroup_def os_of_files_def host_io_def is_ok_def Let_def)
  then show "n = ''/a'' \<or> n = ''/a/b'' \<Longrightarrow> accepted demo_config pod_host default_machine_info n"
    by (auto simp: accepted_def ends_with_def starts_with_def)
qed

lemma pod_entry_dirs:
  "entry_dirs (ho_os pod_host) d = (if d = ''/sys/fs/cgroup/a'' then [''/sys/fs/cgroup/a/b''] else [])"
  by (simp add: entry_dirs_def pod_host_def path_join_def starts_with_def List.map_filter_def)

lemma pod_descends:
  "descends (entry_dirs (ho_os pod_host)) ''/sys/fs/cgroup/a'' d \<longleftrightarrow>
     d = ''/sys/fs/cgroup/a'' \<or> d = ''/sys/fs/cgroup/a/b''"
  using descends_iff [of "entry_dirs (ho_os pod_host)" "''/sys/fs/cgroup/a/b''" d]
    descends_iff [of "entry_dirs (ho_os pod_host)" "''/sys/fs/cgroup/a''" d]
  by (simp add: pod_entry_dirs)

theorem created_cgroups_registered_witness:
  "\<exists>w' evs. watch_events [(ho_os pod_host, pod_descriptors, pod_created, False)] pod_watcher = Some w' \<and>
     cw_sent w' = evs \<and>
     registered (consume demo_config pod_host no_runtimes 0 9 evs (reg_start default_machine_info)) ''/a'' \<and>
     registered (consume demo_config pod_host no_runtimes 0 9 evs (reg_start default_machine_info)) ''/a/b''"
proof -
  let ?mnt = "''/sys/fs/cgroup''" and ?s = "reg_start default_machine_info"
  have small: "c \<in> set (entry_dirs (ho_os pod_host) d) \<Longrightarrow>
      (if c = ''/sys/fs/cgroup/a'' then 1 else 0 :: nat) < (if d = ''/sys/fs/cgroup/a'' then 1 else 0)" for d c
    by (simp add: pod_entry_dirs split: if_splits)
  have path: "path_of ?mnt [''a''] = ''/sys/fs/cgroup/a''" by (simp add: path_of_def path_join_def starts_with_def)
  have ok: "descriptors_ok pod_descriptors pod_watcher"
    by (auto simp: descriptors_ok_def pod_descriptors_def pod_watcher_def split: if_splits)
  have root: "cw_root pod_watcher = ?mnt" "starts_with ?mnt ''/''" "proper [''a'']"
    by (simp_all add: pod_watcher_def watcher_new_def starts_with_def proper_def plain_name_def)
  have listing: "listing_ok (ho_os pod_host)" by (auto simp: listing_ok_def pod_host_def plain_name_def)
  have event: "event_path pod_created pod_watcher = Some (path_of ?mnt [''a''])"
    "intersects (ev_mask pod_created) [CREATE, MOVED_TO]"
    by (simp_all add: event_path_def pod_watcher_def pod_created_def path path_join_def starts_with_def intersects_def)
  have watchable: "descends (entry_dirs (ho_os pod_host)) (path_of ?mnt [''a'']) d \<Longrightarrow> is_ok (pod_descriptors d)" for d
    unfolding path pod_descends by (auto simp: pod_descriptors_def)
  have idle: "rg_phase ?s Watcher = Idle" "ms_info (rg_machine ?s) = default_machine_info" by (simp_all add: reg_start_def)
  have "below (ho_os pod_host) ?mnt (name_of [''a'']) n \<longleftrightarrow> n = ''/a'' \<or> n = ''/a/b''" for n
  proof -
    have "cgroup_name ?mnt ''/sys/fs/cgroup/a'' = ''/a''" "cgroup_name ?mnt ''/sys/fs/cgroup/a/b'' = ''/a/b''"
      by code_simp+
    moreover have "{d. descends (entry_dirs (ho_os pod_host)) (path_of ?mnt [''a'']) d} =
        {''/sys/fs/cgroup/a'', ''/sys/fs/cgroup/a/b''}"
      unfolding path pod_descends by blast
    ultimately have "{n. below (ho_os pod_host) ?mnt (name_of [''a'']) n} = {''/a'', ''/a/b''}"
      using watcher_sees_sweep [OF listing root(3,2)] by simp
    then show ?thesis by blast
  qed
  then have "below (ho_os pod_host) ?mnt (name_of [''a'']) ''/a''" "below (ho_os pod_host) ?mnt (name_of [''a'']) ''/a/b''"
    by simp_all
  moreover obtain w' evs where "watch_events [(ho_os pod_host, pod_descriptors, pod_created, False)] pod_watcher = Some w'"
    "cw_sent w' = cw_sent pod_watcher @ evs"
    and r: "Collect (registered (consume demo_config pod_host no_runtimes 0 9 evs ?s)) = Collect (registered ?s) \<union>
       {n. below (ho_os pod_host) ?mnt (name_of [''a'']) n \<and> accepted demo_config pod_host default_machine_info n}"
    using created_cgroups_registered [where depth = "\<lambda>d. if d = ''/sys/fs/cgroup/a'' then 1 else 0" and ho = pod_host
        and cfg = demo_config and rts = no_runtimes and instant = 0 and now = 9 and over = False,
        OF small ok root(1,2) listing root(3) event watchable idle(1)] unfolding idle(2) by blast
  moreover have "cw_sent pod_watcher = []" by (simp add: pod_watcher_def watcher_new_def)
  ultimately show ?thesis using pod_accepted by (intro exI [of _ w'] exI [of _ evs]) auto
qed

section \<open>The window of the start\<close>

text \<open>\<open>start\<close> sweeps first and watches afterwards, and the first walk of the watcher is silent: a cgroup
  made between the two is watched, but neither announced nor registered; it waits for the global sweep.\<close>

lemma start_window:
  fixes depth :: "string \<Rightarrow> nat"
  assumes "\<And>d c. c \<in> set (entry_dirs os d) \<Longrightarrow> depth c < depth d"
    and "\<And>d d' wd. ino d = Inr wd \<Longrightarrow> ino d' = Inr wd \<Longrightarrow> d = d'"
    and "new \<in> watch_tree os ino (mc_cgroup_root cfg)"
  shows "\<exists>w. run_watcher os ino [] (watcher_new (mc_cgroup_root cfg)) = Some w \<and> new \<in> ran (cw_watches w) \<and>
     consume cfg ho rts instant now (cw_sent w) s = s"
proof -
  have "\<exists>w. run_watcher os ino [] (watcher_new (mc_cgroup_root cfg)) = Some w \<and> cw_sent w = [] \<and>
     ran (cw_watches w) = watch_tree os ino (mc_cgroup_root cfg)"
    by (rule initial_watch_silent [where depth = depth]) (fact assms(1), rule assms(2))
  then show ?thesis using assms(3) by (auto simp: consume_def)
qed

text \<open>What a manager needs of the host.\<close>

lemma manager_new_ok:
  "is_ok (manager_new is_file os vfs now cfg) \<longleftrightarrow>
     is_file (path_join (mc_cgroup_root cfg) ''cgroup.controllers'') \<and> is_ok (os_read os ''/proc/self/mountinfo'') \<and>
     is_ok (os_read os ''/proc/cpuinfo'') \<and> is_ok (os_read os ''/proc/meminfo'')"
  by (cases "os_read os ''/proc/self/mountinfo''"; cases "os_read os ''/proc/cpuinfo''"; cases "os_read os ''/proc/meminfo''")
    (auto simp: manager_new_def check_cgroup2_def fs_service_new_def machine_info_of_def Let_def split: prod.split)

end
