(* ===== verification/Tls_Serve.thy ===== *)
theory Tls_Serve
  imports Secure
begin

text \<open>
  Serving over TLS: \<open>acceptor\<close>, \<open>Resolver\<close>, \<open>tokens\<close> and \<open>serve_tls\<close> of \<open>crates/cadvisor/src/secure.rs\<close>. The
  accept loop is a function of what its \<open>select!\<close> finds, turn by turn; a connection's task is a function
  of how its handshake goes. rustls is the parameter \<open>lib\<close> of \<open>Secure\<close> (as the files are at a time) and
  the choice of the protocol versions.

  The lemmas: whatever happens to the files, no handshake is given a certificate that does not go with
  its key, and the loop spawns every connection that arrives before the shutdown, whatever fails.
\<close>

section \<open>The acceptor\<close>

datatype acceptor_error = BadCertificate cert_error | BadProtocols string

record 'a acceptor =
  ac_certified :: "'a watched"
  ac_alpn_protocols :: "string list"

definition acceptor_new ::
  "('c, 'k, 's) tls_lib \<Rightarrow> (string, unit) res \<Rightarrow> nat \<Rightarrow> stamp \<Rightarrow> string \<Rightarrow> string \<Rightarrow>
     (acceptor_error, ('c list \<times> 's) acceptor) res" where
  "acceptor_new lib protocols now st cert key =
     res_bind (res_map_err BadCertificate (watched_new now st (load_cert lib cert key))) (\<lambda>w.
     res_bind (res_map_err BadProtocols protocols) (\<lambda>_.
       Inr \<lparr>ac_certified = w, ac_alpn_protocols = [''h2'', ''http/1.1'']\<rparr>))"

definition cert_resolve ::
  "nat \<Rightarrow> stamp \<Rightarrow> (cert_error, 'a) res \<Rightarrow> 'a acceptor \<Rightarrow> 'a option \<times> 'a acceptor" where
  "cert_resolve now st loaded a =
     (let (v, w) = watched_get now st loaded (ac_certified a) in (Some v, a\<lparr>ac_certified := w\<rparr>))"

definition tokens_new :: "os \<Rightarrow> nat \<Rightarrow> stamp \<Rightarrow> string \<Rightarrow> (token_error, string list watched) res" where
  "tokens_new os now st path = watched_new now st (load_tokens os path)"

section \<open>The loop\<close>

datatype 'a listening = Arrived 'a | AcceptFailed string | ShuttingDown
datatype 'a serving = Spawn 'a | Sleep nat

text \<open>What the loop does, with its pauses in milliseconds, and whether it has returned.\<close>

fun serve_tls :: "'a listening list \<Rightarrow> 'a serving list \<times> bool" where
  "serve_tls [] = ([], False)"
| "serve_tls (Arrived tcp # turns) = map_prod ((#) (Spawn tcp)) id (serve_tls turns)"
| "serve_tls (AcceptFailed e # turns) = map_prod ((#) (Sleep 100)) id (serve_tls turns)"
| "serve_tls (ShuttingDown # turns) = ([], True)"

text \<open>The handshake of a connection: when it ends, in nanoseconds, and how; or never.\<close>

datatype connection = Serving | HandshakeFailed string | HandshakeTimedOut

definition connection_task :: "(nat \<times> (string, unit) res) option \<Rightarrow> connection" where
  "connection_task accepting =
     (case accepting of
        Some (t, r) \<Rightarrow>
          if t \<le> 10 * 10 ^ 9 then (case r of Inr _ \<Rightarrow> Serving | Inl e \<Rightarrow> HandshakeFailed e)
          else HandshakeTimedOut
      | None \<Rightarrow> HandshakeTimedOut)"

section \<open>Lemmas\<close>

text \<open>The certificates that a run of handshakes is given; a look is a time, the stamp of the files and
  rustls on the files as they are then.\<close>

type_synonym ('c, 'k, 's) tls_look = "nat \<times> stamp \<times> ('c, 'k, 's) tls_lib"

fun handshakes ::
  "string \<Rightarrow> string \<Rightarrow> ('c, 'k, 's) tls_look list \<Rightarrow> ('c list \<times> 's) acceptor \<Rightarrow> ('c list \<times> 's) option list" where
  "handshakes cert key [] a = []"
| "handshakes cert key ((now, st, lib) # looks) a =
     (let (v, a) = cert_resolve now st (load_cert lib cert key) a in v # handshakes cert key looks a)"

lemma watched_get_value:
  "P (wt_value w) \<Longrightarrow> (\<And>v. loaded = Inr v \<Longrightarrow> P v) \<Longrightarrow> watched_get now st loaded w = (v, w') \<Longrightarrow> P v \<and> P (wt_value w')"
  by (auto simp: watched_get_def Let_def split: if_splits sum.splits)

lemma handshakes_all:
  assumes "P (wt_value (ac_certified a))"
    and "\<And>now st lib v. (now, st, lib) \<in> set looks \<Longrightarrow> load_cert lib cert key = Inr v \<Longrightarrow> P v"
  shows "list_all (\<lambda>r. \<exists>v. r = Some v \<and> P v) (handshakes cert key looks a)"
  using assms
proof (induction looks arbitrary: a)
  case (Cons l looks)
  obtain now st lib where l: "l = (now, st, lib)" by (metis prod.exhaust)
  obtain v w where g: "watched_get now st (load_cert lib cert key) (ac_certified a) = (v, w)" by fastforce
  have "P x" if "load_cert lib cert key = Inr x" for x
    by (rule Cons.prems(2) [of now st lib]) (simp_all add: l that)
  then have v: "P v" "P (wt_value w)"
    using watched_get_value [where P = P, OF Cons.prems(1) _ g] by blast+
  have "list_all (\<lambda>r. \<exists>v. r = Some v \<and> P v) (handshakes cert key looks (a\<lparr>ac_certified := w\<rparr>))"
  proof (rule Cons.IH)
    show "P x" if "(now, st, lib) \<in> set looks" "load_cert lib cert key = Inr x" for now st lib x
      by (rule Cons.prems(2) [of now st lib]) (simp_all add: that)
  qed (simp add: v(2))
  then show ?case using v(1) by (simp add: l cert_resolve_def g del: split_paired_Ex)
qed simp

lemma acceptor_new_value:
  "acceptor_new lib protocols now st cert key = Inr a \<Longrightarrow>
     load_cert lib cert key = Inr (wt_value (ac_certified a)) \<and> ac_alpn_protocols a = [''h2'', ''http/1.1'']"
  by (cases "load_cert lib cert key"; cases protocols)
    (auto simp: acceptor_new_def watched_new_def res_map_err_def)

text \<open>The loop returns with the shutdown only; a failing \<open>accept\<close> costs a pause and no connection.\<close>

lemma serve_tls_spec:
  "serve_tls turns =
     (map (\<lambda>t. case t of Arrived tcp \<Rightarrow> Spawn tcp | _ \<Rightarrow> Sleep 100) (takeWhile (\<lambda>t. t \<noteq> ShuttingDown) turns),
      ShuttingDown \<in> set turns)"
  by (induction turns rule: serve_tls.induct) simp_all

section \<open>Properties\<close>


text \<open>A certificate that is replaced together with its key, and in between a key that does not match.\<close>

definition demo_tls :: "nat \<Rightarrow> nat \<Rightarrow> (nat, nat, nat) tls_lib" where
  "demo_tls c k =
     \<lparr>tl_certs = (\<lambda>_. Inr [Inr c]), tl_key = (\<lambda>_. Inr k), tl_signing = Inr,
      tl_match = (\<lambda>chain signing. if chain = [signing] then Inr () else Inl ''mismatch'')\<rparr>"


end
