(* ===== verification/Server.thy ===== *)
theory Server
  imports Api Daemon Manager_Start Tls_Serve
begin

text \<open>
  The daemon as its clients see it: how \<open>main\<close> of \<open>crates/cadvisor/src/main.rs\<close> puts the parts together.
  \<open>startup\<close> is the part of \<open>main\<close> up to the first sweep, \<open>route\<close> the routes of the three routers it
  merges and \<open>respond\<close> adds the authentication layer. The requests are GET requests; axum's decoding
  of the path behind \<open>/api/\<close> is the parameter \<open>sv_decode\<close>, its answers to unknown paths and to paths it
  cannot decode are 404 and 400.
\<close>

section \<open>Startup\<close>

datatype startup_error = BadFlag string | BadTokens token_error | BadManager manager_error

definition startup ::
  "(string \<Rightarrow> (string, nat) res) \<Rightarrow> string \<Rightarrow> (string \<Rightarrow> bool) \<Rightarrow> os \<Rightarrow> vfs \<Rightarrow> gotime \<Rightarrow> args \<Rightarrow>
     (startup_error, manager \<times> (string \<times> string) option \<times> string list option) res" where
  "startup duration version is_file os vfs now ar =
     res_bind (res_map_err BadFlag (config_of duration version ar)) (\<lambda>cfg.
     res_bind (res_map_err BadFlag (tls_files ar)) (\<lambda>tls.
     res_bind (if ar_bearer_token_file ar = [] then Inr None
               else res_map Some (res_map_err BadTokens (load_tokens os (ar_bearer_token_file ar)))) (\<lambda>tokens.
     res_bind (res_map_err BadManager (manager_new is_file os vfs now cfg)) (\<lambda>mg.
       Inr (mg, tls, tokens)))))"

text \<open>The last part, once the daemon runs: the port, and the certificate if there is one.\<close>

datatype listen_error = BindFailed string string | NoAcceptor acceptor_error

definition listen ::
  "(string \<Rightarrow> (string, unit) res) \<Rightarrow> (string \<Rightarrow> string \<Rightarrow> (acceptor_error, 'a) res) \<Rightarrow> string \<Rightarrow>
     (string \<times> string) option \<Rightarrow> (listen_error, 'a option) res" where
  "listen bind_port acceptor addr tls =
     res_bind (res_map_err (BindFailed addr) (bind_port addr)) (\<lambda>_.
       case tls of
         Some (cert, key) \<Rightarrow> res_map Some (res_map_err NoAcceptor (acceptor cert key))
       | None \<Rightarrow> Inr None)"

section \<open>Routes\<close>

record server =
  sv_api :: api_env
  sv_ryu :: "f64 \<Rightarrow> string"
  sv_opts :: metrics_opts
  sv_decode :: "string \<Rightarrow> string option"
  sv_to_str :: "string \<Rightarrow> string option"
  sv_tokens :: "string list option"

definition text_reply :: "nat \<Rightarrow> string \<Rightarrow> response" where
  "text_reply status body = Response status ''text/plain; charset=utf-8'' body"

definition metrics_route :: "server \<Rightarrow> reg \<Rightarrow> string \<Rightarrow> response option" where
  "metrics_route sv s path =
     (if path = ''/metrics'' then
        Some (Response 200 ''text/plain; version=0.0.4; charset=utf-8''
          (render_metrics (sv_ryu sv) (sv_opts sv) (ae_now (sv_api sv)) (ae_version (sv_api sv)) s))
      else None)"

definition api_route :: "server \<Rightarrow> reg \<Rightarrow> string \<Rightarrow> string option \<Rightarrow> string \<Rightarrow> response option" where
  "api_route sv s path query body =
     (if path = ''/api'' \<or> path = ''/api/'' then Some api_root
      else case strip_prefix ''/api/'' path of
        None \<Rightarrow> None
      | Some rest \<Rightarrow>
          Some (case sv_decode sv rest of
                  None \<Rightarrow> text_reply 400 ''Invalid URL''
                | Some r \<Rightarrow> dispatch (sv_api sv) s r query body))"

definition route :: "server \<Rightarrow> reg \<Rightarrow> string \<Rightarrow> string option \<Rightarrow> string \<Rightarrow> response" where
  "route sv s path query body =
     (if path \<in> set health_paths then text_reply 200 ''ok''
      else case metrics_route sv s path of
        Some r \<Rightarrow> r
      | None \<Rightarrow>
          (case api_route sv s path query body of
             Some r \<Rightarrow> r
           | None \<Rightarrow> text_reply 404 []))"

definition respond :: "server \<Rightarrow> reg \<Rightarrow> string \<Rightarrow> string option \<Rightarrow> string option \<Rightarrow> string \<Rightarrow> response" where
  "respond sv s path auth query body =
     (case admitted (sv_to_str sv) (sv_tokens sv) path auth of
        Pass \<Rightarrow> route sv s path query body
      | Unauthorized \<Rightarrow> text_reply 401 (''Unauthorized'' @ [nl]))"

section \<open>Lemmas\<close>

text \<open>Who is let in.\<close>

definition token_ok :: "server \<Rightarrow> string option \<Rightarrow> bool" where
  "token_ok sv auth \<longleftrightarrow>
     (case sv_tokens sv of
        None \<Rightarrow> True
      | Some tokens \<Rightarrow> (\<exists>k. bearer (sv_to_str sv) auth = Some k \<and> k \<in> set tokens))"

lemma admitted_iff:
  "admitted (sv_to_str sv) (sv_tokens sv) path auth = Pass \<longleftrightarrow> path \<in> set health_paths \<or> token_ok sv auth"
  by (auto simp: admitted_def require_bearer_def token_accepted_def token_ok_def list_ex_iff ct_eq_equal
      split: option.split)

lemma respond_cases:
  "respond sv s path auth query body =
     (if path \<in> set health_paths \<or> token_ok sv auth then route sv s path query body
      else text_reply 401 (''Unauthorized'' @ [nl]))"
  using admitted_iff [of sv path auth]
  by (cases "admitted (sv_to_str sv) (sv_tokens sv) path auth") (auto simp: respond_def)

lemma outcome_status: "outcome ae errors r \<Longrightarrow> rs_status r \<in> insert 200 errors"
  by (cases r) (auto simp: outcome_def)

lemma dispatch_status: "rs_status (dispatch ae s rest query body) \<in> {200, 400, 500}"
proof (cases "lists_types rest")
  case True
  then obtain x where "dispatch ae s rest query body = plain 400 x" using dispatch_lists by blast
  then show ?thesis by (simp add: plain_def)
next
  case False
  from outcome_status [OF dispatch_answers [OF this, of ae s query body]] show ?thesis by auto
qed

text \<open>The paths that are served.\<close>

definition served_path :: "string \<Rightarrow> bool" where
  "served_path path \<longleftrightarrow>
     path \<in> set health_paths \<or> path \<in> {''/metrics'', ''/api''} \<or> starts_with path ''/api/''"

lemma route_status:
  "rs_status (route sv s path query body) \<in> {200, 400, 404, 500}"
  "rs_status (route sv s path query body) = 404 \<longleftrightarrow> \<not> served_path path"
proof -
  define h m a b where "h \<longleftrightarrow> path \<in> set health_paths" and "m \<longleftrightarrow> path = ''/metrics''" and "a \<longleftrightarrow> path = ''/api''"
    and "b \<longleftrightarrow> path = ''/api/''"
  have b: "b \<Longrightarrow> starts_with path ''/api/''" by (simp add: b_def)
  obtain metrics where m: "metrics_route sv s path = (if m then Some metrics else None)" "rs_status metrics = 200"
    by (rule that) (unfold metrics_route_def m_def, rule refl, simp)
  have r: "route sv s path query body =
     (if h then text_reply 200 ''ok'' else if m then metrics else if a \<or> b then api_root
      else case strip_prefix ''/api/'' path of
        None \<Rightarrow> text_reply 404 []
      | Some rest \<Rightarrow>
          (case sv_decode sv rest of
             None \<Rightarrow> text_reply 400 ''Invalid URL''
           | Some r \<Rightarrow> dispatch (sv_api sv) s r query body))"
    unfolding route_def m(1) api_route_def h_def [symmetric] a_def [symmetric] b_def [symmetric]
    by (simp split: option.split)
  have p: "served_path path \<longleftrightarrow> h \<or> m \<or> a \<or> starts_with path ''/api/''"
    by (auto simp: served_path_def h_def m_def a_def)
  have st: "rs_status (text_reply st x) = st" "rs_status metrics = 200" "rs_status api_root = 400" for st x
    using m(2) by (simp_all add: text_reply_def api_root_def plain_def)
  have "rs_status (route sv s path query body) \<in> {200, 400, 404, 500} \<and>
      (rs_status (route sv s path query body) = 404 \<longleftrightarrow> \<not> served_path path)"
  proof (cases "strip_prefix ''/api/'' path")
    case None
    then have "\<not> starts_with path ''/api/''" by (simp add: strip_prefix_def split: if_splits)
    then show ?thesis using b unfolding r p by (auto simp: st None)
  next
    case (Some rest)
    then have "starts_with path ''/api/''" by (simp add: strip_prefix_def split: if_splits)
    moreover have "rs_status (dispatch (sv_api sv) s x query body) \<noteq> 404" for x
      using dispatch_status [of "sv_api sv" s x query body] by auto
    moreover have "rs_status (dispatch (sv_api sv) s x query body) \<in> {200, 400, 404, 500}" for x
      using dispatch_status [of "sv_api sv" s x query body] by auto
    ultimately show ?thesis unfolding r p by (cases "sv_decode sv rest") (simp_all add: st Some)
  qed
  then show "rs_status (route sv s path query body) \<in> {200, 400, 404, 500}"
    "rs_status (route sv s path query body) = 404 \<longleftrightarrow> \<not> served_path path" by blast+
qed

lemma route_api:
  assumes "rest \<noteq> []" "sv_decode sv rest = Some r"
  shows "route sv s (''/api/'' @ rest) query body = dispatch (sv_api sv) s r query body"
proof -
  have "strip_prefix ''/api/'' (''/api/'' @ rest) = Some rest" by (rule strip_prefix_append)
  then show ?thesis using assms by (simp add: route_def metrics_route_def api_route_def health_paths_def)
qed

lemma json_status: "is_ok (to_vec v) \<Longrightarrow> rs_status (json to_vec v) = 200"
  by (cases "to_vec v") (simp_all add: json_def)

text \<open>A daemon that starts guards its surface whenever it was told to.\<close>

lemma startup_guards:
  assumes "startup duration version is_file os vfs now ar = Inr (mg, tls, tokens)"
  shows "(tokens = None \<longleftrightarrow> ar_bearer_token_file ar = []) \<and> tokens \<noteq> Some [] \<and>
     (tls = None \<longleftrightarrow> ar_tls_cert_file ar = []) \<and> (tls = None \<longleftrightarrow> ar_tls_key_file ar = []) \<and>
     config_of duration version ar = Inr (mg_cfg mg) \<and> rg_map (mg_reg mg) = []"
proof -
  have e: "res_map_err f r = Inr x \<longleftrightarrow> r = Inr x" for f :: "'e \<Rightarrow> startup_error" and r :: "('e, 'b) res" and x
    by (cases r) (simp_all add: res_map_err_def)
  have mgr: "mg_cfg mg = cfg \<and> rg_map (mg_reg mg) = []" if "manager_new is_file os vfs now cfg = Inr mg" for cfg
    using that by (auto simp: manager_new_def res_bind_Inr reg_start_def)
  show ?thesis using assms mgr unfolding startup_def res_bind_Inr e
    by (auto simp: tls_files_def load_tokens_def res_map_def Let_def split: if_splits sum.splits)
qed

text \<open>Nothing before \<open>listen\<close> reads the certificate: with files that do not load, a daemon starts, sweeps and
  takes its port before it fails.\<close>

lemma certificate_read_last:
  assumes "startup duration version is_file os vfs now ar = Inr (mg, Some (cert, key), tokens)"
    and "acceptor cert key = Inl e" "bind_port (listen_addr ar) = Inr ()"
  shows "cert = ar_tls_cert_file ar \<and> key = ar_tls_key_file ar \<and>
     listen bind_port acceptor (listen_addr ar) (Some (cert, key)) = Inl (NoAcceptor e)"
proof -
  have "res_map_err f r = Inr x \<longleftrightarrow> r = Inr x" for f :: "'e \<Rightarrow> startup_error" and r :: "('e, 'b) res" and x
    by (cases r) (simp_all add: res_map_err_def)
  then show ?thesis using assms unfolding startup_def res_bind_Inr
    by (auto simp: tls_files_def listen_def split: if_splits)
qed

section \<open>Properties\<close>



text \<open>Without a token file, on the tree with the cgroup \<open>/a\<close>.\<close>

definition demo_server :: server where
  "demo_server = \<lparr>sv_api = demo_env, sv_ryu = demo_ryu, sv_opts = default_metrics_opts, sv_decode = Some,
     sv_to_str = Some, sv_tokens = None\<rparr>"


end
