(* ===== verification/Gotime.thy ===== *)
theory Gotime
  imports Rust_Std "HOL-Library.Signed_Division"
begin

text \<open>
  The text of timestamps: \<open>to_rfc3339_nano\<close> of \<open>crates/cadvisor-model/src/gotime.rs\<close>, which the JSON
  of the API carries, and the reader \<open>nanos\<close> of the tests (\<open>test/src/gotime.rs\<close>) with its calendar.
  The rendering of a whole second is chrono's (\<open>%Y-%m-%dT%H:%M:%S\<close>), a parameter here;
  \<open>stamp_ok\<close> is what chrono documents of it, in terms of the Gregorian calendar below.
\<close>

section \<open>The writer\<close>

definition gotime_zero :: gotime where
  "gotime_zero = 0"

definition gotime_is_zero :: "gotime \<Rightarrow> bool" where
  "gotime_is_zero t \<longleftrightarrow> t = gotime_zero"

text \<open>\<open>{:09}\<close> and its like.\<close>

definition pad :: "nat \<Rightarrow> nat \<Rightarrow> string" where
  "pad k n = replicate (k - length (dec n)) CHR ''0'' @ dec n"

definition nanosecond :: "gotime \<Rightarrow> nat" where
  "nanosecond t = nat (t mod 10 ^ 9)"

definition whole_second :: "gotime \<Rightarrow> int" where
  "whole_second t = t div 10 ^ 9"

definition to_rfc3339_nano :: "(int \<Rightarrow> string) \<Rightarrow> gotime \<Rightarrow> string" where
  "to_rfc3339_nano stamp t =
     stamp (whole_second t) @
     (if 0 < nanosecond t then CHR ''.'' # trim_end_char CHR ''0'' (pad 9 (nanosecond t)) else []) @ ''Z''"

section \<open>The reader of the tests\<close>

text \<open>Rust divides with truncation.\<close>

definition days_from_civil :: "int \<Rightarrow> int \<Rightarrow> int \<Rightarrow> int" where
  "days_from_civil y m d =
     (let y = (if m \<le> 2 then y - 1 else y);
          era = (if 0 \<le> y then y else y - 399) sdiv 400;
          yoe = y - era * 400;
          doy = (153 * (m + (if 2 < m then - 3 else 9)) + 2) sdiv 5 + d - 1;
          doe = yoe * 365 + yoe sdiv 4 - yoe sdiv 100 + doy
      in era * 146097 + doe - 719468)"

definition boundary :: "string \<Rightarrow> nat \<Rightarrow> bool" where
  "boundary s i \<longleftrightarrow> i = length s \<or> (i < length s \<and> \<not> is_continuation (s ! i))"

text \<open>The closure \<open>num\<close>: \<open>str::get\<close> of a range, then the number.\<close>

definition num_at :: "string \<Rightarrow> nat \<Rightarrow> nat \<Rightarrow> int option" where
  "num_at s a z =
     (if a \<le> z \<and> boundary s a \<and> boundary s z then parse_i64 (take (z - a) (drop a s)) else None)"

text \<open>The fraction in nanoseconds and the rest; at most nine digits, which fit an \<open>i128\<close>.\<close>

definition fraction :: "string \<Rightarrow> (int \<times> string) option" where
  "fraction rest =
     (case rest of
        [] \<Rightarrow> Some (0, [])
      | c # r \<Rightarrow>
          if c \<noteq> CHR ''.'' then Some (0, rest)
          else (let digits = takeWhile is_digit r in
                if digits = [] \<or> 9 < length digits then None
                else map_option (\<lambda>v. (int v * 10 ^ (9 - length digits), dropWhile is_digit r))
                       (digits_val 0 digits)))"

text \<open>The seconds of an offset. The outer \<open>None\<close> is the panic of a slice that splits a character.\<close>

definition offset_secs :: "string \<Rightarrow> int option option" where
  "offset_secs tz =
     (if tz = ''Z'' \<or> tz = ''z'' then Some (Some 0)
      else if length tz = 6 \<and> (starts_with tz ''+'' \<or> starts_with tz ''-'') then
        (if \<not> boundary tz 3 \<or> \<not> boundary tz 4 then None
         else if tz ! 3 \<noteq> CHR '':'' then Some None
         else Some (case (parse_i64 (take 2 (drop 1 tz)), parse_i64 (take 2 (drop 4 tz))) of
                (Some h, Some m) \<Rightarrow>
                  Some (if starts_with tz ''-'' then - (h * 3600 + m * 60) else h * 3600 + m * 60)
              | _ \<Rightarrow> None))
      else Some None)"

definition nanos :: "string \<Rightarrow> int option option" where
  "nanos s =
     (if length s < 20 \<or> s ! 4 \<noteq> CHR ''-'' \<or> s ! 7 \<noteq> CHR ''-'' \<or>
         \<not> (s ! 10 = CHR ''T'' \<or> s ! 10 = CHR ''t'' \<or> s ! 10 = CHR '' '') \<or>
         s ! 13 \<noteq> CHR '':'' \<or> s ! 16 \<noteq> CHR '':''
      then Some None
      else
        (case (num_at s 0 4, num_at s 5 7, num_at s 8 10, num_at s 11 13, num_at s 14 16, num_at s 17 19) of
           (Some y, Some mo, Some d, Some h, Some mi, Some se) \<Rightarrow>
             (case fraction (drop 19 s) of
                None \<Rightarrow> Some None
              | Some (frac, tz) \<Rightarrow>
                  (case offset_secs tz of
                     None \<Rightarrow> None
                   | Some None \<Rightarrow> Some None
                   | Some (Some off) \<Rightarrow>
                       Some (Some ((days_from_civil y mo d * 86400 + h * 3600 + mi * 60 + se - off) * 1000000000
                         + frac))))
         | _ \<Rightarrow> Some None))"

section \<open>The calendar\<close>

text \<open>The proleptic Gregorian calendar, counted year by year and month by month.\<close>

definition leap :: "nat \<Rightarrow> bool" where
  "leap y \<longleftrightarrow> 4 dvd y \<and> (\<not> 100 dvd y \<or> 400 dvd y)"

fun days_of_years :: "nat \<Rightarrow> nat" where
  "days_of_years 0 = 0"
| "days_of_years (Suc y) = days_of_years y + (if leap y then 366 else 365)"

definition month_days :: "nat \<Rightarrow> nat list" where
  "month_days y = [31, if leap y then 29 else 28, 31, 30, 31, 30, 31, 31, 30, 31, 30, 31]"

definition valid_date :: "nat \<Rightarrow> nat \<Rightarrow> nat \<Rightarrow> bool" where
  "valid_date y m d \<longleftrightarrow> 1 \<le> m \<and> m \<le> 12 \<and> 1 \<le> d \<and> d \<le> month_days y ! (m - 1)"

definition calendar_day :: "nat \<Rightarrow> nat \<Rightarrow> nat \<Rightarrow> nat" where
  "calendar_day y m d = days_of_years y + sum_list (take (m - 1) (month_days y)) + (d - 1)"

text \<open>What the writer's parameter is: the fields of the date and the time of a second since 0001-01-01.\<close>

definition stamp_text :: "nat \<Rightarrow> nat \<Rightarrow> nat \<Rightarrow> nat \<Rightarrow> nat \<Rightarrow> nat \<Rightarrow> string" where
  "stamp_text y mo d h mi se =
     pad 4 y @ ''-'' @ pad 2 mo @ ''-'' @ pad 2 d @ ''T'' @ pad 2 h @ '':'' @ pad 2 mi @ '':'' @ pad 2 se"

definition stamp_ok :: "(int \<Rightarrow> string) \<Rightarrow> int \<Rightarrow> bool" where
  "stamp_ok stamp s \<longleftrightarrow>
     (\<exists>y mo d h mi se. stamp s = stamp_text y mo d h mi se \<and> y < 10000 \<and> valid_date y mo d \<and>
        h < 24 \<and> mi < 60 \<and> se < 60 \<and>
        s = (int (calendar_day y mo d) - int (calendar_day 1 1 1)) * 86400 +
              int h * 3600 + int mi * 60 + int se)"

section \<open>Lemmas on the calendar\<close>

lemma sdiv_nonneg: "0 \<le> a \<Longrightarrow> 0 < b \<Longrightarrow> a sdiv b = a div (b::int)"
  by (simp add: signed_divide_int_def sgn_if)

lemma of_nat_le_2: "int m \<le> 2 \<longleftrightarrow> m \<le> 2"
  by simp

lemma era_floor:
  assumes "- 1 \<le> y"
  shows "(if 0 \<le> y then y else y - 399) sdiv 400 = y div (400::int)"
proof (cases "0 \<le> y")
  case False
  then have "y = - 1" using assms by simp
  then show ?thesis by (simp add: signed_divide_int_def)
qed (simp add: sdiv_nonneg)

lemma year_parts:
  fixes y :: int
  shows "y div 400 * 146097 + (y - y div 400 * 400) * 365 + (y - y div 400 * 400) div 4 - (y - y div 400 * 400) div 100 =
    365 * y + y div 4 - y div 100 + y div 400"
proof -
  define e where "e = y div 400"
  define r where "r = y - y div 400 * 400"
  have y: "y = r + e * 400" by (simp add: e_def r_def)
  have "y = r + 100 * e * 4" "y = r + 4 * e * 100" using y by simp_all
  then have "y div 4 = 100 * e + r div 4" "y div 100 = 4 * e + r div 100"
    using div_mult_self1 [of 4 r "100 * e"] div_mult_self1 [of 100 r "4 * e"] by simp_all
  moreover have "y - e * 400 = r" using y by simp
  ultimately show ?thesis unfolding e_def [symmetric] using y by simp
qed

lemma div_pred: "0 < k \<Longrightarrow> int y div int k = (int y - 1) div int k + (if k dvd y then 1 else 0)"
proof (cases y)
  case (Suc n)
  assume "0 < k"
  have "int (Suc n) div int k = int (Suc n div k)" by (simp only: zdiv_int)
  moreover have "Suc n div k = n div k + (if k dvd Suc n then 1 else 0)"
    by (simp add: div_Suc dvd_eq_mod_eq_0)
  ultimately have "int (Suc n) div int k = int n div int k + (if k dvd Suc n then 1 else 0)"
    by (simp add: zdiv_int del: of_nat_Suc)
  moreover have pred: "int (Suc n) - 1 = int n" by simp
  ultimately show ?thesis unfolding Suc pred by blast
qed (simp add: div_eq_minus1)

lemma leap_sum:
  fixes a b c :: int
  assumes "a = a' + (if p then 1 else 0)" "b = b' + (if q then 1 else 0)" "c = c' + (if r then 1 else 0)"
    and "r \<Longrightarrow> q" "q \<Longrightarrow> p"
  shows "a - b + c = a' - b' + c' + (if p \<and> (\<not> q \<or> r) then 1 else 0)"
  using assms by (cases p; cases q; cases r) simp_all

lemma leap_shift:
  "int y div 4 - int y div 100 + int y div 400 =
     (int y - 1) div 4 - (int y - 1) div 100 + (int y - 1) div 400 + (if leap y then 1 else 0)"
proof -
  have "(4 :: nat) dvd 100" "(100 :: nat) dvd 400" by simp_all
  then have d: "400 dvd y \<Longrightarrow> 100 dvd y" "100 dvd y \<Longrightarrow> 4 dvd y" by (metis dvd_trans)+
  show ?thesis unfolding leap_def
    by (rule leap_sum [OF _ _ _ d]) (use div_pred [of 4 y] div_pred [of 100 y] div_pred [of 400 y] in
      \<open>simp_all only: of_nat_numeral zero_less_numeral simp_thms\<close>)
qed

lemma days_of_years_closed:
  "int (days_of_years y) = 365 * int y + (int y - 1) div 4 - (int y - 1) div 100 + (int y - 1) div 400 + 1"
proof (induction y)
  case (Suc y)
  then show ?case using leap_shift [of y] by (cases "leap y") (simp_all del: of_nat_Suc add: of_nat_Suc algebra_simps)
qed simp

text \<open>The days before a month, counted from March as the algorithm does.\<close>

lemma months_before:
  assumes "1 \<le> m" "m \<le> 12"
  shows "int (sum_list (take (m - 1) (month_days y))) =
    (if m \<le> 2 then (153 * (int m + 9) + 2) div 5 - 306
     else (153 * (int m - 3) + 2) div 5 + 59 + (if leap y then 1 else 0))"
proof -
  have "m = 1 \<or> m = 2 \<or> m = 3 \<or> m = 4 \<or> m = 5 \<or> m = 6 \<or> m = 7 \<or> m = 8 \<or> m = 9 \<or> m = 10 \<or> m = 11 \<or> m = 12"
    using assms by presburger
  then show ?thesis by (elim disjE) (simp_all add: month_days_def)
qed

lemma civil_calendar:
  assumes "valid_date y m d"
  shows "days_from_civil (int y) (int m) (int d) = int (calendar_day y m d) - int (calendar_day 1970 1 1)"
proof -
  let ?y = "if m \<le> 2 then int y - 1 else int y"
  have m: "1 \<le> m" "m \<le> 12" "1 \<le> d" using assms by (auto simp: valid_date_def)
  have epoch: "calendar_day 1970 1 1 = 719528"
    using days_of_years_closed [of 1970] by (simp add: calendar_day_def month_days_def)
  have yoe: "0 \<le> ?y - ?y div 400 * 400" by (simp only: minus_div_mult_eq_mod pos_mod_sign zero_less_numeral)
  have doy: "0 \<le> 153 * (int m + (if 2 < int m then - 3 else 9)) + 2" using m by simp
  have low: "- 1 \<le> ?y" by simp
  have "days_from_civil (int y) (int m) (int d) =
      ?y div 400 * 146097 + (?y - ?y div 400 * 400) * 365 + (?y - ?y div 400 * 400) div 4 -
        (?y - ?y div 400 * 400) div 100 +
      (153 * (int m + (if 2 < int m then - 3 else 9)) + 2) div 5 + int d - 1 - 719468"
    unfolding days_from_civil_def Let_def of_nat_le_2 era_floor [OF low]
      sdiv_nonneg [OF yoe zero_less_numeral] sdiv_nonneg [OF doy zero_less_numeral] by linarith
  moreover have "int (calendar_day y m d) =
      365 * int y + (int y - 1) div 4 - (int y - 1) div 100 + (int y - 1) div 400 + 1 +
      int (sum_list (take (m - 1) (month_days y))) + int d - 1"
    using days_of_years_closed [of y] m by (simp add: calendar_day_def)
  ultimately show ?thesis using months_before [OF m(1,2), of y] leap_shift [of y] unfolding epoch year_parts
    by (cases "m \<le> 2") simp_all
qed

section \<open>Lemmas on the text\<close>

lemma digit_not_continuation: "is_digit c \<Longrightarrow> \<not> is_continuation c"
  by (simp add: is_digit_def is_continuation_def)

lemma length_dec_le: "n < 10 ^ Suc k \<Longrightarrow> length (dec n) \<le> Suc k"
proof (induction k arbitrary: n)
  case 0
  then show ?case by (subst dec.simps) simp
next
  case (Suc k)
  have "n div 10 < 10 ^ Suc k" using Suc.prems by (simp add: less_mult_imp_div_less mult.commute)
  from Suc.IH [OF this] show ?case by (subst dec.simps) simp
qed

lemma length_pad: "n < 10 ^ Suc k \<Longrightarrow> length (pad (Suc k) n) = Suc k"
  using length_dec_le [of n k] by (simp add: pad_def)

lemma pad_digits: "\<forall>c \<in> set (pad k n). is_digit c"
  using dec_digits [of n] by (auto simp: pad_def is_digit_def code_def)

lemma digits_val_pad: "digits_val 0 (pad k n) = Some n"
  by (simp add: pad_def digits_val_append digits_val_zeros digits_val_dec)

lemma digits_val_trailing:
  "digits_val acc (s @ replicate k CHR ''0'') = map_option (\<lambda>v. v * 10 ^ k) (digits_val acc s)"
  by (cases "digits_val acc s") (simp_all add: digits_val_append digits_val_zeros)

lemma parse_i64_digits:
  assumes "\<forall>c \<in> set s. is_digit c" "s \<noteq> []" "digits_val 0 s = Some n" "n \<le> 2 ^ 63 - 1"
  shows "parse_i64 s = Some (int n)"
proof (cases s)
  case (Cons c r)
  then have c: "c \<noteq> CHR ''-''" "c \<noteq> CHR ''+''" using assms(1) digit_not_sign [of c] by auto
  then have "unsigned_digits s = s" using Cons by (simp add: unsigned_digits_def)
  then show ?thesis using assms c Cons by (simp add: parse_i64_def parse_unsigned_def)
qed (use assms(2) in simp)

text \<open>A padded number as its characters.\<close>

lemma pad4:
  assumes "n < 10000"
  obtains a b c d where "pad 4 n = [a, b, c, d]" "parse_i64 [a, b, c, d] = Some (int n)"
    "\<not> is_continuation a" "\<not> is_continuation b" "\<not> is_continuation c" "\<not> is_continuation d"
proof -
  have l: "length (pad 4 n) = 4" using length_pad [of n 3] assms by simp
  then have "parse_i64 (pad 4 n) = Some (int n)"
    using parse_i64_digits [of "pad 4 n" n] pad_digits [of 4 n] assms digits_val_pad [of 4 n] by fastforce
  moreover obtain a b c d where "pad 4 n = [a, b, c, d]"
    using l by (auto simp: numeral_eq_Suc length_Suc_conv)
  ultimately show ?thesis using that [of a b c d] pad_digits [of 4 n] digit_not_continuation by simp
qed

lemma pad2:
  assumes "n < 100"
  obtains a b where "pad 2 n = [a, b]" "parse_i64 [a, b] = Some (int n)"
    "\<not> is_continuation a" "\<not> is_continuation b"
proof -
  have l: "length (pad 2 n) = 2" using length_pad [of n 1] assms by (simp add: numeral_eq_Suc)
  then have "parse_i64 (pad 2 n) = Some (int n)"
    using parse_i64_digits [of "pad 2 n" n] pad_digits [of 2 n] assms digits_val_pad [of 2 n] by fastforce
  moreover obtain a b where "pad 2 n = [a, b]"
    using l by (auto simp: numeral_eq_Suc length_Suc_conv)
  ultimately show ?thesis using that [of a b] pad_digits [of 2 n] digit_not_continuation by simp
qed

lemma nanos_stamp:
  assumes "y < 10000" "mo < 100" "d < 100" "h < 100" "mi < 100" "se < 100"
    and "fraction rest = Some (frac, ''Z'')" "rest \<noteq> []" "\<not> is_continuation (hd rest)"
  shows "nanos (stamp_text y mo d h mi se @ rest) =
    Some (Some ((days_from_civil (int y) (int mo) (int d) * 86400 + int h * 3600 + int mi * 60 + int se) * 1000000000
      + frac))"
proof -
  obtain a1 a2 a3 a4 where 1: "pad 4 y = [a1, a2, a3, a4]" "parse_i64 [a1, a2, a3, a4] = Some (int y)"
    "\<not> is_continuation a1" "\<not> is_continuation a2" "\<not> is_continuation a3" "\<not> is_continuation a4"
    using pad4 [OF assms(1)] by metis
  obtain b1 b2 where 2: "pad 2 mo = [b1, b2]" "parse_i64 [b1, b2] = Some (int mo)" "\<not> is_continuation b1"
    using pad2 [OF assms(2)] by metis
  obtain c1 c2 where 3: "pad 2 d = [c1, c2]" "parse_i64 [c1, c2] = Some (int d)" "\<not> is_continuation c1"
    using pad2 [OF assms(3)] by metis
  obtain d1 d2 where 4: "pad 2 h = [d1, d2]" "parse_i64 [d1, d2] = Some (int h)" "\<not> is_continuation d1"
    using pad2 [OF assms(4)] by metis
  obtain e1 e2 where 5: "pad 2 mi = [e1, e2]" "parse_i64 [e1, e2] = Some (int mi)" "\<not> is_continuation e1"
    using pad2 [OF assms(5)] by metis
  obtain f1 f2 where 6: "pad 2 se = [f1, f2]" "parse_i64 [f1, f2] = Some (int se)" "\<not> is_continuation f1"
    using pad2 [OF assms(6)] by metis
  obtain x xs where r: "rest = x # xs" "\<not> is_continuation x" using assms(8,9) by (cases rest) auto
  have n: "\<not> is_continuation CHR ''-''" "\<not> is_continuation CHR '':''" "\<not> is_continuation CHR ''T''"
    by (simp_all add: is_continuation_def code_def)
  let ?s = "[a1, a2, a3, a4, CHR ''-'', b1, b2, CHR ''-'', c1, c2, CHR ''T'', d1, d2, CHR '':'', e1, e2, CHR '':'', f1, f2] @ x # xs"
  have s: "stamp_text y mo d h mi se @ rest = ?s" by (simp add: stamp_text_def 1 2 3 4 5 6 r)
  have "num_at ?s 0 4 = Some (int y)" "num_at ?s 5 7 = Some (int mo)" "num_at ?s 8 10 = Some (int d)"
    "num_at ?s 11 13 = Some (int h)" "num_at ?s 14 16 = Some (int mi)" "num_at ?s 17 19 = Some (int se)"
    by (simp_all add: num_at_def boundary_def 1 2 3 4 5 6 r n)
  moreover have "drop 19 ?s = rest" by (simp add: r)
  moreover have "\<not> length ?s < 20" by simp
  ultimately show ?thesis unfolding s nanos_def by (simp add: assms(7) offset_secs_def)
qed

lemma fraction_text:
  assumes "0 < n" "n < 10 ^ 9"
  shows "fraction (CHR ''.'' # trim_end_char CHR ''0'' (pad 9 n) @ ''Z'') = Some (int n, ''Z'')"
proof -
  let ?p = "pad 9 n" and ?t = "trim_end_char CHR ''0'' (pad 9 n)"
  define k where "k = length (takeWhile (\<lambda>c. c = CHR ''0'') (rev ?p))"
  have p: "?p = ?t @ replicate k CHR ''0''"
  proof -
    have "takeWhile (\<lambda>c. c = CHR ''0'') (rev ?p) = replicate k CHR ''0''"
      unfolding k_def by (rule replicate_eqI) (auto dest: set_takeWhileD)
    then have "rev ?p = replicate k CHR ''0'' @ dropWhile (\<lambda>c. c = CHR ''0'') (rev ?p)"
      by (metis takeWhile_dropWhile_id)
    then show ?thesis by (metis rev_append rev_rev_ident rev_replicate trim_end_char_def)
  qed
  have len: "length ?t + k = 9" using length_pad [of n 8] assms(2) arg_cong [OF p, of length] by simp
  have "map_option (\<lambda>v. v * 10 ^ k) (digits_val 0 ?t) = Some n"
    using digits_val_pad [of 9 n] digits_val_trailing [of 0 ?t k] by (simp flip: p)
  then obtain v where v: "digits_val 0 ?t = Some v" "n = v * 10 ^ k" by auto
  have "?t \<noteq> []" using v assms(1) by (cases ?t) auto
  moreover have "\<forall>c \<in> set ?t. is_digit c" using pad_digits [of 9 n] by (subst (asm) p) simp
  moreover have "\<not> is_digit CHR ''Z''" by (simp add: is_digit_def code_def)
  moreover have "9 - length ?t = k" using len by simp
  ultimately show ?thesis using v len by (simp add: fraction_def takeWhile_append dropWhile_append Let_def)
qed

lemma writer_fraction:
  "fraction ((if 0 < nanosecond t then CHR ''.'' # trim_end_char CHR ''0'' (pad 9 (nanosecond t)) else []) @ ''Z'') =
     Some (int (nanosecond t), ''Z'')"
proof (cases "0 < nanosecond t")
  case True
  then show ?thesis using fraction_text [OF True] by (simp add: nanosecond_def nat_less_iff)
qed (simp add: fraction_def)

section \<open>Properties\<close>

text \<open>The day count of the tests' reader is the Gregorian calendar: for every date of the years from 0
  it is the number of days, counted year by year and month by month, from 1970-01-01.\<close>

theorem days_from_civil_calendar:
  assumes "valid_date y m d"
  shows "days_from_civil (int y) (int m) (int d) = int (calendar_day y m d) - int (calendar_day 1970 1 1)"
  by (rule civil_calendar [OF assms])

theorem days_from_civil_calendar_witness:
  "valid_date 2024 2 29 \<and> days_from_civil 2024 2 29 = int (calendar_day 2024 2 29) - int (calendar_day 1970 1 1)"
proof -
  have "valid_date 2024 2 29" by (simp add: valid_date_def month_days_def leap_def)
  then show ?thesis using days_from_civil_calendar [of 2024 2 29] by simp
qed

text \<open>C37: the reader of the tests reads every rendered timestamp of the years before 10000 back to the
  nanosecond, as nanoseconds since the Unix epoch, however many zeros the writer has left out.\<close>

theorem timestamp_roundtrip:
  assumes "stamp_ok stamp (whole_second t)"
  shows "nanos (to_rfc3339_nano stamp t) = Some (Some (unix_ns t))"
proof -
  obtain y mo d h mi se where st: "stamp (whole_second t) = stamp_text y mo d h mi se" "y < 10000"
    and v: "valid_date y mo d" and hms: "h < 24" "mi < 60" "se < 60"
    and s: "whole_second t = (int (calendar_day y mo d) - int (calendar_day 1 1 1)) * 86400 +
      int h * 3600 + int mi * 60 + int se"
    using assms unfolding stamp_ok_def by blast
  have "mo - 1 < 12" "mo < 100" using v by (auto simp: valid_date_def)
  then have "month_days y ! (mo - 1) \<le> 31" by (simp add: month_days_def nth_Cons' numeral_eq_Suc)
  then have "d < 100" using v by (simp add: valid_date_def)
  let ?frac = "if 0 < nanosecond t then CHR ''.'' # trim_end_char CHR ''0'' (pad 9 (nanosecond t)) else []"
  have f: "fraction (?frac @ ''Z'') = Some (int (nanosecond t), ''Z'')" by (rule writer_fraction)
  have "\<not> is_continuation CHR ''.''" "\<not> is_continuation CHR ''Z''" by (simp_all add: is_continuation_def code_def)
  then have c: "\<not> is_continuation (hd (?frac @ ''Z''))" by simp
  have n: "nanos (to_rfc3339_nano stamp t) =
      Some (Some ((days_from_civil (int y) (int mo) (int d) * 86400 + int h * 3600 + int mi * 60 + int se) * 1000000000
        + int (nanosecond t)))"
    unfolding to_rfc3339_nano_def st(1) using st(2) \<open>mo < 100\<close> \<open>d < 100\<close> hms
    by (intro nanos_stamp [OF _ _ _ _ _ _ f _ c]) simp_all
  have "calendar_day 1970 1 1 = 719528" "calendar_day 1 1 1 = 366"
    using days_of_years_closed [of 1970] days_of_years_closed [of 1] by (simp_all add: calendar_day_def month_days_def)
  moreover have "days_from_civil (int y) (int mo) (int d) = int (calendar_day y mo d) - int (calendar_day 1970 1 1)"
    by (rule civil_calendar [OF v])
  moreover have "t = whole_second t * 10 ^ 9 + int (nanosecond t)"
    by (simp add: whole_second_def nanosecond_def)
  ultimately show ?thesis unfolding n using s by (simp add: unix_ns_def)
qed

text \<open>A second of 2026.\<close>

definition one_second :: "int \<Rightarrow> string" where
  "one_second s = (if s = 63919810934 then ''2026-07-16T15:02:14'' else [])"

lemma one_second_ok: "stamp_ok one_second (whole_second 63919810934826268630)"
proof -
  have days: "int (calendar_day 2026 7 16) = 740178" "int (calendar_day 1 1 1) = 366"
    using days_of_years_closed [of 2026] days_of_years_closed [of 1]
    by (simp_all add: calendar_day_def month_days_def leap_def)
  have valid: "valid_date 2026 7 16" by (simp add: valid_date_def month_days_def)
  have stamp: "one_second 63919810934 = stamp_text 2026 7 16 15 2 14" by code_simp
  have whole: "whole_second 63919810934826268630 = 63919810934" by (simp add: whole_second_def)
  show ?thesis
    unfolding stamp_ok_def whole
    by (rule exI [of _ 2026], rule exI [of _ 7], rule exI [of _ 16], rule exI [of _ 15], rule exI [of _ 2],
        rule exI [of _ 14], intro conjI, rule stamp, simp, rule valid, simp, simp, simp, unfold days, simp)
qed

theorem timestamp_roundtrip_witness:
  "nanos (to_rfc3339_nano one_second 63919810934826268630) = Some (Some 1784214134826268630)"
  using timestamp_roundtrip [OF one_second_ok] by (simp add: unix_ns_def)

text \<open>An offset that splits a character makes the reader panic.\<close>

lemma nanos_panics:
  assumes "is_continuation b"
  shows "offset_secs [CHR ''+'', a1, a2, b, c1, c2] = None"
  using assms by (simp add: offset_secs_def boundary_def starts_with_def)

end
