(* ===== verification/Wire.thy ===== *)
theory Wire
  imports Model_V1 Btree Gotime "HOL-Library.Monad_Syntax"
begin

text \<open>
  How the values of the data model travel: what serde's derived code makes of the standard types and
  of the attributes of the structs (\<open>crates/cadvisor-model\<close>), as functions between HOL values and JSON
  trees. The theories \<open>Wire_V1\<close> and \<open>Wire_V2\<close> apply them struct by struct. The text of a tree is the
  business of \<open>serde_json\<close>: its parser and printer are parameters where they are used.

  A string of a tree knows whether the deserialiser lends it out of its input, which it does for
  text without escapes, and never for a \<open>Value\<close> that owns its strings: \<open>GoTime\<close> asks for a lent one.

  The lemmas: a struct is read back from its own entries field by field, and an object of
  distinct fields has distinct keys. \<open>wire\<close> collects the rules per type.
\<close>

named_theorems wire \<open>reading back what was written, and the keys of what was written\<close>

datatype jvalue =
    JNull | JBool bool | JInt int | JFloat f64 | JStr bool string
  | JArr "jvalue list" | JObj "(string \<times> jvalue) list"

section \<open>Scalars\<close>

definition ser_bool :: "bool \<Rightarrow> jvalue" where
  "ser_bool b = JBool b"

fun de_bool :: "jvalue \<Rightarrow> bool option" where
  "de_bool (JBool b) = Some b"
| "de_bool _ = None"

definition ser_u64 :: "u64 \<Rightarrow> jvalue" where
  "ser_u64 v = JInt (uint v)"

fun de_u64 :: "jvalue \<Rightarrow> u64 option" where
  "de_u64 (JInt i) = (if 0 \<le> i \<and> i < 2 ^ 64 then Some (word_of_int i) else None)"
| "de_u64 _ = None"

definition in_i64 :: "i64 \<Rightarrow> bool" where
  "in_i64 i \<longleftrightarrow> - (2 ^ 63) \<le> i \<and> i < 2 ^ 63"

definition in_i32 :: "int \<Rightarrow> bool" where
  "in_i32 i \<longleftrightarrow> - (2 ^ 31) \<le> i \<and> i < 2 ^ 31"

definition ser_int :: "int \<Rightarrow> jvalue" where
  "ser_int i = JInt i"

fun de_i64 :: "jvalue \<Rightarrow> i64 option" where
  "de_i64 (JInt i) = (if in_i64 i then Some i else None)"
| "de_i64 _ = None"

fun de_i32 :: "jvalue \<Rightarrow> int option" where
  "de_i32 (JInt i) = (if in_i32 i then Some i else None)"
| "de_i32 _ = None"

text \<open>A float that is not finite has no number in JSON and is written as null.\<close>

fun finite64 :: "f64 \<Rightarrow> bool" where
  "finite64 (Fin _) = True"
| "finite64 _ = False"

definition ser_f64 :: "f64 \<Rightarrow> jvalue" where
  "ser_f64 x = (if finite64 x then JFloat x else JNull)"

fun de_f64 :: "jvalue \<Rightarrow> f64 option" where
  "de_f64 (JFloat x) = Some x"
| "de_f64 (JInt i) = Some (f64_of_int i)"
| "de_f64 _ = None"

text \<open>The characters that the printer escapes.\<close>

definition unescaped :: "string \<Rightarrow> bool" where
  "unescaped s \<longleftrightarrow> list_all (\<lambda>c. c \<noteq> CHR 0x22 \<and> c \<noteq> CHR 0x5C \<and> 32 \<le> code c) s"

definition ser_str :: "string \<Rightarrow> jvalue" where
  "ser_str s = JStr (unescaped s) s"

fun de_str :: "jvalue \<Rightarrow> string option" where
  "de_str (JStr _ s) = Some s"
| "de_str _ = None"

section \<open>Timestamps\<close>

text \<open>\<open>Serialize\<close> and \<open>Deserialize\<close> of \<open>GoTime\<close>; the reader of chrono is the parameter \<open>rfc3339\<close>.\<close>

definition ser_time :: "(int \<Rightarrow> string) \<Rightarrow> gotime \<Rightarrow> jvalue" where
  "ser_time stamp t = ser_str (to_rfc3339_nano stamp t)"

fun de_time :: "(string \<Rightarrow> gotime option) \<Rightarrow> jvalue \<Rightarrow> gotime option" where
  "de_time rfc3339 (JStr True s) = rfc3339 s"
| "de_time rfc3339 _ = None"

text \<open>What chrono documents of \<open>parse_from_rfc3339\<close>, for the timestamps of the program: date, time, a
  fraction of at most nine digits, \<open>Z\<close>.\<close>

definition rfc3339_ok :: "(string \<Rightarrow> gotime option) \<Rightarrow> bool" where
  "rfc3339_ok rfc3339 \<longleftrightarrow>
     (\<forall>y mo d h mi se f n.
        y < 10000 \<and> valid_date y mo d \<and> h < 24 \<and> mi < 60 \<and> se < 60 \<and>
        fraction (f @ ''Z'') = Some (int n, ''Z'') \<longrightarrow>
        rfc3339 (stamp_text y mo d h mi se @ f @ ''Z'') =
          Some (((int (calendar_day y mo d) - int (calendar_day 1 1 1)) * 86400 +
                 int h * 3600 + int mi * 60 + int se) * 10 ^ 9 + int n))"

section \<open>Containers\<close>

definition ser_list :: "('a \<Rightarrow> jvalue) \<Rightarrow> 'a list \<Rightarrow> jvalue" where
  "ser_list ser xs = JArr (map ser xs)"

fun all_some :: "'a option list \<Rightarrow> 'a list option" where
  "all_some [] = Some []"
| "all_some (x # xs) = do { y \<leftarrow> x; ys \<leftarrow> all_some xs; Some (y # ys) }"

fun de_list :: "(jvalue \<Rightarrow> 'a option) \<Rightarrow> jvalue \<Rightarrow> 'a list option" where
  "de_list de (JArr js) = all_some (map de js)"
| "de_list de _ = None"

fun ser_opt :: "('a \<Rightarrow> jvalue) \<Rightarrow> 'a option \<Rightarrow> jvalue" where
  "ser_opt ser None = JNull"
| "ser_opt ser (Some x) = ser x"

definition de_opt :: "(jvalue \<Rightarrow> 'a option) \<Rightarrow> jvalue \<Rightarrow> 'a option option" where
  "de_opt de j = (if j = JNull then Some None else map_option Some (de j))"

text \<open>A \<open>BTreeMap\<close>; of two entries with one key the later one stays.\<close>

definition ser_map :: "('a \<Rightarrow> jvalue) \<Rightarrow> (string \<times> 'a) list \<Rightarrow> jvalue" where
  "ser_map ser m = JObj (map (\<lambda>(k, v). (k, ser v)) m)"

definition de_entry :: "(string \<Rightarrow> 'k option) \<Rightarrow> (jvalue \<Rightarrow> 'a option) \<Rightarrow> string \<times> jvalue \<Rightarrow> ('k \<times> 'a) option" where
  "de_entry de_key de e = do { k \<leftarrow> de_key (fst e); v \<leftarrow> de (snd e); Some (k, v) }"

fun de_map :: "(jvalue \<Rightarrow> 'a option) \<Rightarrow> jvalue \<Rightarrow> (string \<times> 'a) list option" where
  "de_map de (JObj m) = map_option bt_of_list (all_some (map (de_entry Some de) m))"
| "de_map de _ = None"

text \<open>With keys of type \<open>u8\<close>, which are written as strings and read as JSON numbers.\<close>

definition ser_map_u8 :: "('a \<Rightarrow> jvalue) \<Rightarrow> (nat \<times> 'a) list \<Rightarrow> jvalue" where
  "ser_map_u8 ser m = JObj (map (\<lambda>(k, v). (dec k, ser v)) m)"

definition de_key_u8 :: "string \<Rightarrow> nat option" where
  "de_key_u8 s =
     (case digits_val 0 s of
        Some n \<Rightarrow> if s = dec n \<and> n < 256 then Some n else None
      | None \<Rightarrow> None)"

fun de_map_u8 :: "(jvalue \<Rightarrow> 'a option) \<Rightarrow> jvalue \<Rightarrow> (nat \<times> 'a) list option" where
  "de_map_u8 de (JObj m) = map_option bt_of_list (all_some (map (de_entry de_key_u8 de) m))"
| "de_map_u8 de _ = None"

section \<open>Structs\<close>

text \<open>The fields of a struct with what is written for each: nothing when \<open>skip_serializing_if\<close> says so.\<close>

type_synonym wire_fields = "(string \<times> jvalue option) list"

fun wire_entries :: "wire_fields \<Rightarrow> (string \<times> jvalue) list" where
  "wire_entries [] = []"
| "wire_entries ((k, None) # es) = wire_entries es"
| "wire_entries ((k, Some j) # es) = (k, j) # wire_entries es"

definition jobj :: "wire_fields \<Rightarrow> jvalue" where
  "jobj es = JObj (wire_entries es)"

definition skip_if :: "bool \<Rightarrow> jvalue \<Rightarrow> jvalue option" where
  "skip_if c j = (if c then None else Some j)"

text \<open>The entries for the fields of a struct (\<open>keys\<close>): a field must not come twice, unknown keys are
  passed over, and an array has the fields in their order.\<close>

definition part_map :: "string list \<Rightarrow> (string \<times> jvalue) list \<Rightarrow> (string \<times> jvalue) list option" where
  "part_map keys m = (if distinct (filter (\<lambda>k. k \<in> set keys) (map fst m)) then Some m else None)"

fun struct_map :: "string list \<Rightarrow> jvalue \<Rightarrow> (string \<times> jvalue) list option" where
  "struct_map keys (JObj m) = part_map keys m"
| "struct_map keys (JArr js) = (if length js \<le> length keys then Some (zip keys js) else None)"
| "struct_map keys _ = None"

text \<open>A struct with a flattened field is read from an object only, and the entries that are not its own
  are those of the flattened field.\<close>

fun flat_map :: "string list \<Rightarrow> jvalue \<Rightarrow> (string \<times> jvalue) list option" where
  "flat_map keys (JObj m) = part_map keys m"
| "flat_map keys _ = None"

definition rest_of :: "string list \<Rightarrow> (string \<times> jvalue) list \<Rightarrow> (string \<times> jvalue) list" where
  "rest_of keys m = filter (\<lambda>e. fst e \<notin> set keys) m"

text \<open>\<open>serde(default)\<close> on a struct: a field that does not come is the default's.\<close>

definition wire_field :: "(string \<times> jvalue) list \<Rightarrow> string \<Rightarrow> (jvalue \<Rightarrow> 'a option) \<Rightarrow> 'a \<Rightarrow> 'a option" where
  "wire_field m k de dflt = (case map_of m k of None \<Rightarrow> Some dflt | Some j \<Rightarrow> de j)"

text \<open>Every object of a tree has each key once.\<close>

fun keys_distinct :: "jvalue \<Rightarrow> bool" where
  "keys_distinct (JArr js) = (\<forall>j \<in> set js. keys_distinct j)"
| "keys_distinct (JObj m) = (distinct (map fst m) \<and> (\<forall>e \<in> set m. keys_distinct (snd e)))"
| "keys_distinct _ = True"

section \<open>Lemmas\<close>

lemma de_bool_ser [wire]: "de_bool (ser_bool b) = Some b"
  by (simp add: ser_bool_def)

lemma de_u64_ser [wire]: "de_u64 (ser_u64 v) = Some v"
  using unsigned_less [of v, where ?'a = int] by (simp add: ser_u64_def)

lemma de_i64_ser [wire]: "in_i64 i \<Longrightarrow> de_i64 (ser_int i) = Some i"
  by (simp add: ser_int_def)

lemma de_i32_ser [wire]: "in_i32 i \<Longrightarrow> de_i32 (ser_int i) = Some i"
  by (simp add: ser_int_def)

lemma de_f64_ser [wire]: "finite64 x \<Longrightarrow> de_f64 (ser_f64 x) = Some x"
  by (simp add: ser_f64_def)

lemma de_str_ser [wire]: "de_str (ser_str s) = Some s"
  by (simp add: ser_str_def)

lemma unescaped_append [simp]: "unescaped (s @ t) \<longleftrightarrow> unescaped s \<and> unescaped t"
  by (simp add: unescaped_def)

lemma unescaped_digits: "\<forall>c \<in> set s. is_digit c \<Longrightarrow> unescaped s"
  by (auto simp: unescaped_def list_all_iff is_digit_def code_def)

lemma unescaped_pad [simp]: "unescaped (pad k n)"
  using pad_digits by (rule unescaped_digits)

lemma unescaped_trim:
  assumes "unescaped s"
  shows "unescaped (trim_end_char c s)"
proof -
  have "set (trim_end_char c s) \<subseteq> set s" by (auto simp: trim_end_char_def dest: set_dropWhileD)
  then show ?thesis using assms by (auto simp only: unescaped_def list_all_iff subset_eq)
qed

lemma unescaped_stamp [simp]: "unescaped (stamp_text y mo d h mi se)"
  by (simp only: stamp_text_def unescaped_append unescaped_pad, simp add: unescaped_def code_def)

lemma de_time_ser [wire]:
  assumes "rfc3339_ok rfc3339" "stamp_ok stamp (whole_second t)"
  shows "de_time rfc3339 (ser_time stamp t) = Some t"
proof -
  let ?f = "if 0 < nanosecond t then CHR ''.'' # trim_end_char CHR ''0'' (pad 9 (nanosecond t)) else []"
  obtain y mo d h mi se where st: "stamp (whole_second t) = stamp_text y mo d h mi se"
    and v: "y < 10000" "valid_date y mo d" "h < 24" "mi < 60" "se < 60"
    and s: "whole_second t = (int (calendar_day y mo d) - int (calendar_day 1 1 1)) * 86400 +
      int h * 3600 + int mi * 60 + int se"
    using assms(2) unfolding stamp_ok_def by blast
  have "t = whole_second t * 10 ^ 9 + int (nanosecond t)"
    by (simp add: whole_second_def nanosecond_def)
  then have t: "t = ((int (calendar_day y mo d) - int (calendar_day 1 1 1)) * 86400 +
      int h * 3600 + int mi * 60 + int se) * 10 ^ 9 + int (nanosecond t)" unfolding s .
  have st_txt: "to_rfc3339_nano stamp t = stamp_text y mo d h mi se @ ?f @ ''Z''"
    by (simp add: to_rfc3339_nano_def st)
  have "unescaped (CHR ''.'' # trim_end_char CHR ''0'' (pad 9 (nanosecond t)))" "unescaped ''Z''" "unescaped []"
    using unescaped_trim [OF unescaped_pad [of 9 "nanosecond t"], of "CHR ''0''"]
    by (simp_all add: unescaped_def code_def)
  then have "unescaped (to_rfc3339_nano stamp t)" by (simp add: st_txt)
  moreover have "rfc3339 (to_rfc3339_nano stamp t) = Some t"
    using assms(1) v writer_fraction [of t] unfolding rfc3339_ok_def st_txt by (subst t) blast
  ultimately show ?thesis by (simp add: ser_time_def ser_str_def)
qed

text \<open>The reader of the tests, counted from Go's zero time, is such a reader.\<close>

definition rfc3339_nanos :: "string \<Rightarrow> gotime option" where
  "rfc3339_nanos s =
     (case nanos s of Some (Some n) \<Rightarrow> Some (n + 62135596800 * 10 ^ 9) | _ \<Rightarrow> None)"

lemma rfc3339_ok_nanos: "rfc3339_ok rfc3339_nanos"
  unfolding rfc3339_ok_def
proof (intro allI impI, elim conjE)
  fix y mo d h mi se n :: nat and f
  assume a: "y < 10000" "valid_date y mo d" "h < 24" "mi < 60" "se < 60"
    and f: "fraction (f @ ''Z'') = Some (int n, ''Z'')"
  have "mo - 1 < 12" "mo < 100" using a(2) by (auto simp: valid_date_def)
  then have "month_days y ! (mo - 1) \<le> 31" by (simp add: month_days_def nth_Cons' numeral_eq_Suc)
  then have "d < 100" using a(2) by (simp add: valid_date_def)
  have "\<not> is_continuation (hd (f @ ''Z''))"
    using f by (cases f) (auto simp: fraction_def is_continuation_def code_def split: if_splits)
  then have "nanos (stamp_text y mo d h mi se @ f @ ''Z'') =
      Some (Some ((days_from_civil (int y) (int mo) (int d) * 86400 + int h * 3600 + int mi * 60 + int se) * 1000000000
        + int n))"
    using a \<open>mo < 100\<close> \<open>d < 100\<close> by (intro nanos_stamp [OF _ _ _ _ _ _ f]) simp_all
  moreover have "calendar_day 1970 1 1 = 719528" "calendar_day 1 1 1 = 366"
    using days_of_years_closed [of 1970] days_of_years_closed [of 1] by (simp_all add: calendar_day_def month_days_def)
  ultimately show "rfc3339_nanos (stamp_text y mo d h mi se @ f @ ''Z'') =
      Some (((int (calendar_day y mo d) - int (calendar_day 1 1 1)) * 86400 +
        int h * 3600 + int mi * 60 + int se) * 10 ^ 9 + int n)"
    by (simp add: rfc3339_nanos_def civil_calendar [OF a(2)])
qed

lemma all_some_map: "(\<forall>x \<in> set xs. f x = Some (g x)) \<Longrightarrow> all_some (map f xs) = Some (map g xs)"
  by (induction xs) auto

lemma de_list_ser [wire]:
  assumes "\<forall>x \<in> set xs. de (ser x) = Some x"
  shows "de_list de (ser_list ser xs) = Some xs"
  using all_some_map [of xs "\<lambda>x. de (ser x)" id] assms by (simp add: ser_list_def comp_def)

lemma de_opt_ser [wire]:
  assumes "\<forall>x \<in> set_option y. ser x \<noteq> JNull \<and> de (ser x) = Some x"
  shows "de_opt de (ser_opt ser y) = Some y"
  using assms by (cases y) (auto simp: de_opt_def)

lemma bt_of_list_sorted:
  assumes "bt_wf m"
  shows "bt_of_list m = m"
proof -
  have d: "distinct (map fst m)" using assms by (simp add: bt_wf_def strict_sorted_iff)
  let ?b = "bt_of_list m"
  have get: "map_of ?b = map_of m"
    using bt_of_list_facts(2) [of m] d by (simp add: bt_get_def [abs_def] map_of_rev_distinct)
  have wf: "bt_wf ?b" by (rule bt_of_list_facts(1))
  then have db: "distinct (map fst ?b)" by (simp add: bt_wf_def strict_sorted_iff)
  have "set ?b = set m" using get db d by (metis map_of_inject_set)
  then show ?thesis
    using wf assms d db
    by (intro map_sorted_distinct_set_unique [of fst]) (auto simp: bt_wf_def strict_sorted_iff distinct_map)
qed

lemma de_entries_ser:
  assumes "\<forall>x \<in> set m. de_key (key (fst x)) = Some (fst x)" "\<forall>x \<in> set m. de (ser (snd x)) = Some (snd x)"
  shows "all_some (map (de_entry de_key de) (map (\<lambda>(k, v). (key k, ser v)) m)) = Some m"
  using assms by (induction m) (auto simp: de_entry_def)

lemma de_map_ser [wire]:
  assumes "bt_wf m" "\<forall>x \<in> set m. de (ser (snd x)) = Some (snd x)"
  shows "de_map de (ser_map ser m) = Some m"
  using de_entries_ser [of m Some id de ser] assms by (simp add: ser_map_def bt_of_list_sorted)

lemma de_key_u8_dec: "n < 256 \<Longrightarrow> de_key_u8 (dec n) = Some n"
  by (simp add: de_key_u8_def digits_val_dec)

lemma de_map_u8_ser [wire]:
  assumes "bt_wf m" "\<forall>x \<in> set m. fst x < 256" "\<forall>x \<in> set m. de (ser (snd x)) = Some (snd x)"
  shows "de_map_u8 de (ser_map_u8 ser m) = Some m"
  using de_entries_ser [of m de_key_u8 dec de ser] assms
  by (simp add: ser_map_u8_def bt_of_list_sorted de_key_u8_dec)

lemma set_wire_entries: "e \<in> set (wire_entries es) \<longleftrightarrow> (fst e, Some (snd e)) \<in> set es"
  by (induction es rule: wire_entries.induct) auto

lemma distinct_wire_entries: "distinct (map fst es) \<Longrightarrow> distinct (map fst (wire_entries es))"
  by (induction es rule: wire_entries.induct) (force simp: set_wire_entries)+

lemma map_of_wire_entries:
  "distinct (map fst es) \<Longrightarrow>
     map_of (wire_entries es) k = (case map_of es k of Some (Some j) \<Rightarrow> Some j | _ \<Rightarrow> None)"
  by (induction es rule: wire_entries.induct)
    (auto simp: map_of_eq_None_iff split: option.split dest: map_of_SomeD, (force dest: map_of_SomeD)+)

lemma part_map_distinct: "distinct (map fst m) \<Longrightarrow> part_map keys m = Some m"
  by (simp add: part_map_def)

lemma struct_map_jobj: "distinct (map fst es) \<Longrightarrow> struct_map keys (jobj es) = Some (wire_entries es)"
  by (simp add: jobj_def part_map_distinct distinct_wire_entries)

lemma flat_map_jobj: "distinct (map fst es) \<Longrightarrow> flat_map keys (jobj es) = Some (wire_entries es)"
  by (simp add: jobj_def part_map_distinct distinct_wire_entries)

lemma struct_read: "distinct (map fst es) \<Longrightarrow> (struct_map keys (jobj es) \<bind> f) = f (wire_entries es)"
  by (simp add: struct_map_jobj)

lemma flat_read: "distinct (map fst es) \<Longrightarrow> (flat_map keys (jobj es) \<bind> f) = f (wire_entries es)"
  by (simp add: flat_map_jobj)

lemma rest_of_entries: "rest_of keys (wire_entries es) = wire_entries (filter (\<lambda>e. fst e \<notin> set keys) es)"
  by (induction es rule: wire_entries.induct) (auto simp: rest_of_def)

lemma wire_field_entries:
  assumes "distinct (map fst es)"
  shows "wire_field (wire_entries es) k de dflt = (case map_of es k of Some (Some j) \<Rightarrow> de j | _ \<Rightarrow> Some dflt)"
  using map_of_wire_entries [OF assms, of k] by (auto simp: wire_field_def split: option.split)

lemma field_skip [wire]:
  "dflt = z \<Longrightarrow> de j = Some v \<Longrightarrow> (case skip_if (v = z) j of None \<Rightarrow> Some dflt | Some j \<Rightarrow> de j) = Some v"
  by (simp add: skip_if_def)

lemma skip_if_False [wire]: "skip_if False j = Some j"
  by (simp add: skip_if_def)

lemma keys_distinct_jobj:
  assumes "distinct (map fst es)" "\<forall>e \<in> set es. \<forall>j \<in> set_option (snd e). keys_distinct j"
  shows "keys_distinct (jobj es)"
  using assms distinct_wire_entries [of es] by (fastforce simp: jobj_def set_wire_entries)

lemma not_null [wire]:
  "ser_bool b \<noteq> JNull" "ser_u64 v \<noteq> JNull" "ser_int i \<noteq> JNull" "ser_str s \<noteq> JNull" "ser_time stamp t \<noteq> JNull"
  "ser_list ser xs \<noteq> JNull" "ser_map ser m \<noteq> JNull" "ser_map_u8 ser n \<noteq> JNull" "jobj es \<noteq> JNull"
  by (simp_all add: ser_bool_def ser_u64_def ser_int_def ser_str_def ser_time_def ser_list_def ser_map_def
      ser_map_u8_def jobj_def)

lemma keys_distinct_scalar [wire]:
  "keys_distinct (ser_bool b)" "keys_distinct (ser_u64 v)" "keys_distinct (ser_int i)" "keys_distinct (ser_str s)"
  "keys_distinct (ser_time stamp t)" "keys_distinct (ser_f64 x)"
  by (simp_all add: ser_bool_def ser_u64_def ser_int_def ser_str_def ser_time_def ser_f64_def)

lemma keys_distinct_list [wire]: "\<forall>x \<in> set xs. keys_distinct (ser x) \<Longrightarrow> keys_distinct (ser_list ser xs)"
  by (simp add: ser_list_def)

lemma keys_distinct_opt [wire]: "\<forall>x \<in> set_option y. keys_distinct (ser x) \<Longrightarrow> keys_distinct (ser_opt ser y)"
  by (cases y) simp_all

lemma keys_distinct_map [wire]:
  "bt_wf m \<Longrightarrow> \<forall>x \<in> set m. keys_distinct (ser (snd x)) \<Longrightarrow> keys_distinct (ser_map ser m)"
  by (auto simp: ser_map_def comp_def split_def bt_wf_def strict_sorted_iff)

lemma inj_dec: "inj dec"
  by (rule injI) (metis digits_val_dec option.inject)

lemma keys_distinct_map_u8 [wire]:
  assumes "bt_wf m" "\<forall>x \<in> set m. keys_distinct (ser (snd x))"
  shows "keys_distinct (ser_map_u8 ser m)"
proof -
  have "distinct (map dec (map fst m))"
    using assms(1) inj_dec 
    by (auto simp: bt_wf_def strict_sorted_iff distinct_map inj_on_def)
  then show ?thesis using assms(2) by (auto simp: ser_map_u8_def comp_def split_def)
qed

lemma keys_distinct_skip [wire]:
  "(\<forall>i \<in> set_option (skip_if c j). keys_distinct i) \<longleftrightarrow> (\<not> c \<longrightarrow> keys_distinct j)"
  by (simp add: skip_if_def)

end
