(* ===== verification/Wire_V1.thy ===== *)
theory Wire_V1
  imports Wire
begin

text \<open>
  The JSON form of the v1 types: for each struct its fields with their keys and the condition under
  which one is left out (\<open><record>_fields\<close>, from the serde attributes), the writer, the reader, and
  the values that JSON can carry (\<open>ok_<record>\<close>: integers in the range of their type, finite floats,
  maps in key order, timestamps that have a text). The lemmas: a value is read back from what is written
  for it, and no object that is written has a key twice, the flattened ones included.
\<close>

text \<open>A unit variant is its name; serde also reads it as the key of an object with the value null.\<close>

fun event_type_name :: "event_type \<Rightarrow> string" where
  "event_type_name Oom = ''oom''"
| "event_type_name OomKill = ''oomKill''"
| "event_type_name ContainerCreation = ''containerCreation''"
| "event_type_name ContainerDeletion = ''containerDeletion''"

definition ser_event_type :: "event_type \<Rightarrow> jvalue" where
  "ser_event_type t = ser_str (event_type_name t)"

definition event_type_of :: "string \<Rightarrow> event_type option" where
  "event_type_of s =
     (if s = ''oom'' then Some Oom else if s = ''oomKill'' then Some OomKill
      else if s = ''containerCreation'' then Some ContainerCreation
      else if s = ''containerDeletion'' then Some ContainerDeletion else None)"

fun de_event_type :: "jvalue \<Rightarrow> event_type option" where
  "de_event_type (JStr _ s) = event_type_of s"
| "de_event_type (JObj [(k, JNull)]) = event_type_of k"
| "de_event_type _ = None"

lemma de_event_type_ser [wire]: "de_event_type (ser_event_type t) = Some t"
  by (cases t) (simp_all add: ser_event_type_def ser_str_def event_type_of_def)

lemma event_type_wire [wire]: "keys_distinct (ser_event_type t)" "ser_event_type t \<noteq> JNull"
  by (simp_all add: ser_event_type_def wire)


definition cpu_spec_fields :: "cpu_spec \<Rightarrow> wire_fields" where
  "cpu_spec_fields x =
     [(''limit'', Some (ser_u64 (cpuspec_limit x))),
      (''max_limit'', Some (ser_u64 (cpuspec_max_limit x))),
      (''mask'', skip_if (cpuspec_mask x = []) (ser_str (cpuspec_mask x))),
      (''quota'', skip_if (cpuspec_quota x = 0) (ser_u64 (cpuspec_quota x))),
      (''period'', skip_if (cpuspec_period x = 0) (ser_u64 (cpuspec_period x)))]"

definition ser_cpu_spec :: "cpu_spec \<Rightarrow> jvalue" where
  "ser_cpu_spec x = jobj (cpu_spec_fields x)"

definition de_cpu_spec :: "jvalue \<Rightarrow> cpu_spec option" where
  "de_cpu_spec j = do {
     m \<leftarrow> struct_map [''limit'', ''max_limit'', ''mask'', ''quota'', ''period''] j;
     limit' \<leftarrow> wire_field m ''limit'' de_u64 (cpuspec_limit default_cpu_spec);
     max_limit' \<leftarrow> wire_field m ''max_limit'' de_u64 (cpuspec_max_limit default_cpu_spec);
     mask' \<leftarrow> wire_field m ''mask'' de_str (cpuspec_mask default_cpu_spec);
     quota' \<leftarrow> wire_field m ''quota'' de_u64 (cpuspec_quota default_cpu_spec);
     period' \<leftarrow> wire_field m ''period'' de_u64 (cpuspec_period default_cpu_spec);
     Some \<lparr>cpuspec_limit = limit', cpuspec_max_limit = max_limit', cpuspec_mask = mask',
       cpuspec_quota = quota', cpuspec_period = period'\<rparr> }"

lemma cpu_spec_distinct: "distinct (map fst (cpu_spec_fields x))"
  by (simp add: cpu_spec_fields_def)

lemma de_cpu_spec_ser [wire]: "de_cpu_spec (ser_cpu_spec x) = Some x"
  unfolding de_cpu_spec_def ser_cpu_spec_def
    struct_read [OF cpu_spec_distinct] wire_field_entries [OF cpu_spec_distinct]
  by (simp add: cpu_spec_fields_def default_cpu_spec_def wire)

lemma keys_distinct_cpu_spec [wire]: "keys_distinct (ser_cpu_spec x)"
  unfolding ser_cpu_spec_def
  by (rule keys_distinct_jobj [OF cpu_spec_distinct])
    (simp add: cpu_spec_fields_def wire)

definition memory_spec_fields :: "memory_spec \<Rightarrow> wire_fields" where
  "memory_spec_fields x =
     [(''limit'', skip_if (memspec_limit x = 0) (ser_u64 (memspec_limit x))),
      (''reservation'', skip_if (memspec_reservation x = 0) (ser_u64 (memspec_reservation x))),
      (''swap_limit'', skip_if (memspec_swap_limit x = 0) (ser_u64 (memspec_swap_limit x)))]"

definition ser_memory_spec :: "memory_spec \<Rightarrow> jvalue" where
  "ser_memory_spec x = jobj (memory_spec_fields x)"

definition de_memory_spec :: "jvalue \<Rightarrow> memory_spec option" where
  "de_memory_spec j = do {
     m \<leftarrow> struct_map [''limit'', ''reservation'', ''swap_limit''] j;
     limit' \<leftarrow> wire_field m ''limit'' de_u64 (memspec_limit default_memory_spec);
     reservation' \<leftarrow> wire_field m ''reservation'' de_u64 (memspec_reservation default_memory_spec);
     swap_limit' \<leftarrow> wire_field m ''swap_limit'' de_u64 (memspec_swap_limit default_memory_spec);
     Some \<lparr>memspec_limit = limit', memspec_reservation = reservation', memspec_swap_limit =
       swap_limit'\<rparr> }"

lemma memory_spec_distinct: "distinct (map fst (memory_spec_fields x))"
  by (simp add: memory_spec_fields_def)

lemma de_memory_spec_ser [wire]: "de_memory_spec (ser_memory_spec x) = Some x"
  unfolding de_memory_spec_def ser_memory_spec_def
    struct_read [OF memory_spec_distinct] wire_field_entries [OF memory_spec_distinct]
  by (simp add: memory_spec_fields_def default_memory_spec_def wire)

lemma keys_distinct_memory_spec [wire]: "keys_distinct (ser_memory_spec x)"
  unfolding ser_memory_spec_def
  by (rule keys_distinct_jobj [OF memory_spec_distinct])
    (simp add: memory_spec_fields_def wire)

definition process_spec_fields :: "process_spec \<Rightarrow> wire_fields" where
  "process_spec_fields x =
     [(''limit'', skip_if (procspec_limit x = 0) (ser_u64 (procspec_limit x)))]"

definition ser_process_spec :: "process_spec \<Rightarrow> jvalue" where
  "ser_process_spec x = jobj (process_spec_fields x)"

definition de_process_spec :: "jvalue \<Rightarrow> process_spec option" where
  "de_process_spec j = do {
     m \<leftarrow> struct_map [''limit''] j;
     limit' \<leftarrow> wire_field m ''limit'' de_u64 (procspec_limit default_process_spec);
     Some \<lparr>procspec_limit = limit'\<rparr> }"

lemma process_spec_distinct: "distinct (map fst (process_spec_fields x))"
  by (simp add: process_spec_fields_def)

lemma de_process_spec_ser [wire]: "de_process_spec (ser_process_spec x) = Some x"
  unfolding de_process_spec_def ser_process_spec_def
    struct_read [OF process_spec_distinct] wire_field_entries [OF process_spec_distinct]
  by (simp add: process_spec_fields_def default_process_spec_def wire)

lemma keys_distinct_process_spec [wire]: "keys_distinct (ser_process_spec x)"
  unfolding ser_process_spec_def
  by (rule keys_distinct_jobj [OF process_spec_distinct])
    (simp add: process_spec_fields_def wire)

definition container_reference_fields :: "container_reference \<Rightarrow> wire_fields" where
  "container_reference_fields x =
     [(''id'', skip_if (ref_id x = []) (ser_str (ref_id x))),
      (''name'', Some (ser_str (ref_name x))),
      (''aliases'', skip_if (ref_aliases x = []) (ser_list ser_str (ref_aliases x))),
      (''namespace'', skip_if (ref_namespace x = []) (ser_str (ref_namespace x)))]"

definition ser_container_reference :: "container_reference \<Rightarrow> jvalue" where
  "ser_container_reference x = jobj (container_reference_fields x)"

definition container_reference_keys :: "string list" where
  "container_reference_keys = [''id'', ''name'', ''aliases'', ''namespace'']"

definition de_container_reference_of :: "(string \<times> jvalue) list \<Rightarrow> container_reference option" where
  "de_container_reference_of m = do {
     id' \<leftarrow> wire_field m ''id'' de_str (ref_id default_container_reference);
     name' \<leftarrow> wire_field m ''name'' de_str (ref_name default_container_reference);
     aliases' \<leftarrow> wire_field m ''aliases'' (de_list de_str) (ref_aliases default_container_reference);
     namespace' \<leftarrow> wire_field m ''namespace'' de_str (ref_namespace default_container_reference);
     Some \<lparr>ref_id = id', ref_name = name', ref_aliases = aliases', ref_namespace = namespace'\<rparr> }"

definition de_container_reference :: "jvalue \<Rightarrow> container_reference option" where
  "de_container_reference j = struct_map container_reference_keys j \<bind> de_container_reference_of"

lemma container_reference_distinct: "distinct (map fst (container_reference_fields x))"
  by (simp add: container_reference_fields_def)

lemma de_container_reference_of_entries: "de_container_reference_of (wire_entries (container_reference_fields x)) = Some x"
  unfolding de_container_reference_of_def wire_field_entries [OF container_reference_distinct]
  by (simp add: container_reference_fields_def default_container_reference_def wire)

lemma de_container_reference_ser [wire]: "de_container_reference (ser_container_reference x) = Some x"
  by (simp add: de_container_reference_def ser_container_reference_def struct_map_jobj container_reference_distinct de_container_reference_of_entries)

lemma keys_distinct_container_reference [wire]: "keys_distinct (ser_container_reference x)"
  unfolding ser_container_reference_def
  by (rule keys_distinct_jobj [OF container_reference_distinct])
    (simp add: container_reference_fields_def wire)

definition container_info_request_fields :: "(int \<Rightarrow> string) \<Rightarrow> container_info_request \<Rightarrow> wire_fields" where
  "container_info_request_fields stamp x =
     [(''num_stats'', skip_if (req_num_stats x = 0) (ser_int (req_num_stats x))),
      (''start'', Some (ser_time stamp (req_start x))),
      (''end'', Some (ser_time stamp (req_end x)))]"

definition ser_container_info_request :: "(int \<Rightarrow> string) \<Rightarrow> container_info_request \<Rightarrow> jvalue" where
  "ser_container_info_request stamp x = jobj (container_info_request_fields stamp x)"

definition de_container_info_request :: "(string \<Rightarrow> gotime option) \<Rightarrow> jvalue \<Rightarrow> container_info_request option" where
  "de_container_info_request rfc3339 j = do {
     m \<leftarrow> struct_map [''num_stats'', ''start'', ''end''] j;
     num_stats' \<leftarrow> wire_field m ''num_stats'' de_i64 (req_num_stats default_container_info_request);
     start' \<leftarrow> wire_field m ''start'' (de_time rfc3339) (req_start default_container_info_request);
     end' \<leftarrow> wire_field m ''end'' (de_time rfc3339) (req_end default_container_info_request);
     Some \<lparr>req_num_stats = num_stats', req_start = start', req_end = end'\<rparr> }"

definition ok_container_info_request :: "(int \<Rightarrow> string) \<Rightarrow> container_info_request \<Rightarrow> bool" where
  "ok_container_info_request stamp x \<longleftrightarrow>
     in_i64 (req_num_stats x) \<and>
     req_num_stats x \<noteq> 0 \<and>
     stamp_ok stamp (whole_second (req_start x)) \<and>
     stamp_ok stamp (whole_second (req_end x))"

lemma container_info_request_distinct: "distinct (map fst (container_info_request_fields stamp x))"
  by (simp add: container_info_request_fields_def)

lemma de_container_info_request_ser [wire]: "rfc3339_ok rfc3339 \<Longrightarrow> ok_container_info_request stamp x \<Longrightarrow> de_container_info_request rfc3339 (ser_container_info_request stamp x) = Some x"
  unfolding de_container_info_request_def ser_container_info_request_def
    struct_read [OF container_info_request_distinct] wire_field_entries [OF container_info_request_distinct]
  by (simp add: container_info_request_fields_def ok_container_info_request_def default_container_info_request_def wire)

lemma keys_distinct_container_info_request [wire]: "ok_container_info_request stamp x \<Longrightarrow> keys_distinct (ser_container_info_request stamp x)"
  unfolding ser_container_info_request_def
  by (rule keys_distinct_jobj [OF container_info_request_distinct])
    (simp add: container_info_request_fields_def ok_container_info_request_def wire)

definition load_stats_fields :: "load_stats \<Rightarrow> wire_fields" where
  "load_stats_fields x =
     [(''nr_sleeping'', Some (ser_u64 (load_nr_sleeping x))),
      (''nr_running'', Some (ser_u64 (load_nr_running x))),
      (''nr_stopped'', Some (ser_u64 (load_nr_stopped x))),
      (''nr_uninterruptible'', Some (ser_u64 (load_nr_uninterruptible x))),
      (''nr_io_wait'', Some (ser_u64 (load_nr_io_wait x)))]"

definition ser_load_stats :: "load_stats \<Rightarrow> jvalue" where
  "ser_load_stats x = jobj (load_stats_fields x)"

definition de_load_stats :: "jvalue \<Rightarrow> load_stats option" where
  "de_load_stats j = do {
     m \<leftarrow> struct_map [''nr_sleeping'', ''nr_running'', ''nr_stopped'', ''nr_uninterruptible'', ''nr_io_wait''] j;
     nr_sleeping' \<leftarrow> wire_field m ''nr_sleeping'' de_u64 (load_nr_sleeping default_load_stats);
     nr_running' \<leftarrow> wire_field m ''nr_running'' de_u64 (load_nr_running default_load_stats);
     nr_stopped' \<leftarrow> wire_field m ''nr_stopped'' de_u64 (load_nr_stopped default_load_stats);
     nr_uninterruptible' \<leftarrow> wire_field m ''nr_uninterruptible'' de_u64 (load_nr_uninterruptible default_load_stats);
     nr_io_wait' \<leftarrow> wire_field m ''nr_io_wait'' de_u64 (load_nr_io_wait default_load_stats);
     Some \<lparr>load_nr_sleeping = nr_sleeping', load_nr_running = nr_running', load_nr_stopped =
       nr_stopped', load_nr_uninterruptible = nr_uninterruptible', load_nr_io_wait = nr_io_wait'\<rparr> }"

lemma load_stats_distinct: "distinct (map fst (load_stats_fields x))"
  by (simp add: load_stats_fields_def)

lemma de_load_stats_ser [wire]: "de_load_stats (ser_load_stats x) = Some x"
  unfolding de_load_stats_def ser_load_stats_def
    struct_read [OF load_stats_distinct] wire_field_entries [OF load_stats_distinct]
  by (simp add: load_stats_fields_def default_load_stats_def wire)

lemma keys_distinct_load_stats [wire]: "keys_distinct (ser_load_stats x)"
  unfolding ser_load_stats_def
  by (rule keys_distinct_jobj [OF load_stats_distinct])
    (simp add: load_stats_fields_def wire)

lemma not_null_load_stats [wire]: "ser_load_stats x \<noteq> JNull"
  by (simp add: ser_load_stats_def wire)

definition cpu_usage_fields :: "cpu_usage \<Rightarrow> wire_fields" where
  "cpu_usage_fields x =
     [(''total'', Some (ser_u64 (usage_total x))),
      (''per_cpu_usage'', skip_if (usage_per_cpu x = []) (ser_list ser_u64 (usage_per_cpu x))),
      (''user'', Some (ser_u64 (usage_user x))),
      (''system'', Some (ser_u64 (usage_system x)))]"

definition ser_cpu_usage :: "cpu_usage \<Rightarrow> jvalue" where
  "ser_cpu_usage x = jobj (cpu_usage_fields x)"

definition de_cpu_usage :: "jvalue \<Rightarrow> cpu_usage option" where
  "de_cpu_usage j = do {
     m \<leftarrow> struct_map [''total'', ''per_cpu_usage'', ''user'', ''system''] j;
     total' \<leftarrow> wire_field m ''total'' de_u64 (usage_total default_cpu_usage);
     per_cpu' \<leftarrow> wire_field m ''per_cpu_usage'' (de_list de_u64) (usage_per_cpu default_cpu_usage);
     user' \<leftarrow> wire_field m ''user'' de_u64 (usage_user default_cpu_usage);
     system' \<leftarrow> wire_field m ''system'' de_u64 (usage_system default_cpu_usage);
     Some \<lparr>usage_total = total', usage_per_cpu = per_cpu', usage_user = user', usage_system =
       system'\<rparr> }"

lemma cpu_usage_distinct: "distinct (map fst (cpu_usage_fields x))"
  by (simp add: cpu_usage_fields_def)

lemma de_cpu_usage_ser [wire]: "de_cpu_usage (ser_cpu_usage x) = Some x"
  unfolding de_cpu_usage_def ser_cpu_usage_def
    struct_read [OF cpu_usage_distinct] wire_field_entries [OF cpu_usage_distinct]
  by (simp add: cpu_usage_fields_def default_cpu_usage_def wire)

lemma keys_distinct_cpu_usage [wire]: "keys_distinct (ser_cpu_usage x)"
  unfolding ser_cpu_usage_def
  by (rule keys_distinct_jobj [OF cpu_usage_distinct])
    (simp add: cpu_usage_fields_def wire)

definition cpu_cfs_fields :: "cpu_cfs \<Rightarrow> wire_fields" where
  "cpu_cfs_fields x =
     [(''periods'', Some (ser_u64 (cfs_periods x))),
      (''throttled_periods'', Some (ser_u64 (cfs_throttled_periods x))),
      (''throttled_time'', Some (ser_u64 (cfs_throttled_time x)))]"

definition ser_cpu_cfs :: "cpu_cfs \<Rightarrow> jvalue" where
  "ser_cpu_cfs x = jobj (cpu_cfs_fields x)"

definition de_cpu_cfs :: "jvalue \<Rightarrow> cpu_cfs option" where
  "de_cpu_cfs j = do {
     m \<leftarrow> struct_map [''periods'', ''throttled_periods'', ''throttled_time''] j;
     periods' \<leftarrow> wire_field m ''periods'' de_u64 (cfs_periods default_cpu_cfs);
     throttled_periods' \<leftarrow> wire_field m ''throttled_periods'' de_u64 (cfs_throttled_periods default_cpu_cfs);
     throttled_time' \<leftarrow> wire_field m ''throttled_time'' de_u64 (cfs_throttled_time default_cpu_cfs);
     Some \<lparr>cfs_periods = periods', cfs_throttled_periods = throttled_periods',
       cfs_throttled_time = throttled_time'\<rparr> }"

lemma cpu_cfs_distinct: "distinct (map fst (cpu_cfs_fields x))"
  by (simp add: cpu_cfs_fields_def)

lemma de_cpu_cfs_ser [wire]: "de_cpu_cfs (ser_cpu_cfs x) = Some x"
  unfolding de_cpu_cfs_def ser_cpu_cfs_def
    struct_read [OF cpu_cfs_distinct] wire_field_entries [OF cpu_cfs_distinct]
  by (simp add: cpu_cfs_fields_def default_cpu_cfs_def wire)

lemma keys_distinct_cpu_cfs [wire]: "keys_distinct (ser_cpu_cfs x)"
  unfolding ser_cpu_cfs_def
  by (rule keys_distinct_jobj [OF cpu_cfs_distinct])
    (simp add: cpu_cfs_fields_def wire)

definition cpu_schedstat_fields :: "cpu_schedstat \<Rightarrow> wire_fields" where
  "cpu_schedstat_fields x =
     [(''run_time'', Some (ser_u64 (sched_run_time x))),
      (''runqueue_time'', Some (ser_u64 (sched_runqueue_time x))),
      (''run_periods'', Some (ser_u64 (sched_run_periods x)))]"

definition ser_cpu_schedstat :: "cpu_schedstat \<Rightarrow> jvalue" where
  "ser_cpu_schedstat x = jobj (cpu_schedstat_fields x)"

definition de_cpu_schedstat :: "jvalue \<Rightarrow> cpu_schedstat option" where
  "de_cpu_schedstat j = do {
     m \<leftarrow> struct_map [''run_time'', ''runqueue_time'', ''run_periods''] j;
     run_time' \<leftarrow> wire_field m ''run_time'' de_u64 (sched_run_time default_cpu_schedstat);
     runqueue_time' \<leftarrow> wire_field m ''runqueue_time'' de_u64 (sched_runqueue_time default_cpu_schedstat);
     run_periods' \<leftarrow> wire_field m ''run_periods'' de_u64 (sched_run_periods default_cpu_schedstat);
     Some \<lparr>sched_run_time = run_time', sched_runqueue_time = runqueue_time', sched_run_periods =
       run_periods'\<rparr> }"

lemma cpu_schedstat_distinct: "distinct (map fst (cpu_schedstat_fields x))"
  by (simp add: cpu_schedstat_fields_def)

lemma de_cpu_schedstat_ser [wire]: "de_cpu_schedstat (ser_cpu_schedstat x) = Some x"
  unfolding de_cpu_schedstat_def ser_cpu_schedstat_def
    struct_read [OF cpu_schedstat_distinct] wire_field_entries [OF cpu_schedstat_distinct]
  by (simp add: cpu_schedstat_fields_def default_cpu_schedstat_def wire)

lemma keys_distinct_cpu_schedstat [wire]: "keys_distinct (ser_cpu_schedstat x)"
  unfolding ser_cpu_schedstat_def
  by (rule keys_distinct_jobj [OF cpu_schedstat_distinct])
    (simp add: cpu_schedstat_fields_def wire)

definition cpu_stats_fields :: "cpu_stats \<Rightarrow> wire_fields" where
  "cpu_stats_fields x =
     [(''usage'', Some (ser_cpu_usage (cpu_usage x))),
      (''cfs'', Some (ser_cpu_cfs (cpu_cfs x))),
      (''schedstat'', Some (ser_cpu_schedstat (cpu_schedstat x))),
      (''load_average'', Some (ser_int (cpu_load_average x)))]"

definition ser_cpu_stats :: "cpu_stats \<Rightarrow> jvalue" where
  "ser_cpu_stats x = jobj (cpu_stats_fields x)"

definition de_cpu_stats :: "jvalue \<Rightarrow> cpu_stats option" where
  "de_cpu_stats j = do {
     m \<leftarrow> struct_map [''usage'', ''cfs'', ''schedstat'', ''load_average''] j;
     usage' \<leftarrow> wire_field m ''usage'' de_cpu_usage (cpu_usage default_cpu_stats);
     cfs' \<leftarrow> wire_field m ''cfs'' de_cpu_cfs (cpu_cfs default_cpu_stats);
     schedstat' \<leftarrow> wire_field m ''schedstat'' de_cpu_schedstat (cpu_schedstat default_cpu_stats);
     load_average' \<leftarrow> wire_field m ''load_average'' de_i32 (cpu_load_average default_cpu_stats);
     Some \<lparr>cpu_usage = usage', cpu_cfs = cfs', cpu_schedstat = schedstat', cpu_load_average =
       load_average'\<rparr> }"

definition ok_cpu_stats :: "cpu_stats \<Rightarrow> bool" where
  "ok_cpu_stats x \<longleftrightarrow>
     in_i32 (cpu_load_average x)"

lemma cpu_stats_distinct: "distinct (map fst (cpu_stats_fields x))"
  by (simp add: cpu_stats_fields_def)

lemma de_cpu_stats_ser [wire]: "ok_cpu_stats x \<Longrightarrow> de_cpu_stats (ser_cpu_stats x) = Some x"
  unfolding de_cpu_stats_def ser_cpu_stats_def
    struct_read [OF cpu_stats_distinct] wire_field_entries [OF cpu_stats_distinct]
  by (simp add: cpu_stats_fields_def ok_cpu_stats_def default_cpu_stats_def wire)

lemma keys_distinct_cpu_stats [wire]: "ok_cpu_stats x \<Longrightarrow> keys_distinct (ser_cpu_stats x)"
  unfolding ser_cpu_stats_def
  by (rule keys_distinct_jobj [OF cpu_stats_distinct])
    (simp add: cpu_stats_fields_def ok_cpu_stats_def wire)

lemma not_null_cpu_stats [wire]: "ser_cpu_stats x \<noteq> JNull"
  by (simp add: ser_cpu_stats_def wire)

definition per_disk_stats_fields :: "per_disk_stats \<Rightarrow> wire_fields" where
  "per_disk_stats_fields x =
     [(''device'', Some (ser_str (disk_device x))),
      (''major'', Some (ser_u64 (disk_major x))),
      (''minor'', Some (ser_u64 (disk_minor x))),
      (''stats'', Some (ser_map ser_u64 (disk_stats x)))]"

definition ser_per_disk_stats :: "per_disk_stats \<Rightarrow> jvalue" where
  "ser_per_disk_stats x = jobj (per_disk_stats_fields x)"

definition de_per_disk_stats :: "jvalue \<Rightarrow> per_disk_stats option" where
  "de_per_disk_stats j = do {
     m \<leftarrow> struct_map [''device'', ''major'', ''minor'', ''stats''] j;
     device' \<leftarrow> wire_field m ''device'' de_str (disk_device default_per_disk_stats);
     major' \<leftarrow> wire_field m ''major'' de_u64 (disk_major default_per_disk_stats);
     minor' \<leftarrow> wire_field m ''minor'' de_u64 (disk_minor default_per_disk_stats);
     stats' \<leftarrow> wire_field m ''stats'' (de_map de_u64) (disk_stats default_per_disk_stats);
     Some \<lparr>disk_device = device', disk_major = major', disk_minor = minor', disk_stats = stats'\<rparr> }"

definition ok_per_disk_stats :: "per_disk_stats \<Rightarrow> bool" where
  "ok_per_disk_stats x \<longleftrightarrow>
     bt_wf (disk_stats x)"

lemma per_disk_stats_distinct: "distinct (map fst (per_disk_stats_fields x))"
  by (simp add: per_disk_stats_fields_def)

lemma de_per_disk_stats_ser [wire]: "ok_per_disk_stats x \<Longrightarrow> de_per_disk_stats (ser_per_disk_stats x) = Some x"
  unfolding de_per_disk_stats_def ser_per_disk_stats_def
    struct_read [OF per_disk_stats_distinct] wire_field_entries [OF per_disk_stats_distinct]
  by (simp add: per_disk_stats_fields_def ok_per_disk_stats_def default_per_disk_stats_def wire)

lemma keys_distinct_per_disk_stats [wire]: "ok_per_disk_stats x \<Longrightarrow> keys_distinct (ser_per_disk_stats x)"
  unfolding ser_per_disk_stats_def
  by (rule keys_distinct_jobj [OF per_disk_stats_distinct])
    (simp add: per_disk_stats_fields_def ok_per_disk_stats_def wire)

definition disk_io_stats_fields :: "disk_io_stats \<Rightarrow> wire_fields" where
  "disk_io_stats_fields x =
     [(''io_service_bytes'', skip_if (diskio_io_service_bytes x = []) (ser_list ser_per_disk_stats (diskio_io_service_bytes x))),
      (''io_serviced'', skip_if (diskio_io_serviced x = []) (ser_list ser_per_disk_stats (diskio_io_serviced x))),
      (''io_queued'', skip_if (diskio_io_queued x = []) (ser_list ser_per_disk_stats (diskio_io_queued x))),
      (''sectors'', skip_if (diskio_sectors x = []) (ser_list ser_per_disk_stats (diskio_sectors x))),
      (''io_service_time'', skip_if (diskio_io_service_time x = []) (ser_list ser_per_disk_stats (diskio_io_service_time x))),
      (''io_wait_time'', skip_if (diskio_io_wait_time x = []) (ser_list ser_per_disk_stats (diskio_io_wait_time x))),
      (''io_merged'', skip_if (diskio_io_merged x = []) (ser_list ser_per_disk_stats (diskio_io_merged x))),
      (''io_time'', skip_if (diskio_io_time x = []) (ser_list ser_per_disk_stats (diskio_io_time x))),
      (''io_cost_usage'', skip_if (diskio_io_cost_usage x = []) (ser_list ser_per_disk_stats (diskio_io_cost_usage x))),
      (''io_cost_wait'', skip_if (diskio_io_cost_wait x = []) (ser_list ser_per_disk_stats (diskio_io_cost_wait x))),
      (''io_cost_indebt'', skip_if (diskio_io_cost_indebt x = []) (ser_list ser_per_disk_stats (diskio_io_cost_indebt x))),
      (''io_cost_indelay'', skip_if (diskio_io_cost_indelay x = []) (ser_list ser_per_disk_stats (diskio_io_cost_indelay x)))]"

definition ser_disk_io_stats :: "disk_io_stats \<Rightarrow> jvalue" where
  "ser_disk_io_stats x = jobj (disk_io_stats_fields x)"

definition de_disk_io_stats :: "jvalue \<Rightarrow> disk_io_stats option" where
  "de_disk_io_stats j = do {
     m \<leftarrow> struct_map [''io_service_bytes'', ''io_serviced'', ''io_queued'', ''sectors'', ''io_service_time'',
        ''io_wait_time'', ''io_merged'', ''io_time'', ''io_cost_usage'', ''io_cost_wait'',
        ''io_cost_indebt'', ''io_cost_indelay''] j;
     io_service_bytes' \<leftarrow> wire_field m ''io_service_bytes'' (de_list de_per_disk_stats) (diskio_io_service_bytes default_disk_io_stats);
     io_serviced' \<leftarrow> wire_field m ''io_serviced'' (de_list de_per_disk_stats) (diskio_io_serviced default_disk_io_stats);
     io_queued' \<leftarrow> wire_field m ''io_queued'' (de_list de_per_disk_stats) (diskio_io_queued default_disk_io_stats);
     sectors' \<leftarrow> wire_field m ''sectors'' (de_list de_per_disk_stats) (diskio_sectors default_disk_io_stats);
     io_service_time' \<leftarrow> wire_field m ''io_service_time'' (de_list de_per_disk_stats) (diskio_io_service_time default_disk_io_stats);
     io_wait_time' \<leftarrow> wire_field m ''io_wait_time'' (de_list de_per_disk_stats) (diskio_io_wait_time default_disk_io_stats);
     io_merged' \<leftarrow> wire_field m ''io_merged'' (de_list de_per_disk_stats) (diskio_io_merged default_disk_io_stats);
     io_time' \<leftarrow> wire_field m ''io_time'' (de_list de_per_disk_stats) (diskio_io_time default_disk_io_stats);
     io_cost_usage' \<leftarrow> wire_field m ''io_cost_usage'' (de_list de_per_disk_stats) (diskio_io_cost_usage default_disk_io_stats);
     io_cost_wait' \<leftarrow> wire_field m ''io_cost_wait'' (de_list de_per_disk_stats) (diskio_io_cost_wait default_disk_io_stats);
     io_cost_indebt' \<leftarrow> wire_field m ''io_cost_indebt'' (de_list de_per_disk_stats) (diskio_io_cost_indebt default_disk_io_stats);
     io_cost_indelay' \<leftarrow> wire_field m ''io_cost_indelay'' (de_list de_per_disk_stats) (diskio_io_cost_indelay default_disk_io_stats);
     Some \<lparr>diskio_io_service_bytes = io_service_bytes', diskio_io_serviced = io_serviced',
       diskio_io_queued = io_queued', diskio_sectors = sectors', diskio_io_service_time =
       io_service_time', diskio_io_wait_time = io_wait_time', diskio_io_merged = io_merged',
       diskio_io_time = io_time', diskio_io_cost_usage = io_cost_usage', diskio_io_cost_wait =
       io_cost_wait', diskio_io_cost_indebt = io_cost_indebt', diskio_io_cost_indelay =
       io_cost_indelay'\<rparr> }"

definition ok_disk_io_stats :: "disk_io_stats \<Rightarrow> bool" where
  "ok_disk_io_stats x \<longleftrightarrow>
     (\<forall>y \<in> set (diskio_io_service_bytes x). ok_per_disk_stats y) \<and>
     (\<forall>y \<in> set (diskio_io_serviced x). ok_per_disk_stats y) \<and>
     (\<forall>y \<in> set (diskio_io_queued x). ok_per_disk_stats y) \<and>
     (\<forall>y \<in> set (diskio_sectors x). ok_per_disk_stats y) \<and>
     (\<forall>y \<in> set (diskio_io_service_time x). ok_per_disk_stats y) \<and>
     (\<forall>y \<in> set (diskio_io_wait_time x). ok_per_disk_stats y) \<and>
     (\<forall>y \<in> set (diskio_io_merged x). ok_per_disk_stats y) \<and>
     (\<forall>y \<in> set (diskio_io_time x). ok_per_disk_stats y) \<and>
     (\<forall>y \<in> set (diskio_io_cost_usage x). ok_per_disk_stats y) \<and>
     (\<forall>y \<in> set (diskio_io_cost_wait x). ok_per_disk_stats y) \<and>
     (\<forall>y \<in> set (diskio_io_cost_indebt x). ok_per_disk_stats y) \<and>
     (\<forall>y \<in> set (diskio_io_cost_indelay x). ok_per_disk_stats y)"

lemma disk_io_stats_distinct: "distinct (map fst (disk_io_stats_fields x))"
  by (simp add: disk_io_stats_fields_def)

lemma de_disk_io_stats_ser [wire]: "ok_disk_io_stats x \<Longrightarrow> de_disk_io_stats (ser_disk_io_stats x) = Some x"
  unfolding de_disk_io_stats_def ser_disk_io_stats_def
    struct_read [OF disk_io_stats_distinct] wire_field_entries [OF disk_io_stats_distinct]
  by (simp add: disk_io_stats_fields_def ok_disk_io_stats_def default_disk_io_stats_def wire)

lemma keys_distinct_disk_io_stats [wire]: "ok_disk_io_stats x \<Longrightarrow> keys_distinct (ser_disk_io_stats x)"
  unfolding ser_disk_io_stats_def
  by (rule keys_distinct_jobj [OF disk_io_stats_distinct])
    (simp add: disk_io_stats_fields_def ok_disk_io_stats_def wire)

lemma not_null_disk_io_stats [wire]: "ser_disk_io_stats x \<noteq> JNull"
  by (simp add: ser_disk_io_stats_def wire)

definition hugetlb_stats_fields :: "hugetlb_stats \<Rightarrow> wire_fields" where
  "hugetlb_stats_fields x =
     [(''usage'', skip_if (huge_usage x = 0) (ser_u64 (huge_usage x))),
      (''max_usage'', skip_if (huge_max_usage x = 0) (ser_u64 (huge_max_usage x))),
      (''failcnt'', Some (ser_u64 (huge_failcnt x)))]"

definition ser_hugetlb_stats :: "hugetlb_stats \<Rightarrow> jvalue" where
  "ser_hugetlb_stats x = jobj (hugetlb_stats_fields x)"

definition de_hugetlb_stats :: "jvalue \<Rightarrow> hugetlb_stats option" where
  "de_hugetlb_stats j = do {
     m \<leftarrow> struct_map [''usage'', ''max_usage'', ''failcnt''] j;
     usage' \<leftarrow> wire_field m ''usage'' de_u64 (huge_usage default_hugetlb_stats);
     max_usage' \<leftarrow> wire_field m ''max_usage'' de_u64 (huge_max_usage default_hugetlb_stats);
     failcnt' \<leftarrow> wire_field m ''failcnt'' de_u64 (huge_failcnt default_hugetlb_stats);
     Some \<lparr>huge_usage = usage', huge_max_usage = max_usage', huge_failcnt = failcnt'\<rparr> }"

lemma hugetlb_stats_distinct: "distinct (map fst (hugetlb_stats_fields x))"
  by (simp add: hugetlb_stats_fields_def)

lemma de_hugetlb_stats_ser [wire]: "de_hugetlb_stats (ser_hugetlb_stats x) = Some x"
  unfolding de_hugetlb_stats_def ser_hugetlb_stats_def
    struct_read [OF hugetlb_stats_distinct] wire_field_entries [OF hugetlb_stats_distinct]
  by (simp add: hugetlb_stats_fields_def default_hugetlb_stats_def wire)

lemma keys_distinct_hugetlb_stats [wire]: "keys_distinct (ser_hugetlb_stats x)"
  unfolding ser_hugetlb_stats_def
  by (rule keys_distinct_jobj [OF hugetlb_stats_distinct])
    (simp add: hugetlb_stats_fields_def wire)

definition cpu_set_stats_fields :: "cpu_set_stats \<Rightarrow> wire_fields" where
  "cpu_set_stats_fields x =
     [(''memory_migrate'', Some (ser_u64 (cpuset_memory_migrate x)))]"

definition ser_cpu_set_stats :: "cpu_set_stats \<Rightarrow> jvalue" where
  "ser_cpu_set_stats x = jobj (cpu_set_stats_fields x)"

definition de_cpu_set_stats :: "jvalue \<Rightarrow> cpu_set_stats option" where
  "de_cpu_set_stats j = do {
     m \<leftarrow> struct_map [''memory_migrate''] j;
     memory_migrate' \<leftarrow> wire_field m ''memory_migrate'' de_u64 (cpuset_memory_migrate default_cpu_set_stats);
     Some \<lparr>cpuset_memory_migrate = memory_migrate'\<rparr> }"

lemma cpu_set_stats_distinct: "distinct (map fst (cpu_set_stats_fields x))"
  by (simp add: cpu_set_stats_fields_def)

lemma de_cpu_set_stats_ser [wire]: "de_cpu_set_stats (ser_cpu_set_stats x) = Some x"
  unfolding de_cpu_set_stats_def ser_cpu_set_stats_def
    struct_read [OF cpu_set_stats_distinct] wire_field_entries [OF cpu_set_stats_distinct]
  by (simp add: cpu_set_stats_fields_def default_cpu_set_stats_def wire)

lemma keys_distinct_cpu_set_stats [wire]: "keys_distinct (ser_cpu_set_stats x)"
  unfolding ser_cpu_set_stats_def
  by (rule keys_distinct_jobj [OF cpu_set_stats_distinct])
    (simp add: cpu_set_stats_fields_def wire)

definition memory_numa_stats_fields :: "memory_numa_stats \<Rightarrow> wire_fields" where
  "memory_numa_stats_fields x =
     [(''file'', skip_if (numa_file x = []) (ser_map_u8 ser_u64 (numa_file x))),
      (''anon'', skip_if (numa_anon x = []) (ser_map_u8 ser_u64 (numa_anon x))),
      (''unevictable'', skip_if (numa_unevictable x = []) (ser_map_u8 ser_u64 (numa_unevictable x)))]"

definition ser_memory_numa_stats :: "memory_numa_stats \<Rightarrow> jvalue" where
  "ser_memory_numa_stats x = jobj (memory_numa_stats_fields x)"

definition de_memory_numa_stats :: "jvalue \<Rightarrow> memory_numa_stats option" where
  "de_memory_numa_stats j = do {
     m \<leftarrow> struct_map [''file'', ''anon'', ''unevictable''] j;
     file' \<leftarrow> wire_field m ''file'' (de_map_u8 de_u64) (numa_file default_memory_numa_stats);
     anon' \<leftarrow> wire_field m ''anon'' (de_map_u8 de_u64) (numa_anon default_memory_numa_stats);
     unevictable' \<leftarrow> wire_field m ''unevictable'' (de_map_u8 de_u64) (numa_unevictable default_memory_numa_stats);
     Some \<lparr>numa_file = file', numa_anon = anon', numa_unevictable = unevictable'\<rparr> }"

definition ok_memory_numa_stats :: "memory_numa_stats \<Rightarrow> bool" where
  "ok_memory_numa_stats x \<longleftrightarrow>
     bt_wf (numa_file x) \<and>
     (\<forall>y \<in> set (numa_file x). fst y < 256) \<and>
     bt_wf (numa_anon x) \<and>
     (\<forall>y \<in> set (numa_anon x). fst y < 256) \<and>
     bt_wf (numa_unevictable x) \<and>
     (\<forall>y \<in> set (numa_unevictable x). fst y < 256)"

lemma memory_numa_stats_distinct: "distinct (map fst (memory_numa_stats_fields x))"
  by (simp add: memory_numa_stats_fields_def)

lemma de_memory_numa_stats_ser [wire]: "ok_memory_numa_stats x \<Longrightarrow> de_memory_numa_stats (ser_memory_numa_stats x) = Some x"
  unfolding de_memory_numa_stats_def ser_memory_numa_stats_def
    struct_read [OF memory_numa_stats_distinct] wire_field_entries [OF memory_numa_stats_distinct]
  by (simp add: memory_numa_stats_fields_def ok_memory_numa_stats_def default_memory_numa_stats_def wire)

lemma keys_distinct_memory_numa_stats [wire]: "ok_memory_numa_stats x \<Longrightarrow> keys_distinct (ser_memory_numa_stats x)"
  unfolding ser_memory_numa_stats_def
  by (rule keys_distinct_jobj [OF memory_numa_stats_distinct])
    (simp add: memory_numa_stats_fields_def ok_memory_numa_stats_def wire)

definition memory_stats_memory_data_fields :: "memory_stats_memory_data \<Rightarrow> wire_fields" where
  "memory_stats_memory_data_fields x =
     [(''pgfault'', Some (ser_u64 (memdata_pgfault x))),
      (''pgmajfault'', Some (ser_u64 (memdata_pgmajfault x))),
      (''numa_stats'', Some (ser_memory_numa_stats (memdata_numa_stats x)))]"

definition ser_memory_stats_memory_data :: "memory_stats_memory_data \<Rightarrow> jvalue" where
  "ser_memory_stats_memory_data x = jobj (memory_stats_memory_data_fields x)"

definition de_memory_stats_memory_data :: "jvalue \<Rightarrow> memory_stats_memory_data option" where
  "de_memory_stats_memory_data j = do {
     m \<leftarrow> struct_map [''pgfault'', ''pgmajfault'', ''numa_stats''] j;
     pgfault' \<leftarrow> wire_field m ''pgfault'' de_u64 (memdata_pgfault default_memory_stats_memory_data);
     pgmajfault' \<leftarrow> wire_field m ''pgmajfault'' de_u64 (memdata_pgmajfault default_memory_stats_memory_data);
     numa_stats' \<leftarrow> wire_field m ''numa_stats'' de_memory_numa_stats (memdata_numa_stats default_memory_stats_memory_data);
     Some \<lparr>memdata_pgfault = pgfault', memdata_pgmajfault = pgmajfault', memdata_numa_stats =
       numa_stats'\<rparr> }"

definition ok_memory_stats_memory_data :: "memory_stats_memory_data \<Rightarrow> bool" where
  "ok_memory_stats_memory_data x \<longleftrightarrow>
     ok_memory_numa_stats (memdata_numa_stats x)"

lemma memory_stats_memory_data_distinct: "distinct (map fst (memory_stats_memory_data_fields x))"
  by (simp add: memory_stats_memory_data_fields_def)

lemma de_memory_stats_memory_data_ser [wire]: "ok_memory_stats_memory_data x \<Longrightarrow> de_memory_stats_memory_data (ser_memory_stats_memory_data x) = Some x"
  unfolding de_memory_stats_memory_data_def ser_memory_stats_memory_data_def
    struct_read [OF memory_stats_memory_data_distinct] wire_field_entries [OF memory_stats_memory_data_distinct]
  by (simp add: memory_stats_memory_data_fields_def ok_memory_stats_memory_data_def default_memory_stats_memory_data_def wire)

lemma keys_distinct_memory_stats_memory_data [wire]: "ok_memory_stats_memory_data x \<Longrightarrow> keys_distinct (ser_memory_stats_memory_data x)"
  unfolding ser_memory_stats_memory_data_def
  by (rule keys_distinct_jobj [OF memory_stats_memory_data_distinct])
    (simp add: memory_stats_memory_data_fields_def ok_memory_stats_memory_data_def wire)

definition memory_stats_fields :: "memory_stats \<Rightarrow> wire_fields" where
  "memory_stats_fields x =
     [(''usage'', Some (ser_u64 (mem_usage x))),
      (''max_usage'', Some (ser_u64 (mem_max_usage x))),
      (''cache'', Some (ser_u64 (mem_cache x))),
      (''rss'', Some (ser_u64 (mem_rss x))),
      (''swap'', Some (ser_u64 (mem_swap x))),
      (''mapped_file'', Some (ser_u64 (mem_mapped_file x))),
      (''working_set'', Some (ser_u64 (mem_working_set x))),
      (''failcnt'', Some (ser_u64 (mem_failcnt x))),
      (''kernel'', Some (ser_u64 (mem_kernel_usage x))),
      (''container_data'', Some (ser_memory_stats_memory_data (mem_container_data x))),
      (''hierarchical_data'', Some (ser_memory_stats_memory_data (mem_hierarchical_data x)))]"

definition ser_memory_stats :: "memory_stats \<Rightarrow> jvalue" where
  "ser_memory_stats x = jobj (memory_stats_fields x)"

definition de_memory_stats :: "jvalue \<Rightarrow> memory_stats option" where
  "de_memory_stats j = do {
     m \<leftarrow> struct_map [''usage'', ''max_usage'', ''cache'', ''rss'', ''swap'', ''mapped_file'', ''working_set'',
        ''failcnt'', ''kernel'', ''container_data'', ''hierarchical_data''] j;
     usage' \<leftarrow> wire_field m ''usage'' de_u64 (mem_usage default_memory_stats);
     max_usage' \<leftarrow> wire_field m ''max_usage'' de_u64 (mem_max_usage default_memory_stats);
     cache' \<leftarrow> wire_field m ''cache'' de_u64 (mem_cache default_memory_stats);
     rss' \<leftarrow> wire_field m ''rss'' de_u64 (mem_rss default_memory_stats);
     swap' \<leftarrow> wire_field m ''swap'' de_u64 (mem_swap default_memory_stats);
     mapped_file' \<leftarrow> wire_field m ''mapped_file'' de_u64 (mem_mapped_file default_memory_stats);
     working_set' \<leftarrow> wire_field m ''working_set'' de_u64 (mem_working_set default_memory_stats);
     failcnt' \<leftarrow> wire_field m ''failcnt'' de_u64 (mem_failcnt default_memory_stats);
     kernel_usage' \<leftarrow> wire_field m ''kernel'' de_u64 (mem_kernel_usage default_memory_stats);
     container_data' \<leftarrow> wire_field m ''container_data'' de_memory_stats_memory_data (mem_container_data default_memory_stats);
     hierarchical_data' \<leftarrow> wire_field m ''hierarchical_data'' de_memory_stats_memory_data (mem_hierarchical_data default_memory_stats);
     Some \<lparr>mem_usage = usage', mem_max_usage = max_usage', mem_cache = cache', mem_rss = rss',
       mem_swap = swap', mem_mapped_file = mapped_file', mem_working_set = working_set',
       mem_failcnt = failcnt', mem_kernel_usage = kernel_usage', mem_container_data =
       container_data', mem_hierarchical_data = hierarchical_data'\<rparr> }"

definition ok_memory_stats :: "memory_stats \<Rightarrow> bool" where
  "ok_memory_stats x \<longleftrightarrow>
     ok_memory_stats_memory_data (mem_container_data x) \<and>
     ok_memory_stats_memory_data (mem_hierarchical_data x)"

lemma memory_stats_distinct: "distinct (map fst (memory_stats_fields x))"
  by (simp add: memory_stats_fields_def)

lemma de_memory_stats_ser [wire]: "ok_memory_stats x \<Longrightarrow> de_memory_stats (ser_memory_stats x) = Some x"
  unfolding de_memory_stats_def ser_memory_stats_def
    struct_read [OF memory_stats_distinct] wire_field_entries [OF memory_stats_distinct]
  by (simp add: memory_stats_fields_def ok_memory_stats_def default_memory_stats_def wire)

lemma keys_distinct_memory_stats [wire]: "ok_memory_stats x \<Longrightarrow> keys_distinct (ser_memory_stats x)"
  unfolding ser_memory_stats_def
  by (rule keys_distinct_jobj [OF memory_stats_distinct])
    (simp add: memory_stats_fields_def ok_memory_stats_def wire)

lemma not_null_memory_stats [wire]: "ser_memory_stats x \<noteq> JNull"
  by (simp add: ser_memory_stats_def wire)

definition interface_stats_fields :: "interface_stats \<Rightarrow> wire_fields" where
  "interface_stats_fields x =
     [(''name'', Some (ser_str (iface_name x))),
      (''rx_bytes'', Some (ser_u64 (iface_rx_bytes x))),
      (''rx_packets'', Some (ser_u64 (iface_rx_packets x))),
      (''rx_errors'', Some (ser_u64 (iface_rx_errors x))),
      (''rx_dropped'', Some (ser_u64 (iface_rx_dropped x))),
      (''tx_bytes'', Some (ser_u64 (iface_tx_bytes x))),
      (''tx_packets'', Some (ser_u64 (iface_tx_packets x))),
      (''tx_errors'', Some (ser_u64 (iface_tx_errors x))),
      (''tx_dropped'', Some (ser_u64 (iface_tx_dropped x)))]"

definition ser_interface_stats :: "interface_stats \<Rightarrow> jvalue" where
  "ser_interface_stats x = jobj (interface_stats_fields x)"

definition interface_stats_keys :: "string list" where
  "interface_stats_keys = [''name'', ''rx_bytes'', ''rx_packets'', ''rx_errors'', ''rx_dropped'', ''tx_bytes'',
     ''tx_packets'', ''tx_errors'', ''tx_dropped'']"

definition de_interface_stats_of :: "(string \<times> jvalue) list \<Rightarrow> interface_stats option" where
  "de_interface_stats_of m = do {
     name' \<leftarrow> wire_field m ''name'' de_str (iface_name default_interface_stats);
     rx_bytes' \<leftarrow> wire_field m ''rx_bytes'' de_u64 (iface_rx_bytes default_interface_stats);
     rx_packets' \<leftarrow> wire_field m ''rx_packets'' de_u64 (iface_rx_packets default_interface_stats);
     rx_errors' \<leftarrow> wire_field m ''rx_errors'' de_u64 (iface_rx_errors default_interface_stats);
     rx_dropped' \<leftarrow> wire_field m ''rx_dropped'' de_u64 (iface_rx_dropped default_interface_stats);
     tx_bytes' \<leftarrow> wire_field m ''tx_bytes'' de_u64 (iface_tx_bytes default_interface_stats);
     tx_packets' \<leftarrow> wire_field m ''tx_packets'' de_u64 (iface_tx_packets default_interface_stats);
     tx_errors' \<leftarrow> wire_field m ''tx_errors'' de_u64 (iface_tx_errors default_interface_stats);
     tx_dropped' \<leftarrow> wire_field m ''tx_dropped'' de_u64 (iface_tx_dropped default_interface_stats);
     Some \<lparr>iface_name = name', iface_rx_bytes = rx_bytes', iface_rx_packets = rx_packets',
       iface_rx_errors = rx_errors', iface_rx_dropped = rx_dropped', iface_tx_bytes = tx_bytes',
       iface_tx_packets = tx_packets', iface_tx_errors = tx_errors', iface_tx_dropped =
       tx_dropped'\<rparr> }"

definition de_interface_stats :: "jvalue \<Rightarrow> interface_stats option" where
  "de_interface_stats j = struct_map interface_stats_keys j \<bind> de_interface_stats_of"

lemma interface_stats_distinct: "distinct (map fst (interface_stats_fields x))"
  by (simp add: interface_stats_fields_def)

lemma de_interface_stats_of_entries: "de_interface_stats_of (wire_entries (interface_stats_fields x)) = Some x"
  unfolding de_interface_stats_of_def wire_field_entries [OF interface_stats_distinct]
  by (simp add: interface_stats_fields_def default_interface_stats_def wire)

lemma de_interface_stats_ser [wire]: "de_interface_stats (ser_interface_stats x) = Some x"
  by (simp add: de_interface_stats_def ser_interface_stats_def struct_map_jobj interface_stats_distinct de_interface_stats_of_entries)

lemma keys_distinct_interface_stats [wire]: "keys_distinct (ser_interface_stats x)"
  unfolding ser_interface_stats_def
  by (rule keys_distinct_jobj [OF interface_stats_distinct])
    (simp add: interface_stats_fields_def wire)

definition tcp_stat_fields :: "tcp_stat \<Rightarrow> wire_fields" where
  "tcp_stat_fields x =
     [(''Established'', Some (ser_u64 (tcp_established x))),
      (''SynSent'', Some (ser_u64 (tcp_syn_sent x))),
      (''SynRecv'', Some (ser_u64 (tcp_syn_recv x))),
      (''FinWait1'', Some (ser_u64 (tcp_fin_wait1 x))),
      (''FinWait2'', Some (ser_u64 (tcp_fin_wait2 x))),
      (''TimeWait'', Some (ser_u64 (tcp_time_wait x))),
      (''Close'', Some (ser_u64 (tcp_close x))),
      (''CloseWait'', Some (ser_u64 (tcp_close_wait x))),
      (''LastAck'', Some (ser_u64 (tcp_last_ack x))),
      (''Listen'', Some (ser_u64 (tcp_listen x))),
      (''Closing'', Some (ser_u64 (tcp_closing x)))]"

definition ser_tcp_stat :: "tcp_stat \<Rightarrow> jvalue" where
  "ser_tcp_stat x = jobj (tcp_stat_fields x)"

definition de_tcp_stat :: "jvalue \<Rightarrow> tcp_stat option" where
  "de_tcp_stat j = do {
     m \<leftarrow> struct_map [''Established'', ''SynSent'', ''SynRecv'', ''FinWait1'', ''FinWait2'', ''TimeWait'',
        ''Close'', ''CloseWait'', ''LastAck'', ''Listen'', ''Closing''] j;
     established' \<leftarrow> wire_field m ''Established'' de_u64 (tcp_established default_tcp_stat);
     syn_sent' \<leftarrow> wire_field m ''SynSent'' de_u64 (tcp_syn_sent default_tcp_stat);
     syn_recv' \<leftarrow> wire_field m ''SynRecv'' de_u64 (tcp_syn_recv default_tcp_stat);
     fin_wait1' \<leftarrow> wire_field m ''FinWait1'' de_u64 (tcp_fin_wait1 default_tcp_stat);
     fin_wait2' \<leftarrow> wire_field m ''FinWait2'' de_u64 (tcp_fin_wait2 default_tcp_stat);
     time_wait' \<leftarrow> wire_field m ''TimeWait'' de_u64 (tcp_time_wait default_tcp_stat);
     close' \<leftarrow> wire_field m ''Close'' de_u64 (tcp_close default_tcp_stat);
     close_wait' \<leftarrow> wire_field m ''CloseWait'' de_u64 (tcp_close_wait default_tcp_stat);
     last_ack' \<leftarrow> wire_field m ''LastAck'' de_u64 (tcp_last_ack default_tcp_stat);
     listen' \<leftarrow> wire_field m ''Listen'' de_u64 (tcp_listen default_tcp_stat);
     closing' \<leftarrow> wire_field m ''Closing'' de_u64 (tcp_closing default_tcp_stat);
     Some \<lparr>tcp_established = established', tcp_syn_sent = syn_sent', tcp_syn_recv = syn_recv',
       tcp_fin_wait1 = fin_wait1', tcp_fin_wait2 = fin_wait2', tcp_time_wait = time_wait',
       tcp_close = close', tcp_close_wait = close_wait', tcp_last_ack = last_ack', tcp_listen =
       listen', tcp_closing = closing'\<rparr> }"

lemma tcp_stat_distinct: "distinct (map fst (tcp_stat_fields x))"
  by (simp add: tcp_stat_fields_def)

lemma de_tcp_stat_ser [wire]: "de_tcp_stat (ser_tcp_stat x) = Some x"
  unfolding de_tcp_stat_def ser_tcp_stat_def
    struct_read [OF tcp_stat_distinct] wire_field_entries [OF tcp_stat_distinct]
  by (simp add: tcp_stat_fields_def default_tcp_stat_def wire)

lemma keys_distinct_tcp_stat [wire]: "keys_distinct (ser_tcp_stat x)"
  unfolding ser_tcp_stat_def
  by (rule keys_distinct_jobj [OF tcp_stat_distinct])
    (simp add: tcp_stat_fields_def wire)

text \<open>\<open>TcpAdvancedStat\<close>: the key of each field, in the order of \<open>tcp_advanced_fields\<close>. \<open>max_conn\<close> is its one
  signed field.\<close>

definition tcp_advanced_keys :: "string list" where
  "tcp_advanced_keys = [''RtoAlgorithm'', ''RtoMin'', ''RtoMax'', ''MaxConn'', ''ActiveOpens'', ''PassiveOpens'',
     ''AttemptFails'', ''EstabResets'', ''CurrEstab'', ''InSegs'', ''OutSegs'', ''RetransSegs'',
     ''InErrs'', ''OutRsts'', ''InCsumErrors'', ''EmbryonicRsts'', ''SyncookiesSent'',
     ''SyncookiesRecv'', ''SyncookiesFailed'', ''PruneCalled'', ''RcvPruned'', ''OfoPruned'',
     ''OutOfWindowIcmps'', ''LockDroppedIcmps'', ''TW'', ''TWRecycled'', ''TWKilled'',
     ''TCPTimeWaitOverflow'', ''TCPTimeouts'', ''TCPSpuriousRTOs'', ''TCPLossProbes'',
     ''TCPLossProbeRecovery'', ''TCPRenoRecoveryFail'', ''TCPSackRecoveryFail'',
     ''TCPRenoFailures'', ''TCPSackFailures'', ''TCPLossFailures'', ''DelayedACKs'',
     ''DelayedACKLocked'', ''DelayedACKLost'', ''ListenOverflows'', ''ListenDrops'',
     ''TCPHPHits'', ''TCPPureAcks'', ''TCPHPAcks'', ''TCPRenoRecovery'', ''TCPSackRecovery'',
     ''TCPSACKReneging'', ''TCPFACKReorder'', ''TCPSACKReorder'', ''TCPRenoReorder'',
     ''TCPTSReorder'', ''TCPFullUndo'', ''TCPPartialUndo'', ''TCPDSACKUndo'', ''TCPLossUndo'',
     ''TCPFastRetrans'', ''TCPSlowStartRetrans'', ''TCPLostRetransmit'', ''TCPRetransFail'',
     ''TCPRcvCollapsed'', ''TCPDSACKOldSent'', ''TCPDSACKOfoSent'', ''TCPDSACKRecv'',
     ''TCPDSACKOfoRecv'', ''TCPAbortOnData'', ''TCPAbortOnClose'', ''TCPAbortOnMemory'',
     ''TCPAbortOnTimeout'', ''TCPAbortOnLinger'', ''TCPAbortFailed'', ''TCPMemoryPressures'',
     ''TCPMemoryPressuresChrono'', ''TCPSACKDiscard'', ''TCPDSACKIgnoredOld'',
     ''TCPDSACKIgnoredNoUndo'', ''TCPMD5NotFound'', ''TCPMD5Unexpected'', ''TCPMD5Failure'',
     ''TCPSackShifted'', ''TCPSackMerged'', ''TCPSackShiftFallback'', ''TCPBacklogDrop'',
     ''PFMemallocDrop'', ''TCPMinTTLDrop'', ''TCPDeferAcceptDrop'', ''IPReversePathFilter'',
     ''TCPReqQFullDoCookies'', ''TCPReqQFullDrop'', ''TCPFastOpenActive'',
     ''TCPFastOpenActiveFail'', ''TCPFastOpenPassive'', ''TCPFastOpenPassiveFail'',
     ''TCPFastOpenListenOverflow'', ''TCPFastOpenCookieReqd'', ''TCPSynRetrans'',
     ''TCPOrigDataSent'', ''PAWSActive'', ''PAWSEstab'']"

definition ser_tcp_advanced_value :: "string \<Rightarrow> u64 \<Rightarrow> jvalue" where
  "ser_tcp_advanced_value f v = (if f = ''max_conn'' then ser_int (sint v) else ser_u64 v)"

definition de_tcp_advanced_value :: "string \<Rightarrow> jvalue \<Rightarrow> u64 option" where
  "de_tcp_advanced_value f j = (if f = ''max_conn'' then map_option word_of_int (de_i64 j) else de_u64 j)"

definition tcp_advanced_stat_fields :: "tcp_advanced_stat \<Rightarrow> wire_fields" where
  "tcp_advanced_stat_fields x =
     map (\<lambda>(k, f, v). (k, Some (ser_tcp_advanced_value f v))) (zip tcp_advanced_keys x)"

definition ser_tcp_advanced_stat :: "tcp_advanced_stat \<Rightarrow> jvalue" where
  "ser_tcp_advanced_stat x = jobj (tcp_advanced_stat_fields x)"

definition de_tcp_advanced_stat :: "jvalue \<Rightarrow> tcp_advanced_stat option" where
  "de_tcp_advanced_stat j = do {
     m \<leftarrow> struct_map tcp_advanced_keys j;
     all_some (map (\<lambda>(k, f, d). map_option (Pair f) (wire_field m k (de_tcp_advanced_value f) d))
       (zip tcp_advanced_keys default_tcp_advanced_stat)) }"

definition ok_tcp_advanced_stat :: "tcp_advanced_stat \<Rightarrow> bool" where
  "ok_tcp_advanced_stat x \<longleftrightarrow> map fst x = tcp_advanced_fields"

lemma tcp_advanced_keys_distinct: "distinct tcp_advanced_keys"
  by code_simp

lemma tcp_advanced_lengths: "length tcp_advanced_keys = length tcp_advanced_fields"
  by code_simp

lemma tcp_advanced_value_roundtrip: "de_tcp_advanced_value f (ser_tcp_advanced_value f v) = Some v"
  using sint_greater_eq [of v] sint_less [of v]
  by (simp add: de_tcp_advanced_value_def ser_tcp_advanced_value_def wire in_i64_def)

lemma tcp_advanced_stat_distinct: "distinct (map fst (tcp_advanced_stat_fields x))"
proof -
  have "map fst (tcp_advanced_stat_fields x) = take (min (length tcp_advanced_keys) (length x)) tcp_advanced_keys"
  proof -
    have "map fst (tcp_advanced_stat_fields x) = map fst (zip tcp_advanced_keys x)"
      by (simp add: tcp_advanced_stat_fields_def split_def)
    then show ?thesis by (simp add: map_fst_zip_take)
  qed
  then show ?thesis by (simp add: tcp_advanced_keys_distinct)
qed

lemma de_tcp_advanced_stat_ser [wire]:
  assumes "ok_tcp_advanced_stat x"
  shows "de_tcp_advanced_stat (ser_tcp_advanced_stat x) = Some x"
proof -
  let ?es = "tcp_advanced_stat_fields x" and ?d = default_tcp_advanced_stat
  have len: "length x = length tcp_advanced_keys" "length ?d = length tcp_advanced_keys"
    using arg_cong [OF assms [unfolded ok_tcp_advanced_stat_def], of length]
    by (simp_all add: tcp_advanced_lengths default_tcp_advanced_stat_def)
  have f: "fst (?d ! i) = fst (x ! i)" if "i < length x" for i
  proof -
    have "map fst ?d ! i = map fst x ! i"
      using assms by (simp add: ok_tcp_advanced_stat_def default_tcp_advanced_stat_def comp_def)
    then show ?thesis using that len by simp
  qed
  have look: "map_of ?es (tcp_advanced_keys ! i) = Some (Some (ser_tcp_advanced_value (fst (x ! i)) (snd (x ! i))))"
    if "i < length x" for i
  proof (rule map_of_is_SomeI [OF tcp_advanced_stat_distinct])
    have "(tcp_advanced_keys ! i, x ! i) \<in> set (zip tcp_advanced_keys x)"
      using that len by (auto simp: set_zip)
    then show "(tcp_advanced_keys ! i, Some (ser_tcp_advanced_value (fst (x ! i)) (snd (x ! i)))) \<in> set ?es"
      by (force simp: tcp_advanced_stat_fields_def split_def)
  qed
  have "map (\<lambda>(k, f, d). map_option (Pair f) (wire_field (wire_entries ?es) k (de_tcp_advanced_value f) d))
      (zip tcp_advanced_keys ?d) = map Some x"
    by (rule nth_equalityI)
      (simp_all add: len split_def wire_field_entries [OF tcp_advanced_stat_distinct] look f tcp_advanced_value_roundtrip)
  moreover have "all_some (map Some x) = Some x" by (induction x) simp_all
  ultimately show ?thesis
    by (simp add: de_tcp_advanced_stat_def ser_tcp_advanced_stat_def struct_map_jobj tcp_advanced_stat_distinct)
qed

lemma keys_distinct_tcp_advanced_stat [wire]: "keys_distinct (ser_tcp_advanced_stat x)"
  unfolding ser_tcp_advanced_stat_def
  by (rule keys_distinct_jobj [OF tcp_advanced_stat_distinct])
    (auto simp: tcp_advanced_stat_fields_def ser_tcp_advanced_value_def wire)

lemma not_null_tcp_advanced_stat [wire]: "ser_tcp_advanced_stat x \<noteq> JNull"
  by (simp add: ser_tcp_advanced_stat_def wire)

definition udp_stat_fields :: "udp_stat \<Rightarrow> wire_fields" where
  "udp_stat_fields x =
     [(''Listen'', Some (ser_u64 (udp_listen x))),
      (''Dropped'', Some (ser_u64 (udp_dropped x))),
      (''RxQueued'', Some (ser_u64 (udp_rx_queued x))),
      (''TxQueued'', Some (ser_u64 (udp_tx_queued x)))]"

definition ser_udp_stat :: "udp_stat \<Rightarrow> jvalue" where
  "ser_udp_stat x = jobj (udp_stat_fields x)"

definition de_udp_stat :: "jvalue \<Rightarrow> udp_stat option" where
  "de_udp_stat j = do {
     m \<leftarrow> struct_map [''Listen'', ''Dropped'', ''RxQueued'', ''TxQueued''] j;
     listen' \<leftarrow> wire_field m ''Listen'' de_u64 (udp_listen default_udp_stat);
     dropped' \<leftarrow> wire_field m ''Dropped'' de_u64 (udp_dropped default_udp_stat);
     rx_queued' \<leftarrow> wire_field m ''RxQueued'' de_u64 (udp_rx_queued default_udp_stat);
     tx_queued' \<leftarrow> wire_field m ''TxQueued'' de_u64 (udp_tx_queued default_udp_stat);
     Some \<lparr>udp_listen = listen', udp_dropped = dropped', udp_rx_queued = rx_queued',
       udp_tx_queued = tx_queued'\<rparr> }"

lemma udp_stat_distinct: "distinct (map fst (udp_stat_fields x))"
  by (simp add: udp_stat_fields_def)

lemma de_udp_stat_ser [wire]: "de_udp_stat (ser_udp_stat x) = Some x"
  unfolding de_udp_stat_def ser_udp_stat_def
    struct_read [OF udp_stat_distinct] wire_field_entries [OF udp_stat_distinct]
  by (simp add: udp_stat_fields_def default_udp_stat_def wire)

lemma keys_distinct_udp_stat [wire]: "keys_distinct (ser_udp_stat x)"
  unfolding ser_udp_stat_def
  by (rule keys_distinct_jobj [OF udp_stat_distinct])
    (simp add: udp_stat_fields_def wire)

definition network_stats_fields :: "network_stats \<Rightarrow> wire_fields" where
  "network_stats_fields x =
     interface_stats_fields (net_interface x) @
     [(''interfaces'', skip_if (net_interfaces x = []) (ser_list ser_interface_stats (net_interfaces x))),
      (''tcp'', Some (ser_tcp_stat (net_tcp x))),
      (''tcp6'', Some (ser_tcp_stat (net_tcp6 x))),
      (''udp'', Some (ser_udp_stat (net_udp x))),
      (''udp6'', Some (ser_udp_stat (net_udp6 x))),
      (''tcp_advanced'', Some (ser_tcp_advanced_stat (net_tcp_advanced x)))]"

definition ser_network_stats :: "network_stats \<Rightarrow> jvalue" where
  "ser_network_stats x = jobj (network_stats_fields x)"

definition network_stats_keys :: "string list" where
  "network_stats_keys = [''interfaces'', ''tcp'', ''tcp6'', ''udp'', ''udp6'', ''tcp_advanced'']"

definition de_network_stats :: "jvalue \<Rightarrow> network_stats option" where
  "de_network_stats j = do {
     m \<leftarrow> flat_map network_stats_keys j;
     interface' \<leftarrow> part_map interface_stats_keys (rest_of network_stats_keys m) \<bind> de_interface_stats_of;
     interfaces' \<leftarrow> wire_field m ''interfaces'' (de_list de_interface_stats) (net_interfaces default_network_stats);
     tcp' \<leftarrow> wire_field m ''tcp'' de_tcp_stat (net_tcp default_network_stats);
     tcp6' \<leftarrow> wire_field m ''tcp6'' de_tcp_stat (net_tcp6 default_network_stats);
     udp' \<leftarrow> wire_field m ''udp'' de_udp_stat (net_udp default_network_stats);
     udp6' \<leftarrow> wire_field m ''udp6'' de_udp_stat (net_udp6 default_network_stats);
     tcp_advanced' \<leftarrow> wire_field m ''tcp_advanced'' de_tcp_advanced_stat (net_tcp_advanced default_network_stats);
     Some \<lparr>net_interface = interface', net_interfaces = interfaces', net_tcp = tcp', net_tcp6 =
       tcp6', net_udp = udp', net_udp6 = udp6', net_tcp_advanced = tcp_advanced'\<rparr> }"

definition ok_network_stats :: "network_stats \<Rightarrow> bool" where
  "ok_network_stats x \<longleftrightarrow>
     ok_tcp_advanced_stat (net_tcp_advanced x)"

lemma network_stats_distinct: "distinct (map fst (network_stats_fields x))"
  by (simp add: network_stats_fields_def interface_stats_fields_def)

lemma network_stats_rest:
  "filter (\<lambda>e. fst e \<notin> set network_stats_keys) (network_stats_fields x) = interface_stats_fields (net_interface x)"
  by (simp add: network_stats_keys_def network_stats_fields_def interface_stats_fields_def)

lemma de_network_stats_ser [wire]: "ok_network_stats x \<Longrightarrow> de_network_stats (ser_network_stats x) = Some x"
  unfolding de_network_stats_def ser_network_stats_def
    flat_read [OF network_stats_distinct] wire_field_entries [OF network_stats_distinct] rest_of_entries network_stats_rest
    part_map_distinct [OF distinct_wire_entries [OF interface_stats_distinct]]
  by (simp add: network_stats_fields_def ok_network_stats_def default_network_stats_def de_interface_stats_of_entries [unfolded interface_stats_fields_def wire_entries.simps] interface_stats_fields_def wire)

lemma keys_distinct_network_stats [wire]: "ok_network_stats x \<Longrightarrow> keys_distinct (ser_network_stats x)"
  unfolding ser_network_stats_def
  by (rule keys_distinct_jobj [OF network_stats_distinct])
    (simp add: network_stats_fields_def interface_stats_fields_def ok_network_stats_def wire)

definition fs_stats_fields :: "fs_stats \<Rightarrow> wire_fields" where
  "fs_stats_fields x =
     [(''device'', skip_if (fs_device x = []) (ser_str (fs_device x))),
      (''type'', Some (ser_str (fs_fs_type x))),
      (''capacity'', Some (ser_u64 (fs_limit x))),
      (''usage'', Some (ser_u64 (fs_usage x))),
      (''base_usage'', Some (ser_u64 (fs_base_usage x))),
      (''available'', Some (ser_u64 (fs_available x))),
      (''has_inodes'', Some (ser_bool (fs_has_inodes x))),
      (''inodes'', Some (ser_u64 (fs_inodes x))),
      (''inodes_free'', Some (ser_u64 (fs_inodes_free x))),
      (''reads_completed'', Some (ser_u64 (fs_reads_completed x))),
      (''reads_merged'', Some (ser_u64 (fs_reads_merged x))),
      (''sectors_read'', Some (ser_u64 (fs_sectors_read x))),
      (''read_time'', Some (ser_u64 (fs_read_time x))),
      (''writes_completed'', Some (ser_u64 (fs_writes_completed x))),
      (''writes_merged'', Some (ser_u64 (fs_writes_merged x))),
      (''sectors_written'', Some (ser_u64 (fs_sectors_written x))),
      (''write_time'', Some (ser_u64 (fs_write_time x))),
      (''io_in_progress'', Some (ser_u64 (fs_io_in_progress x))),
      (''io_time'', Some (ser_u64 (fs_io_time x))),
      (''weighted_io_time'', Some (ser_u64 (fs_weighted_io_time x)))]"

definition ser_fs_stats :: "fs_stats \<Rightarrow> jvalue" where
  "ser_fs_stats x = jobj (fs_stats_fields x)"

definition de_fs_stats :: "jvalue \<Rightarrow> fs_stats option" where
  "de_fs_stats j = do {
     m \<leftarrow> struct_map [''device'', ''type'', ''capacity'', ''usage'', ''base_usage'', ''available'',
        ''has_inodes'', ''inodes'', ''inodes_free'', ''reads_completed'', ''reads_merged'',
        ''sectors_read'', ''read_time'', ''writes_completed'', ''writes_merged'',
        ''sectors_written'', ''write_time'', ''io_in_progress'', ''io_time'',
        ''weighted_io_time''] j;
     device' \<leftarrow> wire_field m ''device'' de_str (fs_device default_fs_stats);
     fs_type' \<leftarrow> wire_field m ''type'' de_str (fs_fs_type default_fs_stats);
     limit' \<leftarrow> wire_field m ''capacity'' de_u64 (fs_limit default_fs_stats);
     usage' \<leftarrow> wire_field m ''usage'' de_u64 (fs_usage default_fs_stats);
     base_usage' \<leftarrow> wire_field m ''base_usage'' de_u64 (fs_base_usage default_fs_stats);
     available' \<leftarrow> wire_field m ''available'' de_u64 (fs_available default_fs_stats);
     has_inodes' \<leftarrow> wire_field m ''has_inodes'' de_bool (fs_has_inodes default_fs_stats);
     inodes' \<leftarrow> wire_field m ''inodes'' de_u64 (fs_inodes default_fs_stats);
     inodes_free' \<leftarrow> wire_field m ''inodes_free'' de_u64 (fs_inodes_free default_fs_stats);
     reads_completed' \<leftarrow> wire_field m ''reads_completed'' de_u64 (fs_reads_completed default_fs_stats);
     reads_merged' \<leftarrow> wire_field m ''reads_merged'' de_u64 (fs_reads_merged default_fs_stats);
     sectors_read' \<leftarrow> wire_field m ''sectors_read'' de_u64 (fs_sectors_read default_fs_stats);
     read_time' \<leftarrow> wire_field m ''read_time'' de_u64 (fs_read_time default_fs_stats);
     writes_completed' \<leftarrow> wire_field m ''writes_completed'' de_u64 (fs_writes_completed default_fs_stats);
     writes_merged' \<leftarrow> wire_field m ''writes_merged'' de_u64 (fs_writes_merged default_fs_stats);
     sectors_written' \<leftarrow> wire_field m ''sectors_written'' de_u64 (fs_sectors_written default_fs_stats);
     write_time' \<leftarrow> wire_field m ''write_time'' de_u64 (fs_write_time default_fs_stats);
     io_in_progress' \<leftarrow> wire_field m ''io_in_progress'' de_u64 (fs_io_in_progress default_fs_stats);
     io_time' \<leftarrow> wire_field m ''io_time'' de_u64 (fs_io_time default_fs_stats);
     weighted_io_time' \<leftarrow> wire_field m ''weighted_io_time'' de_u64 (fs_weighted_io_time default_fs_stats);
     Some \<lparr>fs_device = device', fs_fs_type = fs_type', fs_limit = limit', fs_usage = usage',
       fs_base_usage = base_usage', fs_available = available', fs_has_inodes = has_inodes',
       fs_inodes = inodes', fs_inodes_free = inodes_free', fs_reads_completed = reads_completed',
       fs_reads_merged = reads_merged', fs_sectors_read = sectors_read', fs_read_time =
       read_time', fs_writes_completed = writes_completed', fs_writes_merged = writes_merged',
       fs_sectors_written = sectors_written', fs_write_time = write_time', fs_io_in_progress =
       io_in_progress', fs_io_time = io_time', fs_weighted_io_time = weighted_io_time'\<rparr> }"

lemma fs_stats_distinct: "distinct (map fst (fs_stats_fields x))"
  by (simp add: fs_stats_fields_def)

lemma de_fs_stats_ser [wire]: "de_fs_stats (ser_fs_stats x) = Some x"
  unfolding de_fs_stats_def ser_fs_stats_def
    struct_read [OF fs_stats_distinct] wire_field_entries [OF fs_stats_distinct]
  by (simp add: fs_stats_fields_def default_fs_stats_def wire)

lemma keys_distinct_fs_stats [wire]: "keys_distinct (ser_fs_stats x)"
  unfolding ser_fs_stats_def
  by (rule keys_distinct_jobj [OF fs_stats_distinct])
    (simp add: fs_stats_fields_def wire)

definition accelerator_stats_fields :: "accelerator_stats \<Rightarrow> wire_fields" where
  "accelerator_stats_fields x =
     [(''make'', Some (ser_str (accel_make x))),
      (''model'', Some (ser_str (accel_model x))),
      (''id'', Some (ser_str (accel_id x))),
      (''memory_total'', Some (ser_u64 (accel_memory_total x))),
      (''memory_used'', Some (ser_u64 (accel_memory_used x))),
      (''duty_cycle'', Some (ser_u64 (accel_duty_cycle x)))]"

definition ser_accelerator_stats :: "accelerator_stats \<Rightarrow> jvalue" where
  "ser_accelerator_stats x = jobj (accelerator_stats_fields x)"

definition de_accelerator_stats :: "jvalue \<Rightarrow> accelerator_stats option" where
  "de_accelerator_stats j = do {
     m \<leftarrow> struct_map [''make'', ''model'', ''id'', ''memory_total'', ''memory_used'', ''duty_cycle''] j;
     make' \<leftarrow> wire_field m ''make'' de_str (accel_make default_accelerator_stats);
     model' \<leftarrow> wire_field m ''model'' de_str (accel_model default_accelerator_stats);
     id' \<leftarrow> wire_field m ''id'' de_str (accel_id default_accelerator_stats);
     memory_total' \<leftarrow> wire_field m ''memory_total'' de_u64 (accel_memory_total default_accelerator_stats);
     memory_used' \<leftarrow> wire_field m ''memory_used'' de_u64 (accel_memory_used default_accelerator_stats);
     duty_cycle' \<leftarrow> wire_field m ''duty_cycle'' de_u64 (accel_duty_cycle default_accelerator_stats);
     Some \<lparr>accel_make = make', accel_model = model', accel_id = id', accel_memory_total =
       memory_total', accel_memory_used = memory_used', accel_duty_cycle = duty_cycle'\<rparr> }"

lemma accelerator_stats_distinct: "distinct (map fst (accelerator_stats_fields x))"
  by (simp add: accelerator_stats_fields_def)

lemma de_accelerator_stats_ser [wire]: "de_accelerator_stats (ser_accelerator_stats x) = Some x"
  unfolding de_accelerator_stats_def ser_accelerator_stats_def
    struct_read [OF accelerator_stats_distinct] wire_field_entries [OF accelerator_stats_distinct]
  by (simp add: accelerator_stats_fields_def default_accelerator_stats_def wire)

lemma keys_distinct_accelerator_stats [wire]: "keys_distinct (ser_accelerator_stats x)"
  unfolding ser_accelerator_stats_def
  by (rule keys_distinct_jobj [OF accelerator_stats_distinct])
    (simp add: accelerator_stats_fields_def wire)

definition perf_value_fields :: "perf_value \<Rightarrow> wire_fields" where
  "perf_value_fields x =
     [(''scaling_ratio'', Some (ser_f64 (perfval_scaling_ratio x))),
      (''value'', Some (ser_u64 (perfval_value x))),
      (''name'', Some (ser_str (perfval_name x)))]"

definition ser_perf_value :: "perf_value \<Rightarrow> jvalue" where
  "ser_perf_value x = jobj (perf_value_fields x)"

definition perf_value_keys :: "string list" where
  "perf_value_keys = [''scaling_ratio'', ''value'', ''name'']"

definition de_perf_value_of :: "(string \<times> jvalue) list \<Rightarrow> perf_value option" where
  "de_perf_value_of m = do {
     scaling_ratio' \<leftarrow> wire_field m ''scaling_ratio'' de_f64 (perfval_scaling_ratio default_perf_value);
     value' \<leftarrow> wire_field m ''value'' de_u64 (perfval_value default_perf_value);
     name' \<leftarrow> wire_field m ''name'' de_str (perfval_name default_perf_value);
     Some \<lparr>perfval_scaling_ratio = scaling_ratio', perfval_value = value', perfval_name = name'\<rparr> }"

definition de_perf_value :: "jvalue \<Rightarrow> perf_value option" where
  "de_perf_value j = struct_map perf_value_keys j \<bind> de_perf_value_of"

definition ok_perf_value :: "perf_value \<Rightarrow> bool" where
  "ok_perf_value x \<longleftrightarrow>
     finite64 (perfval_scaling_ratio x)"

lemma perf_value_distinct: "distinct (map fst (perf_value_fields x))"
  by (simp add: perf_value_fields_def)

lemma de_perf_value_of_entries: "ok_perf_value x \<Longrightarrow> de_perf_value_of (wire_entries (perf_value_fields x)) = Some x"
  unfolding de_perf_value_of_def wire_field_entries [OF perf_value_distinct]
  by (simp add: perf_value_fields_def ok_perf_value_def default_perf_value_def wire)

lemma de_perf_value_ser [wire]: "ok_perf_value x \<Longrightarrow> de_perf_value (ser_perf_value x) = Some x"
  by (simp add: de_perf_value_def ser_perf_value_def struct_map_jobj perf_value_distinct de_perf_value_of_entries)

lemma keys_distinct_perf_value [wire]: "ok_perf_value x \<Longrightarrow> keys_distinct (ser_perf_value x)"
  unfolding ser_perf_value_def
  by (rule keys_distinct_jobj [OF perf_value_distinct])
    (simp add: perf_value_fields_def ok_perf_value_def wire)

definition perf_stat_fields :: "perf_stat \<Rightarrow> wire_fields" where
  "perf_stat_fields x =
     perf_value_fields (perf_perf_value x) @
     [(''cpu'', Some (ser_int (perf_cpu x)))]"

definition ser_perf_stat :: "perf_stat \<Rightarrow> jvalue" where
  "ser_perf_stat x = jobj (perf_stat_fields x)"

definition perf_stat_keys :: "string list" where
  "perf_stat_keys = [''cpu'']"

definition de_perf_stat :: "jvalue \<Rightarrow> perf_stat option" where
  "de_perf_stat j = do {
     m \<leftarrow> flat_map perf_stat_keys j;
     perf_value' \<leftarrow> part_map perf_value_keys (rest_of perf_stat_keys m) \<bind> de_perf_value_of;
     cpu' \<leftarrow> wire_field m ''cpu'' de_i64 (perf_cpu default_perf_stat);
     Some \<lparr>perf_perf_value = perf_value', perf_cpu = cpu'\<rparr> }"

definition ok_perf_stat :: "perf_stat \<Rightarrow> bool" where
  "ok_perf_stat x \<longleftrightarrow>
     ok_perf_value (perf_perf_value x) \<and>
     in_i64 (perf_cpu x)"

lemma perf_stat_distinct: "distinct (map fst (perf_stat_fields x))"
  by (simp add: perf_stat_fields_def perf_value_fields_def)

lemma perf_stat_rest:
  "filter (\<lambda>e. fst e \<notin> set perf_stat_keys) (perf_stat_fields x) = perf_value_fields (perf_perf_value x)"
  by (simp add: perf_stat_keys_def perf_stat_fields_def perf_value_fields_def)

lemma de_perf_stat_ser [wire]: "ok_perf_stat x \<Longrightarrow> de_perf_stat (ser_perf_stat x) = Some x"
  unfolding de_perf_stat_def ser_perf_stat_def
    flat_read [OF perf_stat_distinct] wire_field_entries [OF perf_stat_distinct] rest_of_entries perf_stat_rest
    part_map_distinct [OF distinct_wire_entries [OF perf_value_distinct]]
  by (simp add: perf_stat_fields_def ok_perf_stat_def default_perf_stat_def de_perf_value_of_entries [unfolded perf_value_fields_def wire_entries.simps] perf_value_fields_def wire)

lemma keys_distinct_perf_stat [wire]: "ok_perf_stat x \<Longrightarrow> keys_distinct (ser_perf_stat x)"
  unfolding ser_perf_stat_def
  by (rule keys_distinct_jobj [OF perf_stat_distinct])
    (simp add: perf_stat_fields_def perf_value_fields_def ok_perf_stat_def ok_perf_value_def wire)

definition memory_bandwidth_stats_fields :: "memory_bandwidth_stats \<Rightarrow> wire_fields" where
  "memory_bandwidth_stats_fields x =
     [(''mbm_total_bytes'', skip_if (membw_total_bytes x = 0) (ser_u64 (membw_total_bytes x))),
      (''mbm_local_bytes'', skip_if (membw_local_bytes x = 0) (ser_u64 (membw_local_bytes x)))]"

definition ser_memory_bandwidth_stats :: "memory_bandwidth_stats \<Rightarrow> jvalue" where
  "ser_memory_bandwidth_stats x = jobj (memory_bandwidth_stats_fields x)"

definition de_memory_bandwidth_stats :: "jvalue \<Rightarrow> memory_bandwidth_stats option" where
  "de_memory_bandwidth_stats j = do {
     m \<leftarrow> struct_map [''mbm_total_bytes'', ''mbm_local_bytes''] j;
     total_bytes' \<leftarrow> wire_field m ''mbm_total_bytes'' de_u64 (membw_total_bytes default_memory_bandwidth_stats);
     local_bytes' \<leftarrow> wire_field m ''mbm_local_bytes'' de_u64 (membw_local_bytes default_memory_bandwidth_stats);
     Some \<lparr>membw_total_bytes = total_bytes', membw_local_bytes = local_bytes'\<rparr> }"

lemma memory_bandwidth_stats_distinct: "distinct (map fst (memory_bandwidth_stats_fields x))"
  by (simp add: memory_bandwidth_stats_fields_def)

lemma de_memory_bandwidth_stats_ser [wire]: "de_memory_bandwidth_stats (ser_memory_bandwidth_stats x) = Some x"
  unfolding de_memory_bandwidth_stats_def ser_memory_bandwidth_stats_def
    struct_read [OF memory_bandwidth_stats_distinct] wire_field_entries [OF memory_bandwidth_stats_distinct]
  by (simp add: memory_bandwidth_stats_fields_def default_memory_bandwidth_stats_def wire)

lemma keys_distinct_memory_bandwidth_stats [wire]: "keys_distinct (ser_memory_bandwidth_stats x)"
  unfolding ser_memory_bandwidth_stats_def
  by (rule keys_distinct_jobj [OF memory_bandwidth_stats_distinct])
    (simp add: memory_bandwidth_stats_fields_def wire)

definition cache_stats_fields :: "cache_stats \<Rightarrow> wire_fields" where
  "cache_stats_fields x =
     [(''llc_occupancy'', skip_if (llc_llc_occupancy x = 0) (ser_u64 (llc_llc_occupancy x)))]"

definition ser_cache_stats :: "cache_stats \<Rightarrow> jvalue" where
  "ser_cache_stats x = jobj (cache_stats_fields x)"

definition de_cache_stats :: "jvalue \<Rightarrow> cache_stats option" where
  "de_cache_stats j = do {
     m \<leftarrow> struct_map [''llc_occupancy''] j;
     llc_occupancy' \<leftarrow> wire_field m ''llc_occupancy'' de_u64 (llc_llc_occupancy default_cache_stats);
     Some \<lparr>llc_llc_occupancy = llc_occupancy'\<rparr> }"

lemma cache_stats_distinct: "distinct (map fst (cache_stats_fields x))"
  by (simp add: cache_stats_fields_def)

lemma de_cache_stats_ser [wire]: "de_cache_stats (ser_cache_stats x) = Some x"
  unfolding de_cache_stats_def ser_cache_stats_def
    struct_read [OF cache_stats_distinct] wire_field_entries [OF cache_stats_distinct]
  by (simp add: cache_stats_fields_def default_cache_stats_def wire)

lemma keys_distinct_cache_stats [wire]: "keys_distinct (ser_cache_stats x)"
  unfolding ser_cache_stats_def
  by (rule keys_distinct_jobj [OF cache_stats_distinct])
    (simp add: cache_stats_fields_def wire)

definition resctrl_stats_fields :: "resctrl_stats \<Rightarrow> wire_fields" where
  "resctrl_stats_fields x =
     [(''memory_bandwidth'', skip_if (resctrl_memory_bandwidth x = []) (ser_list ser_memory_bandwidth_stats (resctrl_memory_bandwidth x))),
      (''cache'', skip_if (resctrl_cache x = []) (ser_list ser_cache_stats (resctrl_cache x)))]"

definition ser_resctrl_stats :: "resctrl_stats \<Rightarrow> jvalue" where
  "ser_resctrl_stats x = jobj (resctrl_stats_fields x)"

definition de_resctrl_stats :: "jvalue \<Rightarrow> resctrl_stats option" where
  "de_resctrl_stats j = do {
     m \<leftarrow> struct_map [''memory_bandwidth'', ''cache''] j;
     memory_bandwidth' \<leftarrow> wire_field m ''memory_bandwidth'' (de_list de_memory_bandwidth_stats) (resctrl_memory_bandwidth default_resctrl_stats);
     cache' \<leftarrow> wire_field m ''cache'' (de_list de_cache_stats) (resctrl_cache default_resctrl_stats);
     Some \<lparr>resctrl_memory_bandwidth = memory_bandwidth', resctrl_cache = cache'\<rparr> }"

lemma resctrl_stats_distinct: "distinct (map fst (resctrl_stats_fields x))"
  by (simp add: resctrl_stats_fields_def)

lemma de_resctrl_stats_ser [wire]: "de_resctrl_stats (ser_resctrl_stats x) = Some x"
  unfolding de_resctrl_stats_def ser_resctrl_stats_def
    struct_read [OF resctrl_stats_distinct] wire_field_entries [OF resctrl_stats_distinct]
  by (simp add: resctrl_stats_fields_def default_resctrl_stats_def wire)

lemma keys_distinct_resctrl_stats [wire]: "keys_distinct (ser_resctrl_stats x)"
  unfolding ser_resctrl_stats_def
  by (rule keys_distinct_jobj [OF resctrl_stats_distinct])
    (simp add: resctrl_stats_fields_def wire)

definition perf_uncore_stat_fields :: "perf_uncore_stat \<Rightarrow> wire_fields" where
  "perf_uncore_stat_fields x =
     perf_value_fields (perfunc_perf_value x) @
     [(''socket'', Some (ser_int (perfunc_socket x))),
      (''pmu'', Some (ser_str (perfunc_pmu x)))]"

definition ser_perf_uncore_stat :: "perf_uncore_stat \<Rightarrow> jvalue" where
  "ser_perf_uncore_stat x = jobj (perf_uncore_stat_fields x)"

definition perf_uncore_stat_keys :: "string list" where
  "perf_uncore_stat_keys = [''socket'', ''pmu'']"

definition de_perf_uncore_stat :: "jvalue \<Rightarrow> perf_uncore_stat option" where
  "de_perf_uncore_stat j = do {
     m \<leftarrow> flat_map perf_uncore_stat_keys j;
     perf_value' \<leftarrow> part_map perf_value_keys (rest_of perf_uncore_stat_keys m) \<bind> de_perf_value_of;
     socket' \<leftarrow> wire_field m ''socket'' de_i64 (perfunc_socket default_perf_uncore_stat);
     pmu' \<leftarrow> wire_field m ''pmu'' de_str (perfunc_pmu default_perf_uncore_stat);
     Some \<lparr>perfunc_perf_value = perf_value', perfunc_socket = socket', perfunc_pmu = pmu'\<rparr> }"

definition ok_perf_uncore_stat :: "perf_uncore_stat \<Rightarrow> bool" where
  "ok_perf_uncore_stat x \<longleftrightarrow>
     ok_perf_value (perfunc_perf_value x) \<and>
     in_i64 (perfunc_socket x)"

lemma perf_uncore_stat_distinct: "distinct (map fst (perf_uncore_stat_fields x))"
  by (simp add: perf_uncore_stat_fields_def perf_value_fields_def)

lemma perf_uncore_stat_rest:
  "filter (\<lambda>e. fst e \<notin> set perf_uncore_stat_keys) (perf_uncore_stat_fields x) = perf_value_fields (perfunc_perf_value x)"
  by (simp add: perf_uncore_stat_keys_def perf_uncore_stat_fields_def perf_value_fields_def)

lemma de_perf_uncore_stat_ser [wire]: "ok_perf_uncore_stat x \<Longrightarrow> de_perf_uncore_stat (ser_perf_uncore_stat x) = Some x"
  unfolding de_perf_uncore_stat_def ser_perf_uncore_stat_def
    flat_read [OF perf_uncore_stat_distinct] wire_field_entries [OF perf_uncore_stat_distinct] rest_of_entries perf_uncore_stat_rest
    part_map_distinct [OF distinct_wire_entries [OF perf_value_distinct]]
  by (simp add: perf_uncore_stat_fields_def ok_perf_uncore_stat_def default_perf_uncore_stat_def de_perf_value_of_entries [unfolded perf_value_fields_def wire_entries.simps] perf_value_fields_def wire)

lemma keys_distinct_perf_uncore_stat [wire]: "ok_perf_uncore_stat x \<Longrightarrow> keys_distinct (ser_perf_uncore_stat x)"
  unfolding ser_perf_uncore_stat_def
  by (rule keys_distinct_jobj [OF perf_uncore_stat_distinct])
    (simp add: perf_uncore_stat_fields_def perf_value_fields_def ok_perf_uncore_stat_def ok_perf_value_def wire)

definition ulimit_spec_fields :: "ulimit_spec \<Rightarrow> wire_fields" where
  "ulimit_spec_fields x =
     [(''name'', Some (ser_str (ulimit_name x))),
      (''soft_limit'', Some (ser_int (ulimit_soft_limit x))),
      (''hard_limit'', Some (ser_int (ulimit_hard_limit x)))]"

definition ser_ulimit_spec :: "ulimit_spec \<Rightarrow> jvalue" where
  "ser_ulimit_spec x = jobj (ulimit_spec_fields x)"

definition de_ulimit_spec :: "jvalue \<Rightarrow> ulimit_spec option" where
  "de_ulimit_spec j = do {
     m \<leftarrow> struct_map [''name'', ''soft_limit'', ''hard_limit''] j;
     name' \<leftarrow> wire_field m ''name'' de_str (ulimit_name default_ulimit_spec);
     soft_limit' \<leftarrow> wire_field m ''soft_limit'' de_i64 (ulimit_soft_limit default_ulimit_spec);
     hard_limit' \<leftarrow> wire_field m ''hard_limit'' de_i64 (ulimit_hard_limit default_ulimit_spec);
     Some \<lparr>ulimit_name = name', ulimit_soft_limit = soft_limit', ulimit_hard_limit =
       hard_limit'\<rparr> }"

definition ok_ulimit_spec :: "ulimit_spec \<Rightarrow> bool" where
  "ok_ulimit_spec x \<longleftrightarrow>
     in_i64 (ulimit_soft_limit x) \<and>
     in_i64 (ulimit_hard_limit x)"

lemma ulimit_spec_distinct: "distinct (map fst (ulimit_spec_fields x))"
  by (simp add: ulimit_spec_fields_def)

lemma de_ulimit_spec_ser [wire]: "ok_ulimit_spec x \<Longrightarrow> de_ulimit_spec (ser_ulimit_spec x) = Some x"
  unfolding de_ulimit_spec_def ser_ulimit_spec_def
    struct_read [OF ulimit_spec_distinct] wire_field_entries [OF ulimit_spec_distinct]
  by (simp add: ulimit_spec_fields_def ok_ulimit_spec_def default_ulimit_spec_def wire)

lemma keys_distinct_ulimit_spec [wire]: "ok_ulimit_spec x \<Longrightarrow> keys_distinct (ser_ulimit_spec x)"
  unfolding ser_ulimit_spec_def
  by (rule keys_distinct_jobj [OF ulimit_spec_distinct])
    (simp add: ulimit_spec_fields_def ok_ulimit_spec_def wire)

definition process_stats_fields :: "process_stats \<Rightarrow> wire_fields" where
  "process_stats_fields x =
     [(''process_count'', Some (ser_u64 (proc_process_count x))),
      (''fd_count'', Some (ser_u64 (proc_fd_count x))),
      (''socket_count'', Some (ser_u64 (proc_socket_count x))),
      (''threads_current'', skip_if (proc_threads_current x = 0) (ser_u64 (proc_threads_current x))),
      (''threads_max'', skip_if (proc_threads_max x = 0) (ser_u64 (proc_threads_max x))),
      (''ulimits'', skip_if (proc_ulimits x = []) (ser_list ser_ulimit_spec (proc_ulimits x)))]"

definition ser_process_stats :: "process_stats \<Rightarrow> jvalue" where
  "ser_process_stats x = jobj (process_stats_fields x)"

definition de_process_stats :: "jvalue \<Rightarrow> process_stats option" where
  "de_process_stats j = do {
     m \<leftarrow> struct_map [''process_count'', ''fd_count'', ''socket_count'', ''threads_current'', ''threads_max'',
        ''ulimits''] j;
     process_count' \<leftarrow> wire_field m ''process_count'' de_u64 (proc_process_count default_process_stats);
     fd_count' \<leftarrow> wire_field m ''fd_count'' de_u64 (proc_fd_count default_process_stats);
     socket_count' \<leftarrow> wire_field m ''socket_count'' de_u64 (proc_socket_count default_process_stats);
     threads_current' \<leftarrow> wire_field m ''threads_current'' de_u64 (proc_threads_current default_process_stats);
     threads_max' \<leftarrow> wire_field m ''threads_max'' de_u64 (proc_threads_max default_process_stats);
     ulimits' \<leftarrow> wire_field m ''ulimits'' (de_list de_ulimit_spec) (proc_ulimits default_process_stats);
     Some \<lparr>proc_process_count = process_count', proc_fd_count = fd_count', proc_socket_count =
       socket_count', proc_threads_current = threads_current', proc_threads_max = threads_max',
       proc_ulimits = ulimits'\<rparr> }"

definition ok_process_stats :: "process_stats \<Rightarrow> bool" where
  "ok_process_stats x \<longleftrightarrow>
     (\<forall>y \<in> set (proc_ulimits x). ok_ulimit_spec y)"

lemma process_stats_distinct: "distinct (map fst (process_stats_fields x))"
  by (simp add: process_stats_fields_def)

lemma de_process_stats_ser [wire]: "ok_process_stats x \<Longrightarrow> de_process_stats (ser_process_stats x) = Some x"
  unfolding de_process_stats_def ser_process_stats_def
    struct_read [OF process_stats_distinct] wire_field_entries [OF process_stats_distinct]
  by (simp add: process_stats_fields_def ok_process_stats_def default_process_stats_def wire)

lemma keys_distinct_process_stats [wire]: "ok_process_stats x \<Longrightarrow> keys_distinct (ser_process_stats x)"
  unfolding ser_process_stats_def
  by (rule keys_distinct_jobj [OF process_stats_distinct])
    (simp add: process_stats_fields_def ok_process_stats_def wire)

lemma not_null_process_stats [wire]: "ser_process_stats x \<noteq> JNull"
  by (simp add: ser_process_stats_def wire)

definition cpu_inst_usage_fields :: "cpu_inst_usage \<Rightarrow> wire_fields" where
  "cpu_inst_usage_fields x =
     [(''total'', Some (ser_u64 (instu_total x))),
      (''per_cpu_usage'', skip_if (instu_per_cpu x = []) (ser_list ser_u64 (instu_per_cpu x))),
      (''user'', Some (ser_u64 (instu_user x))),
      (''system'', Some (ser_u64 (instu_system x)))]"

definition ser_cpu_inst_usage :: "cpu_inst_usage \<Rightarrow> jvalue" where
  "ser_cpu_inst_usage x = jobj (cpu_inst_usage_fields x)"

definition de_cpu_inst_usage :: "jvalue \<Rightarrow> cpu_inst_usage option" where
  "de_cpu_inst_usage j = do {
     m \<leftarrow> struct_map [''total'', ''per_cpu_usage'', ''user'', ''system''] j;
     total' \<leftarrow> wire_field m ''total'' de_u64 (instu_total default_cpu_inst_usage);
     per_cpu' \<leftarrow> wire_field m ''per_cpu_usage'' (de_list de_u64) (instu_per_cpu default_cpu_inst_usage);
     user' \<leftarrow> wire_field m ''user'' de_u64 (instu_user default_cpu_inst_usage);
     system' \<leftarrow> wire_field m ''system'' de_u64 (instu_system default_cpu_inst_usage);
     Some \<lparr>instu_total = total', instu_per_cpu = per_cpu', instu_user = user', instu_system =
       system'\<rparr> }"

lemma cpu_inst_usage_distinct: "distinct (map fst (cpu_inst_usage_fields x))"
  by (simp add: cpu_inst_usage_fields_def)

lemma de_cpu_inst_usage_ser [wire]: "de_cpu_inst_usage (ser_cpu_inst_usage x) = Some x"
  unfolding de_cpu_inst_usage_def ser_cpu_inst_usage_def
    struct_read [OF cpu_inst_usage_distinct] wire_field_entries [OF cpu_inst_usage_distinct]
  by (simp add: cpu_inst_usage_fields_def default_cpu_inst_usage_def wire)

lemma keys_distinct_cpu_inst_usage [wire]: "keys_distinct (ser_cpu_inst_usage x)"
  unfolding ser_cpu_inst_usage_def
  by (rule keys_distinct_jobj [OF cpu_inst_usage_distinct])
    (simp add: cpu_inst_usage_fields_def wire)

definition cpu_inst_stats_fields :: "cpu_inst_stats \<Rightarrow> wire_fields" where
  "cpu_inst_stats_fields x =
     [(''usage'', Some (ser_cpu_inst_usage (inst_usage x)))]"

definition ser_cpu_inst_stats :: "cpu_inst_stats \<Rightarrow> jvalue" where
  "ser_cpu_inst_stats x = jobj (cpu_inst_stats_fields x)"

definition de_cpu_inst_stats :: "jvalue \<Rightarrow> cpu_inst_stats option" where
  "de_cpu_inst_stats j = do {
     m \<leftarrow> struct_map [''usage''] j;
     usage' \<leftarrow> wire_field m ''usage'' de_cpu_inst_usage (inst_usage default_cpu_inst_stats);
     Some \<lparr>inst_usage = usage'\<rparr> }"

lemma cpu_inst_stats_distinct: "distinct (map fst (cpu_inst_stats_fields x))"
  by (simp add: cpu_inst_stats_fields_def)

lemma de_cpu_inst_stats_ser [wire]: "de_cpu_inst_stats (ser_cpu_inst_stats x) = Some x"
  unfolding de_cpu_inst_stats_def ser_cpu_inst_stats_def
    struct_read [OF cpu_inst_stats_distinct] wire_field_entries [OF cpu_inst_stats_distinct]
  by (simp add: cpu_inst_stats_fields_def default_cpu_inst_stats_def wire)

lemma keys_distinct_cpu_inst_stats [wire]: "keys_distinct (ser_cpu_inst_stats x)"
  unfolding ser_cpu_inst_stats_def
  by (rule keys_distinct_jobj [OF cpu_inst_stats_distinct])
    (simp add: cpu_inst_stats_fields_def wire)

lemma not_null_cpu_inst_stats [wire]: "ser_cpu_inst_stats x \<noteq> JNull"
  by (simp add: ser_cpu_inst_stats_def wire)

definition filesystem_info_fields :: "filesystem_info \<Rightarrow> wire_fields" where
  "filesystem_info_fields x =
     [(''device'', Some (ser_str (fsinfo_device x))),
      (''capacity'', Some (ser_u64 (fsinfo_capacity x))),
      (''type'', Some (ser_str (fsinfo_fs_type x))),
      (''inodes'', Some (ser_u64 (fsinfo_inodes x))),
      (''has_inodes'', Some (ser_bool (fsinfo_has_inodes x)))]"

definition ser_filesystem_info :: "filesystem_info \<Rightarrow> jvalue" where
  "ser_filesystem_info x = jobj (filesystem_info_fields x)"

definition de_filesystem_info :: "jvalue \<Rightarrow> filesystem_info option" where
  "de_filesystem_info j = do {
     m \<leftarrow> struct_map [''device'', ''capacity'', ''type'', ''inodes'', ''has_inodes''] j;
     device' \<leftarrow> wire_field m ''device'' de_str (fsinfo_device default_filesystem_info);
     capacity' \<leftarrow> wire_field m ''capacity'' de_u64 (fsinfo_capacity default_filesystem_info);
     fs_type' \<leftarrow> wire_field m ''type'' de_str (fsinfo_fs_type default_filesystem_info);
     inodes' \<leftarrow> wire_field m ''inodes'' de_u64 (fsinfo_inodes default_filesystem_info);
     has_inodes' \<leftarrow> wire_field m ''has_inodes'' de_bool (fsinfo_has_inodes default_filesystem_info);
     Some \<lparr>fsinfo_device = device', fsinfo_device_major = fsinfo_device_major
       default_filesystem_info, fsinfo_device_minor = fsinfo_device_minor default_filesystem_info,
       fsinfo_capacity = capacity', fsinfo_fs_type = fs_type', fsinfo_inodes = inodes',
       fsinfo_has_inodes = has_inodes'\<rparr> }"

definition ok_filesystem_info :: "filesystem_info \<Rightarrow> bool" where
  "ok_filesystem_info x \<longleftrightarrow>
     fsinfo_device_major x = 0 \<and>
     fsinfo_device_minor x = 0"

lemma filesystem_info_distinct: "distinct (map fst (filesystem_info_fields x))"
  by (simp add: filesystem_info_fields_def)

lemma de_filesystem_info_ser [wire]: "ok_filesystem_info x \<Longrightarrow> de_filesystem_info (ser_filesystem_info x) = Some x"
  unfolding de_filesystem_info_def ser_filesystem_info_def
    struct_read [OF filesystem_info_distinct] wire_field_entries [OF filesystem_info_distinct]
  by (simp add: filesystem_info_fields_def ok_filesystem_info_def default_filesystem_info_def wire)

lemma keys_distinct_filesystem_info [wire]: "ok_filesystem_info x \<Longrightarrow> keys_distinct (ser_filesystem_info x)"
  unfolding ser_filesystem_info_def
  by (rule keys_distinct_jobj [OF filesystem_info_distinct])
    (simp add: filesystem_info_fields_def ok_filesystem_info_def wire)

definition cpu_cache_fields :: "cpu_cache \<Rightarrow> wire_fields" where
  "cpu_cache_fields x =
     [(''id'', Some (ser_int (cache_id x))),
      (''size'', Some (ser_u64 (cache_size x))),
      (''type'', Some (ser_str (cache_cache_type x))),
      (''level'', Some (ser_int (cache_level x)))]"

definition ser_cpu_cache :: "cpu_cache \<Rightarrow> jvalue" where
  "ser_cpu_cache x = jobj (cpu_cache_fields x)"

definition de_cpu_cache :: "jvalue \<Rightarrow> cpu_cache option" where
  "de_cpu_cache j = do {
     m \<leftarrow> struct_map [''id'', ''size'', ''type'', ''level''] j;
     id' \<leftarrow> wire_field m ''id'' de_i64 (cache_id default_cpu_cache);
     size' \<leftarrow> wire_field m ''size'' de_u64 (cache_size default_cpu_cache);
     cache_type' \<leftarrow> wire_field m ''type'' de_str (cache_cache_type default_cpu_cache);
     level' \<leftarrow> wire_field m ''level'' de_i64 (cache_level default_cpu_cache);
     Some \<lparr>cache_id = id', cache_size = size', cache_cache_type = cache_type', cache_level =
       level'\<rparr> }"

definition ok_cpu_cache :: "cpu_cache \<Rightarrow> bool" where
  "ok_cpu_cache x \<longleftrightarrow>
     in_i64 (cache_id x) \<and>
     in_i64 (cache_level x)"

lemma cpu_cache_distinct: "distinct (map fst (cpu_cache_fields x))"
  by (simp add: cpu_cache_fields_def)

lemma de_cpu_cache_ser [wire]: "ok_cpu_cache x \<Longrightarrow> de_cpu_cache (ser_cpu_cache x) = Some x"
  unfolding de_cpu_cache_def ser_cpu_cache_def
    struct_read [OF cpu_cache_distinct] wire_field_entries [OF cpu_cache_distinct]
  by (simp add: cpu_cache_fields_def ok_cpu_cache_def default_cpu_cache_def wire)

lemma keys_distinct_cpu_cache [wire]: "ok_cpu_cache x \<Longrightarrow> keys_distinct (ser_cpu_cache x)"
  unfolding ser_cpu_cache_def
  by (rule keys_distinct_jobj [OF cpu_cache_distinct])
    (simp add: cpu_cache_fields_def ok_cpu_cache_def wire)

definition cpu_core_fields :: "cpu_core \<Rightarrow> wire_fields" where
  "cpu_core_fields x =
     [(''core_id'', Some (ser_int (core_id x))),
      (''thread_ids'', Some (ser_list ser_int (core_threads x))),
      (''caches'', Some (ser_list ser_cpu_cache (core_caches x))),
      (''uncore_caches'', Some (ser_opt (ser_list ser_cpu_cache) (core_uncore_caches x))),
      (''socket_id'', Some (ser_int (core_socket_id x)))]"

definition ser_cpu_core :: "cpu_core \<Rightarrow> jvalue" where
  "ser_cpu_core x = jobj (cpu_core_fields x)"

definition de_cpu_core :: "jvalue \<Rightarrow> cpu_core option" where
  "de_cpu_core j = do {
     m \<leftarrow> struct_map [''core_id'', ''thread_ids'', ''caches'', ''uncore_caches'', ''socket_id''] j;
     id' \<leftarrow> wire_field m ''core_id'' de_i64 (core_id default_cpu_core);
     threads' \<leftarrow> wire_field m ''thread_ids'' (de_list de_i64) (core_threads default_cpu_core);
     caches' \<leftarrow> wire_field m ''caches'' (de_list de_cpu_cache) (core_caches default_cpu_core);
     uncore_caches' \<leftarrow> wire_field m ''uncore_caches'' (de_opt (de_list de_cpu_cache)) (core_uncore_caches default_cpu_core);
     socket_id' \<leftarrow> wire_field m ''socket_id'' de_i64 (core_socket_id default_cpu_core);
     Some \<lparr>core_id = id', core_threads = threads', core_caches = caches', core_uncore_caches =
       uncore_caches', core_socket_id = socket_id'\<rparr> }"

definition ok_cpu_core :: "cpu_core \<Rightarrow> bool" where
  "ok_cpu_core x \<longleftrightarrow>
     in_i64 (core_id x) \<and>
     (\<forall>y \<in> set (core_threads x). in_i64 y) \<and>
     (\<forall>y \<in> set (core_caches x). ok_cpu_cache y) \<and>
     (\<forall>y \<in> set_option (core_uncore_caches x). (\<forall>z \<in> set y. ok_cpu_cache z)) \<and>
     in_i64 (core_socket_id x)"

lemma cpu_core_distinct: "distinct (map fst (cpu_core_fields x))"
  by (simp add: cpu_core_fields_def)

lemma de_cpu_core_ser [wire]: "ok_cpu_core x \<Longrightarrow> de_cpu_core (ser_cpu_core x) = Some x"
  unfolding de_cpu_core_def ser_cpu_core_def
    struct_read [OF cpu_core_distinct] wire_field_entries [OF cpu_core_distinct]
  by (simp add: cpu_core_fields_def ok_cpu_core_def default_cpu_core_def wire)

lemma keys_distinct_cpu_core [wire]: "ok_cpu_core x \<Longrightarrow> keys_distinct (ser_cpu_core x)"
  unfolding ser_cpu_core_def
  by (rule keys_distinct_jobj [OF cpu_core_distinct])
    (simp add: cpu_core_fields_def ok_cpu_core_def wire)

definition huge_pages_info_fields :: "huge_pages_info \<Rightarrow> wire_fields" where
  "huge_pages_info_fields x =
     [(''page_size'', Some (ser_u64 (hp_page_size x))),
      (''num_pages'', Some (ser_u64 (hp_num_pages x)))]"

definition ser_huge_pages_info :: "huge_pages_info \<Rightarrow> jvalue" where
  "ser_huge_pages_info x = jobj (huge_pages_info_fields x)"

definition de_huge_pages_info :: "jvalue \<Rightarrow> huge_pages_info option" where
  "de_huge_pages_info j = do {
     m \<leftarrow> struct_map [''page_size'', ''num_pages''] j;
     page_size' \<leftarrow> wire_field m ''page_size'' de_u64 (hp_page_size default_huge_pages_info);
     num_pages' \<leftarrow> wire_field m ''num_pages'' de_u64 (hp_num_pages default_huge_pages_info);
     Some \<lparr>hp_page_size = page_size', hp_num_pages = num_pages'\<rparr> }"

lemma huge_pages_info_distinct: "distinct (map fst (huge_pages_info_fields x))"
  by (simp add: huge_pages_info_fields_def)

lemma de_huge_pages_info_ser [wire]: "de_huge_pages_info (ser_huge_pages_info x) = Some x"
  unfolding de_huge_pages_info_def ser_huge_pages_info_def
    struct_read [OF huge_pages_info_distinct] wire_field_entries [OF huge_pages_info_distinct]
  by (simp add: huge_pages_info_fields_def default_huge_pages_info_def wire)

lemma keys_distinct_huge_pages_info [wire]: "keys_distinct (ser_huge_pages_info x)"
  unfolding ser_huge_pages_info_def
  by (rule keys_distinct_jobj [OF huge_pages_info_distinct])
    (simp add: huge_pages_info_fields_def wire)

definition numa_node_fields :: "numa_node \<Rightarrow> wire_fields" where
  "numa_node_fields x =
     [(''node_id'', Some (ser_int (node_id x))),
      (''memory'', Some (ser_u64 (node_memory x))),
      (''hugepages'', Some (ser_list ser_huge_pages_info (node_hugepages x))),
      (''cores'', Some (ser_list ser_cpu_core (node_cores x))),
      (''caches'', Some (ser_list ser_cpu_cache (node_caches x))),
      (''distances'', Some (ser_list ser_u64 (node_distances x)))]"

definition ser_numa_node :: "numa_node \<Rightarrow> jvalue" where
  "ser_numa_node x = jobj (numa_node_fields x)"

definition de_numa_node :: "jvalue \<Rightarrow> numa_node option" where
  "de_numa_node j = do {
     m \<leftarrow> struct_map [''node_id'', ''memory'', ''hugepages'', ''cores'', ''caches'', ''distances''] j;
     id' \<leftarrow> wire_field m ''node_id'' de_i64 (node_id default_numa_node);
     memory' \<leftarrow> wire_field m ''memory'' de_u64 (node_memory default_numa_node);
     hugepages' \<leftarrow> wire_field m ''hugepages'' (de_list de_huge_pages_info) (node_hugepages default_numa_node);
     cores' \<leftarrow> wire_field m ''cores'' (de_list de_cpu_core) (node_cores default_numa_node);
     caches' \<leftarrow> wire_field m ''caches'' (de_list de_cpu_cache) (node_caches default_numa_node);
     distances' \<leftarrow> wire_field m ''distances'' (de_list de_u64) (node_distances default_numa_node);
     Some \<lparr>node_id = id', node_memory = memory', node_hugepages = hugepages', node_cores =
       cores', node_caches = caches', node_distances = distances'\<rparr> }"

definition ok_numa_node :: "numa_node \<Rightarrow> bool" where
  "ok_numa_node x \<longleftrightarrow>
     in_i64 (node_id x) \<and>
     (\<forall>y \<in> set (node_cores x). ok_cpu_core y) \<and>
     (\<forall>y \<in> set (node_caches x). ok_cpu_cache y)"

lemma numa_node_distinct: "distinct (map fst (numa_node_fields x))"
  by (simp add: numa_node_fields_def)

lemma de_numa_node_ser [wire]: "ok_numa_node x \<Longrightarrow> de_numa_node (ser_numa_node x) = Some x"
  unfolding de_numa_node_def ser_numa_node_def
    struct_read [OF numa_node_distinct] wire_field_entries [OF numa_node_distinct]
  by (simp add: numa_node_fields_def ok_numa_node_def default_numa_node_def wire)

lemma keys_distinct_numa_node [wire]: "ok_numa_node x \<Longrightarrow> keys_distinct (ser_numa_node x)"
  unfolding ser_numa_node_def
  by (rule keys_distinct_jobj [OF numa_node_distinct])
    (simp add: numa_node_fields_def ok_numa_node_def wire)

definition disk_info_fields :: "disk_info \<Rightarrow> wire_fields" where
  "disk_info_fields x =
     [(''name'', Some (ser_str (dinfo_name x))),
      (''major'', Some (ser_u64 (dinfo_major x))),
      (''minor'', Some (ser_u64 (dinfo_minor x))),
      (''size'', Some (ser_u64 (dinfo_size x))),
      (''scheduler'', Some (ser_str (dinfo_scheduler x)))]"

definition ser_disk_info :: "disk_info \<Rightarrow> jvalue" where
  "ser_disk_info x = jobj (disk_info_fields x)"

definition de_disk_info :: "jvalue \<Rightarrow> disk_info option" where
  "de_disk_info j = do {
     m \<leftarrow> struct_map [''name'', ''major'', ''minor'', ''size'', ''scheduler''] j;
     name' \<leftarrow> wire_field m ''name'' de_str (dinfo_name default_disk_info);
     major' \<leftarrow> wire_field m ''major'' de_u64 (dinfo_major default_disk_info);
     minor' \<leftarrow> wire_field m ''minor'' de_u64 (dinfo_minor default_disk_info);
     size' \<leftarrow> wire_field m ''size'' de_u64 (dinfo_size default_disk_info);
     scheduler' \<leftarrow> wire_field m ''scheduler'' de_str (dinfo_scheduler default_disk_info);
     Some \<lparr>dinfo_name = name', dinfo_major = major', dinfo_minor = minor', dinfo_size = size',
       dinfo_scheduler = scheduler'\<rparr> }"

lemma disk_info_distinct: "distinct (map fst (disk_info_fields x))"
  by (simp add: disk_info_fields_def)

lemma de_disk_info_ser [wire]: "de_disk_info (ser_disk_info x) = Some x"
  unfolding de_disk_info_def ser_disk_info_def
    struct_read [OF disk_info_distinct] wire_field_entries [OF disk_info_distinct]
  by (simp add: disk_info_fields_def default_disk_info_def wire)

lemma keys_distinct_disk_info [wire]: "keys_distinct (ser_disk_info x)"
  unfolding ser_disk_info_def
  by (rule keys_distinct_jobj [OF disk_info_distinct])
    (simp add: disk_info_fields_def wire)

definition net_info_fields :: "net_info \<Rightarrow> wire_fields" where
  "net_info_fields x =
     [(''name'', Some (ser_str (netinfo_name x))),
      (''mac_address'', Some (ser_str (netinfo_mac_address x))),
      (''speed'', Some (ser_int (netinfo_speed x))),
      (''mtu'', Some (ser_int (netinfo_mtu x)))]"

definition ser_net_info :: "net_info \<Rightarrow> jvalue" where
  "ser_net_info x = jobj (net_info_fields x)"

definition de_net_info :: "jvalue \<Rightarrow> net_info option" where
  "de_net_info j = do {
     m \<leftarrow> struct_map [''name'', ''mac_address'', ''speed'', ''mtu''] j;
     name' \<leftarrow> wire_field m ''name'' de_str (netinfo_name default_net_info);
     mac_address' \<leftarrow> wire_field m ''mac_address'' de_str (netinfo_mac_address default_net_info);
     speed' \<leftarrow> wire_field m ''speed'' de_i64 (netinfo_speed default_net_info);
     mtu' \<leftarrow> wire_field m ''mtu'' de_i64 (netinfo_mtu default_net_info);
     Some \<lparr>netinfo_name = name', netinfo_mac_address = mac_address', netinfo_speed = speed',
       netinfo_mtu = mtu'\<rparr> }"

definition ok_net_info :: "net_info \<Rightarrow> bool" where
  "ok_net_info x \<longleftrightarrow>
     in_i64 (netinfo_speed x) \<and>
     in_i64 (netinfo_mtu x)"

lemma net_info_distinct: "distinct (map fst (net_info_fields x))"
  by (simp add: net_info_fields_def)

lemma de_net_info_ser [wire]: "ok_net_info x \<Longrightarrow> de_net_info (ser_net_info x) = Some x"
  unfolding de_net_info_def ser_net_info_def
    struct_read [OF net_info_distinct] wire_field_entries [OF net_info_distinct]
  by (simp add: net_info_fields_def ok_net_info_def default_net_info_def wire)

lemma keys_distinct_net_info [wire]: "ok_net_info x \<Longrightarrow> keys_distinct (ser_net_info x)"
  unfolding ser_net_info_def
  by (rule keys_distinct_jobj [OF net_info_distinct])
    (simp add: net_info_fields_def ok_net_info_def wire)

definition dimm_info_fields :: "dimm_info \<Rightarrow> wire_fields" where
  "dimm_info_fields x =
     [(''capacity'', Some (ser_u64 (meminfo_capacity x))),
      (''dimm_count'', Some (ser_u64 (meminfo_dimm_count x)))]"

definition ser_dimm_info :: "dimm_info \<Rightarrow> jvalue" where
  "ser_dimm_info x = jobj (dimm_info_fields x)"

definition de_dimm_info :: "jvalue \<Rightarrow> dimm_info option" where
  "de_dimm_info j = do {
     m \<leftarrow> struct_map [''capacity'', ''dimm_count''] j;
     capacity' \<leftarrow> wire_field m ''capacity'' de_u64 (meminfo_capacity default_dimm_info);
     dimm_count' \<leftarrow> wire_field m ''dimm_count'' de_u64 (meminfo_dimm_count default_dimm_info);
     Some \<lparr>meminfo_capacity = capacity', meminfo_dimm_count = dimm_count'\<rparr> }"

lemma dimm_info_distinct: "distinct (map fst (dimm_info_fields x))"
  by (simp add: dimm_info_fields_def)

lemma de_dimm_info_ser [wire]: "de_dimm_info (ser_dimm_info x) = Some x"
  unfolding de_dimm_info_def ser_dimm_info_def
    struct_read [OF dimm_info_distinct] wire_field_entries [OF dimm_info_distinct]
  by (simp add: dimm_info_fields_def default_dimm_info_def wire)

lemma keys_distinct_dimm_info [wire]: "keys_distinct (ser_dimm_info x)"
  unfolding ser_dimm_info_def
  by (rule keys_distinct_jobj [OF dimm_info_distinct])
    (simp add: dimm_info_fields_def wire)

definition nvm_info_fields :: "nvm_info \<Rightarrow> wire_fields" where
  "nvm_info_fields x =
     [(''memory_mode_capacity'', Some (ser_u64 (nvm_memory_mode_capacity x))),
      (''app direct_mode_capacity'', Some (ser_u64 (nvm_app_direct_mode_capacity x))),
      (''avg_power_budget'', Some (ser_u64 (nvm_avg_power_budget x)))]"

definition ser_nvm_info :: "nvm_info \<Rightarrow> jvalue" where
  "ser_nvm_info x = jobj (nvm_info_fields x)"

definition de_nvm_info :: "jvalue \<Rightarrow> nvm_info option" where
  "de_nvm_info j = do {
     m \<leftarrow> struct_map [''memory_mode_capacity'', ''app direct_mode_capacity'', ''avg_power_budget''] j;
     memory_mode_capacity' \<leftarrow> wire_field m ''memory_mode_capacity'' de_u64 (nvm_memory_mode_capacity default_nvm_info);
     app_direct_mode_capacity' \<leftarrow> wire_field m ''app direct_mode_capacity'' de_u64 (nvm_app_direct_mode_capacity default_nvm_info);
     avg_power_budget' \<leftarrow> wire_field m ''avg_power_budget'' de_u64 (nvm_avg_power_budget default_nvm_info);
     Some \<lparr>nvm_memory_mode_capacity = memory_mode_capacity', nvm_app_direct_mode_capacity =
       app_direct_mode_capacity', nvm_avg_power_budget = avg_power_budget'\<rparr> }"

lemma nvm_info_distinct: "distinct (map fst (nvm_info_fields x))"
  by (simp add: nvm_info_fields_def)

lemma de_nvm_info_ser [wire]: "de_nvm_info (ser_nvm_info x) = Some x"
  unfolding de_nvm_info_def ser_nvm_info_def
    struct_read [OF nvm_info_distinct] wire_field_entries [OF nvm_info_distinct]
  by (simp add: nvm_info_fields_def default_nvm_info_def wire)

lemma keys_distinct_nvm_info [wire]: "keys_distinct (ser_nvm_info x)"
  unfolding ser_nvm_info_def
  by (rule keys_distinct_jobj [OF nvm_info_distinct])
    (simp add: nvm_info_fields_def wire)

definition machine_info_fields :: "(int \<Rightarrow> string) \<Rightarrow> machine_info \<Rightarrow> wire_fields" where
  "machine_info_fields stamp x =
     [(''timestamp'', Some (ser_time stamp (mi_timestamp x))),
      (''vendor_id'', Some (ser_str (mi_cpu_vendor_id x))),
      (''num_cores'', Some (ser_int (mi_num_cores x))),
      (''num_physical_cores'', Some (ser_int (mi_num_physical_cores x))),
      (''num_sockets'', Some (ser_int (mi_num_sockets x))),
      (''cpu_frequency_khz'', Some (ser_u64 (mi_cpu_frequency x))),
      (''memory_capacity'', Some (ser_u64 (mi_memory_capacity x))),
      (''swap_capacity'', Some (ser_u64 (mi_swap_capacity x))),
      (''memory_by_type'', Some (ser_map ser_dimm_info (mi_memory_by_type x))),
      (''nvm'', Some (ser_nvm_info (mi_nvm_info x))),
      (''hugepages'', Some (ser_list ser_huge_pages_info (mi_huge_pages x))),
      (''machine_id'', Some (ser_str (mi_machine_id x))),
      (''system_uuid'', Some (ser_str (mi_system_uuid x))),
      (''boot_id'', Some (ser_str (mi_boot_id x))),
      (''filesystems'', Some (ser_list ser_filesystem_info (mi_filesystems x))),
      (''disk_map'', Some (ser_map ser_disk_info (mi_disk_map x))),
      (''network_devices'', Some (ser_list ser_net_info (mi_network_devices x))),
      (''topology'', Some (ser_list ser_numa_node (mi_topology x))),
      (''cloud_provider'', Some (ser_str (mi_cloud_provider x))),
      (''instance_type'', Some (ser_str (mi_instance_type x))),
      (''instance_id'', Some (ser_str (mi_instance_id x)))]"

definition ser_machine_info :: "(int \<Rightarrow> string) \<Rightarrow> machine_info \<Rightarrow> jvalue" where
  "ser_machine_info stamp x = jobj (machine_info_fields stamp x)"

definition de_machine_info :: "(string \<Rightarrow> gotime option) \<Rightarrow> jvalue \<Rightarrow> machine_info option" where
  "de_machine_info rfc3339 j = do {
     m \<leftarrow> struct_map [''timestamp'', ''vendor_id'', ''num_cores'', ''num_physical_cores'', ''num_sockets'',
        ''cpu_frequency_khz'', ''memory_capacity'', ''swap_capacity'', ''memory_by_type'',
        ''nvm'', ''hugepages'', ''machine_id'', ''system_uuid'', ''boot_id'', ''filesystems'',
        ''disk_map'', ''network_devices'', ''topology'', ''cloud_provider'', ''instance_type'',
        ''instance_id''] j;
     timestamp' \<leftarrow> wire_field m ''timestamp'' (de_time rfc3339) (mi_timestamp default_machine_info);
     cpu_vendor_id' \<leftarrow> wire_field m ''vendor_id'' de_str (mi_cpu_vendor_id default_machine_info);
     num_cores' \<leftarrow> wire_field m ''num_cores'' de_i64 (mi_num_cores default_machine_info);
     num_physical_cores' \<leftarrow> wire_field m ''num_physical_cores'' de_i64 (mi_num_physical_cores default_machine_info);
     num_sockets' \<leftarrow> wire_field m ''num_sockets'' de_i64 (mi_num_sockets default_machine_info);
     cpu_frequency' \<leftarrow> wire_field m ''cpu_frequency_khz'' de_u64 (mi_cpu_frequency default_machine_info);
     memory_capacity' \<leftarrow> wire_field m ''memory_capacity'' de_u64 (mi_memory_capacity default_machine_info);
     swap_capacity' \<leftarrow> wire_field m ''swap_capacity'' de_u64 (mi_swap_capacity default_machine_info);
     memory_by_type' \<leftarrow> wire_field m ''memory_by_type'' (de_map de_dimm_info) (mi_memory_by_type default_machine_info);
     nvm_info' \<leftarrow> wire_field m ''nvm'' de_nvm_info (mi_nvm_info default_machine_info);
     huge_pages' \<leftarrow> wire_field m ''hugepages'' (de_list de_huge_pages_info) (mi_huge_pages default_machine_info);
     machine_id' \<leftarrow> wire_field m ''machine_id'' de_str (mi_machine_id default_machine_info);
     system_uuid' \<leftarrow> wire_field m ''system_uuid'' de_str (mi_system_uuid default_machine_info);
     boot_id' \<leftarrow> wire_field m ''boot_id'' de_str (mi_boot_id default_machine_info);
     filesystems' \<leftarrow> wire_field m ''filesystems'' (de_list de_filesystem_info) (mi_filesystems default_machine_info);
     disk_map' \<leftarrow> wire_field m ''disk_map'' (de_map de_disk_info) (mi_disk_map default_machine_info);
     network_devices' \<leftarrow> wire_field m ''network_devices'' (de_list de_net_info) (mi_network_devices default_machine_info);
     topology' \<leftarrow> wire_field m ''topology'' (de_list de_numa_node) (mi_topology default_machine_info);
     cloud_provider' \<leftarrow> wire_field m ''cloud_provider'' de_str (mi_cloud_provider default_machine_info);
     instance_type' \<leftarrow> wire_field m ''instance_type'' de_str (mi_instance_type default_machine_info);
     instance_id' \<leftarrow> wire_field m ''instance_id'' de_str (mi_instance_id default_machine_info);
     Some \<lparr>mi_timestamp = timestamp', mi_cpu_vendor_id = cpu_vendor_id', mi_num_cores =
       num_cores', mi_num_physical_cores = num_physical_cores', mi_num_sockets = num_sockets',
       mi_cpu_frequency = cpu_frequency', mi_memory_capacity = memory_capacity', mi_swap_capacity
       = swap_capacity', mi_memory_by_type = memory_by_type', mi_nvm_info = nvm_info',
       mi_huge_pages = huge_pages', mi_machine_id = machine_id', mi_system_uuid = system_uuid',
       mi_boot_id = boot_id', mi_filesystems = filesystems', mi_disk_map = disk_map',
       mi_network_devices = network_devices', mi_topology = topology', mi_cloud_provider =
       cloud_provider', mi_instance_type = instance_type', mi_instance_id = instance_id'\<rparr> }"

definition ok_machine_info :: "(int \<Rightarrow> string) \<Rightarrow> machine_info \<Rightarrow> bool" where
  "ok_machine_info stamp x \<longleftrightarrow>
     stamp_ok stamp (whole_second (mi_timestamp x)) \<and>
     in_i64 (mi_num_cores x) \<and>
     in_i64 (mi_num_physical_cores x) \<and>
     in_i64 (mi_num_sockets x) \<and>
     bt_wf (mi_memory_by_type x) \<and>
     (\<forall>y \<in> set (mi_filesystems x). ok_filesystem_info y) \<and>
     bt_wf (mi_disk_map x) \<and>
     (\<forall>y \<in> set (mi_network_devices x). ok_net_info y) \<and>
     (\<forall>y \<in> set (mi_topology x). ok_numa_node y)"

lemma machine_info_distinct: "distinct (map fst (machine_info_fields stamp x))"
  by (simp add: machine_info_fields_def)

lemma de_machine_info_ser [wire]: "rfc3339_ok rfc3339 \<Longrightarrow> ok_machine_info stamp x \<Longrightarrow> de_machine_info rfc3339 (ser_machine_info stamp x) = Some x"
  unfolding de_machine_info_def ser_machine_info_def
    struct_read [OF machine_info_distinct] wire_field_entries [OF machine_info_distinct]
  by (simp add: machine_info_fields_def ok_machine_info_def default_machine_info_def wire)

lemma keys_distinct_machine_info [wire]: "ok_machine_info stamp x \<Longrightarrow> keys_distinct (ser_machine_info stamp x)"
  unfolding ser_machine_info_def
  by (rule keys_distinct_jobj [OF machine_info_distinct])
    (simp add: machine_info_fields_def ok_machine_info_def wire)

definition version_info_fields :: "version_info \<Rightarrow> wire_fields" where
  "version_info_fields x =
     [(''kernel_version'', Some (ser_str (vi_kernel_version x))),
      (''container_os_version'', Some (ser_str (vi_container_os_version x))),
      (''docker_version'', Some (ser_str (vi_docker_version x))),
      (''docker_api_version'', Some (ser_str (vi_docker_api_version x))),
      (''cadvisor_version'', Some (ser_str (vi_cadvisor_version x))),
      (''cadvisor_revision'', Some (ser_str (vi_cadvisor_revision x)))]"

definition ser_version_info :: "version_info \<Rightarrow> jvalue" where
  "ser_version_info x = jobj (version_info_fields x)"

definition de_version_info :: "jvalue \<Rightarrow> version_info option" where
  "de_version_info j = do {
     m \<leftarrow> struct_map [''kernel_version'', ''container_os_version'', ''docker_version'', ''docker_api_version'',
        ''cadvisor_version'', ''cadvisor_revision''] j;
     kernel_version' \<leftarrow> wire_field m ''kernel_version'' de_str (vi_kernel_version default_version_info);
     container_os_version' \<leftarrow> wire_field m ''container_os_version'' de_str (vi_container_os_version default_version_info);
     docker_version' \<leftarrow> wire_field m ''docker_version'' de_str (vi_docker_version default_version_info);
     docker_api_version' \<leftarrow> wire_field m ''docker_api_version'' de_str (vi_docker_api_version default_version_info);
     cadvisor_version' \<leftarrow> wire_field m ''cadvisor_version'' de_str (vi_cadvisor_version default_version_info);
     cadvisor_revision' \<leftarrow> wire_field m ''cadvisor_revision'' de_str (vi_cadvisor_revision default_version_info);
     Some \<lparr>vi_kernel_version = kernel_version', vi_container_os_version = container_os_version',
       vi_docker_version = docker_version', vi_docker_api_version = docker_api_version',
       vi_cadvisor_version = cadvisor_version', vi_cadvisor_revision = cadvisor_revision'\<rparr> }"

lemma version_info_distinct: "distinct (map fst (version_info_fields x))"
  by (simp add: version_info_fields_def)

lemma de_version_info_ser [wire]: "de_version_info (ser_version_info x) = Some x"
  unfolding de_version_info_def ser_version_info_def
    struct_read [OF version_info_distinct] wire_field_entries [OF version_info_distinct]
  by (simp add: version_info_fields_def default_version_info_def wire)

lemma keys_distinct_version_info [wire]: "keys_distinct (ser_version_info x)"
  unfolding ser_version_info_def
  by (rule keys_distinct_jobj [OF version_info_distinct])
    (simp add: version_info_fields_def wire)

definition oom_kill_event_data_fields :: "oom_kill_event_data \<Rightarrow> wire_fields" where
  "oom_kill_event_data_fields x =
     [(''pid'', Some (ser_int (oomdata_pid x))),
      (''process_name'', Some (ser_str (oomdata_process_name x))),
      (''constraint'', Some (ser_str (oomdata_constraint x)))]"

definition ser_oom_kill_event_data :: "oom_kill_event_data \<Rightarrow> jvalue" where
  "ser_oom_kill_event_data x = jobj (oom_kill_event_data_fields x)"

definition de_oom_kill_event_data :: "jvalue \<Rightarrow> oom_kill_event_data option" where
  "de_oom_kill_event_data j = do {
     m \<leftarrow> struct_map [''pid'', ''process_name'', ''constraint''] j;
     pid' \<leftarrow> wire_field m ''pid'' de_i64 (oomdata_pid default_oom_kill_event_data);
     process_name' \<leftarrow> wire_field m ''process_name'' de_str (oomdata_process_name default_oom_kill_event_data);
     constraint' \<leftarrow> wire_field m ''constraint'' de_str (oomdata_constraint default_oom_kill_event_data);
     Some \<lparr>oomdata_pid = pid', oomdata_process_name = process_name', oomdata_constraint =
       constraint'\<rparr> }"

definition ok_oom_kill_event_data :: "oom_kill_event_data \<Rightarrow> bool" where
  "ok_oom_kill_event_data x \<longleftrightarrow>
     in_i64 (oomdata_pid x)"

lemma oom_kill_event_data_distinct: "distinct (map fst (oom_kill_event_data_fields x))"
  by (simp add: oom_kill_event_data_fields_def)

lemma de_oom_kill_event_data_ser [wire]: "ok_oom_kill_event_data x \<Longrightarrow> de_oom_kill_event_data (ser_oom_kill_event_data x) = Some x"
  unfolding de_oom_kill_event_data_def ser_oom_kill_event_data_def
    struct_read [OF oom_kill_event_data_distinct] wire_field_entries [OF oom_kill_event_data_distinct]
  by (simp add: oom_kill_event_data_fields_def ok_oom_kill_event_data_def default_oom_kill_event_data_def wire)

lemma keys_distinct_oom_kill_event_data [wire]: "ok_oom_kill_event_data x \<Longrightarrow> keys_distinct (ser_oom_kill_event_data x)"
  unfolding ser_oom_kill_event_data_def
  by (rule keys_distinct_jobj [OF oom_kill_event_data_distinct])
    (simp add: oom_kill_event_data_fields_def ok_oom_kill_event_data_def wire)

lemma not_null_oom_kill_event_data [wire]: "ser_oom_kill_event_data x \<noteq> JNull"
  by (simp add: ser_oom_kill_event_data_def wire)

definition event_data_fields :: "event_data \<Rightarrow> wire_fields" where
  "event_data_fields x =
     [(''oom'', skip_if (evdata_oom_kill x = None) (ser_opt ser_oom_kill_event_data (evdata_oom_kill x)))]"

definition ser_event_data :: "event_data \<Rightarrow> jvalue" where
  "ser_event_data x = jobj (event_data_fields x)"

definition de_event_data :: "jvalue \<Rightarrow> event_data option" where
  "de_event_data j = do {
     m \<leftarrow> struct_map [''oom''] j;
     oom_kill' \<leftarrow> wire_field m ''oom'' (de_opt de_oom_kill_event_data) (evdata_oom_kill default_event_data);
     Some \<lparr>evdata_oom_kill = oom_kill'\<rparr> }"

definition ok_event_data :: "event_data \<Rightarrow> bool" where
  "ok_event_data x \<longleftrightarrow>
     (\<forall>y \<in> set_option (evdata_oom_kill x). ok_oom_kill_event_data y)"

lemma event_data_distinct: "distinct (map fst (event_data_fields x))"
  by (simp add: event_data_fields_def)

lemma de_event_data_ser [wire]: "ok_event_data x \<Longrightarrow> de_event_data (ser_event_data x) = Some x"
  unfolding de_event_data_def ser_event_data_def
    struct_read [OF event_data_distinct] wire_field_entries [OF event_data_distinct]
  by (simp add: event_data_fields_def ok_event_data_def default_event_data_def wire)

lemma keys_distinct_event_data [wire]: "ok_event_data x \<Longrightarrow> keys_distinct (ser_event_data x)"
  unfolding ser_event_data_def
  by (rule keys_distinct_jobj [OF event_data_distinct])
    (simp add: event_data_fields_def ok_event_data_def wire)

definition event_fields :: "(int \<Rightarrow> string) \<Rightarrow> event \<Rightarrow> wire_fields" where
  "event_fields stamp x =
     [(''container_name'', Some (ser_str (ev_container_name x))),
      (''timestamp'', Some (ser_time stamp (ev_timestamp x))),
      (''event_type'', Some (ser_event_type (ev_event_type x))),
      (''event_data'', Some (ser_event_data (ev_event_data x)))]"

definition ser_event :: "(int \<Rightarrow> string) \<Rightarrow> event \<Rightarrow> jvalue" where
  "ser_event stamp x = jobj (event_fields stamp x)"

definition de_event :: "(string \<Rightarrow> gotime option) \<Rightarrow> jvalue \<Rightarrow> event option" where
  "de_event rfc3339 j = do {
     m \<leftarrow> struct_map [''container_name'', ''timestamp'', ''event_type'', ''event_data''] j;
     container_name' \<leftarrow> wire_field m ''container_name'' de_str (ev_container_name default_event);
     timestamp' \<leftarrow> wire_field m ''timestamp'' (de_time rfc3339) (ev_timestamp default_event);
     event_type' \<leftarrow> wire_field m ''event_type'' de_event_type (ev_event_type default_event);
     event_data' \<leftarrow> wire_field m ''event_data'' de_event_data (ev_event_data default_event);
     Some \<lparr>ev_container_name = container_name', ev_timestamp = timestamp', ev_event_type =
       event_type', ev_event_data = event_data'\<rparr> }"

definition ok_event :: "(int \<Rightarrow> string) \<Rightarrow> event \<Rightarrow> bool" where
  "ok_event stamp x \<longleftrightarrow>
     stamp_ok stamp (whole_second (ev_timestamp x)) \<and>
     ok_event_data (ev_event_data x)"

lemma event_distinct: "distinct (map fst (event_fields stamp x))"
  by (simp add: event_fields_def)

lemma de_event_ser [wire]: "rfc3339_ok rfc3339 \<Longrightarrow> ok_event stamp x \<Longrightarrow> de_event rfc3339 (ser_event stamp x) = Some x"
  unfolding de_event_def ser_event_def
    struct_read [OF event_distinct] wire_field_entries [OF event_distinct]
  by (simp add: event_fields_def ok_event_def default_event_def wire)

lemma keys_distinct_event [wire]: "ok_event stamp x \<Longrightarrow> keys_distinct (ser_event stamp x)"
  unfolding ser_event_def
  by (rule keys_distinct_jobj [OF event_distinct])
    (simp add: event_fields_def ok_event_def wire)

definition metric_spec_fields :: "metric_spec \<Rightarrow> wire_fields" where
  "metric_spec_fields x =
     [(''name'', Some (ser_str (metricspec_name x))),
      (''type'', Some (ser_str (metricspec_metric_type x))),
      (''format'', Some (ser_str (metricspec_format x))),
      (''units'', Some (ser_str (metricspec_units x)))]"

definition ser_metric_spec :: "metric_spec \<Rightarrow> jvalue" where
  "ser_metric_spec x = jobj (metric_spec_fields x)"

definition de_metric_spec :: "jvalue \<Rightarrow> metric_spec option" where
  "de_metric_spec j = do {
     m \<leftarrow> struct_map [''name'', ''type'', ''format'', ''units''] j;
     name' \<leftarrow> wire_field m ''name'' de_str (metricspec_name default_metric_spec);
     metric_type' \<leftarrow> wire_field m ''type'' de_str (metricspec_metric_type default_metric_spec);
     format' \<leftarrow> wire_field m ''format'' de_str (metricspec_format default_metric_spec);
     units' \<leftarrow> wire_field m ''units'' de_str (metricspec_units default_metric_spec);
     Some \<lparr>metricspec_name = name', metricspec_metric_type = metric_type', metricspec_format =
       format', metricspec_units = units'\<rparr> }"

lemma metric_spec_distinct: "distinct (map fst (metric_spec_fields x))"
  by (simp add: metric_spec_fields_def)

lemma de_metric_spec_ser [wire]: "de_metric_spec (ser_metric_spec x) = Some x"
  unfolding de_metric_spec_def ser_metric_spec_def
    struct_read [OF metric_spec_distinct] wire_field_entries [OF metric_spec_distinct]
  by (simp add: metric_spec_fields_def default_metric_spec_def wire)

lemma keys_distinct_metric_spec [wire]: "keys_distinct (ser_metric_spec x)"
  unfolding ser_metric_spec_def
  by (rule keys_distinct_jobj [OF metric_spec_distinct])
    (simp add: metric_spec_fields_def wire)

definition container_spec_fields :: "(int \<Rightarrow> string) \<Rightarrow> container_spec \<Rightarrow> wire_fields" where
  "container_spec_fields stamp x =
     [(''creation_time'', Some (ser_time stamp (spec_creation_time x))),
      (''labels'', skip_if (spec_labels x = []) (ser_map ser_str (spec_labels x))),
      (''envs'', skip_if (spec_envs x = []) (ser_map ser_str (spec_envs x))),
      (''has_cpu'', Some (ser_bool (spec_has_cpu x))),
      (''cpu'', Some (ser_cpu_spec (spec_cpu x))),
      (''has_memory'', Some (ser_bool (spec_has_memory x))),
      (''memory'', Some (ser_memory_spec (spec_memory x))),
      (''has_hugetlb'', Some (ser_bool (spec_has_hugetlb x))),
      (''has_network'', Some (ser_bool (spec_has_network x))),
      (''has_processes'', Some (ser_bool (spec_has_processes x))),
      (''processes'', Some (ser_process_spec (spec_processes x))),
      (''has_filesystem'', Some (ser_bool (spec_has_filesystem x))),
      (''has_diskio'', Some (ser_bool (spec_has_disk_io x))),
      (''has_custom_metrics'', Some (ser_bool (spec_has_custom_metrics x))),
      (''custom_metrics'', skip_if (spec_custom_metrics x = []) (ser_list ser_metric_spec (spec_custom_metrics x))),
      (''image'', skip_if (spec_image x = []) (ser_str (spec_image x)))]"

definition ser_container_spec :: "(int \<Rightarrow> string) \<Rightarrow> container_spec \<Rightarrow> jvalue" where
  "ser_container_spec stamp x = jobj (container_spec_fields stamp x)"

definition de_container_spec :: "(string \<Rightarrow> gotime option) \<Rightarrow> jvalue \<Rightarrow> container_spec option" where
  "de_container_spec rfc3339 j = do {
     m \<leftarrow> struct_map [''creation_time'', ''labels'', ''envs'', ''has_cpu'', ''cpu'', ''has_memory'',
        ''memory'', ''has_hugetlb'', ''has_network'', ''has_processes'', ''processes'',
        ''has_filesystem'', ''has_diskio'', ''has_custom_metrics'', ''custom_metrics'', ''image''] j;
     creation_time' \<leftarrow> wire_field m ''creation_time'' (de_time rfc3339) (spec_creation_time default_container_spec);
     labels' \<leftarrow> wire_field m ''labels'' (de_map de_str) (spec_labels default_container_spec);
     envs' \<leftarrow> wire_field m ''envs'' (de_map de_str) (spec_envs default_container_spec);
     has_cpu' \<leftarrow> wire_field m ''has_cpu'' de_bool (spec_has_cpu default_container_spec);
     cpu' \<leftarrow> wire_field m ''cpu'' de_cpu_spec (spec_cpu default_container_spec);
     has_memory' \<leftarrow> wire_field m ''has_memory'' de_bool (spec_has_memory default_container_spec);
     memory' \<leftarrow> wire_field m ''memory'' de_memory_spec (spec_memory default_container_spec);
     has_hugetlb' \<leftarrow> wire_field m ''has_hugetlb'' de_bool (spec_has_hugetlb default_container_spec);
     has_network' \<leftarrow> wire_field m ''has_network'' de_bool (spec_has_network default_container_spec);
     has_processes' \<leftarrow> wire_field m ''has_processes'' de_bool (spec_has_processes default_container_spec);
     processes' \<leftarrow> wire_field m ''processes'' de_process_spec (spec_processes default_container_spec);
     has_filesystem' \<leftarrow> wire_field m ''has_filesystem'' de_bool (spec_has_filesystem default_container_spec);
     has_disk_io' \<leftarrow> wire_field m ''has_diskio'' de_bool (spec_has_disk_io default_container_spec);
     has_custom_metrics' \<leftarrow> wire_field m ''has_custom_metrics'' de_bool (spec_has_custom_metrics default_container_spec);
     custom_metrics' \<leftarrow> wire_field m ''custom_metrics'' (de_list de_metric_spec) (spec_custom_metrics default_container_spec);
     image' \<leftarrow> wire_field m ''image'' de_str (spec_image default_container_spec);
     Some \<lparr>spec_creation_time = creation_time', spec_labels = labels', spec_envs = envs',
       spec_has_cpu = has_cpu', spec_cpu = cpu', spec_has_memory = has_memory', spec_memory =
       memory', spec_has_hugetlb = has_hugetlb', spec_has_network = has_network',
       spec_has_processes = has_processes', spec_processes = processes', spec_has_filesystem =
       has_filesystem', spec_has_disk_io = has_disk_io', spec_has_custom_metrics =
       has_custom_metrics', spec_custom_metrics = custom_metrics', spec_image = image'\<rparr> }"

definition ok_container_spec :: "(int \<Rightarrow> string) \<Rightarrow> container_spec \<Rightarrow> bool" where
  "ok_container_spec stamp x \<longleftrightarrow>
     stamp_ok stamp (whole_second (spec_creation_time x)) \<and>
     bt_wf (spec_labels x) \<and>
     bt_wf (spec_envs x)"

lemma container_spec_distinct: "distinct (map fst (container_spec_fields stamp x))"
  by (simp add: container_spec_fields_def)

lemma de_container_spec_ser [wire]: "rfc3339_ok rfc3339 \<Longrightarrow> ok_container_spec stamp x \<Longrightarrow> de_container_spec rfc3339 (ser_container_spec stamp x) = Some x"
  unfolding de_container_spec_def ser_container_spec_def
    struct_read [OF container_spec_distinct] wire_field_entries [OF container_spec_distinct]
  by (simp add: container_spec_fields_def ok_container_spec_def default_container_spec_def wire)

lemma keys_distinct_container_spec [wire]: "ok_container_spec stamp x \<Longrightarrow> keys_distinct (ser_container_spec stamp x)"
  unfolding ser_container_spec_def
  by (rule keys_distinct_jobj [OF container_spec_distinct])
    (simp add: container_spec_fields_def ok_container_spec_def wire)

definition metric_val_basic_fields :: "(int \<Rightarrow> string) \<Rightarrow> metric_val_basic \<Rightarrow> wire_fields" where
  "metric_val_basic_fields stamp x =
     [(''timestamp'', Some (ser_time stamp (metricb_timestamp x))),
      (''int_value'', skip_if (metricb_int_value x = 0) (ser_int (metricb_int_value x))),
      (''float_value'', skip_if (metricb_float_value x = Fin 0) (ser_f64 (metricb_float_value x)))]"

definition ser_metric_val_basic :: "(int \<Rightarrow> string) \<Rightarrow> metric_val_basic \<Rightarrow> jvalue" where
  "ser_metric_val_basic stamp x = jobj (metric_val_basic_fields stamp x)"

definition de_metric_val_basic :: "(string \<Rightarrow> gotime option) \<Rightarrow> jvalue \<Rightarrow> metric_val_basic option" where
  "de_metric_val_basic rfc3339 j = do {
     m \<leftarrow> struct_map [''timestamp'', ''int_value'', ''float_value''] j;
     timestamp' \<leftarrow> wire_field m ''timestamp'' (de_time rfc3339) (metricb_timestamp default_metric_val_basic);
     int_value' \<leftarrow> wire_field m ''int_value'' de_i64 (metricb_int_value default_metric_val_basic);
     float_value' \<leftarrow> wire_field m ''float_value'' de_f64 (metricb_float_value default_metric_val_basic);
     Some \<lparr>metricb_timestamp = timestamp', metricb_int_value = int_value', metricb_float_value =
       float_value'\<rparr> }"

definition ok_metric_val_basic :: "(int \<Rightarrow> string) \<Rightarrow> metric_val_basic \<Rightarrow> bool" where
  "ok_metric_val_basic stamp x \<longleftrightarrow>
     stamp_ok stamp (whole_second (metricb_timestamp x)) \<and>
     in_i64 (metricb_int_value x) \<and>
     finite64 (metricb_float_value x)"

lemma metric_val_basic_distinct: "distinct (map fst (metric_val_basic_fields stamp x))"
  by (simp add: metric_val_basic_fields_def)

lemma de_metric_val_basic_ser [wire]: "rfc3339_ok rfc3339 \<Longrightarrow> ok_metric_val_basic stamp x \<Longrightarrow> de_metric_val_basic rfc3339 (ser_metric_val_basic stamp x) = Some x"
  unfolding de_metric_val_basic_def ser_metric_val_basic_def
    struct_read [OF metric_val_basic_distinct] wire_field_entries [OF metric_val_basic_distinct]
  by (simp add: metric_val_basic_fields_def ok_metric_val_basic_def default_metric_val_basic_def wire)

lemma keys_distinct_metric_val_basic [wire]: "ok_metric_val_basic stamp x \<Longrightarrow> keys_distinct (ser_metric_val_basic stamp x)"
  unfolding ser_metric_val_basic_def
  by (rule keys_distinct_jobj [OF metric_val_basic_distinct])
    (simp add: metric_val_basic_fields_def ok_metric_val_basic_def wire)

definition metric_val_fields :: "(int \<Rightarrow> string) \<Rightarrow> metric_val \<Rightarrow> wire_fields" where
  "metric_val_fields stamp x =
     [(''label'', skip_if (metric_label x = []) (ser_str (metric_label x))),
      (''labels'', skip_if (metric_labels x = []) (ser_map ser_str (metric_labels x))),
      (''timestamp'', Some (ser_time stamp (metric_timestamp x))),
      (''int_value'', skip_if (metric_int_value x = 0) (ser_int (metric_int_value x))),
      (''float_value'', skip_if (metric_float_value x = Fin 0) (ser_f64 (metric_float_value x)))]"

definition ser_metric_val :: "(int \<Rightarrow> string) \<Rightarrow> metric_val \<Rightarrow> jvalue" where
  "ser_metric_val stamp x = jobj (metric_val_fields stamp x)"

definition de_metric_val :: "(string \<Rightarrow> gotime option) \<Rightarrow> jvalue \<Rightarrow> metric_val option" where
  "de_metric_val rfc3339 j = do {
     m \<leftarrow> struct_map [''label'', ''labels'', ''timestamp'', ''int_value'', ''float_value''] j;
     label' \<leftarrow> wire_field m ''label'' de_str (metric_label default_metric_val);
     labels' \<leftarrow> wire_field m ''labels'' (de_map de_str) (metric_labels default_metric_val);
     timestamp' \<leftarrow> wire_field m ''timestamp'' (de_time rfc3339) (metric_timestamp default_metric_val);
     int_value' \<leftarrow> wire_field m ''int_value'' de_i64 (metric_int_value default_metric_val);
     float_value' \<leftarrow> wire_field m ''float_value'' de_f64 (metric_float_value default_metric_val);
     Some \<lparr>metric_label = label', metric_labels = labels', metric_timestamp = timestamp',
       metric_int_value = int_value', metric_float_value = float_value'\<rparr> }"

definition ok_metric_val :: "(int \<Rightarrow> string) \<Rightarrow> metric_val \<Rightarrow> bool" where
  "ok_metric_val stamp x \<longleftrightarrow>
     bt_wf (metric_labels x) \<and>
     stamp_ok stamp (whole_second (metric_timestamp x)) \<and>
     in_i64 (metric_int_value x) \<and>
     finite64 (metric_float_value x)"

lemma metric_val_distinct: "distinct (map fst (metric_val_fields stamp x))"
  by (simp add: metric_val_fields_def)

lemma de_metric_val_ser [wire]: "rfc3339_ok rfc3339 \<Longrightarrow> ok_metric_val stamp x \<Longrightarrow> de_metric_val rfc3339 (ser_metric_val stamp x) = Some x"
  unfolding de_metric_val_def ser_metric_val_def
    struct_read [OF metric_val_distinct] wire_field_entries [OF metric_val_distinct]
  by (simp add: metric_val_fields_def ok_metric_val_def default_metric_val_def wire)

lemma keys_distinct_metric_val [wire]: "ok_metric_val stamp x \<Longrightarrow> keys_distinct (ser_metric_val stamp x)"
  unfolding ser_metric_val_def
  by (rule keys_distinct_jobj [OF metric_val_distinct])
    (simp add: metric_val_fields_def ok_metric_val_def wire)

definition container_stats_fields :: "(int \<Rightarrow> string) \<Rightarrow> container_stats \<Rightarrow> wire_fields" where
  "container_stats_fields stamp x =
     [(''timestamp'', Some (ser_time stamp (stats_timestamp x))),
      (''cpu'', Some (ser_cpu_stats (stats_cpu x))),
      (''diskio'', Some (ser_disk_io_stats (stats_disk_io x))),
      (''memory'', Some (ser_memory_stats (stats_memory x))),
      (''hugetlb'', skip_if (stats_hugetlb x = []) (ser_map ser_hugetlb_stats (stats_hugetlb x))),
      (''network'', Some (ser_network_stats (stats_network x))),
      (''filesystem'', skip_if (stats_filesystem x = []) (ser_list ser_fs_stats (stats_filesystem x))),
      (''task_stats'', Some (ser_load_stats (stats_task_stats x))),
      (''accelerators'', skip_if (stats_accelerators x = []) (ser_list ser_accelerator_stats (stats_accelerators x))),
      (''processes'', Some (ser_process_stats (stats_processes x))),
      (''custom_metrics'', skip_if (stats_custom_metrics x = []) (ser_map (ser_list (ser_metric_val stamp)) (stats_custom_metrics x))),
      (''perf_stats'', skip_if (stats_perf_stats x = []) (ser_list ser_perf_stat (stats_perf_stats x))),
      (''perf_uncore_stats'', skip_if (stats_perf_uncore_stats x = []) (ser_list ser_perf_uncore_stat (stats_perf_uncore_stats x))),
      (''referenced_memory'', skip_if (stats_referenced_memory x = 0) (ser_u64 (stats_referenced_memory x))),
      (''resctrl'', Some (ser_resctrl_stats (stats_resctrl x))),
      (''cpuset'', Some (ser_cpu_set_stats (stats_cpu_set x))),
      (''oom_events'', skip_if (stats_oom_events x = 0) (ser_u64 (stats_oom_events x)))]"

definition ser_container_stats :: "(int \<Rightarrow> string) \<Rightarrow> container_stats \<Rightarrow> jvalue" where
  "ser_container_stats stamp x = jobj (container_stats_fields stamp x)"

definition de_container_stats :: "(string \<Rightarrow> gotime option) \<Rightarrow> jvalue \<Rightarrow> container_stats option" where
  "de_container_stats rfc3339 j = do {
     m \<leftarrow> struct_map [''timestamp'', ''cpu'', ''diskio'', ''memory'', ''hugetlb'', ''network'', ''filesystem'',
        ''task_stats'', ''accelerators'', ''processes'', ''custom_metrics'', ''perf_stats'',
        ''perf_uncore_stats'', ''referenced_memory'', ''resctrl'', ''cpuset'', ''oom_events''] j;
     timestamp' \<leftarrow> wire_field m ''timestamp'' (de_time rfc3339) (stats_timestamp default_container_stats);
     cpu' \<leftarrow> wire_field m ''cpu'' de_cpu_stats (stats_cpu default_container_stats);
     disk_io' \<leftarrow> wire_field m ''diskio'' de_disk_io_stats (stats_disk_io default_container_stats);
     memory' \<leftarrow> wire_field m ''memory'' de_memory_stats (stats_memory default_container_stats);
     hugetlb' \<leftarrow> wire_field m ''hugetlb'' (de_map de_hugetlb_stats) (stats_hugetlb default_container_stats);
     network' \<leftarrow> wire_field m ''network'' de_network_stats (stats_network default_container_stats);
     filesystem' \<leftarrow> wire_field m ''filesystem'' (de_list de_fs_stats) (stats_filesystem default_container_stats);
     task_stats' \<leftarrow> wire_field m ''task_stats'' de_load_stats (stats_task_stats default_container_stats);
     accelerators' \<leftarrow> wire_field m ''accelerators'' (de_list de_accelerator_stats) (stats_accelerators default_container_stats);
     processes' \<leftarrow> wire_field m ''processes'' de_process_stats (stats_processes default_container_stats);
     custom_metrics' \<leftarrow> wire_field m ''custom_metrics'' (de_map (de_list (de_metric_val rfc3339))) (stats_custom_metrics default_container_stats);
     perf_stats' \<leftarrow> wire_field m ''perf_stats'' (de_list de_perf_stat) (stats_perf_stats default_container_stats);
     perf_uncore_stats' \<leftarrow> wire_field m ''perf_uncore_stats'' (de_list de_perf_uncore_stat) (stats_perf_uncore_stats default_container_stats);
     referenced_memory' \<leftarrow> wire_field m ''referenced_memory'' de_u64 (stats_referenced_memory default_container_stats);
     resctrl' \<leftarrow> wire_field m ''resctrl'' de_resctrl_stats (stats_resctrl default_container_stats);
     cpu_set' \<leftarrow> wire_field m ''cpuset'' de_cpu_set_stats (stats_cpu_set default_container_stats);
     oom_events' \<leftarrow> wire_field m ''oom_events'' de_u64 (stats_oom_events default_container_stats);
     Some \<lparr>stats_timestamp = timestamp', stats_cpu = cpu', stats_disk_io = disk_io',
       stats_memory = memory', stats_hugetlb = hugetlb', stats_network = network',
       stats_filesystem = filesystem', stats_task_stats = task_stats', stats_accelerators =
       accelerators', stats_processes = processes', stats_custom_metrics = custom_metrics',
       stats_perf_stats = perf_stats', stats_perf_uncore_stats = perf_uncore_stats',
       stats_referenced_memory = referenced_memory', stats_resctrl = resctrl', stats_cpu_set =
       cpu_set', stats_oom_events = oom_events'\<rparr> }"

definition ok_container_stats :: "(int \<Rightarrow> string) \<Rightarrow> container_stats \<Rightarrow> bool" where
  "ok_container_stats stamp x \<longleftrightarrow>
     stamp_ok stamp (whole_second (stats_timestamp x)) \<and>
     ok_cpu_stats (stats_cpu x) \<and>
     ok_disk_io_stats (stats_disk_io x) \<and>
     ok_memory_stats (stats_memory x) \<and>
     bt_wf (stats_hugetlb x) \<and>
     ok_network_stats (stats_network x) \<and>
     ok_process_stats (stats_processes x) \<and>
     bt_wf (stats_custom_metrics x) \<and>
     (\<forall>y \<in> set (stats_custom_metrics x). (\<forall>z \<in> set (snd y). ok_metric_val stamp z)) \<and>
     (\<forall>y \<in> set (stats_perf_stats x). ok_perf_stat y) \<and>
     (\<forall>y \<in> set (stats_perf_uncore_stats x). ok_perf_uncore_stat y)"

lemma container_stats_distinct: "distinct (map fst (container_stats_fields stamp x))"
  by (simp add: container_stats_fields_def)

lemma de_container_stats_ser [wire]: "rfc3339_ok rfc3339 \<Longrightarrow> ok_container_stats stamp x \<Longrightarrow> de_container_stats rfc3339 (ser_container_stats stamp x) = Some x"
  unfolding de_container_stats_def ser_container_stats_def
    struct_read [OF container_stats_distinct] wire_field_entries [OF container_stats_distinct]
  by (simp add: container_stats_fields_def ok_container_stats_def default_container_stats_def wire)

lemma keys_distinct_container_stats [wire]: "ok_container_stats stamp x \<Longrightarrow> keys_distinct (ser_container_stats stamp x)"
  unfolding ser_container_stats_def
  by (rule keys_distinct_jobj [OF container_stats_distinct])
    (simp add: container_stats_fields_def ok_container_stats_def wire)

definition container_info_fields :: "(int \<Rightarrow> string) \<Rightarrow> container_info \<Rightarrow> wire_fields" where
  "container_info_fields stamp x =
     container_reference_fields (info_reference x) @
     [(''subcontainers'', skip_if (info_subcontainers x = []) (ser_list ser_container_reference (info_subcontainers x))),
      (''spec'', Some (ser_container_spec stamp (info_spec x))),
      (''stats'', skip_if (info_stats x = []) (ser_list (ser_container_stats stamp) (info_stats x)))]"

definition ser_container_info :: "(int \<Rightarrow> string) \<Rightarrow> container_info \<Rightarrow> jvalue" where
  "ser_container_info stamp x = jobj (container_info_fields stamp x)"

definition container_info_keys :: "string list" where
  "container_info_keys = [''subcontainers'', ''spec'', ''stats'']"

definition de_container_info :: "(string \<Rightarrow> gotime option) \<Rightarrow> jvalue \<Rightarrow> container_info option" where
  "de_container_info rfc3339 j = do {
     m \<leftarrow> flat_map container_info_keys j;
     reference' \<leftarrow> part_map container_reference_keys (rest_of container_info_keys m) \<bind> de_container_reference_of;
     subcontainers' \<leftarrow> wire_field m ''subcontainers'' (de_list de_container_reference) (info_subcontainers default_container_info);
     spec' \<leftarrow> wire_field m ''spec'' (de_container_spec rfc3339) (info_spec default_container_info);
     stats' \<leftarrow> wire_field m ''stats'' (de_list (de_container_stats rfc3339)) (info_stats default_container_info);
     Some \<lparr>info_reference = reference', info_subcontainers = subcontainers', info_spec = spec',
       info_stats = stats'\<rparr> }"

definition ok_container_info :: "(int \<Rightarrow> string) \<Rightarrow> container_info \<Rightarrow> bool" where
  "ok_container_info stamp x \<longleftrightarrow>
     ok_container_spec stamp (info_spec x) \<and>
     (\<forall>y \<in> set (info_stats x). ok_container_stats stamp y)"

lemma container_info_distinct: "distinct (map fst (container_info_fields stamp x))"
  by (simp add: container_info_fields_def container_reference_fields_def)

lemma container_info_rest:
  "filter (\<lambda>e. fst e \<notin> set container_info_keys) (container_info_fields stamp x) = container_reference_fields (info_reference x)"
  by (simp add: container_info_keys_def container_info_fields_def container_reference_fields_def)

lemma de_container_info_ser [wire]: "rfc3339_ok rfc3339 \<Longrightarrow> ok_container_info stamp x \<Longrightarrow> de_container_info rfc3339 (ser_container_info stamp x) = Some x"
  unfolding de_container_info_def ser_container_info_def
    flat_read [OF container_info_distinct] wire_field_entries [OF container_info_distinct] rest_of_entries container_info_rest
    part_map_distinct [OF distinct_wire_entries [OF container_reference_distinct]]
  by (simp add: container_info_fields_def ok_container_info_def default_container_info_def de_container_reference_of_entries [unfolded container_reference_fields_def wire_entries.simps] container_reference_fields_def wire)

lemma keys_distinct_container_info [wire]: "ok_container_info stamp x \<Longrightarrow> keys_distinct (ser_container_info stamp x)"
  unfolding ser_container_info_def
  by (rule keys_distinct_jobj [OF container_info_distinct])
    (simp add: container_info_fields_def container_reference_fields_def ok_container_info_def wire)

end
