(* ===== verification/Wire_V2.thy ===== *)
theory Wire_V2
  imports Wire_V1 Model_V2
begin

text \<open>The JSON form of the v2 types, in the manner of \<open>Wire_V1\<close>.\<close>


definition v2_container_spec_fields :: "(int \<Rightarrow> string) \<Rightarrow> v2_container_spec \<Rightarrow> wire_fields" where
  "v2_container_spec_fields stamp x =
     [(''creation_time'', Some (ser_time stamp (v2spec_creation_time x))),
      (''aliases'', skip_if (v2spec_aliases x = []) (ser_list ser_str (v2spec_aliases x))),
      (''namespace'', skip_if (v2spec_namespace x = []) (ser_str (v2spec_namespace x))),
      (''labels'', skip_if (v2spec_labels x = []) (ser_map ser_str (v2spec_labels x))),
      (''envs'', skip_if (v2spec_envs x = []) (ser_map ser_str (v2spec_envs x))),
      (''has_cpu'', Some (ser_bool (v2spec_has_cpu x))),
      (''cpu'', Some (ser_cpu_spec (v2spec_cpu x))),
      (''has_memory'', Some (ser_bool (v2spec_has_memory x))),
      (''memory'', Some (ser_memory_spec (v2spec_memory x))),
      (''has_hugetlb'', Some (ser_bool (v2spec_has_hugetlb x))),
      (''has_custom_metrics'', Some (ser_bool (v2spec_has_custom_metrics x))),
      (''custom_metrics'', skip_if (v2spec_custom_metrics x = []) (ser_list ser_metric_spec (v2spec_custom_metrics x))),
      (''has_processes'', Some (ser_bool (v2spec_has_processes x))),
      (''processes'', Some (ser_process_spec (v2spec_processes x))),
      (''has_network'', Some (ser_bool (v2spec_has_network x))),
      (''has_filesystem'', Some (ser_bool (v2spec_has_filesystem x))),
      (''has_diskio'', Some (ser_bool (v2spec_has_disk_io x))),
      (''image'', skip_if (v2spec_image x = []) (ser_str (v2spec_image x)))]"

definition ser_v2_container_spec :: "(int \<Rightarrow> string) \<Rightarrow> v2_container_spec \<Rightarrow> jvalue" where
  "ser_v2_container_spec stamp x = jobj (v2_container_spec_fields stamp x)"

definition de_v2_container_spec :: "(string \<Rightarrow> gotime option) \<Rightarrow> jvalue \<Rightarrow> v2_container_spec option" where
  "de_v2_container_spec rfc3339 j = do {
     m \<leftarrow> struct_map [''creation_time'', ''aliases'', ''namespace'', ''labels'', ''envs'', ''has_cpu'',
        ''cpu'', ''has_memory'', ''memory'', ''has_hugetlb'', ''has_custom_metrics'',
        ''custom_metrics'', ''has_processes'', ''processes'', ''has_network'', ''has_filesystem'',
        ''has_diskio'', ''image''] j;
     creation_time' \<leftarrow> wire_field m ''creation_time'' (de_time rfc3339) (v2spec_creation_time default_v2_container_spec);
     aliases' \<leftarrow> wire_field m ''aliases'' (de_list de_str) (v2spec_aliases default_v2_container_spec);
     namespace' \<leftarrow> wire_field m ''namespace'' de_str (v2spec_namespace default_v2_container_spec);
     labels' \<leftarrow> wire_field m ''labels'' (de_map de_str) (v2spec_labels default_v2_container_spec);
     envs' \<leftarrow> wire_field m ''envs'' (de_map de_str) (v2spec_envs default_v2_container_spec);
     has_cpu' \<leftarrow> wire_field m ''has_cpu'' de_bool (v2spec_has_cpu default_v2_container_spec);
     cpu' \<leftarrow> wire_field m ''cpu'' de_cpu_spec (v2spec_cpu default_v2_container_spec);
     has_memory' \<leftarrow> wire_field m ''has_memory'' de_bool (v2spec_has_memory default_v2_container_spec);
     memory' \<leftarrow> wire_field m ''memory'' de_memory_spec (v2spec_memory default_v2_container_spec);
     has_hugetlb' \<leftarrow> wire_field m ''has_hugetlb'' de_bool (v2spec_has_hugetlb default_v2_container_spec);
     has_custom_metrics' \<leftarrow> wire_field m ''has_custom_metrics'' de_bool (v2spec_has_custom_metrics default_v2_container_spec);
     custom_metrics' \<leftarrow> wire_field m ''custom_metrics'' (de_list de_metric_spec) (v2spec_custom_metrics default_v2_container_spec);
     has_processes' \<leftarrow> wire_field m ''has_processes'' de_bool (v2spec_has_processes default_v2_container_spec);
     processes' \<leftarrow> wire_field m ''processes'' de_process_spec (v2spec_processes default_v2_container_spec);
     has_network' \<leftarrow> wire_field m ''has_network'' de_bool (v2spec_has_network default_v2_container_spec);
     has_filesystem' \<leftarrow> wire_field m ''has_filesystem'' de_bool (v2spec_has_filesystem default_v2_container_spec);
     has_disk_io' \<leftarrow> wire_field m ''has_diskio'' de_bool (v2spec_has_disk_io default_v2_container_spec);
     image' \<leftarrow> wire_field m ''image'' de_str (v2spec_image default_v2_container_spec);
     Some \<lparr>v2spec_creation_time = creation_time', v2spec_aliases = aliases', v2spec_namespace =
       namespace', v2spec_labels = labels', v2spec_envs = envs', v2spec_has_cpu = has_cpu',
       v2spec_cpu = cpu', v2spec_has_memory = has_memory', v2spec_memory = memory',
       v2spec_has_hugetlb = has_hugetlb', v2spec_has_custom_metrics = has_custom_metrics',
       v2spec_custom_metrics = custom_metrics', v2spec_has_processes = has_processes',
       v2spec_processes = processes', v2spec_has_network = has_network', v2spec_has_filesystem =
       has_filesystem', v2spec_has_disk_io = has_disk_io', v2spec_image = image'\<rparr> }"

definition ok_v2_container_spec :: "(int \<Rightarrow> string) \<Rightarrow> v2_container_spec \<Rightarrow> bool" where
  "ok_v2_container_spec stamp x \<longleftrightarrow>
     stamp_ok stamp (whole_second (v2spec_creation_time x)) \<and>
     bt_wf (v2spec_labels x) \<and>
     bt_wf (v2spec_envs x)"

lemma v2_container_spec_distinct: "distinct (map fst (v2_container_spec_fields stamp x))"
  by (simp add: v2_container_spec_fields_def)

lemma de_v2_container_spec_ser [wire]: "rfc3339_ok rfc3339 \<Longrightarrow> ok_v2_container_spec stamp x \<Longrightarrow> de_v2_container_spec rfc3339 (ser_v2_container_spec stamp x) = Some x"
  unfolding de_v2_container_spec_def ser_v2_container_spec_def
    struct_read [OF v2_container_spec_distinct] wire_field_entries [OF v2_container_spec_distinct]
  by (simp add: v2_container_spec_fields_def ok_v2_container_spec_def default_v2_container_spec_def wire)

lemma keys_distinct_v2_container_spec [wire]: "ok_v2_container_spec stamp x \<Longrightarrow> keys_distinct (ser_v2_container_spec stamp x)"
  unfolding ser_v2_container_spec_def
  by (rule keys_distinct_jobj [OF v2_container_spec_distinct])
    (simp add: v2_container_spec_fields_def ok_v2_container_spec_def wire)

definition v2_network_stats_fields :: "v2_network_stats \<Rightarrow> wire_fields" where
  "v2_network_stats_fields x =
     [(''interfaces'', skip_if (v2net_interfaces x = []) (ser_list ser_interface_stats (v2net_interfaces x))),
      (''tcp'', Some (ser_tcp_stat (v2net_tcp x))),
      (''tcp6'', Some (ser_tcp_stat (v2net_tcp6 x))),
      (''udp'', Some (ser_udp_stat (v2net_udp x))),
      (''udp6'', Some (ser_udp_stat (v2net_udp6 x))),
      (''tcp_advanced'', Some (ser_tcp_advanced_stat (v2net_tcp_advanced x)))]"

definition ser_v2_network_stats :: "v2_network_stats \<Rightarrow> jvalue" where
  "ser_v2_network_stats x = jobj (v2_network_stats_fields x)"

definition de_v2_network_stats :: "jvalue \<Rightarrow> v2_network_stats option" where
  "de_v2_network_stats j = do {
     m \<leftarrow> struct_map [''interfaces'', ''tcp'', ''tcp6'', ''udp'', ''udp6'', ''tcp_advanced''] j;
     interfaces' \<leftarrow> wire_field m ''interfaces'' (de_list de_interface_stats) (v2net_interfaces default_v2_network_stats);
     tcp' \<leftarrow> wire_field m ''tcp'' de_tcp_stat (v2net_tcp default_v2_network_stats);
     tcp6' \<leftarrow> wire_field m ''tcp6'' de_tcp_stat (v2net_tcp6 default_v2_network_stats);
     udp' \<leftarrow> wire_field m ''udp'' de_udp_stat (v2net_udp default_v2_network_stats);
     udp6' \<leftarrow> wire_field m ''udp6'' de_udp_stat (v2net_udp6 default_v2_network_stats);
     tcp_advanced' \<leftarrow> wire_field m ''tcp_advanced'' de_tcp_advanced_stat (v2net_tcp_advanced default_v2_network_stats);
     Some \<lparr>v2net_interfaces = interfaces', v2net_tcp = tcp', v2net_tcp6 = tcp6', v2net_udp =
       udp', v2net_udp6 = udp6', v2net_tcp_advanced = tcp_advanced'\<rparr> }"

definition ok_v2_network_stats :: "v2_network_stats \<Rightarrow> bool" where
  "ok_v2_network_stats x \<longleftrightarrow>
     ok_tcp_advanced_stat (v2net_tcp_advanced x)"

lemma v2_network_stats_distinct: "distinct (map fst (v2_network_stats_fields x))"
  by (simp add: v2_network_stats_fields_def)

lemma de_v2_network_stats_ser [wire]: "ok_v2_network_stats x \<Longrightarrow> de_v2_network_stats (ser_v2_network_stats x) = Some x"
  unfolding de_v2_network_stats_def ser_v2_network_stats_def
    struct_read [OF v2_network_stats_distinct] wire_field_entries [OF v2_network_stats_distinct]
  by (simp add: v2_network_stats_fields_def ok_v2_network_stats_def default_v2_network_stats_def wire)

lemma keys_distinct_v2_network_stats [wire]: "ok_v2_network_stats x \<Longrightarrow> keys_distinct (ser_v2_network_stats x)"
  unfolding ser_v2_network_stats_def
  by (rule keys_distinct_jobj [OF v2_network_stats_distinct])
    (simp add: v2_network_stats_fields_def ok_v2_network_stats_def wire)

lemma not_null_v2_network_stats [wire]: "ser_v2_network_stats x \<noteq> JNull"
  by (simp add: ser_v2_network_stats_def wire)

definition deprecated_container_stats_fields :: "(int \<Rightarrow> string) \<Rightarrow> deprecated_container_stats \<Rightarrow> wire_fields" where
  "deprecated_container_stats_fields stamp x =
     [(''timestamp'', Some (ser_time stamp (dep_timestamp x))),
      (''has_cpu'', Some (ser_bool (dep_has_cpu x))),
      (''cpu'', Some (ser_cpu_stats (dep_cpu x))),
      (''cpu_inst'', skip_if (dep_cpu_inst x = None) (ser_opt ser_cpu_inst_stats (dep_cpu_inst x))),
      (''has_diskio'', Some (ser_bool (dep_has_disk_io x))),
      (''diskio'', Some (ser_disk_io_stats (dep_disk_io x))),
      (''has_memory'', Some (ser_bool (dep_has_memory x))),
      (''memory'', Some (ser_memory_stats (dep_memory x))),
      (''has_hugetlb'', Some (ser_bool (dep_has_hugetlb x))),
      (''hugetlb'', skip_if (dep_hugetlb x = []) (ser_map ser_hugetlb_stats (dep_hugetlb x))),
      (''has_network'', Some (ser_bool (dep_has_network x))),
      (''network'', Some (ser_v2_network_stats (dep_network x))),
      (''has_processes'', Some (ser_bool (dep_has_processes x))),
      (''processes'', Some (ser_process_stats (dep_processes x))),
      (''has_filesystem'', Some (ser_bool (dep_has_filesystem x))),
      (''filesystem'', skip_if (dep_filesystem x = []) (ser_list ser_fs_stats (dep_filesystem x))),
      (''has_load'', Some (ser_bool (dep_has_load x))),
      (''load_stats'', Some (ser_load_stats (dep_load x))),
      (''has_custom_metrics'', Some (ser_bool (dep_has_custom_metrics x))),
      (''custom_metrics'', skip_if (dep_custom_metrics x = []) (ser_map (ser_list (ser_metric_val stamp)) (dep_custom_metrics x))),
      (''perf_stats'', skip_if (dep_perf_stats x = []) (ser_list ser_perf_stat (dep_perf_stats x))),
      (''perf_uncore_stats'', skip_if (dep_perf_uncore_stats x = []) (ser_list ser_perf_uncore_stat (dep_perf_uncore_stats x))),
      (''referenced_memory'', skip_if (dep_referenced_memory x = 0) (ser_u64 (dep_referenced_memory x))),
      (''resctrl'', Some (ser_resctrl_stats (dep_resctrl x)))]"

definition ser_deprecated_container_stats :: "(int \<Rightarrow> string) \<Rightarrow> deprecated_container_stats \<Rightarrow> jvalue" where
  "ser_deprecated_container_stats stamp x = jobj (deprecated_container_stats_fields stamp x)"

definition de_deprecated_container_stats :: "(string \<Rightarrow> gotime option) \<Rightarrow> jvalue \<Rightarrow> deprecated_container_stats option" where
  "de_deprecated_container_stats rfc3339 j = do {
     m \<leftarrow> struct_map [''timestamp'', ''has_cpu'', ''cpu'', ''cpu_inst'', ''has_diskio'', ''diskio'',
        ''has_memory'', ''memory'', ''has_hugetlb'', ''hugetlb'', ''has_network'', ''network'',
        ''has_processes'', ''processes'', ''has_filesystem'', ''filesystem'', ''has_load'',
        ''load_stats'', ''has_custom_metrics'', ''custom_metrics'', ''perf_stats'',
        ''perf_uncore_stats'', ''referenced_memory'', ''resctrl''] j;
     timestamp' \<leftarrow> wire_field m ''timestamp'' (de_time rfc3339) (dep_timestamp default_deprecated_container_stats);
     has_cpu' \<leftarrow> wire_field m ''has_cpu'' de_bool (dep_has_cpu default_deprecated_container_stats);
     cpu' \<leftarrow> wire_field m ''cpu'' de_cpu_stats (dep_cpu default_deprecated_container_stats);
     cpu_inst' \<leftarrow> wire_field m ''cpu_inst'' (de_opt de_cpu_inst_stats) (dep_cpu_inst default_deprecated_container_stats);
     has_disk_io' \<leftarrow> wire_field m ''has_diskio'' de_bool (dep_has_disk_io default_deprecated_container_stats);
     disk_io' \<leftarrow> wire_field m ''diskio'' de_disk_io_stats (dep_disk_io default_deprecated_container_stats);
     has_memory' \<leftarrow> wire_field m ''has_memory'' de_bool (dep_has_memory default_deprecated_container_stats);
     memory' \<leftarrow> wire_field m ''memory'' de_memory_stats (dep_memory default_deprecated_container_stats);
     has_hugetlb' \<leftarrow> wire_field m ''has_hugetlb'' de_bool (dep_has_hugetlb default_deprecated_container_stats);
     hugetlb' \<leftarrow> wire_field m ''hugetlb'' (de_map de_hugetlb_stats) (dep_hugetlb default_deprecated_container_stats);
     has_network' \<leftarrow> wire_field m ''has_network'' de_bool (dep_has_network default_deprecated_container_stats);
     network' \<leftarrow> wire_field m ''network'' de_v2_network_stats (dep_network default_deprecated_container_stats);
     has_processes' \<leftarrow> wire_field m ''has_processes'' de_bool (dep_has_processes default_deprecated_container_stats);
     processes' \<leftarrow> wire_field m ''processes'' de_process_stats (dep_processes default_deprecated_container_stats);
     has_filesystem' \<leftarrow> wire_field m ''has_filesystem'' de_bool (dep_has_filesystem default_deprecated_container_stats);
     filesystem' \<leftarrow> wire_field m ''filesystem'' (de_list de_fs_stats) (dep_filesystem default_deprecated_container_stats);
     has_load' \<leftarrow> wire_field m ''has_load'' de_bool (dep_has_load default_deprecated_container_stats);
     load' \<leftarrow> wire_field m ''load_stats'' de_load_stats (dep_load default_deprecated_container_stats);
     has_custom_metrics' \<leftarrow> wire_field m ''has_custom_metrics'' de_bool (dep_has_custom_metrics default_deprecated_container_stats);
     custom_metrics' \<leftarrow> wire_field m ''custom_metrics'' (de_map (de_list (de_metric_val rfc3339))) (dep_custom_metrics default_deprecated_container_stats);
     perf_stats' \<leftarrow> wire_field m ''perf_stats'' (de_list de_perf_stat) (dep_perf_stats default_deprecated_container_stats);
     perf_uncore_stats' \<leftarrow> wire_field m ''perf_uncore_stats'' (de_list de_perf_uncore_stat) (dep_perf_uncore_stats default_deprecated_container_stats);
     referenced_memory' \<leftarrow> wire_field m ''referenced_memory'' de_u64 (dep_referenced_memory default_deprecated_container_stats);
     resctrl' \<leftarrow> wire_field m ''resctrl'' de_resctrl_stats (dep_resctrl default_deprecated_container_stats);
     Some \<lparr>dep_timestamp = timestamp', dep_has_cpu = has_cpu', dep_cpu = cpu', dep_cpu_inst =
       cpu_inst', dep_has_disk_io = has_disk_io', dep_disk_io = disk_io', dep_has_memory =
       has_memory', dep_memory = memory', dep_has_hugetlb = has_hugetlb', dep_hugetlb = hugetlb',
       dep_has_network = has_network', dep_network = network', dep_has_processes = has_processes',
       dep_processes = processes', dep_has_filesystem = has_filesystem', dep_filesystem =
       filesystem', dep_has_load = has_load', dep_load = load', dep_has_custom_metrics =
       has_custom_metrics', dep_custom_metrics = custom_metrics', dep_perf_stats = perf_stats',
       dep_perf_uncore_stats = perf_uncore_stats', dep_referenced_memory = referenced_memory',
       dep_resctrl = resctrl'\<rparr> }"

definition ok_deprecated_container_stats :: "(int \<Rightarrow> string) \<Rightarrow> deprecated_container_stats \<Rightarrow> bool" where
  "ok_deprecated_container_stats stamp x \<longleftrightarrow>
     stamp_ok stamp (whole_second (dep_timestamp x)) \<and>
     ok_cpu_stats (dep_cpu x) \<and>
     ok_disk_io_stats (dep_disk_io x) \<and>
     ok_memory_stats (dep_memory x) \<and>
     bt_wf (dep_hugetlb x) \<and>
     ok_v2_network_stats (dep_network x) \<and>
     ok_process_stats (dep_processes x) \<and>
     bt_wf (dep_custom_metrics x) \<and>
     (\<forall>y \<in> set (dep_custom_metrics x). (\<forall>z \<in> set (snd y). ok_metric_val stamp z)) \<and>
     (\<forall>y \<in> set (dep_perf_stats x). ok_perf_stat y) \<and>
     (\<forall>y \<in> set (dep_perf_uncore_stats x). ok_perf_uncore_stat y)"

lemma deprecated_container_stats_distinct: "distinct (map fst (deprecated_container_stats_fields stamp x))"
  by (simp add: deprecated_container_stats_fields_def)

lemma de_deprecated_container_stats_ser [wire]: "rfc3339_ok rfc3339 \<Longrightarrow> ok_deprecated_container_stats stamp x \<Longrightarrow> de_deprecated_container_stats rfc3339 (ser_deprecated_container_stats stamp x) = Some x"
  unfolding de_deprecated_container_stats_def ser_deprecated_container_stats_def
    struct_read [OF deprecated_container_stats_distinct] wire_field_entries [OF deprecated_container_stats_distinct]
  by (simp add: deprecated_container_stats_fields_def ok_deprecated_container_stats_def default_deprecated_container_stats_def wire)

lemma keys_distinct_deprecated_container_stats [wire]: "ok_deprecated_container_stats stamp x \<Longrightarrow> keys_distinct (ser_deprecated_container_stats stamp x)"
  unfolding ser_deprecated_container_stats_def
  by (rule keys_distinct_jobj [OF deprecated_container_stats_distinct])
    (simp add: deprecated_container_stats_fields_def ok_deprecated_container_stats_def wire)

definition filesystem_stats_fields :: "filesystem_stats \<Rightarrow> wire_fields" where
  "filesystem_stats_fields x =
     [(''totalUsageBytes'', skip_if (fsroll_total_usage_bytes x = None) (ser_opt ser_u64 (fsroll_total_usage_bytes x))),
      (''baseUsageBytes'', skip_if (fsroll_base_usage_bytes x = None) (ser_opt ser_u64 (fsroll_base_usage_bytes x))),
      (''containter_inode_usage'', skip_if (fsroll_inode_usage x = None) (ser_opt ser_u64 (fsroll_inode_usage x)))]"

definition ser_filesystem_stats :: "filesystem_stats \<Rightarrow> jvalue" where
  "ser_filesystem_stats x = jobj (filesystem_stats_fields x)"

definition de_filesystem_stats :: "jvalue \<Rightarrow> filesystem_stats option" where
  "de_filesystem_stats j = do {
     m \<leftarrow> struct_map [''totalUsageBytes'', ''baseUsageBytes'', ''containter_inode_usage''] j;
     total_usage_bytes' \<leftarrow> wire_field m ''totalUsageBytes'' (de_opt de_u64) (fsroll_total_usage_bytes default_filesystem_stats);
     base_usage_bytes' \<leftarrow> wire_field m ''baseUsageBytes'' (de_opt de_u64) (fsroll_base_usage_bytes default_filesystem_stats);
     inode_usage' \<leftarrow> wire_field m ''containter_inode_usage'' (de_opt de_u64) (fsroll_inode_usage default_filesystem_stats);
     Some \<lparr>fsroll_total_usage_bytes = total_usage_bytes', fsroll_base_usage_bytes =
       base_usage_bytes', fsroll_inode_usage = inode_usage'\<rparr> }"

lemma filesystem_stats_distinct: "distinct (map fst (filesystem_stats_fields x))"
  by (simp add: filesystem_stats_fields_def)

lemma de_filesystem_stats_ser [wire]: "de_filesystem_stats (ser_filesystem_stats x) = Some x"
  unfolding de_filesystem_stats_def ser_filesystem_stats_def
    struct_read [OF filesystem_stats_distinct] wire_field_entries [OF filesystem_stats_distinct]
  by (simp add: filesystem_stats_fields_def default_filesystem_stats_def wire)

lemma keys_distinct_filesystem_stats [wire]: "keys_distinct (ser_filesystem_stats x)"
  unfolding ser_filesystem_stats_def
  by (rule keys_distinct_jobj [OF filesystem_stats_distinct])
    (simp add: filesystem_stats_fields_def wire)

lemma not_null_filesystem_stats [wire]: "ser_filesystem_stats x \<noteq> JNull"
  by (simp add: ser_filesystem_stats_def wire)

definition v2_container_stats_fields :: "(int \<Rightarrow> string) \<Rightarrow> v2_container_stats \<Rightarrow> wire_fields" where
  "v2_container_stats_fields stamp x =
     [(''timestamp'', Some (ser_time stamp (v2stats_timestamp x))),
      (''cpu'', skip_if (v2stats_cpu x = None) (ser_opt ser_cpu_stats (v2stats_cpu x))),
      (''cpu_inst'', skip_if (v2stats_cpu_inst x = None) (ser_opt ser_cpu_inst_stats (v2stats_cpu_inst x))),
      (''diskio'', skip_if (v2stats_disk_io x = None) (ser_opt ser_disk_io_stats (v2stats_disk_io x))),
      (''memory'', skip_if (v2stats_memory x = None) (ser_opt ser_memory_stats (v2stats_memory x))),
      (''hugetlb'', skip_if (v2stats_hugetlb x = None) (ser_opt (ser_map ser_hugetlb_stats) (v2stats_hugetlb x))),
      (''network'', skip_if (v2stats_network x = None) (ser_opt ser_v2_network_stats (v2stats_network x))),
      (''processes'', skip_if (v2stats_processes x = None) (ser_opt ser_process_stats (v2stats_processes x))),
      (''filesystem'', skip_if (v2stats_filesystem x = None) (ser_opt ser_filesystem_stats (v2stats_filesystem x))),
      (''load_stats'', skip_if (v2stats_load x = None) (ser_opt ser_load_stats (v2stats_load x))),
      (''accelerators'', skip_if (v2stats_accelerators x = []) (ser_list ser_accelerator_stats (v2stats_accelerators x))),
      (''custom_metrics'', skip_if (v2stats_custom_metrics x = []) (ser_map (ser_list (ser_metric_val stamp)) (v2stats_custom_metrics x))),
      (''perf_stats'', skip_if (v2stats_perf_stats x = []) (ser_list ser_perf_stat (v2stats_perf_stats x))),
      (''perf_uncore_stats'', skip_if (v2stats_perf_uncore_stats x = []) (ser_list ser_perf_uncore_stat (v2stats_perf_uncore_stats x))),
      (''referenced_memory'', skip_if (v2stats_referenced_memory x = 0) (ser_u64 (v2stats_referenced_memory x))),
      (''resctrl'', Some (ser_resctrl_stats (v2stats_resctrl x)))]"

definition ser_v2_container_stats :: "(int \<Rightarrow> string) \<Rightarrow> v2_container_stats \<Rightarrow> jvalue" where
  "ser_v2_container_stats stamp x = jobj (v2_container_stats_fields stamp x)"

definition de_v2_container_stats :: "(string \<Rightarrow> gotime option) \<Rightarrow> jvalue \<Rightarrow> v2_container_stats option" where
  "de_v2_container_stats rfc3339 j = do {
     m \<leftarrow> struct_map [''timestamp'', ''cpu'', ''cpu_inst'', ''diskio'', ''memory'', ''hugetlb'', ''network'',
        ''processes'', ''filesystem'', ''load_stats'', ''accelerators'', ''custom_metrics'',
        ''perf_stats'', ''perf_uncore_stats'', ''referenced_memory'', ''resctrl''] j;
     timestamp' \<leftarrow> wire_field m ''timestamp'' (de_time rfc3339) (v2stats_timestamp default_v2_container_stats);
     cpu' \<leftarrow> wire_field m ''cpu'' (de_opt de_cpu_stats) (v2stats_cpu default_v2_container_stats);
     cpu_inst' \<leftarrow> wire_field m ''cpu_inst'' (de_opt de_cpu_inst_stats) (v2stats_cpu_inst default_v2_container_stats);
     disk_io' \<leftarrow> wire_field m ''diskio'' (de_opt de_disk_io_stats) (v2stats_disk_io default_v2_container_stats);
     memory' \<leftarrow> wire_field m ''memory'' (de_opt de_memory_stats) (v2stats_memory default_v2_container_stats);
     hugetlb' \<leftarrow> wire_field m ''hugetlb'' (de_opt (de_map de_hugetlb_stats)) (v2stats_hugetlb default_v2_container_stats);
     network' \<leftarrow> wire_field m ''network'' (de_opt de_v2_network_stats) (v2stats_network default_v2_container_stats);
     processes' \<leftarrow> wire_field m ''processes'' (de_opt de_process_stats) (v2stats_processes default_v2_container_stats);
     filesystem' \<leftarrow> wire_field m ''filesystem'' (de_opt de_filesystem_stats) (v2stats_filesystem default_v2_container_stats);
     load' \<leftarrow> wire_field m ''load_stats'' (de_opt de_load_stats) (v2stats_load default_v2_container_stats);
     accelerators' \<leftarrow> wire_field m ''accelerators'' (de_list de_accelerator_stats) (v2stats_accelerators default_v2_container_stats);
     custom_metrics' \<leftarrow> wire_field m ''custom_metrics'' (de_map (de_list (de_metric_val rfc3339))) (v2stats_custom_metrics default_v2_container_stats);
     perf_stats' \<leftarrow> wire_field m ''perf_stats'' (de_list de_perf_stat) (v2stats_perf_stats default_v2_container_stats);
     perf_uncore_stats' \<leftarrow> wire_field m ''perf_uncore_stats'' (de_list de_perf_uncore_stat) (v2stats_perf_uncore_stats default_v2_container_stats);
     referenced_memory' \<leftarrow> wire_field m ''referenced_memory'' de_u64 (v2stats_referenced_memory default_v2_container_stats);
     resctrl' \<leftarrow> wire_field m ''resctrl'' de_resctrl_stats (v2stats_resctrl default_v2_container_stats);
     Some \<lparr>v2stats_timestamp = timestamp', v2stats_cpu = cpu', v2stats_cpu_inst = cpu_inst',
       v2stats_disk_io = disk_io', v2stats_memory = memory', v2stats_hugetlb = hugetlb',
       v2stats_network = network', v2stats_processes = processes', v2stats_filesystem =
       filesystem', v2stats_load = load', v2stats_accelerators = accelerators',
       v2stats_custom_metrics = custom_metrics', v2stats_perf_stats = perf_stats',
       v2stats_perf_uncore_stats = perf_uncore_stats', v2stats_referenced_memory =
       referenced_memory', v2stats_resctrl = resctrl'\<rparr> }"

definition ok_v2_container_stats :: "(int \<Rightarrow> string) \<Rightarrow> v2_container_stats \<Rightarrow> bool" where
  "ok_v2_container_stats stamp x \<longleftrightarrow>
     stamp_ok stamp (whole_second (v2stats_timestamp x)) \<and>
     (\<forall>y \<in> set_option (v2stats_cpu x). ok_cpu_stats y) \<and>
     (\<forall>y \<in> set_option (v2stats_disk_io x). ok_disk_io_stats y) \<and>
     (\<forall>y \<in> set_option (v2stats_memory x). ok_memory_stats y) \<and>
     (\<forall>y \<in> set_option (v2stats_hugetlb x). bt_wf y) \<and>
     (\<forall>y \<in> set_option (v2stats_network x). ok_v2_network_stats y) \<and>
     (\<forall>y \<in> set_option (v2stats_processes x). ok_process_stats y) \<and>
     bt_wf (v2stats_custom_metrics x) \<and>
     (\<forall>y \<in> set (v2stats_custom_metrics x). (\<forall>z \<in> set (snd y). ok_metric_val stamp z)) \<and>
     (\<forall>y \<in> set (v2stats_perf_stats x). ok_perf_stat y) \<and>
     (\<forall>y \<in> set (v2stats_perf_uncore_stats x). ok_perf_uncore_stat y)"

lemma v2_container_stats_distinct: "distinct (map fst (v2_container_stats_fields stamp x))"
  by (simp add: v2_container_stats_fields_def)

lemma de_v2_container_stats_ser [wire]: "rfc3339_ok rfc3339 \<Longrightarrow> ok_v2_container_stats stamp x \<Longrightarrow> de_v2_container_stats rfc3339 (ser_v2_container_stats stamp x) = Some x"
  unfolding de_v2_container_stats_def ser_v2_container_stats_def
    struct_read [OF v2_container_stats_distinct] wire_field_entries [OF v2_container_stats_distinct]
  by (simp add: v2_container_stats_fields_def ok_v2_container_stats_def default_v2_container_stats_def wire)

lemma keys_distinct_v2_container_stats [wire]: "ok_v2_container_stats stamp x \<Longrightarrow> keys_distinct (ser_v2_container_stats stamp x)"
  unfolding ser_v2_container_stats_def
  by (rule keys_distinct_jobj [OF v2_container_stats_distinct])
    (simp add: v2_container_stats_fields_def ok_v2_container_stats_def wire)

definition v2_container_info_fields :: "(int \<Rightarrow> string) \<Rightarrow> v2_container_info \<Rightarrow> wire_fields" where
  "v2_container_info_fields stamp x =
     [(''spec'', Some (ser_v2_container_spec stamp (v2info_spec x))),
      (''stats'', skip_if (v2info_stats x = []) (ser_list (ser_v2_container_stats stamp) (v2info_stats x)))]"

definition ser_v2_container_info :: "(int \<Rightarrow> string) \<Rightarrow> v2_container_info \<Rightarrow> jvalue" where
  "ser_v2_container_info stamp x = jobj (v2_container_info_fields stamp x)"

definition de_v2_container_info :: "(string \<Rightarrow> gotime option) \<Rightarrow> jvalue \<Rightarrow> v2_container_info option" where
  "de_v2_container_info rfc3339 j = do {
     m \<leftarrow> struct_map [''spec'', ''stats''] j;
     spec' \<leftarrow> wire_field m ''spec'' (de_v2_container_spec rfc3339) (v2info_spec default_v2_container_info);
     stats' \<leftarrow> wire_field m ''stats'' (de_list (de_v2_container_stats rfc3339)) (v2info_stats default_v2_container_info);
     Some \<lparr>v2info_spec = spec', v2info_stats = stats'\<rparr> }"

definition ok_v2_container_info :: "(int \<Rightarrow> string) \<Rightarrow> v2_container_info \<Rightarrow> bool" where
  "ok_v2_container_info stamp x \<longleftrightarrow>
     ok_v2_container_spec stamp (v2info_spec x) \<and>
     (\<forall>y \<in> set (v2info_stats x). ok_v2_container_stats stamp y)"

lemma v2_container_info_distinct: "distinct (map fst (v2_container_info_fields stamp x))"
  by (simp add: v2_container_info_fields_def)

lemma de_v2_container_info_ser [wire]: "rfc3339_ok rfc3339 \<Longrightarrow> ok_v2_container_info stamp x \<Longrightarrow> de_v2_container_info rfc3339 (ser_v2_container_info stamp x) = Some x"
  unfolding de_v2_container_info_def ser_v2_container_info_def
    struct_read [OF v2_container_info_distinct] wire_field_entries [OF v2_container_info_distinct]
  by (simp add: v2_container_info_fields_def ok_v2_container_info_def default_v2_container_info_def wire)

lemma keys_distinct_v2_container_info [wire]: "ok_v2_container_info stamp x \<Longrightarrow> keys_distinct (ser_v2_container_info stamp x)"
  unfolding ser_v2_container_info_def
  by (rule keys_distinct_jobj [OF v2_container_info_distinct])
    (simp add: v2_container_info_fields_def ok_v2_container_info_def wire)

definition attributes_fields :: "attributes \<Rightarrow> wire_fields" where
  "attributes_fields x =
     [(''kernel_version'', Some (ser_str (attr_kernel_version x))),
      (''container_os_version'', Some (ser_str (attr_container_os_version x))),
      (''docker_version'', Some (ser_str (attr_docker_version x))),
      (''docker_api_version'', Some (ser_str (attr_docker_api_version x))),
      (''cadvisor_version'', Some (ser_str (attr_cadvisor_version x))),
      (''num_cores'', Some (ser_int (attr_num_cores x))),
      (''cpu_frequency_khz'', Some (ser_u64 (attr_cpu_frequency x))),
      (''memory_capacity'', Some (ser_u64 (attr_memory_capacity x))),
      (''machine_id'', Some (ser_str (attr_machine_id x))),
      (''system_uuid'', Some (ser_str (attr_system_uuid x))),
      (''hugepages'', Some (ser_list ser_huge_pages_info (attr_huge_pages x))),
      (''filesystems'', Some (ser_list ser_filesystem_info (attr_filesystems x))),
      (''disk_map'', Some (ser_map ser_disk_info (attr_disk_map x))),
      (''network_devices'', Some (ser_list ser_net_info (attr_network_devices x))),
      (''topology'', Some (ser_list ser_numa_node (attr_topology x))),
      (''cloud_provider'', Some (ser_str (attr_cloud_provider x))),
      (''instance_type'', Some (ser_str (attr_instance_type x)))]"

definition ser_attributes :: "attributes \<Rightarrow> jvalue" where
  "ser_attributes x = jobj (attributes_fields x)"

definition de_attributes :: "jvalue \<Rightarrow> attributes option" where
  "de_attributes j = do {
     m \<leftarrow> struct_map [''kernel_version'', ''container_os_version'', ''docker_version'', ''docker_api_version'',
        ''cadvisor_version'', ''num_cores'', ''cpu_frequency_khz'', ''memory_capacity'',
        ''machine_id'', ''system_uuid'', ''hugepages'', ''filesystems'', ''disk_map'',
        ''network_devices'', ''topology'', ''cloud_provider'', ''instance_type''] j;
     kernel_version' \<leftarrow> wire_field m ''kernel_version'' de_str (attr_kernel_version default_attributes);
     container_os_version' \<leftarrow> wire_field m ''container_os_version'' de_str (attr_container_os_version default_attributes);
     docker_version' \<leftarrow> wire_field m ''docker_version'' de_str (attr_docker_version default_attributes);
     docker_api_version' \<leftarrow> wire_field m ''docker_api_version'' de_str (attr_docker_api_version default_attributes);
     cadvisor_version' \<leftarrow> wire_field m ''cadvisor_version'' de_str (attr_cadvisor_version default_attributes);
     num_cores' \<leftarrow> wire_field m ''num_cores'' de_i64 (attr_num_cores default_attributes);
     cpu_frequency' \<leftarrow> wire_field m ''cpu_frequency_khz'' de_u64 (attr_cpu_frequency default_attributes);
     memory_capacity' \<leftarrow> wire_field m ''memory_capacity'' de_u64 (attr_memory_capacity default_attributes);
     machine_id' \<leftarrow> wire_field m ''machine_id'' de_str (attr_machine_id default_attributes);
     system_uuid' \<leftarrow> wire_field m ''system_uuid'' de_str (attr_system_uuid default_attributes);
     huge_pages' \<leftarrow> wire_field m ''hugepages'' (de_list de_huge_pages_info) (attr_huge_pages default_attributes);
     filesystems' \<leftarrow> wire_field m ''filesystems'' (de_list de_filesystem_info) (attr_filesystems default_attributes);
     disk_map' \<leftarrow> wire_field m ''disk_map'' (de_map de_disk_info) (attr_disk_map default_attributes);
     network_devices' \<leftarrow> wire_field m ''network_devices'' (de_list de_net_info) (attr_network_devices default_attributes);
     topology' \<leftarrow> wire_field m ''topology'' (de_list de_numa_node) (attr_topology default_attributes);
     cloud_provider' \<leftarrow> wire_field m ''cloud_provider'' de_str (attr_cloud_provider default_attributes);
     instance_type' \<leftarrow> wire_field m ''instance_type'' de_str (attr_instance_type default_attributes);
     Some \<lparr>attr_kernel_version = kernel_version', attr_container_os_version =
       container_os_version', attr_docker_version = docker_version', attr_docker_api_version =
       docker_api_version', attr_cadvisor_version = cadvisor_version', attr_num_cores =
       num_cores', attr_cpu_frequency = cpu_frequency', attr_memory_capacity = memory_capacity',
       attr_machine_id = machine_id', attr_system_uuid = system_uuid', attr_huge_pages =
       huge_pages', attr_filesystems = filesystems', attr_disk_map = disk_map',
       attr_network_devices = network_devices', attr_topology = topology', attr_cloud_provider =
       cloud_provider', attr_instance_type = instance_type'\<rparr> }"

definition ok_attributes :: "attributes \<Rightarrow> bool" where
  "ok_attributes x \<longleftrightarrow>
     in_i64 (attr_num_cores x) \<and>
     (\<forall>y \<in> set (attr_filesystems x). ok_filesystem_info y) \<and>
     bt_wf (attr_disk_map x) \<and>
     (\<forall>y \<in> set (attr_network_devices x). ok_net_info y) \<and>
     (\<forall>y \<in> set (attr_topology x). ok_numa_node y)"

lemma attributes_distinct: "distinct (map fst (attributes_fields x))"
  by (simp add: attributes_fields_def)

lemma de_attributes_ser [wire]: "ok_attributes x \<Longrightarrow> de_attributes (ser_attributes x) = Some x"
  unfolding de_attributes_def ser_attributes_def
    struct_read [OF attributes_distinct] wire_field_entries [OF attributes_distinct]
  by (simp add: attributes_fields_def ok_attributes_def default_attributes_def wire)

lemma keys_distinct_attributes [wire]: "ok_attributes x \<Longrightarrow> keys_distinct (ser_attributes x)"
  unfolding ser_attributes_def
  by (rule keys_distinct_jobj [OF attributes_distinct])
    (simp add: attributes_fields_def ok_attributes_def wire)

definition disk_stats_row_fields :: "disk_stats_row \<Rightarrow> wire_fields" where
  "disk_stats_row_fields x =
     [(''reads_completed'', skip_if (dstats_reads_completed x = None) (ser_opt ser_u64 (dstats_reads_completed x))),
      (''reads_merged'', skip_if (dstats_reads_merged x = None) (ser_opt ser_u64 (dstats_reads_merged x))),
      (''sectors_read'', skip_if (dstats_sectors_read x = None) (ser_opt ser_u64 (dstats_sectors_read x))),
      (''read_duration'', skip_if (dstats_read_duration x = None) (ser_opt ser_int (dstats_read_duration x))),
      (''writes_completed'', skip_if (dstats_writes_completed x = None) (ser_opt ser_u64 (dstats_writes_completed x))),
      (''writes_merged'', skip_if (dstats_writes_merged x = None) (ser_opt ser_u64 (dstats_writes_merged x))),
      (''sectors_written'', skip_if (dstats_sectors_written x = None) (ser_opt ser_u64 (dstats_sectors_written x))),
      (''write_duration'', skip_if (dstats_write_duration x = None) (ser_opt ser_int (dstats_write_duration x))),
      (''io_in_progress'', skip_if (dstats_io_in_progress x = None) (ser_opt ser_u64 (dstats_io_in_progress x))),
      (''io_duration'', skip_if (dstats_io_duration x = None) (ser_opt ser_int (dstats_io_duration x))),
      (''weighted_io_duration'', skip_if (dstats_weighted_io_duration x = None) (ser_opt ser_int (dstats_weighted_io_duration x)))]"

definition ser_disk_stats_row :: "disk_stats_row \<Rightarrow> jvalue" where
  "ser_disk_stats_row x = jobj (disk_stats_row_fields x)"

definition de_disk_stats_row :: "jvalue \<Rightarrow> disk_stats_row option" where
  "de_disk_stats_row j = do {
     m \<leftarrow> struct_map [''reads_completed'', ''reads_merged'', ''sectors_read'', ''read_duration'',
        ''writes_completed'', ''writes_merged'', ''sectors_written'', ''write_duration'',
        ''io_in_progress'', ''io_duration'', ''weighted_io_duration''] j;
     reads_completed' \<leftarrow> wire_field m ''reads_completed'' (de_opt de_u64) (dstats_reads_completed default_disk_stats_row);
     reads_merged' \<leftarrow> wire_field m ''reads_merged'' (de_opt de_u64) (dstats_reads_merged default_disk_stats_row);
     sectors_read' \<leftarrow> wire_field m ''sectors_read'' (de_opt de_u64) (dstats_sectors_read default_disk_stats_row);
     read_duration' \<leftarrow> wire_field m ''read_duration'' (de_opt de_i64) (dstats_read_duration default_disk_stats_row);
     writes_completed' \<leftarrow> wire_field m ''writes_completed'' (de_opt de_u64) (dstats_writes_completed default_disk_stats_row);
     writes_merged' \<leftarrow> wire_field m ''writes_merged'' (de_opt de_u64) (dstats_writes_merged default_disk_stats_row);
     sectors_written' \<leftarrow> wire_field m ''sectors_written'' (de_opt de_u64) (dstats_sectors_written default_disk_stats_row);
     write_duration' \<leftarrow> wire_field m ''write_duration'' (de_opt de_i64) (dstats_write_duration default_disk_stats_row);
     io_in_progress' \<leftarrow> wire_field m ''io_in_progress'' (de_opt de_u64) (dstats_io_in_progress default_disk_stats_row);
     io_duration' \<leftarrow> wire_field m ''io_duration'' (de_opt de_i64) (dstats_io_duration default_disk_stats_row);
     weighted_io_duration' \<leftarrow> wire_field m ''weighted_io_duration'' (de_opt de_i64) (dstats_weighted_io_duration default_disk_stats_row);
     Some \<lparr>dstats_reads_completed = reads_completed', dstats_reads_merged = reads_merged',
       dstats_sectors_read = sectors_read', dstats_read_duration = read_duration',
       dstats_writes_completed = writes_completed', dstats_writes_merged = writes_merged',
       dstats_sectors_written = sectors_written', dstats_write_duration = write_duration',
       dstats_io_in_progress = io_in_progress', dstats_io_duration = io_duration',
       dstats_weighted_io_duration = weighted_io_duration'\<rparr> }"

definition ok_disk_stats_row :: "disk_stats_row \<Rightarrow> bool" where
  "ok_disk_stats_row x \<longleftrightarrow>
     (\<forall>y \<in> set_option (dstats_read_duration x). in_i64 y) \<and>
     (\<forall>y \<in> set_option (dstats_write_duration x). in_i64 y) \<and>
     (\<forall>y \<in> set_option (dstats_io_duration x). in_i64 y) \<and>
     (\<forall>y \<in> set_option (dstats_weighted_io_duration x). in_i64 y)"

lemma disk_stats_row_distinct: "distinct (map fst (disk_stats_row_fields x))"
  by (simp add: disk_stats_row_fields_def)

lemma de_disk_stats_row_ser [wire]: "ok_disk_stats_row x \<Longrightarrow> de_disk_stats_row (ser_disk_stats_row x) = Some x"
  unfolding de_disk_stats_row_def ser_disk_stats_row_def
    struct_read [OF disk_stats_row_distinct] wire_field_entries [OF disk_stats_row_distinct]
  by (simp add: disk_stats_row_fields_def ok_disk_stats_row_def default_disk_stats_row_def wire)

lemma keys_distinct_disk_stats_row [wire]: "ok_disk_stats_row x \<Longrightarrow> keys_distinct (ser_disk_stats_row x)"
  unfolding ser_disk_stats_row_def
  by (rule keys_distinct_jobj [OF disk_stats_row_distinct])
    (simp add: disk_stats_row_fields_def ok_disk_stats_row_def wire)

definition machine_fs_stats_row_fields :: "machine_fs_stats_row \<Rightarrow> wire_fields" where
  "machine_fs_stats_row_fields x =
     [(''device'', Some (ser_str (mfs_device x))),
      (''type'', Some (ser_str (mfs_fs_type x))),
      (''capacity'', skip_if (mfs_capacity x = None) (ser_opt ser_u64 (mfs_capacity x))),
      (''usage'', skip_if (mfs_usage x = None) (ser_opt ser_u64 (mfs_usage x))),
      (''available'', skip_if (mfs_available x = None) (ser_opt ser_u64 (mfs_available x))),
      (''inodes_free'', skip_if (mfs_inodes_free x = None) (ser_opt ser_u64 (mfs_inodes_free x))),
      (''inline'', Some (ser_disk_stats_row (mfs_disk_stats x)))]"

definition ser_machine_fs_stats_row :: "machine_fs_stats_row \<Rightarrow> jvalue" where
  "ser_machine_fs_stats_row x = jobj (machine_fs_stats_row_fields x)"

definition de_machine_fs_stats_row :: "jvalue \<Rightarrow> machine_fs_stats_row option" where
  "de_machine_fs_stats_row j = do {
     m \<leftarrow> struct_map [''device'', ''type'', ''capacity'', ''usage'', ''available'', ''inodes_free'',
        ''inline''] j;
     device' \<leftarrow> wire_field m ''device'' de_str (mfs_device default_machine_fs_stats_row);
     fs_type' \<leftarrow> wire_field m ''type'' de_str (mfs_fs_type default_machine_fs_stats_row);
     capacity' \<leftarrow> wire_field m ''capacity'' (de_opt de_u64) (mfs_capacity default_machine_fs_stats_row);
     usage' \<leftarrow> wire_field m ''usage'' (de_opt de_u64) (mfs_usage default_machine_fs_stats_row);
     available' \<leftarrow> wire_field m ''available'' (de_opt de_u64) (mfs_available default_machine_fs_stats_row);
     inodes_free' \<leftarrow> wire_field m ''inodes_free'' (de_opt de_u64) (mfs_inodes_free default_machine_fs_stats_row);
     disk_stats' \<leftarrow> wire_field m ''inline'' de_disk_stats_row (mfs_disk_stats default_machine_fs_stats_row);
     Some \<lparr>mfs_device = device', mfs_fs_type = fs_type', mfs_capacity = capacity', mfs_usage =
       usage', mfs_available = available', mfs_inodes_free = inodes_free', mfs_disk_stats =
       disk_stats'\<rparr> }"

definition ok_machine_fs_stats_row :: "machine_fs_stats_row \<Rightarrow> bool" where
  "ok_machine_fs_stats_row x \<longleftrightarrow>
     ok_disk_stats_row (mfs_disk_stats x)"

lemma machine_fs_stats_row_distinct: "distinct (map fst (machine_fs_stats_row_fields x))"
  by (simp add: machine_fs_stats_row_fields_def)

lemma de_machine_fs_stats_row_ser [wire]: "ok_machine_fs_stats_row x \<Longrightarrow> de_machine_fs_stats_row (ser_machine_fs_stats_row x) = Some x"
  unfolding de_machine_fs_stats_row_def ser_machine_fs_stats_row_def
    struct_read [OF machine_fs_stats_row_distinct] wire_field_entries [OF machine_fs_stats_row_distinct]
  by (simp add: machine_fs_stats_row_fields_def ok_machine_fs_stats_row_def default_machine_fs_stats_row_def wire)

lemma keys_distinct_machine_fs_stats_row [wire]: "ok_machine_fs_stats_row x \<Longrightarrow> keys_distinct (ser_machine_fs_stats_row x)"
  unfolding ser_machine_fs_stats_row_def
  by (rule keys_distinct_jobj [OF machine_fs_stats_row_distinct])
    (simp add: machine_fs_stats_row_fields_def ok_machine_fs_stats_row_def wire)

definition machine_stats_fields :: "(int \<Rightarrow> string) \<Rightarrow> machine_stats \<Rightarrow> wire_fields" where
  "machine_stats_fields stamp x =
     [(''timestamp'', Some (ser_time stamp (mstats_timestamp x))),
      (''cpu'', skip_if (mstats_cpu x = None) (ser_opt ser_cpu_stats (mstats_cpu x))),
      (''cpu_inst'', skip_if (mstats_cpu_inst x = None) (ser_opt ser_cpu_inst_stats (mstats_cpu_inst x))),
      (''memory'', skip_if (mstats_memory x = None) (ser_opt ser_memory_stats (mstats_memory x))),
      (''network'', skip_if (mstats_network x = None) (ser_opt ser_v2_network_stats (mstats_network x))),
      (''filesystem'', skip_if (mstats_filesystem x = []) (ser_list ser_machine_fs_stats_row (mstats_filesystem x))),
      (''load_stats'', skip_if (mstats_load x = None) (ser_opt ser_load_stats (mstats_load x)))]"

definition ser_machine_stats :: "(int \<Rightarrow> string) \<Rightarrow> machine_stats \<Rightarrow> jvalue" where
  "ser_machine_stats stamp x = jobj (machine_stats_fields stamp x)"

definition de_machine_stats :: "(string \<Rightarrow> gotime option) \<Rightarrow> jvalue \<Rightarrow> machine_stats option" where
  "de_machine_stats rfc3339 j = do {
     m \<leftarrow> struct_map [''timestamp'', ''cpu'', ''cpu_inst'', ''memory'', ''network'', ''filesystem'',
        ''load_stats''] j;
     timestamp' \<leftarrow> wire_field m ''timestamp'' (de_time rfc3339) (mstats_timestamp default_machine_stats);
     cpu' \<leftarrow> wire_field m ''cpu'' (de_opt de_cpu_stats) (mstats_cpu default_machine_stats);
     cpu_inst' \<leftarrow> wire_field m ''cpu_inst'' (de_opt de_cpu_inst_stats) (mstats_cpu_inst default_machine_stats);
     memory' \<leftarrow> wire_field m ''memory'' (de_opt de_memory_stats) (mstats_memory default_machine_stats);
     network' \<leftarrow> wire_field m ''network'' (de_opt de_v2_network_stats) (mstats_network default_machine_stats);
     filesystem' \<leftarrow> wire_field m ''filesystem'' (de_list de_machine_fs_stats_row) (mstats_filesystem default_machine_stats);
     load' \<leftarrow> wire_field m ''load_stats'' (de_opt de_load_stats) (mstats_load default_machine_stats);
     Some \<lparr>mstats_timestamp = timestamp', mstats_cpu = cpu', mstats_cpu_inst = cpu_inst',
       mstats_memory = memory', mstats_network = network', mstats_filesystem = filesystem',
       mstats_load = load'\<rparr> }"

definition ok_machine_stats :: "(int \<Rightarrow> string) \<Rightarrow> machine_stats \<Rightarrow> bool" where
  "ok_machine_stats stamp x \<longleftrightarrow>
     stamp_ok stamp (whole_second (mstats_timestamp x)) \<and>
     (\<forall>y \<in> set_option (mstats_cpu x). ok_cpu_stats y) \<and>
     (\<forall>y \<in> set_option (mstats_memory x). ok_memory_stats y) \<and>
     (\<forall>y \<in> set_option (mstats_network x). ok_v2_network_stats y) \<and>
     (\<forall>y \<in> set (mstats_filesystem x). ok_machine_fs_stats_row y)"

lemma machine_stats_distinct: "distinct (map fst (machine_stats_fields stamp x))"
  by (simp add: machine_stats_fields_def)

lemma de_machine_stats_ser [wire]: "rfc3339_ok rfc3339 \<Longrightarrow> ok_machine_stats stamp x \<Longrightarrow> de_machine_stats rfc3339 (ser_machine_stats stamp x) = Some x"
  unfolding de_machine_stats_def ser_machine_stats_def
    struct_read [OF machine_stats_distinct] wire_field_entries [OF machine_stats_distinct]
  by (simp add: machine_stats_fields_def ok_machine_stats_def default_machine_stats_def wire)

lemma keys_distinct_machine_stats [wire]: "ok_machine_stats stamp x \<Longrightarrow> keys_distinct (ser_machine_stats stamp x)"
  unfolding ser_machine_stats_def
  by (rule keys_distinct_jobj [OF machine_stats_distinct])
    (simp add: machine_stats_fields_def ok_machine_stats_def wire)

definition process_info_fields :: "process_info \<Rightarrow> wire_fields" where
  "process_info_fields x =
     [(''user'', Some (ser_str (pinfo_user x))),
      (''pid'', Some (ser_int (pinfo_pid x))),
      (''parent_pid'', Some (ser_int (pinfo_ppid x))),
      (''start_time'', Some (ser_str (pinfo_start_time x))),
      (''percent_cpu'', Some (ser_f64 (pinfo_percent_cpu x))),
      (''percent_mem'', Some (ser_f64 (pinfo_percent_memory x))),
      (''rss'', Some (ser_u64 (pinfo_rss x))),
      (''virtual_size'', Some (ser_u64 (pinfo_virtual_size x))),
      (''status'', Some (ser_str (pinfo_status x))),
      (''running_time'', Some (ser_str (pinfo_running_time x))),
      (''cgroup_path'', Some (ser_str (pinfo_cgroup_path x))),
      (''cmd'', Some (ser_str (pinfo_cmd x))),
      (''fd_count'', Some (ser_int (pinfo_fd_count x))),
      (''psr'', Some (ser_int (pinfo_psr x)))]"

definition ser_process_info :: "process_info \<Rightarrow> jvalue" where
  "ser_process_info x = jobj (process_info_fields x)"

definition de_process_info :: "jvalue \<Rightarrow> process_info option" where
  "de_process_info j = do {
     m \<leftarrow> struct_map [''user'', ''pid'', ''parent_pid'', ''start_time'', ''percent_cpu'', ''percent_mem'',
        ''rss'', ''virtual_size'', ''status'', ''running_time'', ''cgroup_path'', ''cmd'',
        ''fd_count'', ''psr''] j;
     user' \<leftarrow> wire_field m ''user'' de_str (pinfo_user default_process_info);
     pid' \<leftarrow> wire_field m ''pid'' de_i64 (pinfo_pid default_process_info);
     ppid' \<leftarrow> wire_field m ''parent_pid'' de_i64 (pinfo_ppid default_process_info);
     start_time' \<leftarrow> wire_field m ''start_time'' de_str (pinfo_start_time default_process_info);
     percent_cpu' \<leftarrow> wire_field m ''percent_cpu'' de_f64 (pinfo_percent_cpu default_process_info);
     percent_memory' \<leftarrow> wire_field m ''percent_mem'' de_f64 (pinfo_percent_memory default_process_info);
     rss' \<leftarrow> wire_field m ''rss'' de_u64 (pinfo_rss default_process_info);
     virtual_size' \<leftarrow> wire_field m ''virtual_size'' de_u64 (pinfo_virtual_size default_process_info);
     status' \<leftarrow> wire_field m ''status'' de_str (pinfo_status default_process_info);
     running_time' \<leftarrow> wire_field m ''running_time'' de_str (pinfo_running_time default_process_info);
     cgroup_path' \<leftarrow> wire_field m ''cgroup_path'' de_str (pinfo_cgroup_path default_process_info);
     cmd' \<leftarrow> wire_field m ''cmd'' de_str (pinfo_cmd default_process_info);
     fd_count' \<leftarrow> wire_field m ''fd_count'' de_i64 (pinfo_fd_count default_process_info);
     psr' \<leftarrow> wire_field m ''psr'' de_i64 (pinfo_psr default_process_info);
     Some \<lparr>pinfo_user = user', pinfo_pid = pid', pinfo_ppid = ppid', pinfo_start_time =
       start_time', pinfo_percent_cpu = percent_cpu', pinfo_percent_memory = percent_memory',
       pinfo_rss = rss', pinfo_virtual_size = virtual_size', pinfo_status = status',
       pinfo_running_time = running_time', pinfo_cgroup_path = cgroup_path', pinfo_cmd = cmd',
       pinfo_fd_count = fd_count', pinfo_psr = psr'\<rparr> }"

definition ok_process_info :: "process_info \<Rightarrow> bool" where
  "ok_process_info x \<longleftrightarrow>
     in_i64 (pinfo_pid x) \<and>
     in_i64 (pinfo_ppid x) \<and>
     finite64 (pinfo_percent_cpu x) \<and>
     finite64 (pinfo_percent_memory x) \<and>
     in_i64 (pinfo_fd_count x) \<and>
     in_i64 (pinfo_psr x)"

lemma process_info_distinct: "distinct (map fst (process_info_fields x))"
  by (simp add: process_info_fields_def)

lemma de_process_info_ser [wire]: "ok_process_info x \<Longrightarrow> de_process_info (ser_process_info x) = Some x"
  unfolding de_process_info_def ser_process_info_def
    struct_read [OF process_info_distinct] wire_field_entries [OF process_info_distinct]
  by (simp add: process_info_fields_def ok_process_info_def default_process_info_def wire)

lemma keys_distinct_process_info [wire]: "ok_process_info x \<Longrightarrow> keys_distinct (ser_process_info x)"
  unfolding ser_process_info_def
  by (rule keys_distinct_jobj [OF process_info_distinct])
    (simp add: process_info_fields_def ok_process_info_def wire)

definition percentiles_fields :: "percentiles \<Rightarrow> wire_fields" where
  "percentiles_fields x =
     [(''present'', Some (ser_bool (pct_present x))),
      (''mean'', Some (ser_u64 (pct_mean x))),
      (''max'', Some (ser_u64 (pct_max x))),
      (''fifty'', Some (ser_u64 (pct_fifty x))),
      (''ninety'', Some (ser_u64 (pct_ninety x))),
      (''ninetyfive'', Some (ser_u64 (pct_ninety_five x)))]"

definition ser_percentiles :: "percentiles \<Rightarrow> jvalue" where
  "ser_percentiles x = jobj (percentiles_fields x)"

definition de_percentiles :: "jvalue \<Rightarrow> percentiles option" where
  "de_percentiles j = do {
     m \<leftarrow> struct_map [''present'', ''mean'', ''max'', ''fifty'', ''ninety'', ''ninetyfive''] j;
     present' \<leftarrow> wire_field m ''present'' de_bool (pct_present default_percentiles);
     mean' \<leftarrow> wire_field m ''mean'' de_u64 (pct_mean default_percentiles);
     max' \<leftarrow> wire_field m ''max'' de_u64 (pct_max default_percentiles);
     fifty' \<leftarrow> wire_field m ''fifty'' de_u64 (pct_fifty default_percentiles);
     ninety' \<leftarrow> wire_field m ''ninety'' de_u64 (pct_ninety default_percentiles);
     ninety_five' \<leftarrow> wire_field m ''ninetyfive'' de_u64 (pct_ninety_five default_percentiles);
     Some \<lparr>pct_present = present', pct_mean = mean', pct_max = max', pct_fifty = fifty',
       pct_ninety = ninety', pct_ninety_five = ninety_five'\<rparr> }"

lemma percentiles_distinct: "distinct (map fst (percentiles_fields x))"
  by (simp add: percentiles_fields_def)

lemma de_percentiles_ser [wire]: "de_percentiles (ser_percentiles x) = Some x"
  unfolding de_percentiles_def ser_percentiles_def
    struct_read [OF percentiles_distinct] wire_field_entries [OF percentiles_distinct]
  by (simp add: percentiles_fields_def default_percentiles_def wire)

lemma keys_distinct_percentiles [wire]: "keys_distinct (ser_percentiles x)"
  unfolding ser_percentiles_def
  by (rule keys_distinct_jobj [OF percentiles_distinct])
    (simp add: percentiles_fields_def wire)

definition usage_summary_fields :: "usage_summary \<Rightarrow> wire_fields" where
  "usage_summary_fields x =
     [(''percent_complete'', Some (ser_int (use_percent_complete x))),
      (''cpu'', Some (ser_percentiles (use_cpu x))),
      (''memory'', Some (ser_percentiles (use_memory x)))]"

definition ser_usage_summary :: "usage_summary \<Rightarrow> jvalue" where
  "ser_usage_summary x = jobj (usage_summary_fields x)"

definition de_usage_summary :: "jvalue \<Rightarrow> usage_summary option" where
  "de_usage_summary j = do {
     m \<leftarrow> struct_map [''percent_complete'', ''cpu'', ''memory''] j;
     percent_complete' \<leftarrow> wire_field m ''percent_complete'' de_i32 (use_percent_complete default_usage_summary);
     cpu' \<leftarrow> wire_field m ''cpu'' de_percentiles (use_cpu default_usage_summary);
     memory' \<leftarrow> wire_field m ''memory'' de_percentiles (use_memory default_usage_summary);
     Some \<lparr>use_percent_complete = percent_complete', use_cpu = cpu', use_memory = memory'\<rparr> }"

definition ok_usage_summary :: "usage_summary \<Rightarrow> bool" where
  "ok_usage_summary x \<longleftrightarrow>
     in_i32 (use_percent_complete x)"

lemma usage_summary_distinct: "distinct (map fst (usage_summary_fields x))"
  by (simp add: usage_summary_fields_def)

lemma de_usage_summary_ser [wire]: "ok_usage_summary x \<Longrightarrow> de_usage_summary (ser_usage_summary x) = Some x"
  unfolding de_usage_summary_def ser_usage_summary_def
    struct_read [OF usage_summary_distinct] wire_field_entries [OF usage_summary_distinct]
  by (simp add: usage_summary_fields_def ok_usage_summary_def default_usage_summary_def wire)

lemma keys_distinct_usage_summary [wire]: "ok_usage_summary x \<Longrightarrow> keys_distinct (ser_usage_summary x)"
  unfolding ser_usage_summary_def
  by (rule keys_distinct_jobj [OF usage_summary_distinct])
    (simp add: usage_summary_fields_def ok_usage_summary_def wire)

definition instant_usage_fields :: "instant_usage \<Rightarrow> wire_fields" where
  "instant_usage_fields x =
     [(''cpu'', Some (ser_u64 (instuse_cpu x))),
      (''memory'', Some (ser_u64 (instuse_memory x)))]"

definition ser_instant_usage :: "instant_usage \<Rightarrow> jvalue" where
  "ser_instant_usage x = jobj (instant_usage_fields x)"

definition de_instant_usage :: "jvalue \<Rightarrow> instant_usage option" where
  "de_instant_usage j = do {
     m \<leftarrow> struct_map [''cpu'', ''memory''] j;
     cpu' \<leftarrow> wire_field m ''cpu'' de_u64 (instuse_cpu default_instant_usage);
     memory' \<leftarrow> wire_field m ''memory'' de_u64 (instuse_memory default_instant_usage);
     Some \<lparr>instuse_cpu = cpu', instuse_memory = memory'\<rparr> }"

lemma instant_usage_distinct: "distinct (map fst (instant_usage_fields x))"
  by (simp add: instant_usage_fields_def)

lemma de_instant_usage_ser [wire]: "de_instant_usage (ser_instant_usage x) = Some x"
  unfolding de_instant_usage_def ser_instant_usage_def
    struct_read [OF instant_usage_distinct] wire_field_entries [OF instant_usage_distinct]
  by (simp add: instant_usage_fields_def default_instant_usage_def wire)

lemma keys_distinct_instant_usage [wire]: "keys_distinct (ser_instant_usage x)"
  unfolding ser_instant_usage_def
  by (rule keys_distinct_jobj [OF instant_usage_distinct])
    (simp add: instant_usage_fields_def wire)

definition derived_stats_row_fields :: "(int \<Rightarrow> string) \<Rightarrow> derived_stats_row \<Rightarrow> wire_fields" where
  "derived_stats_row_fields stamp x =
     [(''timestamp'', Some (ser_time stamp (derived_timestamp x))),
      (''latest_usage'', Some (ser_instant_usage (derived_latest_usage x))),
      (''minute_usage'', Some (ser_usage_summary (derived_minute_usage x))),
      (''hour_usage'', Some (ser_usage_summary (derived_hour_usage x))),
      (''day_usage'', Some (ser_usage_summary (derived_day_usage x)))]"

definition ser_derived_stats_row :: "(int \<Rightarrow> string) \<Rightarrow> derived_stats_row \<Rightarrow> jvalue" where
  "ser_derived_stats_row stamp x = jobj (derived_stats_row_fields stamp x)"

definition de_derived_stats_row :: "(string \<Rightarrow> gotime option) \<Rightarrow> jvalue \<Rightarrow> derived_stats_row option" where
  "de_derived_stats_row rfc3339 j = do {
     m \<leftarrow> struct_map [''timestamp'', ''latest_usage'', ''minute_usage'', ''hour_usage'', ''day_usage''] j;
     timestamp' \<leftarrow> wire_field m ''timestamp'' (de_time rfc3339) (derived_timestamp default_derived_stats_row);
     latest_usage' \<leftarrow> wire_field m ''latest_usage'' de_instant_usage (derived_latest_usage default_derived_stats_row);
     minute_usage' \<leftarrow> wire_field m ''minute_usage'' de_usage_summary (derived_minute_usage default_derived_stats_row);
     hour_usage' \<leftarrow> wire_field m ''hour_usage'' de_usage_summary (derived_hour_usage default_derived_stats_row);
     day_usage' \<leftarrow> wire_field m ''day_usage'' de_usage_summary (derived_day_usage default_derived_stats_row);
     Some \<lparr>derived_timestamp = timestamp', derived_latest_usage = latest_usage',
       derived_minute_usage = minute_usage', derived_hour_usage = hour_usage', derived_day_usage =
       day_usage'\<rparr> }"

definition ok_derived_stats_row :: "(int \<Rightarrow> string) \<Rightarrow> derived_stats_row \<Rightarrow> bool" where
  "ok_derived_stats_row stamp x \<longleftrightarrow>
     stamp_ok stamp (whole_second (derived_timestamp x)) \<and>
     ok_usage_summary (derived_minute_usage x) \<and>
     ok_usage_summary (derived_hour_usage x) \<and>
     ok_usage_summary (derived_day_usage x)"

lemma derived_stats_row_distinct: "distinct (map fst (derived_stats_row_fields stamp x))"
  by (simp add: derived_stats_row_fields_def)

lemma de_derived_stats_row_ser [wire]: "rfc3339_ok rfc3339 \<Longrightarrow> ok_derived_stats_row stamp x \<Longrightarrow> de_derived_stats_row rfc3339 (ser_derived_stats_row stamp x) = Some x"
  unfolding de_derived_stats_row_def ser_derived_stats_row_def
    struct_read [OF derived_stats_row_distinct] wire_field_entries [OF derived_stats_row_distinct]
  by (simp add: derived_stats_row_fields_def ok_derived_stats_row_def default_derived_stats_row_def wire)

lemma keys_distinct_derived_stats_row [wire]: "ok_derived_stats_row stamp x \<Longrightarrow> keys_distinct (ser_derived_stats_row stamp x)"
  unfolding ser_derived_stats_row_def
  by (rule keys_distinct_jobj [OF derived_stats_row_distinct])
    (simp add: derived_stats_row_fields_def ok_derived_stats_row_def wire)

definition v2_fs_info_fields :: "(int \<Rightarrow> string) \<Rightarrow> v2_fs_info \<Rightarrow> wire_fields" where
  "v2_fs_info_fields stamp x =
     [(''timestamp'', Some (ser_time stamp (v2fs_timestamp x))),
      (''device'', Some (ser_str (v2fs_device x))),
      (''mountpoint'', Some (ser_str (v2fs_mountpoint x))),
      (''capacity'', Some (ser_u64 (v2fs_capacity x))),
      (''available'', Some (ser_u64 (v2fs_available x))),
      (''usage'', Some (ser_u64 (v2fs_usage x))),
      (''labels'', Some (ser_opt (ser_list ser_str) (v2fs_labels x))),
      (''inodes'', skip_if (v2fs_inodes x = None) (ser_opt ser_u64 (v2fs_inodes x))),
      (''inodes_free'', skip_if (v2fs_inodes_free x = None) (ser_opt ser_u64 (v2fs_inodes_free x)))]"

definition ser_v2_fs_info :: "(int \<Rightarrow> string) \<Rightarrow> v2_fs_info \<Rightarrow> jvalue" where
  "ser_v2_fs_info stamp x = jobj (v2_fs_info_fields stamp x)"

definition de_v2_fs_info :: "(string \<Rightarrow> gotime option) \<Rightarrow> jvalue \<Rightarrow> v2_fs_info option" where
  "de_v2_fs_info rfc3339 j = do {
     m \<leftarrow> struct_map [''timestamp'', ''device'', ''mountpoint'', ''capacity'', ''available'', ''usage'',
        ''labels'', ''inodes'', ''inodes_free''] j;
     timestamp' \<leftarrow> wire_field m ''timestamp'' (de_time rfc3339) (v2fs_timestamp default_v2_fs_info);
     device' \<leftarrow> wire_field m ''device'' de_str (v2fs_device default_v2_fs_info);
     mountpoint' \<leftarrow> wire_field m ''mountpoint'' de_str (v2fs_mountpoint default_v2_fs_info);
     capacity' \<leftarrow> wire_field m ''capacity'' de_u64 (v2fs_capacity default_v2_fs_info);
     available' \<leftarrow> wire_field m ''available'' de_u64 (v2fs_available default_v2_fs_info);
     usage' \<leftarrow> wire_field m ''usage'' de_u64 (v2fs_usage default_v2_fs_info);
     labels' \<leftarrow> wire_field m ''labels'' (de_opt (de_list de_str)) (v2fs_labels default_v2_fs_info);
     inodes' \<leftarrow> wire_field m ''inodes'' (de_opt de_u64) (v2fs_inodes default_v2_fs_info);
     inodes_free' \<leftarrow> wire_field m ''inodes_free'' (de_opt de_u64) (v2fs_inodes_free default_v2_fs_info);
     Some \<lparr>v2fs_timestamp = timestamp', v2fs_device = device', v2fs_mountpoint = mountpoint',
       v2fs_capacity = capacity', v2fs_available = available', v2fs_usage = usage', v2fs_labels =
       labels', v2fs_inodes = inodes', v2fs_inodes_free = inodes_free'\<rparr> }"

definition ok_v2_fs_info :: "(int \<Rightarrow> string) \<Rightarrow> v2_fs_info \<Rightarrow> bool" where
  "ok_v2_fs_info stamp x \<longleftrightarrow>
     stamp_ok stamp (whole_second (v2fs_timestamp x))"

lemma v2_fs_info_distinct: "distinct (map fst (v2_fs_info_fields stamp x))"
  by (simp add: v2_fs_info_fields_def)

lemma de_v2_fs_info_ser [wire]: "rfc3339_ok rfc3339 \<Longrightarrow> ok_v2_fs_info stamp x \<Longrightarrow> de_v2_fs_info rfc3339 (ser_v2_fs_info stamp x) = Some x"
  unfolding de_v2_fs_info_def ser_v2_fs_info_def
    struct_read [OF v2_fs_info_distinct] wire_field_entries [OF v2_fs_info_distinct]
  by (simp add: v2_fs_info_fields_def ok_v2_fs_info_def default_v2_fs_info_def wire)

lemma keys_distinct_v2_fs_info [wire]: "ok_v2_fs_info stamp x \<Longrightarrow> keys_distinct (ser_v2_fs_info stamp x)"
  unfolding ser_v2_fs_info_def
  by (rule keys_distinct_jobj [OF v2_fs_info_distinct])
    (simp add: v2_fs_info_fields_def ok_v2_fs_info_def wire)

end
