(* ===== verification/Wire_Api.thy ===== *)
theory Wire_Api
  imports Wire_V2 Api
begin

text \<open>
  The API with serde in the place of its parameters: what \<open>serde_json::to_vec\<close> is given for each answer
  (\<open>payload_json\<close>), what \<open>from_slice\<close> makes of a request body and what \<open>from_value\<close> makes of a query
  parameter. Parser, printer and chrono stay parameters.

  The lemmas: every answer is read back by the types it was written from, none has a key twice,
  and the two times of an event query never arrive.
\<close>

section \<open>Bodies\<close>

fun payload_json :: "(int \<Rightarrow> string) \<Rightarrow> payload \<Rightarrow> jvalue" where
  "payload_json stamp (PMachine v) = ser_machine_info stamp v"
| "payload_json stamp (PContainer v) = ser_container_info stamp v"
| "payload_json stamp (PContainers v) = ser_list (ser_container_info stamp) v"
| "payload_json stamp (PDocker v) = ser_map (ser_container_info stamp) v"
| "payload_json stamp (PEvents v) = ser_list (ser_event stamp) v"
| "payload_json stamp (PEvent v) = ser_event stamp v"
| "payload_json stamp (PText s) = ser_str s"
| "payload_json stamp (PAttributes v) = ser_attributes v"
| "payload_json stamp (PStats v) = ser_map (ser_v2_container_info stamp) v"
| "payload_json stamp (PDeprecatedStats v) = ser_map (ser_list (ser_deprecated_container_stats stamp)) v"
| "payload_json stamp (PMachineStats v) = ser_list (ser_machine_stats stamp) v"
| "payload_json stamp (PSpecs v) = ser_map (ser_v2_container_spec stamp) v"
| "payload_json stamp (PSummaries v) = ser_map (ser_derived_stats_row stamp) v"
| "payload_json stamp (PProcesses v) = ser_list ser_process_info v"
| "payload_json stamp (PStorage v) = ser_list (ser_v2_fs_info stamp) v"
| "payload_json stamp PAppMetrics = ser_map (\<lambda>j. j) []"

definition serde_env ::
  "(int \<Rightarrow> string) \<Rightarrow> (jvalue \<Rightarrow> string) \<Rightarrow> (string \<Rightarrow> jvalue option) \<Rightarrow> (string \<Rightarrow> gotime option) \<Rightarrow>
     api_env \<Rightarrow> api_env" where
  "serde_env stamp print parse rfc3339 ae =
     ae\<lparr>ae_to_vec := \<lambda>p. Inr (print (payload_json stamp p)),
        ae_from_slice := \<lambda>body. parse body \<bind> de_container_info_request rfc3339,
        ae_time_of := \<lambda>v. de_time rfc3339 (JStr False v)\<rparr>"

text \<open>The same types on the side of a client, and the answers that JSON can carry.\<close>

fun de_payload :: "(string \<Rightarrow> gotime option) \<Rightarrow> payload \<Rightarrow> jvalue \<Rightarrow> payload option" where
  "de_payload rfc3339 (PMachine _) j = map_option PMachine (de_machine_info rfc3339 j)"
| "de_payload rfc3339 (PContainer _) j = map_option PContainer (de_container_info rfc3339 j)"
| "de_payload rfc3339 (PContainers _) j = map_option PContainers (de_list (de_container_info rfc3339) j)"
| "de_payload rfc3339 (PDocker _) j = map_option PDocker (de_map (de_container_info rfc3339) j)"
| "de_payload rfc3339 (PEvents _) j = map_option PEvents (de_list (de_event rfc3339) j)"
| "de_payload rfc3339 (PEvent _) j = map_option PEvent (de_event rfc3339 j)"
| "de_payload rfc3339 (PText _) j = map_option PText (de_str j)"
| "de_payload rfc3339 (PAttributes _) j = map_option PAttributes (de_attributes j)"
| "de_payload rfc3339 (PStats _) j = map_option PStats (de_map (de_v2_container_info rfc3339) j)"
| "de_payload rfc3339 (PDeprecatedStats _) j = map_option PDeprecatedStats (de_map (de_list (de_deprecated_container_stats rfc3339)) j)"
| "de_payload rfc3339 (PMachineStats _) j = map_option PMachineStats (de_list (de_machine_stats rfc3339) j)"
| "de_payload rfc3339 (PSpecs _) j = map_option PSpecs (de_map (de_v2_container_spec rfc3339) j)"
| "de_payload rfc3339 (PSummaries _) j = map_option PSummaries (de_map (de_derived_stats_row rfc3339) j)"
| "de_payload rfc3339 (PProcesses _) j = map_option PProcesses (de_list de_process_info j)"
| "de_payload rfc3339 (PStorage _) j = map_option PStorage (de_list (de_v2_fs_info rfc3339) j)"
| "de_payload rfc3339 PAppMetrics j = map_option (\<lambda>_. PAppMetrics) (de_map Some j)"

fun ok_payload :: "(int \<Rightarrow> string) \<Rightarrow> payload \<Rightarrow> bool" where
  "ok_payload stamp (PMachine v) \<longleftrightarrow> ok_machine_info stamp v"
| "ok_payload stamp (PContainer v) \<longleftrightarrow> ok_container_info stamp v"
| "ok_payload stamp (PContainers v) \<longleftrightarrow> (\<forall>x \<in> set v. ok_container_info stamp x)"
| "ok_payload stamp (PDocker v) \<longleftrightarrow> bt_wf v \<and> (\<forall>x \<in> set v. ok_container_info stamp (snd x))"
| "ok_payload stamp (PEvents v) \<longleftrightarrow> (\<forall>x \<in> set v. ok_event stamp x)"
| "ok_payload stamp (PEvent v) \<longleftrightarrow> ok_event stamp v"
| "ok_payload stamp (PText s) \<longleftrightarrow> True"
| "ok_payload stamp (PAttributes v) \<longleftrightarrow> ok_attributes v"
| "ok_payload stamp (PStats v) \<longleftrightarrow> bt_wf v \<and> (\<forall>x \<in> set v. ok_v2_container_info stamp (snd x))"
| "ok_payload stamp (PDeprecatedStats v) \<longleftrightarrow> bt_wf v \<and> (\<forall>x \<in> set v. \<forall>y \<in> set (snd x). ok_deprecated_container_stats stamp y)"
| "ok_payload stamp (PMachineStats v) \<longleftrightarrow> (\<forall>x \<in> set v. ok_machine_stats stamp x)"
| "ok_payload stamp (PSpecs v) \<longleftrightarrow> bt_wf v \<and> (\<forall>x \<in> set v. ok_v2_container_spec stamp (snd x))"
| "ok_payload stamp (PSummaries v) \<longleftrightarrow> bt_wf v \<and> (\<forall>x \<in> set v. ok_derived_stats_row stamp (snd x))"
| "ok_payload stamp (PProcesses v) \<longleftrightarrow> (\<forall>x \<in> set v. ok_process_info x)"
| "ok_payload stamp (PStorage v) \<longleftrightarrow> (\<forall>x \<in> set v. ok_v2_fs_info stamp x)"
| "ok_payload stamp PAppMetrics \<longleftrightarrow> True"

section \<open>Lemmas\<close>

lemma payload_read_back:
  "rfc3339_ok rfc3339 \<Longrightarrow> ok_payload stamp p \<Longrightarrow> de_payload rfc3339 p (payload_json stamp p) = Some p"
  by (cases p) (simp_all add: wire, simp add: ser_map_def bt_of_list_def)

lemma payload_keys: "ok_payload stamp p \<Longrightarrow> keys_distinct (payload_json stamp p)"
  by (cases p) (simp_all add: wire, simp add: ser_map_def)

text \<open>Parameters that agree but for the two times.\<close>

definition without_times :: "params \<Rightarrow> params" where
  "without_times ps = filter (\<lambda>p. fst p \<notin> {''start_time'', ''end_time''}) ps"

lemma params_get_without:
  "k \<notin> {''start_time'', ''end_time''} \<Longrightarrow> params_get (without_times ps) k = params_get ps k"
  by (induction ps) (auto simp: params_get_def without_times_def)

lemma get_bool_without:
  "k \<notin> {''start_time'', ''end_time''} \<Longrightarrow> get_bool (without_times ps) k = get_bool ps k"
  by (simp add: get_bool_def params_get_without)

lemma get_time_serde: "get_time (ae_time_of (serde_env stamp print parse rfc3339 ae)) ps k = 0"
  by (simp add: get_time_def serde_env_def split: option.split)

lemma event_query_without:
  "event_query_of (serde_env stamp print parse rfc3339 ae) name (without_times ps) =
     event_query_of (serde_env stamp print parse rfc3339 ae) name ps"
  by (simp add: event_query_of_def get_time_serde get_bool_without params_get_without)

lemma handle_events_without:
  "handle_events (serde_env stamp print parse rfc3339 ae) s name (without_times ps) =
     handle_events (serde_env stamp print parse rfc3339 ae) s name ps"
  by (simp add: handle_events_def event_query_without get_bool_without)

lemma handle_v1_without:
  "handle_v1 (serde_env stamp print parse rfc3339 ae) s version t name (without_times ps) body =
     handle_v1 (serde_env stamp print parse rfc3339 ae) s version t name ps body"
  by (simp only: handle_v1_def handle_events_without)

lemma handle_v2_without: "handle_v2 ae s version t name (without_times ps) = handle_v2 ae s version t name ps"
proof -
  have g: "params_get (without_times ps) ''type'' = params_get ps ''type''"
    "params_get (without_times ps) ''count'' = params_get ps ''count''"
    "params_get (without_times ps) ''recursive'' = params_get ps ''recursive''"
    "params_get (without_times ps) ''label'' = params_get ps ''label''"
    by (simp_all add: params_get_without)
  have "parse_options (without_times ps) = parse_options ps" "storage_of ae (without_times ps) = storage_of ae ps"
    by (simp_all only: parse_options_def storage_of_def g)
  then show ?thesis by (simp only: handle_v2_def)
qed

section \<open>Properties\<close>

text \<open>What a client gets: every answer of the API is, as JSON, an object or array in which no object has
  a key twice, though some structs are flattened into others, and the data model's own readers take
  it back to the very value it was written from: no field is lost, renamed differently or confused
  with an omitted one.\<close>

theorem answers_read_back:
  assumes "rfc3339_ok rfc3339" "ok_payload stamp p"
  shows "keys_distinct (payload_json stamp p) \<and> de_payload rfc3339 p (payload_json stamp p) = Some p"
  using assms payload_keys payload_read_back by blast

text \<open>A container with a label and a sample with a page size and a metric.\<close>

definition wired_container :: container_info where
  "wired_container =
     default_container_info
       \<lparr>info_reference := default_container_reference\<lparr>ref_name := ''/a'', ref_aliases := [''a'', ''b'']\<rparr>,
        info_spec := default_container_spec
          \<lparr>spec_creation_time := 63919810934826268630, spec_labels := [(''app'', ''x''), (''tier'', [])]\<rparr>,
        info_stats := [default_container_stats
          \<lparr>stats_timestamp := 63919810934826268630,
           stats_hugetlb := [(''2MB'', default_hugetlb_stats\<lparr>huge_usage := 5\<rparr>)],
           stats_custom_metrics := [(''m'', [default_metric_val
             \<lparr>metric_timestamp := 63919810934826268630, metric_int_value := - 3, metric_float_value := Fin (1 / 2)\<rparr>])],
           stats_oom_events := 2\<rparr>]\<rparr>"

lemma wired_ok: "ok_payload one_second (PContainer wired_container)"
proof -
  have "map fst default_tcp_advanced_stat = tcp_advanced_fields"
    by (simp add: default_tcp_advanced_stat_def comp_def)
  then show ?thesis using one_second_ok
    by (simp add: wired_container_def ok_container_info_def ok_container_spec_def ok_container_stats_def
        ok_cpu_stats_def ok_disk_io_stats_def ok_memory_stats_def ok_memory_stats_memory_data_def
        ok_memory_numa_stats_def ok_network_stats_def ok_tcp_advanced_stat_def ok_process_stats_def
        ok_metric_val_def in_i64_def in_i32_def bt_wf_def default_container_info_def default_container_spec_def
        default_container_stats_def default_cpu_stats_def default_disk_io_stats_def default_memory_stats_def
        default_memory_stats_memory_data_def default_memory_numa_stats_def default_network_stats_def
        default_process_stats_def default_metric_val_def)
qed

theorem answers_read_back_witness:
  "keys_distinct (payload_json one_second (PContainer wired_container)) \<and>
   de_payload rfc3339_nanos (PContainer wired_container) (payload_json one_second (PContainer wired_container)) =
     Some (PContainer wired_container)"
  using answers_read_back [OF rfc3339_ok_nanos wired_ok] .

text \<open>C38: the times of an event query never arrive: two requests whose parameters differ in \<open>start_time\<close> and
  \<open>end_time\<close> only are answered alike, for a \<open>Value\<close> owns its string and \<open>GoTime\<close> can only be read out of a
  lent one. The documentation lists both parameters.\<close>

theorem event_times_never_arrive:
  assumes "without_times (params_parse q) = without_times (params_parse q')"
  shows "dispatch (serde_env stamp print parse rfc3339 ae) s path q body =
     dispatch (serde_env stamp print parse rfc3339 ae) s path q' body"
proof -
  let ?ae = "serde_env stamp print parse rfc3339 ae"
  have "handle_v1 ?ae s v t n (params_parse q) b = handle_v1 ?ae s v t n (params_parse q') b" for v t n b
    using handle_v1_without [of stamp print parse rfc3339 ae s v t n _ b] assms by metis
  moreover have "handle_v2 ?ae s v t n (params_parse q) = handle_v2 ?ae s v t n (params_parse q')" for v t n
    using handle_v2_without [of ?ae s v t n] assms by metis
  moreover have "handle_events ?ae s n (params_parse q) = handle_events ?ae s n (params_parse q')" for n
    using handle_events_without [of stamp print parse rfc3339 ae s n] assms by metis
  ultimately show ?thesis by (simp add: dispatch_def Let_def)
qed

theorem event_times_never_arrive_witness:
  "dispatch (serde_env one_second (\<lambda>_. ''{}'') (\<lambda>_. None) rfc3339_nanos demo_env) (reg_start default_machine_info)
     ''v1.3/events/'' (Some ''start_time=2026'') [] =
   dispatch (serde_env one_second (\<lambda>_. ''{}'') (\<lambda>_. None) rfc3339_nanos demo_env) (reg_start default_machine_info)
     ''v1.3/events/'' None []"
proof -
  have "without_times (params_parse (Some ''start_time=2026'')) =
      without_times (params_parse None)"
    by code_simp
  then show ?thesis by (rule event_times_never_arrive)
qed

text \<open>A request that asks for no samples is written without its number and read as one that asks for the
  default of 60.\<close>

lemma zero_samples_lost:
  assumes "rfc3339_ok rfc3339" "stamp_ok stamp (whole_second t)"
  shows "de_container_info_request rfc3339
     (ser_container_info_request stamp \<lparr>req_num_stats = 0, req_start = t, req_end = t\<rparr>) =
       Some \<lparr>req_num_stats = 60, req_start = t, req_end = t\<rparr>"
  unfolding de_container_info_request_def ser_container_info_request_def
    struct_read [OF container_info_request_distinct]
    wire_field_entries [OF container_info_request_distinct]
  using assms
  by (simp add: container_info_request_fields_def wire, simp add: skip_if_def default_container_info_request_def)

end
