(* ===== verification/Wire_Runtime.thy ===== *)
theory Wire_Runtime
  imports Wire Runtime
begin

text \<open>
  What the runtimes' JSON answers are read as: the structs of \<open>crates/cadvisor-runtime/src/crio.rs\<close> and
  the OCI spec of \<open>lib.rs\<close>, with serde in the place of the decoders of \<open>Runtime\<close>. Parser and error texts
  stay parameters. The lemma: an explicit null for a list or map of CRI-O is as if it were missing.
\<close>

fun de_u32 :: "jvalue \<Rightarrow> u32 option" where
  "de_u32 (JInt i) = (if 0 \<le> i \<and> i < 2 ^ 32 then Some (word_of_int i) else None)"
| "de_u32 _ = None"

definition null_default :: "'a \<Rightarrow> (jvalue \<Rightarrow> 'a option) \<Rightarrow> jvalue \<Rightarrow> 'a option" where
  "null_default dflt de j = map_option (\<lambda>v. case v of Some x \<Rightarrow> x | None \<Rightarrow> dflt) (de_opt de j)"

section \<open>CRI-O\<close>

record crio_info =
  ci_storage_driver :: string
  ci_storage_root :: string
  ci_cgroup_driver :: string

definition de_crio_info :: "jvalue \<Rightarrow> crio_info option" where
  "de_crio_info j = do {
     m \<leftarrow> struct_map [''storage_driver'', ''storage_root'', ''cgroup_driver''] j;
     driver \<leftarrow> wire_field m ''storage_driver'' de_str [];
     storage \<leftarrow> wire_field m ''storage_root'' de_str [];
     cgroup \<leftarrow> wire_field m ''cgroup_driver'' de_str [];
     Some \<lparr>ci_storage_driver = driver, ci_storage_root = storage, ci_cgroup_driver = cgroup\<rparr> }"

text \<open>The annotations and addresses are read, so that they can fail, and not used.\<close>

definition crio_keys :: "string list" where
  "crio_keys = [''name'', ''pid'', ''image'', ''labels'', ''annotations'', ''root'', ''ip_address'', ''ip_addresses'']"

definition de_crio_container_info :: "jvalue \<Rightarrow> crio_container_info option" where
  "de_crio_container_info j = do {
     m \<leftarrow> struct_map crio_keys j;
     name \<leftarrow> wire_field m ''name'' de_str [];
     pid \<leftarrow> wire_field m ''pid'' de_u32 0;
     image \<leftarrow> wire_field m ''image'' de_str [];
     labels \<leftarrow> wire_field m ''labels'' (null_default [] (de_map de_str)) [];
     annotations \<leftarrow> wire_field m ''annotations'' (null_default [] (de_map de_str)) [];
     rootfs \<leftarrow> wire_field m ''root'' de_str [];
     ip_address \<leftarrow> wire_field m ''ip_address'' (null_default [] de_str) [];
     ip_addresses \<leftarrow> wire_field m ''ip_addresses'' (null_default [] (de_list de_str)) [];
     Some \<lparr>crio_name = name, crio_pid = pid, crio_image = image, crio_labels = labels, crio_root = rootfs\<rparr> }"

text \<open>\<open>from_slice\<close>: the error is a text.\<close>

definition from_slice ::
  "(string \<Rightarrow> (string, jvalue) res) \<Rightarrow> (jvalue \<Rightarrow> string) \<Rightarrow> (jvalue \<Rightarrow> 'a option) \<Rightarrow> string \<Rightarrow> (string, 'a) res" where
  "from_slice parse complain de body =
     res_bind (parse body) (\<lambda>j. case de j of Some v \<Rightarrow> Inr v | None \<Rightarrow> Inl (complain j))"

definition crio_info_of ::
  "(string \<Rightarrow> http_answer) \<Rightarrow> (string \<Rightarrow> (string, jvalue) res) \<Rightarrow> (jvalue \<Rightarrow> string) \<Rightarrow> (runtime_error, crio_info) res" where
  "crio_info_of http parse complain = get_json http (from_slice parse complain de_crio_info) ''/info''"

section \<open>The OCI spec\<close>

definition de_oci_process :: "jvalue \<Rightarrow> string list option" where
  "de_oci_process j = do {
     m \<leftarrow> struct_map [''env''] j;
     wire_field m ''env'' (de_list de_str) [] }"

definition de_oci_spec :: "jvalue \<Rightarrow> string list option" where
  "de_oci_spec j = do {
     m \<leftarrow> struct_map [''process''] j;
     wire_field m ''process'' de_oci_process [] }"

section \<open>Lemmas\<close>

lemma wire_field_other: "k \<noteq> k' \<Longrightarrow> wire_field ((k, j) # m) k' de dflt = wire_field m k' de dflt"
  by (simp add: wire_field_def)

lemma wire_field_null:
  "k \<notin> set (map fst m) \<Longrightarrow> wire_field ((k, JNull) # m) k' (null_default dflt de) dflt = wire_field m k' (null_default dflt de) dflt"
proof (cases "k = k'")
  case True
  assume "k \<notin> set (map fst m)"
  then have "map_of m k' = None" using True by (simp add: map_of_eq_None_iff)
  then show ?thesis using True by (simp add: wire_field_def null_default_def de_opt_def)
qed (simp add: wire_field_other)

lemma crio_null_is_missing:
  assumes "k \<in> {''labels'', ''annotations'', ''ip_address'', ''ip_addresses''}" "k \<notin> set (map fst m)"
  shows "de_crio_container_info (JObj ((k, JNull) # m)) = de_crio_container_info (JObj m)"
proof -
  have f: "wire_field ((k, JNull) # m) ''name'' de_str [] = wire_field m ''name'' de_str []"
    "wire_field ((k, JNull) # m) ''pid'' de_u32 0 = wire_field m ''pid'' de_u32 0"
    "wire_field ((k, JNull) # m) ''image'' de_str [] = wire_field m ''image'' de_str []"
    "wire_field ((k, JNull) # m) ''root'' de_str [] = wire_field m ''root'' de_str []"
    using assms(1) by (auto intro: wire_field_other)
  have "part_map crio_keys ((k, JNull) # m) = map_option ((#) (k, JNull)) (part_map crio_keys m)"
    using assms(2) by (auto simp: part_map_def)
  then show ?thesis
    by (cases "distinct (filter (\<lambda>k. k \<in> set crio_keys) (map fst m))")
      (simp_all only: de_crio_container_info_def struct_map.simps part_map_def if_True if_False option.map
        bind.bind_lunit bind.bind_lzero f wire_field_null [OF assms(2)])
qed

text \<open>A spec that is no JSON, has no process or none of the wanted form has no environment.\<close>

lemma oci_spec_env_cases:
  "oci_spec_env (\<lambda>s. parse s \<bind> de_oci_spec) spec =
     (case parse spec of
        Some j \<Rightarrow> (case de_oci_spec j of Some env \<Rightarrow> env | None \<Rightarrow> [])
      | None \<Rightarrow> [])"
  by (auto simp: oci_spec_env_def split: option.split)

end
