(* ===== verification/Wire_Values.thy ===== *)
theory Wire_Values
  imports Wire_Api Wire_Runtime Machine
begin

text \<open>
  The values of the running program can be sent and read back. The theory \<open>Wire_Api\<close> reads back a value
  whose numbers are in range, whose maps are in order and whose times chrono can print; here the
  values the program makes are shown to be such: the samples of \<open>crates/cadvisor-host/src/cgroup.rs\<close> and
  what \<open>crates/cadvisor-manager/src/manager.rs\<close> adds to them, the machine information of \<open>machine.rs\<close>, the
  labels of both runtimes and the specs.

  A time is \<open>time_ok\<close> if the parameter \<open>stamp\<close> prints its second as chrono documents.
\<close>

section \<open>Values\<close>

definition time_ok :: "(int \<Rightarrow> string) \<Rightarrow> gotime \<Rightarrow> bool" where
  "time_ok stamp t \<longleftrightarrow> stamp_ok stamp (whole_second t)"

text \<open>The device numbers of a filesystem are skipped; everything else of a value travels.\<close>

definition skip_devices :: "filesystem_info \<Rightarrow> filesystem_info" where
  "skip_devices fs = fs\<lparr>fsinfo_device_major := 0, fsinfo_device_minor := 0\<rparr>"

definition wire_machine :: "machine_info \<Rightarrow> machine_info" where
  "wire_machine mi = mi\<lparr>mi_filesystems := map skip_devices (mi_filesystems mi)\<rparr>"

definition wire_attributes :: "attributes \<Rightarrow> attributes" where
  "wire_attributes a = a\<lparr>attr_filesystems := map skip_devices (attr_filesystems a)\<rparr>"

fun wire_form :: "payload \<Rightarrow> payload" where
  "wire_form (PMachine mi) = PMachine (wire_machine mi)"
| "wire_form (PAttributes a) = PAttributes (wire_attributes a)"
| "wire_form p = p"

text \<open>A payload whose travelling part can be read back.\<close>

definition sent_ok :: "(int \<Rightarrow> string) \<Rightarrow> payload \<Rightarrow> bool" where
  "sent_ok stamp p \<longleftrightarrow> ok_payload stamp (wire_form p)"

lemma ser_skip_devices: "ser_filesystem_info (skip_devices fs) = ser_filesystem_info fs"
  by (simp add: ser_filesystem_info_def filesystem_info_fields_def skip_devices_def)

lemma ser_wire_machine: "ser_machine_info stamp (wire_machine mi) = ser_machine_info stamp mi"
  by (simp add: ser_machine_info_def machine_info_fields_def wire_machine_def ser_list_def comp_def ser_skip_devices)

lemma ser_wire_attributes: "ser_attributes (wire_attributes a) = ser_attributes a"
  by (simp add: ser_attributes_def attributes_fields_def wire_attributes_def ser_list_def comp_def ser_skip_devices)

lemma payload_wire_form: "payload_json stamp (wire_form p) = payload_json stamp p"
  by (cases p) (simp_all add: ser_wire_machine ser_wire_attributes)

lemma de_payload_wire_form: "de_payload rfc3339 (wire_form p) j = de_payload rfc3339 p j"
  by (cases p) simp_all

lemma sent_read_back:
  assumes "rfc3339_ok rfc3339" "sent_ok stamp p"
  shows "keys_distinct (payload_json stamp p)" "de_payload rfc3339 p (payload_json stamp p) = Some (wire_form p)"
  using payload_keys [of stamp "wire_form p"] payload_read_back [OF assms(1), of stamp "wire_form p"] assms(2)
  by (simp_all add: sent_ok_def payload_wire_form de_payload_wire_form)

section \<open>Defaults\<close>

named_theorems ok_values \<open>values that can be read back\<close>

lemma ok_default_cpu [ok_values]: "ok_cpu_stats default_cpu_stats"
  by (simp add: ok_cpu_stats_def default_cpu_stats_def in_i32_def)

lemma ok_default_disk [ok_values]: "ok_disk_io_stats default_disk_io_stats"
  by (simp add: ok_disk_io_stats_def default_disk_io_stats_def)

lemma ok_default_memory [ok_values]: "ok_memory_stats default_memory_stats"
  by (simp add: ok_memory_stats_def default_memory_stats_def ok_memory_stats_memory_data_def
      default_memory_stats_memory_data_def ok_memory_numa_stats_def default_memory_numa_stats_def bt_wf_def)

lemma ok_default_tcp [ok_values]: "ok_tcp_advanced_stat default_tcp_advanced_stat"
  by (simp add: ok_tcp_advanced_stat_def default_tcp_advanced_stat_def comp_def)

lemma ok_default_network [ok_values]: "ok_network_stats default_network_stats"
  using ok_default_tcp by (simp add: ok_network_stats_def default_network_stats_def)

lemma ok_default_v2_network [ok_values]: "ok_v2_network_stats default_v2_network_stats"
  using ok_default_tcp by (simp add: ok_v2_network_stats_def default_v2_network_stats_def)

lemma ok_default_process [ok_values]: "ok_process_stats default_process_stats"
  by (simp add: ok_process_stats_def default_process_stats_def)

lemma ok_default_usage [ok_values]: "ok_usage_summary default_usage_summary"
  by (simp add: ok_usage_summary_def default_usage_summary_def in_i32_def)

section \<open>Samples\<close>

lemma ok_new_sample: "time_ok stamp t \<Longrightarrow> ok_container_stats stamp (default_container_stats\<lparr>stats_timestamp := t\<rparr>)"
  using ok_values by (simp add: ok_container_stats_def default_container_stats_def time_ok_def bt_wf_def)

lemma ok_read_cpu:
  "read_cpu os mnt cgroup s = Inr s' \<Longrightarrow> ok_container_stats stamp s \<Longrightarrow> ok_container_stats stamp s'"
  by (auto simp: read_cpu_def res_bind_Inr Let_def ok_container_stats_def ok_cpu_stats_def split: option.splits)

lemma ok_read_memory:
  "read_memory os mnt cgroup s = Inr s' \<Longrightarrow> ok_container_stats stamp s \<Longrightarrow> ok_container_stats stamp s'"
  by (auto simp: read_memory_def res_bind_Inr memory_from_stat_def Let_def ok_container_stats_def ok_memory_stats_def
      ok_memory_stats_memory_data_def split: option.splits)

lemma ok_oom_lines: "ok_container_stats stamp s \<Longrightarrow> ok_container_stats stamp (fold oom_line kvs s)"
  by (simp add: fold_oom_line ok_container_stats_def split: option.split)

lemma ok_read_oom:
  "read_oom os mnt cgroup s = Inr s' \<Longrightarrow> ok_container_stats stamp s \<Longrightarrow> ok_container_stats stamp s'"
  by (auto simp: read_oom_def res_bind_Inr ok_oom_lines split: option.split_asm)

lemma ok_disk_entry: "ok_per_disk_stats (disk_entry dev r w)"
  by (simp add: ok_per_disk_stats_def disk_entry_def bt_of_list_facts)

lemma ok_push_devs: "ok_disk_io_stats d \<Longrightarrow> ok_disk_io_stats (fold push_dev devs d)"
  unfolding fold_push_dev ok_disk_io_stats_def by (auto simp: ok_disk_entry)

lemma ok_read_io:
  "read_io os mnt cgroup s = Inr s' \<Longrightarrow> ok_container_stats stamp s \<Longrightarrow> ok_container_stats stamp s'"
  by (auto simp: read_io_def res_bind_Inr ok_container_stats_def ok_push_devs split: option.splits)

lemma ok_read_stats:
  assumes "read_stats os mnt cgroup t = Inr s" "time_ok stamp t"
  shows "ok_container_stats stamp s"
  using assms(1) ok_new_sample [OF assms(2)]
  by (auto simp: read_stats_def res_bind_Inr dest: ok_read_cpu ok_read_memory ok_read_oom ok_read_io)

lemma ok_fill_network: "ok_container_stats stamp s \<Longrightarrow> ok_container_stats stamp (fill_network os h s)"
  by (auto simp: fill_network_def Let_def ok_container_stats_def ok_network_stats_def split: option.split sum.split)

lemma ok_fill_layer: "ok_container_stats stamp s \<Longrightarrow> ok_container_stats stamp (fill_layer ho h s)"
  by (auto simp: fill_layer_def ok_container_stats_def split: option.split sum.split)

lemma ok_fill_root: "ok_container_stats stamp s \<Longrightarrow> ok_container_stats stamp (fill_root_stats ho s)"
  by (auto simp: fill_root_stats_def root_memory_def Let_def ok_container_stats_def ok_memory_stats_def
      split: sum.split prod.split)

lemma ok_sample:
  assumes "fst (sample cfg ho scan now h ms) = Inr s" "time_ok stamp now"
  shows "ok_container_stats stamp s"
  using assms ok_read_stats [OF _ assms(2)] ok_fill_network ok_fill_layer ok_fill_root
  by (auto simp: sample_def Let_def split: sum.splits if_splits)

section \<open>Stores and logs\<close>

lemma evict_subset: "set (evict_before cutoff buf) \<subseteq> set buf"
  by (induction cutoff buf rule: evict_before.induct) auto

lemma place_subset: "set (place_sample x buf) \<subseteq> insert x (set buf)"
  by (auto simp: place_sample_def insert_at_def dest: set_takeWhileD set_dropWhileD in_set_takeD in_set_dropD)

lemma push_subset: "set (ts_buf (ts_push from_std x st)) \<subseteq> insert x (set (ts_buf st))"
  using evict_subset place_subset by (fastforce simp: ts_push_def Let_def)

lemma range_subset: "set (ts_in_range start stop n st) \<subseteq> set (ts_buf st)"
proof -
  have "set (drop i (take j xs)) \<subseteq> set xs" for i j and xs :: "container_stats list"
    by (auto dest: in_set_takeD in_set_dropD)
  moreover have "set xs \<subseteq> A \<Longrightarrow> set ys \<subseteq> A \<Longrightarrow> set (if b then xs else ys) \<subseteq> A" for xs ys :: "container_stats list" and b A
    by simp
  ultimately show ?thesis unfolding ts_in_range_def Let_def by simp
qed

lemma add_event_subset: "set (add_event ev l) \<subseteq> insert ev (set l)"
  using set_capped [of "Some max_log"] by (fastforce simp: add_event_step recent_def)

lemma query_subset: "set (query_events q l) \<subseteq> set (log_events l)"
  by (auto simp: query_events_def Let_def dest: in_set_dropD)

section \<open>Machine information\<close>

lemma parse_i64_in_range: "parse_i64 s = Some v \<Longrightarrow> in_i64 v"
  by (auto simp: parse_i64_def parse_unsigned_def in_i64_def Let_def split: list.splits if_splits option.splits)

lemma sint_in_range: "in_i64 (sint (v :: u64))"
  using sint_ge [of v] sint_lt [of v] by (simp add: in_i64_def)

lemma in_i64_between: "in_i64 a \<Longrightarrow> in_i64 b \<Longrightarrow> a \<le> i \<Longrightarrow> i \<le> b \<Longrightarrow> in_i64 i"
  by (simp add: in_i64_def)

lemma cpulist_in_range: "i \<in> set (parse_cpulist s) \<Longrightarrow> in_i64 i"
proof -
  have "in_i64 i" if "i \<in> set (cpulist_part p)" for p
  proof (cases "split_once CHR ''-'' (trim p)")
    case None
    then show ?thesis using that parse_i64_in_range [of "trim p"]
      by (auto simp: cpulist_part_def Let_def split: if_splits option.splits)
  next
    case (Some ab)
    then show ?thesis using that parse_i64_in_range [of "fst ab"] parse_i64_in_range [of "snd ab"]
      by (cases ab) (auto simp: cpulist_part_def Let_def split: if_splits option.splits, metis in_i64_between)
  qed
  then show "i \<in> set (parse_cpulist s) \<Longrightarrow> in_i64 i" by (auto simp: parse_cpulist_def)
qed

definition cores_ok :: "cpu_core list \<Rightarrow> bool" where
  "cores_ok cs \<longleftrightarrow> (\<forall>c \<in> set cs. ok_cpu_core c)"

lemma cores_ok_update:
  assumes "cores_ok cs" "i < length cs \<Longrightarrow> ok_cpu_core (cs ! i) \<Longrightarrow> ok_cpu_core c"
  shows "cores_ok (cs[i := c])"
proof (cases "i < length cs")
  case True
  then have "ok_cpu_core c" using assms by (simp add: cores_ok_def)
  then show ?thesis using assms(1) set_update_subset_insert [of cs i c] by (auto simp: cores_ok_def)
qed (use assms(1) in \<open>simp add: list_update_beyond\<close>)

lemma add_thread_ok: "cores_ok cs \<Longrightarrow> in_i64 cpu \<Longrightarrow> in_i64 cid \<Longrightarrow> in_i64 sid \<Longrightarrow> cores_ok (add_thread cpu cid sid cs)"
  unfolding add_thread_def Let_def
  by (rule cores_ok_update) (auto simp: cores_ok_def ok_cpu_core_def default_cpu_core_def)

definition node_ok :: "numa_node \<Rightarrow> bool" where
  "node_ok n \<longleftrightarrow> cores_ok (node_cores n) \<and> (\<forall>c \<in> set (node_caches n). ok_cpu_cache c)"

lemma add_cache_ok:
  assumes "node_ok n" "ok_cpu_cache (fst e)"
  shows "node_ok (add_cache num idx e n)"
proof (cases e)
  case (Pair cache shared)
  have "cores_ok ((node_cores n)[idx := (node_cores n ! idx)\<lparr>core_caches := core_caches (node_cores n ! idx) @ [cache]\<rparr>])"
    by (rule cores_ok_update) (use assms Pair in \<open>auto simp: node_ok_def ok_cpu_core_def\<close>)
  then show ?thesis using assms by (simp add: add_cache_def Pair Let_def node_ok_def ball_Un)
qed

lemma cache_entry_ok: "cache_entry os base name = Some e \<Longrightarrow> ok_cpu_cache (fst e)"
  by (auto simp: cache_entry_def Let_def ok_cpu_cache_def sint_in_range split: option.split_asm if_split_asm)

lemma cpu_caches_ok: "e \<in> set (cpu_caches os cpu) \<Longrightarrow> ok_cpu_cache (fst e)"
  by (auto simp: cpu_caches_def Let_def set_map_filter dest: cache_entry_ok split: option.split_asm)

lemma add_caches_ok: "\<forall>e \<in> set es. ok_cpu_cache (fst e) \<Longrightarrow> node_ok n \<Longrightarrow> node_ok (fold (add_cache num idx) es n)"
  by (induction es arbitrary: n) (simp_all add: add_cache_ok)

lemma add_cpu_ok:
  assumes "node_ok n" "in_i64 cpu"
  shows "node_ok (add_cpu os num cpu n)"
proof (cases "per_cpu_topology os cpu")
  case (Some cs)
  obtain cid sid where cs: "cs = (cid, sid)" by fastforce
  then have i: "in_i64 cid" "in_i64 sid"
    using Some by (auto simp: per_cpu_topology_def sint_in_range split: option.splits)
  have n: "node_ok (n\<lparr>node_cores := add_thread cpu cid sid (node_cores n)\<rparr>)"
    using assms add_thread_ok [of "node_cores n" cpu cid sid] i by (simp add: node_ok_def)
  have "\<forall>e \<in> set (cpu_caches os cpu). ok_cpu_cache (fst e)" using cpu_caches_ok by blast
  then show ?thesis using add_caches_ok [OF _ n] by (simp add: add_cpu_def Some cs Let_def)
qed (use assms in \<open>simp add: add_cpu_def\<close>)

lemma add_cpus_ok: "node_ok n \<Longrightarrow> \<forall>c \<in> set cpus. in_i64 c \<Longrightarrow> node_ok (fold (add_cpu os num) cpus n)"
  by (induction cpus arbitrary: n) (simp_all add: add_cpu_ok)

lemma sort_node_ok: "node_ok n \<Longrightarrow> node_ok (sort_node n)"
  by (auto simp: sort_node_def node_ok_def cores_ok_def ok_cpu_core_def)

lemma numa_node_ok: "node_ok (numa_node_of os i)"
  unfolding numa_node_of_def Let_def
  by (intro sort_node_ok add_cpus_ok) (auto simp: node_ok_def cores_ok_def node_cpus_def dest: cpulist_in_range)

lemma numa_node_id: "node_id (numa_node_of os i) = i"
proof -
  have c: "node_id (add_cache num idx e n) = node_id n" for num idx e n
    by (simp add: add_cache_def Let_def split: prod.split)
  have cs: "node_id (fold (add_cache num idx) es n) = node_id n" for num idx es n
    by (induction es arbitrary: n) (simp_all add: c)
  have "node_id (add_cpu os num cpu n) = node_id n" for num cpu n
    by (simp add: add_cpu_def Let_def cs split: option.split prod.split)
  then have "node_id (fold (add_cpu os num) cpus n) = node_id n" for num cpus n
    by (induction cpus arbitrary: n) simp_all
  then show ?thesis by (simp add: numa_node_of_def sort_node_def Let_def)
qed

lemma topology_ok: "n \<in> set (fst (topology os)) \<Longrightarrow> ok_numa_node n"
proof -
  assume "n \<in> set (fst (topology os))"
  then obtain i name where n: "n = numa_node_of os i" "Option.bind (strip_prefix ''node'' name) parse_i64 = Some i"
    by (auto simp: topology_def Let_def set_map_filter split: option.splits)
  then have "in_i64 i" by (auto simp: bind_eq_Some_conv dest: parse_i64_in_range)
  then show "ok_numa_node n" using numa_node_ok [of os i]
    by (simp add: n(1) ok_numa_node_def numa_node_id node_ok_def cores_ok_def)
qed

lemma network_devices_ok: "d \<in> set (network_devices os) \<Longrightarrow> ok_net_info d"
proof -
  have "in_i64 (or_default 0 (Option.bind r parse_i64))" for r
    by (cases r) (auto simp: or_default_def in_i64_def dest: parse_i64_in_range split: option.split)
  then show "d \<in> set (network_devices os) \<Longrightarrow> ok_net_info d"
    by (auto simp: network_devices_def network_entry_def Let_def set_map_filter ok_net_info_def
        split: option.split_asm if_split_asm)
qed

text \<open>The travelling part of the machine information.\<close>

definition machine_ok :: "(int \<Rightarrow> string) \<Rightarrow> machine_info \<Rightarrow> bool" where
  "machine_ok stamp mi \<longleftrightarrow> ok_machine_info stamp (wire_machine mi)"

lemma machine_info_of_ok:
  assumes "machine_info_of os vfs partitions now = Inr mi" "time_ok stamp now"
    and "in_i64 (mi_num_cores mi)" "in_i64 (mi_num_physical_cores mi)" "in_i64 (mi_num_sockets mi)"
  shows "machine_ok stamp mi"
proof -
  have mi: "mi_timestamp mi = now" "mi_memory_by_type mi = []" "mi_disk_map mi = disk_map os"
    "mi_network_devices mi = network_devices os" "mi_topology mi = fst (topology os)"
    using assms(1) by (cases "topology os", auto simp: machine_info_of_def res_bind_Inr Let_def)+
  have "bt_wf (disk_map os)"
    by (simp add: disk_map_def disk_map_at_def bt_of_list_facts bt.wf_emp split: option.split)
  then show ?thesis using assms(2-) topology_ok network_devices_ok
    by (auto simp: machine_ok_def wire_machine_def ok_machine_info_def mi time_ok_def ok_filesystem_info_def
        skip_devices_def bt_wf_def)
qed

section \<open>Specs and metadata\<close>

text \<open>The modification times of a host can be printed; labels are maps.\<close>

definition mtimes_ok :: "(int \<Rightarrow> string) \<Rightarrow> host \<Rightarrow> bool" where
  "mtimes_ok stamp ho \<longleftrightarrow> (\<forall>p t. os_mtime (ho_os ho) p = Inr (Some t) \<longrightarrow> time_ok stamp t)"

definition labels_ok :: "('e, container_meta) res \<Rightarrow> bool" where
  "labels_ok r \<longleftrightarrow> (case r of Inr m \<Rightarrow> bt_wf (meta_labels m) | Inl _ \<Rightarrow> True)"

definition runtimes_ok :: "runtimes \<Rightarrow> bool" where
  "runtimes_ok rts \<longleftrightarrow> (\<forall>n i. labels_ok (rts_crio rts n i)) \<and>
     (\<forall>client \<in> set_option (rts_containerd rts). \<forall>n i. labels_ok (client n i))"

lemma de_map_wf: "de_map de j = Some m \<Longrightarrow> bt_wf m"
  by (cases j) (auto simp: bt_of_list_facts split: bind_splits)

text \<open>Both runtimes give such labels.\<close>

lemma crio_info_labels:
  assumes "de_crio_container_info j = Some info"
  shows "bt_wf (crio_labels info)"
proof -
  have null_wf: "bt_wf ls" if "null_default [] (de_map de_str) x = Some ls" for x ls
    using that by (cases x) (auto simp: null_default_def de_opt_def bt.wf_emp bt_of_list_facts(1) split: option.splits)
  obtain m where "wire_field m ''labels'' (null_default [] (de_map de_str)) [] = Some (crio_labels info)"
    using assms unfolding de_crio_container_info_def bind_eq_Some_conv by auto
  then show ?thesis using null_wf
    by (cases "map_of m ''labels''") (auto simp: wire_field_def bt.wf_emp)
qed

lemma crio_labels_ok: "labels_ok (crio_inspect os http (from_slice parse complain de_crio_container_info) cid)"
proof (cases "get_json http (from_slice parse complain de_crio_container_info) (''/containers/'' @ cid)")
  case (Inr info)
  then obtain j where "de_crio_container_info j = Some info"
    by (auto simp: get_json_def from_slice_def res_bind_def res_map_err_def split: http_answer.splits sum.splits option.splits if_splits)
  then show ?thesis using Inr crio_info_labels by (simp add: labels_ok_def crio_inspect_def crio_meta_def)
qed (simp add: labels_ok_def crio_inspect_def)

lemma containerd_labels_ok: "labels_ok (containerd_inspect decode client cid)"
proof (cases "cd_get client cid")
  case (Inr resp)
  then show ?thesis
    by (cases resp) (simp_all add: labels_ok_def containerd_inspect_def Let_def bt_of_list_facts res_map_err_def)
next
  case (Inl e)
  then show ?thesis by (simp add: labels_ok_def containerd_inspect_def res_map_err_def)
qed

lemma meta_attempt_ok: "runtimes_ok rts \<Longrightarrow> meta_attempt rts is_crio cid n = Return (Some m) \<Longrightarrow> bt_wf (meta_labels m)"
  by (auto simp: meta_attempt_def runtimes_ok_def labels_ok_def split: if_splits sum.splits option.splits runtime_error.splits)

lemma meta_loop_ok: "runtimes_ok rts \<Longrightarrow> fst (meta_loop rts is_crio cid ns) = Some m \<Longrightarrow> bt_wf (meta_labels m)"
  by (induction ns) (auto simp: Let_def split: attempt.splits prod.splits dest: meta_attempt_ok)

lemma runtime_meta_ok: "runtimes_ok rts \<Longrightarrow> fst (runtime_meta rts basename) = Some m \<Longrightarrow> bt_wf (meta_labels m)"
  using meta_loop_ok [of rts "starts_with basename ''crio-''" _ "[0, 1, 2]" m]
  by (simp add: runtime_meta_def del: meta_loop.simps split: if_splits option.splits)

lemma res_map_err_Inr: "res_map_err g r = Inr x \<longleftrightarrow> r = Inr x"
  by (cases r) simp_all

lemma ok_read_spec:
  assumes "read_spec os mnt cgroup = Inr cg" "\<And>p t. os_mtime os p = Inr (Some t) \<Longrightarrow> time_ok stamp t" "time_ok stamp 0"
  shows "ok_container_spec stamp (spec_of_cgroup cg)"
proof -
  obtain mtime where "os_mtime os (cg_dir mnt cgroup) = Inr mtime" "cg_creation_time cg = mtime"
    using assms(1) by (auto simp: read_spec_def res_bind_Inr Let_def res_map_err_Inr)
  then show ?thesis using assms(2,3)
    by (cases mtime) (simp_all add: ok_container_spec_def spec_of_cgroup_def default_container_spec_def time_ok_def bt.wf_emp)
qed

lemma ok_root_spec: "ok_container_spec stamp (root_spec mi spec) = ok_container_spec stamp spec"
  by (simp add: ok_container_spec_def root_spec_def)

lemma ok_build_spec:
  assumes "build_spec cfg ho mi name = Inr spec" "mtimes_ok stamp ho" "time_ok stamp 0"
  shows "ok_container_spec stamp spec"
proof -
  obtain cg where cg: "read_spec (ho_os ho) (mc_cgroup_root cfg) name = Inr cg"
    "spec = (if name = ''/'' then root_spec mi (spec_of_cgroup cg) else spec_of_cgroup cg)"
    using assms(1) unfolding build_spec_def res_bind_Inr res_map_err_Inr by auto
  have "ok_container_spec stamp (spec_of_cgroup cg)"
    by (rule ok_read_spec [OF cg(1)]) (use assms in \<open>auto simp: mtimes_ok_def\<close>)
  then show ?thesis using cg(2) by (simp add: ok_root_spec)
qed

lemma ok_refresh_spec: "ok_container_spec stamp spec \<Longrightarrow> ok_container_spec stamp (refresh_spec cg spec)"
  by (simp add: ok_container_spec_def refresh_spec_def)

end
