(* ===== verification/Wire_State.thy ===== *)
theory Wire_State
  imports Wire_Values
begin

text \<open>
  What the API answers from the states the manager can reach: everything the registry holds after any
  interleaving can be sent and read back (\<open>state_ok\<close>, preserved by every \<open>action\<close> of \<open>Registry\<close> whose inputs
  are \<open>input_ok\<close>), hence every answer of every route of \<open>crates/cadvisor-api/src\<close> (\<open>sends\<close>) and every line of
  an event stream.
\<close>

section \<open>States\<close>

definition handle_ok :: "(int \<Rightarrow> string) \<Rightarrow> handle \<Rightarrow> bool" where
  "handle_ok stamp h \<longleftrightarrow>
     ok_container_spec stamp (h_spec h) \<and> (\<forall>s \<in> set (ts_buf (h_store h)). ok_container_stats stamp s)"

fun phase_ok :: "(int \<Rightarrow> string) \<Rightarrow> phase \<Rightarrow> bool" where
  "phase_ok stamp (Built h rec) \<longleftrightarrow> handle_ok stamp h"
| "phase_ok stamp _ \<longleftrightarrow> True"

definition log_ok :: "(int \<Rightarrow> string) \<Rightarrow> event_log \<Rightarrow> bool" where
  "log_ok stamp l \<longleftrightarrow> (\<forall>e \<in> set (log_events l) \<union> set (log_sent l). ok_event stamp e)"

definition state_ok :: "(int \<Rightarrow> string) \<Rightarrow> reg \<Rightarrow> bool" where
  "state_ok stamp s \<longleftrightarrow> (\<forall>i. handle_ok stamp (rg_handles s i)) \<and> (\<forall>a. phase_ok stamp (rg_phase s a)) \<and>
     log_ok stamp (rg_log s) \<and> machine_ok stamp (ms_info (rg_machine s))"

text \<open>What the environment hands to an action: clocks and modification times that chrono can print, labels,
  scans and machine information as the readers above give them.\<close>

fun input_ok :: "(int \<Rightarrow> string) \<Rightarrow> action \<Rightarrow> bool" where
  "input_ok stamp (AddBegin a ho rts name rec) \<longleftrightarrow> mtimes_ok stamp ho \<and> runtimes_ok rts"
| "input_ok stamp (Step a instant now) \<longleftrightarrow> time_ok stamp now"
| "input_ok stamp (RemoveBegin a name) \<longleftrightarrow> True"
| "input_ok stamp (Turn i inp) \<longleftrightarrow> time_ok stamp (ti_now inp) \<and> (\<forall>t. time_ok stamp (ti_event_time inp t)) \<and> bt_wf (ti_scan inp)"
| "input_ok stamp (Refresh r) \<longleftrightarrow> (case r of Inr mi \<Rightarrow> machine_ok stamp mi | Inl _ \<Rightarrow> True)"

lemma make_handle_ok:
  assumes "ok_container_spec stamp spec" "\<And>m. meta = Some m \<Longrightarrow> bt_wf (meta_labels m)"
  shows "handle_ok stamp (make_handle cfg name spec meta)"
  using assms by (cases meta) (simp_all add: handle_ok_def make_handle_def Let_def ts_new_def ok_container_spec_def whitelisted_env_wf)

lemma state_ok_start:
  assumes "machine_ok stamp mi" "time_ok stamp 0"
  shows "state_ok stamp (reg_start mi)"
proof -
  have "ok_container_spec stamp default_container_spec"
    using assms(2) by (simp add: ok_container_spec_def default_container_spec_def time_ok_def bt.wf_emp)
  then have "handle_ok stamp (make_handle (default_manager_config []) [] default_container_spec None)"
    by (rule make_handle_ok) simp
  then show ?thesis using assms by (simp add: state_ok_def reg_start_def log_ok_def empty_log_def)
qed

lemma record_event_ok: "log_ok stamp l \<Longrightarrow> time_ok stamp t \<Longrightarrow> log_ok stamp (record_event name typ t l)"
proof -
  let ?ev = "mk_event (name, typ, t)"
  assume l: "log_ok stamp l" and "time_ok stamp t"
  then have "ok_event stamp ?ev"
    by (simp add: ok_event_def mk_event_def ok_event_data_def default_event_data_def time_ok_def)
  then show "log_ok stamp (record_event name typ t l)"
    using l add_event_subset [of ?ev "log_events l"] by (auto simp: record_event_mk log_ok_def)
qed

lemma state_ok_phase:
  "state_ok stamp s \<Longrightarrow> phase_ok stamp p \<Longrightarrow> state_ok stamp (set_phase a p s)"
  by (simp add: state_ok_def set_phase_def)

lemma state_ok_begin:
  assumes "state_ok stamp s" "mtimes_ok stamp ho" "runtimes_ok rts" "time_ok stamp 0"
  shows "state_ok stamp (add_begin cfg ho rts a name rec s)"
proof -
  have "state_ok stamp (set_phase a (Built (make_handle cfg name spec (fst (runtime_meta rts (basename_of name)))) rec) s)"
    if "build_spec cfg ho (ms_info (rg_machine s)) name = Inr spec" for spec
    using ok_build_spec [OF that assms(2,4)] runtime_meta_ok [OF assms(3)] assms(1)
    by (intro state_ok_phase) (simp_all add: make_handle_ok)
  then show ?thesis using assms(1) by (simp add: add_begin_def split: sum.split)
qed

lemma state_ok_step:
  assumes "state_ok stamp s" "time_ok stamp now"
  shows "state_ok stamp (agent_step cfg a instant now s)"
proof (cases "rg_phase s a")
  case (Built h rec)
  then have "handle_ok stamp h" using assms(1) unfolding state_ok_def by (metis phase_ok.simps(1))
  then show ?thesis using assms(1) Built
    by (simp add: agent_step_def add_insert_def state_ok_def set_phase_def)
next
  case (Inserted i rec)
  have "stamp_ok stamp (whole_second (spec_creation_time (h_spec (rg_handles s i))))"
    using assms(1) by (simp add: state_ok_def handle_ok_def ok_container_spec_def)
  then show ?thesis using assms(1) Inserted record_event_ok [of stamp "rg_log s"]
    by (simp add: agent_step_def add_record_def state_ok_def set_phase_def time_ok_def)
next
  case (Aborted name)
  then show ?thesis using assms record_event_ok [of stamp "rg_log s"]
    by (simp add: agent_step_def remove_record_def state_ok_def set_phase_def)
qed (use assms in \<open>simp_all add: agent_step_def add_spawn_def add_store_def remove_abort_def state_ok_def set_phase_def\<close>)

lemma state_ok_unlink: "state_ok stamp s \<Longrightarrow> state_ok stamp (remove_unlink a name s)"
  by (simp add: remove_unlink_def state_ok_def set_phase_def split: option.split)

lemma note_disks_ok:
  assumes "machine_ok stamp (ms_info ms)" "bt_wf scan"
  shows "machine_ok stamp (ms_info (note_disks scan entries ms))"
  using assms by (simp add: note_disks_cases machine_ok_def ok_machine_info_def wire_machine_def)

lemma sample_machine_ok:
  "machine_ok stamp (ms_info ms) \<Longrightarrow> bt_wf scan \<Longrightarrow> machine_ok stamp (ms_info (snd (sample cfg ho scan now h ms)))"
  by (simp add: sample_def Let_def note_disks_ok split: sum.split)

lemma hk_slow_ok: "hk_slow cfg ho instant instant' (k, h) = Some (k', h') \<Longrightarrow> handle_ok stamp h \<Longrightarrow> handle_ok stamp h'"
  by (auto simp: hk_slow_def hk_slow_handle_def handle_ok_def ok_refresh_spec split: if_splits option.splits sum.splits)

lemma hk_sample_ok:
  assumes "handle_ok stamp h" "\<And>x. r = Inr x \<Longrightarrow> ok_container_stats stamp x"
  shows "handle_ok stamp (snd (fst (hk_sample cfg from_std r gone (k, h))))"
proof (cases r)
  case (Inr x)
  then show ?thesis using assms push_subset [of from_std x "h_store h"] by (auto simp: handle_ok_def)
qed (use assms in simp)

lemma record_types_ok:
  "log_ok stamp l \<Longrightarrow> (\<And>t. time_ok stamp (clock t)) \<Longrightarrow> log_ok stamp (record_types name clock evs l)"
  by (induction evs arbitrary: l) (simp_all add: record_types_def record_event_ok)

lemma hk_iteration_ok:
  assumes "hk_iteration cfg from_std ho scan instant instant' now (k, h) ms = Some ((k', h'), evs, out, ms')"
    and "handle_ok stamp h" "machine_ok stamp (ms_info ms)" "time_ok stamp now" "bt_wf scan"
  shows "handle_ok stamp h' \<and> machine_ok stamp (ms_info ms')"
proof -
  obtain k1 h1 where sl: "hk_slow cfg ho instant instant' (k, h) = Some (k1, h1)"
    using assms(1) by (cases "hk_slow cfg ho instant instant' (k, h)") (auto simp: hk_iteration_def)
  let ?sam = "sample cfg ho scan now h1 ms"
  let ?gone = "\<not> cg_exists (ho_os ho) (mc_cgroup_root cfg) (h_name h1)"
  have e: "fst (hk_sample cfg from_std (fst ?sam) ?gone (k1, h1)) = (k', h')" "ms' = snd ?sam"
    using assms(1) by (simp_all add: hk_iteration_def sl case_prod_beta Let_def)
  have "handle_ok stamp (snd (fst (hk_sample cfg from_std (fst ?sam) ?gone (k1, h1))))"
    using hk_slow_ok [OF sl assms(2)] ok_sample [OF _ assms(4)] by (rule hk_sample_ok)
  then show ?thesis using sample_machine_ok [OF assms(3,5)] by (simp add: e)
qed

lemma state_ok_turn:
  assumes "state_ok stamp s" "input_ok stamp (Turn i inp)"
  shows "state_ok stamp (turn cfg from_std inp i s)"
proof (cases "hk_iteration cfg from_std (ti_host inp) (ti_scan inp) (ti_instant inp) (ti_instant' inp) (ti_now inp)
    (rg_hk s i, rg_handles s i) (rg_machine s)")
  case (Some r)
  obtain k h evs out ms where r: "r = ((k, h), evs, out, ms)" by (metis prod.collapse)
  have "handle_ok stamp h \<and> machine_ok stamp (ms_info ms)"
    by (rule hk_iteration_ok [OF Some [unfolded r]]) (use assms in \<open>simp_all add: state_ok_def\<close>)
  then show ?thesis using assms Some r by (simp add: turn_def state_ok_def record_types_ok)
qed (use assms in \<open>simp add: turn_def\<close>)

lemma state_ok_act:
  assumes "state_ok stamp s" "input_ok stamp x" "time_ok stamp 0"
  shows "state_ok stamp (act cfg from_std x s)"
proof (cases x)
  case (AddBegin a ho rts name rec)
  then show ?thesis using assms state_ok_begin [OF assms(1)] by (simp add: act_def)
next
  case (Turn i inp)
  then show ?thesis using assms state_ok_turn [OF assms(1)] by (simp add: act_def)
next
  case (Refresh r)
  then show ?thesis using assms
    by (cases r) (simp_all add: act_def refresh_machine_info_def state_ok_def)
qed (use assms in \<open>simp_all add: act_def state_ok_step state_ok_unlink\<close>)

lemma state_ok_run:
  "list_all (input_ok stamp) xs \<Longrightarrow> time_ok stamp 0 \<Longrightarrow> state_ok stamp s \<Longrightarrow> state_ok stamp (run cfg from_std xs s)"
  by (induction xs arbitrary: s) (simp_all add: run_def state_ok_act)

section \<open>Answers\<close>

lemma handle_of_ok: "state_ok stamp s \<Longrightarrow> handle_of s name = Some h \<Longrightarrow> handle_ok stamp h"
  by (auto simp: handle_of_def state_ok_def)

lemma handles_ok: "state_ok stamp s \<Longrightarrow> h \<in> set (handles s) \<Longrightarrow> handle_ok stamp h"
  by (auto simp: handles_def state_ok_def)

lemma assembled_ok: "handle_ok stamp h \<Longrightarrow> ok_container_info stamp (assemble_info s h req subs)"
  using range_subset by (fastforce simp: handle_ok_def ok_container_info_def assemble_info_def)

lemma container_answer_ok:
  "state_ok stamp s \<Longrightarrow> container_info_of s name req = Inr info \<Longrightarrow> ok_container_info stamp info"
  by (auto simp: container_info_of_def assembled_ok handle_of_ok split: option.splits)

lemma subcontainers_answer_ok:
  "state_ok stamp s \<Longrightarrow> subcontainers_info s name req = Inr infos \<Longrightarrow> info \<in> set infos \<Longrightarrow> ok_container_info stamp info"
  by (auto simp: subcontainers_info_def subtree_handles_def assembled_ok handles_ok split: if_splits)

text \<open>The entries of a collected map are among those collected.\<close>

lemma bt_of_list_subset: "set (bt_of_list xs) \<subseteq> set xs"
proof
  fix e
  assume e: "e \<in> set (bt_of_list xs)"
  have "distinct (map fst (bt_of_list xs))" using bt_of_list_facts(1) [of xs] by (simp add: bt_wf_def strict_sorted_iff)
  then have "bt_get (bt_of_list xs) (fst e) = Some (snd e)" using e by (simp add: bt_get_def)
  then show "e \<in> set xs" by (cases e) (auto simp: bt_of_list_facts dest: map_of_SomeD)
qed

lemma collected_ok:
  assumes "\<And>x. x \<in> set xs \<Longrightarrow> P (f x)"
  shows "bt_wf (bt_of_list (map (\<lambda>x. (k x, f x)) xs)) \<and> (\<forall>e \<in> set (bt_of_list (map (\<lambda>x. (k x, f x)) xs)). P (snd e))"
  using bt_of_list_subset [of "map (\<lambda>x. (k x, f x)) xs"] assms by (auto simp: bt_of_list_facts)

lemma docker_answer_ok:
  assumes "state_ok stamp s" "docker_containers s name req = Inr out"
  shows "ok_payload stamp (PDocker out)"
proof -
  have "out = bt_of_list (map (\<lambda>h. (h_name h, assemble_info s h req False))
      (filter (\<lambda>h. runtime_match name (h_reference h)) (handles s)))"
    using assms(2) by (simp add: docker_containers_def Let_def split: if_splits)
  then show ?thesis
    using collected_ok [of "filter (\<lambda>h. runtime_match name (h_reference h)) (handles s)" "ok_container_info stamp"
        "\<lambda>h. assemble_info s h req False" h_name] assembled_ok handles_ok [OF assms(1)] by simp
qed

lemma events_answer_ok: "state_ok stamp s \<Longrightarrow> ok_payload stamp (PEvents (query_events q (rg_log s)))"
  using query_subset [of q "rg_log s"] by (auto simp: state_ok_def log_ok_def)

lemma v2_spec_ok: "handle_ok stamp h \<Longrightarrow> ok_v2_container_spec stamp (v2_spec h)"
  by (simp add: handle_ok_def ok_container_spec_def ok_v2_container_spec_def v2_spec_def Let_def)

lemma v2_sample_ok: "ok_container_stats stamp x \<Longrightarrow> ok_v2_container_stats stamp (v2_sample h spec inst x)"
  by (simp add: ok_container_stats_def ok_v2_container_stats_def v2_sample_def then_some_def v2_network_def
      ok_network_stats_def ok_v2_network_stats_def)

lemma v2_samples_ok:
  "\<forall>x \<in> set xs. ok_container_stats stamp x \<Longrightarrow> y \<in> set (v2_samples num_ns h spec prev xs) \<Longrightarrow> ok_v2_container_stats stamp y"
  by (induction num_ns h spec prev xs rule: v2_samples.induct) (auto simp: v2_sample_ok)

lemma v2_stats_ok: "handle_ok stamp h \<Longrightarrow> y \<in> set (v2_stats num_ns h spec n) \<Longrightarrow> ok_v2_container_stats stamp y"
  unfolding v2_stats_def
  by (rule v2_samples_ok) (use range_subset [of 0 0 n "h_store h"] in \<open>auto simp: handle_ok_def\<close>)

lemma unwrap_ok: "(\<forall>x \<in> set_option r. P x) \<Longrightarrow> P d \<Longrightarrow> P (unwrap_or r d)"
  by (simp add: unwrap_or_def split: option.split)

lemma deprecated_sample_ok:
  assumes "ok_v2_container_stats stamp x"
  shows "ok_deprecated_container_stats stamp (deprecated_sample spec x)"
proof -
  note x = assms [unfolded ok_v2_container_stats_def]
  have "ok_cpu_stats (unwrap_or (v2stats_cpu x) default_cpu_stats)"
    "ok_disk_io_stats (unwrap_or (v2stats_disk_io x) default_disk_io_stats)"
    "ok_memory_stats (unwrap_or (v2stats_memory x) default_memory_stats)"
    "bt_wf (unwrap_or (v2stats_hugetlb x) [])"
    "ok_v2_network_stats (unwrap_or (v2stats_network x) default_v2_network_stats)"
    "ok_process_stats (unwrap_or (v2stats_processes x) default_process_stats)"
    using x by (blast intro: unwrap_ok ok_values bt.wf_emp)+
  then show ?thesis using x by (simp add: ok_deprecated_container_stats_def deprecated_sample_def)
qed

lemma machine_stats_ok:
  assumes "ok_v2_container_stats stamp x"
  shows "ok_machine_stats stamp (machine_stats_of ae x)"
proof -
  have "ok_machine_fs_stats_row r" if "r \<in> set (machine_fs_stats ho)" for r ho
    using that by (auto simp: machine_fs_stats_def machine_fs_row_def ok_machine_fs_stats_row_def ok_disk_stats_row_def
        ms_to_ns_def sint_in_range)
  then show ?thesis using assms by (simp add: ok_v2_container_stats_def ok_machine_stats_def machine_stats_of_def)
qed

lemma derived_ok:
  assumes "handle_ok stamp h" "time_ok stamp (ae_now ae)"
  shows "ok_derived_stats_row stamp (derived_stats ae h)"
proof -
  let ?xs = "ts_in_range 0 0 (- 1) (h_store h)"
  have "ok_container_stats stamp (last ?xs)" if "?xs \<noteq> []"
    using last_in_set [OF that] range_subset [of 0 0 "- 1" "h_store h"] assms(1) by (auto simp: handle_ok_def)
  moreover have "in_i32 (if 60 \<le> n then 100 else int (n * 100 div 60))" for n :: nat
    by (auto simp: in_i32_def)
  ultimately show ?thesis using assms(2)
    by (simp add: ok_derived_stats_row_def derived_stats_def Let_def ok_default_usage ok_usage_summary_def time_ok_def
        ok_container_stats_def ok_default_usage [unfolded ok_usage_summary_def])
qed

text \<open>What a request reads of the environment: a clock that can be printed, and no directory listing with more
  entries than a \<open>Vec\<close> holds.\<close>

definition request_ok :: "(int \<Rightarrow> string) \<Rightarrow> api_env \<Rightarrow> bool" where
  "request_ok stamp ae \<longleftrightarrow> time_ok stamp (ae_now ae) \<and>
     (\<forall>dir es. os_read_dir (ho_os (ae_host ae)) dir = Inr es \<longrightarrow> length es < 2 ^ 63)"

lemma process_row_ok:
  assumes "process_row os pid = Some r" "\<And>dir es. os_read_dir os dir = Inr es \<Longrightarrow> length es < 2 ^ 63"
  shows "ok_process_info r"
proof -
  have n: "in_i64 (unwrap_or (parse_i64 w) 0)" for w
    by (cases "parse_i64 w") (auto simp: unwrap_or_def in_i64_def dest: parse_i64_in_range [unfolded in_i64_def])
  have "uint pid < 2 ^ LENGTH(32)" by (rule unsigned_less)
  then have p: "in_i64 (int (unat pid))" by (simp add: in_i64_def order_trans [OF _ uint_ge_0])
  have d: "in_i64 (case os_read_dir os dir of Inr es \<Rightarrow> int (length es) | Inl _ \<Rightarrow> 0)" for dir
    using assms(2) [of dir] by (cases "os_read_dir os dir") (force simp: in_i64_def)+
  show ?thesis using assms(1) n p d
    by (auto simp: process_row_def Let_def ok_process_info_def split: option.split_asm if_split_asm)
qed

definition sends :: "api_env \<Rightarrow> (payload \<Rightarrow> bool) \<Rightarrow> response \<Rightarrow> bool" where
  "sends ae P r \<longleftrightarrow>
     (case r of Response st ty b \<Rightarrow> st = 200 \<longrightarrow> (\<exists>p. P p \<and> ae_to_vec ae p = Inr b) | Streamed _ _ _ \<Rightarrow> True)"

named_theorems sending \<open>what the handlers send\<close>

lemma sends_plain [sending]: "st \<noteq> 200 \<Longrightarrow> sends ae P (plain st b)"
  by (simp add: sends_def plain_def)

lemma sends_json [sending]: "P v \<Longrightarrow> sends ae P (json (ae_to_vec ae) v)"
  by (auto simp: sends_def json_def plain_def split: sum.split)

lemma sends_lookup [sending]: "sends ae P (lookup_failed ae what name e)"
  by (simp add: lookup_failed_def sends_plain)

lemma sends_v2_failed [sending]: "sends ae P (v2_failed what name e)"
  by (simp add: v2_failed_def sends_plain)

lemma sends_if: "sends ae P x \<Longrightarrow> sends ae P y \<Longrightarrow> sends ae P (if b then x else y)"
  by simp

lemma sends_sum:
  "(\<And>e. r = Inl e \<Longrightarrow> sends ae P (f e)) \<Longrightarrow> (\<And>x. r = Inr x \<Longrightarrow> sends ae P (g x)) \<Longrightarrow>
     sends ae P (case r of Inl e \<Rightarrow> f e | Inr x \<Rightarrow> g x)"
  by (cases r) simp_all

lemma sends_option:
  "(r = None \<Longrightarrow> sends ae P n) \<Longrightarrow> (\<And>x. r = Some x \<Longrightarrow> sends ae P (f x)) \<Longrightarrow>
     sends ae P (case r of None \<Rightarrow> n | Some x \<Rightarrow> f x)"
  by (cases r) simp_all

lemma sends_events [sending]:
  "state_ok stamp s \<Longrightarrow> sends ae (sent_ok stamp) (handle_events ae s name ps)"
  unfolding handle_events_def Let_def
  by (auto intro!: sends_if sends_json simp: sent_ok_def simp del: ok_payload.simps intro: events_answer_ok)
    (simp add: sends_def)

lemma machine_sent [sending]: "state_ok stamp s \<Longrightarrow> sent_ok stamp (PMachine (ms_info (rg_machine s)))"
  by (simp add: state_ok_def sent_ok_def machine_ok_def)

lemma attributes_sent [sending]:
  assumes "state_ok stamp s"
  shows "sent_ok stamp (PAttributes (attributes_new (ms_info (rg_machine s)) vi))"
  using assms
  by (simp add: state_ok_def sent_ok_def machine_ok_def ok_machine_info_def ok_attributes_def attributes_new_def
      wire_attributes_def wire_machine_def)

lemma sends_v1 [sending]:
  assumes "state_ok stamp s"
  shows "sends ae (sent_ok stamp) (handle_v1 ae s version request_type name ps body)"
  unfolding handle_v1_def Let_def
  by (intro sends_if sends_sum sending assms)
    (use container_answer_ok [OF assms] subcontainers_answer_ok [OF assms] docker_answer_ok [OF assms]
      in \<open>simp_all add: sent_ok_def\<close>)

lemma resolve_ok:
  assumes "state_ok stamp s" "resolve s name opts = Inr hs" "h \<in> set hs"
  shows "handle_ok stamp h"
proof (cases "ro_id_type opts = ''name''")
  case False
  have branch: "(if b then Inl e else Inr (filter P xs)) = Inr hs \<Longrightarrow> h \<in> set xs" for b e P and xs :: "handle list"
    using assms(3) by (cases b) auto
  have "h \<in> set (handles s)" using assms(2) unfolding resolve_def Let_def if_P [OF False] by (rule branch)
  then show ?thesis by (rule handles_ok [OF assms(1)])
next
  case True
  then obtain h' where h': "handle_of s name = Some h'"
    using assms(2) by (cases "handle_of s name") (simp_all add: resolve_def)
  then have "h = h' \<or> h \<in> set (handles s)" using assms(2,3) True
    by (cases "ro_recursive opts") (auto simp only: resolve_def Let_def option.case if_True if_False simp_thms sum.inject
        set_sort set_filter list.set insert_iff empty_iff mem_Collect_eq)
  then show ?thesis using handle_of_ok [OF assms(1) h'] handles_ok [OF assms(1)] by blast
qed

lemma storage_sent:
  assumes "time_ok stamp (ae_now ae)"
  shows "sent_ok stamp (PStorage (storage_of ae ps))"
proof -
  have "ok_v2_fs_info stamp (storage_row (ae_now ae) p u)" for p u
    using assms by (simp add: ok_v2_fs_info_def storage_row_def time_ok_def)
  then have "ok_v2_fs_info stamp r" if "r \<in> set (storage_info (ae_host ae) (ae_now ae))" for r
    using that by (auto simp: storage_info_def set_map_filter)
  then show ?thesis by (simp add: sent_ok_def storage_of_def Let_def split: option.split)
qed

lemma processes_sent: "request_ok stamp ae \<Longrightarrow> sent_ok stamp (PProcesses (process_list ae s name))"
  using process_row_ok [of "ho_os (ae_host ae)"]
  by (auto simp: sent_ok_def process_list_def request_ok_def set_map_filter split: option.split)

lemma maps_sent:
  assumes "state_ok stamp s" "resolve s name opts = Inr hs" "time_ok stamp (ae_now ae)"
  shows "sent_ok stamp (PStats (stats_v21 ae n hs))" "sent_ok stamp (PDeprecatedStats (stats_v20 ae n hs))"
    "sent_ok stamp (PSpecs (bt_of_list (map (\<lambda>h. (h_name h, v2_spec h)) hs)))"
    "sent_ok stamp (PSummaries (bt_of_list (map (\<lambda>h. (h_name h, derived_stats ae h)) hs)))"
proof -
  note ok = resolve_ok [OF assms(1,2)]
  show "sent_ok stamp (PSpecs (bt_of_list (map (\<lambda>h. (h_name h, v2_spec h)) hs)))"
    using collected_ok [of hs "ok_v2_container_spec stamp" v2_spec h_name] ok v2_spec_ok by (simp add: sent_ok_def)
  show "sent_ok stamp (PSummaries (bt_of_list (map (\<lambda>h. (h_name h, derived_stats ae h)) hs)))"
    using collected_ok [of hs "ok_derived_stats_row stamp" "derived_stats ae" h_name] ok derived_ok [OF _ assms(3)]
    by (simp add: sent_ok_def)
  have "ok_v2_container_info stamp \<lparr>v2info_spec = v2_spec h, v2info_stats = v2_stats (ae_num_ns ae) h (h_spec h) n\<rparr>"
    if "h \<in> set hs" for h
    using ok [OF that] v2_spec_ok v2_stats_ok by (simp add: ok_v2_container_info_def)
  then show "sent_ok stamp (PStats (stats_v21 ae n hs))"
    using collected_ok [of "filter (\<lambda>h. h_name h \<noteq> ''/'') hs" "ok_v2_container_info stamp"
        "\<lambda>h. \<lparr>v2info_spec = v2_spec h, v2info_stats = v2_stats (ae_num_ns ae) h (h_spec h) n\<rparr>" h_name]
    by (simp add: sent_ok_def stats_v21_def)
  have "\<forall>y \<in> set (deprecated_stats (ae_num_ns ae) h (h_spec h) n). ok_deprecated_container_stats stamp y"
    if "h \<in> set hs" for h
    using v2_stats_ok [OF ok [OF that]] by (auto simp: deprecated_stats_def deprecated_sample_ok)
  then show "sent_ok stamp (PDeprecatedStats (stats_v20 ae n hs))"
    using collected_ok [of hs "\<lambda>ys. \<forall>y \<in> set ys. ok_deprecated_container_stats stamp y"
        "\<lambda>h. deprecated_stats (ae_num_ns ae) h (h_spec h) n" h_name]
    by (simp add: sent_ok_def stats_v20_def)
qed

lemma machinestats_sent:
  assumes "handle_ok stamp h"
  shows "sent_ok stamp (PMachineStats (map (machine_stats_of ae) (v2_stats (ae_num_ns ae) h spec n)))"
  using v2_stats_ok [OF assms] machine_stats_ok by (simp add: sent_ok_def)

lemma sends_v2 [sending]:
  assumes "state_ok stamp s" "request_ok stamp ae"
  shows "sends ae (sent_ok stamp) (handle_v2 ae s version request_type name ps)"
proof -
  have t: "time_ok stamp (ae_now ae)" using assms(2) by (simp add: request_ok_def)
  have "sent_ok stamp (PText x)" "sent_ok stamp PAppMetrics" for x by (simp_all add: sent_ok_def)
  then show ?thesis
    unfolding handle_v2_def Let_def
    by (intro sends_if sends_sum sends_option sending assms maps_sent [OF assms(1) _ t] machinestats_sent
        processes_sent [OF assms(2)] storage_sent [OF t] handle_of_ok [OF assms(1)])
      (assumption | simp)+
qed

lemma dispatch_sends:
  assumes "state_ok stamp s" "request_ok stamp ae"
  shows "sends ae (sent_ok stamp) (dispatch ae s rest raw body)"
  unfolding dispatch_def Let_def
  by (intro sends_if sending assms) simp_all

lemma request_ok_serde: "request_ok stamp (serde_env stamp print parse rfc3339 ae) = request_ok stamp ae"
  by (simp add: request_ok_def serde_env_def)

text \<open>The lines of a stream, whose events were sent by the manager.\<close>

lemma streamed_read_back:
  assumes "rfc3339_ok rfc3339" "state_ok stamp s" "Some ` set (log_sent (rg_log s)) \<union> {None} \<supseteq> set rx"
    and "l \<in> set (stream_lines (\<lambda>p. Inr (print (payload_json stamp p))) q rx)"
  shows "\<exists>ev. l = print (ser_event stamp ev) @ [nl] \<and> de_event rfc3339 (ser_event stamp ev) = Some ev"
proof -
  obtain ev where ev: "Some ev \<in> set rx" "l = print (ser_event stamp ev) @ [nl]"
    using assms(4) by (auto simp: stream_lines_spec set_map_filter dest!: set_takeWhileD)
  then have "ok_event stamp ev" using assms(2,3) by (auto simp: state_ok_def log_ok_def)
  then show ?thesis using ev(2) de_event_ser [OF assms(1)] by blast
qed

section \<open>Properties\<close>

text \<open>C2: what a client gets from the running program: after any interleaving of additions, removals, samples
  and refreshes, every answer with status 200 of every route is the text of a JSON value in which no
  object has a key twice, though some structs are flattened into others, and which the data model's own
  readers take back to the value it was written from, but for the device numbers that are never sent.\<close>

theorem served_json_read_back:
  assumes "rfc3339_ok rfc3339" "time_ok stamp 0" "machine_ok stamp mi" "list_all (input_ok stamp) xs"
    and "request_ok stamp ae"
    and "dispatch (serde_env stamp print parse rfc3339 ae) (run cfg from_std xs (reg_start mi)) path q body =
      Response 200 ty b"
  shows "\<exists>p. b = print (payload_json stamp p) \<and> keys_distinct (payload_json stamp p) \<and>
     de_payload rfc3339 p (payload_json stamp p) = Some (wire_form p)"
proof -
  let ?ae = "serde_env stamp print parse rfc3339 ae"
  have "state_ok stamp (run cfg from_std xs (reg_start mi))"
    by (rule state_ok_run [OF assms(4,2) state_ok_start [OF assms(3,2)]])
  moreover have "request_ok stamp ?ae" using assms(5) by (simp add: request_ok_serde)
  ultimately have "sends ?ae (sent_ok stamp) (Response 200 ty b)"
    using dispatch_sends [of stamp _ ?ae path q body] assms(6) by metis
  then obtain p where "sent_ok stamp p" "b = print (payload_json stamp p)"
    by (auto simp: sends_def serde_env_def)
  then show ?thesis using sent_read_back [OF assms(1)] by blast
qed

text \<open>A clock that prints the zero of Go.\<close>

definition zero_second :: "int \<Rightarrow> string" where
  "zero_second s = (if s = 0 then ''0001-01-01T00:00:00'' else [])"

lemma zero_second_ok: "0 \<le> t \<Longrightarrow> t < 10 ^ 9 \<Longrightarrow> time_ok zero_second t"
proof -
  have "stamp_text 1 1 1 0 0 0 = ''0001-01-01T00:00:00''" by code_simp
  moreover have "valid_date 1 1 1" by (simp add: valid_date_def month_days_def)
  ultimately have "stamp_ok zero_second 0"
    unfolding stamp_ok_def zero_second_def
    by (intro exI [of _ 1] exI [of _ 0]) auto
  then show "0 \<le> t \<Longrightarrow> t < 10 ^ 9 \<Longrightarrow> time_ok zero_second t" by (simp add: time_ok_def whole_second_def)
qed

theorem served_json_read_back_witness:
  "\<exists>p. dispatch (serde_env zero_second (\<lambda>_. ''{}'') (\<lambda>_. None) rfc3339_nanos demo_env) after_adding ''v1.3/containers/a/'' None [] =
       Response 200 ''application/json'' ''{}'' \<and>
     de_payload rfc3339_nanos p (payload_json zero_second p) = Some (wire_form p)"
proof -
  let ?ae = "serde_env zero_second (\<lambda>_. ''{}'') (\<lambda>_. None) rfc3339_nanos demo_env"
  let ?xs = "adding one_cgroup no_runtimes @ [Step Sweeper 0 0]"
  have z: "time_ok zero_second 0" "time_ok zero_second 7" by (simp_all add: zero_second_ok)
  have m: "machine_ok zero_second default_machine_info"
    using z(1) by (simp add: machine_ok_def wire_machine_def ok_machine_info_def default_machine_info_def in_i64_def
        bt_wf_def time_ok_def)
  have i: "list_all (input_ok zero_second) ?xs"
    using z by (simp add: adding_def mtimes_ok_def one_cgroup_def runtimes_ok_def no_runtimes_def labels_ok_def)
  have r: "request_ok zero_second demo_env"
    using z by (auto simp: request_ok_def demo_env_def demo_host_def os_of_files_def)
  have "\<exists>x. container_info_of after_adding ''/a'' default_container_info_request = Inr x"
    by (simp add: container_info_of_def handle_of_def after_adding)
  then have d: "dispatch ?ae after_adding ''v1.3/containers/a/'' None [] = Response 200 ''application/json'' ''{}''"
    using containers_dispatch [of "''v1.3''" "[''a'']" ?ae after_adding 1 None "[]"]
    by (auto simp: decode_request_def serde_env_def json_def Let_def)
  then have "dispatch ?ae (run demo_config (\<lambda>_. None) ?xs (reg_start default_machine_info)) ''v1.3/containers/a/'' None [] =
      Response 200 ''application/json'' ''{}''" by (simp add: after_adding_def)
  from served_json_read_back [OF rfc3339_ok_nanos z(1) m i r this] show ?thesis using d by blast
qed

end
