(* ===== verification/Runtime_Cell.thy ===== *)
theory Runtime_Cell
  imports Runtime
begin

text \<open>
  The connection to containerd: \<open>ContainerdClient::connect\<close> of \<open>crates/cadvisor-runtime/src/containerd.rs\<close>
  and \<open>Manager::containerd\<close> of \<open>manager.rs\<close>, which keeps it in a \<open>OnceCell\<close>. The cell is \<open>None\<close> until the
  first use and then holds what that use found, the client or that there is none. \<open>enrich_all\<close> are the
  metadata lookups of a run of the daemon in their order, each with the runtimes as they are at that
  time and what connecting would give then.
\<close>

type_synonym containerd_inspector = "nat \<Rightarrow> string \<Rightarrow> (runtime_error, container_meta) res"
type_synonym once_cell = "containerd_inspector option option"

definition containerd_connect ::
  "(string \<Rightarrow> (string, 'c) res) \<Rightarrow> string \<Rightarrow> string \<Rightarrow> (runtime_error, 'c \<times> string) res" where
  "containerd_connect dial socket namespace =
     res_bind (res_map_err RtUnavailable (dial socket)) (\<lambda>channel. Inr (channel, namespace))"

definition containerd_get ::
  "(runtime_error, containerd_inspector) res \<Rightarrow> once_cell \<Rightarrow> containerd_inspector option \<times> once_cell" where
  "containerd_get connecting cell =
     (case cell of
        Some client \<Rightarrow> (client, cell)
      | None \<Rightarrow>
          (let client = res_ok connecting in (client, Some client)))"

text \<open>Which lookups come to containerd.\<close>

definition asks_containerd :: "string \<Rightarrow> bool" where
  "asks_containerd basename \<longleftrightarrow> \<not> starts_with basename ''crio-'' \<and> extract_container_id basename \<noteq> None"

definition enrich ::
  "runtimes \<Rightarrow> (runtime_error, containerd_inspector) res \<Rightarrow> string \<Rightarrow> once_cell \<Rightarrow>
     (container_meta option \<times> nat list) \<times> once_cell" where
  "enrich rts connecting basename cell =
     (if asks_containerd basename then
        (let (client, cell') = containerd_get connecting cell
         in (runtime_meta (rts\<lparr>rts_containerd := client\<rparr>) basename, cell'))
      else (runtime_meta rts basename, cell))"

fun enrich_all ::
  "(runtimes \<times> (runtime_error, containerd_inspector) res \<times> string) list \<Rightarrow> once_cell \<Rightarrow>
     (container_meta option \<times> nat list) list" where
  "enrich_all [] cell = []"
| "enrich_all ((rts, connecting, basename) # us) cell =
     (let (r, cell') = enrich rts connecting basename cell in r # enrich_all us cell')"

lemma no_client:
  assumes "asks_containerd basename"
  shows "runtime_meta (rts\<lparr>rts_containerd := None\<rparr>) basename = (None, [])"
proof -
  obtain cid where "extract_container_id basename = Some cid" "\<not> starts_with basename ''crio-''"
    using assms by (auto simp: asks_containerd_def)
  moreover have "\<not> starts_with basename ''crio-conmon-''"
    using calculation(2) by (auto simp: starts_with_iff)
  ultimately show ?thesis by (simp add: runtime_meta_def meta_attempt_def)
qed

lemma without_client:
  "list_all2 (\<lambda>(rts, connecting, basename) r. asks_containerd basename \<longrightarrow> r = (None, [])) us
     (enrich_all us (Some None))"
  by (induction us) (auto simp: enrich_def containerd_get_def no_client split: prod.splits)

text \<open>The answer of the first use is the answer of every use.\<close>

lemma containerd_get_once: "containerd_get connecting (snd (containerd_get first None)) =
    (fst (containerd_get first None), snd (containerd_get first None))"
  by (simp add: containerd_get_def Let_def)

section \<open>Properties\<close>

text \<open>C39: a containerd that does not answer at the first lookup that asks for it is never asked again: from
  then on every such container stays without metadata, whatever connecting would give later, as when
  containerd starts after the daemon.\<close>

theorem containerd_never_retried:
  assumes "asks_containerd basename"
  shows "list_all2 (\<lambda>(rts, connecting, basename) r. asks_containerd basename \<longrightarrow> r = (None, []))
     ((rts, Inl e, basename) # later) (enrich_all ((rts, Inl e, basename) # later) None)"
  using no_client [OF assms] without_client [of later]
  by (simp add: enrich_def containerd_get_def assms)

theorem containerd_never_retried_witness:
  "enrich_all [(demo_runtimes, Inl (RtUnavailable ''no socket''), ''cri-containerd-'' @ demo_id @ ''.scope''),
      (demo_runtimes, Inr (\<lambda>_ _. Inr demo_meta), ''cri-containerd-'' @ demo_id @ ''.scope'')] None =
    [(None, []), (None, [])]"
proof -
  have asks: "asks_containerd (''cri-containerd-'' @ demo_id @ ''.scope'')"
    using demo_extract(2) by (simp add: asks_containerd_def starts_with_def)
  show ?thesis
    using asks containerd_never_retried [OF asks, of demo_runtimes "RtUnavailable ''no socket''"
        "[(demo_runtimes, Inr (\<lambda>_ _. Inr demo_meta), ''cri-containerd-'' @ demo_id @ ''.scope'')]"]
    by (simp add: list_all2_Cons1)
qed

end
