(* ===== verification/Manager_Tasks.thy ===== *)
theory Manager_Tasks
  imports Manager_Start
begin

text \<open>
  The background tasks of \<open>Manager::start\<close> (\<open>crates/cadvisor-manager/src/manager.rs\<close>) side by side: the
  consumer of the watcher's channel, the refresh of the machine info, the global sweep and the
  housekeeping tasks. The unbounded channel is the queue \<open>tk_queue\<close>, the local variables of the sweep are
  its program counter \<open>sweep_pc\<close>; what the tasks share is the registry \<open>tk_reg\<close>. A \<open>task_input\<close> lets one task
  make its next move between two accesses to what is shared, with what it reads there of the host and of
  its clocks; when a timer ticks or a task is scheduled is the business of tokio, so any list of inputs
  is a run.

  The lemmas: the tasks make only moves of \<open>Registry\<close>, and left alone each finishes what it is at; the
  consumer and the sweep alone do what \<open>consume\<close> and \<open>sweep\<close> say.
\<close>

section \<open>The tasks\<close>

datatype sweep_pc =
    Waiting
  | Walked "string list"
  | Adding "string list" "string list" "string list"
  | Removing "string list" "string list"
  | Condemned string "string list" "string list"

record tasks =
  tk_reg :: reg
  tk_queue :: "cgroup_event list"
  tk_sweep :: sweep_pc

text \<open>\<open>rx.recv()\<close> and the call it leads to, or the next piece of that call.\<close>

definition consumer_step :: "manager_config \<Rightarrow> host \<Rightarrow> runtimes \<Rightarrow> int \<Rightarrow> gotime \<Rightarrow> tasks \<Rightarrow> tasks" where
  "consumer_step cfg ho rts instant now t =
     (let s = tk_reg t in
      if rg_phase s Watcher \<noteq> Idle then t\<lparr>tk_reg := agent_step cfg Watcher instant now s\<rparr>
      else case tk_queue t of
        [] \<Rightarrow> t
      | Added name # q \<Rightarrow> t\<lparr>tk_queue := q, tk_reg := add_begin cfg ho rts Watcher name True s\<rparr>
      | Removed name # q \<Rightarrow> t\<lparr>tk_queue := q, tk_reg := remove_unlink Watcher name s\<rparr>)"

text \<open>The loop of the global sweep: the walk, the names it compares with, the two loops.\<close>

definition sweeper_step :: "manager_config \<Rightarrow> host \<Rightarrow> runtimes \<Rightarrow> int \<Rightarrow> gotime \<Rightarrow> tasks \<Rightarrow> tasks" where
  "sweeper_step cfg ho rts instant now t =
     (let s = tk_reg t in
      if rg_phase s Sweeper \<noteq> Idle then t\<lparr>tk_reg := agent_step cfg Sweeper instant now s\<rparr>
      else case tk_sweep t of
        Waiting \<Rightarrow>
          (case walk_tree (ho_os ho) (mc_cgroup_root cfg) of
             Some current \<Rightarrow> t\<lparr>tk_sweep := Walked current\<rparr> | None \<Rightarrow> t)
      | Walked current \<Rightarrow> t\<lparr>tk_sweep := Adding current (map fst (rg_map s)) current\<rparr>
      | Adding current known (name # todo) \<Rightarrow>
          t\<lparr>tk_sweep := Adding current known todo,
            tk_reg := (if name \<notin> set known then add_begin cfg ho rts Sweeper name True s else s)\<rparr>
      | Adding current known [] \<Rightarrow> t\<lparr>tk_sweep := Removing current known\<rparr>
      | Removing current (name # todo) \<Rightarrow>
          t\<lparr>tk_sweep :=
              (if name \<noteq> ''/'' \<and> name \<notin> set current \<and> \<not> cg_exists (ho_os ho) (mc_cgroup_root cfg) name
               then Condemned name current todo else Removing current todo)\<rparr>
      | Condemned name current todo \<Rightarrow>
          t\<lparr>tk_sweep := Removing current todo, tk_reg := remove_unlink Sweeper name s\<rparr>
      | Removing current [] \<Rightarrow> t\<lparr>tk_sweep := Waiting\<rparr>)"

definition refresher_step :: "(host_error, machine_info) res \<Rightarrow> tasks \<Rightarrow> tasks" where
  "refresher_step r t = t\<lparr>tk_reg := (tk_reg t)\<lparr>rg_machine := refresh_machine_info r (rg_machine (tk_reg t))\<rparr>\<rparr>"

datatype task_input =
    Sent "cgroup_event list"
  | Consumer host runtimes int gotime
  | Sweep host runtimes int gotime
  | Refresher "(host_error, machine_info) res"
  | Housekeeper nat turn_input

definition task_step :: "manager_config \<Rightarrow> (nat \<Rightarrow> int option) \<Rightarrow> task_input \<Rightarrow> tasks \<Rightarrow> tasks" where
  "task_step cfg from_std x t =
     (case x of
        Sent evs \<Rightarrow> t\<lparr>tk_queue := tk_queue t @ evs\<rparr>
      | Consumer ho rts instant now \<Rightarrow> consumer_step cfg ho rts instant now t
      | Sweep ho rts instant now \<Rightarrow> sweeper_step cfg ho rts instant now t
      | Refresher r \<Rightarrow> refresher_step r t
      | Housekeeper i inp \<Rightarrow>
          (if i \<in> set (rg_running (tk_reg t)) then t\<lparr>tk_reg := turn cfg from_std inp i (tk_reg t)\<rparr> else t))"

definition tasks_run :: "manager_config \<Rightarrow> (nat \<Rightarrow> int option) \<Rightarrow> task_input list \<Rightarrow> tasks \<Rightarrow> tasks" where
  "tasks_run cfg from_std xs t = fold (task_step cfg from_std) xs t"

text \<open>\<open>start\<close>: the initial sweep, then the tasks are spawned.\<close>

definition manager_start :: "manager_config \<Rightarrow> host \<Rightarrow> runtimes \<Rightarrow> int \<Rightarrow> reg \<Rightarrow> tasks option" where
  "manager_start cfg ho rts instant s =
     map_option (\<lambda>s. \<lparr>tk_reg = s, tk_queue = [], tk_sweep = Waiting\<rparr>) (initial_sweep cfg ho rts instant s)"

section \<open>Moves of the registry\<close>

lemma act_simps:
  "rg_phase s a = Idle \<Longrightarrow> act cfg from_std (AddBegin a ho rts name rec) s = add_begin cfg ho rts a name rec s"
  "act cfg from_std (Step a instant now) s = agent_step cfg a instant now s"
  "rg_phase s a = Idle \<Longrightarrow> act cfg from_std (RemoveBegin a name) s = remove_unlink a name s"
  "i \<in> set (rg_running s) \<Longrightarrow> act cfg from_std (Turn i inp) s = turn cfg from_std inp i s"
  "act cfg from_std (Refresh r) s = s\<lparr>rg_machine := refresh_machine_info r (rg_machine s)\<rparr>"
  by (simp_all add: act_def)

lemma task_step_moves:
  "tk_reg (task_step cfg from_std x t) = tk_reg t \<or>
     (\<exists>y. tk_reg (task_step cfg from_std x t) = act cfg from_std y (tk_reg t))"
proof (cases x)
  case (Consumer ho rts instant now)
  then show ?thesis
    by (auto simp: task_step_def consumer_step_def Let_def split: list.split cgroup_event.split
        intro: act_simps [symmetric])
next
  case (Sweep ho rts instant now)
  then show ?thesis
    by (cases "rg_phase (tk_reg t) Sweeper = Idle"; cases "tk_sweep t")
      (auto simp: task_step_def sweeper_step_def Let_def split: list.split option.split intro: act_simps [symmetric])
qed (auto simp: task_step_def refresher_step_def intro: act_simps [symmetric])

lemma tasks_run_reachable:
  "reachable cfg from_std mi (tk_reg t) \<Longrightarrow> reachable cfg from_std mi (tk_reg (tasks_run cfg from_std xs t))"
proof (induction xs arbitrary: t)
  case (Cons x xs)
  have "reachable cfg from_std mi (tk_reg (task_step cfg from_std x t))"
    using task_step_moves [of cfg from_std x t] Cons.prems by (auto intro: reachable.step)
  then show ?case using Cons.IH by (simp add: tasks_run_def)
qed (simp add: tasks_run_def)

lemma agent_step_reachable: "reachable cfg from_std mi s \<Longrightarrow> reachable cfg from_std mi (agent_step cfg a instant now s)"
  using reachable.step [of cfg from_std mi s "Step a instant now"] by (simp add: act_simps(2))

lemma agent_steps_reachable:
  "reachable cfg from_std mi s \<Longrightarrow> reachable cfg from_std mi ((agent_step cfg a instant now ^^ n) s)"
  by (induction n) (simp_all add: agent_step_reachable)

lemma add_container_idle: "rg_phase s a = Idle \<Longrightarrow> rg_phase (add_container cfg ho rts a t rec name s) a = Idle"
  using add_container_effect [of s a cfg ho rts t rec name] by (simp add: Let_def)

lemma add_container_reachable:
  assumes "reachable cfg from_std mi s" "rg_phase s a = Idle"
  shows "reachable cfg from_std mi (add_container cfg ho rts a instant rec name s)"
  unfolding add_container_def act_simps(1) [OF assms(2), of cfg from_std, symmetric]
  by (intro agent_steps_reachable reachable.step assms(1))

lemma initial_sweep_reachable:
  assumes "initial_sweep cfg ho rts instant (reg_start mi) = Some s"
  shows "reachable cfg from_std mi s"
proof -
  have "reachable cfg from_std mi (fold (add_container cfg ho rts Sweeper instant False) names s)"
    if "reachable cfg from_std mi s" "rg_phase s Sweeper = Idle" for names s
    using that by (induction names arbitrary: s) (simp_all add: add_container_reachable add_container_idle)
  moreover have "reachable cfg from_std mi (reg_start mi)" by (rule reachable.start)
  moreover have "rg_phase (reg_start mi) Sweeper = Idle" by (simp add: reg_start_def)
  ultimately show ?thesis using assms by (auto simp: initial_sweep_def)
qed

section \<open>A task alone\<close>

text \<open>How many pieces of an operation are left.\<close>

fun pieces :: "phase \<Rightarrow> nat" where
  "pieces Idle = 0"
| "pieces (Built _ _) = 4"
| "pieces (Inserted _ _) = 3"
| "pieces (Recorded _) = 2"
| "pieces (Spawned _) = 1"
| "pieces (Unlinked _ _) = 2"
| "pieces (Aborted _) = 1"

lemma pieces_0 [simp]: "pieces p = 0 \<longleftrightarrow> p = Idle"
  by (cases p) simp_all

lemma agent_step_pieces:
  "rg_phase s a \<noteq> Idle \<Longrightarrow> pieces (rg_phase (agent_step cfg a instant now s) a) < pieces (rg_phase s a)"
  by (cases "rg_phase s a")
    (simp_all add: agent_step_def add_insert_def add_record_def add_spawn_def add_store_def remove_abort_def remove_record_def)

text \<open>What a task reaches by its own moves.\<close>

definition reaches :: "(tasks \<Rightarrow> tasks) \<Rightarrow> tasks \<Rightarrow> tasks \<Rightarrow> bool" where
  "reaches f t t' \<longleftrightarrow> (\<exists>k. (f ^^ k) t = t')"

lemma reaches_refl: "reaches f t t"
  unfolding reaches_def by (rule exI [of _ 0]) simp

lemma reaches_step: "reaches f (f t) t' \<Longrightarrow> reaches f t t'"
  unfolding reaches_def by (metis comp_apply funpow_Suc_right)

lemma reaches_via: "f t = u \<Longrightarrow> reaches f u t' \<Longrightarrow> reaches f t t'"
  using reaches_step [of f t t'] by simp

lemma reaches_once: "f t = u \<Longrightarrow> reaches f t u"
  using reaches_via [of f t u u] reaches_refl by simp

lemma reaches_trans: "reaches f t t' \<Longrightarrow> reaches f t' t'' \<Longrightarrow> reaches f t t''"
  unfolding reaches_def by (metis comp_apply funpow_add)

text \<open>A task that steps its agent as long as it is at work runs the operation to its end.\<close>

definition serves :: "manager_config \<Rightarrow> agent \<Rightarrow> int \<Rightarrow> gotime \<Rightarrow> (tasks \<Rightarrow> tasks) \<Rightarrow> bool" where
  "serves cfg a instant now f \<longleftrightarrow>
     (\<forall>t. rg_phase (tk_reg t) a \<noteq> Idle \<longrightarrow> f t = t\<lparr>tk_reg := agent_step cfg a instant now (tk_reg t)\<rparr>)"

lemma run_to_idle:
  assumes "serves cfg a instant now f" "pieces (rg_phase (tk_reg t) a) \<le> n"
  shows "reaches f t (t\<lparr>tk_reg := (agent_step cfg a instant now ^^ n) (tk_reg t)\<rparr>) \<and>
     rg_phase ((agent_step cfg a instant now ^^ n) (tk_reg t)) a = Idle"
  using assms(2)
proof (induction n arbitrary: t)
  case (Suc n)
  let ?t = "t\<lparr>tk_reg := agent_step cfg a instant now (tk_reg t)\<rparr>"
  have steps: "(agent_step cfg a instant now ^^ Suc n) (tk_reg t) = (agent_step cfg a instant now ^^ n) (tk_reg ?t)"
    by (simp add: funpow_Suc_right del: funpow.simps)
  show ?case
  proof (cases "rg_phase (tk_reg t) a = Idle")
    case True
    then show ?thesis using agent_step_idle [OF True, where n = "Suc n"] reaches_refl [of f t] by simp
  next
    case False
    then have "pieces (rg_phase (tk_reg ?t) a) \<le> n"
      using less_le_trans [OF agent_step_pieces [OF False, of cfg instant now] Suc.prems] by simp
    from Suc.IH [OF this] show ?thesis
      using assms(1) False unfolding steps serves_def by (auto intro: reaches_step)
  qed
qed (simp add: reaches_refl)

text \<open>An addition does not read the clock of events, a removal not the one of housekeeping.\<close>

fun adding_phase :: "phase \<Rightarrow> bool" where
  "adding_phase (Unlinked _ _) = False"
| "adding_phase (Aborted _) = False"
| "adding_phase _ = True"

lemma adding_step:
  "adding_phase (rg_phase s a) \<Longrightarrow> agent_step cfg a instant now s = agent_step cfg a instant now' s \<and>
     adding_phase (rg_phase (agent_step cfg a instant now s) a)"
  by (cases "rg_phase s a")
    (simp_all add: agent_step_def add_insert_def add_record_def add_spawn_def add_store_def)

lemma adding_steps:
  "adding_phase (rg_phase s a) \<Longrightarrow> (agent_step cfg a instant now ^^ n) s = (agent_step cfg a instant now' ^^ n) s"
proof (induction n arbitrary: s)
  case (Suc n)
  then show ?case using adding_step [OF Suc.prems, of cfg instant now now']
    by (metis comp_apply funpow_Suc_right)
qed simp

lemma removing_step:
  "rg_phase s a = Unlinked i name \<Longrightarrow>
     (agent_step cfg a instant now ^^ 2) s = (agent_step cfg a instant' now ^^ 2) s"
  by (simp add: numeral_eq_Suc agent_step_def remove_abort_def)

lemma add_alone:
  assumes "serves cfg a instant now f" "rg_phase s a = Idle" "tk_reg t = add_begin cfg ho rts a name rec s"
  shows "reaches f t (t\<lparr>tk_reg := add_container cfg ho rts a instant rec name s\<rparr>)"
proof -
  have p: "rg_phase (tk_reg t) a = Idle \<or> (\<exists>h r. rg_phase (tk_reg t) a = Built h r)"
    using assms(2,3) by (auto simp: add_begin_def split: sum.split)
  then have "pieces (rg_phase (tk_reg t) a) \<le> 4" "adding_phase (rg_phase (tk_reg t) a)" by auto
  then show ?thesis
    using run_to_idle [OF assms(1), of t 4] adding_steps [of "tk_reg t" a 4 cfg instant now 0] assms(3)
    by (simp add: add_container_def)
qed

lemma remove_alone:
  assumes "serves cfg a instant now f" "rg_phase s a = Idle" "tk_reg t = remove_unlink a name s"
  shows "reaches f t (t\<lparr>tk_reg := remove_container cfg a now name s\<rparr>)"
proof (cases "rg_phase (tk_reg t) a = Idle")
  case True
  then have "remove_container cfg a now name s = tk_reg t"
    using agent_step_idle [OF True, where n = 2] assms(3) by (simp add: remove_container_def)
  then show ?thesis using reaches_refl [of f t] by simp
next
  case False
  then obtain i where p: "rg_phase (tk_reg t) a = Unlinked i name"
    using assms(2,3) by (auto simp: remove_unlink_def split: option.splits)
  then have "pieces (rg_phase (tk_reg t) a) \<le> 2" by simp
  then show ?thesis
    using run_to_idle [OF assms(1), of t 2] removing_step [OF p, of cfg instant now 0] assms(3)
    by (simp add: remove_container_def)
qed

section \<open>The consumer and the sweep alone\<close>

lemma consumer_serves: "serves cfg Watcher instant now (consumer_step cfg ho rts instant now)"
  by (simp add: serves_def consumer_step_def Let_def)

lemma sweeper_serves: "serves cfg Sweeper instant now (sweeper_step cfg ho rts instant now)"
  by (simp add: serves_def sweeper_step_def Let_def)

lemma remove_container_idle: "rg_phase s a = Idle \<Longrightarrow> rg_phase (remove_container cfg a now name s) a = Idle"
  using remove_container_effect [of s a cfg now name] by simp

lemma consume_event_idle:
  "rg_phase s Watcher = Idle \<Longrightarrow> rg_phase (consume_event cfg ho rts instant now ev s) Watcher = Idle"
  by (simp add: consume_event_def add_container_idle remove_container_idle split: cgroup_event.split)

lemma consumer_event:
  assumes "rg_phase (tk_reg t) Watcher = Idle" "tk_queue t = ev # q"
  shows "reaches (consumer_step cfg ho rts instant now) t
     (t\<lparr>tk_queue := q, tk_reg := consume_event cfg ho rts instant now ev (tk_reg t)\<rparr>)"
proof (cases ev)
  case (Added name)
  let ?t = "t\<lparr>tk_queue := q, tk_reg := add_begin cfg ho rts Watcher name True (tk_reg t)\<rparr>"
  have "consumer_step cfg ho rts instant now t = ?t" using assms Added by (simp add: consumer_step_def)
  moreover have "reaches (consumer_step cfg ho rts instant now) ?t
      (?t\<lparr>tk_reg := add_container cfg ho rts Watcher instant True name (tk_reg t)\<rparr>)"
    by (rule add_alone [OF consumer_serves assms(1)]) simp
  ultimately show ?thesis using Added reaches_via by (simp add: consume_event_def)
next
  case (Removed name)
  let ?t = "t\<lparr>tk_queue := q, tk_reg := remove_unlink Watcher name (tk_reg t)\<rparr>"
  have "consumer_step cfg ho rts instant now t = ?t" using assms Removed by (simp add: consumer_step_def)
  moreover have "reaches (consumer_step cfg ho rts instant now) ?t
      (?t\<lparr>tk_reg := remove_container cfg Watcher now name (tk_reg t)\<rparr>)"
    by (rule remove_alone [OF consumer_serves assms(1)]) simp
  ultimately show ?thesis using Removed reaches_via by (simp add: consume_event_def)
qed

lemma consumer_drains:
  assumes "rg_phase (tk_reg t) Watcher = Idle"
  shows "reaches (consumer_step cfg ho rts instant now) t
     (t\<lparr>tk_queue := [], tk_reg := consume cfg ho rts instant now (tk_queue t) (tk_reg t)\<rparr>)"
  using assms
proof (induction "tk_queue t" arbitrary: t)
  case Nil
  then have "t\<lparr>tk_queue := [], tk_reg := consume cfg ho rts instant now (tk_queue t) (tk_reg t)\<rparr> = t"
    by (simp add: consume_def)
  then show ?case using reaches_refl by metis
next
  case (Cons ev q)
  let ?t = "t\<lparr>tk_queue := q, tk_reg := consume_event cfg ho rts instant now ev (tk_reg t)\<rparr>"
  have "rg_phase (tk_reg ?t) Watcher = Idle" using consume_event_idle [OF Cons.prems] by simp
  from Cons.hyps(1) [of ?t, OF _ this] have "reaches (consumer_step cfg ho rts instant now) ?t
      (?t\<lparr>tk_queue := [], tk_reg := consume cfg ho rts instant now q (tk_reg ?t)\<rparr>)" by simp
  from reaches_trans [OF consumer_event [OF Cons.prems Cons.hyps(2) [symmetric]] this] show ?case
    unfolding Cons.hyps(2) [symmetric] by (simp add: consume_def)
qed

text \<open>The two loops of the sweep.\<close>

lemma sweep_adds:
  assumes "rg_phase (tk_reg t) Sweeper = Idle"
  shows "reaches (sweeper_step cfg ho rts instant now) (t\<lparr>tk_sweep := Adding current known todo\<rparr>)
     (t\<lparr>tk_sweep := Adding current known [], tk_reg :=
        fold (\<lambda>n s. if n \<notin> set known then add_container cfg ho rts Sweeper instant True n s else s) todo (tk_reg t)\<rparr>)"
  using assms
proof (induction todo arbitrary: t)
  case Nil
  then show ?case by (simp add: reaches_refl)
next
  case (Cons name todo)
  let ?f = "sweeper_step cfg ho rts instant now"
  let ?s = "if name \<notin> set known then add_container cfg ho rts Sweeper instant True name (tk_reg t) else tk_reg t"
  let ?t = "t\<lparr>tk_sweep := Adding current known todo,
      tk_reg := if name \<notin> set known then add_begin cfg ho rts Sweeper name True (tk_reg t) else tk_reg t\<rparr>"
  have first: "?f (t\<lparr>tk_sweep := Adding current known (name # todo)\<rparr>) = ?t"
    using Cons.prems by (simp add: sweeper_step_def)
  have added: "reaches ?f ?t (t\<lparr>tk_sweep := Adding current known todo, tk_reg := ?s\<rparr>)"
  proof (cases "name \<in> set known")
    case True
    then show ?thesis by (simp add: reaches_refl)
  next
    case False
    then show ?thesis
      using add_alone [OF sweeper_serves Cons.prems, where t = ?t and name = name and rec = True] by simp
  qed
  have "rg_phase (tk_reg (t\<lparr>tk_reg := ?s\<rparr>)) Sweeper = Idle"
    using Cons.prems by (simp add: add_container_idle)
  note rest = Cons.IH [OF this]
  have e: "t\<lparr>tk_reg := ?s, tk_sweep := Adding current known todo\<rparr> = t\<lparr>tk_sweep := Adding current known todo, tk_reg := ?s\<rparr>"
    by (cases t) simp
  show ?case using reaches_via [OF first reaches_trans [OF added rest [unfolded e]]] by simp
qed

lemma sweep_removes:
  assumes "rg_phase (tk_reg t) Sweeper = Idle"
  shows "reaches (sweeper_step cfg ho rts instant now) (t\<lparr>tk_sweep := Removing current todo\<rparr>)
     (t\<lparr>tk_sweep := Waiting, tk_reg :=
        fold (\<lambda>n s. if n \<noteq> ''/'' \<and> n \<notin> set current \<and> \<not> cg_exists (ho_os ho) (mc_cgroup_root cfg) n
          then remove_container cfg Sweeper now n s else s) todo (tk_reg t)\<rparr>)"
  using assms
proof (induction todo arbitrary: t)
  case Nil
  have "sweeper_step cfg ho rts instant now (t\<lparr>tk_sweep := Removing current []\<rparr>) = t\<lparr>tk_sweep := Waiting\<rparr>"
    using Nil by (simp add: sweeper_step_def)
  then have "reaches (sweeper_step cfg ho rts instant now) (t\<lparr>tk_sweep := Removing current []\<rparr>) (t\<lparr>tk_sweep := Waiting\<rparr>)"
    by (rule reaches_once)
  then show ?case by simp
next
  case (Cons name todo)
  let ?f = "sweeper_step cfg ho rts instant now"
  let ?P = "name \<noteq> ''/'' \<and> name \<notin> set current \<and> \<not> cg_exists (ho_os ho) (mc_cgroup_root cfg) name"
  let ?s = "if ?P then remove_container cfg Sweeper now name (tk_reg t) else tk_reg t"
  let ?u = "t\<lparr>tk_sweep := Removing current todo, tk_reg := ?s\<rparr>"
  have head: "reaches ?f (t\<lparr>tk_sweep := Removing current (name # todo)\<rparr>) ?u"
  proof (cases ?P)
    case False
    then have "?f (t\<lparr>tk_sweep := Removing current (name # todo)\<rparr>) = ?u"
      using Cons.prems by (auto simp: sweeper_step_def)
    then show ?thesis by (rule reaches_once)
  next
    case True
    let ?t = "t\<lparr>tk_sweep := Removing current todo, tk_reg := remove_unlink Sweeper name (tk_reg t)\<rparr>"
    have 1: "?f (t\<lparr>tk_sweep := Removing current (name # todo)\<rparr>) = t\<lparr>tk_sweep := Condemned name current todo\<rparr>"
      and 2: "?f (t\<lparr>tk_sweep := Condemned name current todo\<rparr>) = ?t"
      using Cons.prems True by (simp_all add: sweeper_step_def)
    have 3: "reaches ?f ?t (?t\<lparr>tk_reg := remove_container cfg Sweeper now name (tk_reg t)\<rparr>)"
      by (rule remove_alone [OF sweeper_serves Cons.prems]) simp
    show ?thesis using reaches_via [OF 1 reaches_via [OF 2 3]] True by simp
  qed
  have "rg_phase (tk_reg (t\<lparr>tk_reg := ?s\<rparr>)) Sweeper = Idle"
    using Cons.prems by (simp add: remove_container_idle)
  note rest = Cons.IH [OF this]
  have e: "t\<lparr>tk_reg := ?s, tk_sweep := Removing current todo\<rparr> = ?u" by (cases t) simp
  show ?case using reaches_trans [OF head rest [unfolded e]] by simp
qed

lemma sweep_alone:
  assumes "rg_phase (tk_reg t) Sweeper = Idle" "tk_sweep t = Waiting"
    and "sweep cfg ho rts instant now (tk_reg t) = Some s"
  shows "reaches (sweeper_step cfg ho rts instant now) t (t\<lparr>tk_sweep := Waiting, tk_reg := s\<rparr>)"
proof -
  let ?f = "sweeper_step cfg ho rts instant now" and ?known = "map fst (rg_map (tk_reg t))"
  obtain current where w: "walk_tree (ho_os ho) (mc_cgroup_root cfg) = Some current"
    using assms(3) by (auto simp: sweep_def)
  define s1 where "s1 = fold (\<lambda>n s. if n \<notin> set ?known then add_container cfg ho rts Sweeper instant True n s else s)
      current (tk_reg t)"
  let ?t1 = "t\<lparr>tk_sweep := Adding current ?known [], tk_reg := s1\<rparr>"
  have s: "s = fold (\<lambda>n s. if n \<noteq> ''/'' \<and> n \<notin> set current \<and> \<not> cg_exists (ho_os ho) (mc_cgroup_root cfg) n
      then remove_container cfg Sweeper now n s else s) ?known s1"
    using assms(3) by (simp add: sweep_def w s1_def Let_def)
  have idle: "rg_phase s1 Sweeper = Idle"
    using fold_add [OF assms(1), of "set ?known" cfg ho rts instant True current] assms(1) by (simp add: s1_def Let_def)
  have 1: "?f t = t\<lparr>tk_sweep := Walked current\<rparr>" using assms(1,2) w by (simp add: sweeper_step_def)
  have 2: "?f (t\<lparr>tk_sweep := Walked current\<rparr>) = t\<lparr>tk_sweep := Adding current ?known current\<rparr>"
    using assms(1) by (simp add: sweeper_step_def)
  have 3: "reaches ?f (t\<lparr>tk_sweep := Adding current ?known current\<rparr>) ?t1"
    using sweep_adds [OF assms(1), of cfg ho rts instant now current ?known current] by (simp add: s1_def)
  have 4: "?f ?t1 = ?t1\<lparr>tk_sweep := Removing current ?known\<rparr>" using idle by (simp add: sweeper_step_def)
  have 5: "reaches ?f (?t1\<lparr>tk_sweep := Removing current ?known\<rparr>) (t\<lparr>tk_sweep := Waiting, tk_reg := s\<rparr>)"
    using sweep_removes [of ?t1 cfg ho rts instant now current ?known] idle by (cases t) (simp add: s)
  show ?thesis by (rule reaches_via [OF 1 reaches_via [OF 2 reaches_trans [OF 3 reaches_via [OF 4 5]]]])
qed

text \<open>What the other agent is at, the queue and the machine information are not the sweep's.\<close>

definition untouched :: "tasks \<Rightarrow> tasks \<Rightarrow> bool" where
  "untouched t t' \<longleftrightarrow> tk_queue t' = tk_queue t \<and> rg_phase (tk_reg t') Watcher = rg_phase (tk_reg t) Watcher \<and>
     rg_machine (tk_reg t') = rg_machine (tk_reg t)"

lemma agent_step_other:
  "b \<noteq> a \<Longrightarrow> rg_phase (agent_step cfg a instant now s) b = rg_phase s b"
  "rg_machine (agent_step cfg a instant now s) = rg_machine s"
  by (cases "rg_phase s a";
    simp add: agent_step_def add_insert_def add_record_def add_spawn_def add_store_def remove_abort_def
      remove_record_def set_phase_def)+

lemma sweeper_step_untouched: "untouched t (sweeper_step cfg ho rts instant now t)"
  by (cases "rg_phase (tk_reg t) Sweeper = Idle"; cases "tk_sweep t")
    (auto simp: untouched_def sweeper_step_def Let_def agent_step_other add_begin_def remove_unlink_def set_phase_def
      split: list.split option.split sum.split)

lemma sweeper_untouched: "reaches (sweeper_step cfg ho rts instant now) t t' \<Longrightarrow> untouched t t'"
proof -
  have "untouched t ((sweeper_step cfg ho rts instant now ^^ k) t)" for k
    by (induction k) (use sweeper_step_untouched in \<open>auto simp: untouched_def\<close>)
  then show "reaches (sweeper_step cfg ho rts instant now) t t' \<Longrightarrow> untouched t t'" by (auto simp: reaches_def)
qed

lemma sweep_idle:
  assumes "rg_phase s Sweeper = Idle" "sweep cfg ho rts instant now s = Some s'"
  shows "rg_phase s' Sweeper = Idle"
proof -
  have adds: "rg_phase (fold (\<lambda>n s. if n \<notin> K then add_container cfg ho rts Sweeper instant True n s else s) names s) Sweeper = Idle"
    if "rg_phase s Sweeper = Idle" for K names s
    using that by (induction names arbitrary: s) (simp_all add: add_container_idle)
  have removes: "rg_phase (fold (\<lambda>n s. if P n then remove_container cfg Sweeper now n s else s) names s) Sweeper = Idle"
    if "rg_phase s Sweeper = Idle" for P names s
    using that by (induction names arbitrary: s) (simp_all add: remove_container_idle)
  show ?thesis using assms(2) by (auto simp: sweep_def Let_def intro!: removes adds assms(1))
qed

lemma sweeper_finishes:
  "\<exists>t'. reaches (sweeper_step cfg ho rts instant now) t t' \<and> rg_phase (tk_reg t') Sweeper = Idle"
  using run_to_idle [OF sweeper_serves order_refl, where t = t] by fastforce

text \<open>A sweep that has walked the tree comes to its end.\<close>

lemma sweep_ends:
  assumes "rg_phase (tk_reg t) Sweeper = Idle"
  shows "\<exists>s. rg_phase s Sweeper = Idle \<and>
     reaches (sweeper_step cfg ho rts instant now) (t\<lparr>tk_sweep := Removing current todo\<rparr>) (t\<lparr>tk_sweep := Waiting, tk_reg := s\<rparr>)"
    "\<exists>s. rg_phase s Sweeper = Idle \<and>
     reaches (sweeper_step cfg ho rts instant now) (t\<lparr>tk_sweep := Adding current known todo\<rparr>) (t\<lparr>tk_sweep := Waiting, tk_reg := s\<rparr>)"
proof -
  let ?f = "sweeper_step cfg ho rts instant now"
  have removes: "\<exists>s. rg_phase s Sweeper = Idle \<and>
      reaches ?f (t\<lparr>tk_sweep := Removing current todo\<rparr>) (t\<lparr>tk_sweep := Waiting, tk_reg := s\<rparr>)"
    if "rg_phase (tk_reg t) Sweeper = Idle" for t todo
  proof -
    let ?s = "fold (\<lambda>n s. if n \<noteq> ''/'' \<and> n \<notin> set current \<and> \<not> cg_exists (ho_os ho) (mc_cgroup_root cfg) n
        then remove_container cfg Sweeper now n s else s) todo (tk_reg t)"
    have "rg_phase ?s = rg_phase (tk_reg t)" using fold_remove [OF that] by (simp add: Let_def)
    then show ?thesis using sweep_removes [OF that] that by (intro exI [of _ ?s]) simp
  qed
  then show "\<exists>s. rg_phase s Sweeper = Idle \<and>
      reaches ?f (t\<lparr>tk_sweep := Removing current todo\<rparr>) (t\<lparr>tk_sweep := Waiting, tk_reg := s\<rparr>)" using assms by blast
  define s1 where "s1 = fold (\<lambda>n s. if n \<notin> set known then add_container cfg ho rts Sweeper instant True n s else s) todo (tk_reg t)"
  let ?t1 = "t\<lparr>tk_sweep := Adding current known [], tk_reg := s1\<rparr>"
  have idle: "rg_phase s1 Sweeper = Idle"
    using fold_add [OF assms, of "set known" cfg ho rts instant True todo] assms by (simp add: s1_def Let_def)
  have 1: "reaches ?f (t\<lparr>tk_sweep := Adding current known todo\<rparr>) ?t1"
    using sweep_adds [OF assms, of cfg ho rts instant now current known todo] by (simp add: s1_def)
  have 2: "?f ?t1 = ?t1\<lparr>tk_sweep := Removing current known\<rparr>" using idle by (simp add: sweeper_step_def)
  obtain s where s: "rg_phase s Sweeper = Idle"
    "reaches ?f (?t1\<lparr>tk_sweep := Removing current known\<rparr>) (?t1\<lparr>tk_sweep := Waiting, tk_reg := s\<rparr>)"
    using removes [of ?t1 known] idle by auto
  have "?t1\<lparr>tk_sweep := Waiting, tk_reg := s\<rparr> = t\<lparr>tk_sweep := Waiting, tk_reg := s\<rparr>" by (cases t) simp
  then show "\<exists>s. rg_phase s Sweeper = Idle \<and>
      reaches ?f (t\<lparr>tk_sweep := Adding current known todo\<rparr>) (t\<lparr>tk_sweep := Waiting, tk_reg := s\<rparr>)"
    using reaches_trans [OF 1 reaches_via [OF 2 s(2)]] s(1) by auto
qed

lemma sweeper_returns:
  assumes "rg_phase (tk_reg t) Sweeper = Idle"
  shows "\<exists>t'. reaches (sweeper_step cfg ho rts instant now) t t' \<and> rg_phase (tk_reg t') Sweeper = Idle \<and> tk_sweep t' = Waiting"
proof (cases "tk_sweep t")
  case Waiting
  then show ?thesis using assms reaches_refl by blast
next
  case (Walked current)
  then have "sweeper_step cfg ho rts instant now t = t\<lparr>tk_sweep := Adding current (map fst (rg_map (tk_reg t))) current\<rparr>"
    using assms by (simp add: sweeper_step_def)
  from reaches_via [where f = "sweeper_step cfg ho rts instant now", OF this] show ?thesis
    using sweep_ends(2) [OF assms, of cfg ho rts instant now current "map fst (rg_map (tk_reg t))" current] by fastforce
next
  case (Adding current known todo)
  then have "t\<lparr>tk_sweep := Adding current known todo\<rparr> = t" by simp
  then show ?thesis using sweep_ends(2) [OF assms, of cfg ho rts instant now current known todo] by fastforce
next
  case (Removing current todo)
  then have "t\<lparr>tk_sweep := Removing current todo\<rparr> = t" by simp
  then show ?thesis using sweep_ends(1) [OF assms, of cfg ho rts instant now current todo] by fastforce
next
  case (Condemned name current todo)
  let ?f = "sweeper_step cfg ho rts instant now"
  let ?t = "t\<lparr>tk_sweep := Removing current todo, tk_reg := remove_unlink Sweeper name (tk_reg t)\<rparr>"
  let ?s = "remove_container cfg Sweeper now name (tk_reg t)"
  have 1: "?f t = ?t" using assms Condemned by (simp add: sweeper_step_def)
  have 2: "reaches ?f ?t (?t\<lparr>tk_reg := ?s\<rparr>)" by (rule remove_alone [OF sweeper_serves assms]) simp
  have e: "?t\<lparr>tk_reg := ?s\<rparr> = (t\<lparr>tk_reg := ?s\<rparr>)\<lparr>tk_sweep := Removing current todo\<rparr>" by (cases t) simp
  have "rg_phase (tk_reg (t\<lparr>tk_reg := ?s\<rparr>)) Sweeper = Idle" using remove_container_idle [OF assms] by simp
  from sweep_ends(1) [OF this, of cfg ho rts instant now current todo] obtain s where
    s: "rg_phase s Sweeper = Idle" "reaches ?f (?t\<lparr>tk_reg := ?s\<rparr>) ((t\<lparr>tk_reg := ?s\<rparr>)\<lparr>tk_sweep := Waiting, tk_reg := s\<rparr>)"
    unfolding e by blast
  show ?thesis using reaches_via [OF 1 reaches_trans [OF 2 s(2)]] s(1) by fastforce
qed

text \<open>The consumer does not touch the machine information or the sweep's operation.\<close>

lemma consumer_machine:
  "reaches (consumer_step cfg ho rts instant now) t t' \<Longrightarrow> rg_machine (tk_reg t') = rg_machine (tk_reg t)"
proof -
  have "rg_machine (tk_reg (consumer_step cfg ho rts instant now t)) = rg_machine (tk_reg t)" for t
    by (auto simp: consumer_step_def Let_def agent_step_other add_begin_def remove_unlink_def set_phase_def
        split: list.split cgroup_event.split sum.split option.split)
  then have "rg_machine (tk_reg ((consumer_step cfg ho rts instant now ^^ k) t)) = rg_machine (tk_reg t)" for k
    by (induction k) simp_all
  then show "reaches (consumer_step cfg ho rts instant now) t t' \<Longrightarrow> rg_machine (tk_reg t') = rg_machine (tk_reg t)"
    by (auto simp: reaches_def)
qed

lemma consumer_settles:
  "\<exists>t'. reaches (consumer_step cfg ho rts instant now) t t' \<and> rg_phase (tk_reg t') Watcher = Idle \<and> tk_queue t' = []"
proof -
  let ?f = "consumer_step cfg ho rts instant now"
  obtain t1 where t1: "reaches ?f t t1" "rg_phase (tk_reg t1) Watcher = Idle"
    using run_to_idle [OF consumer_serves order_refl, where t = t] by fastforce
  let ?t2 = "t1\<lparr>tk_queue := [], tk_reg := consume cfg ho rts instant now (tk_queue t1) (tk_reg t1)\<rparr>"
  have "rg_phase (consume cfg ho rts instant now evs s) Watcher = Idle" if "rg_phase s Watcher = Idle" for evs s
    using that by (induction evs arbitrary: s) (simp_all add: consume_def consume_event_idle)
  then show ?thesis using reaches_trans [OF t1(1) consumer_drains [OF t1(2)]] t1(2) by (intro exI [of _ ?t2]) simp
qed

section \<open>Properties\<close>



text \<open>The start on a tree with the cgroup \<open>/a\<close>, and two events of which one is out of date.\<close>

definition started :: tasks where
  "started = (case manager_start demo_config two_cgroups no_runtimes 0 (reg_start default_machine_info) of
     Some t \<Rightarrow> t | None \<Rightarrow> \<lparr>tk_reg = reg_start default_machine_info, tk_queue = [], tk_sweep = Waiting\<rparr>)"

lemma started: "manager_start demo_config two_cgroups no_runtimes 0 (reg_start default_machine_info) = Some started"
  using initial_sweep_spec [where ho = two_cgroups and cfg = demo_config and depth = two_depth and rts = no_runtimes
      and instant = 0 and mi = default_machine_info, OF two_cgroups_depth]
  by (auto simp: started_def manager_start_def)



end
