(* ===== verification/Golden.thy ===== *)
theory Golden
  imports Wire_V2
begin

text \<open>
  The golden tests of the data model (\<open>crates/cadvisor-model/src/golden.rs\<close>): a fixture taken from the
  original cAdvisor is read into the model and written again, and the two JSON values are compared.
  A \<open>Value\<close> is a tree whose objects have each key once (the last entry of a key, at the place of the
  first) and whose strings are owned. The parser, the printer of values and the rounding \<open>as f32\<close>
  are parameters.

  The lemmas: the comparison reports nothing exactly when the values are the same but for numbers that
  are equal as \<open>f32\<close>, so a fixture passes exactly when nothing of it is lost.
\<close>

section \<open>Values\<close>

fun index_insert :: "string \<Rightarrow> 'a \<Rightarrow> (string \<times> 'a) list \<Rightarrow> (string \<times> 'a) list" where
  "index_insert k v [] = [(k, v)]"
| "index_insert k v ((k', v') # m) = (if k = k' then (k, v) # m else (k', v') # index_insert k v m)"

fun as_value :: "jvalue \<Rightarrow> jvalue" where
  "as_value (JStr _ s) = JStr False s"
| "as_value (JArr js) = JArr (map as_value js)"
| "as_value (JObj m) = JObj (fold (\<lambda>(k, v). index_insert k v) (map (\<lambda>e. (fst e, as_value (snd e))) m) [])"
| "as_value j = j"

section \<open>The comparison\<close>

fun as_number :: "jvalue \<Rightarrow> f64 option" where
  "as_number (JInt i) = Some (f64_of_int i)"
| "as_number (JFloat x) = Some x"
| "as_number _ = None"

definition scalar_diff :: "(jvalue \<Rightarrow> string) \<Rightarrow> (f64 \<Rightarrow> f64) \<Rightarrow> string \<Rightarrow> jvalue \<Rightarrow> jvalue \<Rightarrow> string list" where
  "scalar_diff display as_f32 path theirs ours =
     (case (as_number theirs, as_number ours) of
        (Some x, Some y) \<Rightarrow>
          if theirs \<noteq> ours \<and> as_f32 x \<noteq> as_f32 y then [path @ '': '' @ display theirs @ '' != '' @ display ours] else []
      | _ \<Rightarrow>
          if theirs \<noteq> ours then [path @ '': '' @ display theirs @ '' != '' @ display ours] else [])"

function diff :: "(jvalue \<Rightarrow> string) \<Rightarrow> (f64 \<Rightarrow> f64) \<Rightarrow> string \<Rightarrow> jvalue \<Rightarrow> jvalue \<Rightarrow> string list" where
  "diff display as_f32 path theirs ours =
     (case theirs of
        JObj a \<Rightarrow>
          (case ours of
             JObj b \<Rightarrow>
               concat (map (\<lambda>e.
                 (case map_of b (fst e) of
                    Some vb \<Rightarrow> diff display as_f32 (path @ ''/'' @ fst e) (snd e) vb
                  | None \<Rightarrow> [path @ ''/'' @ fst e @ '': missing in ours (theirs: '' @ display (snd e) @ '')''])) a) @
               map (\<lambda>e. path @ ''/'' @ fst e @ '': extra in ours'') (filter (\<lambda>e. map_of a (fst e) = None) b)
           | _ \<Rightarrow> scalar_diff display as_f32 path theirs ours)
      | JArr a \<Rightarrow>
          (case ours of
             JArr b \<Rightarrow>
               (if length a \<noteq> length b then [path @ '': array len '' @ dec (length a) @ '' vs '' @ dec (length b)] else []) @
               concat (map (\<lambda>i. diff display as_f32 (path @ ''['' @ dec i @ '']'') (a ! i) (b ! i))
                 [0..<min (length a) (length b)])
           | _ \<Rightarrow> scalar_diff display as_f32 path theirs ours)
      | _ \<Rightarrow> scalar_diff display as_f32 path theirs ours)"

  by pat_completeness auto

termination
  by (relation "measure (\<lambda>(display, as_f32, path, theirs, ours). size theirs)")
    (auto simp: less_Suc_eq_le elim!: size_list_estimation' intro: size_list_estimation' [OF nth_mem])

declare diff.simps [simp del]

lemma diff_JObj:
  "diff display as_f32 path (JObj a) (JObj b) =
     concat (map (\<lambda>e.
       (case map_of b (fst e) of
          Some vb \<Rightarrow> diff display as_f32 (path @ ''/'' @ fst e) (snd e) vb
        | None \<Rightarrow> [path @ ''/'' @ fst e @ '': missing in ours (theirs: '' @ display (snd e) @ '')''])) a) @
     map (\<lambda>e. path @ ''/'' @ fst e @ '': extra in ours'') (filter (\<lambda>e. map_of a (fst e) = None) b)"
  by (subst diff.simps) simp

lemma diff_JArr:
  "diff display as_f32 path (JArr a) (JArr b) =
     (if length a \<noteq> length b then [path @ '': array len '' @ dec (length a) @ '' vs '' @ dec (length b)] else []) @
     concat (map (\<lambda>i. diff display as_f32 (path @ ''['' @ dec i @ '']'') (a ! i) (b ! i))
       [0..<min (length a) (length b)])"
  by (subst diff.simps) simp

lemma diff_scalar:
  "\<not> (\<exists>a b. theirs = JObj a \<and> ours = JObj b) \<Longrightarrow> \<not> (\<exists>a b. theirs = JArr a \<and> ours = JArr b) \<Longrightarrow>
     diff display as_f32 path theirs ours = scalar_diff display as_f32 path theirs ours"
  by (subst diff.simps) (auto split: jvalue.split)

section \<open>What the comparison means\<close>

text \<open>The same value but for numbers that are equal as \<open>f32\<close>.\<close>

inductive same :: "(f64 \<Rightarrow> f64) \<Rightarrow> jvalue \<Rightarrow> jvalue \<Rightarrow> bool" for as_f32 where
  equal: "same as_f32 j j"
| number: "as_number x = Some u \<Longrightarrow> as_number y = Some v \<Longrightarrow> as_f32 u = as_f32 v \<Longrightarrow> same as_f32 x y"
| array: "list_all2 (same as_f32) a b \<Longrightarrow> same as_f32 (JArr a) (JArr b)"
| object: "fst ` set a = fst ` set b \<Longrightarrow>
     (\<And>k x y. (k, x) \<in> set a \<Longrightarrow> (k, y) \<in> set b \<Longrightarrow> same as_f32 x y) \<Longrightarrow> same as_f32 (JObj a) (JObj b)"

inductive_cases same_JArr: "same as_f32 (JArr a) (JArr b)"
inductive_cases same_JObj: "same as_f32 (JObj a) (JObj b)"
inductive_cases same_any: "same as_f32 x y"

lemma same_arrays: "same as_f32 (JArr a) (JArr b) \<longleftrightarrow> list_all2 (same as_f32) a b"
  by (auto intro: same.array list.rel_refl [OF same.equal] elim!: same_JArr)

lemma same_objects:
  assumes "distinct (map fst a)" "distinct (map fst b)"
  shows "same as_f32 (JObj a) (JObj b) \<longleftrightarrow>
     fst ` set a = fst ` set b \<and> (\<forall>e \<in> set a. \<forall>y. map_of b (fst e) = Some y \<longrightarrow> same as_f32 (snd e) y)"
proof -
  have "same as_f32 (JObj a) (JObj b) \<longleftrightarrow>
     fst ` set a = fst ` set b \<and> (\<forall>k x y. (k, x) \<in> set a \<longrightarrow> (k, y) \<in> set b \<longrightarrow> same as_f32 x y)"
    using assms by (auto intro: same.intros elim!: same_JObj dest: eq_key_imp_eq_value)
  then show ?thesis using assms(2) by (auto simp: map_of_eq_Some_iff)
qed

lemma same_scalars:
  assumes "\<not> (\<exists>a b. theirs = JObj a \<and> ours = JObj b)" "\<not> (\<exists>a b. theirs = JArr a \<and> ours = JArr b)"
  shows "same as_f32 theirs ours \<longleftrightarrow> scalar_diff display as_f32 path theirs ours = []"
  using assms
  by (auto simp: scalar_diff_def intro: same.intros elim!: same_any split: option.split)

lemma concat_map_Nil: "concat (map f xs) = [] \<longleftrightarrow> (\<forall>x \<in> set xs. f x = [])"
  by (induction xs) auto

lemma diff_same:
  "keys_distinct theirs \<Longrightarrow> keys_distinct ours \<Longrightarrow>
     diff display as_f32 path theirs ours = [] \<longleftrightarrow> same as_f32 theirs ours"
proof (induction theirs arbitrary: path ours)
  case (JArr a)
  show ?case
  proof (cases "\<exists>b. ours = JArr b")
    case True
    then obtain b where b: "ours = JArr b" by blast
    have "diff display as_f32 p (a ! i) (b ! i) = [] \<longleftrightarrow> same as_f32 (a ! i) (b ! i)"
      if "i < length a" "i < length b" for i p
      using JArr.IH [of "a ! i" "b ! i"] JArr.prems that by (simp add: b)
    then show ?thesis by (auto simp: b diff_JArr same_arrays list_all2_conv_all_nth concat_map_Nil)
  next
    case False
    then show ?thesis using diff_scalar [of "JArr a" ours] same_scalars [of "JArr a" ours] by simp
  qed
next
  case (JObj a)
  show ?case
  proof (cases "\<exists>b. ours = JObj b")
    case True
    then obtain b where b: "ours = JObj b" by blast
    have IH: "diff display as_f32 p (snd e) y = [] \<longleftrightarrow> same as_f32 (snd e) y"
      if "e \<in> set a" "map_of b (fst e) = Some y" for e y p
      using JObj.IH [of e "snd e" y] JObj.prems that map_of_SomeD [OF that(2)] snds.intros [of e] by (auto simp: b)
    have "same as_f32 (JObj a) (JObj b) \<longleftrightarrow>
        fst ` set a = fst ` set b \<and> (\<forall>e \<in> set a. \<forall>y. map_of b (fst e) = Some y \<longrightarrow> same as_f32 (snd e) y)"
      using JObj.prems by (intro same_objects) (simp_all add: b)
    moreover have "fst ` set a = fst ` set b \<longleftrightarrow>
        (\<forall>e \<in> set a. map_of b (fst e) \<noteq> None) \<and> (\<forall>e \<in> set b. map_of a (fst e) \<noteq> None)"
      by (auto simp: map_of_eq_None_iff)
    moreover have "diff display as_f32 path (JObj a) (JObj b) = [] \<longleftrightarrow>
        (\<forall>e \<in> set a. map_of b (fst e) \<noteq> None \<and> (\<forall>y. map_of b (fst e) = Some y \<longrightarrow> same as_f32 (snd e) y)) \<and>
        (\<forall>e \<in> set b. map_of a (fst e) \<noteq> None)"
      using IH by (auto simp: diff_JObj concat_map_Nil filter_empty_conv split: option.splits)
    ultimately show ?thesis unfolding b by blast
  next
    case False
    then show ?thesis using diff_scalar [of "JObj a" ours] same_scalars [of "JObj a" ours] by simp
  qed
qed (simp_all add: diff_scalar same_scalars [symmetric])

text \<open>Values have each key once.\<close>

lemma index_insert_keys: "set (map fst (index_insert k v m)) = insert k (set (map fst m))"
  by (induction k v m rule: index_insert.induct) auto

lemma distinct_index_insert: "distinct (map fst m) \<Longrightarrow> distinct (map fst (index_insert k v m))"
proof (induction k v m rule: index_insert.induct)
  case (2 k v k' v' m)
  then show ?case using index_insert_keys [of k v m] by auto
qed simp

lemma set_index_insert: "e \<in> set (index_insert k v m) \<Longrightarrow> e = (k, v) \<or> e \<in> set m"
  by (induction k v m rule: index_insert.induct) (auto split: if_splits)

lemma index_map_facts:
  "distinct (map fst m) \<Longrightarrow> distinct (map fst (fold (\<lambda>(k, v). index_insert k v) xs m))"
  "e \<in> set (fold (\<lambda>(k, v). index_insert k v) xs m) \<Longrightarrow> e \<in> set xs \<or> e \<in> set m"
  by (induction xs arbitrary: m) (auto simp: distinct_index_insert dest: set_index_insert)

lemma as_value_keys: "keys_distinct (as_value j)"
proof (induction j)
  case (JObj m)
  then show ?case
    using index_map_facts(1) [of "[]"] by (fastforce dest: index_map_facts(2))
qed auto

section \<open>The tests\<close>

datatype golden = InvalidJson | ModelRejects | Differs "string list" | Passes

definition round_trip ::
  "(string \<Rightarrow> jvalue option) \<Rightarrow> (jvalue \<Rightarrow> string) \<Rightarrow> (f64 \<Rightarrow> f64) \<Rightarrow> ('a \<Rightarrow> jvalue) \<Rightarrow> (jvalue \<Rightarrow> 'a option) \<Rightarrow>
     string \<Rightarrow> golden" where
  "round_trip parse display as_f32 ser de fixture =
     (case parse fixture of
        None \<Rightarrow> InvalidJson
      | Some theirs \<Rightarrow>
          (case de theirs of
             None \<Rightarrow> ModelRejects
           | Some typed \<Rightarrow>
               (let problems = diff display as_f32 [] (as_value theirs) (as_value (ser typed)) in
                if problems \<noteq> [] then Differs problems else Passes)))"

text \<open>A passing test: the fixture is JSON, the model reads it, and what the model writes again is the same
  value; and nothing else fails it.\<close>

lemma round_trip_iff:
  "round_trip parse display as_f32 ser de fixture = Passes \<longleftrightarrow>
     (\<exists>theirs typed. parse fixture = Some theirs \<and> de theirs = Some typed \<and>
        same as_f32 (as_value theirs) (as_value (ser typed)))"
  by (auto simp: round_trip_def Let_def diff_same [OF as_value_keys as_value_keys] split: option.split)

text \<open>What the model has written passes, for every container.\<close>

lemma golden_accepts_own:
  assumes "parse fixture = Some (ser_container_info stamp x)" "ok_container_info stamp x" "rfc3339_ok rfc3339"
  shows "round_trip parse display as_f32 (ser_container_info stamp) (de_container_info rfc3339) fixture = Passes"
  using assms by (auto simp: round_trip_iff wire intro: same.equal)

end
