(* ===== verification/Test_Base.thy ===== *)
theory Test_Base
  imports Rust_Std "HOL-Library.Code_Target_Numeral"
begin

text \<open>
  What the theories of the repository's unit tests share: the text of a fixture from its lines, and its
  lines again. Every \<open>#[test]\<close> is a truth value, the conjunction of its assertions over the definitions of
  the model, named as the test is; the lemma after it shows by evaluation in the kernel that the model
  passes. Numbers are evaluated with the binary numerals of \<open>Code_Target_Numeral\<close>.
\<close>

definition file_of :: "string list \<Rightarrow> string" where
  "file_of ls = concat (map (\<lambda>l. l @ [nl]) ls)"

text \<open>Quotation marks are written as \<open>^\<close> in the fixtures below.\<close>

definition quoted :: "string \<Rightarrow> string" where
  "quoted s = map (\<lambda>c. if c = CHR ''^'' then CHR 0x22 else c) s"

definition plain_line :: "string \<Rightarrow> bool" where
  "plain_line l \<longleftrightarrow> list_all (\<lambda>c. c \<noteq> nl \<and> c \<noteq> CHR 0x0D) l"

lemma lines_file_of_Cons: "plain_line l \<Longrightarrow> lines (file_of (l # ls)) = l # lines (file_of ls)"
proof -
  assume "plain_line l"
  then have "nl \<notin> set l" "CHR 0x0D \<notin> set l" by (auto simp: plain_line_def list_all_iff)
  then show ?thesis by (simp add: file_of_def lines_plain)
qed

lemma lines_file_of: "list_all plain_line ls \<Longrightarrow> lines (file_of ls) = ls"
  by (induction ls) (simp_all add: lines_file_of_Cons, simp add: file_of_def lines_def)

lemma find_first: "f x = Some r \<Longrightarrow> P r \<Longrightarrow> find P (List.map_filter f (x # xs)) = Some r"
  by (simp add: List.map_filter_simps)

end
