(* ===== verification/Test_Host.thy ===== *)
theory Test_Host
  imports Test_Base Machine
begin

text \<open>
  The unit tests of \<open>crates/cadvisor-host/src/parse.rs\<close> and \<open>machine.rs\<close>. The captured files of
  \<open>crates/cadvisor-host/fixtures\<close> are lists of lines. The test on the captured \<open>/proc/cpuinfo\<close>, of 224
  lines, is left out.
\<close>

section \<open>The captured files\<close>

definition CPU_STAT :: "string list" where
  "CPU_STAT = 
    [''usage_usec 8884177'',
     ''user_usec 4314716'',
     ''system_usec 4569460'',
     ''nice_usec 0'',
     ''core_sched.force_idle_usec 0'',
     ''nr_periods 0'',
     ''nr_throttled 0'',
     ''throttled_usec 0'',
     ''nr_bursts 0'',
     ''burst_usec 0'']"

definition MEMORY_STAT :: "string list" where
  "MEMORY_STAT = 
    [''anon 278528'',
     ''file 4096'',
     ''kernel 311296'',
     ''kernel_stack 16384'',
     ''pagetables 98304'',
     ''sec_pagetables 0'',
     ''percpu 18360'',
     ''sock 0'',
     ''vmalloc 12288'',
     ''shmem 0'',
     ''zswap 0'',
     ''zswapped 0'',
     ''file_mapped 0'',
     ''file_dirty 0'',
     ''file_writeback 0'',
     ''swapcached 0'',
     ''anon_thp 0'',
     ''file_thp 0'',
     ''shmem_thp 0'',
     ''inactive_anon 0'',
     ''active_anon 278528'',
     ''inactive_file 4096'',
     ''active_file 0'',
     ''unevictable 0'',
     ''slab_reclaimable 87208'',
     ''slab_unreclaimable 71336'',
     ''slab 158544'',
     ''workingset_refault_anon 0'',
     ''workingset_refault_file 0'',
     ''workingset_activate_anon 0'',
     ''workingset_activate_file 0'',
     ''workingset_restore_anon 0'',
     ''workingset_restore_file 0'',
     ''workingset_nodereclaim 0'',
     ''pgdemote_kswapd 0'',
     ''pgdemote_direct 0'',
     ''pgdemote_khugepaged 0'',
     ''pgdemote_proactive 0'',
     ''pgpromote_success 0'',
     ''pgscan 0'',
     ''pgsteal 0'',
     ''pswpin 0'',
     ''pswpout 0'',
     ''pgscan_kswapd 0'',
     ''pgscan_direct 0'',
     ''pgscan_khugepaged 0'',
     ''pgscan_proactive 0'',
     ''pgsteal_kswapd 0'',
     ''pgsteal_direct 0'',
     ''pgsteal_khugepaged 0'',
     ''pgsteal_proactive 0'',
     ''pgfault 385399'',
     ''pgmajfault 0'',
     ''pgrefill 0'',
     ''pgactivate 0'',
     ''pgdeactivate 0'',
     ''pglazyfree 0'',
     ''pglazyfreed 0'',
     ''swpin_zero 0'',
     ''swpout_zero 0'',
     ''zswpin 0'',
     ''zswpout 0'',
     ''zswpwb 0'',
     ''thp_fault_alloc 0'',
     ''thp_collapse_alloc 0'',
     ''thp_swpout 0'',
     ''thp_swpout_fallback 0'',
     ''numa_pages_migrated 0'',
     ''numa_pte_updates 0'',
     ''numa_hint_faults 0'']"

definition NET_DEV :: "string list" where
  "NET_DEV = 
    [''Inter-|   Receive                                                |  Transmit'',
     '' face |bytes    packets errs drop fifo frame compressed multicast|bytes    packets errs drop fifo colls carrier compressed'',
     ''    lo:       0       0    0    0    0     0          0         0        0       0    0    0    0     0       0          0'',
     ''  eth0:    8513      76    0    0    0     0          0         0      908      12    0    0    0     0       0          0'']"

definition MEMINFO :: "string list" where
  "MEMINFO = 
    [''MemTotal:       16342752 kB'',
     ''MemFree:          805140 kB'',
     ''MemAvailable:   14910872 kB'',
     ''Buffers:            2456 kB'',
     ''Cached:         13157240 kB'',
     ''SwapCached:            0 kB'',
     ''Active:          2337008 kB'',
     ''Inactive:       10971512 kB'',
     ''Active(anon):     141496 kB'',
     ''Inactive(anon):   199752 kB'',
     ''Active(file):    2195512 kB'',
     ''Inactive(file): 10771760 kB'',
     ''Unevictable:           0 kB'',
     ''Mlocked:               0 kB'',
     ''SwapTotal:       8388604 kB'',
     ''SwapFree:        8308624 kB'',
     ''Zswap:                 0 kB'',
     ''Zswapped:              0 kB'',
     ''Dirty:              1156 kB'',
     ''Writeback:             0 kB'',
     ''AnonPages:        149084 kB'',
     ''Mapped:           225208 kB'',
     ''Shmem:            192576 kB'',
     ''KReclaimable:    1484348 kB'',
     ''Slab:            1993624 kB'',
     ''SReclaimable:    1484348 kB'',
     ''SUnreclaim:       509276 kB'',
     ''KernelStack:        5340 kB'',
     ''PageTables:         8840 kB'',
     ''SecPageTables:         0 kB'',
     ''NFS_Unstable:          0 kB'',
     ''Bounce:                0 kB'',
     ''WritebackTmp:          0 kB'',
     ''CommitLimit:    16559980 kB'',
     ''Committed_AS:    1495316 kB'',
     ''VmallocTotal:   34359738367 kB'',
     ''VmallocUsed:       61036 kB'',
     ''VmallocChunk:          0 kB'',
     ''Percpu:            16000 kB'',
     ''HardwareCorrupted:     0 kB'',
     ''AnonHugePages:         0 kB'',
     ''ShmemHugePages:        0 kB'',
     ''ShmemPmdMapped:        0 kB'',
     ''FileHugePages:         0 kB'',
     ''FilePmdMapped:         0 kB'',
     ''CmaTotal:              0 kB'',
     ''CmaFree:               0 kB'',
     ''Unaccepted:            0 kB'',
     ''Balloon:               0 kB'',
     ''HugePages_Total:       0'',
     ''HugePages_Free:        0'',
     ''HugePages_Rsvd:        0'',
     ''HugePages_Surp:        0'',
     ''Hugepagesize:       2048 kB'',
     ''Hugetlb:               0 kB'',
     ''DirectMap4k:      517040 kB'',
     ''DirectMap2M:    16240640 kB'',
     ''DirectMap1G:     2097152 kB'']"

definition DISKSTATS :: "string list" where
  "DISKSTATS = 
    [''  11       0 sr0 97 0 748 17 0 0 0 0 0 19 17 0 0 0 0 0 0'',
     ''   8       0 sda 880123 296712 154617194 4856183 1672226 993071 219809369 127803981 0 3097854 133243114 93210 3 294886496 10782 44494 572167'',
     ''   8       1 sda1 137 0 1344 22 0 0 0 0 0 24 22 0 0 0 0 0 0'',
     ''   8       2 sda2 303 592 6012 61 1 0 1 0 0 44 62 3 3 485640 0 0 0'',
     ''   8       3 sda3 381 69 8026 196 63 44 784 646 0 790 844 62 0 3775808 2 0 0'',
     ''   8       4 sda4 877073 296051 154534948 4855496 1672109 993027 219808584 127803271 0 3751509 132669546 93145 0 290625048 10779 0 0'',
     '' 251       0 zram0 145 0 3328 0 196701 0 1573608 1012 0 1006 1012 0 0 0 0 0 0'',
     ''   7       0 loop0 5592 4410 125567 51204 108171 131740 39967018 980082 0 464822 1685462 15 0 57667592 0 41546 654174'']"

definition MOUNTINFO :: "string list" where
  "MOUNTINFO = map quoted
    [''72 2 0:33 /root / rw,relatime shared:1 - btrfs /dev/sda4 rw,seclabel,compress=zstd:1,ssd,space_cache=v2,subvolid=256,subvol=/root'',
     ''37 72 0:6 / /dev rw,nosuid shared:2 - devtmpfs devtmpfs rw,seclabel,size=8143692k,nr_inodes=2035923,mode=755,inode64'',
     ''38 37 0:25 / /dev/shm rw,nosuid,nodev shared:3 - tmpfs tmpfs rw,seclabel,inode64,usrquota'',
     ''39 37 0:26 / /dev/pts rw,nosuid,noexec,relatime shared:4 - devpts devpts rw,seclabel,gid=5,mode=600,ptmxmode=000'',
     ''40 72 0:24 / /sys rw,nosuid,nodev,noexec,relatime shared:5 - sysfs sysfs rw,seclabel'',
     ''41 40 0:7 / /sys/kernel/security rw,nosuid,nodev,noexec,relatime shared:6 - securityfs securityfs rw'',
     ''42 40 0:28 / /sys/fs/cgroup rw,nosuid,nodev,noexec,relatime shared:7 - cgroup2 cgroup2 rw,seclabel'',
     ''43 40 0:29 / /sys/fs/pstore rw,nosuid,nodev,noexec,relatime shared:8 - pstore none rw,seclabel'',
     ''44 40 0:30 / /sys/firmware/efi/efivars rw,nosuid,nodev,noexec,relatime shared:9 - efivarfs efivarfs rw'',
     ''45 40 0:31 / /sys/fs/bpf rw,nosuid,nodev,noexec,relatime shared:10 - bpf bpf rw,mode=700'',
     ''46 40 0:19 / /sys/kernel/config rw,nosuid,nodev,noexec,relatime shared:11 - configfs configfs rw'',
     ''47 72 0:23 / /proc rw,nosuid,nodev,noexec,relatime shared:13 - proc proc rw'',
     ''48 72 0:27 / /run rw,nosuid,nodev shared:14 - tmpfs tmpfs rw,seclabel,size=3268552k,nr_inodes=819200,mode=755,inode64'',
     ''26 40 0:22 / /sys/fs/selinux rw,nosuid,noexec,relatime shared:12 - selinuxfs selinuxfs rw'',
     ''25 47 0:32 / /proc/sys/fs/binfmt_misc rw,relatime shared:15 - autofs systemd-1 rw,fd=41,pgrp=1,timeout=0,minproto=5,maxproto=5,direct,pipe_ino=9421'',
     ''27 37 0:21 / /dev/mqueue rw,nosuid,nodev,noexec,relatime shared:16 - mqueue mqueue rw,seclabel'',
     ''28 40 0:8 / /sys/kernel/debug rw,nosuid,nodev,noexec,relatime shared:18 - debugfs debugfs rw,seclabel'',
     ''29 40 0:13 / /sys/kernel/tracing rw,nosuid,nodev,noexec,relatime shared:17 - tracefs tracefs rw,seclabel'',
     ''30 37 0:36 / /dev/hugepages rw,nosuid,nodev,relatime shared:19 - hugetlbfs hugetlbfs rw,seclabel,pagesize=2M'',
     ''32 40 0:37 / /sys/fs/fuse/connections rw,nosuid,nodev,noexec,relatime shared:20 - fusectl fusectl rw'',
     ''67 48 0:38 / /run/credentials/systemd-journald.service ro,nosuid,nodev,noexec,relatime,nosymfollow shared:21 - tmpfs tmpfs rw,seclabel,size=1024k,nr_inodes=1024,mode=700,inode64,noswap'',
     ''35 72 0:33 /home /home rw,relatime shared:74 - btrfs /dev/sda4 rw,seclabel,compress=zstd:1,ssd,space_cache=v2,subvolid=257,subvol=/home'',
     ''50 72 0:42 / /tmp rw,nosuid,nodev shared:77 - tmpfs tmpfs rw,seclabel,nr_inodes=1048576,inode64,usrquota'',
     ''51 72 0:33 /var /var rw,relatime shared:80 - btrfs /dev/sda4 rw,seclabel,compress=zstd:1,ssd,space_cache=v2,subvolid=258,subvol=/var'',
     ''56 72 8:3 / /boot rw,relatime shared:83 - ext4 /dev/sda3 rw,seclabel'',
     ''59 56 8:2 / /boot/efi rw,relatime shared:86 - vfat /dev/sda2 rw,fmask=0077,dmask=0077,codepage=437,iocharset=ascii,shortname=winnt,errors=remount-ro'',
     ''146 48 0:44 / /run/credentials/systemd-resolved.service ro,nosuid,nodev,noexec,relatime,nosymfollow shared:89 - tmpfs tmpfs rw,seclabel,size=1024k,nr_inodes=1024,mode=700,inode64,noswap'',
     ''152 25 0:48 / /proc/sys/fs/binfmt_misc rw,nosuid,nodev,noexec,relatime shared:92 - binfmt_misc binfmt_misc rw'',
     ''415 48 0:55 / /run/credentials/getty@tty1.service ro,nosuid,nodev,noexec,relatime,nosymfollow shared:306 - tmpfs tmpfs rw,seclabel,size=1024k,nr_inodes=1024,mode=700,inode64,noswap'',
     ''425 48 0:56 / /run/credentials/serial-getty@ttyS0.service ro,nosuid,nodev,noexec,relatime,nosymfollow shared:353 - tmpfs tmpfs rw,seclabel,size=1024k,nr_inodes=1024,mode=700,inode64,noswap'',
     ''66 48 0:53 / /run/user/0 rw,nosuid,nodev,relatime shared:274 - tmpfs tmpfs rw,seclabel,size=1634272k,nr_inodes=408568,mode=700,inode64'',
     ''139 48 0:27 /netns /run/netns rw,nosuid,nodev shared:14 - tmpfs tmpfs rw,seclabel,size=3268552k,nr_inodes=819200,mode=755,inode64'',
     ''131 28 0:13 / /sys/kernel/debug/tracing rw,nosuid,nodev,noexec,relatime shared:305 - tracefs tracefs rw,seclabel'',
     ''201 51 0:33 /var/lib/containers/storage/overlay /var/lib/containers/storage/overlay rw,relatime - btrfs /dev/sda4 rw,seclabel,compress=zstd:1,ssd,space_cache=v2,subvolid=258,subvol=/var'',
     ''324 51 0:54 / /var/lib/containers/storage/overlay-containers/2414aad5c9893197d3fe07d9f6405472c2eec7da18075cd47622bc64cd57548c/userdata/shm rw,nosuid,nodev,noexec,relatime shared:328 - tmpfs shm rw,context=^system_u:object_r:container_file_t:s0:c647,c978^,size=64000k,inode64'',
     ''332 139 0:4 net:[4026532450] /run/netns/netns-c3aff51d-d32a-2ee6-f6ff-0eacf0b3cd29 rw shared:336 - nsfs nsfs rw'',
     ''333 48 0:4 net:[4026532450] /run/netns/netns-c3aff51d-d32a-2ee6-f6ff-0eacf0b3cd29 rw shared:336 - nsfs nsfs rw'',
     ''394 201 0:57 / /var/lib/containers/storage/overlay/3e0acfeff2227a61452116ebcd24ac6e83743cc09482189b5a8ab6307508b853/merged rw,nodev,relatime - overlay overlay rw,context=^system_u:object_r:container_file_t:s0:c647,c978^,lowerdir=/var/lib/containers/storage/overlay/l/JUVVHANR3L6XAON5WUWE27VIB2,upperdir=/var/lib/containers/storage/overlay/3e0acfeff2227a61452116ebcd24ac6e83743cc09482189b5a8ab6307508b853/diff,workdir=/var/lib/containers/storage/overlay/3e0acfeff2227a61452116ebcd24ac6e83743cc09482189b5a8ab6307508b853/work,redirect_dir=on,uuid=on,metacopy=on'',
     ''395 51 0:64 / /var/lib/containers/storage/overlay-containers/eeb39223584480a3303f8a93a9ded742cf63553ccb91b2ea91cc391c678625f3/userdata/shm rw,nosuid,nodev,noexec,relatime shared:366 - tmpfs shm rw,context=^system_u:object_r:container_file_t:s0:c1022,c1023^,size=64000k,inode64'',
     ''404 139 0:4 net:[4026532516] /run/netns/netns-a2ba2539-6817-71f0-9a76-89b05093d885 rw shared:374 - nsfs nsfs rw'',
     ''405 48 0:4 net:[4026532516] /run/netns/netns-a2ba2539-6817-71f0-9a76-89b05093d885 rw shared:374 - nsfs nsfs rw'',
     ''442 201 0:65 / /var/lib/containers/storage/overlay/98d08973f959ed8862411967fb02cedbce8416f27419cff694ab6715a0c0a6a4/merged rw,relatime - overlay overlay rw,context=^system_u:object_r:container_file_t:s0:c1022,c1023^,lowerdir=/var/lib/containers/storage/overlay/l/GGHL6RPRYEDKTROMFRM5E5RTQQ:/var/lib/containers/storage/overlay/l/IY744MN5P33AN4VEDYQEDMJDLZ:/var/lib/containers/storage/overlay/l/7FRT67YH3AR2VMMLF7JNAPU3YW:/var/lib/containers/storage/overlay/l/ZUFAMO6CZ6KY7TD6TLDSS7GL2Y:/var/lib/containers/storage/overlay/l/T7P6YKNQ5MOOTJVSQ2RZV4L5P6,upperdir=/var/lib/containers/storage/overlay/98d08973f959ed8862411967fb02cedbce8416f27419cff694ab6715a0c0a6a4/diff,workdir=/var/lib/containers/storage/overlay/98d08973f959ed8862411967fb02cedbce8416f27419cff694ab6715a0c0a6a4/work,redirect_dir=on,uuid=on,metacopy=on'']"

lemma CPU_STAT_lines: "lines (file_of CPU_STAT) = CPU_STAT"
  by (rule lines_file_of) code_simp

lemma MEMORY_STAT_lines: "lines (file_of MEMORY_STAT) = MEMORY_STAT"
  by (rule lines_file_of) code_simp

lemma NET_DEV_lines: "lines (file_of NET_DEV) = NET_DEV"
  by (rule lines_file_of) code_simp

lemma MEMINFO_lines: "lines (file_of MEMINFO) = MEMINFO"
  by (rule lines_file_of) code_simp

lemma DISKSTATS_lines: "lines (file_of DISKSTATS) = DISKSTATS"
  by (rule lines_file_of) code_simp

section \<open>Tests of parse.rs\<close>

definition cpu_stat_real_fixture :: bool where
  "cpu_stat_real_fixture \<longleftrightarrow>
     (let c = parse_cpu_stat (file_of CPU_STAT) in
      cs_usage_usec c = 8884177 \<and> cs_user_usec c = 4314716 \<and> cs_system_usec c = 4569460)"

lemma cpu_stat_real_fixture_passes: "cpu_stat_real_fixture"
  unfolding cpu_stat_real_fixture_def parse_cpu_stat_def flat_keyed_def CPU_STAT_lines by code_simp

definition memory_stat_real_fixture :: bool where
  "memory_stat_real_fixture \<longleftrightarrow>
     (let m = parse_memory_stat (file_of MEMORY_STAT) in
      ms_anon m = 278528 \<and> ms_file m = 4096 \<and> 0 < ms_pgfault m)"

lemma memory_stat_real_fixture_passes: "memory_stat_real_fixture"
  unfolding memory_stat_real_fixture_def parse_memory_stat_def flat_keyed_def MEMORY_STAT_lines by code_simp

definition u64_or_max :: bool where
  "u64_or_max \<longleftrightarrow>
     parse_u64_or_max (file_of [''max'']) = u64_MAX \<and> parse_u64_or_max (file_of [''1867776'']) = 1867776"

lemma u64_or_max_passes: "u64_or_max"
  by code_simp

definition cpu_max_variants :: bool where
  "cpu_max_variants \<longleftrightarrow>
     parse_cpu_max (file_of [''max 100000'']) = (None, 100000) \<and>
     parse_cpu_max (file_of [''50000 100000'']) = (Some 50000, 100000)"

lemma cpu_max_variants_passes: "cpu_max_variants"
  by code_simp

definition weight_to_shares_matches_v0492 :: bool where
  "weight_to_shares_matches_v0492 \<longleftrightarrow>
     cpu_weight_to_shares 100 = 2597 \<and> cpu_weight_to_shares 1 = 2 \<and> cpu_weight_to_shares 10000 = 262144"

lemma weight_to_shares_matches_v0492_passes: "weight_to_shares_matches_v0492"
  by code_simp

definition io_stat_rows :: bool where
  "io_stat_rows \<longleftrightarrow>
     (let rows = parse_io_stat (file_of
        [''259:0 rbytes=1024 wbytes=2048 rios=3 wios=4 dbytes=0 dios=0'', ''8:16 rbytes=5 wbytes=6 rios=7 wios=8'']) in
      length rows = 2 \<and>
      rows ! 0 = \<lparr>io_major = 259, io_minor = 0, io_rbytes = 1024, io_wbytes = 2048, io_rios = 3, io_wios = 4\<rparr> \<and>
      parse_io_stat [] = [])"

lemma io_stat_rows_passes: "io_stat_rows"
  by code_simp

definition net_dev_skips_lo_and_parses_eth0 :: bool where
  "net_dev_skips_lo_and_parses_eth0 \<longleftrightarrow>
     (let ifaces = parse_proc_net_dev (file_of NET_DEV) in
      case ifaces of
        [eth0] \<Rightarrow> iface_name eth0 = ''eth0'' \<and> iface_rx_bytes eth0 = 8513 \<and> iface_rx_packets eth0 = 76 \<and>
          iface_tx_bytes eth0 = 908 \<and> iface_tx_packets eth0 = 12
      | _ \<Rightarrow> False)"

lemma net_dev_skips_lo_and_parses_eth0_passes: "net_dev_skips_lo_and_parses_eth0"
  unfolding net_dev_skips_lo_and_parses_eth0_def parse_proc_net_dev_def NET_DEV_lines by code_simp

definition tcp_state_counting :: bool where
  "tcp_state_counting \<longleftrightarrow>
     (let tcp = parse_tcp_states (file_of
        [''  sl  local_address rem_address   st ...'',
         ''0: 0100007F:0016 00000000:0000 0A 00000000:00000000 00:00000000 00000000     0        0 1 1 c0'',
         ''1: 0100007F:AAAA 0100007F:0016 01 00000000:00000000 00:00000000 00000000     0        0 2 1 c0'',
         ''2: 0100007F:BBBB 0100007F:0016 06 00000000:00000000 00:00000000 00000000     0        0 3 1 c0'']) in
      tcp_listen tcp = 1 \<and> tcp_established tcp = 1 \<and> tcp_time_wait tcp = 1)"

lemma tcp_state_counting_passes: "tcp_state_counting"
  by code_simp

definition udp_stats :: bool where
  "udp_stats \<longleftrightarrow>
     (let udp = parse_udp_stats (file_of
        [''  sl  local_address rem_address   st tx_queue rx_queue tr tm->when retrnsmt   uid  timeout inode ref pointer drops'',
         ''0: 0100007F:0035 00000000:0000 07 00000010:00000020 00:00000000 00000000     0        0 123 2 ffff 5'']) in
      udp_listen udp = 1 \<and> udp_tx_queued udp = 0x10 \<and> udp_rx_queued udp = 0x20 \<and> udp_dropped udp = 5)"

lemma udp_stats_passes: "udp_stats"
  by code_simp

definition meminfo_real_fixture :: bool where
  "meminfo_real_fixture \<longleftrightarrow> mi_total_bytes (parse_meminfo (file_of MEMINFO)) = 16342752 * 1024"

lemma meminfo_real_fixture_passes: "meminfo_real_fixture"
  unfolding meminfo_real_fixture_def parse_meminfo_def MEMINFO_lines by code_simp

definition diskstats_filters_devices :: bool where
  "diskstats_filters_devices \<longleftrightarrow>
     (let rows = parse_diskstats (file_of DISKSTATS) in
      list_ex (\<lambda>r. ds_name r = ''sda'') rows \<and> list_ex (\<lambda>r. ds_name r = ''sda1'') rows \<and>
      \<not> list_ex (\<lambda>r. ds_name r = ''sr0'') rows \<and>
      (case find (\<lambda>r. ds_name r = ''sda'') rows of
         Some sda \<Rightarrow> ds_reads_completed sda = 880123 \<and> ds_weighted_io_time sda = 133243114
       | None \<Rightarrow> False))"

lemma diskstats_filters_devices_passes: "diskstats_filters_devices"
  unfolding diskstats_filters_devices_def parse_diskstats_def DISKSTATS_lines by code_simp

definition device_filter_edge_cases :: bool where
  "device_filter_edge_cases \<longleftrightarrow>
     list_all diskstats_device_matches [''sda'', ''sdb2'', ''vda'', ''xvda1'', ''dm-0'', ''dm-12''] \<and>
     list_all (\<lambda>bad. \<not> diskstats_device_matches bad)
       [''sr0'', ''loop0'', ''nbd0'', ''sd'', ''dm-'', ''dm-x'', ''sda1x'']"

lemma device_filter_edge_cases_passes: "device_filter_edge_cases"
  by code_simp

definition mountinfo_real_fixture :: bool where
  "mountinfo_real_fixture \<longleftrightarrow>
     (let rows = parse_mountinfo (file_of MOUNTINFO) in
      case find (\<lambda>r. mt_mountpoint r = ''/'') rows of
        Some r \<Rightarrow> mt_fs_type r = ''btrfs'' \<and> mt_source r = ''/dev/sda4'' \<and> (mt_major r, mt_minor r) = (0, 33)
      | None \<Rightarrow> False)"

lemma mountinfo_real_fixture_passes: "mountinfo_real_fixture"
proof -
  obtain l ls where f: "MOUNTINFO = l # ls"
    and l: "l = ''72 2 0:33 /root / rw,relatime shared:1 - btrfs /dev/sda4 rw,seclabel,compress=zstd:1,ssd,space_cache=v2,subvolid=256,subvol=/root''"
    by (auto simp: MOUNTINFO_def quoted_def)
  let ?r = "\<lparr>mt_major = 0, mt_minor = 33, mt_mountpoint = ''/'', mt_fs_type = ''btrfs'', mt_source = ''/dev/sda4''\<rparr>"
  have "mountinfo_line l = Some ?r" unfolding l by code_simp
  moreover have "plain_line l" unfolding l by code_simp
  ultimately have "find (\<lambda>r. mt_mountpoint r = ''/'') (parse_mountinfo (file_of MOUNTINFO)) = Some ?r"
    by (simp add: parse_mountinfo_def f lines_file_of_Cons find_first)
  then show ?thesis by (simp add: mountinfo_real_fixture_def)
qed

section \<open>Test of machine.rs\<close>

text \<open>The temporary directory, with the devices \<open>add_disk\<close> has put there.\<close>

definition disks_os :: "(string \<times> string \<times> string) list \<Rightarrow> string \<Rightarrow> os" where
  "disks_os devices r = \<lparr>
     os_read = (\<lambda>p. case map_of (concat (map (\<lambda>(name, dev, sectors).
         [(path_join (path_join r name) ''dev'', file_of [dev]), (path_join (path_join r name) ''size'', file_of [sectors]),
          (path_join (path_join r name) ''queue/scheduler'', file_of [''[none] mq-deadline''])]) devices)) p of
       Some t \<Rightarrow> Inr t | None \<Rightarrow> Inl NotFound),
     os_mtime = (\<lambda>_. Inl NotFound), os_exists = (\<lambda>_. True), os_is_dir = (\<lambda>_. True),
     os_read_dir = (\<lambda>p. if p = r then Inr (map (\<lambda>(name, _). Inr (name, True)) devices) else Inl NotFound)\<rparr>"

definition disk_map_sees_devices_added_later :: bool where
  "disk_map_sees_devices_added_later \<longleftrightarrow>
     (let devices = [(''vda'', ''253:0'', ''2048''), (''loop0'', ''7:0'', ''8'')];
          before = disk_map_at (disks_os devices ''/tmp/d'') ''/tmp/d'';
          after = disk_map_at (disks_os (devices @ [(''ublkb0'', ''259:1'', ''100''), (''nvme1n1'', ''259:2'', ''200'')])
            ''/tmp/d'') ''/tmp/d'' in
      bt_keys before = [''253:0''] \<and>
      map_option dinfo_size (bt_get before ''253:0'') = Some (2048 * 512) \<and>
      map_option dinfo_name (bt_get after ''259:1'') = Some ''ublkb0'' \<and>
      map_option dinfo_name (bt_get after ''259:2'') = Some ''nvme1n1'' \<and>
      length after = 3)"

lemma disk_map_sees_devices_added_later_passes: "disk_map_sees_devices_added_later"
  by code_simp

end
