(* ===== verification/Test_Manager.thy ===== *)
theory Test_Manager
  imports Test_Base Manager_Sample Derive Api_Common Gotime
begin

text \<open>
  The unit tests of \<open>crates/cadvisor-manager/src\<close>: the sample store (\<open>store.rs\<close>), the derived rates
  (\<open>derive.rs\<close>) and the helpers of the manager (\<open>manager.rs\<close>). Durations are nanoseconds, and
  \<open>chrono::Duration::from_std\<close> and \<open>num_nanoseconds\<close> convert those of the tests.
\<close>

section \<open>Tests of store.rs\<close>

definition test_t :: "nat \<Rightarrow> gotime" where
  "test_t sec = (63919800000 + int sec) * 10 ^ 9"

definition test_sample :: "nat \<Rightarrow> container_stats" where
  "test_sample sec = default_container_stats\<lparr>stats_timestamp := test_t sec\<rparr>"

definition test_from_std :: "nat \<Rightarrow> int option" where
  "test_from_std d = Some (int d)"

definition store_with :: "nat list \<Rightarrow> timed_store" where
  "store_with ss = fold (\<lambda>sec. ts_push test_from_std (test_sample sec)) ss (ts_new (120 * 10 ^ 9))"

text \<open>The seconds of a sample within its minute and a half: \<open>timestamp() % 100\<close>.\<close>

definition test_secs :: "container_stats list \<Rightarrow> int list" where
  "test_secs ss = map (\<lambda>s. unix_ns (stats_timestamp s) div 10 ^ 9 mod 100) ss"

definition age_eviction :: bool where
  "age_eviction \<longleftrightarrow>
     (let s = fold (\<lambda>sec. ts_push test_from_std (test_sample sec)) [0, 5, 9, 12, 25] (ts_new (10 * 10 ^ 9));
          all = ts_in_range gotime_zero gotime_zero (- 1) s in
      test_secs all = [25])"

lemma age_eviction_passes: "age_eviction"
  by code_simp

definition most_recent_n_when_trimming :: bool where
  "most_recent_n_when_trimming \<longleftrightarrow>
     test_secs (ts_in_range gotime_zero gotime_zero 2 (store_with [1, 2, 3, 4, 5])) = [4, 5]"

lemma most_recent_n_when_trimming_passes: "most_recent_n_when_trimming"
  by code_simp

definition window_selection :: bool where
  "window_selection \<longleftrightarrow>
     (let s = store_with [1, 2, 3, 4, 5] in
      test_secs (ts_in_range (test_t 2) (test_t 4) (- 1) s) = [2, 3, 4] \<and>
      ts_in_range (test_t 50) gotime_zero (- 1) s = [] \<and>
      ts_in_range gotime_zero (test_t 0) (- 1) s = [])"

lemma window_selection_passes: "window_selection"
  by code_simp

definition unlimited_and_zero :: bool where
  "unlimited_and_zero \<longleftrightarrow>
     (let s = store_with [1, 2, 3] in
      length (ts_in_range gotime_zero gotime_zero (- 1) s) = 3 \<and>
      length (ts_in_range gotime_zero gotime_zero 0 s) = 0)"

lemma unlimited_and_zero_passes: "unlimited_and_zero"
  by code_simp

definition two_latest_order :: bool where
  "two_latest_order \<longleftrightarrow>
     (case ts_two_latest (store_with [1, 2, 3]) of
        Some (p, l) \<Rightarrow> stats_timestamp p < stats_timestamp l
      | None \<Rightarrow> False)"

lemma two_latest_order_passes: "two_latest_order"
  by code_simp

section \<open>Tests of derive.rs\<close>

definition cpu_sample :: "nat \<Rightarrow> u64 \<Rightarrow> container_stats" where
  "cpu_sample sec total_ns =
     (test_sample sec)\<lparr>stats_cpu := default_cpu_stats\<lparr>cpu_usage :=
        default_cpu_usage\<lparr>usage_total := total_ns, usage_user := total_ns div 2, usage_system := total_ns div 2\<rparr>\<rparr>\<rparr>"

definition one_core_busy :: bool where
  "one_core_busy \<longleftrightarrow>
     (case inst_cpu Some (cpu_sample 0 0) (cpu_sample 2 1000000000) of
        Some inst \<Rightarrow> instu_total (inst_usage inst) = 500000000 \<and> instu_user (inst_usage inst) = 250000000
      | None \<Rightarrow> False)"

lemma half_rate: "inst_rate 2000000000 0 1000000000 = Some 500000000"
proof -
  have q: "rnd53 (1 / 2) = 1 / 2" by code_simp
  have "rnd53 (of_nat 1000000000) = of_nat 1000000000" "rnd53 (of_nat 2000000000) = of_nat 2000000000"
    "rnd53 (of_nat 500000000) = of_nat 500000000" by (rule dbl.exact; simp)+
  then have "dbl.rate 1000000000 2000000000 1000000000 = 500000000" by (simp add: dbl.rate_def q)
  then show ?thesis by (simp add: inst_rate_value u64_max_def)
qed

lemma quarter_rate: "inst_rate 2000000000 0 500000000 = Some 250000000"
proof -
  have q: "rnd53 (1 / 4) = 1 / 4" by code_simp
  have "rnd53 (of_nat 500000000) = of_nat 500000000" "rnd53 (of_nat 2000000000) = of_nat 2000000000"
    "rnd53 (of_nat 250000000) = of_nat 250000000" by (rule dbl.exact; simp)+
  then have "dbl.rate 500000000 2000000000 1000000000 = 250000000" by (simp add: dbl.rate_def q)
  then show ?thesis by (simp add: inst_rate_value u64_max_def)
qed

lemma one_core_busy_passes: "one_core_busy"
  by (simp add: one_core_busy_def inst_cpu_def cpu_sample_def test_sample_def test_t_def default_container_stats_def
      default_cpu_stats_def default_cpu_usage_def half_rate quarter_rate)

definition rejects_backwards :: bool where
  "rejects_backwards \<longleftrightarrow>
     inst_cpu Some (cpu_sample 2 0) (cpu_sample 1 10) = None \<and>
     inst_cpu Some (cpu_sample 0 100) (cpu_sample 1 50) = None"

lemma rejects_backwards_passes: "rejects_backwards"
  by (simp add: rejects_backwards_def inst_cpu_def cpu_sample_def test_sample_def test_t_def default_container_stats_def
      default_cpu_stats_def default_cpu_usage_def inst_rate_def)

section \<open>Tests of manager.rs\<close>

text \<open>A directory without and with the file \<open>cgroup.controllers\<close>.\<close>

definition contains_text :: "string \<Rightarrow> string \<Rightarrow> bool" where
  "contains_text s p \<longleftrightarrow> split_once_str p s \<noteq> None"

definition a_root_without_cgroup_controllers_is_refused :: bool where
  "a_root_without_cgroup_controllers_is_refused \<longleftrightarrow>
     (let dir = ''/tmp/cadvisor-cg2'' in
      (case check_cgroup2 (\<lambda>_. False) dir of
         Inl err \<Rightarrow> contains_text (manager_error_text (\<lambda>_. []) err) ''is not a cgroup v2 mount''
       | Inr _ \<Rightarrow> False) \<and>
      check_cgroup2 (\<lambda>p. p = dir @ ''/cgroup.controllers'') dir = Inr ())"

lemma a_root_without_cgroup_controllers_is_refused_passes: "a_root_without_cgroup_controllers_is_refused"
  by code_simp

definition disk_of :: "u64 \<Rightarrow> u64 \<Rightarrow> per_disk_stats" where
  "disk_of major minor = default_per_disk_stats\<lparr>disk_major := major, disk_minor := minor\<rparr>"

definition unknown_disks_lists_only_unmapped :: bool where
  "unknown_disks_lists_only_unmapped \<longleftrightarrow>
     (let m = bt_insert ''253:0'' default_disk_info [];
          named = (disk_of 8 0)\<lparr>disk_device := ''/dev/x''\<rparr> in
      unknown_disks [disk_of 253 0, disk_of 259 1, disk_of 259 2] m = [''259:1'', ''259:2''] \<and>
      unknown_disks [named] m = [])"

lemma unknown_disks_lists_only_unmapped_passes: "unknown_disks_lists_only_unmapped"
  by code_simp

end
