(* ===== verification/Test_Metrics.thy ===== *)
theory Test_Metrics
  imports Test_Base Metrics_Collect
begin

text \<open>
  The unit tests of \<open>crates/cadvisor-metrics/src\<close>: the number format and the sample lines (\<open>encode.rs\<close>),
  the labels of a container and a doubled series (\<open>collect.rs\<close>). What the crate \<open>ryu\<close> prints for the
  numbers of a test is given with them. The test on the captured exposition, a file outside the crates,
  is left out.
\<close>

section \<open>Tests of encode.rs\<close>

text \<open>A number (a fraction as the nearest double), its shortest decimal form as \<open>ryu\<close> writes it, and the expected text.\<close>

definition go_g_formatting :: bool where
  "go_g_formatting \<longleftrightarrow>
     list_all (\<lambda>(v, shortest, want). fmt_float (\<lambda>_. shortest) (Fin v) = want)
       [(0, ''0.0'', ''0''),
        (1, ''1.0'', ''1''),
        (8, ''8.0'', ''8''),
        (100000, ''100000.0'', ''100000''),
        (8289944203965701 / 2 ^ 39, ''15079.320663'', ''15079.320663''),
        (4701715789728291 / 2 ^ 48, ''16.70385'', ''16.70385''),
        (13614579712, ''13614579712.0'', ''1.3614579712e+10''),
        (41504768, ''41504768.0'', ''4.1504768e+07''),
        (700592128, ''700592128.0'', ''7.00592128e+08''),
        (1784214137, ''1784214137.0'', ''1.784214137e+09''),
        (1 / 4, ''0.25'', ''0.25''),
        (7378697629483821 / 2 ^ 66, ''0.0001'', ''0.0001''),
        (5902958103587057 / 2 ^ 69, ''1e-5'', ''1e-05''),
        (- 2597, ''-2597.0'', ''-2597''),
        (1000000000000000000000, ''1e21'', ''1e+21'')]"

lemma fmt_float_shortest:
  "q \<noteq> 0 \<Longrightarrow> q \<noteq> 1 \<Longrightarrow> q \<noteq> - 1 \<Longrightarrow> (case decimal_parts t of (neg, digits, ex) \<Rightarrow> put_digits neg digits ex) = want \<Longrightarrow>
     fmt_float (\<lambda>_. t) (Fin q) = want"
  by (simp add: fmt_float_def)

lemma go_g_formatting_passes: "go_g_formatting"
  unfolding go_g_formatting_def list.pred_inject case_prod_conv
  by (intro conjI TrueI; (simp add: fmt_float_def; fail | rule fmt_float_shortest; (simp; fail | code_simp)))

definition line_rendering :: bool where
  "line_rendering \<longleftrightarrow>
     sample_line (\<lambda>_. ''2.0'') ''m_total'' [(''id'', quoted ''/a^b'')] (Fin 2) (Some 123) =
       quoted ''m_total{id=^/a'' @ [CHR 0x5C] @ quoted ''^b^} 2 123'' @ [nl] \<and>
     sample_line (\<lambda>_. ''0.0'') ''m'' [] (Fin 0) None = ''m 0'' @ [nl]"

lemma line_rendering_passes: "line_rendering"
  by code_simp

section \<open>Tests of collect.rs\<close>

definition env_labels_follow_store_container_labels :: bool where
  "env_labels_follow_store_container_labels \<longleftrightarrow>
     (let spec = default_container_spec\<lparr>spec_labels := bt_insert ''app'' ''web'' [],
            spec_envs := bt_insert ''APP_MODE'' ''prod'' []\<rparr>;
          opts = default_metrics_opts\<lparr>mo_store_container_labels := True\<rparr>;
          own = own_from ''/c'' spec default_container_reference opts;
          opts' = opts\<lparr>mo_store_container_labels := False, mo_whitelisted_container_labels := [''app'']\<rparr>;
          own' = own_from ''/c'' spec default_container_reference opts' in
      bt_get own ''container_env_APP_MODE'' = Some ''prod'' \<and>
      bt_get own ''container_label_app'' = Some ''web'' \<and>
      bt_get own' ''container_env_APP_MODE'' = None \<and>
      bt_get own' ''container_label_app'' = Some ''web'')"

lemma env_labels_follow_store_container_labels_passes: "env_labels_follow_store_container_labels"
  by code_simp

definition a_repeated_series_is_served_once_first_wins :: bool where
  "a_repeated_series_is_served_once_first_wins \<longleftrightarrow>
     (let ryu = (\<lambda>v. if v = Fin 2 then ''2.0'' else if v = Fin 3 then ''3.0'' else ''1.0'');
          l = (\<lambda>d. [(''device'', d), (''id'', ''/'')]);
          fam = ''container_fs_reads_bytes_total'';
          out = push fam (l []) (Fin 3) None (push fam (l ''/dev/sda'') (Fin 2) None (push fam (l []) (Fin 1) None [])) in
      filter (\<lambda>l. \<not> starts_with l ''#'') (lines (render_output ryu out)) =
        [quoted ''container_fs_reads_bytes_total{device=^^,id=^/^} 1'',
         quoted ''container_fs_reads_bytes_total{device=^/dev/sda^,id=^/^} 2''])"

lemma a_repeated_series_is_served_once_first_wins_passes: "a_repeated_series_is_served_once_first_wins"
  by code_simp

end
