(* ===== verification/Test_Daemon.thy ===== *)
theory Test_Daemon
  imports Test_Base Wire_Runtime Tls_Serve
begin

text \<open>
  The unit tests of \<open>crates/cadvisor-runtime/src/lib.rs\<close> and \<open>crates/cadvisor/src/secure.rs\<close>. The JSON
  texts of the first are given as the trees that \<open>serde_json\<close> reads; the temporary files of the second
  are the contents of one path at a time, with a stamp for each writing. The tests of \<open>main.rs\<close> are
  about what clap makes of the arguments and are left out.
\<close>

section \<open>Tests of the runtime crate\<close>

definition id_extraction :: bool where
  "id_extraction \<longleftrightarrow>
     (let id = replicate 64 CHR ''a'' in
      extract_container_id id = Some id \<and>
      extract_container_id (''cri-containerd-'' @ id @ ''.scope'') = Some id \<and>
      extract_container_id (''crio-'' @ id @ ''.scope'') = Some id \<and>
      extract_container_id (''libpod-'' @ id @ ''.scope'') = Some id \<and>
      extract_container_id ''system.slice'' = None \<and>
      extract_container_id (id @ ''.mount'') = None \<and>
      extract_container_id (replicate 63 CHR ''a'') = None \<and>
      extract_container_id (replicate 65 CHR ''a'') = None)"

lemma id_extraction_passes: "id_extraction"
  by code_simp

definition env_whitelist_is_a_prefix_match :: bool where
  "env_whitelist_is_a_prefix_match \<longleftrightarrow>
     (let env = [''PATH=/usr/bin'', ''APP_MODE=prod'', ''APP_ID=7'', ''TZ=UTC'', ''EMPTY='', ''NOEQ''];
          got = whitelisted_env env [''APP_'', ''TZ'', ''EMPTY'', ''NOEQ''] in
      got = bt_of_list [(''APP_ID'', ''7''), (''APP_MODE'', ''prod''), (''EMPTY'', []), (''TZ'', ''UTC'')] \<and>
      whitelisted_env env [[]] = [] \<and>
      whitelisted_env env [] = [])"

lemma env_whitelist_is_a_prefix_match_passes: "env_whitelist_is_a_prefix_match"
  by code_simp

definition test_spec_json :: string where
  "test_spec_json = quoted ''{^ociVersion^:^1.1.0^,^process^:{^args^:[^sh^],^env^:[^A=1^,^B=x=y^]}}''"

definition test_json :: "string \<Rightarrow> jvalue option" where
  "test_json s =
     (if s = test_spec_json then
        Some (JObj [(''ociVersion'', JStr True ''1.1.0''),
          (''process'', JObj [(''args'', JArr [JStr True ''sh'']), (''env'', JArr [JStr True ''A=1'', JStr True ''B=x=y''])])])
      else if s = ''{}'' then Some (JObj []) else None)"

definition oci_env :: bool where
  "oci_env \<longleftrightarrow>
     (let env = oci_spec_env (\<lambda>s. Option.bind (test_json s) de_oci_spec) in
      env test_spec_json = [''A=1'', ''B=x=y''] \<and> env ''{}'' = [] \<and> env ''not json'' = [])"

lemma oci_env_passes: "oci_env"
  by code_simp

section \<open>Tests of secure.rs\<close>

definition tokens_skip_blanks_and_comments :: bool where
  "tokens_skip_blanks_and_comments \<longleftrightarrow>
     parse_tokens (file_of [''# scraper'', ''abc'', '''', ''  def  '']) = [''abc'', ''def'']"

lemma tokens_skip_blanks_and_comments_passes: "tokens_skip_blanks_and_comments"
  by code_simp

definition bearer_scheme_is_case_insensitive_and_needs_a_token :: bool where
  "bearer_scheme_is_case_insensitive_and_needs_a_token \<longleftrightarrow>
     bearer Some (Some ''Bearer abc'') = Some ''abc'' \<and>
     bearer Some (Some ''bearer  abc '') = Some ''abc'' \<and>
     bearer Some (Some ''Basic abc'') = None \<and>
     bearer Some (Some ''Bearer '') = None \<and>
     bearer Some None = None"

lemma bearer_scheme_is_case_insensitive_and_needs_a_token_passes:
  "bearer_scheme_is_case_insensitive_and_needs_a_token"
  by code_simp

definition only_a_listed_token_is_accepted :: bool where
  "only_a_listed_token_is_accepted \<longleftrightarrow>
     (let t = [''abc'', ''defg''] in
      token_accepted t (Some ''defg'') \<and> \<not> token_accepted t (Some ''ab'') \<and>
      \<not> token_accepted t (Some ''abd'') \<and> \<not> token_accepted t None)"

lemma only_a_listed_token_is_accepted_passes: "only_a_listed_token_is_accepted"
  by code_simp

text \<open>The operating system while the token file has the text \<open>t\<close>, and the stamp of its \<open>n\<close>-th writing.\<close>

definition token_os :: "string \<Rightarrow> os" where
  "token_os t = \<lparr>os_read = (\<lambda>_. Inr t), os_mtime = (\<lambda>_. Inl NotFound), os_exists = (\<lambda>_. True),
     os_is_dir = (\<lambda>_. False), os_read_dir = (\<lambda>_. Inl NotFound)\<rparr>"

definition token_stamp :: "int \<Rightarrow> string \<Rightarrow> stamp" where
  "token_stamp n t = stamp_of (\<lambda>_. Some (n, 0, length t, 1)) [''/tmp/tokens'']"

text \<open>Setting the last check back by \<open>RECHECK\<close> is a look that much later.\<close>

definition a_replaced_token_file_is_reread_and_a_bad_one_is_not_used :: bool where
  "a_replaced_token_file_is_reread_and_a_bad_one_is_not_used \<longleftrightarrow>
     (let p = ''/tmp/tokens''; one = file_of [''one'']; two = file_of [''two-rotated'']; none = file_of [''# emptied''] in
      case watched_new 0 (token_stamp 0 one) (load_tokens (token_os one) p) of
        Inl _ \<Rightarrow> False
      | Inr w \<Rightarrow>
          (let (got, w) = watched_get 0 (token_stamp 0 one) (load_tokens (token_os one) p) w;
               (got', w) = watched_get recheck (token_stamp 1 two) (load_tokens (token_os two) p) w;
               (got'', w) = watched_get (2 * recheck) (token_stamp 2 none) (load_tokens (token_os none) p) w in
           got = [''one''] \<and> got' = [''two-rotated''] \<and> got'' = [''two-rotated'']))"

lemma a_replaced_token_file_is_reread_and_a_bad_one_is_not_used_passes:
  "a_replaced_token_file_is_reread_and_a_bad_one_is_not_used"
  by code_simp

definition an_empty_token_file_is_a_startup_error :: bool where
  "an_empty_token_file_is_a_startup_error \<longleftrightarrow>
     (let t = file_of ['''', ''# nothing''] in
      res_ok (tokens_new (token_os t) 0 (token_stamp 0 t) ''/tmp/tokens'') = None)"

lemma an_empty_token_file_is_a_startup_error_passes: "an_empty_token_file_is_a_startup_error"
  by code_simp

end
