(* ===== verification/Test_Model.thy ===== *)
theory Test_Model
  imports Test_Base Wire_V2 Wire_Values
begin

text \<open>
  The unit tests of \<open>crates/cadvisor-model/src\<close> (\<open>v1/container.rs\<close>, \<open>v1/events.rs\<close>, \<open>v1/machine.rs\<close>, \<open>v2/mod.rs\<close>,
  \<open>gotime.rs\<close>). A \<open>serde_json::Value\<close> is the tree that the writers make; \<open>test_stamp\<close> is what chrono prints
  for the seconds of the tests, and timestamps are read by the reader of the tests.
\<close>

section \<open>Values\<close>

text \<open>\<open>as_object().unwrap().keys()\<close>, \<open>get\<close>, and indexing, which gives null for a missing key.\<close>

fun json_keys :: "jvalue \<Rightarrow> string list option" where
  "json_keys (JObj m) = Some (map fst m)"
| "json_keys _ = None"

fun json_get :: "jvalue \<Rightarrow> string \<Rightarrow> jvalue option" where
  "json_get (JObj m) k = map_of m k"
| "json_get _ k = None"

definition json_at :: "jvalue \<Rightarrow> string \<Rightarrow> jvalue" where
  "json_at v k = (case json_get v k of Some j \<Rightarrow> j | None \<Rightarrow> JNull)"

fun json_nth :: "jvalue \<Rightarrow> nat \<Rightarrow> jvalue" where
  "json_nth (JArr js) i = (if i < length js then js ! i else JNull)"
| "json_nth _ i = JNull"

definition test_stamp :: "int \<Rightarrow> string" where
  "test_stamp s =
     (if s = 0 then ''0001-01-01T00:00:00'' else if s = 63919794605 then ''2026-07-16T10:30:05''
      else if s = 63919765805 then ''2026-07-16T02:30:05'' else [])"

text \<open>\<open>GoTime::default\<close>.\<close>

definition gotime_default :: gotime where
  "gotime_default = gotime_zero"

section \<open>Tests of container.rs\<close>

definition spec_zero_value_serializes_all_non_omitempty_keys :: bool where
  "spec_zero_value_serializes_all_non_omitempty_keys \<longleftrightarrow>
     (let v = ser_container_spec test_stamp default_container_spec in
      json_keys v = Some
        [''creation_time'', ''has_cpu'', ''cpu'', ''has_memory'', ''memory'', ''has_hugetlb'',
         ''has_network'', ''has_processes'', ''processes'', ''has_filesystem'', ''has_diskio'',
         ''has_custom_metrics''] \<and>
      json_at v ''creation_time'' = ser_str ''0001-01-01T00:00:00Z'' \<and>
      json_at v ''has_cpu'' = JBool False \<and>
      json_at v ''memory'' = JObj [] \<and>
      json_at v ''cpu'' = JObj [(''limit'', JInt 0), (''max_limit'', JInt 0)])"

lemma spec_zero_value_serializes_all_non_omitempty_keys_passes: "spec_zero_value_serializes_all_non_omitempty_keys"
  by code_simp

definition stats_zero_value_shape :: bool where
  "stats_zero_value_shape \<longleftrightarrow>
     json_keys (ser_container_stats test_stamp default_container_stats) = Some
        [''timestamp'', ''cpu'', ''diskio'', ''memory'', ''network'', ''task_stats'', ''processes'',
         ''resctrl'', ''cpuset'']"

lemma stats_zero_value_shape_passes: "stats_zero_value_shape"
  by code_simp

definition memory_stats_wire_keys :: bool where
  "memory_stats_wire_keys \<longleftrightarrow>
     (let v = ser_memory_stats default_memory_stats in
      json_get v ''kernel'' \<noteq> None \<and>
      list_all (\<lambda>key. json_get v key \<noteq> None) [''container_data'', ''hierarchical_data''] \<and>
      json_at v ''container_data'' = JObj [(''pgfault'', JInt 0), (''pgmajfault'', JInt 0), (''numa_stats'', JObj [])])"

lemma memory_stats_wire_keys_passes: "memory_stats_wire_keys"
  by code_simp

definition fs_stats_limit_serializes_as_capacity :: bool where
  "fs_stats_limit_serializes_as_capacity \<longleftrightarrow>
     (let v = ser_fs_stats (default_fs_stats\<lparr>fs_limit := 42\<rparr>) in
      json_at v ''capacity'' = JInt 42 \<and> json_get v ''limit'' = None \<and> json_get v ''device'' = None \<and>
      json_at v ''type'' = ser_str [])"

lemma fs_stats_limit_serializes_as_capacity_passes: "fs_stats_limit_serializes_as_capacity"
  by code_simp

definition tcp_udp_stats_use_go_field_names :: bool where
  "tcp_udp_stats_use_go_field_names \<longleftrightarrow>
     (let v = ser_tcp_stat (default_tcp_stat\<lparr>tcp_syn_sent := 1, tcp_fin_wait1 := 2\<rparr>);
          u = ser_udp_stat (default_udp_stat\<lparr>udp_rx_queued := 3\<rparr>);
          a = ser_tcp_advanced_stat default_tcp_advanced_stat in
      json_at v ''SynSent'' = JInt 1 \<and> json_at v ''FinWait1'' = JInt 2 \<and>
      json_keys v = Some
        [''Established'', ''SynSent'', ''SynRecv'', ''FinWait1'', ''FinWait2'', ''TimeWait'',
         ''Close'', ''CloseWait'', ''LastAck'', ''Listen'', ''Closing''] \<and>
      json_at u ''RxQueued'' = JInt 3 \<and>
      list_all (\<lambda>key. json_get a key \<noteq> None)
        [''RtoAlgorithm'', ''MaxConn'', ''TW'', ''TCPHPHits'', ''TCPPureAcks'', ''DelayedACKs'', ''TCPSACKReneging'',
         ''TCPDSACKIgnoredNoUndo'', ''TCPMD5NotFound'', ''PFMemallocDrop'', ''IPReversePathFilter'',
         ''TCPReqQFullDoCookies'', ''PAWSActive'', ''PAWSEstab''] \<and>
      map_option length (json_keys a) = Some 99)"

lemma tcp_udp_stats_use_go_field_names_passes: "tcp_udp_stats_use_go_field_names"
  by code_simp

definition network_stats_inlines_default_interface :: bool where
  "network_stats_inlines_default_interface \<longleftrightarrow>
     (let v = ser_network_stats (default_network_stats\<lparr>net_interface :=
            default_interface_stats\<lparr>iface_name := ''eth0'', iface_rx_bytes := 7\<rparr>\<rparr>) in
      json_at v ''name'' = ser_str ''eth0'' \<and> json_at v ''rx_bytes'' = JInt 7 \<and> json_get v ''interfaces'' = None \<and>
      list_all (\<lambda>key. json_get v key \<noteq> None) [''tcp'', ''tcp6'', ''udp'', ''udp6'', ''tcp_advanced''])"

lemma network_stats_inlines_default_interface_passes: "network_stats_inlines_default_interface"
  by code_simp

definition container_info_flattens_reference :: bool where
  "container_info_flattens_reference \<longleftrightarrow>
     (let v = ser_container_info test_stamp (default_container_info\<lparr>info_reference :=
            \<lparr>ref_id = ''abc'', ref_name = ''/docker/abc'', ref_aliases = [''web''], ref_namespace = ''docker''\<rparr>\<rparr>) in
      json_at v ''id'' = ser_str ''abc'' \<and> json_at v ''name'' = ser_str ''/docker/abc'' \<and>
      json_at v ''namespace'' = ser_str ''docker'' \<and> json_get v ''spec'' \<noteq> None \<and> json_get v ''stats'' = None)"

lemma container_info_flattens_reference_passes: "container_info_flattens_reference"
  by code_simp

definition request_decodes_over_defaults :: bool where
  "request_decodes_over_defaults \<longleftrightarrow>
     (case (de_container_info_request rfc3339_nanos (JObj []),
            de_container_info_request rfc3339_nanos
              (JObj [(''num_stats'', JInt (- 1)), (''start'', JStr True ''2026-07-16T00:00:00Z'')])) of
        (Some r, Some r') \<Rightarrow>
          req_num_stats r = 60 \<and> gotime_is_zero (req_start r) \<and> gotime_is_zero (req_end r) \<and>
          req_num_stats r' = - 1 \<and> \<not> gotime_is_zero (req_start r')
      | _ \<Rightarrow> False)"

lemma request_decodes_over_defaults_passes: "request_decodes_over_defaults"
  by code_simp

definition perf_stat_flattens_value :: bool where
  "perf_stat_flattens_value \<longleftrightarrow>
     json_keys (ser_perf_stat \<lparr>perf_perf_value = \<lparr>perfval_scaling_ratio = Fin 1, perfval_value = 5, perfval_name = ''cycles''\<rparr>,
        perf_cpu = 2\<rparr>) = Some [''scaling_ratio'', ''value'', ''name'', ''cpu'']"

lemma perf_stat_flattens_value_passes: "perf_stat_flattens_value"
  by code_simp

definition round_trip_preserves_value :: bool where
  "round_trip_preserves_value \<longleftrightarrow>
     (let stats = default_container_stats\<lparr>
            stats_cpu := default_cpu_stats\<lparr>cpu_usage :=
              \<lparr>usage_total = 123, usage_per_cpu = [100, 23], usage_user = 60, usage_system = 63\<rparr>\<rparr>,
            stats_hugetlb := [(''2Mi'', \<lparr>huge_usage = 1, huge_max_usage = 0, huge_failcnt = 0\<rparr>)]\<rparr> in
      de_container_stats rfc3339_nanos (ser_container_stats test_stamp stats) = Some stats)"

lemma test_stamp_zero: "time_ok test_stamp 0"
proof -
  have "stamp_text 1 1 1 0 0 0 = ''0001-01-01T00:00:00''" by code_simp
  moreover have "valid_date 1 1 1" by (simp add: valid_date_def month_days_def)
  ultimately have "stamp_ok test_stamp 0"
    unfolding stamp_ok_def test_stamp_def by (intro exI [of _ 1] exI [of _ 0]) auto
  then show ?thesis by (simp add: time_ok_def whole_second_def)
qed

lemma round_trip_preserves_value_passes: "round_trip_preserves_value"
proof -
  have "ok_container_stats test_stamp default_container_stats"
    using ok_new_sample [OF test_stamp_zero] by (simp add: default_container_stats_def)
  then have "ok_container_stats test_stamp (default_container_stats\<lparr>
      stats_cpu := default_cpu_stats\<lparr>cpu_usage := \<lparr>usage_total = 123, usage_per_cpu = [100, 23], usage_user = 60, usage_system = 63\<rparr>\<rparr>,
      stats_hugetlb := [(''2Mi'', \<lparr>huge_usage = 1, huge_max_usage = 0, huge_failcnt = 0\<rparr>)]\<rparr>)"
    by (simp add: ok_container_stats_def ok_cpu_stats_def default_cpu_stats_def in_i32_def bt_wf_def)
  then show ?thesis
    unfolding round_trip_preserves_value_def Let_def by (rule de_container_stats_ser [OF rfc3339_ok_nanos])
qed

section \<open>Test of events.rs\<close>

definition event_wire_shape :: bool where
  "event_wire_shape \<longleftrightarrow>
     (let e = default_event\<lparr>ev_container_name := ''/docker/abc'', ev_event_type := OomKill, ev_event_data :=
            \<lparr>evdata_oom_kill = Some \<lparr>oomdata_pid = 42, oomdata_process_name = ''stress'',
               oomdata_constraint = ''CONSTRAINT_MEMCG''\<rparr>\<rparr>\<rparr>;
          v = ser_event test_stamp e;
          empty = ser_event test_stamp default_event in
      json_at v ''event_type'' = ser_str ''oomKill'' \<and>
      json_at (json_at (json_at v ''event_data'') ''oom'') ''process_name'' = ser_str ''stress'' \<and>
      json_at empty ''event_data'' = JObj [] \<and>
      json_at empty ''event_type'' = ser_str ''oom'')"

lemma event_wire_shape_passes: "event_wire_shape"
  by code_simp

section \<open>Tests of machine.rs\<close>

definition nvm_replicates_upstream_space_typo :: bool where
  "nvm_replicates_upstream_space_typo \<longleftrightarrow>
     (let v = ser_nvm_info (default_nvm_info\<lparr>nvm_app_direct_mode_capacity := 9\<rparr>) in
      json_at v ''app direct_mode_capacity'' = JInt 9 \<and> json_get v ''app_direct_mode_capacity'' = None)"

lemma nvm_replicates_upstream_space_typo_passes: "nvm_replicates_upstream_space_typo"
  by code_simp

definition filesystem_info_skips_major_minor :: bool where
  "filesystem_info_skips_major_minor \<longleftrightarrow>
     (let v = ser_filesystem_info (default_filesystem_info\<lparr>fsinfo_device_major := 8, fsinfo_device_minor := 1\<rparr>) in
      json_get v ''device_major'' = None \<and>
      json_keys v = Some
        [''device'', ''capacity'', ''type'', ''inodes'', ''has_inodes''] \<and>
      map_option fsinfo_device_major (de_filesystem_info v) = Some 0)"

lemma filesystem_info_skips_major_minor_passes: "filesystem_info_skips_major_minor"
  by code_simp

definition machine_info_zero_value_keys :: bool where
  "machine_info_zero_value_keys \<longleftrightarrow>
     json_keys (ser_machine_info test_stamp default_machine_info) = Some
        [''timestamp'', ''vendor_id'', ''num_cores'', ''num_physical_cores'', ''num_sockets'',
         ''cpu_frequency_khz'', ''memory_capacity'', ''swap_capacity'', ''memory_by_type'', ''nvm'',
         ''hugepages'', ''machine_id'', ''system_uuid'', ''boot_id'', ''filesystems'', ''disk_map'',
         ''network_devices'', ''topology'', ''cloud_provider'', ''instance_type'', ''instance_id'']"

lemma machine_info_zero_value_keys_passes: "machine_info_zero_value_keys"
  by code_simp

definition topology_wire_keys :: bool where
  "topology_wire_keys \<longleftrightarrow>
     (let node = default_numa_node\<lparr>node_id := 0,
            node_cores := [default_cpu_core\<lparr>core_id := 1, core_threads := [0, 8], core_socket_id := 0\<rparr>]\<rparr>;
          v = ser_numa_node node;
          c = json_nth (json_at v ''cores'') 0 in
      json_get v ''node_id'' \<noteq> None \<and>
      json_at c ''core_id'' = JInt 1 \<and>
      json_at c ''thread_ids'' = JArr [JInt 0, JInt 8] \<and>
      json_at c ''uncore_caches'' = JNull)"

lemma topology_wire_keys_passes: "topology_wire_keys"
  by code_simp

section \<open>Tests of v2/mod.rs\<close>

definition filesystem_stats_replicates_containter_typo :: bool where
  "filesystem_stats_replicates_containter_typo \<longleftrightarrow>
     json_at (ser_filesystem_stats (default_filesystem_stats\<lparr>fsroll_inode_usage := Some 12\<rparr>)) ''containter_inode_usage'' =
       JInt 12 \<and>
     ser_filesystem_stats default_filesystem_stats = JObj []"

lemma filesystem_stats_replicates_containter_typo_passes: "filesystem_stats_replicates_containter_typo"
  by code_simp

definition machine_fs_stats_nests_disk_stats_under_inline_key :: bool where
  "machine_fs_stats_nests_disk_stats_under_inline_key \<longleftrightarrow>
     (let v = ser_machine_fs_stats_row (default_machine_fs_stats_row\<lparr>mfs_device := ''/dev/sda1'', mfs_fs_type := ''vfs'',
            mfs_disk_stats := default_disk_stats_row\<lparr>dstats_reads_completed := Some 10\<rparr>\<rparr>) in
      json_at (json_at v ''inline'') ''reads_completed'' = JInt 10 \<and>
      json_keys v = Some
        [''device'', ''type'', ''inline''])"

lemma machine_fs_stats_nests_disk_stats_under_inline_key_passes: "machine_fs_stats_nests_disk_stats_under_inline_key"
  by code_simp

definition deprecated_stats_zero_value_keys :: bool where
  "deprecated_stats_zero_value_keys \<longleftrightarrow>
     json_keys (ser_deprecated_container_stats test_stamp default_deprecated_container_stats) = Some
        [''timestamp'', ''has_cpu'', ''cpu'', ''has_diskio'', ''diskio'', ''has_memory'',
         ''memory'', ''has_hugetlb'', ''has_network'', ''network'', ''has_processes'',
         ''processes'', ''has_filesystem'', ''has_load'', ''load_stats'', ''has_custom_metrics'',
         ''resctrl'']"

lemma deprecated_stats_zero_value_keys_passes: "deprecated_stats_zero_value_keys"
  by code_simp

definition v21_stats_zero_value_keys :: bool where
  "v21_stats_zero_value_keys \<longleftrightarrow>
     json_keys (ser_v2_container_stats test_stamp default_v2_container_stats) = Some [''timestamp'', ''resctrl'']"

lemma v21_stats_zero_value_keys_passes: "v21_stats_zero_value_keys"
  by code_simp

definition summary_shape :: bool where
  "summary_shape \<longleftrightarrow>
     (let v = ser_derived_stats_row test_stamp default_derived_stats_row in
      json_at (json_at (json_at v ''minute_usage'') ''cpu'') ''ninetyfive'' = JInt 0 \<and>
      json_at v ''latest_usage'' = JObj [(''cpu'', JInt 0), (''memory'', JInt 0)])"

lemma summary_shape_passes: "summary_shape"
  by code_simp

definition process_info_wire_keys :: bool where
  "process_info_wire_keys \<longleftrightarrow>
     (let v = ser_process_info default_process_info in
      json_get v ''parent_pid'' \<noteq> None \<and> json_get v ''percent_mem'' \<noteq> None \<and> json_get v ''ppid'' = None)"

lemma process_info_wire_keys_passes: "process_info_wire_keys"
  by code_simp

section \<open>Tests of gotime.rs\<close>

definition zero_value_matches_go :: bool where
  "zero_value_matches_go \<longleftrightarrow>
     ser_time test_stamp gotime_zero = ser_str ''0001-01-01T00:00:00Z'' \<and>
     ser_time test_stamp gotime_default = ser_str ''0001-01-01T00:00:00Z''"

lemma zero_value_matches_go_passes: "zero_value_matches_go"
  by code_simp

definition fraction_omitted_when_zero :: bool where
  "fraction_omitted_when_zero \<longleftrightarrow>
     ser_time test_stamp (63919794605 * 10 ^ 9) = ser_str ''2026-07-16T10:30:05Z''"

lemma fraction_omitted_when_zero_passes: "fraction_omitted_when_zero"
  by code_simp

definition fraction_trailing_zeros_trimmed :: bool where
  "fraction_trailing_zeros_trimmed \<longleftrightarrow>
     list_all (\<lambda>(ns, want). ser_time test_stamp (63919794605 * 10 ^ 9 + ns) = ser_str want)
       [(500000000, ''2026-07-16T10:30:05.5Z''),
        (123456789, ''2026-07-16T10:30:05.123456789Z''),
        (123456700, ''2026-07-16T10:30:05.1234567Z''),
        (1000000, ''2026-07-16T10:30:05.001Z''),
        (1, ''2026-07-16T10:30:05.000000001Z'')]"

lemma fraction_trailing_zeros_trimmed_passes: "fraction_trailing_zeros_trimmed"
  unfolding fraction_trailing_zeros_trimmed_def list.pred_inject case_prod_conv by (intro conjI TrueI; code_simp)

definition parses_offsets_and_fractions :: bool where
  "parses_offsets_and_fractions \<longleftrightarrow>
     (case (de_time rfc3339_nanos (JStr True ''2026-07-16T10:30:05.25+08:00''),
            de_time rfc3339_nanos (JStr True ''0001-01-01T00:00:00Z'')) of
        (Some t, Some z) \<Rightarrow> ser_time test_stamp t = ser_str ''2026-07-16T02:30:05.25Z'' \<and> gotime_is_zero z
      | _ \<Rightarrow> False)"

lemma parses_offsets_and_fractions_passes: "parses_offsets_and_fractions"
  by code_simp

end
