(* ===== verification/Test_Golden.thy ===== *)
theory Test_Golden
  imports Test_Base Golden
begin

text \<open>
  Golden tests of \<open>crates/cadvisor-model/src/golden.rs\<close>: JSON that a real cAdvisor has sent, as trees, is read
  into the model and written again without a difference. \<open>golden_stamp\<close> is what chrono prints for the seconds
  of the fixtures. The larger fixtures are left out, and the
  text of a fixture is not needed when its tree is.
\<close>

definition golden_stamp :: "int \<Rightarrow> string" where
  "golden_stamp s =
     (if s = 63919810801 then ''2026-07-16T15:00:01'' else if s = 63919810936 then ''2026-07-16T15:02:16'' else
     [])"

lemma golden_equal:
  "(case parse fixture of Some j \<Rightarrow> (case de j of Some t \<Rightarrow> as_value j = as_value (ser t) | None \<Rightarrow> False) | None \<Rightarrow> False) \<Longrightarrow>
     round_trip parse display as_f32 ser de fixture = Passes"
  by (auto simp: round_trip_iff split: option.splits intro: same.equal)

definition v1_events_json :: jvalue where
  "v1_events_json =
     JArr [JObj [(''container_name'', JStr True ''/''), (''timestamp'', JStr True ''2026-07-16T15:00:01.411542075Z''),
     (''event_type'', JStr True ''containerCreation''), (''event_data'', JObj [])]]"

definition v1_events :: bool where
  "v1_events \<longleftrightarrow>
     round_trip (\<lambda>_. Some v1_events_json) (\<lambda>_. []) (\<lambda>x. x) (ser_list (ser_event golden_stamp)) (de_list (de_event rfc3339_nanos)) [] = Passes"

lemma v1_events_passes: "v1_events"
  unfolding v1_events_def by (rule golden_equal) code_simp

definition v2_version_json :: jvalue where
  "v2_version_json =
     JStr True ''v0.49.2''"

definition v2_version :: bool where
  "v2_version \<longleftrightarrow>
     round_trip (\<lambda>_. Some v2_version_json) (\<lambda>_. []) (\<lambda>x. x) (ser_str) (de_str) [] = Passes"

lemma v2_version_passes: "v2_version"
  unfolding v2_version_def by (rule golden_equal) code_simp

definition v2_summary_json :: jvalue where
  "v2_summary_json =
     JObj [(''/machine.slice/libpod-2414aad5c9893197d3fe07d9f6405472c2eec7da18075cd47622bc64cd57548c.scope'',
     JObj [(''timestamp'', JStr True ''2026-07-16T15:02:16.79681882Z''), (''latest_usage'', JObj [(''cpu'', JInt 38),
     (''memory'', JInt 2293760)]), (''minute_usage'', JObj [(''percent_complete'', JInt 0), (''cpu'',
     JObj [(''present'', JBool False), (''mean'', JInt 0), (''max'', JInt 0), (''fifty'', JInt 0), (''ninety'',
     JInt 0), (''ninetyfive'', JInt 0)]), (''memory'', JObj [(''present'', JBool False), (''mean'', JInt 0), (''max'',
     JInt 0), (''fifty'', JInt 0), (''ninety'', JInt 0), (''ninetyfive'', JInt 0)])]), (''hour_usage'',
     JObj [(''percent_complete'', JInt 0), (''cpu'', JObj [(''present'', JBool False), (''mean'', JInt 0), (''max'',
     JInt 0), (''fifty'', JInt 0), (''ninety'', JInt 0), (''ninetyfive'', JInt 0)]), (''memory'', JObj [(''present'',
     JBool False), (''mean'', JInt 0), (''max'', JInt 0), (''fifty'', JInt 0), (''ninety'', JInt 0), (''ninetyfive'',
     JInt 0)])]), (''day_usage'', JObj [(''percent_complete'', JInt 0), (''cpu'', JObj [(''present'', JBool False),
     (''mean'', JInt 0), (''max'', JInt 0), (''fifty'', JInt 0), (''ninety'', JInt 0), (''ninetyfive'', JInt 0)]),
     (''memory'', JObj [(''present'', JBool False), (''mean'', JInt 0), (''max'', JInt 0), (''fifty'', JInt 0),
     (''ninety'', JInt 0), (''ninetyfive'', JInt 0)])])])]"

definition v2_summary :: bool where
  "v2_summary \<longleftrightarrow>
     round_trip (\<lambda>_. Some v2_summary_json) (\<lambda>_. []) (\<lambda>x. x) (ser_map (ser_derived_stats_row golden_stamp)) (de_map (de_derived_stats_row rfc3339_nanos)) [] = Passes"

lemma v2_summary_passes: "v2_summary"
  unfolding v2_summary_def by (rule golden_equal) code_simp

end
