(* ===== verification/Spec2Isabelle.thy ===== *)
theory Spec2Isabelle
  imports Scrape Server Wire_State Wire_Runtime Runtime_Cell Manager_Tasks Golden
    Test_Host Test_Manager Test_Metrics Test_Daemon Test_Model Test_Golden
begin

text \<open>
  A verification development for cadvisor, the container monitoring daemon of this repository: the
  crates below \<open>crates/\<close> and two readers of the tests (\<open>test/src/expo.rs\<close>, \<open>test/src/gotime.rs\<close>).

  \<^bold>\<open>The program.\<close> A \<^emph>\<open>manager\<close> keeps one handle per cgroup of the host. Cgroups are found by an
  initial sweep, an inotify watcher and a repeated sweep; every handle has a housekeeping task that
  samples the files of its cgroup into a bounded store and records out-of-memory events. Runtimes
  (containerd, CRI-O) supply names, labels and images. A Prometheus exporter and a REST API (v1.0 to
  v2.1) read the registry; bearer tokens and TLS may guard both.

  \<^bold>\<open>Theories,\<close> each with the source it models:

  \<^item> \<open>Prelude\<close>, \<open>Rust_Std\<close>, \<open>F64\<close>, \<open>F64_Text\<close>, \<open>Btree\<close>, \<open>Time_Log\<close>, \<open>Tree_Walk\<close>: shared notions. Strings are
    byte lists; \<open>u64\<close> and \<open>u32\<close> are words, so that \<open>+\<close> wraps as in the release profile; a \<open>GoTime\<close> is a
    number of nanoseconds; \<open>f64\<close> is a rational that is rounded after every operation (locale
    \<open>f64_rounding\<close>, interpreted on the rounding \<open>rnd53\<close>); \<open>BTreeMap\<close> is a sorted association list (locale
    \<open>ordered_map\<close>, interpretation \<open>bt\<close>); the logs of samples and events share the laws of a time-ordered
    log; walks of a tree share the induction over a stack of nodes.
  \<^item> \<open>Model_V1\<close>, \<open>Model_V2\<close> (\<open>cadvisor-model/src/v1\<close>, \<open>v2/mod.rs\<close>): the wire types as records with their
    defaults. \<open>Gotime\<close> (\<open>gotime.rs\<close>): the text of timestamps, read back by the reader of the tests, whose
    closed formula of days is shown to be the Gregorian calendar.
  \<^item> \<open>Host_Env\<close>, \<open>Host_Parse\<close>, \<open>Cgroup_Reader\<close>, \<open>Host_Fs\<close>, \<open>Machine\<close>, \<open>Watch\<close> (\<open>cadvisor-host/src\<close>): the parsers
    of procfs and sysfs, the cgroup reader, the filesystem service, the machine description and the
    watcher. The operating system is the record \<open>os\<close> of the answers of \<open>std::fs\<close>.
  \<^item> \<open>Wire\<close>, \<open>Wire_V1\<close>, \<open>Wire_V2\<close> (the serde attributes of \<open>cadvisor-model/src\<close>): the JSON form of the wire
    types, as trees; for each struct the keys and omission conditions of its fields, writer and reader.
    \<open>Golden\<close> (\<open>golden.rs\<close>): the comparison of the golden tests and what a passing test means.
  \<^item> \<open>Runtime\<close>, \<open>Runtime_Cell\<close>, \<open>Wire_Runtime\<close> (\<open>cadvisor-runtime/src\<close>, \<open>Manager::runtime_meta\<close> and
    \<open>containerd\<close>): container ids, environment variables, inspection and its retries, the cached connection
    to containerd, and the JSON answers of the runtimes.
  \<^item> \<open>Timed_Store\<close>, \<open>Derive\<close>, \<open>Manager_Sample\<close>, \<open>Event_Log\<close>, \<open>Housekeeping\<close>, \<open>Registry\<close>, \<open>Discovery\<close>,
    \<open>Manager_Start\<close>, \<open>Manager_Query\<close> (\<open>cadvisor-manager/src\<close>): the store, the derived rates, one sample,
    the events, the task of a container, the concurrent registry, the sweeps, the start and the queries.
  \<^item> \<open>Metrics_Encode\<close>, \<open>Metrics_Output\<close>, \<open>Metrics_Collect\<close>, \<open>Expo\<close>, \<open>Scrape\<close> (\<open>cadvisor-metrics/src\<close>,
    \<open>test/src/expo.rs\<close>): number and label encoding, the output buffer, what a scrape pushes, the strict
    reader of the tests, and the round trip of a whole scrape.
  \<^item> \<open>Api_Common\<close>, \<open>Api_V1\<close>, \<open>Api_V2\<close>, \<open>Api\<close> (\<open>cadvisor-api/src\<close>): responses and parameters, the handlers
    of the two API families, and the dispatch. \<open>Wire_Api\<close>: the same with serde in the place of the
    parameters for JSON.
  \<^item> \<open>Secure\<close>, \<open>Tls_Serve\<close>, \<open>Daemon\<close>, \<open>Server\<close> (\<open>cadvisor/src\<close>): watched files, certificates and tokens, the TLS
    acceptor and its accept loop, the arguments, and the daemon as a whole: startup, port, routes and
    authentication.
  \<^item> \<open>Manager_Tasks\<close> (\<open>Manager::start\<close>): the consumer of the watcher's channel, the refresh, the global sweep
    and the housekeeping tasks side by side, each with its place in its loop. \<open>Wire_Values\<close>, \<open>Wire_State\<close>: that
    every value the program builds, in every state it reaches, can be sent as JSON and read back.
  \<^item> \<open>Test_Base\<close>, \<open>Test_Host\<close>, \<open>Test_Manager\<close>, \<open>Test_Metrics\<close>, \<open>Test_Daemon\<close>, \<open>Test_Model\<close>,
    \<open>Test_Golden\<close>: the unit tests of the crates, with their fixtures, as truth values that the kernel
    evaluates over the definitions of the model. They are a check of the model: what the authors of the
    program expect of it, it does.

  \<^bold>\<open>State and interleavings.\<close> \<open>Registry\<close> holds the state that threads share. An \<open>action\<close> is a piece of an
  operation between two points where another thread may run; \<open>reachable\<close> are the states of all
  interleavings of the watcher's task, the sweep, the housekeeping tasks and the refresh of the machine
  info. The sweeps of \<open>Discovery\<close> and the consumer of \<open>Manager_Start\<close> are their undisturbed executions;
  \<open>Manager_Tasks\<close> has the tasks with their program counters and the channel, whose moves are such actions.

  \<^bold>\<open>What the properties show.\<close> Of the stores and logs: their contents after any sequence of insertions,
  their order and what a query returns. Of the readers: where each field of a sample comes from, and that
  printed files, ids, queries, numbers and timestamps are read back. Of the registry: uniqueness in all
  interleavings, the race that leaks a task, and its absence with one agent. Of discovery: termination
  on trees of finite depth, and that a sweep repairs the registry; the watcher announces, and the manager
  registers, exactly what a sweep would have found; the background tasks refine the interleavings of the
  registry and, once the tree stands still, come to rest with the registry in line with it. Of the exporter: label sets, disabled groups, number
  formatting and the round trip of a scrape. Of the API and the daemon: the error contract, what the
  routes answer and that in every reachable state its JSON is read back to the value it came from, who is let in, which
  certificate a handshake gets, and which containers a fresh daemon serves. Where the code does not do
  what it says, a lemma shows what it does instead.

  \<^bold>\<open>Loops.\<close> The walks of directories and cgroups are partial functions whose value is \<open>None\<close> when they do
  not end; the theorems prove that they end on every tree of finite depth. The other loops recurse on
  their input; no fuel is used. The retries of the runtimes are the three attempts of the code.

  \<^bold>\<open>Parameters,\<close> with what the theorems assume of them in their hypotheses: \<open>chrono\<close> (conversions of
  durations, the rendering of a whole second: \<open>stamp_ok\<close> and, of the times a run brings in, \<open>input_ok\<close> and
  \<open>request_ok\<close>; the reading of RFC 3339: \<open>rfc3339_ok\<close>), \<open>ryu\<close> (the shortest
  digits of a double), \<open>serde_json\<close> (in \<open>Api\<close> altogether as \<open>ae_to_vec\<close>, \<open>ae_from_slice\<close>, \<open>ae_time_of\<close>; in
  \<open>Wire_Api\<close> the parser and the printer of JSON text only), \<open>humantime\<close>, the inotify crate and the kernel's descriptors,
  statvfs and the directory tree, the HTTP and gRPC exchanges with the runtimes, rustls, and axum's
  decoding of a path. The iteration order of a \<open>HashMap\<close> is the order of the association list that
  stands for it; the properties hold for every order.

  \<^bold>\<open>Not modelled:\<close> JSON as text; clap; the tokio runtime, sleeping and the broadcast channel's delivery
  beyond its buffer; the plain listener and the connections of hyper and axum; log messages; the
  captured fixtures of the golden tests but the smallest three, which are data; the unit tests on the captured \<open>/proc/cpuinfo\<close>
  and the captured exposition, which are too large to evaluate, and those of the arguments, which test clap; the end-to-end tests and the deployment
  scripts, which drive the program from outside.
\<close>

end
